(* ===== verification/Taac_Prelude.thy ===== *)
theory Taac_Prelude
  imports Complex_Main "HOL-Library.AList"
begin

text \<open>
  The prelude of the development: the vocabulary every component theory shares.

  \<^item> Python's exceptions: the class hierarchy the runner's handlers depend on, exception
    values with nested groups, and \<open>isinstance\<close>;
  \<^item> results: a call that may raise is a value of the sum type \<open>py_exn + 'a\<close>
    (\<open>Inl\<close> the exception, \<open>Inr\<close> the returned value), with its bind, its guards
    (\<open>if cond: raise\<close>) and the loop that stops at the first raise;
  \<^item> dictionaries as association lists in insertion order;
  \<^item> decimal printing of integers and the string operations the code uses.

  An exception carries its class and its message. Where the source builds the message from
  run-time values that no handler reads, the model keeps the fixed part of the text only.
  Floating-point seconds are rationals: comparisons and copies are exact, rounding is not
  modelled.
\<close>

section \<open>Exceptions\<close>

text \<open>
  The exception classes the modelled code raises or tests for. \<open>UserExn\<close> stands for any
  further single-inheritance class (a library's or a test's own exception), so the hierarchy
  stays open, as Python's is.
\<close>

datatype exn_class =
    BaseException
  | KeyboardInterrupt
  | CancelledError
  | BaseExceptionGroup
  | ExceptionGroup
  | Exception
  | AssertionError
  | AttributeError
  | KeyError
  | IndexError
  | TypeError
  | ValueError
  | RuntimeError
  | NotImplementedError
  | OSError
  | TimeoutError
  | ConnectionError
  | SkipTest
  | TestCaseFailure
  | OSSException
  | OSSConfigError
  | OSSInfrastructureError
  | OSSTransientError
  | OSSTestbedError
  | OSSTestExecutionError
  | OSSSetupError
  | OSSTeardownError
  | OSSConnectionError
  | BaselineOperationTimeoutError
  | DeadlineExceeded
  | IncompleteCycleError
  | ChurnRunError
  | UserExn string exn_class

text \<open>
  The method resolution order of a class: the class and all its ancestors. \<open>ExceptionGroup\<close>
  is both a \<open>BaseExceptionGroup\<close> and an \<open>Exception\<close>; \<open>TimeoutError\<close> and
  \<open>ConnectionError\<close> are \<open>OSError\<close>s; \<open>asyncio.TimeoutError\<close> is \<open>TimeoutError\<close> and
  \<open>IOError\<close> is \<open>OSError\<close>, as in the Python 3.11 the sources need.
\<close>

fun mro :: "exn_class \<Rightarrow> exn_class list" where
  "mro BaseException = [BaseException]"
| "mro KeyboardInterrupt = [KeyboardInterrupt, BaseException]"
| "mro CancelledError = [CancelledError, BaseException]"
| "mro BaseExceptionGroup = [BaseExceptionGroup, BaseException]"
| "mro ExceptionGroup = [ExceptionGroup, BaseExceptionGroup, Exception, BaseException]"
| "mro Exception = [Exception, BaseException]"
| "mro KeyError = [KeyError, Exception, BaseException]"
| "mro NotImplementedError = [NotImplementedError, RuntimeError, Exception, BaseException]"
| "mro TimeoutError = [TimeoutError, OSError, Exception, BaseException]"
| "mro ConnectionError = [ConnectionError, OSError, Exception, BaseException]"
| "mro OSSConfigError = [OSSConfigError, OSSException, Exception, BaseException]"
| "mro OSSInfrastructureError = [OSSInfrastructureError, OSSException, Exception, BaseException]"
| "mro OSSTransientError = [OSSTransientError, OSSException, Exception, BaseException]"
| "mro OSSTestbedError = [OSSTestbedError, OSSException, Exception, BaseException]"
| "mro OSSTestExecutionError = [OSSTestExecutionError, OSSException, Exception, BaseException]"
| "mro OSSSetupError = [OSSSetupError, OSSException, Exception, BaseException]"
| "mro OSSTeardownError = [OSSTeardownError, OSSException, Exception, BaseException]"
| "mro OSSConnectionError = [OSSConnectionError, OSSException, Exception, BaseException]"
| "mro BaselineOperationTimeoutError =
     [BaselineOperationTimeoutError, TimeoutError, OSError, Exception, BaseException]"
| "mro DeadlineExceeded = [DeadlineExceeded, TimeoutError, OSError, Exception, BaseException]"
| "mro IncompleteCycleError = [IncompleteCycleError, RuntimeError, Exception, BaseException]"
| "mro ChurnRunError = [ChurnRunError, RuntimeError, Exception, BaseException]"
| "mro (UserExn n b) = UserExn n b # mro b"
| "mro c = [c, Exception, BaseException]"

text \<open>\<open>cls.__name__\<close>\<close>

fun exn_name :: "exn_class \<Rightarrow> string" where
  "exn_name BaseException = ''BaseException''"
| "exn_name KeyboardInterrupt = ''KeyboardInterrupt''"
| "exn_name CancelledError = ''CancelledError''"
| "exn_name BaseExceptionGroup = ''BaseExceptionGroup''"
| "exn_name ExceptionGroup = ''ExceptionGroup''"
| "exn_name Exception = ''Exception''"
| "exn_name AssertionError = ''AssertionError''"
| "exn_name AttributeError = ''AttributeError''"
| "exn_name KeyError = ''KeyError''"
| "exn_name IndexError = ''IndexError''"
| "exn_name TypeError = ''TypeError''"
| "exn_name ValueError = ''ValueError''"
| "exn_name RuntimeError = ''RuntimeError''"
| "exn_name NotImplementedError = ''NotImplementedError''"
| "exn_name OSError = ''OSError''"
| "exn_name TimeoutError = ''TimeoutError''"
| "exn_name ConnectionError = ''ConnectionError''"
| "exn_name SkipTest = ''SkipTest''"
| "exn_name TestCaseFailure = ''TestCaseFailure''"
| "exn_name OSSException = ''OSSException''"
| "exn_name OSSConfigError = ''OSSConfigError''"
| "exn_name OSSInfrastructureError = ''OSSInfrastructureError''"
| "exn_name OSSTransientError = ''OSSTransientError''"
| "exn_name OSSTestbedError = ''OSSTestbedError''"
| "exn_name OSSTestExecutionError = ''OSSTestExecutionError''"
| "exn_name OSSSetupError = ''OSSSetupError''"
| "exn_name OSSTeardownError = ''OSSTeardownError''"
| "exn_name OSSConnectionError = ''OSSConnectionError''"
| "exn_name BaselineOperationTimeoutError = ''BaselineOperationTimeoutError''"
| "exn_name DeadlineExceeded = ''DeadlineExceeded''"
| "exn_name IncompleteCycleError = ''IncompleteCycleError''"
| "exn_name ChurnRunError = ''ChurnRunError''"
| "exn_name (UserExn n b) = n"

definition is_subclass :: "exn_class \<Rightarrow> exn_class \<Rightarrow> bool" where
  "is_subclass c d \<longleftrightarrow> d \<in> set (mro c)"

text \<open>Exception values: a plain exception, or a group with its members.\<close>

datatype py_exn =
    Exn (exn_cls: exn_class) (exn_msg: string)
  | ExnGroup string (group_members: "py_exn list")

text \<open>
  \<open>BaseExceptionGroup(msg, errors)\<close> is created as an \<open>ExceptionGroup\<close> when every member
  is an \<open>Exception\<close>; the class of a group therefore depends on its members.
\<close>

fun exn_class_of :: "py_exn \<Rightarrow> exn_class" where
  "exn_class_of (Exn c m) = c"
| "exn_class_of (ExnGroup m es) =
     (if \<forall>c \<in> set (map exn_class_of es). is_subclass c Exception
      then ExceptionGroup else BaseExceptionGroup)"

definition isinstance :: "py_exn \<Rightarrow> exn_class \<Rightarrow> bool" where
  "isinstance e c \<longleftrightarrow> is_subclass (exn_class_of e) c"

definition isinstance_any :: "py_exn \<Rightarrow> exn_class list \<Rightarrow> bool" where
  "isinstance_any e cs \<longleftrightarrow> (\<exists>c \<in> set cs. isinstance e c)"

abbreviation value_error :: "string \<Rightarrow> py_exn" where
  "value_error m \<equiv> Exn ValueError m"

abbreviation runtime_error :: "string \<Rightarrow> py_exn" where
  "runtime_error m \<equiv> Exn RuntimeError m"

section \<open>Results\<close>

type_synonym 'a result = "py_exn + 'a"

fun rbind :: "'e + 'a \<Rightarrow> ('a \<Rightarrow> 'e + 'b) \<Rightarrow> 'e + 'b" where
  "rbind (Inl e) f = Inl e"
| "rbind (Inr a) f = f a"

text \<open>\<open>if bad: raise e\<close>\<close>

definition raise_if :: "bool \<Rightarrow> 'e \<Rightarrow> 'e + unit" where
  "raise_if b e = (if b then Inl e else Inr ())"

text \<open>A comprehension or loop whose body may raise: it stops at the first exception.\<close>

fun rmap :: "('a \<Rightarrow> 'e + 'b) \<Rightarrow> 'a list \<Rightarrow> 'e + 'b list" where
  "rmap f [] = Inr []"
| "rmap f (x # xs) = rbind (f x) (\<lambda>y. rbind (rmap f xs) (\<lambda>ys. Inr (y # ys)))"

fun rfold :: "('s \<Rightarrow> 'a \<Rightarrow> 'e + 's) \<Rightarrow> 's \<Rightarrow> 'a list \<Rightarrow> 'e + 's" where
  "rfold f s [] = Inr s"
| "rfold f s (x # xs) = rbind (f s x) (\<lambda>s'. rfold f s' xs)"

section \<open>Dictionaries\<close>

text \<open>
  A dictionary is an association list with distinct keys, kept in insertion order:
  \<open>dict_set\<close> overwrites in place or appends, as Python's \<open>d[k] = v\<close> does.
\<close>

type_synonym ('k, 'v) dict = "('k \<times> 'v) list"

abbreviation dict_get :: "('k, 'v) dict \<Rightarrow> 'k \<Rightarrow> 'v option" where
  "dict_get d k \<equiv> map_of d k"

abbreviation dict_set :: "'k \<Rightarrow> 'v \<Rightarrow> ('k, 'v) dict \<Rightarrow> ('k, 'v) dict" where
  "dict_set \<equiv> AList.update"

definition dict_keys :: "('k, 'v) dict \<Rightarrow> 'k list" where
  "dict_keys d = map fst d"

text \<open>\<open>d.get(k, default)\<close> and \<open>d[k]\<close>\<close>

definition dict_get_or :: "('k, 'v) dict \<Rightarrow> 'k \<Rightarrow> 'v \<Rightarrow> 'v" where
  "dict_get_or d k v = (case dict_get d k of None \<Rightarrow> v | Some x \<Rightarrow> x)"

definition dict_index :: "('k, 'v) dict \<Rightarrow> 'k \<Rightarrow> 'v result" where
  "dict_index d k = (case dict_get d k of None \<Rightarrow> Inl (Exn KeyError []) | Some x \<Rightarrow> Inr x)"

text \<open>
  \<open>d.setdefault(k, []).append(v)\<close>, and the same two levels deep, where a dictionary of
  dictionaries is read and written through a pair of keys.
\<close>

definition dict_append :: "'k \<Rightarrow> 'v \<Rightarrow> ('k, 'v list) dict \<Rightarrow> ('k, 'v list) dict" where
  "dict_append k v d = dict_set k (dict_get_or d k [] @ [v]) d"

definition nested_get :: "('a, ('b, 'v) dict) dict \<Rightarrow> 'a \<times> 'b \<Rightarrow> 'v option" where
  "nested_get d ab = dict_get (dict_get_or d (fst ab) []) (snd ab)"

definition nested_set :: "'a \<times> 'b \<Rightarrow> 'v \<Rightarrow> ('a, ('b, 'v) dict) dict \<Rightarrow> ('a, ('b, 'v) dict) dict" where
  "nested_set ab v d = dict_set (fst ab) (dict_set (snd ab) v (dict_get_or d (fst ab) [])) d"

section \<open>Integers and strings\<close>

text \<open>\<open>str(n)\<close> of an integer.\<close>

definition digit_char :: "nat \<Rightarrow> char" where
  "digit_char n = char_of (48 + n)"

fun show_nat :: "nat \<Rightarrow> string" where
  "show_nat n = (if n < 10 then [digit_char n] else show_nat (n div 10) @ [digit_char (n mod 10)])"

declare show_nat.simps [simp del]

definition show_int :: "int \<Rightarrow> string" where
  "show_int i = (if i < 0 then CHR ''-'' # show_nat (nat (- i)) else show_nat (nat i))"

text \<open>
  \<open>str(exc)\<close>: the message; a group adds the number of its members.
\<close>

fun exn_str :: "py_exn \<Rightarrow> string" where
  "exn_str (Exn c m) = m"
| "exn_str (ExnGroup m es) =
     m @ '' ('' @ show_nat (length es)
       @ (if length es > 1 then '' sub-exceptions)'' else '' sub-exception)'')"

text \<open>\<open>s.lower()\<close> on ASCII text.\<close>

definition lower_char :: "char \<Rightarrow> char" where
  "lower_char c = (let n = (of_char c :: nat) in if 65 \<le> n \<and> n \<le> 90 then char_of (n + 32) else c)"

definition lower :: "string \<Rightarrow> string" where
  "lower s = map lower_char s"

text \<open>\<open>needle in haystack\<close> for strings.\<close>

fun is_prefix_of :: "'a list \<Rightarrow> 'a list \<Rightarrow> bool" where
  "is_prefix_of [] ys = True"
| "is_prefix_of (x # xs) [] = False"
| "is_prefix_of (x # xs) (y # ys) = (x = y \<and> is_prefix_of xs ys)"

fun contains :: "'a list \<Rightarrow> 'a list \<Rightarrow> bool" where
  "contains needle [] = (needle = [])"
| "contains needle (y # ys) = (is_prefix_of needle (y # ys) \<or> contains needle ys)"

text \<open>\<open>sep.join(parts)\<close>\<close>

fun join :: "string \<Rightarrow> string list \<Rightarrow> string" where
  "join sep [] = []"
| "join sep [x] = x"
| "join sep (x # y # xs) = x @ sep @ join sep (y # xs)"

text \<open>
  \<open>f"{x:.2f}"\<close>: a number printed with \<open>k\<close> decimals, rounded half to even on its exact
  value; a negative number that rounds to zero keeps its sign, as Python's does.
\<close>

definition round_half_even :: "rat \<Rightarrow> int" where
  "round_half_even x =
     (let f = \<lfloor>x\<rfloor>; r = x - of_int f
      in if r < 1 / 2 then f else if r > 1 / 2 then f + 1 else if even f then f else f + 1)"

definition pad_left :: "nat \<Rightarrow> char \<Rightarrow> string \<Rightarrow> string" where
  "pad_left n c s = replicate (n - length s) c @ s"

definition fmt_fixed :: "nat \<Rightarrow> rat \<Rightarrow> string" where
  "fmt_fixed k x =
     (let n = nat (round_half_even (\<bar>x\<bar> * 10 ^ k))
      in (if x < 0 then ''-'' else []) @ show_nat (n div 10 ^ k)
         @ (if k = 0 then [] else ''.'' @ pad_left k (CHR ''0'') (show_nat (n mod 10 ^ k))))"

text \<open>\<open>s.strip()\<close> on ASCII text, and \<open>s.ljust(n)\<close>.\<close>

definition is_space :: "char \<Rightarrow> bool" where
  "is_space c \<longleftrightarrow>
     (let n = (of_char c :: nat) in (9 \<le> n \<and> n \<le> 13) \<or> (28 \<le> n \<and> n \<le> 32))"

definition strip :: "string \<Rightarrow> string" where
  "strip s = rev (dropWhile is_space (rev (dropWhile is_space s)))"

definition ljust :: "nat \<Rightarrow> string \<Rightarrow> string" where
  "ljust n s = s @ replicate (n - length s) (CHR '' '')"

text \<open>The newline character of the printed reports.\<close>

definition nl :: char where
  "nl = char_of (10 :: nat)"

section \<open>Dynamic values\<close>

text \<open>
  Values of parameter dictionaries and JSON documents, where the source's type is
  \<open>dict[str, Any]\<close>. Python's \<open>True == 1\<close> and \<open>1 == 1.0\<close> do not matter to the code
  modelled here: it never compares two dynamic values with each other.
\<close>

datatype pyval =
    VNone
  | VBool bool
  | VInt int
  | VFloat rat
  | VStr string
  | VList "pyval list"
  | VDict "(string \<times> pyval) list"

abbreviation opt_str :: "string option \<Rightarrow> pyval" where
  "opt_str x \<equiv> (case x of None \<Rightarrow> VNone | Some s \<Rightarrow> VStr s)"

section \<open>Shared lemmas\<close>

named_theorems result_simps \<open>rewriting results, guards and loops that may raise\<close>
named_theorems exn_simps \<open>deciding isinstance for concrete exception classes\<close>

lemma rbind_eq_Inr [result_simps]:
  "rbind m f = Inr b \<longleftrightarrow> (\<exists>a. m = Inr a \<and> f a = Inr b)"
  by (cases m) auto

lemma rbind_eq_Inl [result_simps]:
  "rbind m f = Inl e \<longleftrightarrow> m = Inl e \<or> (\<exists>a. m = Inr a \<and> f a = Inl e)"
  by (cases m) auto

lemma rbind_assoc: "rbind (rbind m f) g = rbind m (\<lambda>x. rbind (f x) g)"
  by (cases m) auto

lemma raise_if_Inr [result_simps]: "raise_if b e = Inr u \<longleftrightarrow> \<not> b"
  by (simp add: raise_if_def)

lemma raise_if_Inl [result_simps]: "raise_if b e = Inl e' \<longleftrightarrow> b \<and> e' = e"
  by (auto simp: raise_if_def)

lemma raise_if_simps [simp]: "raise_if True e = Inl e" "raise_if False e = Inr ()"
  by (simp_all add: raise_if_def)

lemma rmap_all_Inr: "(\<And>x. x \<in> set xs \<Longrightarrow> f x = Inr (g x)) \<Longrightarrow> rmap f xs = Inr (map g xs)"
  by (induction xs) auto

lemma rmap_Inr_iff [result_simps]:
  "rmap f xs = Inr ys \<longleftrightarrow> list_all2 (\<lambda>x y. f x = Inr y) xs ys"
proof (induction xs arbitrary: ys)
  case Nil
  show ?case by auto
next
  case (Cons x xs)
  show ?case by (cases ys) (auto simp: Cons.IH rbind_eq_Inr)
qed

lemma dict_get_set [simp]:
  "dict_get (dict_set k v d) k' = (if k' = k then Some v else dict_get d k')"
  by (simp add: update_conv')

lemma dict_keys_set:
  "dict_keys (dict_set k v d) = (if k \<in> set (dict_keys d) then dict_keys d else dict_keys d @ [k])"
  by (induction d) (auto simp: dict_keys_def)

lemma distinct_dict_set: "distinct (dict_keys d) \<Longrightarrow> distinct (dict_keys (dict_set k v d))"
  by (auto simp: dict_keys_set)

lemma dict_set_new: "k \<notin> fst ` set d \<Longrightarrow> dict_set k v d = d @ [(k, v)]"
  by (induction d) auto

lemma fold_new_entries:
  assumes "distinct (map key xs)"
  shows "foldl (\<lambda>d x. dict_set (key x) (val x) d) [] xs = map (\<lambda>x. (key x, val x)) xs"
  using assms by (induction xs rule: rev_induct) (auto simp: dict_set_new image_image)

lemma is_subclass_refl [simp]: "is_subclass c c"
  by (cases c) (simp_all add: is_subclass_def)

lemma mro_BaseException: "BaseException \<in> set (mro c)"
  by (induction c) simp_all

lemma isinstance_BaseException [simp]: "isinstance e BaseException"
  by (simp add: isinstance_def is_subclass_def mro_BaseException)

lemma isinstance_Exn [exn_simps]: "isinstance (Exn c m) d \<longleftrightarrow> d \<in> set (mro c)"
  by (simp add: isinstance_def is_subclass_def)

lemma is_subclass_UserExn [simp]:
  "is_subclass (UserExn n b) d \<longleftrightarrow> d = UserExn n b \<or> is_subclass b d"
  by (simp add: is_subclass_def)

lemma is_prefix_of_iff: "is_prefix_of xs ys \<longleftrightarrow> (\<exists>zs. ys = xs @ zs)"
  by (induction xs ys rule: is_prefix_of.induct) auto

lemma contains_iff: "contains xs ys \<longleftrightarrow> (\<exists>us vs. ys = us @ xs @ vs)"
proof (induction ys)
  case Nil
  show ?case by auto
next
  case (Cons y ys)
  have "(\<exists>us vs. y # ys = us @ xs @ vs) \<longleftrightarrow>
      (\<exists>vs. y # ys = xs @ vs) \<or> (\<exists>us vs. ys = us @ xs @ vs)"
    by (metis append_Cons append_Nil list.distinct(1) list.exhaust list.inject)
  then show ?case by (simp add: Cons.IH is_prefix_of_iff)
qed

lemma show_nat_digits: "c \<in> set (show_nat n) \<Longrightarrow> \<exists>d < 10. c = digit_char d"
proof (induction n rule: show_nat.induct)
  case (1 n)
  then show ?case
    by (subst (asm) (2) show_nat.simps) (auto split: if_splits intro: exI [of _ "n mod 10"])
qed

lemma int_div_less: "0 < d \<Longrightarrow> x < n * d \<Longrightarrow> x div d < (n :: int)"
proof (rule ccontr)
  assume d: "0 < d" and x: "x < n * d" and "\<not> x div d < n"
  then have "n * d \<le> x div d * d" by (intro mult_right_mono) auto
  also have "\<dots> \<le> x" using d by (simp add: minus_mod_eq_div_mult [symmetric])
  finally show False using x by simp
qed

section \<open>Tables\<close>

text \<open>
  The contract of a table of lists: what a lookup returns after an insertion. Grouping items by
  key, the loop \<open>table.setdefault(key, []).append(value)\<close>, is proved once for every table.
\<close>

locale lookup_table =
  fixes get :: "'d \<Rightarrow> 'k \<Rightarrow> 'v list option"
    and put :: "'k \<Rightarrow> 'v list \<Rightarrow> 'd \<Rightarrow> 'd"
  assumes get_put: "get (put k v d) k' = (if k' = k then Some v else get d k')"
begin

definition entry :: "'d \<Rightarrow> 'k \<Rightarrow> 'v list" where
  "entry d k = (case get d k of None \<Rightarrow> [] | Some xs \<Rightarrow> xs)"

definition add :: "'d \<Rightarrow> 'k \<times> 'v \<Rightarrow> 'd" where
  "add d kv = put (fst kv) (entry d (fst kv) @ [snd kv]) d"

lemma entry_add: "entry (add d kv) k = entry d k @ (if fst kv = k then [snd kv] else [])"
  by (simp add: entry_def add_def get_put)

lemma entry_group: "entry (foldl add d kvs) k = entry d k @ map snd (filter (\<lambda>kv. fst kv = k) kvs)"
  by (induction kvs arbitrary: d) (auto simp: entry_add)

lemma group_present: "get (foldl add d kvs) k = None \<longleftrightarrow> get d k = None \<and> k \<notin> fst ` set kvs"
  by (induction kvs arbitrary: d) (auto simp: add_def get_put split: if_splits)

end

interpretation dict: lookup_table "\<lambda>d :: ('k, 'v list) dict. dict_get d" dict_set
  by unfold_locales simp

lemma dict_get_or_set:
  "dict_get_or (dict_set k v d) k' w = (if k' = k then v else dict_get_or d k' w)"
  by (simp add: dict_get_or_def)

interpretation nested: lookup_table "nested_get :: ('a, ('b, 'v list) dict) dict \<Rightarrow> _" nested_set
  by unfold_locales (auto simp: nested_get_def nested_set_def dict_get_or_set)

lemma dict_add_append: "dict.add d (k, v) = dict_append k v d"
  by (simp add: dict.add_def dict.entry_def dict_append_def dict_get_or_def)

lemma dict_entry_get_or: "dict.entry d k = dict_get_or d k []"
  by (simp add: dict.entry_def dict_get_or_def)

end
