(* ===== verification/Churn_Runner.thy ===== *)
theory Churn_Runner
  imports Taac_Prelude
begin

text \<open>
  The bounded churn runner (\<open>abstractions/churn/runner.py\<close>) with its specifications, policies,
  deadlines and outcomes (\<open>specs.py\<close>, \<open>policies.py\<close>, \<open>context.py\<close>,
  \<open>result.py\<close>, \<open>selectors.py\<close>): prepare, capture a baseline, run one cycle per family
  within its share of the window, always recover, and report.

  The action it drives is a protocol of the source (\<open>action.py\<close>): a record of operations over
  a world \<open>'w\<close>, together with the clock and with whether the work timeout has expired. As
  elsewhere, \<open>asyncio.timeout\<close> turns the cancellation it caused into \<open>TimeoutError\<close>.
  Notes, causes and the printed form of errors are not modelled.
\<close>

section \<open>Policies and specifications\<close>

datatype SettleMode = SETTLE_NONE | FIXED_DURATION | UNTIL_CONVERGED | FIXED_THEN_CONVERGED

record PreparationPolicy =
  initial_resolution_timeout_seconds :: rat
  baseline_capture_timeout_seconds :: rat
  prep_total_timeout_seconds :: rat

record ExecutionPolicy =
  duration_seconds :: rat
  cadence_seconds :: rat
  max_iterations :: int

record RecoveryPolicy =
  rec_total_timeout_seconds :: rat
  restore_observation_timeout_seconds :: rat
  ixia_restore_timeout_seconds :: rat
  cancellation_grace_seconds :: rat

record SettleCondition =
  sc_name :: string
  sc_observation_timeout_seconds :: rat

record SettlePolicy =
  settle_mode :: SettleMode
  fixed_duration_seconds :: rat
  settle_conditions :: "SettleCondition list"
  convergence_timeout_seconds :: rat
  poll_interval_seconds :: rat
  stable_window_seconds :: rat
  max_consecutive_observation_errors :: int

definition default_ExecutionPolicy :: ExecutionPolicy where
  "default_ExecutionPolicy = \<lparr>duration_seconds = 3600, cadence_seconds = 60, max_iterations = 100000\<rparr>"

definition default_RecoveryPolicy :: RecoveryPolicy where
  "default_RecoveryPolicy = \<lparr>rec_total_timeout_seconds = 720, restore_observation_timeout_seconds = 400,
     ixia_restore_timeout_seconds = 120, cancellation_grace_seconds = 10\<rparr>"

definition default_SettlePolicy :: SettlePolicy where
  "default_SettlePolicy = \<lparr>settle_mode = SETTLE_NONE, fixed_duration_seconds = 0, settle_conditions = [],
     convergence_timeout_seconds = 0, poll_interval_seconds = 10, stable_window_seconds = 0,
     max_consecutive_observation_errors = 3\<rparr>"

text \<open>A family is known to the runner by its name; attribute families also carry their phases.\<close>

record ChurnFamily =
  family_name :: string
  family_phases :: "(string \<times> pyval) list option"

record ChurnWorkload =
  families :: "ChurnFamily list"

definition mk_ChurnWorkload :: "ChurnFamily list \<Rightarrow> ChurnWorkload result" where
  "mk_ChurnWorkload fs =
     (if fs = [] then Inl (value_error ''a churn workload requires at least one family'')
      else Inr \<lparr>families = fs\<rparr>)"

definition family_count :: "ChurnWorkload \<Rightarrow> nat" where
  "family_count w = length (families w)"

record ChurnScenario =
  scenario_id :: string
  workload :: ChurnWorkload
  preparation :: PreparationPolicy
  execution :: ExecutionPolicy
  recovery :: RecoveryPolicy
  pre_churn_settle :: SettlePolicy
  post_churn_settle :: SettlePolicy

record UniformRowSelection =
  rows_per_pool :: int

definition mk_UniformRowSelection :: "int \<Rightarrow> UniformRowSelection result" where
  "mk_UniformRowSelection n =
     (if n \<le> 0 then Inl (value_error ''rows_per_pool must be positive'') else Inr \<lparr>rows_per_pool = n\<rparr>)"

record TargetSelection =
  targets :: "(string \<times> string) list"
  row_selection :: UniformRowSelection

section \<open>Deadlines\<close>

record Deadline =
  dl_phase :: string
  dl_expires :: rat

text \<open>\<open>remaining\<close>; \<open>now\<close> is the monotonic clock.\<close>

definition deadline_remaining :: "rat \<Rightarrow> Deadline \<Rightarrow> rat \<Rightarrow> rat result" where
  "deadline_remaining now d maximum =
     (let left = dl_expires d - now
      in if left \<le> 0 then Inl (Exn DeadlineExceeded (dl_phase d @ '': no deadline budget remains''))
         else Inr (min maximum left))"

definition ensure_remaining :: "rat \<Rightarrow> Deadline \<Rightarrow> rat \<Rightarrow> unit result" where
  "ensure_remaining now d maximum = rbind (deadline_remaining now d maximum) (\<lambda>_. Inr ())"

section \<open>Outcomes\<close>

datatype CycleState = COMPLETED | INCOMPLETE | CYCLE_FAILED

fun cycle_state_value :: "CycleState \<Rightarrow> string" where
  "cycle_state_value COMPLETED = ''completed''"
| "cycle_state_value INCOMPLETE = ''incomplete''"
| "cycle_state_value CYCLE_FAILED = ''failed''"

datatype CleanupState = NOT_REQUIRED | RESTORED | UNVERIFIED | QUARANTINED

record BaselineSummary =
  target_count :: int
  sampled_prefix_count :: int

type_synonym EvidenceRefs = "(string \<times> string) list"

record CycleOutcome =
  co_name :: string
  co_state :: CycleState
  co_completed_iterations :: int
  co_evidence :: EvidenceRefs

record CleanupDisposition =
  cleanup_state :: CleanupState
  baseline_captured :: bool
  mutation_attempted :: bool
  cleanup_reason :: "string option"

record ExecutionWindow =
  started_at :: rat
  deadline_at :: rat
  family_budget :: rat

record RecoveryOutcome =
  ro_error :: "py_exn option"
  ro_cancellation :: "py_exn option"

record ChurnRunOutcome =
  oc_baseline :: "BaselineSummary option"
  oc_cycles :: "CycleOutcome list"
  oc_cleanup :: CleanupDisposition
  oc_evidence :: EvidenceRefs
  oc_window :: "ExecutionWindow option"
  oc_primary_error :: "py_exn option"
  oc_recovery_error :: "py_exn option"
  oc_cleanup_cancellation :: "py_exn option"

section \<open>The action\<close>

record 'w ChurnAction =
  act_validate_precondition :: "Deadline \<Rightarrow> 'w \<Rightarrow> unit result \<times> 'w"
  act_capture_baseline :: "Deadline \<Rightarrow> 'w \<Rightarrow> BaselineSummary result \<times> 'w"
  act_begin_execution :: "ExecutionWindow \<Rightarrow> 'w \<Rightarrow> unit result \<times> 'w"
  act_run_cycle :: "Deadline \<Rightarrow> 'w \<Rightarrow> CycleOutcome result \<times> 'w"
  act_recover :: "Deadline \<Rightarrow> 'w \<Rightarrow> RecoveryOutcome result \<times> 'w"
  act_cleanup_disposition :: "'w \<Rightarrow> CleanupDisposition result"
  act_collect_evidence :: "'w \<Rightarrow> EvidenceRefs result"
  act_monotonic :: "'w \<Rightarrow> rat"
  act_work_expired :: "'w \<Rightarrow> bool"

section \<open>The runner\<close>

definition zero_division :: py_exn where
  "zero_division = Exn (UserExn ''ZeroDivisionError'' (UserExn ''ArithmeticError'' Exception)) ''division by zero''"

definition execution_window :: "ChurnScenario \<Rightarrow> rat \<Rightarrow> ExecutionWindow result" where
  "execution_window scenario started =
     (let duration = duration_seconds (execution scenario);
          n = family_count (workload scenario)
      in if duration \<le> 0 then Inl (value_error ''execution duration must be positive'')
         else if n = 0 then Inl zero_division
         else Inr \<lparr>started_at = started, deadline_at = started + duration,
                   family_budget = duration / of_nat n\<rparr>)"

definition family_deadline :: "ExecutionWindow \<Rightarrow> nat \<Rightarrow> rat" where
  "family_deadline window index =
     min (deadline_at window) (started_at window + family_budget window * (of_nat index + 1))"

fun run_cycles_into ::
    "'w ChurnAction \<Rightarrow> ExecutionWindow \<Rightarrow> nat \<Rightarrow> ChurnFamily list \<Rightarrow> CycleOutcome list \<Rightarrow> 'w
     \<Rightarrow> py_exn option \<times> CycleOutcome list \<times> 'w" where
  "run_cycles_into action window index [] outcomes w = (None, outcomes, w)"
| "run_cycles_into action window index (family # fs) outcomes w =
     (case act_run_cycle action \<lparr>dl_phase = ''execution.'' @ family_name family,
                                 dl_expires = family_deadline window index\<rparr> w of
        (Inl e, w') \<Rightarrow> (Some e, outcomes, w')
      | (Inr outcome, w') \<Rightarrow>
          if co_state outcome \<noteq> COMPLETED then (None, outcomes @ [outcome], w')
          else run_cycles_into action window (Suc index) fs (outcomes @ [outcome]) w')"

definition run_cycles ::
    "'w ChurnAction \<Rightarrow> ChurnWorkload \<Rightarrow> ExecutionWindow \<Rightarrow> 'w \<Rightarrow> CycleOutcome list result \<times> 'w" where
  "run_cycles action wl window w =
     (case run_cycles_into action window 0 (families wl) [] w of
        (Some e, _, w') \<Rightarrow> (Inl e, w')
      | (None, outcomes, w') \<Rightarrow> (Inr outcomes, w'))"

text \<open>The body of the \<open>async with\<close> block: what it raised, and what it had set by then.\<close>

record work_state =
  wk_error :: "py_exn option"
  wk_baseline :: "BaselineSummary option"
  wk_window :: "ExecutionWindow option"
  wk_cycles :: "CycleOutcome list"

definition incomplete_error :: "CycleOutcome list \<Rightarrow> py_exn option" where
  "incomplete_error cycles =
     map_option (\<lambda>c. Exn IncompleteCycleError
         (''cycle '' @ co_name c @ '' ended in '' @ cycle_state_value (co_state c)))
       (find (\<lambda>c. co_state c \<noteq> COMPLETED) cycles)"

definition work :: "'w ChurnAction \<Rightarrow> ChurnScenario \<Rightarrow> 'w \<Rightarrow> work_state \<times> 'w" where
  "work action scenario w =
     (let none = \<lparr>wk_error = None, wk_baseline = None, wk_window = None, wk_cycles = []\<rparr>;
          dl = \<lparr>dl_phase = ''preparation'',
                dl_expires = act_monotonic action w + prep_total_timeout_seconds (preparation scenario)\<rparr>
      in case act_validate_precondition action dl w of
           (Inl e, w1) \<Rightarrow> (none\<lparr>wk_error := Some e\<rparr>, w1)
         | (Inr _, w1) \<Rightarrow>
             (case act_capture_baseline action dl w1 of
                (Inl e, w2) \<Rightarrow> (none\<lparr>wk_error := Some e\<rparr>, w2)
              | (Inr baseline, w2) \<Rightarrow>
                  (case execution_window scenario (act_monotonic action w2) of
                     Inl e \<Rightarrow> (none\<lparr>wk_error := Some e, wk_baseline := Some baseline\<rparr>, w2)
                   | Inr window \<Rightarrow>
                       (let base = none\<lparr>wk_baseline := Some baseline, wk_window := Some window\<rparr>
                        in case act_begin_execution action window w2 of
                             (Inl e, w3) \<Rightarrow> (base\<lparr>wk_error := Some e\<rparr>, w3)
                           | (Inr _, w3) \<Rightarrow>
                               (case run_cycles_into action window 0 (families (workload scenario)) [] w3 of
                                  (Some e, cycles, w4) \<Rightarrow> (base\<lparr>wk_error := Some e, wk_cycles := cycles\<rparr>, w4)
                                | (None, cycles, w4) \<Rightarrow>
                                    (base\<lparr>wk_error := incomplete_error cycles, wk_cycles := cycles\<rparr>, w4))))))"

text \<open>
  What the handlers make of the exception: the primary error, or the exception itself when no
  handler takes it.
\<close>

definition leave_timeout :: "bool \<Rightarrow> py_exn \<Rightarrow> py_exn" where
  "leave_timeout expired e = (if isinstance e CancelledError \<and> expired then Exn TimeoutError [] else e)"

definition primary_of :: "bool \<Rightarrow> py_exn option \<Rightarrow> py_exn option result" where
  "primary_of expired error =
     (case map_option (leave_timeout expired) error of
        None \<Rightarrow> Inr None
      | Some e \<Rightarrow>
          if isinstance e TimeoutError
          then Inr (Some (if expired then Exn TimeoutError ''churn work deadline exceeded'' else e))
          else if isinstance e Exception \<or> isinstance e CancelledError then Inr (Some e)
          else Inl e)"

definition recover :: "'w ChurnAction \<Rightarrow> Deadline \<Rightarrow> 'w \<Rightarrow> RecoveryOutcome result \<times> 'w" where
  "recover action dl w =
     (case act_recover action dl w of
        (Inr r, w') \<Rightarrow> (Inr r, w')
      | (Inl e, w') \<Rightarrow>
          if isinstance e CancelledError then (Inr \<lparr>ro_error = None, ro_cancellation = Some e\<rparr>, w')
          else if isinstance e Exception then (Inr \<lparr>ro_error = Some e, ro_cancellation = None\<rparr>, w')
          else (Inl e, w'))"

definition is_cancellation :: "py_exn option \<Rightarrow> bool" where
  "is_cancellation x = (case x of Some e \<Rightarrow> isinstance e CancelledError | None \<Rightarrow> False)"

definition raise_failures :: "py_exn option \<Rightarrow> py_exn option \<Rightarrow> py_exn option \<Rightarrow> unit result" where
  "raise_failures primary recovery_error cancellation =
     (case find is_cancellation [primary, cancellation, recovery_error] of
        Some (Some e) \<Rightarrow> Inl e
      | _ \<Rightarrow>
          if primary \<noteq> None \<or> recovery_error \<noteq> None then Inl (Exn ChurnRunError ''churn failed'')
          else Inr ())"

text \<open>
  \<open>run\<close>: its result, the \<open>last_outcome\<close> it leaves, and the world.
\<close>

definition run ::
    "'w ChurnAction \<Rightarrow> ChurnScenario \<Rightarrow> 'w
     \<Rightarrow> ChurnRunOutcome result \<times> ChurnRunOutcome option \<times> 'w" where
  "run action scenario w =
     (case work action scenario w of
        (wk, w1) \<Rightarrow>
          (case primary_of (act_work_expired action w1) (wk_error wk) of
             Inl e \<Rightarrow> (Inl e, None, w1)
           | Inr primary0 \<Rightarrow>
               (case recover action \<lparr>dl_phase = ''recovery'', dl_expires = act_monotonic action w1
                                       + rec_total_timeout_seconds (recovery scenario)\<rparr> w1 of
                  (Inl e, w2) \<Rightarrow> (Inl e, None, w2)
                | (Inr rec, w2) \<Rightarrow>
                    (let primary = (if wk_baseline wk = None \<and> primary0 = None
                                    then Some (runtime_error ''baseline capture did not complete'')
                                    else primary0)
                     in case act_cleanup_disposition action w2 of
                          Inl e \<Rightarrow> (Inl e, None, w2)
                        | Inr cleanup \<Rightarrow>
                            (case act_collect_evidence action w2 of
                               Inl e \<Rightarrow> (Inl e, None, w2)
                             | Inr evidence \<Rightarrow>
                                 (let outcome =
                                        \<lparr>oc_baseline = wk_baseline wk, oc_cycles = wk_cycles wk,
                                         oc_cleanup = cleanup, oc_evidence = evidence,
                                         oc_window = wk_window wk, oc_primary_error = primary,
                                         oc_recovery_error = ro_error rec,
                                         oc_cleanup_cancellation = ro_cancellation rec\<rparr>
                                  in case raise_failures primary (ro_error rec) (ro_cancellation rec) of
                                       Inl e \<Rightarrow> (Inl e, Some outcome, w2)
                                     | Inr _ \<Rightarrow> (Inr outcome, Some outcome, w2)))))))"

text \<open>An action for the witnesses: every cycle completes; recovering does what it is told.\<close>

definition demo_action :: "RecoveryOutcome result \<Rightarrow> nat ChurnAction" where
  "demo_action rec =
     \<lparr>act_validate_precondition = (\<lambda>d n. (Inr (), n)),
      act_capture_baseline = (\<lambda>d n. (Inr \<lparr>target_count = 1, sampled_prefix_count = 1\<rparr>, n)),
      act_begin_execution = (\<lambda>win n. (Inr (), n)),
      act_run_cycle = (\<lambda>d n. (Inr \<lparr>co_name = dl_phase d, co_state = COMPLETED, co_completed_iterations = 1,
                                      co_evidence = []\<rparr>, Suc n)),
      act_recover = (\<lambda>d n. (rec, n)),
      act_cleanup_disposition = (\<lambda>n. Inr \<lparr>cleanup_state = RESTORED, baseline_captured = True,
                                          mutation_attempted = True, cleanup_reason = None\<rparr>),
      act_collect_evidence = (\<lambda>n. Inr []),
      act_monotonic = of_nat,
      act_work_expired = (\<lambda>n. False)\<rparr>"

definition demo_scenario :: ChurnScenario where
  "demo_scenario =
     \<lparr>scenario_id = ''s'', workload = \<lparr>families = [\<lparr>family_name = ''a'', family_phases = None\<rparr>,
         \<lparr>family_name = ''b'', family_phases = None\<rparr>]\<rparr>,
      preparation = \<lparr>initial_resolution_timeout_seconds = 1, baseline_capture_timeout_seconds = 1,
         prep_total_timeout_seconds = 10\<rparr>,
      execution = default_ExecutionPolicy, recovery = default_RecoveryPolicy,
      pre_churn_settle = default_SettlePolicy, post_churn_settle = default_SettlePolicy\<rparr>"

lemmas churn_eval = run_def work_def execution_window_def demo_action_def demo_scenario_def
  default_ExecutionPolicy_def family_count_def incomplete_error_def primary_of_def recover_def
  raise_failures_def is_cancellation_def Let_def

section \<open>Lemmas\<close>

lemma run_cycles_prefix:
  "run_cycles_into action window i fs outcomes w = (e, outcomes', w') \<Longrightarrow>
     \<exists>new. outcomes' = outcomes @ new \<and> length new \<le> length fs
       \<and> list_all (\<lambda>c. co_state c = COMPLETED) (butlast new)
       \<and> (e = None \<longrightarrow> list_all (\<lambda>c. co_state c = COMPLETED) new \<longrightarrow> length new = length fs)"
proof (induction fs arbitrary: i outcomes w)
  case Nil
  then show ?case by simp
next
  case (Cons f fs)
  obtain r w1 where r: "act_run_cycle action \<lparr>dl_phase = ''execution.'' @ family_name f,
      dl_expires = family_deadline window i\<rparr> w = (r, w1)" by fastforce
  show ?case
  proof (cases r)
    case (Inl x)
    with Cons.prems r show ?thesis by auto
  next
    case (Inr o1)
    show ?thesis
    proof (cases "co_state o1 = COMPLETED")
      case False
      with Cons.prems r Inr show ?thesis by (auto intro!: exI [of _ "[o1]"])
    next
      case True
      with Cons.prems r Inr
      have "run_cycles_into action window (Suc i) fs (outcomes @ [o1]) w1 = (e, outcomes', w')" by simp
      from Cons.IH [OF this] obtain new where "outcomes' = (outcomes @ [o1]) @ new"
        "length new \<le> length fs" "list_all (\<lambda>c. co_state c = COMPLETED) (butlast new)"
        "e = None \<longrightarrow> list_all (\<lambda>c. co_state c = COMPLETED) new \<longrightarrow> length new = length fs" by blast
      with True show ?thesis by (intro exI [of _ "o1 # new"]) auto
    qed
  qed
qed

lemma incomplete_error_None: "incomplete_error cs = None \<longleftrightarrow> list_all (\<lambda>c. co_state c = COMPLETED) cs"
  by (auto simp: incomplete_error_def find_None_iff list_all_iff)

lemma work_cycles:
  "work action scenario w = (wk, w') \<Longrightarrow>
     length (wk_cycles wk) \<le> length (families (workload scenario))
     \<and> list_all (\<lambda>c. co_state c = COMPLETED) (butlast (wk_cycles wk))
     \<and> (wk_error wk = None \<longrightarrow>
          wk_baseline wk \<noteq> None \<and> wk_window wk \<noteq> None
          \<and> length (wk_cycles wk) = length (families (workload scenario))
          \<and> list_all (\<lambda>c. co_state c = COMPLETED) (wk_cycles wk))"
  by (auto simp: work_def Let_def incomplete_error_None
      split: prod.splits sum.splits option.splits dest!: run_cycles_prefix)

lemma primary_of_None: "primary_of expired error = Inr None \<longleftrightarrow> error = None"
  by (cases error) (auto simp: primary_of_def)

lemma raise_failures_Inr:
  "raise_failures p r c = Inr u \<longleftrightarrow> p = None \<and> r = None \<and> \<not> is_cancellation c"
  by (auto simp: raise_failures_def is_cancellation_def split: option.splits)

lemma raise_failures_Inl:
  "raise_failures p r c = Inl e \<Longrightarrow> isinstance e CancelledError \<or> isinstance e ChurnRunError"
  by (auto simp: raise_failures_def is_cancellation_def isinstance_Exn split: option.splits if_splits)

text \<open>Where the outcome of a run comes from.\<close>

lemma run_outcome:
  assumes "run action scenario w = (r, Some outcome, w')" "work action scenario w = (wk, w1)"
  shows "\<exists>p. primary_of (act_work_expired action w1) (wk_error wk) = Inr p
     \<and> oc_primary_error outcome = (if wk_baseline wk = None \<and> p = None
          then Some (runtime_error ''baseline capture did not complete'') else p)
     \<and> oc_baseline outcome = wk_baseline wk \<and> oc_window outcome = wk_window wk
     \<and> oc_cycles outcome = wk_cycles wk
     \<and> raise_failures (oc_primary_error outcome) (oc_recovery_error outcome)
          (oc_cleanup_cancellation outcome) = map_sum id (\<lambda>_. ()) r"
proof -
  define dl where "dl = \<lparr>dl_phase = ''recovery'', dl_expires = act_monotonic action w1
      + rec_total_timeout_seconds (recovery scenario)\<rparr>"
  note r = assms(1) [unfolded run_def assms(2) prod.case Let_def dl_def [symmetric]]
  obtain p where p: "primary_of (act_work_expired action w1) (wk_error wk) = Inr p"
    using r by (cases "primary_of (act_work_expired action w1) (wk_error wk)") auto
  obtain rec w2 where rec: "recover action dl w1 = (Inr rec, w2)"
    using r p by (cases "recover action dl w1"; cases "fst (recover action dl w1)") auto
  obtain cleanup where cl: "act_cleanup_disposition action w2 = Inr cleanup"
    using r p rec by (cases "act_cleanup_disposition action w2") auto
  obtain evidence where ev: "act_collect_evidence action w2 = Inr evidence"
    using r p rec cl by (cases "act_collect_evidence action w2") auto
  show ?thesis using r by (simp add: p rec cl ev split: sum.splits) auto
qed

lemma run_Inr: "run action scenario w = (Inr outcome, l, w') \<Longrightarrow> l = Some outcome"
  by (auto simp: run_def Let_def split: prod.splits sum.splits)

section \<open>Properties\<close>

text \<open>
  C3. A churn run that returns did all of its work: the baseline was captured, every family of the
  workload ran one cycle and every cycle completed, and neither the work nor the recovery
  reported an error or a cancellation.
\<close>

theorem run_returns_complete:
  assumes "run action scenario w = (Inr outcome, last_outcome, w')"
  shows "last_outcome = Some outcome \<and> oc_baseline outcome \<noteq> None \<and> oc_window outcome \<noteq> None
     \<and> length (oc_cycles outcome) = family_count (workload scenario)
     \<and> list_all (\<lambda>c. co_state c = COMPLETED) (oc_cycles outcome)
     \<and> oc_primary_error outcome = None \<and> oc_recovery_error outcome = None
     \<and> \<not> is_cancellation (oc_cleanup_cancellation outcome)"
proof -
  obtain wk w1 where wk: "work action scenario w = (wk, w1)" by fastforce
  note last = run_Inr [OF assms]
  from run_outcome [OF assms [unfolded last] wk] obtain p where
    p: "primary_of (act_work_expired action w1) (wk_error wk) = Inr p" and
    oc: "oc_primary_error outcome = (if wk_baseline wk = None \<and> p = None
          then Some (runtime_error ''baseline capture did not complete'') else p)"
      "oc_baseline outcome = wk_baseline wk" "oc_window outcome = wk_window wk"
      "oc_cycles outcome = wk_cycles wk" and
    rf: "raise_failures (oc_primary_error outcome) (oc_recovery_error outcome)
          (oc_cleanup_cancellation outcome) = Inr ()"
    by auto
  from oc(1) rf have "p = None" by (simp add: raise_failures_Inr split: if_splits)
  with p have "wk_error wk = None" by (simp add: primary_of_None)
  with work_cycles [OF wk] oc rf last show ?thesis by (simp add: family_count_def raise_failures_Inr)
qed

theorem run_returns_complete_witness:
  "\<exists>outcome w'. run (demo_action (Inr \<lparr>ro_error = None, ro_cancellation = None\<rparr>)) demo_scenario 0
        = (Inr outcome, Some outcome, w')
     \<and> w' = 2 \<and> length (oc_cycles outcome) = family_count (workload demo_scenario)
     \<and> list_all (\<lambda>c. co_state c = COMPLETED) (oc_cycles outcome)"
proof -
  have "\<exists>outcome. run (demo_action (Inr \<lparr>ro_error = None, ro_cancellation = None\<rparr>)) demo_scenario 0
      = (Inr outcome, Some outcome, 2)"
    by (simp add: churn_eval numeral_2_eq_2)
  then obtain outcome where r: "run (demo_action (Inr \<lparr>ro_error = None, ro_cancellation = None\<rparr>)) demo_scenario 0
      = (Inr outcome, Some outcome, 2)" by blast
  from run_returns_complete [OF r] r show ?thesis by blast
qed

text \<open>
  What a churn run reports is honest about partial work: in every outcome it leaves behind, at
  most one cycle per family is recorded and all but the last completed; and when the run fails
  after its recovery, it raises the cancellation if there was one and a \<open>ChurnRunError\<close>
  otherwise, never the bare primary error.
\<close>

theorem run_failure_report:
  assumes "run action scenario w = (r, Some outcome, w')"
  shows "length (oc_cycles outcome) \<le> family_count (workload scenario)
     \<and> list_all (\<lambda>c. co_state c = COMPLETED) (butlast (oc_cycles outcome))
     \<and> (case r of
          Inr _ \<Rightarrow> oc_primary_error outcome = None \<and> oc_recovery_error outcome = None
        | Inl e \<Rightarrow>
            if is_cancellation (oc_primary_error outcome) then oc_primary_error outcome = Some e
            else isinstance e CancelledError \<or> isinstance e ChurnRunError)"
proof -
  obtain wk w1 where wk: "work action scenario w = (wk, w1)" by fastforce
  from run_outcome [OF assms wk] have
    cycles: "oc_cycles outcome = wk_cycles wk" and
    rf: "raise_failures (oc_primary_error outcome) (oc_recovery_error outcome)
          (oc_cleanup_cancellation outcome) = map_sum id (\<lambda>_. ()) r"
    by blast+
  have "case r of
          Inr _ \<Rightarrow> oc_primary_error outcome = None \<and> oc_recovery_error outcome = None
        | Inl e \<Rightarrow>
            if is_cancellation (oc_primary_error outcome) then oc_primary_error outcome = Some e
            else isinstance e CancelledError \<or> isinstance e ChurnRunError"
  proof (cases r)
    case (Inl e)
    with rf raise_failures_Inl [of _ _ _ e] show ?thesis
      by (auto simp: raise_failures_def is_cancellation_def split: option.splits)
  next
    case (Inr u)
    with rf show ?thesis by (simp add: raise_failures_Inr)
  qed
  with work_cycles [OF wk] cycles show ?thesis by (simp add: family_count_def)
qed

theorem run_failure_report_witness:
  "\<exists>outcome w'. run (demo_action (Inl (Exn CancelledError []))) demo_scenario 0
        = (Inl (Exn CancelledError []), Some outcome, w')
     \<and> length (oc_cycles outcome) \<le> family_count (workload demo_scenario)
     \<and> list_all (\<lambda>c. co_state c = COMPLETED) (butlast (oc_cycles outcome))"
proof -
  have "\<exists>outcome w'. run (demo_action (Inl (Exn CancelledError []))) demo_scenario 0
      = (Inl (Exn CancelledError []), Some outcome, w')"
    by (simp add: churn_eval isinstance_Exn)
  then obtain outcome w' where r: "run (demo_action (Inl (Exn CancelledError []))) demo_scenario 0
      = (Inl (Exn CancelledError []), Some outcome, w')" by blast
  from run_failure_report [OF r] r show ?thesis by blast
qed

text \<open>
  The execution window is shared fairly: the family deadlines ascend in equal steps from the
  start, none exceeds the window, and the last family's deadline is exactly the end of the window.
\<close>

theorem family_deadlines_fill_window:
  assumes "execution_window scenario started = Inr window" "k < family_count (workload scenario)"
  shows "family_deadline window k = started + family_budget window * of_nat (k + 1)
     \<and> started < family_deadline window k \<and> family_deadline window k \<le> deadline_at window
     \<and> (k + 1 = family_count (workload scenario) \<longleftrightarrow> family_deadline window k = deadline_at window)"
proof -
  let ?n = "family_count (workload scenario)" and ?d = "duration_seconds (execution scenario)"
  have win: "started_at window = started" "deadline_at window = started + ?d"
      "family_budget window = ?d / of_nat ?n" and d: "0 < ?d" and n: "0 < ?n"
    using assms(1) by (auto simp: execution_window_def Let_def split: if_splits)
  have share: "family_budget window * of_nat (k + 1) = ?d * (of_nat (k + 1) / of_nat ?n)"
    by (simp add: win)
  have ratio: "0 < (of_nat (k + 1) :: rat) / of_nat ?n" "(of_nat (k + 1) :: rat) / of_nat ?n \<le> 1"
    using assms(2) n by (simp_all add: divide_le_eq flip: of_nat_Suc)
  have le: "family_budget window * of_nat (k + 1) \<le> ?d" "0 < family_budget window * of_nat (k + 1)"
    unfolding share by (rule mult_left_le [OF ratio(2)], use d in simp, rule mult_pos_pos [OF d ratio(1)])
  have fd: "family_deadline window k = started + family_budget window * of_nat (k + 1)"
    using le(1) by (simp add: family_deadline_def win(1, 2) algebra_simps min_def)
  have "k + 1 = ?n \<longleftrightarrow> family_budget window * of_nat (k + 1) = ?d"
    unfolding share using d n by (auto simp: field_simps simp flip: of_nat_Suc of_nat_add of_nat_mult)
  then show ?thesis using fd le win(2) by auto
qed

theorem family_deadlines_witness:
  "\<exists>window. execution_window demo_scenario 100 = Inr window
     \<and> family_deadline window 1 = deadline_at window"
proof -
  obtain window where win: "execution_window demo_scenario 100 = Inr window"
    by (simp add: churn_eval)
  from family_deadlines_fill_window [OF win, of 1] win show ?thesis
    by (simp add: demo_scenario_def family_count_def)
qed

end
