(* ===== verification/Step_Params.thy ===== *)
theory Step_Params
  imports Taac_Prelude
begin

text \<open>
  Step parameters: the flat JSON dictionaries through which typed churn intent travels from a
  playbook to the step that executes it. The theory holds what the sources use of Python to read
  them (\<open>str\<close>, \<open>float\<close>, \<open>int\<close>, \<open>bool\<close>, iteration and indexing of dynamic values), the two
  helpers every \<open>to_step_params\<close> shares, and the contract of such a pair of conversions.

  The text of a float, list or dictionary and the number a text denotes are arguments
  (\<open>text_conv\<close>): the code only forwards them. Floats are rationals.
\<close>

section \<open>Dynamic values\<close>

record text_conv =
  tc_str :: "pyval \<Rightarrow> string"
  tc_float :: "string \<Rightarrow> rat option"
  tc_int :: "string \<Rightarrow> int option"

abbreviation type_error :: "string \<Rightarrow> py_exn" where
  "type_error m \<equiv> Exn TypeError m"

fun py_str :: "text_conv \<Rightarrow> pyval \<Rightarrow> string" where
  "py_str c (VStr s) = s"
| "py_str c (VInt i) = show_int i"
| "py_str c (VBool b) = (if b then ''True'' else ''False'')"
| "py_str c VNone = ''None''"
| "py_str c v = tc_str c v"

fun py_float :: "text_conv \<Rightarrow> pyval \<Rightarrow> rat result" where
  "py_float c (VFloat x) = Inr x"
| "py_float c (VInt i) = Inr (of_int i)"
| "py_float c (VBool b) = Inr (if b then 1 else 0)"
| "py_float c (VStr s) =
     (case tc_float c s of
        None \<Rightarrow> Inl (value_error ''could not convert string to float'') | Some x \<Rightarrow> Inr x)"
| "py_float c v = Inl (type_error ''float() argument must be a string or a real number'')"

definition trunc :: "rat \<Rightarrow> int" where
  "trunc x = (if 0 \<le> x then \<lfloor>x\<rfloor> else \<lceil>x\<rceil>)"

fun py_int :: "text_conv \<Rightarrow> pyval \<Rightarrow> int result" where
  "py_int c (VInt i) = Inr i"
| "py_int c (VFloat x) = Inr (trunc x)"
| "py_int c (VBool b) = Inr (if b then 1 else 0)"
| "py_int c (VStr s) =
     (case tc_int c s of
        None \<Rightarrow> Inl (value_error ''invalid literal for int()'') | Some i \<Rightarrow> Inr i)"
| "py_int c v = Inl (type_error ''int() argument must be a string or a real number'')"

fun py_bool :: "pyval \<Rightarrow> bool" where
  "py_bool VNone = False"
| "py_bool (VBool b) = b"
| "py_bool (VInt i) = (i \<noteq> 0)"
| "py_bool (VFloat x) = (x \<noteq> 0)"
| "py_bool (VStr s) = (s \<noteq> [])"
| "py_bool (VList xs) = (xs \<noteq> [])"
| "py_bool (VDict d) = (d \<noteq> [])"

fun py_iter :: "pyval \<Rightarrow> pyval list result" where
  "py_iter (VList xs) = Inr xs"
| "py_iter (VStr s) = Inr (map (\<lambda>ch. VStr [ch]) s)"
| "py_iter (VDict d) = Inr (map VStr (dict_keys d))"
| "py_iter v = Inl (type_error ''object is not iterable'')"

text \<open>\<open>v[key]\<close> with a string key, and \<open>v.items()\<close>.\<close>

fun py_getitem :: "pyval \<Rightarrow> string \<Rightarrow> pyval result" where
  "py_getitem (VDict d) key = dict_index d key"
| "py_getitem v key = Inl (type_error ''indices must be integers'')"

fun py_items :: "pyval \<Rightarrow> (string \<times> pyval) list result" where
  "py_items (VDict d) = Inr d"
| "py_items v = Inl (Exn AttributeError ''items'')"

type_synonym params = "(string, pyval) dict"

text \<open>\<open>float(params.get(key, default))\<close>, \<open>int(params.get(key, default))\<close>, and a tuple of texts.\<close>

definition get_float :: "text_conv \<Rightarrow> params \<Rightarrow> string \<Rightarrow> rat \<Rightarrow> rat result" where
  "get_float c params key dflt = py_float c (dict_get_or params key (VFloat dflt))"

definition get_int :: "text_conv \<Rightarrow> params \<Rightarrow> string \<Rightarrow> int \<Rightarrow> int result" where
  "get_int c params key dflt = py_int c (dict_get_or params key (VInt dflt))"

definition get_strs :: "text_conv \<Rightarrow> params \<Rightarrow> string \<Rightarrow> string list result" where
  "get_strs c params key =
     rbind (py_iter (dict_get_or params key (VList []))) (\<lambda>vs. Inr (map (py_str c) vs))"

text \<open>
  The representation invariant of dynamic values: the keys of every dictionary are distinct.
\<close>

fun py_ok :: "pyval \<Rightarrow> bool" where
  "py_ok (VDict d) \<longleftrightarrow> distinct (map fst d) \<and> (\<forall>kv \<in> set d. py_ok (snd kv))"
| "py_ok (VList xs) \<longleftrightarrow> (\<forall>x \<in> set xs. py_ok x)"
| "py_ok _ \<longleftrightarrow> True"

section \<open>Writing parameters\<close>

text \<open>A dictionary comprehension: a later item replaces an earlier one with the same key.\<close>

definition dict_of :: "('k \<times> 'v) list \<Rightarrow> ('k, 'v) dict" where
  "dict_of items = fold (\<lambda>(k, v). dict_set k v) items []"

definition is_integer :: "rat \<Rightarrow> bool" where
  "is_integer x \<longleftrightarrow> of_int \<lfloor>x\<rfloor> = x"

definition json_number :: "rat \<Rightarrow> pyval" where
  "json_number x = (if is_integer x then VInt \<lfloor>x\<rfloor> else VFloat x)"

fun json_value :: "pyval \<Rightarrow> pyval" where
  "json_value (VFloat x) = json_number x"
| "json_value v = v"

text \<open>One round of the loop over \<open>optional_defaults\<close>: a value that is not the default is written.\<close>

definition add_optional :: "string \<times> pyval \<times> pyval \<Rightarrow> params \<Rightarrow> params" where
  "add_optional opt params =
     (let (name, val, dflt) = opt
      in if val \<noteq> dflt then dict_set name (json_value val) params else params)"

definition add_optionals :: "(string \<times> pyval \<times> pyval) list \<Rightarrow> params \<Rightarrow> params" where
  "add_optionals opts params = fold add_optional opts params"

text \<open>Options that do not clash with each other or with the other parameters.\<close>

definition options_ok :: "(string \<times> pyval \<times> pyval) list \<Rightarrow> params \<Rightarrow> bool" where
  "options_ok opts ps \<longleftrightarrow> distinct (map fst opts) \<and> set (map fst opts) \<inter> set (map fst ps) = {}"

text \<open>Conversions for examples: no text denotes a number.\<close>

definition demo_conv :: text_conv where
  "demo_conv = \<lparr>tc_str = \<lambda>_. [], tc_float = \<lambda>_. None, tc_int = \<lambda>_. None\<rparr>"

section \<open>Lemmas\<close>

lemma py_float_json_number [simp]: "py_float c (json_number x) = Inr x"
  by (simp add: json_number_def is_integer_def)

lemma add_optionals_Cons: "add_optionals (opt # opts) ps = add_optionals opts (add_optional opt ps)"
  by (simp add: add_optionals_def)

lemma get_add_optionals_other:
  "k \<notin> set (map fst opts) \<Longrightarrow> dict_get (add_optionals opts ps) k = dict_get ps k"
proof (induction opts arbitrary: ps)
  case Nil
  then show ?case by (simp add: add_optionals_def)
next
  case (Cons opt opts)
  then show ?case by (cases opt) (auto simp: add_optionals_Cons add_optional_def)
qed

text \<open>An option is read back whether it was written or left at its default.\<close>

lemma get_optional:
  "map_of opts k = Some (v, d) \<Longrightarrow> distinct (map fst opts) \<Longrightarrow> dict_get ps k = None \<Longrightarrow>
     dict_get (add_optionals opts ps) k = (if v \<noteq> d then Some (json_value v) else None)"
proof (induction opts arbitrary: ps)
  case (Cons opt opts)
  obtain n v' d' where opt: "opt = (n, v', d')" by (cases opt) auto
  show ?case
  proof (cases "n = k")
    case True
    then show ?thesis
      using Cons.prems by (auto simp: opt add_optionals_Cons add_optional_def get_add_optionals_other)
  next
    case False
    then show ?thesis
      using Cons.prems Cons.IH [of "add_optional opt ps"] by (simp add: opt add_optionals_Cons add_optional_def)
  qed
qed simp

lemma get_option:
  assumes "options_ok opts ps" "map_of opts k = Some (v, d)"
  shows "dict_get (add_optionals opts ps) k = (if v \<noteq> d then Some (json_value v) else None)"
proof -
  have "k \<in> set (map fst opts)" using map_of_SomeD [OF assms(2)] by force
  with assms(1) have "dict_get ps k = None" by (auto simp: options_ok_def map_of_eq_None_iff)
  with assms show ?thesis by (intro get_optional) (simp_all add: options_ok_def)
qed

lemma get_float_optional:
  "options_ok opts ps \<Longrightarrow> map_of opts k = Some (VFloat x, VFloat d) \<Longrightarrow>
     get_float c (add_optionals opts ps) k d = Inr x"
  by (simp add: get_float_def dict_get_or_def get_option)

lemma get_int_optional:
  "options_ok opts ps \<Longrightarrow> map_of opts k = Some (VInt x, VInt d) \<Longrightarrow>
     get_int c (add_optionals opts ps) k d = Inr x"
  by (simp add: get_int_def dict_get_or_def get_option)

lemma get_bool_optional:
  "options_ok opts ps \<Longrightarrow> map_of opts k = Some (VBool x, VBool d) \<Longrightarrow>
     dict_get_or (add_optionals opts ps) k (VBool d) = VBool x"
  by (auto simp: dict_get_or_def get_option)

text \<open>A parameter that is not optional is read back as it was written.\<close>

lemma get_required:
  assumes "k \<notin> set (map fst opts)"
  shows "get_float c (add_optionals opts ps) k x = get_float c ps k x"
    and "get_int c (add_optionals opts ps) k i = get_int c ps k i"
    and "get_strs c (add_optionals opts ps) k = get_strs c ps k"
    and "dict_get_or (add_optionals opts ps) k v = dict_get_or ps k v"
  using get_add_optionals_other [OF assms]
  by (simp_all add: get_float_def get_int_def get_strs_def dict_get_or_def)

lemma rmap_written: "(\<And>x. x \<in> set xs \<Longrightarrow> f (g x) = Inr x) \<Longrightarrow> rmap f (map g xs) = Inr xs"
  by (induction xs) simp_all

lemma get_strs_written: "dict_get ps k = Some (VList (map VStr xs)) \<Longrightarrow> get_strs c ps k = Inr xs"
  by (simp add: get_strs_def dict_get_or_def comp_def)

lemma fold_update_distinct:
  "distinct (map fst (d @ items)) \<Longrightarrow> fold (\<lambda>(k, v). dict_set k v) items d = d @ items"
proof (induction items arbitrary: d)
  case (Cons kv items)
  obtain k v where kv: "kv = (k, v)" by fastforce
  with Cons.prems have "k \<notin> fst ` set d" by auto
  with Cons show ?case by (simp add: kv dict_set_new)
qed simp

lemma dict_of_distinct: "distinct (map fst items) \<Longrightarrow> dict_of items = items"
  using fold_update_distinct [of "[]" items] by (simp add: dict_of_def)

lemma dict_index_ok: "py_ok (VDict d) \<Longrightarrow> dict_index d k = Inr v \<Longrightarrow> py_ok v"
  by (auto simp: dict_index_def split: option.splits dest!: map_of_SomeD)

lemma py_getitem_ok: "py_ok v \<Longrightarrow> py_getitem v k = Inr x \<Longrightarrow> py_ok x"
  by (cases v) (simp_all add: dict_index_ok del: py_ok.simps)

section \<open>The contract of a pair of conversions\<close>

text \<open>
  \<open>to_params\<close> and \<open>from_params\<close> of one churn specification. Reading what was written gives the
  specification back, up to what \<open>canon\<close> fills in for the fields the parameters do not carry;
  the canonical form is written to the same parameters. \<open>proper\<close> restricts the parameters that
  are read, where a representation invariant is needed.
\<close>

locale step_codec =
  fixes to_params :: "'s \<Rightarrow> params result"
    and from_params :: "params \<Rightarrow> 's result"
    and canon :: "'s \<Rightarrow> 's"
    and proper :: "params \<Rightarrow> bool"
  assumes round_trip: "proper p \<Longrightarrow> from_params p = Inr s \<Longrightarrow>
      \<exists>q. to_params s = Inr q \<and> proper q \<and> from_params q = Inr (canon s)"
    and canon_written: "to_params (canon s) = to_params s"
begin

text \<open>One round trip reaches a fixed point: reading and writing again changes nothing.\<close>

lemma stable:
  assumes "proper p" "from_params p = Inr s"
  shows "rbind (to_params (canon s)) from_params = Inr (canon s)"
  using round_trip [OF assms] by (auto simp: canon_written)

lemma canon_idem:
  assumes "proper p" "from_params p = Inr s"
  shows "canon (canon s) = canon s"
  using round_trip [OF assms] round_trip [of _ "canon s"] by (auto simp: canon_written)

text \<open>Two specifications with the same parameters have the same canonical form.\<close>

lemma same_params:
  assumes "proper p" "from_params p = Inr s" "proper q" "from_params q = Inr s'"
    and "to_params s = to_params s'"
  shows "canon s = canon s'"
  using round_trip [OF assms(1, 2)] round_trip [OF assms(3, 4)] assms(5) by auto

end

end
