(* ===== verification/Churn_Session.thy ===== *)
theory Churn_Session
  imports Churn_Runner Step_Params
begin

text \<open>
  Session churn (\<open>abstractions/churn/session.py\<close>): the target groups, the cycle and observation
  policies, their checks, and the conversion of a specification to flat step parameters and back,
  which derives the time budgets of the scenario.
\<close>

section \<open>Data\<close>

record SessionTargetGroup =
  sg_name :: string
  sg_peer_regex :: string
  sg_session_count :: int
  sg_sessions_per_cycle :: int

definition mk_SessionTargetGroup :: "string \<Rightarrow> string \<Rightarrow> int \<Rightarrow> int \<Rightarrow> SessionTargetGroup result" where
  "mk_SessionTargetGroup name peer_regex session_count sessions_per_cycle =
     (if name = [] \<or> peer_regex = []
      then Inl (value_error ''session group name and peer_regex must be non-empty'')
      else if session_count \<le> 0 then Inl (value_error ''session_count must be positive'')
      else if \<not> (0 < sessions_per_cycle \<and> sessions_per_cycle \<le> session_count)
      then Inl (value_error ''sessions_per_cycle must be positive and no larger than session_count'')
      else Inr \<lparr>sg_name = name, sg_peer_regex = peer_regex, sg_session_count = session_count,
                sg_sessions_per_cycle = sessions_per_cycle\<rparr>)"

definition session_group_params :: "SessionTargetGroup \<Rightarrow> pyval" where
  "session_group_params g =
     VDict [(''name'', VStr (sg_name g)), (''peer_regex'', VStr (sg_peer_regex g)),
            (''session_count'', VInt (sg_session_count g)),
            (''sessions_per_cycle'', VInt (sg_sessions_per_cycle g))]"

record SessionCyclePolicy =
  cy_uptime_seconds :: rat
  cy_downtime_seconds :: rat
  cy_schedule :: "string list list"

definition mk_SessionCyclePolicy :: "rat \<Rightarrow> rat \<Rightarrow> string list list \<Rightarrow> SessionCyclePolicy result" where
  "mk_SessionCyclePolicy uptime downtime schedule =
     (if uptime \<le> 0 \<or> downtime \<le> 0 then Inl (value_error ''session uptime and downtime must be positive'')
      else Inr \<lparr>cy_uptime_seconds = uptime, cy_downtime_seconds = downtime, cy_schedule = schedule\<rparr>)"

record SessionObservationPolicy =
  so_poll_interval :: rat
  so_transition_soft :: rat
  so_transition_hard :: rat
  so_confirmation :: rat
  so_restore_soft :: rat
  so_restore_hard :: rat
  so_ixia_restore_per_group :: rat
  so_ixia_restore_floor :: rat
  so_rpc_timeout :: rat
  so_max_snapshot_failures :: int

record SessionChurn =
  ss_scenario :: ChurnScenario
  ss_groups :: "SessionTargetGroup list"
  ss_cycle :: SessionCyclePolicy
  ss_expected_established :: int
  ss_parent_prefixes_to_ignore :: "string list"
  ss_observation :: SessionObservationPolicy

definition validate_session_churn :: "SessionChurn \<Rightarrow> SessionChurn result" where
  "validate_session_churn s =
     (let names = map sg_name (ss_groups s); schedule = cy_schedule (ss_cycle s)
      in if ss_groups s = [] then Inl (value_error ''session churn requires at least one target group'')
         else if \<not> distinct names then Inl (value_error ''session group names must be unique'')
         else if schedule = [] \<or> [] \<in> set schedule
         then Inl (value_error ''session churn schedule must contain non-empty entries'')
         else if list_ex (list_ex (\<lambda>n. n \<notin> set names)) schedule
         then Inl (value_error ''session churn schedule has unknown groups'')
         else Inr s)"

section \<open>Writing the step parameters\<close>

definition session_options :: "SessionObservationPolicy \<Rightarrow> (string \<times> pyval \<times> pyval) list" where
  "session_options ob =
     [(''poll_interval_seconds'', VFloat (so_poll_interval ob), VFloat 2),
      (''transition_soft_threshold_seconds'', VFloat (so_transition_soft ob), VFloat 30),
      (''transition_hard_timeout_seconds'', VFloat (so_transition_hard ob), VFloat 60),
      (''confirmation_seconds'', VFloat (so_confirmation ob), VFloat 2),
      (''restore_soft_threshold_seconds'', VFloat (so_restore_soft ob), VFloat 120),
      (''restore_hard_timeout_seconds'', VFloat (so_restore_hard ob), VFloat 300),
      (''ixia_restore_timeout_seconds_per_group'', VFloat (so_ixia_restore_per_group ob), VFloat 30),
      (''ixia_restore_timeout_floor_seconds'', VFloat (so_ixia_restore_floor ob), VFloat 60),
      (''session_rpc_timeout_seconds'', VFloat (so_rpc_timeout ob), VFloat 30),
      (''max_consecutive_snapshot_failures'', VInt (so_max_snapshot_failures ob), VInt 3)]"

definition session_base_params :: "SessionChurn \<Rightarrow> params" where
  "session_base_params s =
     [(''session_groups'', VList (map session_group_params (ss_groups s))),
      (''cycle_schedule'', VList (map (\<lambda>names. VList (map VStr names)) (cy_schedule (ss_cycle s)))),
      (''expected_established_sessions'', VInt (ss_expected_established s)),
      (''test_duration_seconds'', json_number (duration_seconds (execution (ss_scenario s)))),
      (''uptime_seconds'', json_number (cy_uptime_seconds (ss_cycle s))),
      (''downtime_seconds'', json_number (cy_downtime_seconds (ss_cycle s))),
      (''parent_prefixes_to_ignore'', VList (map VStr (ss_parent_prefixes_to_ignore s)))]"

definition session_to_step_params :: "SessionChurn \<Rightarrow> params" where
  "session_to_step_params s = add_optionals (session_options (ss_observation s)) (session_base_params s)"

section \<open>Reading the step parameters\<close>

definition session_group_of :: "text_conv \<Rightarrow> pyval \<Rightarrow> SessionTargetGroup result" where
  "session_group_of c v =
     rbind (py_getitem v ''name'') (\<lambda>name.
     rbind (py_getitem v ''peer_regex'') (\<lambda>peer_regex.
     rbind (rbind (py_getitem v ''session_count'') (py_int c)) (\<lambda>session_count.
     rbind (rbind (py_getitem v ''sessions_per_cycle'') (py_int c)) (\<lambda>sessions_per_cycle.
       mk_SessionTargetGroup (py_str c name) (py_str c peer_regex) session_count sessions_per_cycle))))"

definition session_groups_of :: "text_conv \<Rightarrow> params \<Rightarrow> SessionTargetGroup list result" where
  "session_groups_of c params =
     rbind (py_iter (dict_get_or params ''session_groups'' (VList []))) (rmap (session_group_of c))"

definition session_schedule_of ::
    "text_conv \<Rightarrow> params \<Rightarrow> SessionTargetGroup list \<Rightarrow> string list list result" where
  "session_schedule_of c params groups =
     (let v = dict_get_or params ''cycle_schedule'' VNone;
          schedule = (if v = VNone then VList [VList (map (\<lambda>g. VStr (sg_name g)) groups)] else v)
      in rbind (py_iter schedule)
           (rmap (\<lambda>names. rbind (py_iter names) (\<lambda>vs. Inr (map (py_str c) vs)))))"

definition cycle_count_of :: "rat \<Rightarrow> rat \<Rightarrow> int" where
  "cycle_count_of duration cycle_seconds = max 1 \<lfloor>duration / cycle_seconds\<rfloor>"

text \<open>The budgets: \<open>n\<close> is the number of groups, the watchdog margin is 60 seconds.\<close>

definition session_scenario ::
    "string \<Rightarrow> rat \<Rightarrow> SessionCyclePolicy \<Rightarrow> rat \<Rightarrow> rat \<Rightarrow> rat \<Rightarrow> rat \<Rightarrow> rat \<Rightarrow> nat \<Rightarrow> ChurnScenario" where
  "session_scenario sid duration cycle transition_timeout floor_s per_group restore_timeout rpc_timeout n =
     (let cycle_seconds = cy_uptime_seconds cycle + cy_downtime_seconds cycle;
          cycles = cycle_count_of duration cycle_seconds;
          ixia_restore = max floor_s (of_nat n * per_group)
      in \<lparr>scenario_id = sid,
          workload = \<lparr>families = [\<lparr>family_name = ''sessions'', family_phases = None\<rparr>]\<rparr>,
          preparation = \<lparr>initial_resolution_timeout_seconds = transition_timeout,
            baseline_capture_timeout_seconds = rpc_timeout,
            prep_total_timeout_seconds = duration + 2 * transition_timeout * of_int cycles\<rparr>,
          execution = \<lparr>duration_seconds = duration, cadence_seconds = cycle_seconds,
            max_iterations = cycles\<rparr>,
          recovery = \<lparr>rec_total_timeout_seconds = ixia_restore + restore_timeout + rpc_timeout + 60,
            restore_observation_timeout_seconds = restore_timeout,
            ixia_restore_timeout_seconds = ixia_restore, cancellation_grace_seconds = 60\<rparr>,
          pre_churn_settle = default_SettlePolicy, post_churn_settle = default_SettlePolicy\<rparr>)"

definition session_from_step_params :: "text_conv \<Rightarrow> params \<Rightarrow> SessionChurn result" where
  "session_from_step_params c params =
     rbind (session_groups_of c params) (\<lambda>groups.
     rbind (get_float c params ''test_duration_seconds'' 60) (\<lambda>duration.
     rbind (get_float c params ''uptime_seconds'' 30) (\<lambda>uptime.
     rbind (get_float c params ''downtime_seconds'' 30) (\<lambda>downtime.
     rbind (get_float c params ''transition_hard_timeout_seconds'' 60) (\<lambda>transition_timeout.
     rbind (get_float c params ''ixia_restore_timeout_floor_seconds'' 60) (\<lambda>floor_s.
     rbind (get_float c params ''ixia_restore_timeout_seconds_per_group'' 30) (\<lambda>per_group.
     rbind (get_float c params ''restore_hard_timeout_seconds'' 300) (\<lambda>restore_timeout.
     rbind (get_float c params ''session_rpc_timeout_seconds'' 30) (\<lambda>rpc_timeout.
     rbind (session_schedule_of c params groups) (\<lambda>schedule.
     rbind (mk_SessionCyclePolicy uptime downtime schedule) (\<lambda>cycle.
     rbind (get_int c params ''expected_established_sessions'' 0) (\<lambda>expected.
     rbind (get_strs c params ''parent_prefixes_to_ignore'') (\<lambda>ignored.
     rbind (get_float c params ''poll_interval_seconds'' 2) (\<lambda>poll.
     rbind (get_float c params ''transition_soft_threshold_seconds'' 30) (\<lambda>transition_soft.
     rbind (get_float c params ''confirmation_seconds'' 2) (\<lambda>confirmation.
     rbind (get_float c params ''restore_soft_threshold_seconds'' 120) (\<lambda>restore_soft.
     rbind (get_int c params ''max_consecutive_snapshot_failures'' 3) (\<lambda>failures.
       validate_session_churn
         \<lparr>ss_scenario = session_scenario
            (py_str c (dict_get_or params ''scenario_id'' (VStr ''bgp_session_oscillation'')))
            duration cycle transition_timeout floor_s per_group restore_timeout rpc_timeout (length groups),
          ss_groups = groups, ss_cycle = cycle, ss_expected_established = expected,
          ss_parent_prefixes_to_ignore = ignored,
          ss_observation = \<lparr>so_poll_interval = poll, so_transition_soft = transition_soft,
            so_transition_hard = transition_timeout, so_confirmation = confirmation,
            so_restore_soft = restore_soft, so_restore_hard = restore_timeout,
            so_ixia_restore_per_group = per_group, so_ixia_restore_floor = floor_s,
            so_rpc_timeout = rpc_timeout, so_max_snapshot_failures = failures\<rparr>\<rparr>))))))))))))))))))"

section \<open>What the properties speak about\<close>

text \<open>The step parameters do not carry the scenario's identifier: reading them fills in the default.\<close>

definition session_canon :: "SessionChurn \<Rightarrow> SessionChurn" where
  "session_canon s = s\<lparr>ss_scenario := (ss_scenario s)\<lparr>scenario_id := ''bgp_session_oscillation''\<rparr>\<rparr>"

definition group_made :: "SessionTargetGroup \<Rightarrow> bool" where
  "group_made g \<longleftrightarrow> mk_SessionTargetGroup (sg_name g) (sg_peer_regex g) (sg_session_count g)
       (sg_sessions_per_cycle g) = Inr g"

text \<open>The specifications \<open>from_step_params\<close> builds: checked, with derived budgets.\<close>

definition session_made :: "SessionChurn \<Rightarrow> bool" where
  "session_made s \<longleftrightarrow>
     list_all group_made (ss_groups s)
     \<and> 0 < cy_uptime_seconds (ss_cycle s) \<and> 0 < cy_downtime_seconds (ss_cycle s)
     \<and> (let ob = ss_observation s
        in ss_scenario s = session_scenario (scenario_id (ss_scenario s))
             (duration_seconds (execution (ss_scenario s))) (ss_cycle s) (so_transition_hard ob)
             (so_ixia_restore_floor ob) (so_ixia_restore_per_group ob) (so_restore_hard ob)
             (so_rpc_timeout ob) (length (ss_groups s)))
     \<and> validate_session_churn s = Inr s"

definition demo_session_params :: params where
  "demo_session_params =
     [(''scenario_id'', VStr ''mine''),
      (''session_groups'', VList [VDict [(''name'', VStr ''g''), (''peer_regex'', VStr ''.*''),
         (''session_count'', VInt 4), (''sessions_per_cycle'', VInt 2)]]),
      (''test_duration_seconds'', VInt 150), (''confirmation_seconds'', VFloat (5 / 2))]"

section \<open>Lemmas\<close>

lemma mk_group_made: "mk_SessionTargetGroup n r a b = Inr g \<Longrightarrow> group_made g"
  by (auto simp: mk_SessionTargetGroup_def group_made_def split: if_splits)

lemma groups_made: "session_groups_of c p = Inr gs \<Longrightarrow> list_all group_made gs"
  by (auto simp: session_groups_of_def session_group_of_def rbind_eq_Inr rmap_Inr_iff list_all_iff
      list_all2_conv_all_nth in_set_conv_nth dest!: mk_group_made)

lemma session_group_read: "group_made g \<Longrightarrow> session_group_of c (session_group_params g) = Inr g"
  by (simp add: session_group_of_def session_group_params_def dict_index_def group_made_def)

lemma session_groups_read:
  "list_all group_made (ss_groups s) \<Longrightarrow> session_groups_of c (session_to_step_params s) = Inr (ss_groups s)"
  by (simp add: session_groups_of_def session_to_step_params_def get_required session_options_def)
     (auto simp: session_base_params_def dict_get_or_def list_all_iff session_group_read intro!: rmap_written)

lemma session_schedule_read:
  "session_schedule_of c (session_to_step_params s) gs = Inr (cy_schedule (ss_cycle s))"
  by (simp add: session_schedule_of_def session_to_step_params_def get_required session_options_def)
     (auto simp: session_base_params_def dict_get_or_def comp_def intro!: rmap_written)

lemma session_required_read:
  "get_float c (session_to_step_params s) ''test_duration_seconds'' 60
     = Inr (duration_seconds (execution (ss_scenario s)))"
  "get_float c (session_to_step_params s) ''uptime_seconds'' 30 = Inr (cy_uptime_seconds (ss_cycle s))"
  "get_float c (session_to_step_params s) ''downtime_seconds'' 30 = Inr (cy_downtime_seconds (ss_cycle s))"
  "get_int c (session_to_step_params s) ''expected_established_sessions'' 0 = Inr (ss_expected_established s)"
  "get_strs c (session_to_step_params s) ''parent_prefixes_to_ignore'' = Inr (ss_parent_prefixes_to_ignore s)"
  "dict_get_or (session_to_step_params s) ''scenario_id'' v = v"
  unfolding session_to_step_params_def
  by (simp_all add: get_required session_options_def)
     (simp_all add: session_base_params_def get_float_def get_int_def dict_get_or_def get_strs_written)

lemma session_options_ok: "options_ok (session_options (ss_observation s)) (session_base_params s)"
  by (simp add: options_ok_def session_options_def session_base_params_def)

lemmas session_optional_read =
  get_float_optional [OF session_options_ok, folded session_to_step_params_def]
  get_int_optional [OF session_options_ok, folded session_to_step_params_def]

lemma session_optionals_read:
  fixes s c
  defines "p \<equiv> session_to_step_params s" and "ob \<equiv> ss_observation s"
  shows "get_float c p ''poll_interval_seconds'' 2 = Inr (so_poll_interval ob)"
    and "get_float c p ''transition_soft_threshold_seconds'' 30 = Inr (so_transition_soft ob)"
    and "get_float c p ''transition_hard_timeout_seconds'' 60 = Inr (so_transition_hard ob)"
    and "get_float c p ''confirmation_seconds'' 2 = Inr (so_confirmation ob)"
    and "get_float c p ''restore_soft_threshold_seconds'' 120 = Inr (so_restore_soft ob)"
    and "get_float c p ''restore_hard_timeout_seconds'' 300 = Inr (so_restore_hard ob)"
    and "get_float c p ''ixia_restore_timeout_seconds_per_group'' 30 = Inr (so_ixia_restore_per_group ob)"
    and "get_float c p ''ixia_restore_timeout_floor_seconds'' 60 = Inr (so_ixia_restore_floor ob)"
    and "get_float c p ''session_rpc_timeout_seconds'' 30 = Inr (so_rpc_timeout ob)"
    and "get_int c p ''max_consecutive_snapshot_failures'' 3 = Inr (so_max_snapshot_failures ob)"
  unfolding p_def ob_def by (rule session_optional_read, simp add: session_options_def)+

lemma session_from_made:
  assumes "session_from_step_params c p = Inr s"
  shows "session_made s"
proof -
  obtain gs du up down tr fl pg rs rpc sch cy ex ig po ts co rso fa where
    parts: "session_groups_of c p = Inr gs" "mk_SessionCyclePolicy up down sch = Inr cy"
    and valid: "validate_session_churn
       \<lparr>ss_scenario = session_scenario
          (py_str c (dict_get_or p ''scenario_id'' (VStr ''bgp_session_oscillation'')))
          du cy tr fl pg rs rpc (length gs),
        ss_groups = gs, ss_cycle = cy, ss_expected_established = ex, ss_parent_prefixes_to_ignore = ig,
        ss_observation = \<lparr>so_poll_interval = po, so_transition_soft = ts, so_transition_hard = tr,
          so_confirmation = co, so_restore_soft = rso, so_restore_hard = rs, so_ixia_restore_per_group = pg,
          so_ixia_restore_floor = fl, so_rpc_timeout = rpc, so_max_snapshot_failures = fa\<rparr>\<rparr> = Inr s"
      (is "validate_session_churn ?s = _")
    using assms unfolding session_from_step_params_def rbind_eq_Inr by blast
  have s: "s = ?s" using valid by (auto simp: validate_session_churn_def Let_def split: if_splits)
  have "0 < cy_uptime_seconds cy" "0 < cy_downtime_seconds cy"
    using parts(2) by (auto simp: mk_SessionCyclePolicy_def split: if_splits)
  with groups_made [OF parts(1)] valid s show ?thesis
    by (simp add: session_made_def session_scenario_def Let_def)
qed

lemma session_scenario_id:
  "(session_scenario i d cy t f g r rpc n)\<lparr>scenario_id := j\<rparr> = session_scenario j d cy t f g r rpc n"
  by (simp add: session_scenario_def Let_def)

lemma session_made_scenario:
  "session_made s \<Longrightarrow> ss_scenario s = session_scenario (scenario_id (ss_scenario s))
     (duration_seconds (execution (ss_scenario s))) (ss_cycle s) (so_transition_hard (ss_observation s))
     (so_ixia_restore_floor (ss_observation s)) (so_ixia_restore_per_group (ss_observation s))
     (so_restore_hard (ss_observation s)) (so_rpc_timeout (ss_observation s)) (length (ss_groups s))"
  unfolding session_made_def Let_def by blast

lemma session_made_round_trip:
  assumes "session_made s"
  shows "session_from_step_params c (session_to_step_params s) = Inr (session_canon s)"
proof -
  have cycle: "mk_SessionCyclePolicy (cy_uptime_seconds (ss_cycle s)) (cy_downtime_seconds (ss_cycle s))
      (cy_schedule (ss_cycle s)) = Inr (ss_cycle s)"
    using assms by (simp add: session_made_def mk_SessionCyclePolicy_def)
  have groups: "session_groups_of c (session_to_step_params s) = Inr (ss_groups s)"
    using assms by (intro session_groups_read) (simp add: session_made_def)
  have valid: "validate_session_churn (session_canon s) = Inr (session_canon s)"
    using assms by (auto simp: session_made_def validate_session_churn_def session_canon_def Let_def split: if_splits)
  have scenario: "session_scenario ''bgp_session_oscillation'' (duration_seconds (execution (ss_scenario s)))
      (ss_cycle s) (so_transition_hard (ss_observation s)) (so_ixia_restore_floor (ss_observation s))
      (so_ixia_restore_per_group (ss_observation s)) (so_restore_hard (ss_observation s))
      (so_rpc_timeout (ss_observation s)) (length (ss_groups s)) = ss_scenario (session_canon s)" (is "?sc = _")
    unfolding session_canon_def
    using arg_cong [OF session_made_scenario [OF assms], of "scenario_id_update (\<lambda>_. ''bgp_session_oscillation'')"]
    by (simp add: session_scenario_id)
  have observation: "\<lparr>so_poll_interval = so_poll_interval ob, so_transition_soft = so_transition_soft ob,
      so_transition_hard = so_transition_hard ob, so_confirmation = so_confirmation ob,
      so_restore_soft = so_restore_soft ob, so_restore_hard = so_restore_hard ob,
      so_ixia_restore_per_group = so_ixia_restore_per_group ob,
      so_ixia_restore_floor = so_ixia_restore_floor ob, so_rpc_timeout = so_rpc_timeout ob,
      so_max_snapshot_failures = so_max_snapshot_failures ob\<rparr> = ob" for ob
    by simp
  have same: "\<lparr>ss_scenario = ?sc, ss_groups = ss_groups s, ss_cycle = ss_cycle s,
      ss_expected_established = ss_expected_established s,
      ss_parent_prefixes_to_ignore = ss_parent_prefixes_to_ignore s,
      ss_observation = ss_observation s\<rparr> = session_canon s"
    unfolding scenario by (simp add: session_canon_def)
  show ?thesis
    unfolding session_from_step_params_def
    by (simp only: groups cycle session_schedule_read session_required_read session_optionals_read rbind.simps
        py_str.simps observation same valid)
qed

lemma session_canon_written: "session_to_step_params (session_canon s) = session_to_step_params s"
  by (simp add: session_to_step_params_def session_base_params_def session_canon_def)

interpretation session_codec: step_codec "\<lambda>s. Inr (session_to_step_params s)" "session_from_step_params c"
    session_canon "\<lambda>_. True" for c
  by unfold_locales (simp_all add: session_made_round_trip session_from_made session_canon_written)

lemma session_made_valid:
  assumes "session_made s"
  shows "ss_groups s \<noteq> []" "distinct (map sg_name (ss_groups s))" "cy_schedule (ss_cycle s) \<noteq> []"
    and "list_all (\<lambda>names. names \<noteq> [] \<and> set names \<subseteq> sg_name ` set (ss_groups s)) (cy_schedule (ss_cycle s))"
    and "list_all (\<lambda>g. 0 < sg_sessions_per_cycle g \<and> sg_sessions_per_cycle g \<le> sg_session_count g) (ss_groups s)"
  using assms
  by (auto simp: session_made_def validate_session_churn_def group_made_def mk_SessionTargetGroup_def
      list_all_iff list_ex_iff Let_def split: if_splits)

text \<open>The number of cycles that fit into the duration.\<close>

lemma cycle_count_fits:
  assumes "0 < cycle"
  shows "1 \<le> cycle_count_of duration cycle"
    and "of_int (cycle_count_of duration cycle) * cycle \<le> max duration cycle"
    and "cycle \<le> duration \<Longrightarrow> duration < (of_int (cycle_count_of duration cycle) + 1) * cycle"
proof -
  let ?n = "\<lfloor>duration / cycle\<rfloor>"
  have below: "of_int ?n * cycle \<le> duration" and above: "duration < (of_int ?n + 1) * cycle"
    using assms floor_correct [of "duration / cycle"]
    by (simp_all add: pos_le_divide_eq [symmetric] pos_divide_less_eq [symmetric])
  show "1 \<le> cycle_count_of duration cycle" by (simp add: cycle_count_of_def)
  show "of_int (cycle_count_of duration cycle) * cycle \<le> max duration cycle"
    using below by (auto simp: cycle_count_of_def max_def)
  assume "cycle \<le> duration"
  then have "1 \<le> ?n" using assms by (simp add: le_floor_iff)
  then show "duration < (of_int (cycle_count_of duration cycle) + 1) * cycle"
    using above by (simp add: cycle_count_of_def max_def)
qed

lemma demo_session_run:
  "\<exists>s. session_from_step_params demo_conv demo_session_params = Inr s
     \<and> scenario_id (ss_scenario s) = ''mine'' \<and> max_iterations (execution (ss_scenario s)) = 2"
proof -
  have "\<lfloor>5 / 2 :: rat\<rfloor> = 2" by (rule floor_unique) simp_all
  then show ?thesis
    by (simp add: session_from_step_params_def demo_session_params_def session_groups_of_def
        session_group_of_def session_schedule_of_def session_scenario_def cycle_count_of_def get_float_def
        get_int_def get_strs_def dict_get_or_def dict_index_def mk_SessionTargetGroup_def
        mk_SessionCyclePolicy_def validate_session_churn_def Let_def)
qed

section \<open>Properties\<close>

text \<open>
  C35. Session churn survives the trip through the flat step parameters: reading what was written for a
  specification that was read gives the same specification, options at their defaults included,
  except that the scenario's identifier, which is not written, is reset to the default.
\<close>

theorem session_round_trip:
  assumes "session_from_step_params c p = Inr s"
  shows "session_from_step_params c (session_to_step_params s)
     = Inr (s\<lparr>ss_scenario := (ss_scenario s)\<lparr>scenario_id := ''bgp_session_oscillation''\<rparr>\<rparr>)"
  using session_codec.round_trip [OF _ assms] by (simp add: session_canon_def)

theorem session_round_trip_witness:
  "\<exists>s. session_from_step_params demo_conv demo_session_params = Inr s
     \<and> scenario_id (ss_scenario s) = ''mine''
     \<and> session_from_step_params demo_conv (session_to_step_params s)
         = Inr (s\<lparr>ss_scenario := (ss_scenario s)\<lparr>scenario_id := ''bgp_session_oscillation''\<rparr>\<rparr>)"
  using session_round_trip demo_session_run by blast

text \<open>
  A session churn read from step parameters can be executed as specified: its schedule is not
  empty and names only existing groups, group names are unambiguous, no cycle churns more sessions
  than a group has; and its budgets are consistent: at least one cycle runs, as many as fit into
  the duration (a single one may exceed it), and the recovery budget exceeds the sum of the
  budgets of its parts.
\<close>

theorem session_budgets:
  assumes "session_from_step_params c p = Inr s"
  shows "distinct (map sg_name (ss_groups s)) \<and> cy_schedule (ss_cycle s) \<noteq> []
     \<and> list_all (\<lambda>names. names \<noteq> [] \<and> set names \<subseteq> sg_name ` set (ss_groups s)) (cy_schedule (ss_cycle s))
     \<and> list_all (\<lambda>g. 0 < sg_sessions_per_cycle g \<and> sg_sessions_per_cycle g \<le> sg_session_count g) (ss_groups s)
     \<and> (let ex = execution (ss_scenario s); rec = recovery (ss_scenario s)
        in 1 \<le> max_iterations ex
           \<and> of_int (max_iterations ex) * cadence_seconds ex \<le> max (duration_seconds ex) (cadence_seconds ex)
           \<and> (cadence_seconds ex \<le> duration_seconds ex \<longrightarrow>
                duration_seconds ex < (of_int (max_iterations ex) + 1) * cadence_seconds ex)
           \<and> rec_total_timeout_seconds rec =
               ixia_restore_timeout_seconds rec + restore_observation_timeout_seconds rec
               + so_rpc_timeout (ss_observation s) + cancellation_grace_seconds rec)"
proof -
  have made: "session_made s" by (rule session_from_made [OF assms])
  let ?cy = "cy_uptime_seconds (ss_cycle s) + cy_downtime_seconds (ss_cycle s)"
  have cy: "0 < ?cy" using made by (simp add: session_made_def)
  have "execution (ss_scenario s) = \<lparr>duration_seconds = duration_seconds (execution (ss_scenario s)),
      cadence_seconds = ?cy, max_iterations = cycle_count_of (duration_seconds (execution (ss_scenario s))) ?cy\<rparr>"
    using arg_cong [OF session_made_scenario [OF made], of execution] by (simp add: session_scenario_def Let_def)
  then have ex: "cadence_seconds (execution (ss_scenario s)) = ?cy"
    "max_iterations (execution (ss_scenario s)) = cycle_count_of (duration_seconds (execution (ss_scenario s))) ?cy"
    by (metis ExecutionPolicy.select_convs(2, 3))+
  have "recovery (ss_scenario s) = recovery (session_scenario (scenario_id (ss_scenario s))
     (duration_seconds (execution (ss_scenario s))) (ss_cycle s) (so_transition_hard (ss_observation s))
     (so_ixia_restore_floor (ss_observation s)) (so_ixia_restore_per_group (ss_observation s))
     (so_restore_hard (ss_observation s)) (so_rpc_timeout (ss_observation s)) (length (ss_groups s)))"
    by (rule arg_cong [OF session_made_scenario [OF made]])
  then have "let rec = recovery (ss_scenario s)
      in rec_total_timeout_seconds rec = ixia_restore_timeout_seconds rec
           + restore_observation_timeout_seconds rec + so_rpc_timeout (ss_observation s)
           + cancellation_grace_seconds rec"
    by (simp add: session_scenario_def Let_def)
  then show ?thesis
    using session_made_valid [OF made] cycle_count_fits [OF cy] by (simp add: Let_def ex)
qed

theorem session_budgets_witness:
  "\<exists>s. session_from_step_params demo_conv demo_session_params = Inr s
     \<and> max_iterations (execution (ss_scenario s)) = 2
     \<and> distinct (map sg_name (ss_groups s)) \<and> cy_schedule (ss_cycle s) \<noteq> []"
  using session_budgets demo_session_run by blast

end
