(* ===== verification/Churn_Attribute.thy ===== *)
theory Churn_Attribute
  imports Churn_Session
begin

text \<open>
  Attribute churn (\<open>abstractions/churn/attribute.py\<close>): which pools, rows and attribute phases a
  run churns, and the conversion of a specification to flat step parameters and back. The name of
  a pool is a dynamic value: reading the parameters does not convert it.
\<close>

section \<open>Data\<close>

record AttributePoolIdentity =
  ap_afi :: string
  ap_plane :: int
  ap_name :: pyval

record AttributeTargetSelector =
  as_prefix_pools :: "AttributePoolIdentity list"
  as_peer_count_per_pool :: int
  as_row_selection :: UniformRowSelection

record BlockGeometryExpectation =
  bg_routes_per_block :: int
  bg_samples_per_block :: int

record AttributeChurn =
  ac_scenario :: ChurnScenario
  ac_selector :: AttributeTargetSelector
  ac_block_geometry :: BlockGeometryExpectation

text \<open>\<open>_attribute_families\<close>: the families with their phases, or an error if one is a plain family.\<close>

definition attribute_families :: "AttributeChurn \<Rightarrow> (string \<times> (string \<times> pyval) list) list result" where
  "attribute_families s =
     rmap (\<lambda>f. case family_phases f of
                 None \<Rightarrow> Inl (value_error ''attribute churn workloads require AttributeFamily entries'')
               | Some phases \<Rightarrow> Inr (family_name f, phases))
       (families (workload (ac_scenario s)))"

definition mk_AttributeChurn ::
    "ChurnScenario \<Rightarrow> AttributeTargetSelector \<Rightarrow> BlockGeometryExpectation \<Rightarrow> AttributeChurn result" where
  "mk_AttributeChurn scenario selector geometry =
     (let s = \<lparr>ac_scenario = scenario, ac_selector = selector, ac_block_geometry = geometry\<rparr>
      in rbind (attribute_families s) (\<lambda>_. Inr s))"

section \<open>Writing the step parameters\<close>

definition pool_names_dict :: "AttributePoolIdentity list \<Rightarrow> (string, (string, pyval) dict) dict" where
  "pool_names_dict pools =
     fold (\<lambda>p. nested_set (ap_afi p, show_int (ap_plane p)) (ap_name p)) pools []"

definition attribute_to_step_params :: "AttributeChurn \<Rightarrow> params result" where
  "attribute_to_step_params s =
     rbind (attribute_families s) (\<lambda>fams.
       let sc = ac_scenario s; sel = ac_selector s; geo = ac_block_geometry s
       in Inr
        [(''scenario_id'', VStr (scenario_id sc)),
         (''prefix_pool_names'', VDict (map (\<lambda>(afi, d). (afi, VDict d)) (pool_names_dict (as_prefix_pools sel)))),
         (''attribute_matrix'', VDict (dict_of (map (\<lambda>(name, phases). (name, VDict (dict_of phases))) fams))),
         (''peer_count_per_plane'', VInt (as_peer_count_per_pool sel)),
         (''selected_block_count_per_afi'', VInt (rows_per_pool (as_row_selection sel))),
         (''samples_per_block'', VInt (bg_samples_per_block geo)),
         (''routes_per_block'', VInt (bg_routes_per_block geo)),
         (''duration_seconds'', VFloat (duration_seconds (execution sc))),
         (''max_iterations'', VInt (max_iterations (execution sc))),
         (''cadence_seconds'', VFloat (cadence_seconds (execution sc))),
         (''geometry_timeout_seconds'', VFloat (initial_resolution_timeout_seconds (preparation sc))),
         (''snapshot_timeout_seconds'', VFloat (baseline_capture_timeout_seconds (preparation sc))),
         (''work_timeout_seconds'', VFloat (prep_total_timeout_seconds (preparation sc))),
         (''cleanup_timeout_seconds'', VFloat (rec_total_timeout_seconds (recovery sc))),
         (''restore_timeout_seconds'', VFloat (restore_observation_timeout_seconds (recovery sc))),
         (''ixia_restore_timeout_seconds'', VFloat (ixia_restore_timeout_seconds (recovery sc))),
         (''cancellation_grace_seconds'', VFloat (cancellation_grace_seconds (recovery sc)))])"

section \<open>Reading the step parameters\<close>

definition family_order :: "string list" where
  "family_order = [''med'', ''origin'', ''local_pref'']"

definition attribute_family_of :: "pyval \<Rightarrow> string \<Rightarrow> ChurnFamily result" where
  "attribute_family_of matrix family =
     rbind (rbind (py_getitem matrix family) py_items)
       (\<lambda>phases. Inr \<lparr>family_name = family, family_phases = Some phases\<rparr>)"

definition pool_keys :: "(string \<times> int) list" where
  "pool_keys = [(afi, plane). afi \<leftarrow> [''ipv4'', ''ipv6''], plane \<leftarrow> [1, 2, 3, 4]]"

definition attribute_pool_of :: "pyval \<Rightarrow> string \<times> int \<Rightarrow> AttributePoolIdentity result" where
  "attribute_pool_of pool_names key =
     rbind (rbind (py_getitem pool_names (fst key)) (\<lambda>planes. py_getitem planes (show_int (snd key))))
       (\<lambda>name. Inr \<lparr>ap_afi = fst key, ap_plane = snd key, ap_name = name\<rparr>)"

text \<open>\<open>float(params[key])\<close> and \<open>int(params[key])\<close>\<close>

definition req_float :: "text_conv \<Rightarrow> params \<Rightarrow> string \<Rightarrow> rat result" where
  "req_float c params key = rbind (dict_index params key) (py_float c)"

definition req_int :: "text_conv \<Rightarrow> params \<Rightarrow> string \<Rightarrow> int result" where
  "req_int c params key = rbind (dict_index params key) (py_int c)"

definition attribute_policies_of ::
    "text_conv \<Rightarrow> params \<Rightarrow> rat \<Rightarrow> (PreparationPolicy \<times> ExecutionPolicy \<times> RecoveryPolicy) result" where
  "attribute_policies_of c params duration =
     rbind (get_float c params ''geometry_timeout_seconds'' 480) (\<lambda>geometry.
     rbind (get_float c params ''snapshot_timeout_seconds'' 480) (\<lambda>snapshot.
     rbind (get_float c params ''work_timeout_seconds'' (duration + 1500)) (\<lambda>work_timeout.
     rbind (req_float c params ''cadence_seconds'') (\<lambda>cadence.
     rbind (req_int c params ''max_iterations'') (\<lambda>iterations.
     rbind (get_float c params ''cleanup_timeout_seconds'' 720) (\<lambda>cleanup.
     rbind (get_float c params ''restore_timeout_seconds'' 400) (\<lambda>restore_timeout.
     rbind (get_float c params ''ixia_restore_timeout_seconds'' 120) (\<lambda>ixia_restore.
     rbind (get_float c params ''cancellation_grace_seconds'' 10) (\<lambda>grace.
       Inr (\<lparr>initial_resolution_timeout_seconds = geometry, baseline_capture_timeout_seconds = snapshot,
             prep_total_timeout_seconds = work_timeout\<rparr>,
            \<lparr>duration_seconds = duration, cadence_seconds = cadence, max_iterations = iterations\<rparr>,
            \<lparr>rec_total_timeout_seconds = cleanup, restore_observation_timeout_seconds = restore_timeout,
             ixia_restore_timeout_seconds = ixia_restore, cancellation_grace_seconds = grace\<rparr>))))))))))"

definition attribute_selector_of :: "text_conv \<Rightarrow> params \<Rightarrow> AttributeTargetSelector result" where
  "attribute_selector_of c params =
     rbind (dict_index params ''prefix_pool_names'') (\<lambda>pool_names.
     rbind (rmap (attribute_pool_of pool_names) pool_keys) (\<lambda>pools.
     rbind (req_int c params ''peer_count_per_plane'') (\<lambda>peers.
     rbind (rbind (req_int c params ''selected_block_count_per_afi'') mk_UniformRowSelection) (\<lambda>rows.
       Inr \<lparr>as_prefix_pools = pools, as_peer_count_per_pool = peers, as_row_selection = rows\<rparr>))))"

definition attribute_from_step_params :: "text_conv \<Rightarrow> params \<Rightarrow> AttributeChurn result" where
  "attribute_from_step_params c params =
     rbind (dict_index params ''attribute_matrix'') (\<lambda>matrix.
     rbind (rbind (rmap (attribute_family_of matrix) family_order) mk_ChurnWorkload) (\<lambda>wl.
     rbind (req_float c params ''duration_seconds'') (\<lambda>duration.
     rbind (attribute_policies_of c params duration) (\<lambda>(prep, ex, rec).
     rbind (attribute_selector_of c params) (\<lambda>selector.
     rbind (req_int c params ''routes_per_block'') (\<lambda>routes.
     rbind (req_int c params ''samples_per_block'') (\<lambda>samples.
       mk_AttributeChurn
         \<lparr>scenario_id = py_str c (dict_get_or params ''scenario_id'' (VStr ''bgp_ebb_attribute_churn'')),
          workload = wl, preparation = prep, execution = ex, recovery = rec,
          pre_churn_settle = default_SettlePolicy, post_churn_settle = default_SettlePolicy\<rparr>
         selector \<lparr>bg_routes_per_block = routes, bg_samples_per_block = samples\<rparr>)))))))"

section \<open>What the properties speak about\<close>

text \<open>The specifications \<open>from_step_params\<close> builds from proper parameters.\<close>

definition attribute_made :: "AttributeChurn \<Rightarrow> bool" where
  "attribute_made s \<longleftrightarrow>
     map family_name (families (workload (ac_scenario s))) = family_order
     \<and> list_all (\<lambda>f. \<exists>phases. family_phases f = Some phases \<and> py_ok (VDict phases))
         (families (workload (ac_scenario s)))
     \<and> map (\<lambda>p. (ap_afi p, ap_plane p)) (as_prefix_pools (ac_selector s)) = pool_keys
     \<and> list_all (\<lambda>p. py_ok (ap_name p)) (as_prefix_pools (ac_selector s))
     \<and> 0 < rows_per_pool (as_row_selection (ac_selector s))
     \<and> pre_churn_settle (ac_scenario s) = default_SettlePolicy
     \<and> post_churn_settle (ac_scenario s) = default_SettlePolicy"

definition demo_attribute_params :: params where
  "demo_attribute_params =
     (let planes = VDict [(''1'', VStr ''a''), (''2'', VStr ''b''), (''3'', VStr ''c''), (''4'', VStr ''d'')]
      in [(''prefix_pool_names'', VDict [(''ipv4'', planes), (''ipv6'', planes)]),
          (''attribute_matrix'', VDict [(''origin'', VDict []), (''med'', VDict [(''low'', VInt 1), (''high'', VInt 9)]),
             (''local_pref'', VDict [(''p'', VInt 100)])]),
          (''peer_count_per_plane'', VInt 8), (''selected_block_count_per_afi'', VInt 2),
          (''samples_per_block'', VInt 1), (''routes_per_block'', VInt 10),
          (''duration_seconds'', VInt 60), (''max_iterations'', VInt 3), (''cadence_seconds'', VInt 20)])"

section \<open>Lemmas\<close>

lemma families_made:
  assumes "rmap (attribute_family_of m) names = Inr fs" "py_ok m"
  shows "map family_name fs = names" "list_all (\<lambda>f. \<exists>ph. family_phases f = Some ph \<and> py_ok (VDict ph)) fs"
  using assms
proof (induction names arbitrary: fs)
  case (Cons n names)
  { case 1 with Cons show ?case by (auto simp: rbind_eq_Inr attribute_family_of_def) }
  { case 2
    have "py_ok (VDict ph)" if "py_getitem m n = Inr v" "py_items v = Inr ph" for v ph
      using py_getitem_ok [OF 2(2) that(1)] that(2) by (cases v) auto
    with 2 Cons show ?case by (auto simp: rbind_eq_Inr attribute_family_of_def simp del: py_ok.simps) }
qed simp_all

lemma pools_made:
  assumes "rmap (attribute_pool_of m) keys = Inr ps" "py_ok m"
  shows "map (\<lambda>p. (ap_afi p, ap_plane p)) ps = keys" "list_all (\<lambda>p. py_ok (ap_name p)) ps"
  using assms
proof (induction keys arbitrary: ps)
  case (Cons k keys)
  { case 1 with Cons show ?case by (auto simp: rbind_eq_Inr attribute_pool_of_def) }
  { case 2
    have "py_ok name" if "py_getitem m (fst k) = Inr v" "py_getitem v (show_int (snd k)) = Inr name" for v name
      using py_getitem_ok py_getitem_ok [OF 2(2)] that by blast
    with 2 Cons show ?case by (auto simp: rbind_eq_Inr attribute_pool_of_def simp del: py_ok.simps) }
qed simp_all

lemma attribute_from_made:
  assumes ok: "py_ok (VDict p)" and read: "attribute_from_step_params c p = Inr s"
  shows "attribute_made s"
proof -
  note unfolded = read [unfolded attribute_from_step_params_def mk_AttributeChurn_def Let_def]
  obtain m where m: "dict_index p ''attribute_matrix'' = Inr m" using unfolded by (auto simp: rbind_eq_Inr)
  obtain fs where fs: "rmap (attribute_family_of m) family_order = Inr fs"
    "workload (ac_scenario s) = \<lparr>families = fs\<rparr>"
    using unfolded m by (auto simp: rbind_eq_Inr mk_ChurnWorkload_def split: if_splits)
  obtain pn ps where pn: "dict_index p ''prefix_pool_names'' = Inr pn"
    "rmap (attribute_pool_of pn) pool_keys = Inr ps" "as_prefix_pools (ac_selector s) = ps"
    "0 < rows_per_pool (as_row_selection (ac_selector s))"
    using unfolded by (auto simp: rbind_eq_Inr attribute_selector_of_def mk_UniformRowSelection_def split: if_splits)
  have "pre_churn_settle (ac_scenario s) = default_SettlePolicy"
    "post_churn_settle (ac_scenario s) = default_SettlePolicy"
    using unfolded by (auto simp: rbind_eq_Inr)
  with families_made [OF fs(1) dict_index_ok [OF ok m]] pools_made [OF pn(2) dict_index_ok [OF ok pn(1)]] fs pn
  show ?thesis by (simp add: attribute_made_def)
qed

lemma attribute_families_written:
  assumes "list_all (\<lambda>f. \<exists>ph. family_phases f = Some ph \<and> py_ok (VDict ph)) (families (workload (ac_scenario s)))"
  shows "attribute_families s = Inr (map (\<lambda>f. (family_name f, the (family_phases f))) (families (workload (ac_scenario s))))"
  unfolding attribute_families_def using assms
  by (intro rmap_all_Inr) (auto simp: list_all_iff split: option.splits)

lemma attribute_families_read:
  assumes ok: "list_all (\<lambda>f. \<exists>ph. family_phases f = Some ph \<and> py_ok (VDict ph)) fs"
    and dist: "distinct (map family_name fs)"
  defines "m \<equiv> VDict (dict_of (map (\<lambda>(name, phases). (name, VDict (dict_of phases)))
      (map (\<lambda>f. (family_name f, the (family_phases f))) fs)))"
  shows "rmap (attribute_family_of m) (map family_name fs) = Inr fs" and "py_ok m"
proof -
  have same: "map (\<lambda>(name, phases). (name, VDict (dict_of phases))) (map (\<lambda>f. (family_name f, the (family_phases f))) fs)
      = map (\<lambda>f. (family_name f, VDict (the (family_phases f)))) fs"
    using ok by (auto simp: list_all_iff dict_of_distinct)
  have m: "m = VDict (map (\<lambda>f. (family_name f, VDict (the (family_phases f)))) fs)"
    unfolding m_def same using dist by (subst dict_of_distinct) (simp_all add: comp_def)
  have "attribute_family_of m (family_name f) = Inr f" if "f \<in> set fs" for f
  proof -
    have "map_of (map (\<lambda>f. (family_name f, VDict (the (family_phases f)))) fs) (family_name f)
        = Some (VDict (the (family_phases f)))"
      using that dist by (intro map_of_is_SomeI) (auto simp: comp_def)
    then show ?thesis
      using ok that by (auto simp: attribute_family_of_def m dict_index_def list_all_iff)
  qed
  then show "rmap (attribute_family_of m) (map family_name fs) = Inr fs" by (intro rmap_written) auto
  have "py_ok (VDict (the (family_phases f)))" if "f \<in> set fs" for f using ok that by (auto simp: list_all_iff simp del: py_ok.simps)
  then show "py_ok m" using dist by (simp add: m comp_def)
qed

lemma update_map_values: "dict_set k (f v) (map (\<lambda>(a, e). (a, f e)) d) = map (\<lambda>(a, e). (a, f e)) (dict_set k v d)"
  by (induction d) auto

lemma nested_get_set: "nested_get (nested_set k v d) k' = (if k' = k then Some v else nested_get d k')"
  by (cases k; cases k') (simp add: nested_get_def nested_set_def dict_get_or_set)

abbreviation pool_key :: "AttributePoolIdentity \<Rightarrow> string \<times> string" where
  "pool_key p \<equiv> (ap_afi p, show_int (ap_plane p))"

lemma nested_get_pools:
  assumes "distinct (map pool_key pools)"
  shows "nested_get (fold (\<lambda>p. nested_set (pool_key p) (ap_name p)) pools d) k =
     (case map_of (map (\<lambda>p. (pool_key p, ap_name p)) pools) k of Some v \<Rightarrow> Some v | None \<Rightarrow> nested_get d k)"
  using assms
proof (induction pools arbitrary: d)
  case (Cons p pools)
  have "map_of (map (\<lambda>p. (pool_key p, ap_name p)) pools) (pool_key p) = None"
    using Cons.prems by (auto simp: map_of_eq_None_iff)
  with Cons show ?case by (auto simp: nested_get_set split: option.splits)
qed simp

lemma pool_names_read:
  assumes "nested_get d (a, k) = Some v"
  shows "rbind (py_getitem (VDict (map (\<lambda>(afi, e). (afi, VDict e)) d)) a) (\<lambda>planes. py_getitem planes k) = Inr v"
  using assms by (auto simp: nested_get_def dict_get_or_def dict_index_def map_of_map split: option.splits)

lemma attribute_pools_read:
  assumes "distinct (map pool_key pools)"
  shows "rmap (attribute_pool_of (VDict (map (\<lambda>(afi, d). (afi, VDict d)) (pool_names_dict pools))))
      (map (\<lambda>p. (ap_afi p, ap_plane p)) pools) = Inr pools"
proof (rule rmap_written)
  fix p assume p: "p \<in> set pools"
  have "map_of (map (\<lambda>p. (pool_key p, ap_name p)) pools) (pool_key p) = Some (ap_name p)"
    using p assms by (intro map_of_is_SomeI) (auto simp: comp_def)
  then have "nested_get (pool_names_dict pools) (pool_key p) = Some (ap_name p)"
    using nested_get_pools [OF assms] by (simp add: pool_names_dict_def)
  from pool_names_read [OF this] show "attribute_pool_of
      (VDict (map (\<lambda>(afi, d). (afi, VDict d)) (pool_names_dict pools))) (ap_afi p, ap_plane p) = Inr p"
    by (simp add: attribute_pool_of_def)
qed

abbreviation pools_value :: "(string, (string, pyval) dict) dict \<Rightarrow> pyval" where
  "pools_value d \<equiv> VDict (map (\<lambda>(afi, e). (afi, VDict e)) d)"

lemma update_subset: "set (dict_set k v d) \<subseteq> insert (k, v) (set d)"
  by (induction d) auto

lemma py_ok_dict_set: "py_ok (VDict d) \<Longrightarrow> py_ok v \<Longrightarrow> py_ok (VDict (dict_set k v d))"
  using update_subset [of k v d] by (auto simp: distinct_update)

lemma nested_set_ok:
  assumes "py_ok (pools_value d)" "py_ok v"
  shows "py_ok (pools_value (nested_set k v d))"
proof -
  have inner: "py_ok (VDict (dict_get_or d (fst k) []))"
    using assms(1) by (fastforce simp: dict_get_or_def split: option.splits dest: map_of_SomeD)
  have "pools_value (nested_set k v d)
      = VDict (dict_set (fst k) (VDict (dict_set (snd k) v (dict_get_or d (fst k) [])))
          (map (\<lambda>(afi, e). (afi, VDict e)) d))"
    by (simp add: nested_set_def update_map_values)
  then show ?thesis using assms(1) py_ok_dict_set [OF inner assms(2)] py_ok_dict_set by metis
qed

lemma pool_names_ok:
  "py_ok (pools_value d) \<Longrightarrow> list_all (\<lambda>p. py_ok (ap_name p)) pools \<Longrightarrow>
     py_ok (pools_value (fold (\<lambda>p. nested_set (pool_key p) (ap_name p)) pools d))"
  by (induction pools arbitrary: d) (simp_all add: nested_set_ok del: py_ok.simps)

lemma pool_keys_distinct: "distinct (map (\<lambda>(afi, plane). (afi, show_int plane)) pool_keys)"
  by code_simp

lemma attribute_made_round_trip:
  assumes made: "attribute_made s"
  shows "\<exists>q. attribute_to_step_params s = Inr q \<and> py_ok (VDict q) \<and> attribute_from_step_params c q = Inr s"
proof -
  let ?fs = "families (workload (ac_scenario s))" and ?ps = "as_prefix_pools (ac_selector s)"
  note m = made [unfolded attribute_made_def]
  have fs: "list_all (\<lambda>f. \<exists>ph. family_phases f = Some ph \<and> py_ok (VDict ph)) ?fs"
    "distinct (map family_name ?fs)" and ne: "?fs \<noteq> []"
    using m by (auto simp: family_order_def)
  have keys: "distinct (map pool_key ?ps)"
  proof -
    have "map pool_key ?ps = map (\<lambda>(afi, plane). (afi, show_int plane)) (map (\<lambda>p. (ap_afi p, ap_plane p)) ?ps)"
      by simp
    then show ?thesis using m pool_keys_distinct by presburger
  qed
  note families_back = attribute_families_read [OF fs]
  note pools_back = attribute_pools_read [OF keys]
  have pools_ok: "py_ok (pools_value (pool_names_dict ?ps))"
    unfolding pool_names_dict_def using m by (intro pool_names_ok) simp_all
  obtain q where q: "attribute_to_step_params s = Inr q" and ok: "py_ok (VDict q)"
    using families_back(2) pools_ok
    by (simp add: attribute_to_step_params_def attribute_families_written [OF fs(1)] Let_def del: py_ok.simps)
       (simp add: comp_def)
  note written = q [unfolded attribute_to_step_params_def attribute_families_written [OF fs(1)] Let_def, simplified, symmetric]
  have names: "family_order = map family_name ?fs" "pool_keys = map (\<lambda>p. (ap_afi p, ap_plane p)) ?ps"
    using m by simp_all
  have policies: "attribute_policies_of c q (duration_seconds (execution (ac_scenario s)))
      = Inr (preparation (ac_scenario s), execution (ac_scenario s), recovery (ac_scenario s))"
    by (simp add: attribute_policies_of_def written get_float_def req_float_def req_int_def dict_get_or_def
        dict_index_def)
  have rows: "mk_UniformRowSelection (rows_per_pool (as_row_selection (ac_selector s))) = Inr (as_row_selection (ac_selector s))"
    using m by (simp add: mk_UniformRowSelection_def)
  have selector: "attribute_selector_of c q = Inr (ac_selector s)"
    using pools_back by (simp add: attribute_selector_of_def written req_int_def dict_index_def names rows)
  obtain matrix where matrix: "dict_index q ''attribute_matrix'' = Inr matrix"
      "rmap (attribute_family_of matrix) family_order = Inr ?fs"
    using families_back(1) by (simp add: written names(1) dict_index_def)
  have wl: "mk_ChurnWorkload ?fs = Inr (workload (ac_scenario s))" using ne by (simp add: mk_ChurnWorkload_def)
  have fields: "req_float c q ''duration_seconds'' = Inr (duration_seconds (execution (ac_scenario s)))"
      "req_int c q ''routes_per_block'' = Inr (bg_routes_per_block (ac_block_geometry s))"
      "req_int c q ''samples_per_block'' = Inr (bg_samples_per_block (ac_block_geometry s))"
      "dict_get_or q ''scenario_id'' (VStr ''bgp_ebb_attribute_churn'') = VStr (scenario_id (ac_scenario s))"
    by (simp_all add: written dict_index_def req_float_def req_int_def dict_get_or_def)
  have settle: "ac_scenario s = \<lparr>scenario_id = scenario_id (ac_scenario s), workload = workload (ac_scenario s),
      preparation = preparation (ac_scenario s), execution = execution (ac_scenario s),
      recovery = recovery (ac_scenario s), pre_churn_settle = default_SettlePolicy,
      post_churn_settle = default_SettlePolicy\<rparr>"
    using m by simp
  have whole: "\<lparr>ac_scenario = ac_scenario s, ac_selector = ac_selector s, ac_block_geometry = ac_block_geometry s\<rparr> = s"
    by simp
  have geometry: "\<lparr>bg_routes_per_block = bg_routes_per_block g, bg_samples_per_block = bg_samples_per_block g\<rparr> = g"
    for g by simp
  have "attribute_from_step_params c q = mk_AttributeChurn (ac_scenario s) (ac_selector s) (ac_block_geometry s)"
    unfolding attribute_from_step_params_def
    by (simp add: matrix wl fields policies selector settle [symmetric] geometry)
  also have "\<dots> = Inr s"
    using attribute_families_written [OF fs(1)] by (simp add: mk_AttributeChurn_def Let_def whole)
  finally show ?thesis using q ok by blast
qed

interpretation attribute_codec: step_codec attribute_to_step_params "attribute_from_step_params c" "\<lambda>s. s"
    "\<lambda>p. py_ok (VDict p)" for c
  by unfold_locales (use attribute_made_round_trip attribute_from_made in blast)+

section \<open>Properties\<close>

text \<open>
  Attribute churn survives the trip through the flat step parameters unchanged: for every proper
  dictionary of parameters that is accepted, the specification that was read can be written, and
  reading what was written gives exactly that specification, its pools, phases and budgets
  included.
\<close>

theorem attribute_round_trip:
  assumes "py_ok (VDict p)" and "attribute_from_step_params c p = Inr s"
  shows "rbind (attribute_to_step_params s) (attribute_from_step_params c) = Inr s"
  by (rule attribute_codec.stable [OF assms])

theorem attribute_round_trip_witness:
  "py_ok (VDict demo_attribute_params)
   \<and> (\<exists>s. attribute_from_step_params demo_conv demo_attribute_params = Inr s
        \<and> max_iterations (execution (ac_scenario s)) = 3
        \<and> rbind (attribute_to_step_params s) (attribute_from_step_params demo_conv) = Inr s)"
proof -
  have ok: "py_ok (VDict demo_attribute_params)" by (simp add: demo_attribute_params_def Let_def)
  have digits: "show_int 1 = ''1''" "show_int 2 = ''2''" "show_int 3 = ''3''" "show_int 4 = ''4''"
    by code_simp+
  have "\<exists>s. attribute_from_step_params demo_conv demo_attribute_params = Inr s
      \<and> max_iterations (execution (ac_scenario s)) = 3"
    by (simp add: demo_attribute_params_def attribute_from_step_params_def attribute_policies_of_def
        attribute_selector_of_def attribute_pool_of_def attribute_family_of_def family_order_def pool_keys_def
        get_float_def req_float_def req_int_def dict_get_or_def dict_index_def mk_ChurnWorkload_def
        mk_UniformRowSelection_def mk_AttributeChurn_def attribute_families_def digits Let_def)
  then show ?thesis using attribute_round_trip [OF ok] ok by blast
qed

end
