(* ===== verification/Churn_Route.thy ===== *)
theory Churn_Route
  imports Churn_Session
begin

text \<open>
  Route churn and route storms (\<open>abstractions/churn/route.py\<close>): target selection, cycle and
  observation policies with their checks, the conversion of route churn to flat step parameters
  and back, and the scenario and budgets a route storm derives.
\<close>

section \<open>Route churn\<close>

record RouteTargetSelector =
  rt_prefix_pool_regex :: string
  rt_expected_pool_names :: "string list"
  rt_prefix_start_index :: int
  rt_prefix_end_index :: int
  rt_expected_established :: int
  rt_parent_prefixes_to_ignore :: "string list"
  rt_pool_names_by_afi :: "(string, string) dict option"

definition validate_route_selector :: "RouteTargetSelector \<Rightarrow> RouteTargetSelector result" where
  "validate_route_selector t =
     (if rt_prefix_start_index t < 0 \<or> rt_prefix_end_index t \<le> rt_prefix_start_index t
      then Inl (value_error ''prefix range must be nonempty and half-open'')
      else case rt_pool_names_by_afi t of
        None \<Rightarrow> Inr t
      | Some by_afi \<Rightarrow>
          if set (dict_keys by_afi) \<noteq> {''ipv4'', ''ipv6''}
          then Inl (value_error ''prefix_pool_names_by_afi keys must be exactly ipv4 and ipv6'')
          else if set (map snd by_afi) \<noteq> set (rt_expected_pool_names t)
          then Inl (value_error ''prefix_pool_names_by_afi must exactly match expected_prefix_pool_names'')
          else Inr t)"

record RouteCyclePolicy =
  rc_withdraw_seconds :: rat
  rc_readvertise_seconds :: rat

definition mk_RouteCyclePolicy :: "rat \<Rightarrow> rat \<Rightarrow> RouteCyclePolicy result" where
  "mk_RouteCyclePolicy withdraw readvertise =
     (if withdraw \<le> 0 \<or> readvertise \<le> 0
      then Inl (value_error ''withdraw and readvertise durations must be positive'')
      else Inr \<lparr>rc_withdraw_seconds = withdraw, rc_readvertise_seconds = readvertise\<rparr>)"

record RouteObservationPolicy =
  rob_poll_interval :: rat
  rob_transition_soft :: rat
  rob_transition_hard :: rat
  rob_confirmation :: rat
  rob_restore_soft :: rat
  rob_restore_hard :: rat
  rob_quiet_window :: rat
  rob_max_lookup_concurrency :: int
  rob_sample_peer_count :: int
  rob_sample_route_count :: int
  rob_lookup_attempts :: int
  rob_lookup_retry :: rat
  rob_max_observation_failures :: int
  rob_fail_on_session_flap :: bool

record RouteChurn =
  rch_scenario :: ChurnScenario
  rch_selector :: RouteTargetSelector
  rch_cycle :: RouteCyclePolicy
  rch_observation :: RouteObservationPolicy

subsection \<open>Writing the step parameters\<close>

definition route_options :: "RouteObservationPolicy \<Rightarrow> (string \<times> pyval \<times> pyval) list" where
  "route_options ob =
     [(''poll_interval_seconds'', VFloat (rob_poll_interval ob), VFloat 5),
      (''transition_soft_threshold_seconds'', VFloat (rob_transition_soft ob), VFloat 60),
      (''transition_hard_timeout_seconds'', VFloat (rob_transition_hard ob), VFloat 300),
      (''confirmation_seconds'', VFloat (rob_confirmation ob), VFloat 5),
      (''restore_soft_threshold_seconds'', VFloat (rob_restore_soft ob), VFloat 120),
      (''restore_hard_timeout_seconds'', VFloat (rob_restore_hard ob), VFloat 300),
      (''quiet_window_seconds'', VFloat (rob_quiet_window ob), VFloat 30),
      (''max_lookup_concurrency'', VInt (rob_max_lookup_concurrency ob), VInt 8),
      (''sample_peer_count'', VInt (rob_sample_peer_count ob), VInt 7),
      (''sample_route_count'', VInt (rob_sample_route_count ob), VInt 3),
      (''lookup_attempts'', VInt (rob_lookup_attempts ob), VInt 3),
      (''lookup_retry_seconds'', VFloat (rob_lookup_retry ob), VFloat 1),
      (''max_consecutive_observation_failures'', VInt (rob_max_observation_failures ob), VInt 3),
      (''fail_on_session_flap'', VBool (rob_fail_on_session_flap ob), VBool True)]"

definition route_base_params :: "RouteChurn \<Rightarrow> params" where
  "route_base_params s =
     (let t = rch_selector s; cy = rch_cycle s
      in [(''prefix_pool_regex'', VStr (rt_prefix_pool_regex t)),
          (''expected_prefix_pool_names'', VList (map VStr (rt_expected_pool_names t))),
          (''expected_established_sessions'', VInt (rt_expected_established t)),
          (''prefix_start_index'', VInt (rt_prefix_start_index t)),
          (''prefix_end_index'', VInt (rt_prefix_end_index t)),
          (''withdraw_time'', json_number (rc_withdraw_seconds cy)),
          (''readvertise_time'', json_number (rc_readvertise_seconds cy)),
          (''test_duration_seconds'', json_number (duration_seconds (execution (rch_scenario s)))),
          (''parent_prefixes_to_ignore'', VList (map VStr (rt_parent_prefixes_to_ignore t)))]
         @ (case rt_pool_names_by_afi t of
              None \<Rightarrow> []
            | Some by_afi \<Rightarrow>
                [(''prefix_pool_names_by_afi'', VDict (map (\<lambda>(afi, name). (afi, VStr name)) by_afi))]))"

definition route_to_step_params :: "RouteChurn \<Rightarrow> params" where
  "route_to_step_params s = add_optionals (route_options (rch_observation s)) (route_base_params s)"

subsection \<open>Reading the step parameters\<close>

definition route_scenario :: "string \<Rightarrow> rat \<Rightarrow> RouteCyclePolicy \<Rightarrow> rat \<Rightarrow> rat \<Rightarrow> ChurnScenario" where
  "route_scenario sid duration cycle transition_timeout restore_timeout =
     (let cycle_seconds = rc_withdraw_seconds cycle + rc_readvertise_seconds cycle;
          cycles = cycle_count_of duration cycle_seconds
      in \<lparr>scenario_id = sid,
          workload = \<lparr>families = [\<lparr>family_name = ''routes'', family_phases = None\<rparr>]\<rparr>,
          preparation = \<lparr>initial_resolution_timeout_seconds = transition_timeout,
            baseline_capture_timeout_seconds = transition_timeout,
            prep_total_timeout_seconds = duration + 2 * transition_timeout * of_int cycles\<rparr>,
          execution = \<lparr>duration_seconds = duration, cadence_seconds = cycle_seconds,
            max_iterations = cycles\<rparr>,
          recovery = \<lparr>rec_total_timeout_seconds = restore_timeout + 10,
            restore_observation_timeout_seconds = restore_timeout,
            ixia_restore_timeout_seconds = restore_timeout, cancellation_grace_seconds = 10\<rparr>,
          pre_churn_settle = default_SettlePolicy, post_churn_settle = default_SettlePolicy\<rparr>)"

text \<open>\<open>prefix_pool_names_by_afi\<close>: absent or \<open>None\<close>, a dictionary, or an error.\<close>

definition pool_names_by_afi_of :: "text_conv \<Rightarrow> params \<Rightarrow> (string, string) dict option result" where
  "pool_names_by_afi_of c params =
     (case dict_get_or params ''prefix_pool_names_by_afi'' VNone of
        VNone \<Rightarrow> Inr None
      | VDict d \<Rightarrow> Inr (Some (dict_of (map (\<lambda>(afi, name). (afi, py_str c name)) d)))
      | _ \<Rightarrow> Inl (value_error ''prefix_pool_names_by_afi must be a mapping''))"

definition route_selector_of ::
    "text_conv \<Rightarrow> params \<Rightarrow> (string, string) dict option \<Rightarrow> RouteTargetSelector result" where
  "route_selector_of c params by_afi =
     rbind (get_strs c params ''expected_prefix_pool_names'') (\<lambda>names.
     rbind (get_int c params ''prefix_start_index'' 0) (\<lambda>first.
     rbind (get_int c params ''prefix_end_index'' 1) (\<lambda>after_last.
     rbind (get_int c params ''expected_established_sessions'' 0) (\<lambda>expected.
     rbind (get_strs c params ''parent_prefixes_to_ignore'') (\<lambda>ignored.
       validate_route_selector
         \<lparr>rt_prefix_pool_regex = py_str c (dict_get_or params ''prefix_pool_regex'' (VStr [])),
          rt_expected_pool_names = names, rt_prefix_start_index = first, rt_prefix_end_index = after_last,
          rt_expected_established = expected, rt_parent_prefixes_to_ignore = ignored,
          rt_pool_names_by_afi = by_afi\<rparr>)))))"

definition route_observation_of :: "text_conv \<Rightarrow> params \<Rightarrow> rat \<Rightarrow> RouteObservationPolicy result" where
  "route_observation_of c params transition_timeout =
     rbind (get_float c params ''poll_interval_seconds'' 5) (\<lambda>poll.
     rbind (get_float c params ''transition_soft_threshold_seconds'' 60) (\<lambda>transition_soft.
     rbind (get_float c params ''confirmation_seconds'' 5) (\<lambda>confirmation.
     rbind (get_float c params ''restore_soft_threshold_seconds'' 120) (\<lambda>restore_soft.
     rbind (get_float c params ''restore_hard_timeout_seconds'' 300) (\<lambda>restore_hard.
     rbind (get_float c params ''quiet_window_seconds'' 30) (\<lambda>quiet.
     rbind (get_int c params ''max_lookup_concurrency'' 8) (\<lambda>concurrency.
     rbind (get_int c params ''sample_peer_count'' 7) (\<lambda>peers.
     rbind (get_int c params ''sample_route_count'' 3) (\<lambda>routes.
     rbind (get_int c params ''lookup_attempts'' 3) (\<lambda>attempts.
     rbind (get_float c params ''lookup_retry_seconds'' 1) (\<lambda>retry.
     rbind (get_int c params ''max_consecutive_observation_failures'' 3) (\<lambda>failures.
       Inr \<lparr>rob_poll_interval = poll, rob_transition_soft = transition_soft,
            rob_transition_hard = transition_timeout, rob_confirmation = confirmation,
            rob_restore_soft = restore_soft, rob_restore_hard = restore_hard, rob_quiet_window = quiet,
            rob_max_lookup_concurrency = concurrency, rob_sample_peer_count = peers,
            rob_sample_route_count = routes, rob_lookup_attempts = attempts, rob_lookup_retry = retry,
            rob_max_observation_failures = failures,
            rob_fail_on_session_flap = py_bool (dict_get_or params ''fail_on_session_flap'' (VBool True))\<rparr>))))))))))))"

definition route_from_step_params :: "text_conv \<Rightarrow> params \<Rightarrow> RouteChurn result" where
  "route_from_step_params c params =
     rbind (get_float c params ''test_duration_seconds'' 120) (\<lambda>duration.
     rbind (get_float c params ''withdraw_time'' 60) (\<lambda>withdraw.
     rbind (get_float c params ''readvertise_time'' 60) (\<lambda>readvertise.
     rbind (mk_RouteCyclePolicy withdraw readvertise) (\<lambda>cycle.
     rbind (get_float c params ''transition_hard_timeout_seconds'' 300) (\<lambda>transition_timeout.
     rbind (pool_names_by_afi_of c params) (\<lambda>by_afi.
     rbind (get_float c params ''restore_hard_timeout_seconds'' 300) (\<lambda>restore_timeout.
     rbind (route_selector_of c params by_afi) (\<lambda>selector.
     rbind (route_observation_of c params transition_timeout) (\<lambda>observation.
       Inr \<lparr>rch_scenario = route_scenario
              (py_str c (dict_get_or params ''scenario_id'' (VStr ''bgp_route_oscillation'')))
              duration cycle transition_timeout restore_timeout,
            rch_selector = selector, rch_cycle = cycle, rch_observation = observation\<rparr>)))))))))"

section \<open>Route storms\<close>

text \<open>
  The fields of a route storm have the types of their annotations. \<open>from_step_params\<close> of a
  route storm, which stores the parameters unconverted, is not modelled.
\<close>

record RouteStormTargetSelector =
  rs_interface :: string
  rs_observer_parent_prefix :: string
  rs_ipv4_pool :: string
  rs_ipv6_pool :: string
  rs_peer_count_per_plane :: int
  rs_selected_peer_rows :: "int list"

definition validate_storm_selector :: "RouteStormTargetSelector \<Rightarrow> unit result" where
  "validate_storm_selector t =
     (if rs_interface t = [] \<or> rs_observer_parent_prefix t = [] \<or> rs_ipv4_pool t = [] \<or> rs_ipv6_pool t = []
      then Inl (value_error ''route-storm selectors must be non-empty'')
      else if rs_selected_peer_rows t \<noteq> sorted_list_of_set (set (rs_selected_peer_rows t))
      then Inl (value_error ''selected_peer_rows must be unique and sorted'')
      else if list_ex (\<lambda>row. row < 0 \<or> row \<ge> rs_peer_count_per_plane t) (rs_selected_peer_rows t)
      then Inl (value_error ''selected_peer_rows must be in range'')
      else Inr ())"

record RouteStormCyclePolicy =
  st_cycles :: int
  st_advertise_seconds :: int
  st_withdraw_seconds :: int

record RouteStormObservationPolicy =
  st_poll_interval :: int
  st_convergence_hard :: int
  st_session_establish :: int
  st_restore :: int
  st_quiet_window :: int
  st_max_lookup_concurrency :: int

record RouteStormAttributeShape =
  st_as_path_pool_size :: int
  st_as_path_length :: int
  st_as_set_length :: int
  st_communities_per_route :: int
  st_extended_communities_per_route :: int

definition validate_storm_attributes :: "RouteStormAttributeShape \<Rightarrow> unit result" where
  "validate_storm_attributes a =
     raise_if (st_as_path_length a \<noteq> 255 \<or> st_as_set_length a \<noteq> 255 \<or> st_extended_communities_per_route a \<noteq> 16)
       (value_error ''CICD-EBB-11 requires 255-AS AS_SEQUENCE and AS_SET segments plus 16 extended communities'')"

text \<open>The fields of \<open>RouteStormGeometry\<close> and \<open>RouteStormHeavySetup\<close> are inlined.\<close>

record RouteStorm =
  st_expected_established :: int
  st_selector :: RouteStormTargetSelector
  st_routes_per_peer :: int
  st_samples_per_block :: int
  st_cycle :: RouteStormCyclePolicy
  st_observation :: RouteStormObservationPolicy
  st_setup_hard_timeout :: int
  st_route_batch_rows :: int
  st_attributes :: RouteStormAttributeShape
  st_bounded_validation :: bool

definition storm_numeric_values :: "RouteStorm \<Rightarrow> int list" where
  "storm_numeric_values s =
     (let cy = st_cycle s; ob = st_observation s; at' = st_attributes s
      in [st_expected_established s, rs_peer_count_per_plane (st_selector s), st_routes_per_peer s,
          st_samples_per_block s, st_cycles cy, st_advertise_seconds cy, st_withdraw_seconds cy,
          st_poll_interval ob, st_convergence_hard ob, st_setup_hard_timeout s, st_route_batch_rows s,
          st_session_establish ob, st_restore ob, st_quiet_window ob, st_max_lookup_concurrency ob,
          st_as_path_pool_size at', st_as_path_length at', st_as_set_length at', st_communities_per_route at',
          st_extended_communities_per_route at'])"

definition route_path_count :: "RouteStorm \<Rightarrow> int" where
  "route_path_count s = int (length (rs_selected_peer_rows (st_selector s))) * st_routes_per_peer s * 2"

text \<open>The selector and the attribute shape are checked when they are built, before the storm itself.\<close>

definition mk_RouteStorm :: "RouteStorm \<Rightarrow> RouteStorm result" where
  "mk_RouteStorm s =
     rbind (validate_storm_selector (st_selector s)) (\<lambda>_.
     rbind (validate_storm_attributes (st_attributes s)) (\<lambda>_.
       if list_ex (\<lambda>v. v \<le> 0) (storm_numeric_values s)
       then Inl (value_error ''BGP route-storm numeric parameters must be positive'')
       else if route_path_count s \<noteq> 10500
       then Inl (value_error ''CICD-EBB-11 requires exactly 10,500 dual-stack route paths'')
       else Inr s))"

definition storm_scenario :: "RouteStorm \<Rightarrow> ChurnScenario" where
  "storm_scenario s =
     (let cy = st_cycle s; ob = st_observation s;
          cycle_seconds = st_withdraw_seconds cy + st_advertise_seconds cy;
          execution_seconds = st_cycles cy * cycle_seconds;
          transition_budget = st_cycles cy * 2 * st_convergence_hard ob;
          work_budget = st_setup_hard_timeout s + st_session_establish ob + st_quiet_window ob
            + execution_seconds + transition_budget
      in \<lparr>scenario_id = ''bgp_route_storm'',
          workload = \<lparr>families = [\<lparr>family_name = ''routes'', family_phases = None\<rparr>]\<rparr>,
          preparation = \<lparr>initial_resolution_timeout_seconds = of_int (st_session_establish ob),
            baseline_capture_timeout_seconds = of_int (st_quiet_window ob),
            prep_total_timeout_seconds = of_int work_budget\<rparr>,
          execution = \<lparr>duration_seconds = of_int execution_seconds, cadence_seconds = of_int cycle_seconds,
            max_iterations = st_cycles cy\<rparr>,
          recovery = \<lparr>rec_total_timeout_seconds = of_int (st_restore ob) + 10,
            restore_observation_timeout_seconds = of_int (st_restore ob),
            ixia_restore_timeout_seconds = of_int (st_restore ob), cancellation_grace_seconds = 10\<rparr>,
          pre_churn_settle = default_SettlePolicy, post_churn_settle = default_SettlePolicy\<rparr>)"

definition storm_to_step_params :: "RouteStorm \<Rightarrow> params" where
  "storm_to_step_params s =
     (let t = st_selector s; cy = st_cycle s; ob = st_observation s; at' = st_attributes s
      in [(''ixia_interface_mimic_ibgp'', VStr (rs_interface t)),
          (''observer_peer_parent_prefix'', VStr (rs_observer_parent_prefix t)),
          (''prefix_pool_names'', VDict [(''ipv4'', VStr (rs_ipv4_pool t)), (''ipv6'', VStr (rs_ipv6_pool t))]),
          (''selected_peer_rows'', VList (map VInt (rs_selected_peer_rows t)))]
         @ (if st_bounded_validation s then [(''bounded_validation'', VBool True)] else [])
         @ [(''expected_established_sessions'', VInt (st_expected_established s)),
            (''peer_count_per_plane'', VInt (rs_peer_count_per_plane t)),
            (''routes_per_peer'', VInt (st_routes_per_peer s)),
            (''samples_per_block'', VInt (st_samples_per_block s)),
            (''cycles'', VInt (st_cycles cy)), (''advertise_seconds'', VInt (st_advertise_seconds cy)),
            (''withdraw_seconds'', VInt (st_withdraw_seconds cy)),
            (''poll_interval_seconds'', VInt (st_poll_interval ob)),
            (''convergence_hard_timeout_seconds'', VInt (st_convergence_hard ob)),
            (''heavy_setup_hard_timeout_seconds'', VInt (st_setup_hard_timeout s)),
            (''heavy_route_batch_rows'', VInt (st_route_batch_rows s)),
            (''session_establish_timeout_seconds'', VInt (st_session_establish ob)),
            (''restore_timeout_seconds'', VInt (st_restore ob)),
            (''quiet_window_seconds'', VInt (st_quiet_window ob)),
            (''max_lookup_concurrency'', VInt (st_max_lookup_concurrency ob)),
            (''as_path_pool_size'', VInt (st_as_path_pool_size at')),
            (''as_path_length'', VInt (st_as_path_length at')), (''as_set_length'', VInt (st_as_set_length at')),
            (''communities_per_route'', VInt (st_communities_per_route at')),
            (''extended_communities_per_route'', VInt (st_extended_communities_per_route at'))])"

section \<open>What the properties speak about\<close>

definition route_canon :: "RouteChurn \<Rightarrow> RouteChurn" where
  "route_canon s = s\<lparr>rch_scenario := (rch_scenario s)\<lparr>scenario_id := ''bgp_route_oscillation''\<rparr>\<rparr>"

definition route_made :: "RouteChurn \<Rightarrow> bool" where
  "route_made s \<longleftrightarrow>
     0 < rc_withdraw_seconds (rch_cycle s) \<and> 0 < rc_readvertise_seconds (rch_cycle s)
     \<and> validate_route_selector (rch_selector s) = Inr (rch_selector s)
     \<and> (case rt_pool_names_by_afi (rch_selector s) of None \<Rightarrow> True | Some d \<Rightarrow> distinct (map fst d))
     \<and> rch_scenario s = route_scenario (scenario_id (rch_scenario s))
          (duration_seconds (execution (rch_scenario s))) (rch_cycle s)
          (rob_transition_hard (rch_observation s)) (rob_restore_hard (rch_observation s))"

definition demo_storm :: RouteStorm where
  "demo_storm =
     \<lparr>st_expected_established = 10,
      st_selector = \<lparr>rs_interface = ''eth1'', rs_observer_parent_prefix = ''2001::'', rs_ipv4_pool = ''a'',
        rs_ipv6_pool = ''b'', rs_peer_count_per_plane = 8, rs_selected_peer_rows = [0, 3, 5]\<rparr>,
      st_routes_per_peer = 1750, st_samples_per_block = 1,
      st_cycle = \<lparr>st_cycles = 2, st_advertise_seconds = 30, st_withdraw_seconds = 30\<rparr>,
      st_observation = \<lparr>st_poll_interval = 5, st_convergence_hard = 60, st_session_establish = 60,
        st_restore = 120, st_quiet_window = 30, st_max_lookup_concurrency = 8\<rparr>,
      st_setup_hard_timeout = 600, st_route_batch_rows = 1,
      st_attributes = \<lparr>st_as_path_pool_size = 1, st_as_path_length = 255, st_as_set_length = 255,
        st_communities_per_route = 1, st_extended_communities_per_route = 16\<rparr>,
      st_bounded_validation = False\<rparr>"

section \<open>Lemmas\<close>

lemma route_required_read:
  "get_float c (route_to_step_params s) ''test_duration_seconds'' 120
     = Inr (duration_seconds (execution (rch_scenario s)))"
  "get_float c (route_to_step_params s) ''withdraw_time'' 60 = Inr (rc_withdraw_seconds (rch_cycle s))"
  "get_float c (route_to_step_params s) ''readvertise_time'' 60 = Inr (rc_readvertise_seconds (rch_cycle s))"
  "get_int c (route_to_step_params s) ''prefix_start_index'' 0 = Inr (rt_prefix_start_index (rch_selector s))"
  "get_int c (route_to_step_params s) ''prefix_end_index'' 1 = Inr (rt_prefix_end_index (rch_selector s))"
  "get_int c (route_to_step_params s) ''expected_established_sessions'' 0
     = Inr (rt_expected_established (rch_selector s))"
  "get_strs c (route_to_step_params s) ''parent_prefixes_to_ignore''
     = Inr (rt_parent_prefixes_to_ignore (rch_selector s))"
  "get_strs c (route_to_step_params s) ''expected_prefix_pool_names''
     = Inr (rt_expected_pool_names (rch_selector s))"
  "dict_get_or (route_to_step_params s) ''scenario_id'' v = v"
  "dict_get_or (route_to_step_params s) ''prefix_pool_regex'' v = VStr (rt_prefix_pool_regex (rch_selector s))"
  unfolding route_to_step_params_def
  by (simp_all add: get_required route_options_def)
     (auto simp: route_base_params_def get_float_def get_int_def dict_get_or_def get_strs_written Let_def
       split: option.splits)

lemma route_pool_names_read:
  assumes "route_made s"
  shows "pool_names_by_afi_of c (route_to_step_params s) = Inr (rt_pool_names_by_afi (rch_selector s))"
proof (cases "rt_pool_names_by_afi (rch_selector s)")
  case None
  then show ?thesis
    by (simp add: pool_names_by_afi_of_def route_to_step_params_def get_required route_options_def)
       (simp add: route_base_params_def dict_get_or_def Let_def)
next
  case (Some d)
  have "map (\<lambda>(afi, name). (afi, py_str c name)) (map (\<lambda>(afi, name). (afi, VStr name)) d) = d"
    by (induction d) auto
  moreover have "dict_get_or (route_to_step_params s) ''prefix_pool_names_by_afi'' VNone
      = VDict (map (\<lambda>(afi, name). (afi, VStr name)) d)"
    by (simp add: route_to_step_params_def get_required route_options_def)
       (simp add: route_base_params_def dict_get_or_def Let_def Some)
  ultimately show ?thesis
    using assms Some by (simp add: pool_names_by_afi_of_def route_made_def dict_of_distinct)
qed

lemma route_options_ok: "options_ok (route_options (rch_observation s)) (route_base_params s)"
  by (cases "rt_pool_names_by_afi (rch_selector s)")
     (simp_all add: options_ok_def route_options_def route_base_params_def Let_def)

lemmas route_optional_read =
  get_float_optional [OF route_options_ok, folded route_to_step_params_def]
  get_int_optional [OF route_options_ok, folded route_to_step_params_def]
  get_bool_optional [OF route_options_ok, folded route_to_step_params_def]

lemma route_optionals_read:
  fixes s c
  defines "p \<equiv> route_to_step_params s" and "ob \<equiv> rch_observation s"
  shows "get_float c p ''transition_hard_timeout_seconds'' 300 = Inr (rob_transition_hard ob)"
    and "get_float c p ''restore_hard_timeout_seconds'' 300 = Inr (rob_restore_hard ob)"
    and "route_observation_of c p (rob_transition_hard ob) = Inr ob"
proof -
  have reads: "get_float c p ''poll_interval_seconds'' 5 = Inr (rob_poll_interval ob)"
    "get_float c p ''transition_soft_threshold_seconds'' 60 = Inr (rob_transition_soft ob)"
    "get_float c p ''confirmation_seconds'' 5 = Inr (rob_confirmation ob)"
    "get_float c p ''restore_soft_threshold_seconds'' 120 = Inr (rob_restore_soft ob)"
    "get_float c p ''quiet_window_seconds'' 30 = Inr (rob_quiet_window ob)"
    "get_int c p ''max_lookup_concurrency'' 8 = Inr (rob_max_lookup_concurrency ob)"
    "get_int c p ''sample_peer_count'' 7 = Inr (rob_sample_peer_count ob)"
    "get_int c p ''sample_route_count'' 3 = Inr (rob_sample_route_count ob)"
    "get_int c p ''lookup_attempts'' 3 = Inr (rob_lookup_attempts ob)"
    "get_float c p ''lookup_retry_seconds'' 1 = Inr (rob_lookup_retry ob)"
    "get_int c p ''max_consecutive_observation_failures'' 3 = Inr (rob_max_observation_failures ob)"
    unfolding p_def ob_def by (rule route_optional_read, simp add: route_options_def)+
  show hard: "get_float c p ''transition_hard_timeout_seconds'' 300 = Inr (rob_transition_hard ob)"
    and restore: "get_float c p ''restore_hard_timeout_seconds'' 300 = Inr (rob_restore_hard ob)"
    unfolding p_def ob_def by (rule route_optional_read, simp add: route_options_def)+
  have flap: "dict_get_or p ''fail_on_session_flap'' (VBool True) = VBool (rob_fail_on_session_flap ob)"
    unfolding p_def ob_def by (rule route_optional_read) (simp add: route_options_def)
  show "route_observation_of c p (rob_transition_hard ob) = Inr ob"
    unfolding route_observation_of_def by (simp add: reads restore flap)
qed

lemma validate_route_selector_same: "validate_route_selector t = Inr t' \<Longrightarrow> t' = t"
  by (auto simp: validate_route_selector_def split: if_splits option.splits)

lemma distinct_dict_of: "distinct (map fst (dict_of items))"
proof -
  have "distinct (map fst d) \<Longrightarrow> distinct (map fst (fold (\<lambda>(k, v). dict_set k v) items d))" for d
    by (induction items arbitrary: d) (auto simp: distinct_update)
  then show ?thesis by (simp add: dict_of_def)
qed

lemma route_from_made:
  assumes "route_from_step_params c p = Inr s"
  shows "route_made s"
proof -
  obtain du wi re cy tr by_afi rs sel ob where
    parts: "mk_RouteCyclePolicy wi re = Inr cy" "pool_names_by_afi_of c p = Inr by_afi"
      "get_float c p ''restore_hard_timeout_seconds'' 300 = Inr rs"
      "route_selector_of c p by_afi = Inr sel" "route_observation_of c p tr = Inr ob"
    and s: "s = \<lparr>rch_scenario = route_scenario (py_str c (dict_get_or p ''scenario_id'' (VStr ''bgp_route_oscillation'')))
        du cy tr rs, rch_selector = sel, rch_cycle = cy, rch_observation = ob\<rparr>"
    using assms unfolding route_from_step_params_def rbind_eq_Inr by blast
  have "rob_transition_hard ob = tr" "rob_restore_hard ob = rs"
    using parts(3, 5) by (auto simp: route_observation_of_def rbind_eq_Inr)
  moreover have "rt_pool_names_by_afi sel = by_afi" "validate_route_selector sel = Inr sel"
    using parts(4) validate_route_selector_same by (fastforce simp: route_selector_of_def rbind_eq_Inr)+
  moreover have "case by_afi of None \<Rightarrow> True | Some d \<Rightarrow> distinct (map fst d)"
    using parts(2) distinct_dict_of by (auto simp: pool_names_by_afi_of_def split: pyval.splits)
  moreover have "0 < rc_withdraw_seconds cy" "0 < rc_readvertise_seconds cy"
    using parts(1) by (auto simp: mk_RouteCyclePolicy_def split: if_splits)
  ultimately show ?thesis by (simp add: s route_made_def route_scenario_def Let_def)
qed

lemma route_scenario_id:
  "(route_scenario i d cy t r)\<lparr>scenario_id := j\<rparr> = route_scenario j d cy t r"
  by (simp add: route_scenario_def Let_def)

lemma route_made_scenario:
  "route_made s \<Longrightarrow> rch_scenario s = route_scenario (scenario_id (rch_scenario s))
     (duration_seconds (execution (rch_scenario s))) (rch_cycle s)
     (rob_transition_hard (rch_observation s)) (rob_restore_hard (rch_observation s))"
  unfolding route_made_def by blast

lemma route_made_round_trip:
  assumes "route_made s"
  shows "route_from_step_params c (route_to_step_params s) = Inr (route_canon s)"
proof -
  have cycle: "mk_RouteCyclePolicy (rc_withdraw_seconds (rch_cycle s)) (rc_readvertise_seconds (rch_cycle s))
      = Inr (rch_cycle s)"
    using assms by (simp add: route_made_def mk_RouteCyclePolicy_def)
  have scenario: "route_scenario ''bgp_route_oscillation'' (duration_seconds (execution (rch_scenario s)))
      (rch_cycle s) (rob_transition_hard (rch_observation s)) (rob_restore_hard (rch_observation s))
      = rch_scenario (route_canon s)"
    unfolding route_canon_def
    using arg_cong [OF route_made_scenario [OF assms], of "scenario_id_update (\<lambda>_. ''bgp_route_oscillation'')"]
    by (simp add: route_scenario_id)
  have fields: "\<lparr>rt_prefix_pool_regex = rt_prefix_pool_regex t, rt_expected_pool_names = rt_expected_pool_names t,
      rt_prefix_start_index = rt_prefix_start_index t, rt_prefix_end_index = rt_prefix_end_index t,
      rt_expected_established = rt_expected_established t,
      rt_parent_prefixes_to_ignore = rt_parent_prefixes_to_ignore t,
      rt_pool_names_by_afi = rt_pool_names_by_afi t\<rparr> = t" for t by simp
  have selector: "route_selector_of c (route_to_step_params s) (rt_pool_names_by_afi (rch_selector s))
      = Inr (rch_selector s)"
    using assms by (simp add: route_selector_of_def route_required_read fields route_made_def)
  have same: "\<lparr>rch_scenario = rch_scenario (route_canon s), rch_selector = rch_selector s, rch_cycle = rch_cycle s,
      rch_observation = rch_observation s\<rparr> = route_canon s"
    by (simp add: route_canon_def)
  show ?thesis
    unfolding route_from_step_params_def
    by (simp add: route_required_read cycle route_optionals_read route_pool_names_read [OF assms] selector
        scenario same)
qed

lemma route_canon_written: "route_to_step_params (route_canon s) = route_to_step_params s"
  by (simp add: route_to_step_params_def route_base_params_def route_canon_def)

interpretation route_codec: step_codec "\<lambda>s. Inr (route_to_step_params s)" "route_from_step_params c"
    route_canon "\<lambda>_. True" for c
  by unfold_locales (simp_all add: route_made_round_trip route_from_made route_canon_written)

lemma demo_route_run:
  "\<exists>s. route_from_step_params demo_conv
      [(''scenario_id'', VStr ''mine''), (''fail_on_session_flap'', VBool False),
       (''expected_prefix_pool_names'', VList [VStr ''a'', VStr ''b'']),
       (''prefix_pool_names_by_afi'', VDict [(''ipv6'', VStr ''b''), (''ipv4'', VStr ''a'')])] = Inr s
     \<and> \<not> rob_fail_on_session_flap (rch_observation s)"
  by (simp add: route_from_step_params_def get_float_def get_int_def get_strs_def dict_get_or_def
      mk_RouteCyclePolicy_def pool_names_by_afi_of_def route_selector_of_def route_observation_of_def
      validate_route_selector_def dict_keys_def dict_of_def insert_commute)

section \<open>Properties\<close>

text \<open>
  Route churn survives the trip through the flat step parameters: reading what was written for a
  specification that was read gives the same specification, except that the scenario's identifier
  is reset to the default. Whatever is read selects a non-empty range of prefixes, and a pool per
  address family, when given, names exactly the expected pools.
\<close>

theorem route_round_trip:
  assumes "route_from_step_params c p = Inr s"
  shows "route_from_step_params c (route_to_step_params s)
       = Inr (s\<lparr>rch_scenario := (rch_scenario s)\<lparr>scenario_id := ''bgp_route_oscillation''\<rparr>\<rparr>)
     \<and> 0 \<le> rt_prefix_start_index (rch_selector s)
     \<and> rt_prefix_start_index (rch_selector s) < rt_prefix_end_index (rch_selector s)
     \<and> (case rt_pool_names_by_afi (rch_selector s) of
          None \<Rightarrow> True
        | Some by_afi \<Rightarrow> set (map fst by_afi) = {''ipv4'', ''ipv6''}
            \<and> set (map snd by_afi) = set (rt_expected_pool_names (rch_selector s)))"
proof -
  have "validate_route_selector (rch_selector s) = Inr (rch_selector s)"
    using route_from_made [OF assms] by (simp add: route_made_def)
  then show ?thesis
    using route_codec.round_trip [OF _ assms]
    by (auto simp: route_canon_def validate_route_selector_def dict_keys_def split: if_splits option.splits)
qed

theorem route_round_trip_witness:
  "\<exists>s. route_from_step_params demo_conv
      [(''scenario_id'', VStr ''mine''), (''fail_on_session_flap'', VBool False),
       (''expected_prefix_pool_names'', VList [VStr ''a'', VStr ''b'']),
       (''prefix_pool_names_by_afi'', VDict [(''ipv6'', VStr ''b''), (''ipv4'', VStr ''a'')])] = Inr s
     \<and> route_from_step_params demo_conv (route_to_step_params s)
       = Inr (s\<lparr>rch_scenario := (rch_scenario s)\<lparr>scenario_id := ''bgp_route_oscillation''\<rparr>\<rparr>)"
  using route_round_trip demo_route_run by blast

text \<open>
  A route storm that passes its checks has the shape it is named for: at least one peer row is
  selected, the rows ascend within the plane, and over both address families exactly 10,500 route
  paths are churned. The budgets it derives add up: its cycles fill the execution time exactly,
  and the work budget is that time plus the set-up, the establishment of the sessions, the quiet
  window and two convergences per cycle.
\<close>

theorem storm_shape:
  assumes "mk_RouteStorm s = Inr s'"
  shows "s' = s \<and> sorted_wrt (<) (rs_selected_peer_rows (st_selector s)) \<and> rs_selected_peer_rows (st_selector s) \<noteq> []
     \<and> set (rs_selected_peer_rows (st_selector s)) \<subseteq> {0..<rs_peer_count_per_plane (st_selector s)}
     \<and> int (length (rs_selected_peer_rows (st_selector s))) * st_routes_per_peer s = 5250
     \<and> (let sc = storm_scenario s; ex = execution sc
        in 1 \<le> max_iterations ex \<and> 0 < cadence_seconds ex
           \<and> of_int (max_iterations ex) * cadence_seconds ex = duration_seconds ex
           \<and> prep_total_timeout_seconds (preparation sc) =
               duration_seconds ex + of_int (st_setup_hard_timeout s)
               + initial_resolution_timeout_seconds (preparation sc)
               + baseline_capture_timeout_seconds (preparation sc)
               + of_int (max_iterations ex) * (2 * of_int (st_convergence_hard (st_observation s))))"
proof -
  note ok = assms [unfolded mk_RouteStorm_def]
  have same: "s' = s" and count: "route_path_count s = 10500" and pos: "\<not> list_ex (\<lambda>v. v \<le> 0) (storm_numeric_values s)"
    and sel: "validate_storm_selector (st_selector s) = Inr ()"
    using ok by (auto simp: rbind_eq_Inr split: if_splits)
  let ?rows = "rs_selected_peer_rows (st_selector s)"
  have rows: "?rows = sorted_list_of_set (set ?rows)"
      "\<not> list_ex (\<lambda>row. row < 0 \<or> row \<ge> rs_peer_count_per_plane (st_selector s)) ?rows"
    using sel by (auto simp: validate_storm_selector_def split: if_splits)
  have "sorted_wrt (<) ?rows" by (subst rows(1)) simp
  moreover have "?rows \<noteq> []" using count by (auto simp: route_path_count_def)
  moreover have "set ?rows \<subseteq> {0..<rs_peer_count_per_plane (st_selector s)}" using rows(2) by (auto simp: list_ex_iff)
  moreover have "0 < st_cycles (st_cycle s)" "0 < st_advertise_seconds (st_cycle s)" "0 < st_withdraw_seconds (st_cycle s)"
    using pos by (simp_all add: storm_numeric_values_def Let_def)
  ultimately show ?thesis
    using same count by (simp add: route_path_count_def storm_scenario_def Let_def algebra_simps)
qed

theorem storm_shape_witness:
  "mk_RouteStorm demo_storm = Inr demo_storm
   \<and> int (length (rs_selected_peer_rows (st_selector demo_storm))) * st_routes_per_peer demo_storm = 5250"
proof -
  have "mk_RouteStorm demo_storm = Inr demo_storm"
    by (simp add: mk_RouteStorm_def demo_storm_def validate_storm_selector_def validate_storm_attributes_def
        storm_numeric_values_def route_path_count_def Let_def)
  with storm_shape [OF this] show ?thesis by blast
qed

end
