(* ===== verification/Churn_Workloads.thy ===== *)
theory Churn_Workloads
  imports Churn_Session
begin

text \<open>
  The remaining churn families (\<open>abstractions/churn/workloads.py\<close>): longevity of communities,
  multipath oscillation, and the two IGP families, each with the checks of its \<open>create\<close>, the
  scenario it derives and the step parameters it is lowered to. Links are opaque mappings.
\<close>

section \<open>Shared checks\<close>

definition workload_scenario :: "string \<Rightarrow> string \<Rightarrow> rat \<Rightarrow> rat \<Rightarrow> rat \<Rightarrow> ChurnScenario result" where
  "workload_scenario sid family duration cadence recovery_seconds =
     (if duration \<le> 0 \<or> cadence \<le> 0 then Inl (value_error ''churn duration and cadence must be positive'')
      else Inr
        \<lparr>scenario_id = sid, workload = \<lparr>families = [\<lparr>family_name = family, family_phases = None\<rparr>]\<rparr>,
         preparation = \<lparr>initial_resolution_timeout_seconds = recovery_seconds,
           baseline_capture_timeout_seconds = recovery_seconds,
           prep_total_timeout_seconds = duration + recovery_seconds\<rparr>,
         execution = \<lparr>duration_seconds = duration, cadence_seconds = cadence,
           max_iterations = cycle_count_of duration cadence\<rparr>,
         recovery = \<lparr>rec_total_timeout_seconds = recovery_seconds,
           restore_observation_timeout_seconds = recovery_seconds,
           ixia_restore_timeout_seconds = recovery_seconds, cancellation_grace_seconds = 10\<rparr>,
         pre_churn_settle = default_SettlePolicy, post_churn_settle = default_SettlePolicy\<rparr>)"

definition validate_igp_inputs :: "string \<Rightarrow> params \<Rightarrow> params \<Rightarrow> int \<Rightarrow> int \<Rightarrow> unit result" where
  "validate_igp_inputs hostname local_link other_link n step =
     (if hostname = [] \<or> local_link = [] \<or> other_link = []
      then Inl (value_error ''IGP churn requires hostname and both link definitions'')
      else if n \<le> 0 \<or> step \<le> 0 then Inl (value_error ''IGP churn count and step must be positive'')
      else Inr ())"

definition validated_plane_starts ::
    "string list \<Rightarrow> string list \<Rightarrow> string \<Rightarrow> (string list \<times> string list) result" where
  "validated_plane_starts ipv4 ipv6 label =
     (if ipv4 = [] \<or> length ipv4 \<noteq> length ipv6
      then Inl (value_error (label @ '' IPv4 and IPv6 plane counts must match''))
      else Inr (ipv4, ipv6))"

section \<open>Longevity of communities\<close>

record LongevityCommunityChurn =
  lc_scenario :: ChurnScenario
  lc_prefix_pool_regex :: string
  lc_community_count :: int

definition create_longevity :: "int \<Rightarrow> int \<Rightarrow> string \<Rightarrow> int \<Rightarrow> LongevityCommunityChurn result" where
  "create_longevity duration cadence regex communities =
     (if regex \<noteq> ''.*IBGP.*PLANE_4.*''
      then Inl (value_error ''prefix_pool_regex must select the topology-authored EBB Plane-4 pools'')
      else if communities \<le> 0 then Inl (value_error ''community_count must be positive'')
      else rbind (workload_scenario ''bgp_ebb_longevity_community_churn'' ''community''
                    (of_int duration) (of_int cadence) 240)
             (\<lambda>sc. Inr \<lparr>lc_scenario = sc, lc_prefix_pool_regex = regex, lc_community_count = communities\<rparr>))"

text \<open>\<open>int(x)\<close> of a float truncates; the durations here come from integers.\<close>

definition longevity_to_step_params :: "LongevityCommunityChurn \<Rightarrow> params" where
  "longevity_to_step_params s =
     [(''prefix_pool_regex'', VStr (lc_prefix_pool_regex s)), (''community_count'', VInt (lc_community_count s)),
      (''duration_seconds'', VInt (trunc (duration_seconds (execution (lc_scenario s))))),
      (''cadence_seconds'', VInt (trunc (cadence_seconds (execution (lc_scenario s)))))]"

section \<open>Multipath oscillation\<close>

record MultipathChurn =
  mp_scenario :: ChurnScenario
  mp_hostname :: string
  mp_ipv4_peer_regex :: string
  mp_ipv6_peer_regex :: string
  mp_ipv4_session_count :: int
  mp_ipv6_session_count :: int
  mp_oscillation_interval :: int
  mp_min_peers_to_stop :: int
  mp_max_peers_to_stop :: int
  mp_cycle_count :: "int option"
  mp_expected_min_width :: "int option"
  mp_expected_max_width :: "int option"
  mp_min_multipath_width :: "int option"
  mp_prefix_subnets :: "string list"
  mp_probe_prefixes_per_afi :: int
  mp_poll_interval :: rat
  mp_stable_sample_count :: int
  mp_bgp_read_timeout :: rat

text \<open>\<open>create\<close> fills the scenario in; the other fields are its arguments.\<close>

definition create_multipath :: "int \<Rightarrow> MultipathChurn \<Rightarrow> MultipathChurn result" where
  "create_multipath duration s =
     (let configured = (case mp_cycle_count s of Some n \<Rightarrow> n | None \<Rightarrow> 6)
      in if mp_oscillation_interval s \<le> 0 then Inl (value_error ''oscillation_interval_seconds must be positive'')
         else if (case mp_cycle_count s of Some n \<Rightarrow> n \<le> 0 | None \<Rightarrow> False)
         then Inl (value_error ''cycle_count must be positive when provided'')
         else if duration div mp_oscillation_interval s \<noteq> configured
         then Inl (value_error ''multipath oscillation duration must contain the configured cycles'')
         else if mp_min_peers_to_stop s < 1 \<or> mp_max_peers_to_stop s < mp_min_peers_to_stop s
         then Inl (value_error ''peer-stop range must satisfy 1 <= min <= max'')
         else if mp_max_peers_to_stop s > min (mp_ipv4_session_count s) (mp_ipv6_session_count s)
         then Inl (value_error ''peer-stop range exceeds the configured session count'')
         else rbind (workload_scenario ''bgp_ebb_multipath_oscillation'' ''multipath''
                       (of_int duration) (of_int (mp_oscillation_interval s)) 600)
                (\<lambda>sc. Inr (s\<lparr>mp_scenario := sc\<rparr>)))"

abbreviation opt_int :: "int option \<Rightarrow> pyval" where
  "opt_int x \<equiv> (case x of None \<Rightarrow> VNone | Some i \<Rightarrow> VInt i)"

definition multipath_to_step_params :: "MultipathChurn \<Rightarrow> params" where
  "multipath_to_step_params s =
     [(''hostname'', VStr (mp_hostname s)), (''ipv4_peer_regex'', VStr (mp_ipv4_peer_regex s)),
      (''ipv6_peer_regex'', VStr (mp_ipv6_peer_regex s)),
      (''ipv4_session_count'', VInt (mp_ipv4_session_count s)),
      (''ipv6_session_count'', VInt (mp_ipv6_session_count s)),
      (''test_duration_seconds'', VInt (trunc (duration_seconds (execution (mp_scenario s))))),
      (''oscillation_interval_seconds'', VInt (mp_oscillation_interval s)),
      (''min_peers_to_stop'', VInt (mp_min_peers_to_stop s)),
      (''max_peers_to_stop'', VInt (mp_max_peers_to_stop s)),
      (''expected_min_baseline_width'', opt_int (mp_expected_min_width s)),
      (''expected_max_baseline_width'', opt_int (mp_expected_max_width s)),
      (''min_multipath_width'', opt_int (mp_min_multipath_width s)),
      (''prefix_subnets'', VList (map VStr (mp_prefix_subnets s))),
      (''probe_prefixes_per_afi'', VInt (mp_probe_prefixes_per_afi s)),
      (''poll_interval_seconds'', VFloat (mp_poll_interval s)),
      (''stable_sample_count'', VInt (mp_stable_sample_count s)),
      (''bgp_read_timeout_seconds'', VFloat (mp_bgp_read_timeout s))]
     @ (case mp_cycle_count s of None \<Rightarrow> [] | Some n \<Rightarrow> [(''cycle_count'', VInt n)])"

section \<open>IGP families\<close>

record IgpMetricChurn =
  im_scenario :: ChurnScenario
  im_hostname :: string
  im_start_ipv4s :: "string list"
  im_start_ipv6s :: "string list"
  im_local_link :: params
  im_other_link :: params
  im_count :: int
  im_step :: int
  im_frequency :: int

definition create_igp_metric :: "int \<Rightarrow> IgpMetricChurn \<Rightarrow> IgpMetricChurn result" where
  "create_igp_metric duration s =
     rbind (validate_igp_inputs (im_hostname s) (im_local_link s) (im_other_link s) (im_count s) (im_step s)) (\<lambda>_.
     rbind (validated_plane_starts (im_start_ipv4s s) (im_start_ipv6s s) ''Open/R'') (\<lambda>(v4, v6).
     rbind (workload_scenario ''bgp_ebb_igp_pnh_metric_oscillation'' ''igp_metric''
              (of_int duration) (of_int (im_frequency s)) 600) (\<lambda>sc.
       Inr (s\<lparr>im_scenario := sc, im_start_ipv4s := v4, im_start_ipv6s := v6\<rparr>))))"

definition igp_metric_to_step_params :: "IgpMetricChurn \<Rightarrow> params" where
  "igp_metric_to_step_params s =
     [(''hostname'', VStr (im_hostname s)), (''start_ipv4s'', VList (map VStr (im_start_ipv4s s))),
      (''start_ipv6s'', VList (map VStr (im_start_ipv6s s))), (''local_link'', VDict (im_local_link s)),
      (''other_link'', VDict (im_other_link s)), (''count'', VInt (im_count s)), (''step'', VInt (im_step s)),
      (''duration'', VInt (trunc (duration_seconds (execution (im_scenario s))))),
      (''frequency'', VInt (im_frequency s))]"

record IgpUnresolvableChurn =
  iu_scenario :: ChurnScenario
  iu_hostname :: string
  iu_start_ipv4s :: "string list"
  iu_start_ipv6s :: "string list"
  iu_restore_ipv4s :: "string list"
  iu_restore_ipv6s :: "string list"
  iu_local_link :: params
  iu_other_link :: params
  iu_count :: int
  iu_step :: int
  iu_delete_count :: int
  iu_update_timeout :: int
  iu_stability_duration :: int
  iu_expected_sessions :: int
  iu_parent_prefixes_to_ignore :: "string list"
  iu_stability_polls :: int
  iu_stability_max :: int

definition create_igp_unresolvable :: "IgpUnresolvableChurn \<Rightarrow> IgpUnresolvableChurn result" where
  "create_igp_unresolvable s =
     rbind (raise_if (iu_expected_sessions s \<le> 0) (value_error ''expected_in_scope_sessions must be positive'')) (\<lambda>_.
     rbind (validate_igp_inputs (iu_hostname s) (iu_local_link s) (iu_other_link s) (iu_count s) (iu_step s)) (\<lambda>_.
     rbind (validated_plane_starts (iu_start_ipv4s s) (iu_start_ipv6s s) ''selected'') (\<lambda>(sel4, sel6).
     rbind (validated_plane_starts (iu_restore_ipv4s s) (iu_restore_ipv6s s) ''restore'') (\<lambda>(res4, res6).
     rbind (raise_if (\<not> set sel4 \<subseteq> set res4 \<or> \<not> set sel6 \<subseteq> set res6)
              (value_error ''full restore starts must contain all selected starts'')) (\<lambda>_.
     rbind (raise_if (iu_delete_count s \<le> 0 \<or> iu_delete_count s > iu_count s)
              (value_error ''delete_count must be within the configured route count'')) (\<lambda>_.
     rbind (raise_if (iu_update_timeout s \<le> 0 \<or> iu_stability_duration s \<le> 0 \<or> iu_stability_polls s < 0
                \<or> iu_stability_max s \<le> 0)
              (value_error ''IGP churn timeouts must be positive and stability polls must be nonnegative'')) (\<lambda>_.
       let active = iu_update_timeout s + iu_stability_max s + iu_stability_duration s
       in rbind (workload_scenario ''bgp_ebb_igp_unresolvable_pnh'' ''igp_unresolvable''
                   (of_int active) (of_int active) 600) (\<lambda>sc.
            Inr (s\<lparr>iu_scenario := sc, iu_start_ipv4s := sel4, iu_start_ipv6s := sel6,
                   iu_restore_ipv4s := res4, iu_restore_ipv6s := res6\<rparr>)))))))))"

definition igp_unresolvable_to_step_params :: "IgpUnresolvableChurn \<Rightarrow> params" where
  "igp_unresolvable_to_step_params s =
     [(''hostname'', VStr (iu_hostname s)), (''start_ipv4s'', VList (map VStr (iu_start_ipv4s s))),
      (''start_ipv6s'', VList (map VStr (iu_start_ipv6s s))),
      (''restore_start_ipv4s'', VList (map VStr (iu_restore_ipv4s s))),
      (''restore_start_ipv6s'', VList (map VStr (iu_restore_ipv6s s))),
      (''local_link'', VDict (iu_local_link s)), (''other_link'', VDict (iu_other_link s)),
      (''count'', VInt (iu_count s)), (''step'', VInt (iu_step s)), (''delete_count'', VInt (iu_delete_count s)),
      (''update_timeout_seconds'', VInt (iu_update_timeout s)),
      (''stability_duration_seconds'', VInt (iu_stability_duration s)),
      (''expected_in_scope_sessions'', VInt (iu_expected_sessions s)),
      (''parent_prefixes_to_ignore'', VList (map VStr (iu_parent_prefixes_to_ignore s))),
      (''convergence_stability_polls'', VInt (iu_stability_polls s)),
      (''convergence_stability_max_seconds'', VInt (iu_stability_max s))]"

definition demo_blank_scenario :: ChurnScenario where
  "demo_blank_scenario =
     \<lparr>scenario_id = [], workload = \<lparr>families = []\<rparr>,
      preparation = \<lparr>initial_resolution_timeout_seconds = 0, baseline_capture_timeout_seconds = 0,
        prep_total_timeout_seconds = 0\<rparr>,
      execution = default_ExecutionPolicy, recovery = default_RecoveryPolicy,
      pre_churn_settle = default_SettlePolicy, post_churn_settle = default_SettlePolicy\<rparr>"

definition demo_multipath :: MultipathChurn where
  "demo_multipath =
     \<lparr>mp_scenario = demo_blank_scenario, mp_hostname = ''h'', mp_ipv4_peer_regex = ''a'', mp_ipv6_peer_regex = ''b'',
      mp_ipv4_session_count = 8, mp_ipv6_session_count = 4, mp_oscillation_interval = 10,
      mp_min_peers_to_stop = 1, mp_max_peers_to_stop = 4, mp_cycle_count = None, mp_expected_min_width = None,
      mp_expected_max_width = None, mp_min_multipath_width = None, mp_prefix_subnets = [],
      mp_probe_prefixes_per_afi = 2, mp_poll_interval = 5, mp_stable_sample_count = 2, mp_bgp_read_timeout = 30\<rparr>"

definition demo_unresolvable :: IgpUnresolvableChurn where
  "demo_unresolvable =
     \<lparr>iu_scenario = demo_blank_scenario, iu_hostname = ''h'', iu_start_ipv4s = [''10.0.0.1''],
      iu_start_ipv6s = [''2001::1''], iu_restore_ipv4s = [''10.0.0.1'', ''10.1.0.1''],
      iu_restore_ipv6s = [''2001::1'', ''2001::2''], iu_local_link = [(''if'', VStr ''a'')],
      iu_other_link = [(''if'', VStr ''b'')], iu_count = 10, iu_step = 1, iu_delete_count = 5,
      iu_update_timeout = 60, iu_stability_duration = 30, iu_expected_sessions = 8,
      iu_parent_prefixes_to_ignore = [], iu_stability_polls = 3, iu_stability_max = 300\<rparr>"

section \<open>Lemmas\<close>

lemma trunc_of_int [simp]: "trunc (of_int i) = i"
  by (simp add: trunc_def)

lemma workload_scenario_Inr:
  assumes "workload_scenario sid f d cad r = Inr sc"
  shows "0 < d" "0 < cad" "execution sc = \<lparr>duration_seconds = d, cadence_seconds = cad, max_iterations = cycle_count_of d cad\<rparr>"
    "prep_total_timeout_seconds (preparation sc) = d + r" "rec_total_timeout_seconds (recovery sc) = r"
  using assms by (auto simp: workload_scenario_def split: if_splits)

lemma cycle_count_of_int: "cycle_count_of (of_int a) (of_int b) = max 1 (a div b)"
  by (simp add: cycle_count_of_def floor_divide_of_int_eq)

section \<open>Properties\<close>

text \<open>
  A multipath oscillation that is accepted runs exactly the configured number of cycles (six by
  default), never stops more peers than either address family has sessions, and is lowered to step
  parameters that carry the requested duration and, when it was given, the cycle count.
\<close>

theorem multipath_cycles_exact:
  assumes "create_multipath duration s = Inr s'"
  shows "max_iterations (execution (mp_scenario s')) = (case mp_cycle_count s of Some n \<Rightarrow> n | None \<Rightarrow> 6)
     \<and> 1 \<le> mp_min_peers_to_stop s' \<and> mp_min_peers_to_stop s' \<le> mp_max_peers_to_stop s'
     \<and> mp_max_peers_to_stop s' \<le> mp_ipv4_session_count s' \<and> mp_max_peers_to_stop s' \<le> mp_ipv6_session_count s'
     \<and> dict_get (multipath_to_step_params s') ''test_duration_seconds'' = Some (VInt duration)
     \<and> dict_get (multipath_to_step_params s') ''cycle_count'' = map_option VInt (mp_cycle_count s)"
proof -
  obtain sc where sc: "workload_scenario ''bgp_ebb_multipath_oscillation'' ''multipath''
      (of_int duration) (of_int (mp_oscillation_interval s)) 600 = Inr sc" and s': "s' = s\<lparr>mp_scenario := sc\<rparr>"
    and cycles: "duration div mp_oscillation_interval s = (case mp_cycle_count s of Some n \<Rightarrow> n | None \<Rightarrow> 6)"
      "(case mp_cycle_count s of Some n \<Rightarrow> 0 < n | None \<Rightarrow> True)"
    and peers: "1 \<le> mp_min_peers_to_stop s" "mp_min_peers_to_stop s \<le> mp_max_peers_to_stop s"
      "mp_max_peers_to_stop s \<le> min (mp_ipv4_session_count s) (mp_ipv6_session_count s)"
    using assms by (auto simp: create_multipath_def Let_def rbind_eq_Inr not_less not_le split: if_splits option.splits)
  show ?thesis
    using cycles peers workload_scenario_Inr(3) [OF sc]
    by (auto simp: s' multipath_to_step_params_def cycle_count_of_int split: option.splits)
qed

theorem multipath_cycles_witness:
  "\<exists>s'. create_multipath 65 demo_multipath = Inr s' \<and> max_iterations (execution (mp_scenario s')) = 6
     \<and> dict_get (multipath_to_step_params s') ''cycle_count'' = None"
proof -
  obtain s' where s': "create_multipath 65 demo_multipath = Inr s'"
    by (simp add: create_multipath_def demo_multipath_def workload_scenario_def)
  from multipath_cycles_exact [OF s'] s' show ?thesis by (simp add: demo_multipath_def)
qed

text \<open>
  An unresolvable-next-hop churn that is accepted can be undone: every start it withdraws is among
  the starts it restores, in both address families, the two families have the same number of
  planes, it deletes at least one and at most all of the routes, and it runs exactly once, for the
  time its update, convergence and stability windows take together.
\<close>

theorem igp_unresolvable_undoable:
  assumes "create_igp_unresolvable s = Inr s'"
  shows "set (iu_start_ipv4s s') \<subseteq> set (iu_restore_ipv4s s') \<and> set (iu_start_ipv6s s') \<subseteq> set (iu_restore_ipv6s s')
     \<and> iu_start_ipv4s s' \<noteq> [] \<and> length (iu_start_ipv4s s') = length (iu_start_ipv6s s')
     \<and> length (iu_restore_ipv4s s') = length (iu_restore_ipv6s s')
     \<and> 1 \<le> iu_delete_count s' \<and> iu_delete_count s' \<le> iu_count s'
     \<and> max_iterations (execution (iu_scenario s')) = 1
     \<and> duration_seconds (execution (iu_scenario s'))
         = of_int (iu_update_timeout s' + iu_stability_max s' + iu_stability_duration s')"
proof -
  let ?active = "iu_update_timeout s + iu_stability_max s + iu_stability_duration s"
  obtain sc where sc: "workload_scenario ''bgp_ebb_igp_unresolvable_pnh'' ''igp_unresolvable''
      (of_int ?active) (of_int ?active) 600 = Inr sc" and s': "s' = s\<lparr>iu_scenario := sc\<rparr>"
    and checks: "set (iu_start_ipv4s s) \<subseteq> set (iu_restore_ipv4s s)" "set (iu_start_ipv6s s) \<subseteq> set (iu_restore_ipv6s s)"
      "iu_start_ipv4s s \<noteq> []" "length (iu_start_ipv4s s) = length (iu_start_ipv6s s)"
      "length (iu_restore_ipv4s s) = length (iu_restore_ipv6s s)" "1 \<le> iu_delete_count s" "iu_delete_count s \<le> iu_count s"
    using assms
    by (auto simp: create_igp_unresolvable_def validated_plane_starts_def Let_def rbind_eq_Inr raise_if_Inr
        not_less not_le split: if_splits)
  note ex = workload_scenario_Inr [OF sc]
  have "cycle_count_of (of_int ?active) (of_int ?active) = 1" using ex(1) by (simp add: cycle_count_of_def)
  with checks ex(3) show ?thesis by (simp add: s')
qed

theorem igp_unresolvable_witness:
  "\<exists>s'. create_igp_unresolvable demo_unresolvable = Inr s' \<and> max_iterations (execution (iu_scenario s')) = 1
     \<and> set (iu_start_ipv4s s') \<subseteq> set (iu_restore_ipv4s s')"
proof -
  obtain s' where s': "create_igp_unresolvable demo_unresolvable = Inr s'"
    by (simp add: create_igp_unresolvable_def demo_unresolvable_def validate_igp_inputs_def
        validated_plane_starts_def workload_scenario_def)
  from igp_unresolvable_undoable [OF s'] s' show ?thesis by blast
qed

end
