(* ===== verification/Oss_Status.thy ===== *)
theory Oss_Status
  imports Taac_Prelude
begin

text \<open>
  The vocabulary of the OSS runner's results: exit codes (\<open>runner/oss_return_code.py\<close>),
  test statuses (\<open>runner/oss_test_status.py\<close>) and the classifier that turns a raised
  exception into a status and a transient flag (\<open>runner/oss_exception_classifier.py\<close>).
  The exception classes of \<open>runner/oss_exceptions.py\<close> are constructors of
  \<open>exn_class\<close> in the prelude.
\<close>

section \<open>Exit codes\<close>

datatype OSSReturnCode =
    SUCCESS
  | USER_ERROR
  | TEST_CASE_FAILURE
  | INVALID_INPUT
  | NO_TESTS_FOUND
  | CONFIG_ERROR
  | INFRA_ERROR
  | TESTBED_ERROR
  | TRANSIENT_ERROR
  | TIMEOUT_ERROR
  | CONNECTION_ERROR

fun return_code_value :: "OSSReturnCode \<Rightarrow> int" where
  "return_code_value SUCCESS = 0"
| "return_code_value USER_ERROR = 1"
| "return_code_value TEST_CASE_FAILURE = 2"
| "return_code_value INVALID_INPUT = 3"
| "return_code_value NO_TESTS_FOUND = 4"
| "return_code_value CONFIG_ERROR = 5"
| "return_code_value INFRA_ERROR = 128"
| "return_code_value TESTBED_ERROR = 129"
| "return_code_value TRANSIENT_ERROR = 130"
| "return_code_value TIMEOUT_ERROR = 131"
| "return_code_value CONNECTION_ERROR = 132"

definition rc_is_success :: "OSSReturnCode \<Rightarrow> bool" where
  "rc_is_success c \<longleftrightarrow> c = SUCCESS"

definition rc_is_user_error :: "OSSReturnCode \<Rightarrow> bool" where
  "rc_is_user_error c \<longleftrightarrow> 1 \<le> return_code_value c \<and> return_code_value c \<le> 127"

definition rc_is_infra_error :: "OSSReturnCode \<Rightarrow> bool" where
  "rc_is_infra_error c \<longleftrightarrow> return_code_value c \<ge> 128"

section \<open>Test statuses\<close>

datatype OSSTestStatus =
    ERROR
  | FAILED
  | TIMEOUT
  | PASSED
  | SKIPPED
  | OMITTED
  | RETRIED
  | SETUP_FAILED
  | TEARDOWN_FAILED
  | TESTBED_FAILED
  | CONNECTION_FAILED
  | NOT_RUN

definition status_failed :: "OSSTestStatus \<Rightarrow> bool" where
  "status_failed s \<longleftrightarrow>
     s \<in> {FAILED, ERROR, TIMEOUT, SETUP_FAILED, TEARDOWN_FAILED, TESTBED_FAILED,
          CONNECTION_FAILED}"

definition status_is_success :: "OSSTestStatus \<Rightarrow> bool" where
  "status_is_success s \<longleftrightarrow> s = PASSED"

definition status_is_skipped :: "OSSTestStatus \<Rightarrow> bool" where
  "status_is_skipped s \<longleftrightarrow> s \<in> {SKIPPED, OMITTED, NOT_RUN, RETRIED}"

text \<open>The terminal colours; \<open>esc\<close> is the escape character of the ANSI sequences.\<close>

definition esc :: char where
  "esc = char_of (27 :: nat)"

definition COLOR_MAP :: "(OSSTestStatus, string) dict" where
  "COLOR_MAP =
     [(PASSED, esc # ''[32m''),
      (FAILED, esc # ''[31m''),
      (ERROR, esc # ''[31m''),
      (TIMEOUT, esc # ''[33m''),
      (SKIPPED, esc # ''[37m''),
      (OMITTED, esc # ''[37m''),
      (RETRIED, esc # ''[37m''),
      (SETUP_FAILED, esc # ''[31m''),
      (TEARDOWN_FAILED, esc # ''[33m''),
      (TESTBED_FAILED, esc # ''[33m''),
      (CONNECTION_FAILED, esc # ''[33m''),
      (NOT_RUN, esc # ''[37m'')]"

definition status_color :: "OSSTestStatus \<Rightarrow> string" where
  "status_color s = dict_get_or COLOR_MAP s (esc # ''[0m'')"

definition reset_color :: string where
  "reset_color = esc # ''[0m''"

section \<open>The exception classifier\<close>

text \<open>
  The map is searched in order and the first class the exception is an instance of wins.
  \<open>asyncio.TimeoutError\<close> is the same class as \<open>TimeoutError\<close>, so the Python dictionary
  has one entry for both.
\<close>

definition get_exception_to_status_map :: "(exn_class, OSSTestStatus) dict" where
  "get_exception_to_status_map =
     [(TestCaseFailure, FAILED),
      (AssertionError, FAILED),
      (SkipTest, SKIPPED),
      (TimeoutError, TIMEOUT),
      (OSSTestbedError, TESTBED_FAILED),
      (OSSConnectionError, CONNECTION_FAILED),
      (OSSTransientError, ERROR),
      (OSSSetupError, SETUP_FAILED),
      (OSSTeardownError, TEARDOWN_FAILED)]"

fun first_match :: "py_exn \<Rightarrow> (exn_class, OSSTestStatus) dict \<Rightarrow> OSSTestStatus option" where
  "first_match e [] = None"
| "first_match e ((c, s) # m) = (if isinstance e c then Some s else first_match e m)"

definition classify_exception :: "py_exn \<Rightarrow> OSSTestStatus \<times> bool" where
  "classify_exception e =
     (let is_transient = isinstance e OSSTransientError
      in case first_match e get_exception_to_status_map of
           Some s \<Rightarrow> (s, is_transient)
         | None \<Rightarrow> (ERROR, False))"

definition INFRA_EXCEPTIONS :: "exn_class list" where
  "INFRA_EXCEPTIONS =
     [OSSTestbedError, OSSConnectionError, OSSTransientError, OSSInfrastructureError,
      OSSSetupError, OSSTeardownError, ConnectionError, OSError]"

definition is_infra_error :: "py_exn \<Rightarrow> bool" where
  "is_infra_error e \<longleftrightarrow> isinstance_any e INFRA_EXCEPTIONS"

section \<open>Properties of codes, statuses and the classifier\<close>

lemmas status_defs = status_failed_def status_is_success_def status_is_skipped_def

lemma status_partition:
  "status_failed s \<longleftrightarrow> \<not> status_is_success s \<and> \<not> status_is_skipped s"
  "status_is_success s \<Longrightarrow> \<not> status_is_skipped s"
  by (cases s; simp add: status_defs)+

lemma status_color_in_map: "dict_get COLOR_MAP s = Some (status_color s)"
  by (cases s) (simp_all add: status_color_def COLOR_MAP_def dict_get_or_def)

lemma rc_value_inj: "return_code_value c = return_code_value d \<Longrightarrow> c = d"
  by (cases c; cases d; simp)

lemma first_match_None: "first_match e m = None \<longleftrightarrow> (\<forall>(c, s) \<in> set m. \<not> isinstance e c)"
  by (induction m) (auto split: if_splits)

text \<open>
  With single inheritance an exception is an instance of at most one of the classes the map
  names besides their common ancestors, so the order of the map decides nothing more than it
  says.
\<close>

lemma transient_exclusive:
  "is_subclass c OSSTransientError \<Longrightarrow>
     \<not> is_subclass c TestCaseFailure \<and> \<not> is_subclass c AssertionError \<and> \<not> is_subclass c SkipTest
     \<and> \<not> is_subclass c TimeoutError \<and> \<not> is_subclass c OSSTestbedError
     \<and> \<not> is_subclass c OSSConnectionError \<and> is_subclass c Exception"
  by (induction c) (simp_all add: is_subclass_def)

lemma exception_group_not_transient: "isinstance (ExnGroup m es) OSSTransientError \<longleftrightarrow> False"
  by (simp add: isinstance_def is_subclass_def)

lemma classify_transient:
  "isinstance e OSSTransientError \<Longrightarrow> classify_exception e = (ERROR, True)"
  by (simp add: classify_exception_def get_exception_to_status_map_def isinstance_def
      transient_exclusive)

lemma classify_transient_iff:
  "snd (classify_exception e) \<longleftrightarrow> isinstance e OSSTransientError"
proof (cases "isinstance e OSSTransientError")
  case True
  then show ?thesis by (simp add: classify_transient)
next
  case False
  then show ?thesis by (simp add: classify_exception_def Let_def split: option.split)
qed

lemma classify_never_passes: "fst (classify_exception e) \<noteq> PASSED"
proof -
  have "first_match e get_exception_to_status_map \<noteq> Some PASSED"
    by (simp add: get_exception_to_status_map_def)
  then show ?thesis
    by (auto simp: classify_exception_def Let_def split: option.splits)
qed

end
