(* ===== verification/Oss_Results.thy ===== *)
theory Oss_Results
  imports Oss_Status
begin

text \<open>
  Test results and their aggregation: \<open>runner/oss_test_result.py\<close> (the record of one
  execution) and \<open>runner/result_formatter.py\<close> (\<open>OSSResultAggregator\<close>: counts, summary,
  exit code, JSON and JUnit documents, the printed report). Writing the documents to disk is
  left out; the model returns the document. The wall clock, the JUnit timestamp and whether
  standard output is a terminal are arguments.
\<close>

section \<open>One result\<close>

record OSSTestResult =
  res_test_config :: string
  res_playbook :: string
  res_dut :: string
  res_status :: OSSTestStatus
  res_message :: string
  res_start_time :: rat
  res_end_time :: "rat option"
  res_duration :: "rat option"
  res_exception :: "py_exn option"
  res_traceback :: "string option"
  res_stdout :: string
  res_stderr :: string
  res_exception_type :: "string option"
  res_exception_message :: "string option"
  res_is_transient :: bool
  res_retry_count :: int
  res_log_file :: "string option"
  res_metadata :: "(string, string) dict"

text \<open>The dataclass constructor with its defaults; \<open>now\<close> is the clock's reading.\<close>

definition mk_OSSTestResult ::
    "rat \<Rightarrow> string \<Rightarrow> string \<Rightarrow> string \<Rightarrow> OSSTestStatus \<Rightarrow> OSSTestResult" where
  "mk_OSSTestResult now cfg pb dut st =
     \<lparr>res_test_config = cfg, res_playbook = pb, res_dut = dut, res_status = st,
      res_message = [], res_start_time = now, res_end_time = None, res_duration = None,
      res_exception = None, res_traceback = None, res_stdout = [], res_stderr = [],
      res_exception_type = None, res_exception_message = None, res_is_transient = False,
      res_retry_count = 0, res_log_file = None, res_metadata = []\<rparr>"

abbreviation res_test_case :: "OSSTestResult \<Rightarrow> string" where
  "res_test_case \<equiv> res_playbook"

definition res_failed :: "OSSTestResult \<Rightarrow> bool" where
  "res_failed r \<longleftrightarrow> status_failed (res_status r)"

text \<open>
  \<open>mark_complete\<close>: the duration is only set when both times are truthy (not \<open>0.0\<close>).
\<close>

definition mark_complete :: "rat \<Rightarrow> OSSTestStatus \<Rightarrow> string \<Rightarrow> OSSTestResult \<Rightarrow> OSSTestResult" where
  "mark_complete now st msg r =
     (let r' = r\<lparr>res_status := st, res_message := msg, res_end_time := Some now\<rparr>
      in if now \<noteq> 0 \<and> res_start_time r' \<noteq> 0
         then r'\<lparr>res_duration := Some (now - res_start_time r')\<rparr> else r')"

fun status_name :: "OSSTestStatus \<Rightarrow> string" where
  "status_name ERROR = ''ERROR''"
| "status_name FAILED = ''FAILED''"
| "status_name TIMEOUT = ''TIMEOUT''"
| "status_name PASSED = ''PASSED''"
| "status_name SKIPPED = ''SKIPPED''"
| "status_name OMITTED = ''OMITTED''"
| "status_name RETRIED = ''RETRIED''"
| "status_name SETUP_FAILED = ''SETUP_FAILED''"
| "status_name TEARDOWN_FAILED = ''TEARDOWN_FAILED''"
| "status_name TESTBED_FAILED = ''TESTBED_FAILED''"
| "status_name CONNECTION_FAILED = ''CONNECTION_FAILED''"
| "status_name NOT_RUN = ''NOT_RUN''"

definition to_dict :: "OSSTestResult \<Rightarrow> (string, pyval) dict" where
  "to_dict r =
     [(''test_case'', VStr (res_test_case r)),
      (''test_config'', VStr (res_test_config r)),
      (''playbook'', VStr (res_playbook r)),
      (''dut'', VStr (res_dut r)),
      (''status'', VStr (status_name (res_status r))),
      (''message'', VStr (res_message r)),
      (''start_time'', VFloat (res_start_time r)),
      (''end_time'', (case res_end_time r of None \<Rightarrow> VNone | Some t \<Rightarrow> VFloat t)),
      (''duration'', (case res_duration r of None \<Rightarrow> VNone | Some d \<Rightarrow> VFloat d)),
      (''exception'', (case res_exception r of None \<Rightarrow> VNone | Some e \<Rightarrow> VStr (exn_str e))),
      (''traceback'', opt_str (res_traceback r)),
      (''stdout'', VStr (res_stdout r)),
      (''stderr'', VStr (res_stderr r)),
      (''exception_type'', opt_str (res_exception_type r)),
      (''exception_message'', opt_str (res_exception_message r)),
      (''is_transient'', VBool (res_is_transient r)),
      (''retry_count'', VInt (res_retry_count r)),
      (''log_file'', opt_str (res_log_file r)),
      (''metadata'', VDict (map (\<lambda>(k, v). (k, VStr v)) (res_metadata r)))]"

definition duration_str :: "OSSTestResult \<Rightarrow> string" where
  "duration_str r = (case res_duration r of Some d \<Rightarrow> fmt_fixed 2 d @ ''s'' | None \<Rightarrow> ''N/A'')"

definition summary :: "bool \<Rightarrow> OSSTestResult \<Rightarrow> string" where
  "summary isatty r =
     (let color = (if isatty then status_color (res_status r) else []);
          reset = (if isatty then reset_color else [])
      in color @ ''['' @ status_name (res_status r) @ '']'' @ reset @ '' '' @ res_test_case r
         @ '' ('' @ duration_str r @ '')'')"

definition nonempty_line :: "string \<Rightarrow> string option \<Rightarrow> string list" where
  "nonempty_line label x =
     (case x of None \<Rightarrow> [] | Some s \<Rightarrow> if s = [] then [] else [label @ s])"

definition detailed_message :: "OSSTestResult \<Rightarrow> string" where
  "detailed_message r =
     join [nl]
       ([''Test Case: '' @ res_test_case r,
         ''Test Config: '' @ res_test_config r,
         ''Status: '' @ status_name (res_status r),
         ''Duration: '' @ duration_str r]
        @ nonempty_line ''DUT: '' (Some (res_dut r))
        @ nonempty_line ''Message: '' (Some (res_message r))
        @ nonempty_line ''Exception Type: '' (res_exception_type r)
        @ nonempty_line ''Exception Message: '' (res_exception_message r)
        @ nonempty_line (''Stacktrace:'' @ [nl]) (res_traceback r)
        @ nonempty_line ''Log File: '' (res_log_file r)
        @ (if res_retry_count r > 0 then [''Retry Count: '' @ show_int (res_retry_count r)] else [])
        @ (if res_is_transient r then [''Transient: Yes (retry-able)''] else []))"

section \<open>The aggregator\<close>

record OSSResultAggregator =
  agg_results :: "OSSTestResult list"

definition new_aggregator :: OSSResultAggregator where
  "new_aggregator = \<lparr>agg_results = []\<rparr>"

definition add_result :: "OSSTestResult \<Rightarrow> OSSResultAggregator \<Rightarrow> OSSResultAggregator" where
  "add_result r a = a\<lparr>agg_results := agg_results a @ [r]\<rparr>"

definition add_results :: "OSSTestResult list \<Rightarrow> OSSResultAggregator \<Rightarrow> OSSResultAggregator" where
  "add_results rs a = a\<lparr>agg_results := agg_results a @ rs\<rparr>"

definition total_count :: "OSSResultAggregator \<Rightarrow> nat" where
  "total_count a = length (agg_results a)"

text \<open>\<open>Counter\<close>: one entry per status seen, in order of first occurrence.\<close>

fun counter_add :: "'k \<Rightarrow> ('k, nat) dict \<Rightarrow> ('k, nat) dict" where
  "counter_add k [] = [(k, 1)]"
| "counter_add k ((k', n) # d) = (if k' = k then (k', Suc n) # d else (k', n) # counter_add k d)"

definition count_by_status :: "OSSResultAggregator \<Rightarrow> (OSSTestStatus, nat) dict" where
  "count_by_status a = fold (\<lambda>r. counter_add (res_status r)) (agg_results a) []"

text \<open>\<open>sum(1 for r in self.results if P(r))\<close>\<close>

definition count_if :: "(OSSTestResult \<Rightarrow> bool) \<Rightarrow> OSSResultAggregator \<Rightarrow> nat" where
  "count_if P a = length (filter P (agg_results a))"

abbreviation has_status :: "OSSTestStatus \<Rightarrow> OSSTestResult \<Rightarrow> bool" where
  "has_status s r \<equiv> res_status r = s"

definition passed_count :: "OSSResultAggregator \<Rightarrow> nat" where
  "passed_count a = count_if (has_status PASSED) a"

definition failed_count :: "OSSResultAggregator \<Rightarrow> nat" where
  "failed_count a = count_if (\<lambda>r. status_failed (res_status r)) a"

definition skipped_count :: "OSSResultAggregator \<Rightarrow> nat" where
  "skipped_count a = count_if (\<lambda>r. status_is_skipped (res_status r)) a"

definition any_result :: "(OSSTestResult \<Rightarrow> bool) \<Rightarrow> OSSResultAggregator \<Rightarrow> bool" where
  "any_result P a \<longleftrightarrow> (\<exists>r \<in> set (agg_results a). P r)"

definition has_failures :: "OSSResultAggregator \<Rightarrow> bool" where
  "has_failures a \<longleftrightarrow> any_result (\<lambda>r. status_failed (res_status r)) a"

definition has_transient_errors :: "OSSResultAggregator \<Rightarrow> bool" where
  "has_transient_errors a \<longleftrightarrow> any_result res_is_transient a"

definition has_infra_errors :: "OSSResultAggregator \<Rightarrow> bool" where
  "has_infra_errors a \<longleftrightarrow>
     any_result (\<lambda>r. res_status r \<in> {TESTBED_FAILED, CONNECTION_FAILED, SETUP_FAILED}
                     \<or> res_is_transient r) a"

definition all_passed :: "OSSResultAggregator \<Rightarrow> bool" where
  "all_passed a \<longleftrightarrow> (\<forall>r \<in> set (agg_results a). res_status r = PASSED)"

definition get_summary :: "OSSResultAggregator \<Rightarrow> (string, nat) dict" where
  "get_summary a =
     [(''total'', total_count a),
      (''passed'', passed_count a),
      (''failed'', count_if (has_status FAILED) a),
      (''error'', count_if (has_status ERROR) a),
      (''skipped'', skipped_count a),
      (''setup_failed'', count_if (has_status SETUP_FAILED) a),
      (''teardown_failed'', count_if (has_status TEARDOWN_FAILED) a),
      (''testbed_failed'', count_if (has_status TESTBED_FAILED) a),
      (''connection_failed'', count_if (has_status CONNECTION_FAILED) a),
      (''timeout'', count_if (has_status TIMEOUT) a),
      (''retried'', count_if (has_status RETRIED) a)]"

definition get_exit_code :: "OSSResultAggregator \<Rightarrow> OSSReturnCode" where
  "get_exit_code a =
     (if agg_results a = [] then NO_TESTS_FOUND
      else if any_result (\<lambda>r. has_status FAILED r \<or> (has_status ERROR r \<and> \<not> res_is_transient r)) a
        then TEST_CASE_FAILURE
      else if any_result (has_status TESTBED_FAILED) a then TESTBED_ERROR
      else if any_result (has_status CONNECTION_FAILED) a then CONNECTION_ERROR
      else if any_result (has_status TIMEOUT) a then TIMEOUT_ERROR
      else if any_result res_is_transient a then TRANSIENT_ERROR
      else if any_result (has_status SETUP_FAILED) a then INFRA_ERROR
      else if any_result (\<lambda>r. status_failed (res_status r)) a then TEST_CASE_FAILURE
      else SUCCESS)"

definition to_json :: "OSSResultAggregator \<Rightarrow> pyval" where
  "to_json a =
     VDict [(''summary'', VDict (map (\<lambda>(k, n). (k, VInt (int n))) (get_summary a))),
            (''results'', VList (map (\<lambda>r. VDict (to_dict r)) (agg_results a)))]"

section \<open>The JUnit document\<close>

datatype xml =
  Elem (xml_tag: string) (xml_attrs: "(string, string) dict") (xml_text: "string option")
    (xml_children: "xml list")

definition message_or :: "OSSTestResult \<Rightarrow> string \<Rightarrow> string" where
  "message_or r d = (if res_message r = [] then d else res_message r)"

definition text_if :: "string option \<Rightarrow> string option" where
  "text_if x = (case x of None \<Rightarrow> None | Some s \<Rightarrow> if s = [] then None else Some s)"

text \<open>The outcome element of a test case: at most one child, chosen by the status.\<close>

definition junit_outcome :: "OSSTestResult \<Rightarrow> xml list" where
  "junit_outcome r =
     (if res_status r = FAILED
        then [Elem ''failure'' [(''message'', message_or r ''Test failed'')]
                (text_if (res_traceback r)) []]
      else if res_status r \<in> {ERROR, SETUP_FAILED, TEARDOWN_FAILED, TIMEOUT}
        then [Elem ''error'' [(''message'', message_or r ''Test error'')]
                (text_if (res_traceback r)) []]
      else if status_is_skipped (res_status r)
        then [Elem ''skipped'' [(''message'', message_or r ''Test skipped'')] None []]
      else [])"

definition junit_testcase :: "OSSTestResult \<Rightarrow> xml" where
  "junit_testcase r =
     Elem ''testcase''
       ([(''name'', res_playbook r @ ''_'' @ res_dut r), (''classname'', res_test_config r)]
        @ (case res_duration r of
             None \<Rightarrow> []
           | Some d \<Rightarrow> if d = 0 then [] else [(''time'', fmt_fixed 3 d)]))
       None (junit_outcome r)"

definition errors_count :: "OSSResultAggregator \<Rightarrow> nat" where
  "errors_count a =
     count_if (has_status ERROR) a + count_if (has_status SETUP_FAILED) a
     + count_if (has_status TEARDOWN_FAILED) a + count_if (has_status TIMEOUT) a"

definition junit_totals :: "OSSResultAggregator \<Rightarrow> (string, string) dict" where
  "junit_totals a =
     [(''tests'', show_nat (total_count a)),
      (''failures'', show_nat (count_if (has_status FAILED) a)),
      (''errors'', show_nat (errors_count a)),
      (''skipped'', show_nat (skipped_count a))]"

definition to_junit_xml :: "string \<Rightarrow> OSSResultAggregator \<Rightarrow> xml" where
  "to_junit_xml timestamp a =
     Elem ''testsuites'' (junit_totals a) None
       [Elem ''testsuite''
          ((''name'', ''TAAC_OSS_Tests'') # junit_totals a @ [(''timestamp'', timestamp)])
          None (map junit_testcase (agg_results a))]"

definition print_summary :: "bool \<Rightarrow> OSSResultAggregator \<Rightarrow> string list" where
  "print_summary isatty a =
     (let rule = replicate 60 (CHR ''='');
          line = (\<lambda>label n. label @ show_nat n)
      in [rule, ''TEST SUMMARY'', rule,
          line ''Total Tests: '' (total_count a),
          line ''Passed: '' (passed_count a),
          line ''Failed: '' (count_if (has_status FAILED) a),
          line ''Error: '' (count_if (has_status ERROR) a),
          line ''Setup Failed: '' (count_if (has_status SETUP_FAILED) a),
          line ''Teardown Failed: '' (count_if (has_status TEARDOWN_FAILED) a),
          line ''Timeout: '' (count_if (has_status TIMEOUT) a),
          line ''Skipped: '' (skipped_count a), rule]
         @ map (summary isatty) (agg_results a))"

section \<open>Properties\<close>

lemma agg_results_add [simp]:
  "agg_results (add_result r a) = agg_results a @ [r]"
  "agg_results (add_results rs a) = agg_results a @ rs"
  "agg_results new_aggregator = []"
  by (simp_all add: add_result_def add_results_def new_aggregator_def)

lemma any_result_add [simp]:
  "any_result P (add_result r a) \<longleftrightarrow> any_result P a \<or> P r"
  by (auto simp: any_result_def)

lemma any_result_count: "any_result P a \<longleftrightarrow> 0 < count_if P a"
  by (auto simp: any_result_def count_if_def filter_empty_conv)

lemma count_if_add [simp]:
  "count_if P (add_result r a) = count_if P a + (if P r then 1 else 0)"
  by (simp add: count_if_def)

lemma sum_list_status_split:
  "length rs =
     length (filter (has_status PASSED) rs)
     + length (filter (has_status FAILED) rs) + length (filter (has_status ERROR) rs)
     + length (filter (has_status SETUP_FAILED) rs)
     + length (filter (has_status TEARDOWN_FAILED) rs)
     + length (filter (has_status TIMEOUT) rs)
     + length (filter (has_status TESTBED_FAILED) rs)
     + length (filter (has_status CONNECTION_FAILED) rs)
     + length (filter (\<lambda>r. status_is_skipped (res_status r)) rs)"
proof (induction rs)
  case Nil
  show ?case by simp
next
  case (Cons r rs)
  then show ?case by (cases "res_status r") (simp_all add: status_is_skipped_def)
qed

lemma any_result_mono: "any_result P a \<Longrightarrow> (\<And>r. P r \<Longrightarrow> Q r) \<Longrightarrow> any_result Q a"
  by (auto simp: any_result_def)

lemma any_result_disj: "any_result (\<lambda>r. P r \<or> Q r) a \<longleftrightarrow> any_result P a \<or> any_result Q a"
  by (auto simp: any_result_def)

lemma any_result_conj: "any_result (\<lambda>r. P r \<and> Q r) a \<Longrightarrow> any_result P a \<and> any_result Q a"
  by (auto simp: any_result_def)

lemma has_failures_split:
  "has_failures a \<longleftrightarrow>
     any_result (has_status FAILED) a \<or> any_result (has_status ERROR) a
     \<or> any_result (has_status TIMEOUT) a \<or> any_result (has_status SETUP_FAILED) a
     \<or> any_result (has_status TEARDOWN_FAILED) a \<or> any_result (has_status TESTBED_FAILED) a
     \<or> any_result (has_status CONNECTION_FAILED) a"
  by (auto simp: has_failures_def any_result_def status_failed_def)

lemma has_failures_any: "any_result (\<lambda>r. status_failed (res_status r)) a = has_failures a"
  by (simp add: has_failures_def)

lemma error_transient_split:
  "any_result (has_status ERROR) a \<Longrightarrow>
     any_result (\<lambda>r. has_status ERROR r \<and> \<not> res_is_transient r) a \<or> any_result res_is_transient a"
  by (auto simp: any_result_def)

lemma dict_get_counter_add:
  "dict_get (counter_add k d) k' =
     (if k' = k then Some (Suc (case dict_get d k of None \<Rightarrow> 0 | Some n \<Rightarrow> n)) else dict_get d k')"
  by (induction k d rule: counter_add.induct) auto

lemma dict_get_counter_fold:
  "dict_get (fold (\<lambda>r. counter_add (res_status r)) rs d) s =
     (let n = length (filter (has_status s) rs)
      in if n = 0 then dict_get d s
         else Some (n + (case dict_get d s of None \<Rightarrow> 0 | Some m \<Rightarrow> m)))"
  by (induction rs arbitrary: d) (auto simp: dict_get_counter_add Let_def split: option.split)

lemma junit_outcome_tag:
  "map xml_tag (junit_outcome r) =
     (if res_status r = FAILED then [''failure'']
      else if res_status r \<in> {ERROR, SETUP_FAILED, TEARDOWN_FAILED, TIMEOUT} then [''error'']
      else if status_is_skipped (res_status r) then [''skipped''] else [])"
  by (simp add: junit_outcome_def)

definition junit_cases :: "xml \<Rightarrow> xml list" where
  "junit_cases doc = concat (map xml_children (xml_children doc))"

definition cases_with :: "string list \<Rightarrow> xml \<Rightarrow> nat" where
  "cases_with tags doc = length (filter (\<lambda>c. map xml_tag (xml_children c) = tags) (junit_cases doc))"

lemma cases_with_to_junit:
  "cases_with tags (to_junit_xml ts a) = count_if (\<lambda>r. map xml_tag (junit_outcome r) = tags) a"
  by (simp add: cases_with_def junit_cases_def to_junit_xml_def count_if_def filter_map o_def
      junit_testcase_def)

lemma count_if_partition:
  "(\<And>r. P r \<longleftrightarrow> Q r \<or> R r) \<Longrightarrow> (\<And>r. \<not> (Q r \<and> R r)) \<Longrightarrow> count_if P a = count_if Q a + count_if R a"
proof -
  assume PQR: "\<And>r. P r \<longleftrightarrow> Q r \<or> R r" and disj: "\<And>r. \<not> (Q r \<and> R r)"
  have "length (filter P rs) = length (filter Q rs) + length (filter R rs)" for rs
    by (induction rs) (use PQR disj in auto)
  then show ?thesis by (simp add: count_if_def)
qed

text \<open>
  C6. The run exits with \<open>SUCCESS\<close> exactly when at least one result was recorded and no
  result has a failed status or is still flagged transient.
\<close>

theorem exit_code_success_iff:
  "get_exit_code a = SUCCESS \<longleftrightarrow>
     agg_results a \<noteq> [] \<and> \<not> has_failures a \<and> \<not> has_transient_errors a"
proof -
  have "get_exit_code a = SUCCESS \<Longrightarrow> \<not> has_failures a \<and> \<not> has_transient_errors a"
    by (simp add: get_exit_code_def has_failures_any has_transient_errors_def split: if_splits)
  moreover have "agg_results a \<noteq> [] \<Longrightarrow> \<not> has_failures a \<Longrightarrow> \<not> has_transient_errors a \<Longrightarrow>
      get_exit_code a = SUCCESS"
    by (simp add: get_exit_code_def any_result_disj has_failures_split has_transient_errors_def)
       (auto simp: any_result_def status_failed_def)
  moreover have "get_exit_code a = SUCCESS \<Longrightarrow> agg_results a \<noteq> []"
    by (auto simp: get_exit_code_def)
  ultimately show ?thesis by blast
qed

text \<open>
  A genuine test failure is never masked by an infrastructure result: the exit code is
  \<open>TEST_CASE_FAILURE\<close> exactly when some result is \<open>FAILED\<close> or a non-transient
  \<open>ERROR\<close>, or when a teardown failed and there is no timeout and no infrastructure or
  transient result.
\<close>

theorem exit_code_test_failure_iff:
  "get_exit_code a = TEST_CASE_FAILURE \<longleftrightarrow>
     any_result (has_status FAILED) a
     \<or> any_result (\<lambda>r. has_status ERROR r \<and> \<not> res_is_transient r) a
     \<or> any_result (has_status TEARDOWN_FAILED) a \<and> \<not> any_result (has_status TIMEOUT) a
       \<and> \<not> has_infra_errors a"
proof -
  have infra: "has_infra_errors a \<longleftrightarrow>
      any_result (has_status TESTBED_FAILED) a \<or> any_result (has_status CONNECTION_FAILED) a
      \<or> any_result (has_status SETUP_FAILED) a \<or> any_result res_is_transient a"
    by (auto simp: has_infra_errors_def any_result_def)
  have ne: "any_result P a \<Longrightarrow> agg_results a \<noteq> []" for P
    by (auto simp: any_result_def)
  show ?thesis
    using error_transient_split [of a] ne
    by (auto simp: get_exit_code_def any_result_disj has_failures_any has_failures_split infra)
qed

text \<open>
  The suite totals of the JUnit document agree with its test cases: as many cases carry a
  \<open>failure\<close>, \<open>error\<close> or \<open>skipped\<close> element as the attributes say, every result gives one
  case, and the cases without an element are the passed ones together with the
  \<open>TESTBED_FAILED\<close> and \<open>CONNECTION_FAILED\<close> ones, which no total counts.
\<close>

theorem junit_totals_agree:
  "cases_with [''failure''] (to_junit_xml ts a) = count_if (has_status FAILED) a
   \<and> cases_with [''error''] (to_junit_xml ts a) = errors_count a
   \<and> cases_with [''skipped''] (to_junit_xml ts a) = skipped_count a
   \<and> cases_with [] (to_junit_xml ts a)
       = passed_count a + count_if (has_status TESTBED_FAILED) a
         + count_if (has_status CONNECTION_FAILED) a
   \<and> length (junit_cases (to_junit_xml ts a)) = total_count a"
proof -
  have "map xml_tag (junit_outcome r) = [''failure''] \<longleftrightarrow> has_status FAILED r" for r
    by (simp add: junit_outcome_tag)
  moreover have "count_if (\<lambda>r. map xml_tag (junit_outcome r) = [''error'']) a = errors_count a"
  proof -
    have "count_if (\<lambda>r. map xml_tag (junit_outcome r) = [''error'']) a =
        count_if (\<lambda>r. has_status ERROR r \<or> has_status SETUP_FAILED r \<or> has_status TEARDOWN_FAILED r) a
        + count_if (has_status TIMEOUT) a"
      by (rule count_if_partition) (auto simp: junit_outcome_tag)
    also have "count_if (\<lambda>r. has_status ERROR r \<or> has_status SETUP_FAILED r \<or> has_status TEARDOWN_FAILED r) a
        = count_if (\<lambda>r. has_status ERROR r \<or> has_status SETUP_FAILED r) a
          + count_if (has_status TEARDOWN_FAILED) a"
      by (rule count_if_partition) auto
    also have "count_if (\<lambda>r. has_status ERROR r \<or> has_status SETUP_FAILED r) a
        = count_if (has_status ERROR) a + count_if (has_status SETUP_FAILED) a"
      by (rule count_if_partition) auto
    finally show ?thesis by (simp add: errors_count_def)
  qed
  moreover have "map xml_tag (junit_outcome r) = [''skipped''] \<longleftrightarrow> status_is_skipped (res_status r)" for r
    by (cases "res_status r") (simp_all add: junit_outcome_tag status_is_skipped_def)
  moreover have "count_if (\<lambda>r. junit_outcome r = []) a =
      passed_count a + count_if (has_status TESTBED_FAILED) a + count_if (has_status CONNECTION_FAILED) a"
  proof -
    have "count_if (\<lambda>r. junit_outcome r = []) a =
        count_if (\<lambda>r. has_status PASSED r \<or> has_status TESTBED_FAILED r) a
        + count_if (has_status CONNECTION_FAILED) a"
    proof (rule count_if_partition)
      fix r
      show "(junit_outcome r = []) =
          ((has_status PASSED r \<or> has_status TESTBED_FAILED r) \<or> has_status CONNECTION_FAILED r)"
        by (cases "res_status r") (simp_all add: junit_outcome_def status_is_skipped_def)
    qed auto
    also have "count_if (\<lambda>r. has_status PASSED r \<or> has_status TESTBED_FAILED r) a
        = passed_count a + count_if (has_status TESTBED_FAILED) a"
      unfolding passed_count_def by (rule count_if_partition) auto
    finally show ?thesis .
  qed
  ultimately show ?thesis
    by (simp add: cases_with_to_junit skipped_count_def)
       (simp add: junit_cases_def to_junit_xml_def total_count_def)
qed

text \<open>
  Every result is counted once: the total is the sum of the counters of the summary (the
  retried results are part of the skipped ones).
\<close>

theorem summary_partition:
  "total_count a =
     passed_count a + count_if (has_status FAILED) a + errors_count a
     + count_if (has_status TESTBED_FAILED) a + count_if (has_status CONNECTION_FAILED) a
     + skipped_count a"
  unfolding total_count_def passed_count_def errors_count_def skipped_count_def count_if_def
  by (subst sum_list_status_split) simp

text \<open>
  \<open>count_by_status\<close> has an entry for exactly the statuses that occur, and the entry is
  the number of results with that status.
\<close>

theorem count_by_status_correct:
  "dict_get (count_by_status a) s =
     (if count_if (has_status s) a = 0 then None else Some (count_if (has_status s) a))"
  by (simp add: count_by_status_def dict_get_counter_fold count_if_def Let_def)

end
