(* ===== verification/Oss_Executor.thy ===== *)
theory Oss_Executor
  imports Oss_Results
begin

text \<open>
  The test executor (\<open>runner/oss_test_executor.py\<close>): it runs one playbook on one device and
  turns whatever happens into one \<open>OSSTestResult\<close>. The runner it drives is a parameter, an
  environment whose operations read and change a world \<open>'w\<close> (devices, clock, event loop) and
  may raise; nothing is assumed of it.
\<close>

section \<open>The environment\<close>

record playbook =
  pb_name :: string
  pb_enabled :: bool

text \<open>
  \<open>env_run_tests\<close> is \<open>taac_runner.run_tests([playbook], [dut])\<close>; \<open>env_now\<close> is
  \<open>time.time()\<close>; \<open>env_format_exc\<close> is \<open>traceback.format_exc()\<close>.
\<close>

record 'w exec_env =
  env_run_tests :: "playbook \<Rightarrow> string \<Rightarrow> 'w \<Rightarrow> py_exn option \<times> 'w"
  env_now :: "'w \<Rightarrow> rat"
  env_format_exc :: "py_exn \<Rightarrow> string"
  env_log_file :: "string option"

section \<open>The exception that decides a status\<close>

fun first_some :: "'a option list \<Rightarrow> 'a option" where
  "first_some [] = None"
| "first_some (None # xs) = first_some xs"
| "first_some (Some x # xs) = Some x"

fun primary_exception :: "py_exn \<Rightarrow> py_exn option" where
  "primary_exception (Exn c m) = (if is_subclass c Exception then Some (Exn c m) else None)"
| "primary_exception (ExnGroup m es) = first_some (map primary_exception es)"

section \<open>Executing a playbook\<close>

definition exception_result ::
    "'w exec_env \<Rightarrow> playbook \<Rightarrow> string \<Rightarrow> string \<Rightarrow> rat \<Rightarrow> rat \<Rightarrow> py_exn \<Rightarrow> py_exn \<Rightarrow> OSSTestResult" where
  "exception_result env pb dut test_config start now e cause =
     (let (status, transient) = classify_exception cause;
          exception_type = exn_name (exn_class_of cause)
      in (mk_OSSTestResult now test_config (pb_name pb) dut status)
           \<lparr>res_duration := Some (now - start),
            res_message := exception_type @ '': '' @ exn_str cause,
            res_traceback := Some (env_format_exc env e),
            res_exception_type := Some exception_type,
            res_exception_message := Some (exn_str cause),
            res_is_transient := transient,
            res_log_file := env_log_file env\<rparr>)"

definition execute_playbook ::
    "'w exec_env \<Rightarrow> playbook \<Rightarrow> string \<Rightarrow> string \<Rightarrow> 'w \<Rightarrow> OSSTestResult result \<times> 'w" where
  "execute_playbook env pb dut test_config w =
     (let start = env_now env w;
          (outcome, w') = env_run_tests env pb dut w;
          now = env_now env w'
      in case outcome of
           None \<Rightarrow>
             (Inr ((mk_OSSTestResult now test_config (pb_name pb) dut PASSED)
                     \<lparr>res_duration := Some (now - start), res_traceback := Some [],
                      res_log_file := env_log_file env\<rparr>), w')
         | Some e \<Rightarrow>
             if isinstance_any e [Exception, BaseExceptionGroup]
             then (case primary_exception e of
                     None \<Rightarrow> (Inl e, w')
                   | Some cause \<Rightarrow>
                       (Inr (exception_result env pb dut test_config start now e cause), w'))
             else (Inl e, w'))"

section \<open>The static helpers\<close>

definition map_exception_to_status :: "py_exn \<Rightarrow> OSSTestStatus" where
  "map_exception_to_status e =
     (if isinstance e OSSSetupError then SETUP_FAILED
      else if isinstance e OSSTeardownError then TEARDOWN_FAILED
      else if isinstance_any e [OSSInfrastructureError, OSSTestbedError] then SETUP_FAILED
      else if isinstance e OSSConfigError then ERROR
      else if isinstance e OSSTestExecutionError then FAILED
      else if isinstance e TimeoutError then TIMEOUT
      else if isinstance e AssertionError then FAILED
      else ERROR)"

text \<open>\<open>execute_with_exception_handling\<close>: \<open>outcome\<close> is what awaiting the coroutine does.\<close>

definition execute_with_exception_handling ::
    "rat \<Rightarrow> (py_exn \<Rightarrow> string) \<Rightarrow> OSSTestResult \<Rightarrow> py_exn option \<Rightarrow> OSSTestResult result" where
  "execute_with_exception_handling now format_exc r outcome =
     (case outcome of
        None \<Rightarrow> Inr (mark_complete now PASSED ''Test completed successfully'' r)
      | Some e \<Rightarrow>
          if isinstance e Exception
          then Inr (mark_complete now (map_exception_to_status e) (exn_str e)
                      (r\<lparr>res_exception := Some e, res_traceback := Some (format_exc e)\<rparr>))
          else Inl e)"

text \<open>
  \<open>execute_with_retry\<close>: the loop over the attempts still allowed. Reaching the final
  \<open>raise last_exception\<close> with no exception seen would raise \<open>TypeError\<close>.
\<close>

fun retry_loop ::
    "('w \<Rightarrow> 'a result \<times> 'w) \<Rightarrow> nat \<Rightarrow> py_exn option \<Rightarrow> 'w \<Rightarrow> 'a result \<times> 'w" where
  "retry_loop f 0 last_exception w =
     (case last_exception of
        None \<Rightarrow> (Inl (Exn TypeError ''exceptions must derive from BaseException''), w)
      | Some e \<Rightarrow> (Inl e, w))"
| "retry_loop f (Suc n) last_exception w =
     (case f w of
        (Inr a, w') \<Rightarrow> (Inr a, w')
      | (Inl e, w') \<Rightarrow>
          if isinstance e OSSTransientError then retry_loop f n (Some e) w' else (Inl e, w'))"

definition execute_with_retry ::
    "('w \<Rightarrow> 'a result \<times> 'w) \<Rightarrow> int \<Rightarrow> 'w \<Rightarrow> 'a result \<times> 'w" where
  "execute_with_retry f max_retries w = retry_loop f (nat (max 0 max_retries) + 1) None w"

text \<open>The world before attempt \<open>k\<close> and the outcome of attempt \<open>k\<close>, counted from zero.\<close>

fun world_at :: "('w \<Rightarrow> 'a \<times> 'w) \<Rightarrow> nat \<Rightarrow> 'w \<Rightarrow> 'w" where
  "world_at f 0 w = w"
| "world_at f (Suc k) w = world_at f k (snd (f w))"

definition outcome_at :: "('w \<Rightarrow> 'a \<times> 'w) \<Rightarrow> nat \<Rightarrow> 'w \<Rightarrow> 'a" where
  "outcome_at f k w = fst (f (world_at f k w))"

definition transient_outcome :: "'a result \<Rightarrow> bool" where
  "transient_outcome o' = (case o' of Inl e \<Rightarrow> isinstance e OSSTransientError | Inr _ \<Rightarrow> False)"

section \<open>Lemmas\<close>

lemma first_some_Some: "first_some xs = Some x \<Longrightarrow> Some x \<in> set xs"
  by (induction xs rule: first_some.induct) auto

lemma first_some_None: "first_some xs = None \<longleftrightarrow> set xs \<subseteq> {None}"
  by (induction xs rule: first_some.induct) auto

text \<open>The leaves of an exception: the plain exceptions of a group, at any depth.\<close>

fun leaves :: "py_exn \<Rightarrow> py_exn list" where
  "leaves (Exn c m) = [Exn c m]"
| "leaves (ExnGroup m es) = concat (map leaves es)"

lemma first_some_concat:
  "first_some (map (\<lambda>e. find P (f e)) es) = find P (concat (map f es))"
proof (induction es)
  case Nil
  show ?case by simp
next
  case (Cons e es)
  have "find P (xs @ ys) = (case find P xs of None \<Rightarrow> find P ys | Some x \<Rightarrow> Some x)" for xs ys
    by (induction xs) auto
  then show ?case using Cons.IH by (cases "find P (f e)") auto
qed

lemma primary_exception_leaves:
  "primary_exception e = find (\<lambda>x. is_subclass (exn_class_of x) Exception) (leaves e)"
proof (induction e)
  case (Exn c m)
  show ?case by simp
next
  case (ExnGroup m es)
  then have "map primary_exception es =
      map (\<lambda>e. find (\<lambda>x. is_subclass (exn_class_of x) Exception) (leaves e)) es"
    by simp
  then show ?case by (simp only: primary_exception.simps leaves.simps first_some_concat)
qed

lemma group_isinstance: "isinstance (ExnGroup m es) BaseExceptionGroup"
  by (simp add: isinstance_def is_subclass_def)

abbreviation is_exception :: "py_exn \<Rightarrow> bool" where
  "is_exception x \<equiv> is_subclass (exn_class_of x) Exception"

lemma caught_iff_or_reraised:
  "\<not> isinstance_any e [Exception, BaseExceptionGroup] \<Longrightarrow> primary_exception e = None"
proof (cases e)
  case (Exn c m)
  moreover assume "\<not> isinstance_any e [Exception, BaseExceptionGroup]"
  ultimately show ?thesis by (simp add: isinstance_any_def isinstance_def)
next
  case (ExnGroup m es)
  moreover assume "\<not> isinstance_any e [Exception, BaseExceptionGroup]"
  ultimately show ?thesis using group_isinstance by (simp add: isinstance_any_def)
qed

lemma retry_loop_spec:
  "\<exists>k \<le> n. (\<forall>j < k. transient_outcome (outcome_at f j w))
      \<and> retry_loop f (Suc n) l w = (outcome_at f k w, world_at f (Suc k) w)
      \<and> (k < n \<longrightarrow> \<not> transient_outcome (outcome_at f k w))"
proof (induction n arbitrary: l w)
  case 0
  show ?case
    by (rule exI [of _ 0]) (auto simp: outcome_at_def split: prod.split sum.split)
next
  case (Suc n)
  obtain o1 w1 where f: "f w = (o1, w1)" by (cases "f w")
  show ?case
  proof (cases "transient_outcome o1")
    case False
    then have "retry_loop f (Suc (Suc n)) l w = (o1, w1)"
      using f by (auto simp: transient_outcome_def split: sum.splits)
    then show ?thesis
      using False f by (intro exI [of _ 0]) (simp add: outcome_at_def)
  next
    case True
    then obtain e where e: "o1 = Inl e" "isinstance e OSSTransientError"
      by (auto simp: transient_outcome_def split: sum.splits)
    from Suc.IH [where l = "Some e" and w = w1] obtain k where k: "k \<le> n"
      "\<forall>j < k. transient_outcome (outcome_at f j w1)"
      "retry_loop f (Suc n) (Some e) w1 = (outcome_at f k w1, world_at f (Suc k) w1)"
      "k < n \<longrightarrow> \<not> transient_outcome (outcome_at f k w1)" by blast
    have shift: "outcome_at f (Suc j) w = outcome_at f j w1" for j
      using f by (simp add: outcome_at_def)
    have first: "transient_outcome (outcome_at f 0 w)"
      using True f by (simp add: outcome_at_def)
    have "\<forall>j < Suc k. transient_outcome (outcome_at f j w)"
      using k(2) first shift by (auto simp: less_Suc_eq_0_disj)
    then show ?thesis
      using k f e shift by (intro exI [of _ "Suc k"]) auto
  qed
qed

text \<open>
  C8. One result per execution, decided by the first real exception: a run that ends normally
  is \<open>PASSED\<close>; a run that raises is classified by the first leaf of the exception (in
  nested groups, in order) that is an \<open>Exception\<close>; and only an exception with no such
  leaf, a pure cancellation, is raised again.
\<close>

theorem execute_playbook_status:
  "map_sum id (\<lambda>r. (res_status r, res_is_transient r))
       (fst (execute_playbook env pb dut test_config w)) =
     (case fst (env_run_tests env pb dut w) of
        None \<Rightarrow> Inr (PASSED, False)
      | Some e \<Rightarrow>
          (case find is_exception (leaves e) of
             None \<Rightarrow> Inl e
           | Some cause \<Rightarrow> Inr (classify_exception cause)))"
proof -
  obtain outcome w' where run: "env_run_tests env pb dut w = (outcome, w')"
    by (cases "env_run_tests env pb dut w")
  show ?thesis
  proof (cases outcome)
    case None
    then show ?thesis using run
      by (simp add: execute_playbook_def mk_OSSTestResult_def Let_def)
  next
    case (Some e)
    then show ?thesis using run caught_iff_or_reraised [of e]
      by (simp add: execute_playbook_def exception_result_def mk_OSSTestResult_def Let_def
          flip: primary_exception_leaves split: option.split prod.split)
  qed
qed

text \<open>
  C7. \<open>execute_with_retry\<close> makes at most one attempt more than the (non-negative part of the)
  retry limit and returns or raises exactly what its last attempt did: every earlier attempt
  failed with a transient error, and it stops early only on a success or on an error that is
  not transient.
\<close>

theorem execute_with_retry_spec:
  "\<exists>k \<le> nat (max 0 max_retries).
      (\<forall>j < k. transient_outcome (outcome_at f j w))
      \<and> execute_with_retry f max_retries w = (outcome_at f k w, world_at f (Suc k) w)
      \<and> (k < nat (max 0 max_retries) \<longrightarrow> \<not> transient_outcome (outcome_at f k w))"
  using retry_loop_spec [of "nat (max 0 max_retries)" f w None]
  by (simp only: execute_with_retry_def Suc_eq_plus1 [symmetric])

text \<open>A call that fails once with a transient error and then returns.\<close>

definition flaky_once :: "nat \<Rightarrow> nat result \<times> nat" where
  "flaky_once n = (if n = 0 then Inl (Exn OSSTransientError []) else Inr n, Suc n)"

theorem execute_with_retry_witness:
  "execute_with_retry flaky_once 2 0 = (Inr 1, 2)
   \<and> (\<exists>k \<le> nat (max 0 2).
        (\<forall>j < k. transient_outcome (outcome_at flaky_once j 0))
        \<and> execute_with_retry flaky_once 2 0 = (outcome_at flaky_once k 0, world_at flaky_once (Suc k) 0)
        \<and> (k < nat (max 0 2) \<longrightarrow> \<not> transient_outcome (outcome_at flaky_once k 0)))"
proof
  show "execute_with_retry flaky_once 2 0 = (Inr 1, 2)"
    by (simp add: execute_with_retry_def flaky_once_def isinstance_Exn numeral_2_eq_2)
qed (rule execute_with_retry_spec)

end
