(* ===== verification/Ipaddr.thy ===== *)
theory Ipaddr
  imports Taac_Prelude
begin

text \<open>
  The part of Python's \<open>ipaddress\<close> module the sources use: addresses as a version and an
  integer, parsing (\<open>ipaddress.ip_address\<close>), printing (\<open>str\<close>, with the compression of
  IPv6 texts) and the range checks of the integer constructors. Zone identifiers
  (\<open>fe80::1%eth0\<close>) are not modelled: a text with a percent sign does not parse.
\<close>

section \<open>Addresses\<close>

datatype ip_addr = IPv4 int | IPv6 int

fun ip_version :: "ip_addr \<Rightarrow> int" where
  "ip_version (IPv4 n) = 4"
| "ip_version (IPv6 n) = 6"

fun ip_int :: "ip_addr \<Rightarrow> int" where
  "ip_int (IPv4 n) = n"
| "ip_int (IPv6 n) = n"

definition max_prefixlen :: "int \<Rightarrow> nat" where
  "max_prefixlen version = (if version = 4 then 32 else 128)"

definition ip_valid :: "ip_addr \<Rightarrow> bool" where
  "ip_valid a \<longleftrightarrow> 0 \<le> ip_int a \<and> ip_int a < 2 ^ max_prefixlen (ip_version a)"

text \<open>\<open>IPv4Address(n)\<close> and \<open>IPv6Address(n)\<close>: out of range raises \<open>AddressValueError\<close>.\<close>

definition ip_of_int :: "int \<Rightarrow> int \<Rightarrow> ip_addr result" where
  "ip_of_int version n =
     (if 0 \<le> n \<and> n < 2 ^ max_prefixlen version
      then Inr (if version = 4 then IPv4 n else IPv6 n)
      else Inl (Exn (UserExn ''AddressValueError'' ValueError) ''address out of range''))"

section \<open>Splitting and number formats\<close>

fun split_on :: "char \<Rightarrow> string \<Rightarrow> string list" where
  "split_on c [] = [[]]"
| "split_on c (x # xs) =
     (if x = c then [] # split_on c xs
      else case split_on c xs of [] \<Rightarrow> [[x]] | p # ps \<Rightarrow> (x # p) # ps)"

definition is_digit :: "char \<Rightarrow> bool" where
  "is_digit c \<longleftrightarrow> 48 \<le> (of_char c :: nat) \<and> (of_char c :: nat) \<le> 57"

definition digit_val :: "char \<Rightarrow> nat" where
  "digit_val c = of_char c - 48"

definition parse_dec :: "string \<Rightarrow> nat" where
  "parse_dec s = foldl (\<lambda>n c. 10 * n + digit_val c) 0 s"

definition hex_val :: "char \<Rightarrow> nat option" where
  "hex_val c =
     (let n = (of_char c :: nat)
      in if 48 \<le> n \<and> n \<le> 57 then Some (n - 48)
         else if 97 \<le> n \<and> n \<le> 102 then Some (n - 87)
         else if 65 \<le> n \<and> n \<le> 70 then Some (n - 55) else None)"

definition hex_char :: "nat \<Rightarrow> char" where
  "hex_char n = (if n < 10 then char_of (48 + n) else char_of (87 + n))"

fun show_hex :: "nat \<Rightarrow> string" where
  "show_hex n = (if n < 16 then [hex_char n] else show_hex (n div 16) @ [hex_char (n mod 16)])"

declare show_hex.simps [simp del]

section \<open>Parsing\<close>

definition parse_octet :: "string \<Rightarrow> nat option" where
  "parse_octet s =
     (if s = [] \<or> \<not> list_all is_digit s \<or> length s > 3 then None
      else if s \<noteq> ''0'' \<and> hd s = CHR ''0'' then None
      else if parse_dec s > 255 then None else Some (parse_dec s))"

definition ipv4_of_string :: "string \<Rightarrow> int option" where
  "ipv4_of_string s =
     (case map parse_octet (split_on (CHR ''.'') s) of
        [Some a, Some b, Some c, Some d] \<Rightarrow>
          Some (int a * 16777216 + int b * 65536 + int c * 256 + int d)
      | _ \<Rightarrow> None)"

fun parse_hextet_acc :: "int \<Rightarrow> string \<Rightarrow> int option" where
  "parse_hextet_acc n [] = Some n"
| "parse_hextet_acc n (c # cs) =
     (case hex_val c of None \<Rightarrow> None | Some d \<Rightarrow> parse_hextet_acc (16 * n + int d) cs)"

definition parse_hextet :: "string \<Rightarrow> int option" where
  "parse_hextet s = (if s = [] \<or> length s > 4 then None else parse_hextet_acc 0 s)"

fun parse_hextets :: "int \<Rightarrow> string list \<Rightarrow> int option" where
  "parse_hextets n [] = Some n"
| "parse_hextets n (p # ps) =
     (case parse_hextet p of None \<Rightarrow> None | Some h \<Rightarrow> parse_hextets (65536 * n + h) ps)"

text \<open>The positions \<open>1 .. len - 2\<close> of the empty parts, where \<open>::\<close> stands.\<close>

definition empty_inner :: "string list \<Rightarrow> nat list" where
  "empty_inner parts = filter (\<lambda>i. parts ! i = []) [1 ..< length parts - 1]"

definition ipv4_suffix :: "string list \<Rightarrow> string list option" where
  "ipv4_suffix parts =
     (if CHR ''.'' \<in> set (last parts)
      then (case ipv4_of_string (last parts) of
              None \<Rightarrow> None
            | Some n \<Rightarrow> Some (butlast parts @ [show_hex (nat (n div 65536)),
                                               show_hex (nat (n mod 65536))]))
      else Some parts)"

definition ipv6_of_parts :: "string list \<Rightarrow> int option" where
  "ipv6_of_parts parts =
     (if length parts > 9 then None
      else case empty_inner parts of
        [] \<Rightarrow>
          if length parts \<noteq> 8 \<or> hd parts = [] \<or> last parts = [] then None
          else parse_hextets 0 parts
      | [skip] \<Rightarrow>
          (let hi0 = skip; lo0 = length parts - skip - 1;
               hi = (if hd parts = [] then hi0 - 1 else hi0);
               lo = (if last parts = [] then lo0 - 1 else lo0)
           in if hd parts = [] \<and> hi \<noteq> 0 then None
              else if last parts = [] \<and> lo \<noteq> 0 then None
              else if hi + lo > 7 then None
              else case parse_hextets 0 (take hi parts) of
                     None \<Rightarrow> None
                   | Some n \<Rightarrow>
                       parse_hextets (n * 65536 ^ (8 - (hi + lo))) (drop (length parts - lo) parts))
      | _ \<Rightarrow> None)"

definition ipv6_of_string :: "string \<Rightarrow> int option" where
  "ipv6_of_string s =
     (if CHR ''%'' \<in> set s then None
      else let parts = split_on (CHR '':'') s
           in if length parts < 3 then None
              else case ipv4_suffix parts of None \<Rightarrow> None | Some ps \<Rightarrow> ipv6_of_parts ps)"

definition parse_ip :: "string \<Rightarrow> ip_addr option" where
  "parse_ip s =
     (case ipv4_of_string s of
        Some n \<Rightarrow> Some (IPv4 n)
      | None \<Rightarrow> (case ipv6_of_string s of Some n \<Rightarrow> Some (IPv6 n) | None \<Rightarrow> None))"

definition ip_address :: "string \<Rightarrow> ip_addr result" where
  "ip_address s =
     (case parse_ip s of
        Some a \<Rightarrow> Inr a
      | None \<Rightarrow> Inl (value_error ''does not appear to be an IPv4 or IPv6 address''))"

section \<open>Networks\<close>

text \<open>
  \<open>ipaddress.ip_network(text)\<close> with its default \<open>strict=True\<close>. The part after the slash is
  a prefix length or, for IPv4, a netmask or a host mask; every failure raises a
  \<open>ValueError\<close> (or a subclass the module turns into one).
\<close>

record ip_net =
  network_address :: ip_addr
  net_prefixlen :: nat

definition prefix_from_string :: "nat \<Rightarrow> string \<Rightarrow> nat option" where
  "prefix_from_string limit s =
     (if s = [] \<or> \<not> list_all is_digit s \<or> parse_dec s > limit then None else Some (parse_dec s))"

definition prefix_from_ip_int :: "int \<Rightarrow> nat option" where
  "prefix_from_ip_int n = find (\<lambda>p. n = (2 ^ p - 1) * 2 ^ (32 - p)) [0 ..< 33]"

definition prefix_from_ip_string :: "string \<Rightarrow> nat option" where
  "prefix_from_ip_string s =
     (case ipv4_of_string s of
        None \<Rightarrow> None
      | Some n \<Rightarrow>
          (case prefix_from_ip_int n of
             Some p \<Rightarrow> Some p
           | None \<Rightarrow> prefix_from_ip_int (2 ^ 32 - 1 - n)))"

definition make_netmask :: "int \<Rightarrow> string option \<Rightarrow> nat option" where
  "make_netmask version netmask =
     (case netmask of
        None \<Rightarrow> Some (max_prefixlen version)
      | Some s \<Rightarrow>
          (case prefix_from_string (max_prefixlen version) s of
             Some p \<Rightarrow> Some p
           | None \<Rightarrow> if version = 4 then prefix_from_ip_string s else None))"

definition ip_network :: "string \<Rightarrow> ip_net result" where
  "ip_network s =
     (let invalid = Inl (value_error ''does not appear to be an IPv4 or IPv6 network'');
          build = (\<lambda>addr netmask.
            case parse_ip addr of
              None \<Rightarrow> invalid
            | Some a \<Rightarrow>
                (case make_netmask (ip_version a) netmask of
                   None \<Rightarrow> invalid
                 | Some p \<Rightarrow>
                     if ip_int a mod 2 ^ (max_prefixlen (ip_version a) - p) \<noteq> 0
                     then Inl (value_error ''has host bits set'')
                     else Inr \<lparr>network_address = a, net_prefixlen = p\<rparr>))
      in case split_on (CHR ''/'') s of
           [addr] \<Rightarrow> build addr None
         | [addr, netmask] \<Rightarrow> build addr (Some netmask)
         | _ \<Rightarrow> invalid)"

section \<open>Printing\<close>

definition ipv4_str :: "int \<Rightarrow> string" where
  "ipv4_str n =
     join ''.'' [show_nat (nat (n div 16777216 mod 256)), show_nat (nat (n div 65536 mod 256)),
                 show_nat (nat (n div 256 mod 256)), show_nat (nat (n mod 256))]"

definition hextets :: "int \<Rightarrow> string list" where
  "hextets n = map (\<lambda>i. show_hex (nat (n div 65536 ^ (7 - i) mod 65536))) [0 ..< 8]"

text \<open>The longest run of zero hextets, the first of equals: \<open>(start, length)\<close>.\<close>

fun zero_run :: "string list \<Rightarrow> nat" where
  "zero_run [] = 0"
| "zero_run (h # hs) = (if h = ''0'' then Suc (zero_run hs) else 0)"

fun best_run :: "nat \<Rightarrow> string list \<Rightarrow> nat \<times> nat \<Rightarrow> nat \<times> nat" where
  "best_run i [] b = b"
| "best_run i (h # hs) b =
     (let r = zero_run (h # hs)
      in best_run (Suc i) hs (if r > snd b then (i, r) else b))"

definition compress_hextets :: "string list \<Rightarrow> string list" where
  "compress_hextets hs =
     (let (start, len) = best_run 0 hs (0, 0)
      in if len > 1
         then (if start = 0 then [[]] else []) @ take start hs @ [[]] @ drop (start + len) hs
              @ (if start + len = length hs then [[]] else [])
         else hs)"

definition ipv6_str :: "int \<Rightarrow> string" where
  "ipv6_str n = join '':'' (compress_hextets (hextets n))"

fun ip_str :: "ip_addr \<Rightarrow> string" where
  "ip_str (IPv4 n) = ipv4_str n"
| "ip_str (IPv6 n) = ipv6_str n"

section \<open>Lemmas\<close>

lemma ip_of_int_Inr:
  "ip_of_int v n = Inr a \<longleftrightarrow>
     0 \<le> n \<and> n < 2 ^ max_prefixlen v \<and> a = (if v = 4 then IPv4 n else IPv6 n)"
  by (auto simp: ip_of_int_def)

lemma ip_int_of_int: "ip_of_int v n = Inr a \<Longrightarrow> ip_int a = n"
  by (auto simp: ip_of_int_Inr)

lemma ip_valid_of_int: "ip_of_int v n = Inr a \<Longrightarrow> ip_valid a"
  by (auto simp: ip_of_int_Inr ip_valid_def max_prefixlen_def split: if_splits)

lemma ip_version_cases: "ip_version a = 4 \<or> ip_version a = 6"
  by (cases a) auto

lemma ip_eqI: "ip_version a = ip_version b \<Longrightarrow> ip_int a = ip_int b \<Longrightarrow> a = b"
  by (cases a; cases b) auto

text \<open>Splitting at a separator.\<close>

lemma split_on_ne [simp]: "split_on c s \<noteq> []"
  by (induction s) (auto split: list.splits)

lemma split_on_none: "c \<notin> set s \<Longrightarrow> split_on c s = [s]"
  by (induction s) auto

lemma split_on_append: "c \<notin> set a \<Longrightarrow> split_on c (a @ c # b) = a # split_on c b"
  by (induction a) auto

lemma length_split_on: "length (split_on c s) = Suc (length (filter (\<lambda>x. x = c) s))"
  by (induction s) (auto split: list.splits)

lemma no_separator: "length (filter (\<lambda>x. x = c) s) = 0 \<longleftrightarrow> c \<notin> set s"
  by (auto simp: filter_empty_conv)

lemma split_on_join:
  "parts \<noteq> [] \<Longrightarrow> \<forall>p \<in> set parts. c \<notin> set p \<Longrightarrow> split_on c (join [c] parts) = parts"
proof (induction "[c]" parts rule: join.induct)
  case (2 x)
  then show ?case by (simp add: split_on_none)
next
  case (3 x y xs)
  then show ?case by (simp add: split_on_append)
qed simp

end
