(* ===== verification/Oss_Topology.thy ===== *)
theory Oss_Topology
  imports Ipaddr "HOL-Library.Char_ord" "HOL-Library.List_Lexorder"
begin

text \<open>
  The OSS topology sources: the circuit and device CSV loaders (\<open>oss_topology_info/\<close>), the
  configuration-time topology (\<open>runner/testbed_topology.py\<close> and
  \<open>build_testbed_topology\<close> of \<open>runner/oss_entry_point.py\<close>) and the run-time topology of
  \<open>libs/oss_test_bed_chunker.py\<close>. The CSV reader's rows are the input (no rows for a file
  that does not exist); the \<open>memoize_forever\<close> cache of the loaders returns the same value
  and is left out.
\<close>

section \<open>Strings\<close>

definition endswith :: "string \<Rightarrow> string \<Rightarrow> bool" where
  "endswith s suffix \<longleftrightarrow> is_prefix_of (rev suffix) (rev s)"

definition or_none :: "string \<Rightarrow> string option" where
  "or_none s = (if s = [] then None else Some s)"

definition or_empty :: "string option \<Rightarrow> string" where
  "or_empty x = (case x of None \<Rightarrow> [] | Some s \<Rightarrow> s)"

definition string_is_ip :: "string \<Rightarrow> bool" where
  "string_is_ip s = (parse_ip s \<noteq> None)"

definition to_fb_fqdn :: "bool \<Rightarrow> string \<Rightarrow> string" where
  "to_fb_fqdn TAAC_OSS hostname =
     (if string_is_ip hostname then hostname
      else if endswith hostname ''.tfbnw.net'' \<or> endswith hostname ''.facebook.com'' then hostname
      else if TAAC_OSS then hostname
      else hostname @ ''.tfbnw.net'')"

section \<open>Circuit records\<close>

record DeviceRecord =
  dev_name :: string
  dev_os_type_name :: "string option"

record EndpointRecord =
  ep_name :: string
  ep_device :: DeviceRecord
  ep_aggregated_interface :: "string option"

record DesiredCircuitRecord =
  a_endpoint :: EndpointRecord
  z_endpoint :: EndpointRecord
  circuit_status :: "string option"
  circuit_role_name :: "string option"

definition build_device :: "string \<Rightarrow> string option \<Rightarrow> DeviceRecord" where
  "build_device hostname platform = \<lparr>dev_name = hostname, dev_os_type_name = platform\<rparr>"

definition build_endpoint ::
    "string \<Rightarrow> string \<Rightarrow> string option \<Rightarrow> string option \<Rightarrow> EndpointRecord" where
  "build_endpoint hostname interface platform aggregated =
     \<lparr>ep_name = interface, ep_device = build_device hostname platform,
      ep_aggregated_interface =
        (case aggregated of None \<Rightarrow> None | Some s \<Rightarrow> or_none s)\<rparr>"

definition pad_row :: "string list \<Rightarrow> string list" where
  "pad_row row = row @ replicate (10 - length row) []"

definition comment_row :: "string list \<Rightarrow> bool" where
  "comment_row row \<longleftrightarrow> row = [] \<or> is_prefix_of ''#'' (hd row)"

definition parse_circuit_row :: "string list \<Rightarrow> DesiredCircuitRecord option" where
  "parse_circuit_row row =
     (if comment_row row then None
      else case map strip (take 10 (pad_row row)) of
        [hostname, local_interface, local_platform, local_parent_interface,
         neighbor_hostname, neighbor_interface, neighbor_platform, neighbor_parent_interface,
         status, role_name] \<Rightarrow>
          if hostname = [] \<or> local_interface = [] \<or> neighbor_hostname = []
             \<or> neighbor_interface = [] then None
          else Some \<lparr>a_endpoint = build_endpoint hostname local_interface
                        (or_none local_platform) (or_none local_parent_interface),
                     z_endpoint = build_endpoint neighbor_hostname neighbor_interface
                        (or_none neighbor_platform) (or_none neighbor_parent_interface),
                     circuit_status = or_none status,
                     circuit_role_name = or_none role_name\<rparr>
      | _ \<Rightarrow> None)"

abbreviation a_host :: "DesiredCircuitRecord \<Rightarrow> string" where
  "a_host c \<equiv> dev_name (ep_device (a_endpoint c))"

abbreviation z_host :: "DesiredCircuitRecord \<Rightarrow> string" where
  "z_host c \<equiv> dev_name (ep_device (z_endpoint c))"

type_synonym circuit_index = "(string, DesiredCircuitRecord list) dict"

definition index_circuit :: "DesiredCircuitRecord \<Rightarrow> string \<Rightarrow> circuit_index \<Rightarrow> circuit_index" where
  "index_circuit c device_name idx =
     (let normalized = lower (strip device_name)
      in if normalized = [] then idx
         else dict_append normalized c idx)"

fun load_rows ::
    "string list list \<Rightarrow> DesiredCircuitRecord list \<times> circuit_index
     \<Rightarrow> DesiredCircuitRecord list \<times> circuit_index" where
  "load_rows [] acc = acc"
| "load_rows (row # rows) (cs, idx) =
     (case parse_circuit_row row of
        None \<Rightarrow> load_rows rows (cs, idx)
      | Some c \<Rightarrow> load_rows rows (cs @ [c], index_circuit c (z_host c) (index_circuit c (a_host c) idx)))"

definition load_circuit_info ::
    "string list list option \<Rightarrow> DesiredCircuitRecord list \<times> circuit_index" where
  "load_circuit_info rows = (case rows of None \<Rightarrow> ([], []) | Some rs \<Rightarrow> load_rows rs ([], []))"

definition get_circuits_for_hostname_oss ::
    "string list list option \<Rightarrow> string \<Rightarrow> bool \<Rightarrow> DesiredCircuitRecord list" where
  "get_circuits_for_hostname_oss rows hostname ignore_ckt_status =
     (let circuits = dict_get_or (snd (load_circuit_info rows)) (lower (strip hostname)) []
      in if ignore_ckt_status then circuits
         else filter (\<lambda>c. circuit_status c = None \<or> circuit_status c = Some ''3'') circuits)"

section \<open>Device records\<close>

record device_maps =
  hostname_to_ip :: "(string, string) dict"
  ip_to_hostname :: "(string, string) dict"
  hostname_to_mac :: "(string, string) dict"
  hostname_to_role :: "(string, string) dict"
  hostname_to_os :: "(string, string) dict"
  hostname_to_hardware :: "(string, string) dict"

definition empty_device_maps :: device_maps where
  "empty_device_maps = \<lparr>hostname_to_ip = [], ip_to_hostname = [], hostname_to_mac = [],
     hostname_to_role = [], hostname_to_os = [], hostname_to_hardware = []\<rparr>"

text \<open>Column \<open>i\<close> of a row, when the row has it and it is not blank.\<close>

definition column :: "nat \<Rightarrow> string list \<Rightarrow> string option" where
  "column i row = (if i < length row then or_none (strip (row ! i)) else None)"

definition set_if :: "string \<Rightarrow> string option \<Rightarrow> (string, string) dict \<Rightarrow> (string, string) dict" where
  "set_if k v d = (case v of None \<Rightarrow> d | Some x \<Rightarrow> dict_set k x d)"

definition load_device_row :: "device_maps \<Rightarrow> string list \<Rightarrow> device_maps" where
  "load_device_row m row =
     (if comment_row row \<or> length row < 2 then m
      else let hostname = lower (strip (row ! 0));
               ipv6 = strip (row ! 1);
               m1 = (if hostname \<noteq> [] \<and> ipv6 \<noteq> []
                     then m\<lparr>hostname_to_ip := dict_set hostname ipv6 (hostname_to_ip m),
                            ip_to_hostname := dict_set ipv6 hostname (ip_to_hostname m)\<rparr>
                     else m);
               m2 = (case column 2 row of
                       None \<Rightarrow> m1
                     | Some v4 \<Rightarrow> m1\<lparr>ip_to_hostname := dict_set v4 hostname (ip_to_hostname m1)\<rparr>)
           in m2\<lparr>hostname_to_mac := set_if hostname (column 3 row) (hostname_to_mac m2),
                 hostname_to_role := set_if hostname (column 4 row) (hostname_to_role m2),
                 hostname_to_os := set_if hostname (column 5 row) (hostname_to_os m2),
                 hostname_to_hardware := set_if hostname (column 6 row) (hostname_to_hardware m2)\<rparr>)"

definition load_device_info :: "string list list option \<Rightarrow> device_maps" where
  "load_device_info rows =
     (case rows of None \<Rightarrow> empty_device_maps
      | Some rs \<Rightarrow> foldl load_device_row empty_device_maps rs)"

definition get_ip_from_hostname_oss :: "device_maps \<Rightarrow> string \<Rightarrow> string option" where
  "get_ip_from_hostname_oss m hostname = dict_get (hostname_to_ip m) (lower (strip hostname))"

definition get_hostname_from_ip_oss :: "device_maps \<Rightarrow> string \<Rightarrow> string option" where
  "get_hostname_from_ip_oss m ip = dict_get (ip_to_hostname m) (strip ip)"

definition get_mac_from_hostname_oss :: "device_maps \<Rightarrow> string \<Rightarrow> string option" where
  "get_mac_from_hostname_oss m hostname = dict_get (hostname_to_mac m) (lower (strip hostname))"

definition get_role_from_hostname_oss :: "device_maps \<Rightarrow> string \<Rightarrow> string option" where
  "get_role_from_hostname_oss m hostname = dict_get (hostname_to_role m) (lower (strip hostname))"

definition get_operating_system_from_hostname_oss :: "device_maps \<Rightarrow> string \<Rightarrow> string option" where
  "get_operating_system_from_hostname_oss m hostname =
     dict_get (hostname_to_os m) (lower (strip hostname))"

definition get_hardware_from_hostname_oss :: "device_maps \<Rightarrow> string \<Rightarrow> string option" where
  "get_hardware_from_hostname_oss m hostname =
     dict_get (hostname_to_hardware m) (lower (strip hostname))"

section \<open>The configuration-time topology\<close>

datatype LinkType = DUT | TGEN | SNAKE | UNKNOWN

record CircuitLink =
  local_host :: string
  local_port :: string
  remote_host :: string
  remote_port :: string
  link_type :: LinkType

record ConfigTopology =
  topo_links :: "CircuitLink list"

definition classify_link :: "string \<Rightarrow> string \<Rightarrow> string \<Rightarrow> string set \<Rightarrow> LinkType" where
  "classify_link ah zh z_platform dut_set =
     (if lower ah = lower zh then SNAKE
      else if z_platform \<noteq> [] \<and> contains ''ixia'' (lower z_platform) then TGEN
      else if lower ah \<in> dut_set \<and> lower zh \<in> dut_set then DUT
      else UNKNOWN)"

definition link_key :: "CircuitLink \<Rightarrow> string \<times> string \<times> string \<times> string" where
  "link_key l = (lower (local_host l), local_port l, lower (remote_host l), remote_port l)"

text \<open>\<open>_add\<close>: the \<open>seen\<close> set holds the keys of the links added so far.\<close>

definition add_link :: "CircuitLink \<Rightarrow> CircuitLink list \<Rightarrow> CircuitLink list" where
  "add_link l links = (if link_key l \<in> set (map link_key links) then links else links @ [l])"

definition mk_link :: "EndpointRecord \<Rightarrow> EndpointRecord \<Rightarrow> string set \<Rightarrow> CircuitLink" where
  "mk_link near far dut_set =
     \<lparr>local_host = dev_name (ep_device near), local_port = ep_name near,
      remote_host = dev_name (ep_device far), remote_port = ep_name far,
      link_type = classify_link (dev_name (ep_device near)) (dev_name (ep_device far))
                    (or_empty (dev_os_type_name (ep_device far))) dut_set\<rparr>"

definition circuit_links :: "string set \<Rightarrow> DesiredCircuitRecord \<Rightarrow> CircuitLink list" where
  "circuit_links dut_set c =
     (if lower (a_host c) \<in> dut_set then [mk_link (a_endpoint c) (z_endpoint c) dut_set] else [])
     @ (if lower (z_host c) \<in> dut_set \<and> lower (z_host c) \<noteq> lower (a_host c)
        then [mk_link (z_endpoint c) (a_endpoint c) dut_set] else [])"

definition build_testbed_topology ::
    "string list list option \<Rightarrow> string list \<Rightarrow> ConfigTopology" where
  "build_testbed_topology rows duts =
     (let dut_set = set (map lower duts)
      in \<lparr>topo_links = foldl (\<lambda>ls c. fold add_link (circuit_links dut_set c) ls) []
            (fst (load_circuit_info rows))\<rparr>)"

definition add_port :: "(string, string list) dict \<Rightarrow> CircuitLink \<Rightarrow> (string, string list) dict" where
  "add_port result link =
     (if link_type link = DUT
      then let ports = dict_get_or result (local_host link) []
           in dict_set (local_host link)
                (if local_port link \<in> set ports then ports else ports @ [local_port link]) result
      else result)"

definition dut_ports :: "ConfigTopology \<Rightarrow> (string, string list) dict" where
  "dut_ports t = map (\<lambda>(h, ports). (h, sort ports)) (foldl add_port [] (topo_links t))"

section \<open>The run-time topology\<close>

record SwitchAttributes =
  device_name :: string
  role :: string
  operating_system :: string
  hardware :: string
  tags :: "string list"

record TestInterface =
  interface_name :: string
  display_name :: string
  switch_name :: string
  switch_attributes :: SwitchAttributes
  neighbor_switch_name :: "string option"
  neighbor_interface_name :: "string option"
  neighbor_display_name :: "string option"

record TestDevice =
  td_name :: string
  td_attributes :: SwitchAttributes
  td_interfaces :: "TestInterface list"
  td_ixia_interfaces :: "TestInterface list"
  td_unused_interfaces :: "string list"

definition get_display_name :: "bool \<Rightarrow> string \<Rightarrow> string \<Rightarrow> string" where
  "get_display_name TAAC_OSS hostname interface = to_fb_fqdn TAAC_OSS hostname @ '':'' @ interface"

definition create_switch_attributes_oss :: "bool \<Rightarrow> device_maps \<Rightarrow> string \<Rightarrow> SwitchAttributes" where
  "create_switch_attributes_oss TAAC_OSS m hostname =
     \<lparr>device_name = to_fb_fqdn TAAC_OSS hostname,
      role = or_empty (get_role_from_hostname_oss m hostname),
      operating_system = or_empty (get_operating_system_from_hostname_oss m hostname),
      hardware = or_empty (get_hardware_from_hostname_oss m hostname),
      tags = []\<rparr>"

text \<open>The device's own side and the far side of a circuit, when the device is on it.\<close>

definition orient_circuit ::
    "string \<Rightarrow> DesiredCircuitRecord \<Rightarrow> (EndpointRecord \<times> EndpointRecord) option" where
  "orient_circuit hostname c =
     (if lower (a_host c) = lower hostname then Some (a_endpoint c, z_endpoint c)
      else if lower (z_host c) = lower hostname then Some (z_endpoint c, a_endpoint c)
      else None)"

definition add_circuit ::
    "bool \<Rightarrow> string list \<Rightarrow> string \<Rightarrow> SwitchAttributes
     \<Rightarrow> TestInterface list \<times> TestInterface list \<Rightarrow> DesiredCircuitRecord
     \<Rightarrow> TestInterface list \<times> TestInterface list" where
  "add_circuit TAAC_OSS hostnames hostname attrs acc c =
     (case orient_circuit hostname c of
        None \<Rightarrow> acc
      | Some (near, far) \<Rightarrow>
          (let neighbor = dev_name (ep_device far);
               platform = or_empty (dev_os_type_name (ep_device far))
           in if contains ''ixia'' (lower platform)
              then (fst acc, snd acc @
                     [\<lparr>interface_name = ep_name near, display_name = [], switch_name = [],
                       switch_attributes = attrs, neighbor_switch_name = Some ''ixia'',
                       neighbor_interface_name = Some (ep_name far),
                       neighbor_display_name = None\<rparr>])
              else if list_ex (\<lambda>h. to_fb_fqdn TAAC_OSS neighbor = to_fb_fqdn TAAC_OSS h) hostnames
              then (fst acc @
                     [\<lparr>interface_name = ep_name near,
                       display_name = get_display_name TAAC_OSS hostname (ep_name near),
                       switch_name = hostname, switch_attributes = attrs,
                       neighbor_switch_name = Some neighbor,
                       neighbor_interface_name = Some (ep_name far),
                       neighbor_display_name =
                         Some (get_display_name TAAC_OSS neighbor (ep_name far))\<rparr>], snd acc)
              else acc))"

definition create_test_device ::
    "bool \<Rightarrow> string list list option \<Rightarrow> device_maps \<Rightarrow> string list \<Rightarrow> string \<Rightarrow> TestDevice" where
  "create_test_device TAAC_OSS rows m hostnames hostname =
     (let attrs = create_switch_attributes_oss TAAC_OSS m hostname;
          (ifs, ixia) = foldl (add_circuit TAAC_OSS hostnames hostname attrs) ([], [])
                          (get_circuits_for_hostname_oss rows hostname False)
      in \<lparr>td_name = hostname, td_attributes = attrs, td_interfaces = ifs,
          td_ixia_interfaces = ixia, td_unused_interfaces = []\<rparr>)"

definition async_create_test_bed ::
    "bool \<Rightarrow> string list list option \<Rightarrow> string list list option \<Rightarrow> string list \<Rightarrow> TestDevice list" where
  "async_create_test_bed TAAC_OSS circuit_rows device_rows hostnames =
     map (create_test_device TAAC_OSS circuit_rows (load_device_info device_rows) hostnames) hostnames"

section \<open>Properties of the loaders\<close>

lemma index_circuit_get:
  "h \<noteq> [] \<Longrightarrow> dict_get_or (index_circuit c n idx) h [] =
     dict_get_or idx h [] @ (if lower (strip n) = h then [c] else [])"
  using dict.entry_add [of idx "(lower (strip n), c)" h]
  by (auto simp: index_circuit_def Let_def dict_entry_get_or dict_add_append)

text \<open>The circuits of a host, once for every endpoint of the circuit that is on the host.\<close>

definition circuits_on :: "string \<Rightarrow> DesiredCircuitRecord list \<Rightarrow> DesiredCircuitRecord list" where
  "circuits_on h cs =
     concat (map (\<lambda>c. (if lower (strip (a_host c)) = h then [c] else [])
                      @ (if lower (strip (z_host c)) = h then [c] else [])) cs)"

lemma circuits_on_append: "circuits_on h (cs @ ds) = circuits_on h cs @ circuits_on h ds"
  by (simp add: circuits_on_def)

lemma load_rows_index:
  "h \<noteq> [] \<Longrightarrow> dict_get_or idx h [] = circuits_on h cs \<Longrightarrow>
     dict_get_or (snd (load_rows rows (cs, idx))) h [] = circuits_on h (fst (load_rows rows (cs, idx)))"
proof (induction rows arbitrary: cs idx)
  case Nil
  then show ?case by simp
next
  case (Cons row rows)
  show ?case
  proof (cases "parse_circuit_row row")
    case None
    then show ?thesis using Cons by simp
  next
    case (Some c)
    have "dict_get_or (index_circuit c (z_host c) (index_circuit c (a_host c) idx)) h []
        = circuits_on h (cs @ [c])"
      using Cons.prems by (simp add: index_circuit_get circuits_on_append) (simp add: circuits_on_def)
    then show ?thesis using Some Cons.IH [OF Cons.prems(1)] by simp
  qed
qed

section \<open>Properties of the topologies\<close>

lemma add_link_keys:
  "set (map link_key (add_link l ls)) = insert (link_key l) (set (map link_key ls))"
  by (auto simp: add_link_def)

lemma add_link_distinct:
  "distinct (map link_key ls) \<Longrightarrow> distinct (map link_key (add_link l ls))"
  by (auto simp: add_link_def)

lemma fold_add_link:
  "set (map link_key (fold add_link new ls)) = set (map link_key new) \<union> set (map link_key ls)
   \<and> (distinct (map link_key ls) \<longrightarrow> distinct (map link_key (fold add_link new ls)))"
proof (induction new arbitrary: ls)
  case Nil
  show ?case by simp
next
  case (Cons l new)
  then show ?case
    using add_link_keys [of l ls] add_link_distinct [of ls l] Cons.IH [of "add_link l ls"] by auto
qed

lemma foldl_links:
  "set (map link_key (foldl (\<lambda>ls c. fold add_link (f c) ls) ls cs))
     = (\<Union>c\<in>set cs. set (map link_key (f c))) \<union> set (map link_key ls)
   \<and> (distinct (map link_key ls) \<longrightarrow>
        distinct (map link_key (foldl (\<lambda>ls c. fold add_link (f c) ls) ls cs)))"
proof (induction cs arbitrary: ls)
  case Nil
  show ?case by simp
next
  case (Cons c cs)
  show ?case
    using Cons.IH [of "fold add_link (f c) ls"] fold_add_link [of "f c" ls] by auto
qed

definition ports_of :: "string \<Rightarrow> CircuitLink list \<Rightarrow> string set" where
  "ports_of h links = local_port ` {l \<in> set links. link_type l = DUT \<and> local_host l = h}"

lemma ports_of_append: "ports_of h (ls @ ms) = ports_of h ls \<union> ports_of h ms"
  by (auto simp: ports_of_def)

lemma ports_of_single: "ports_of h [l] = (if link_type l = DUT \<and> local_host l = h then {local_port l} else {})"
  by (auto simp: ports_of_def)

lemma finite_ports_of [simp]: "finite (ports_of h ls)"
  by (simp add: ports_of_def)

text \<open>The loop invariant of \<open>dut_ports\<close>: an entry per host with a port, its ports without repetition.\<close>

definition entry_ok :: "string list option \<Rightarrow> string set \<Rightarrow> bool" where
  "entry_ok e ps \<longleftrightarrow> (case e of None \<Rightarrow> ps = {} | Some xs \<Rightarrow> set xs = ps \<and> ps \<noteq> {} \<and> distinct xs)"

definition ports_ok :: "(string, string list) dict \<Rightarrow> CircuitLink list \<Rightarrow> bool" where
  "ports_ok d ls \<longleftrightarrow> (\<forall>h. entry_ok (dict_get d h) (ports_of h ls))"

lemma entry_ok_add:
  "entry_ok e ps \<Longrightarrow>
     entry_ok (Some (let xs = (case e of None \<Rightarrow> [] | Some xs \<Rightarrow> xs)
                     in if p \<in> set xs then xs else xs @ [p])) (insert p ps)"
  by (cases e) (auto simp: entry_ok_def Let_def)

lemma ports_ok_add: "ports_ok d ls \<Longrightarrow> ports_ok (add_port d l) (ls @ [l])"
  unfolding ports_ok_def
proof
  fix h
  assume ok: "\<forall>h. entry_ok (dict_get d h) (ports_of h ls)"
  show "entry_ok (dict_get (add_port d l) h) (ports_of h (ls @ [l]))"
  proof (cases "link_type l = DUT \<and> h = local_host l")
    case True
    then have "dict_get (add_port d l) h =
        Some (let xs = (case dict_get d h of None \<Rightarrow> [] | Some xs \<Rightarrow> xs)
              in if local_port l \<in> set xs then xs else xs @ [local_port l])"
      by (simp add: add_port_def Let_def dict_get_or_def)
    moreover have "ports_of h (ls @ [l]) = insert (local_port l) (ports_of h ls)"
      using True by (simp add: ports_of_append ports_of_single)
    ultimately show ?thesis using entry_ok_add ok by metis
  next
    case False
    then have "dict_get (add_port d l) h = dict_get d h"
      by (auto simp: add_port_def Let_def)
    moreover have "ports_of h (ls @ [l]) = ports_of h ls"
      using False by (auto simp: ports_of_append ports_of_single)
    ultimately show ?thesis using ok by simp
  qed
qed

lemma ports_ok_foldl: "ports_ok d ms \<Longrightarrow> ports_ok (foldl add_port d ls) (ms @ ls)"
proof (induction ls arbitrary: d ms)
  case Nil
  then show ?case by simp
next
  case (Cons l ls)
  from Cons.IH [OF ports_ok_add [OF Cons.prems, of l]] show ?case by simp
qed

lemma map_of_map_values: "map_of (map (\<lambda>(k, v). (k, f v)) d) h = map_option f (map_of d h)"
  by (induction d) auto

lemma sort_distinct_sorted_list: "distinct xs \<Longrightarrow> sort xs = sorted_list_of_set (set xs)"
  by (simp add: sorted_list_of_set_sort_remdups distinct_remdups_id)

lemma foldl_inv: "(\<And>s x. P s \<Longrightarrow> P (f s x)) \<Longrightarrow> P s \<Longrightarrow> P (foldl f s xs)"
  by (induction xs arbitrary: s) auto

definition in_group :: "bool \<Rightarrow> string list \<Rightarrow> TestInterface \<Rightarrow> bool" where
  "in_group TAAC_OSS hostnames i \<longleftrightarrow>
     (\<exists>n h. neighbor_switch_name i = Some n \<and> h \<in> set hostnames
            \<and> to_fb_fqdn TAAC_OSS n = to_fb_fqdn TAAC_OSS h)"

definition interfaces_ok ::
    "bool \<Rightarrow> string list \<Rightarrow> string \<Rightarrow> SwitchAttributes \<Rightarrow> TestInterface list \<times> TestInterface list \<Rightarrow> bool" where
  "interfaces_ok TAAC_OSS hostnames hostname attrs acc \<longleftrightarrow>
     list_all (\<lambda>i. switch_name i = hostname \<and> switch_attributes i = attrs
                   \<and> in_group TAAC_OSS hostnames i) (fst acc)
     \<and> list_all (\<lambda>i. neighbor_switch_name i = Some ''ixia'' \<and> switch_attributes i = attrs) (snd acc)"

lemma add_circuit_ok:
  "interfaces_ok TAAC_OSS hostnames hostname attrs acc \<Longrightarrow>
     interfaces_ok TAAC_OSS hostnames hostname attrs (add_circuit TAAC_OSS hostnames hostname attrs acc c)"
  by (auto simp: interfaces_ok_def add_circuit_def in_group_def Let_def list_ex_iff
      split: option.splits)

text \<open>
  The host index of the circuit loader is exact: looking a (non-blank, normalized) host up
  gives the loaded circuits that touch it, in file order, and a circuit from a host to itself
  twice.
\<close>

theorem circuit_index_exact:
  "dict_get_or (snd (load_circuit_info rows)) (x # h) [] =
     circuits_on (x # h) (fst (load_circuit_info rows))"
proof (cases rows)
  case None
  then show ?thesis by (simp add: load_circuit_info_def circuits_on_def dict_get_or_def)
next
  case (Some rs)
  then show ?thesis
    using load_rows_index [of "x # h" "[]" "[]" rs]
    by (simp add: load_circuit_info_def circuits_on_def dict_get_or_def)
qed

text \<open>
  The configuration-time topology holds every link of a device under test exactly once: no
  two links have the same key, and the keys are those of the links the circuits give, in
  either direction of the CSV row.
\<close>

theorem testbed_links_exact:
  "distinct (map link_key (topo_links (build_testbed_topology rows duts)))
   \<and> set (map link_key (topo_links (build_testbed_topology rows duts)))
       = (\<Union>c\<in>set (fst (load_circuit_info rows)).
            set (map link_key (circuit_links (set (map lower duts)) c)))"
  using foldl_links [of "circuit_links (set (map lower duts))" "[]" "fst (load_circuit_info rows)"]
  by (simp add: build_testbed_topology_def Let_def)

text \<open>
  \<open>dut_ports\<close> lists, for every host with a link to another device under test, exactly its
  local ports on such links, sorted and without repetition, and has no other host.
\<close>

theorem dut_ports_exact:
  "dict_get (dut_ports t) h =
     (if ports_of h (topo_links t) = {} then None
      else Some (sorted_list_of_set (ports_of h (topo_links t))))"
proof -
  have "ports_ok [] []" by (simp add: ports_ok_def entry_ok_def ports_of_def)
  then have "ports_ok (foldl add_port [] (topo_links t)) (topo_links t)"
    using ports_ok_foldl [of "[]" "[]" "topo_links t"] by simp
  then have "entry_ok (dict_get (foldl add_port [] (topo_links t)) h) (ports_of h (topo_links t))"
    by (simp add: ports_ok_def)
  then show ?thesis
    by (auto simp: entry_ok_def dut_ports_def map_of_map_values sort_distinct_sorted_list
        split: option.splits)
qed

text \<open>
  The run-time topology only holds interfaces inside the test group: every plain interface
  of a device belongs to that device and has a neighbour among the group's hosts (up to the
  domain suffix), and every traffic-generator interface names the generator.
\<close>

theorem test_bed_interfaces_in_group:
  "list_all (\<lambda>d. interfaces_ok TAAC_OSS hostnames (td_name d) (td_attributes d)
                   (td_interfaces d, td_ixia_interfaces d))
     (async_create_test_bed TAAC_OSS circuit_rows device_rows hostnames)"
proof -
  have "interfaces_ok TAAC_OSS hostnames h attrs
      (foldl (add_circuit TAAC_OSS hostnames h attrs) ([], []) cs)" for h attrs cs
    by (rule foldl_inv, erule add_circuit_ok) (simp add: interfaces_ok_def)
  then show ?thesis
    by (simp add: async_create_test_bed_def create_test_device_def list_all_iff Let_def
        split: prod.split) (metis prod.collapse fst_conv snd_conv)
qed

text \<open>Evaluation of the finding below.\<close>

definition two_sided_csv :: "string list list" where
  "two_sided_csv =
     [[''a'', ''eth1'', [], [], ''b'', ''eth2'', [], [], [], []],
      [''b'', ''eth2'', [], [], ''a'', ''eth1'', [], [], [], []]]"

lemma strip_lower_eval:
  "strip ''a'' = ''a''" "strip ''b'' = ''b''" "strip ''eth1'' = ''eth1''" "strip ''eth2'' = ''eth2''"
  "strip [] = []" "lower ''a'' = ''a''" "lower ''b'' = ''b''" "lower [] = []"
  by (simp_all add: strip_def is_space_def lower_def lower_char_def)

lemma not_ip_eval: "\<not> string_is_ip ''a''" "\<not> string_is_ip ''b''"
  by (simp_all add: string_is_ip_def parse_ip_def ipv4_of_string_def ipv6_of_string_def
      parse_octet_def is_digit_def)

text \<open>
  A CSV that lists a link from both ends, as the chunker's documentation asks, gives each of
  the two devices the same interface twice.
\<close>

theorem both_perspectives_duplicate:
  "map (\<lambda>d. map (\<lambda>i. (switch_name i, interface_name i, neighbor_switch_name i)) (td_interfaces d))
     (async_create_test_bed True (Some two_sided_csv) None [''a'', ''b'']) =
   [[(''a'', ''eth1'', Some ''b''), (''a'', ''eth1'', Some ''b'')],
    [(''b'', ''eth2'', Some ''a''), (''b'', ''eth2'', Some ''a'')]]"
  by (simp add: async_create_test_bed_def create_test_device_def get_circuits_for_hostname_oss_def
      two_sided_csv_def load_circuit_info_def parse_circuit_row_def comment_row_def pad_row_def
      strip_lower_eval index_circuit_def dict_append_def dict_get_or_def build_endpoint_def build_device_def
      or_none_def or_empty_def add_circuit_def orient_circuit_def to_fb_fqdn_def not_ip_eval endswith_def Let_def)

end
