(* ===== verification/Oss_Entry.thy ===== *)
theory Oss_Entry
  imports Oss_Executor Oss_Topology
begin

text \<open>
  The OSS entry point (\<open>runner/oss_entry_point.py\<close>): loading configurations, filtering
  playbooks, the set-up / execute / tear-down lifecycle of each configuration with its retries
  and its timeout, and the exit code. Parsing the command line, logging and the environment
  variables are left out; the module loader, the files, the runner of each configuration and
  the event loop's deadline are an environment over a world \<open>'w\<close>.

  \<open>asyncio.wait_for\<close> cancels the lifecycle when the deadline passes: in the model some awaited
  operation then raises \<open>CancelledError\<close>, and \<open>me_timed_out\<close> says that it was the
  deadline. The aggregator holds references to the results, and the retry loop changes the
  result object it added before; the model updates the list entry at that position.
\<close>

section \<open>Configurations\<close>

record endpoint =
  endpoint_name :: string
  endpoint_dut :: bool

record test_config =
  cfg_name :: string
  cfg_playbooks :: "playbook list"
  cfg_endpoints :: "endpoint list"

text \<open>
  What a module exports under a configuration name: a configuration, or a factory, marked with
  \<open>topology_aware\<close> or not.
\<close>

datatype config_attr =
    PlainConfig test_config
  | TopologyFactory "ConfigTopology \<Rightarrow> test_config result"
  | Factory "test_config result"

record module_file =
  mf_exists :: bool
  mf_is_file :: bool
  mf_suffix_py :: bool
  mf_spec_ok :: bool
  mf_exec :: "py_exn option"
  mf_attrs :: "(string, config_attr) dict"

definition config_attr_names :: "string list" where
  "config_attr_names = [''test_config'', ''TEST_CONFIG'', ''config'', ''CONFIG'']"

fun eval_attr :: "ConfigTopology \<Rightarrow> config_attr \<Rightarrow> test_config result" where
  "eval_attr topology (PlainConfig c) = Inr c"
| "eval_attr topology (TopologyFactory f) = f topology"
| "eval_attr topology (Factory r) = r"

definition load_test_config_try :: "module_file \<Rightarrow> ConfigTopology \<Rightarrow> test_config result" where
  "load_test_config_try f topology =
     (if \<not> mf_exists f then Inl (Exn OSSConfigError ''Test config file not found'')
      else if \<not> mf_is_file f then Inl (Exn OSSConfigError ''Test config path is not a file'')
      else if \<not> mf_suffix_py f then Inl (Exn OSSConfigError ''Test config file must be a .py file'')
      else if \<not> mf_spec_ok f then Inl (Exn OSSConfigError ''Failed to load module spec'')
      else case mf_exec f of
        Some e \<Rightarrow> Inl e
      | None \<Rightarrow>
          (case first_some (map (dict_get (mf_attrs f)) config_attr_names) of
             Some attr \<Rightarrow> eval_attr topology attr
           | None \<Rightarrow> Inl (Exn OSSConfigError ''No test config found'')))"

definition load_test_config :: "module_file \<Rightarrow> ConfigTopology \<Rightarrow> test_config result" where
  "load_test_config f topology =
     (case load_test_config_try f topology of
        Inr c \<Rightarrow> Inr c
      | Inl e \<Rightarrow>
          if isinstance e OSSConfigError then Inl e
          else if isinstance e Exception
          then Inl (Exn OSSConfigError (''Failed to load test config: '' @ exn_str e))
          else Inl e)"

definition filter_playbooks :: "test_config \<Rightarrow> string list option \<Rightarrow> playbook list" where
  "filter_playbooks config names =
     (case names of
        Some (n # ns) \<Rightarrow>
          filter (\<lambda>pb. pb_name pb \<in> set (n # ns) \<and> pb_enabled pb) (cfg_playbooks config)
      | _ \<Rightarrow> filter pb_enabled (cfg_playbooks config))"

section \<open>The environment and the arguments\<close>

record cli_args =
  arg_test_configs :: "string list"
  arg_duts :: "string list"
  arg_playbooks :: "string list option"
  arg_retry :: int
  arg_timeout :: int
  arg_list_tests :: bool
  arg_dry_run :: bool
  arg_output_format :: string
  arg_json_output :: "string option"
  arg_junit_output :: "string option"

record 'w main_env =
  me_module :: "string \<Rightarrow> module_file"
  me_circuits :: "string list list option"
  me_new_runner :: "test_config \<Rightarrow> 'w \<Rightarrow> py_exn option \<times> 'w"
  me_setUp :: "test_config \<Rightarrow> 'w \<Rightarrow> py_exn option \<times> 'w"
  me_exec :: "test_config \<Rightarrow> 'w exec_env"
  me_tearDown :: "test_config \<Rightarrow> 'w \<Rightarrow> py_exn option \<times> 'w"
  me_timed_out :: "'w \<Rightarrow> bool"
  me_write :: "string \<Rightarrow> 'w \<Rightarrow> py_exn option \<times> 'w"

section \<open>One cell of the grid\<close>

text \<open>
  The retry loop of one (playbook, device) cell: \<open>i\<close> is the position of the original result,
  \<open>k\<close> the number of the attempt (from zero).
\<close>

fun retry_cell ::
    "'w exec_env \<Rightarrow> playbook \<Rightarrow> string \<Rightarrow> string \<Rightarrow> nat \<Rightarrow> nat \<Rightarrow> nat
     \<Rightarrow> OSSTestResult list \<Rightarrow> 'w \<Rightarrow> py_exn option \<times> OSSTestResult list \<times> 'w" where
  "retry_cell env pb dut cfg i k 0 rs w = (None, rs, w)"
| "retry_cell env pb dut cfg i k (Suc n) rs w =
     (case execute_playbook env pb dut cfg w of
        (Inl e, w') \<Rightarrow> (Some e, rs, w')
      | (Inr r0, w') \<Rightarrow>
          (let r = r0\<lparr>res_retry_count := int k + 1\<rparr>
           in if \<not> status_failed (res_status r)
              then (None, rs[i := (rs ! i)\<lparr>res_status := RETRIED, res_is_transient := False\<rparr>] @ [r], w')
              else retry_cell env pb dut cfg i (Suc k) n (rs @ [r]) w'))"

definition run_cell ::
    "'w exec_env \<Rightarrow> int \<Rightarrow> string \<Rightarrow> playbook \<times> string \<Rightarrow> OSSTestResult list \<Rightarrow> 'w
     \<Rightarrow> py_exn option \<times> OSSTestResult list \<times> 'w" where
  "run_cell env retry cfg cell rs w =
     (let (pb, dut) = cell
      in case execute_playbook env pb dut cfg w of
           (Inl e, w') \<Rightarrow> (Some e, rs, w')
         | (Inr r, w') \<Rightarrow>
             if retry \<noteq> 0 \<and> res_is_transient r \<and> status_failed (res_status r)
             then retry_cell env pb dut cfg (length rs) 0 (nat retry) (rs @ [r]) w'
             else (None, rs @ [r], w'))"

fun run_cells ::
    "'w exec_env \<Rightarrow> int \<Rightarrow> string \<Rightarrow> (playbook \<times> string) list \<Rightarrow> OSSTestResult list \<Rightarrow> 'w
     \<Rightarrow> py_exn option \<times> OSSTestResult list \<times> 'w" where
  "run_cells env retry cfg [] rs w = (None, rs, w)"
| "run_cells env retry cfg (c # cs) rs w =
     (case run_cell env retry cfg c rs w of
        (Some e, rs', w') \<Rightarrow> (Some e, rs', w')
      | (None, rs', w') \<Rightarrow> run_cells env retry cfg cs rs' w')"

section \<open>One configuration\<close>

definition grid :: "playbook list \<Rightarrow> string list \<Rightarrow> (playbook \<times> string) list" where
  "grid playbooks duts = concat (map (\<lambda>pb. map (Pair pb) duts) playbooks)"

text \<open>
  \<open>_run_lifecycle\<close>: a failing set-up raises before the \<open>try\<close>, so nothing is torn down;
  afterwards the tear-down always runs, and an \<open>Exception\<close> of its own is only logged.
\<close>

definition run_lifecycle ::
    "'w main_env \<Rightarrow> cli_args \<Rightarrow> test_config \<Rightarrow> string \<Rightarrow> playbook list \<Rightarrow> OSSTestResult list \<Rightarrow> 'w
     \<Rightarrow> py_exn option \<times> OSSTestResult list \<times> 'w" where
  "run_lifecycle env args config config_name playbooks rs w =
     (case me_setUp env config w of
        (Some e, w1) \<Rightarrow> (Some e, rs, w1)
      | (None, w1) \<Rightarrow>
          (case run_cells (me_exec env config) (arg_retry args) config_name
                  (grid playbooks (arg_duts args)) rs w1 of
             (out, rs', w2) \<Rightarrow>
               (case me_tearDown env config w2 of
                  (None, w3) \<Rightarrow> (out, rs', w3)
                | (Some td, w3) \<Rightarrow>
                    if isinstance td Exception then (out, rs', w3) else (Some td, rs', w3))))"

definition timed_lifecycle ::
    "'w main_env \<Rightarrow> cli_args \<Rightarrow> test_config \<Rightarrow> string \<Rightarrow> playbook list \<Rightarrow> OSSTestResult list \<Rightarrow> 'w
     \<Rightarrow> py_exn option \<times> OSSTestResult list \<times> 'w" where
  "timed_lifecycle env args config config_name playbooks rs w =
     (case run_lifecycle env args config config_name playbooks rs w of
        (Some e, rs', w') \<Rightarrow>
          if isinstance e CancelledError \<and> me_timed_out env w'
          then (Some (Exn TimeoutError []), rs', w') else (Some e, rs', w')
      | (None, rs', w') \<Rightarrow> (None, rs', w'))"

definition cell_recorded :: "playbook \<times> string \<Rightarrow> OSSTestResult list \<Rightarrow> bool" where
  "cell_recorded cell rs \<longleftrightarrow>
     (\<exists>r \<in> set rs. res_playbook r = pb_name (fst cell) \<and> res_dut r = snd cell)"

definition lifecycle_error_result ::
    "'w exec_env \<Rightarrow> cli_args \<Rightarrow> string \<Rightarrow> rat \<Rightarrow> py_exn \<Rightarrow> playbook \<times> string \<Rightarrow> OSSTestResult" where
  "lifecycle_error_result env args config_name now e cell =
     (let (status, transient) =
            (if isinstance e TimeoutError then (TIMEOUT, False) else classify_exception e)
      in (mk_OSSTestResult now config_name (pb_name (fst cell)) (snd cell) status)
           \<lparr>res_duration := Some 0,
            res_message :=
              (if exn_str e = [] then ''Timeout after '' @ show_int (arg_timeout args) @ ''s''
               else exn_str e),
            res_exception_type := Some (exn_name (exn_class_of e)),
            res_exception_message := Some (exn_str e),
            res_is_transient := transient,
            res_traceback := Some (env_format_exc env e)\<rparr>)"

fun mark_remaining ::
    "(playbook \<times> string \<Rightarrow> OSSTestResult) \<Rightarrow> (playbook \<times> string) list \<Rightarrow> OSSTestResult list
     \<Rightarrow> OSSTestResult list" where
  "mark_remaining mk [] rs = rs"
| "mark_remaining mk (c # cs) rs =
     mark_remaining mk cs (if cell_recorded c rs then rs else rs @ [mk c])"

definition with_missing_duts :: "string list \<Rightarrow> test_config \<Rightarrow> test_config" where
  "with_missing_duts duts config =
     (let existing = endpoint_name ` {ep \<in> set (cfg_endpoints config). endpoint_dut ep};
          missing = filter (\<lambda>d. d \<notin> existing) duts
      in if missing = [] then config
         else config\<lparr>cfg_endpoints := cfg_endpoints config
                @ map (\<lambda>d. \<lparr>endpoint_name = d, endpoint_dut = True\<rparr>) missing\<rparr>)"

text \<open>
  One iteration of the loop over the configurations. Creating the runner is outside the inner
  \<open>try\<close>; an exception of the lifecycle that is not an \<open>Exception\<close> leaves the loop.
\<close>

definition run_config ::
    "'w main_env \<Rightarrow> cli_args \<Rightarrow> test_config \<Rightarrow> string \<Rightarrow> playbook list \<Rightarrow> OSSTestResult list \<Rightarrow> 'w
     \<Rightarrow> py_exn option \<times> OSSTestResult list \<times> 'w" where
  "run_config env args config0 config_name playbooks rs w =
     (let config = with_missing_duts (arg_duts args) config0
      in case me_new_runner env config w of
           (Some e, w1) \<Rightarrow> (Some e, rs, w1)
         | (None, w1) \<Rightarrow>
             (case timed_lifecycle env args config config_name playbooks rs w1 of
                (None, rs', w2) \<Rightarrow> (None, rs', w2)
              | (Some e, rs', w2) \<Rightarrow>
                  if isinstance e Exception
                  then (None,
                        mark_remaining
                          (lifecycle_error_result (me_exec env config) args config_name
                             (env_now (me_exec env config) w2) e)
                          (grid playbooks (arg_duts args)) rs', w2)
                  else (Some e, rs', w2)))"

section \<open>The whole run\<close>

type_synonym config_groups = "(string \<times> string, test_config \<times> playbook list) dict"

definition add_to_group ::
    "config_groups \<Rightarrow> string \<times> test_config \<times> playbook \<Rightarrow> config_groups" where
  "add_to_group groups entry =
     (let (path, config, pb) = entry; key = (path, cfg_name config)
      in if \<not> pb_enabled pb then groups
         else case dict_get groups key of
                None \<Rightarrow> dict_set key (config, [pb]) groups
              | Some (config', pbs) \<Rightarrow> dict_set key (config', pbs @ [pb]) groups)"

definition group_configs :: "(string \<times> test_config \<times> playbook) list \<Rightarrow> config_groups" where
  "group_configs entries = foldl add_to_group [] entries"

fun run_configs ::
    "'w main_env \<Rightarrow> cli_args \<Rightarrow> config_groups \<Rightarrow> OSSTestResult list \<Rightarrow> 'w
     \<Rightarrow> py_exn option \<times> OSSTestResult list \<times> 'w" where
  "run_configs env args [] rs w = (None, rs, w)"
| "run_configs env args (((path, name), (config, pbs)) # gs) rs w =
     (case run_config env args config name pbs rs w of
        (Some e, rs', w') \<Rightarrow> (Some e, rs', w')
      | (None, rs', w') \<Rightarrow> run_configs env args gs rs' w')"

definition output_paths :: "cli_args \<Rightarrow> string list" where
  "output_paths args =
     (if arg_output_format args = ''json'' \<or> arg_json_output args \<notin> {None, Some []}
      then [case arg_json_output args of
              Some (c # cs) \<Rightarrow> c # cs | _ \<Rightarrow> ''taac_results.json''] else [])
     @ (if arg_output_format args = ''junit'' \<or> arg_junit_output args \<notin> {None, Some []}
        then [case arg_junit_output args of
                Some (c # cs) \<Rightarrow> c # cs | _ \<Rightarrow> ''taac_results.xml''] else [])"

fun write_outputs :: "'w main_env \<Rightarrow> string list \<Rightarrow> 'w \<Rightarrow> py_exn option \<times> 'w" where
  "write_outputs env [] w = (None, w)"
| "write_outputs env (p # ps) w =
     (case me_write env p w of
        (Some e, w') \<Rightarrow> (Some e, w')
      | (None, w') \<Rightarrow> write_outputs env ps w')"

definition selected_playbooks ::
    "cli_args \<Rightarrow> (string \<times> test_config) list \<Rightarrow> (string \<times> test_config \<times> playbook) list" where
  "selected_playbooks args configs =
     concat (map (\<lambda>(path, config).
       map (\<lambda>pb. (path, config, pb)) (filter_playbooks config (arg_playbooks args))) configs)"

definition load_configs ::
    "'w main_env \<Rightarrow> cli_args \<Rightarrow> (string \<times> test_config) list result" where
  "load_configs env args =
     (let topology = build_testbed_topology (me_circuits env) (arg_duts args)
      in rmap (\<lambda>path. rbind (load_test_config (me_module env path) topology)
                         (\<lambda>c. Inr (path, c))) (arg_test_configs args))"

definition main_try ::
    "'w main_env \<Rightarrow> cli_args \<Rightarrow> 'w \<Rightarrow> OSSReturnCode result \<times> OSSTestResult list \<times> 'w" where
  "main_try env args w =
     (case load_configs env args of
           Inl e \<Rightarrow> (Inl e, [], w)
         | Inr configs \<Rightarrow>
             (let all_playbooks = selected_playbooks args configs
              in if all_playbooks = [] then (Inr NO_TESTS_FOUND, [], w)
                 else if arg_list_tests args then (Inr SUCCESS, [], w)
                 else if arg_dry_run args then (Inr SUCCESS, [], w)
                 else case run_configs env args (group_configs all_playbooks) [] w of
                        (Some e, rs, w1) \<Rightarrow> (Inl e, rs, w1)
                      | (None, rs, w1) \<Rightarrow>
                          (case write_outputs env (output_paths args) w1 of
                             (Some e, w2) \<Rightarrow> (Inl e, rs, w2)
                           | (None, w2) \<Rightarrow> (Inr (get_exit_code \<lparr>agg_results = rs\<rparr>), rs, w2))))"

definition handle_main_exception :: "py_exn \<Rightarrow> OSSReturnCode result" where
  "handle_main_exception e =
     (if isinstance e OSSConfigError then Inr CONFIG_ERROR
      else if isinstance e OSSTestbedError then Inr TESTBED_ERROR
      else if isinstance e OSSConnectionError then Inr CONNECTION_ERROR
      else if isinstance e OSSInfrastructureError then Inr INFRA_ERROR
      else if isinstance e Exception then Inr INFRA_ERROR
      else Inl e)"

definition main ::
    "'w main_env \<Rightarrow> cli_args \<Rightarrow> 'w \<Rightarrow> OSSReturnCode result \<times> OSSTestResult list \<times> 'w" where
  "main env args w =
     (case main_try env args w of
        (Inr c, rs, w') \<Rightarrow> (Inr c, rs, w')
      | (Inl e, rs, w') \<Rightarrow> (handle_main_exception e, rs, w'))"

section \<open>What the properties speak about\<close>

text \<open>The cell a result belongs to, and a configuration's cells all having a result.\<close>

definition res_key :: "OSSTestResult \<Rightarrow> string \<times> string" where
  "res_key r = (res_playbook r, res_dut r)"

definition group_recorded :: "cli_args \<Rightarrow> OSSTestResult list \<Rightarrow> test_config \<times> playbook list \<Rightarrow> bool" where
  "group_recorded args rs g = list_all (\<lambda>c. cell_recorded c rs) (grid (snd g) (arg_duts args))"

text \<open>
  Concrete environments for the witnesses: the world counts the playbook runs so far; a file
  holds one configuration named after its path.
\<close>

definition pb1 :: playbook where
  "pb1 = \<lparr>pb_name = ''p'', pb_enabled = True\<rparr>"

definition cfg_of :: "string \<Rightarrow> test_config" where
  "cfg_of n = \<lparr>cfg_name = n, cfg_playbooks = [pb1], cfg_endpoints = [\<lparr>endpoint_name = ''d'', endpoint_dut = True\<rparr>]\<rparr>"

definition demo_env :: "(nat \<Rightarrow> py_exn option) \<Rightarrow> (string \<Rightarrow> py_exn option) \<Rightarrow> nat main_env" where
  "demo_env runs setups =
     \<lparr>me_module = (\<lambda>path. \<lparr>mf_exists = True, mf_is_file = True, mf_suffix_py = True, mf_spec_ok = True,
                         mf_exec = None, mf_attrs = [(''test_config'', PlainConfig (cfg_of path))]\<rparr>),
      me_circuits = None,
      me_new_runner = (\<lambda>c n. (None, n)),
      me_setUp = (\<lambda>c n. (setups (cfg_name c), n)),
      me_exec = (\<lambda>c. \<lparr>env_run_tests = (\<lambda>pb dut n. (runs n, Suc n)), env_now = of_nat,
                        env_format_exc = (\<lambda>e. []), env_log_file = None\<rparr>),
      me_tearDown = (\<lambda>c n. (None, n)),
      me_timed_out = (\<lambda>n. True),
      me_write = (\<lambda>p n. (None, n))\<rparr>"

definition demo_args :: "string list \<Rightarrow> int \<Rightarrow> cli_args" where
  "demo_args paths retry =
     \<lparr>arg_test_configs = paths, arg_duts = [''d''], arg_playbooks = None, arg_retry = retry,
      arg_timeout = 3600, arg_list_tests = False, arg_dry_run = False, arg_output_format = ''text'',
      arg_json_output = None, arg_junit_output = None\<rparr>"

definition flaky_env :: "nat main_env" where
  "flaky_env = demo_env (\<lambda>n. if n = 0 then Some (Exn OSSTransientError []) else None) (\<lambda>_. None)"

definition timeout_env :: "nat main_env" where
  "timeout_env = demo_env (\<lambda>n. None) (\<lambda>_. Some (Exn CancelledError []))"

lemmas demo_simps =
  main_def main_try_def load_configs_def demo_env_def demo_args_def load_test_config_def
  load_test_config_try_def
  config_attr_names_def selected_playbooks_def filter_playbooks_def cfg_of_def pb1_def
  group_configs_def add_to_group_def run_config_def with_missing_duts_def timed_lifecycle_def
  run_lifecycle_def grid_def run_cell_def execute_playbook_def exception_result_def
  mk_OSSTestResult_def output_paths_def get_exit_code_def any_result_def classify_exception_def
  get_exception_to_status_map_def isinstance_any_def isinstance_Exn status_failed_def
  handle_main_exception_def lifecycle_error_result_def cell_recorded_def Let_def

section \<open>Lemmas: results are only added\<close>

lemma execute_playbook_ids:
  "execute_playbook env pb dut cfg w = (Inr r, w') \<Longrightarrow>
     res_playbook r = pb_name pb \<and> res_dut r = dut \<and> res_test_config r = cfg"
  by (auto simp: execute_playbook_def exception_result_def mk_OSSTestResult_def Let_def
      split: prod.splits option.splits if_splits)

lemma retry_mark_keys [simp]:
  "i < length rs \<Longrightarrow>
     map res_key (rs[i := (rs ! i)\<lparr>res_status := st, res_is_transient := t\<rparr>]) = map res_key rs"
  by (simp add: map_update res_key_def) (metis list_update_id map_update nth_map res_key_def)

lemma cell_recorded_key: "cell_recorded c rs \<longleftrightarrow> (pb_name (fst c), snd c) \<in> set (map res_key rs)"
  by (force simp: cell_recorded_def res_key_def)

lemma cell_recordedI:
  assumes "map res_key rs' = xs @ (pb_name (fst c), snd c) # zs"
  shows "cell_recorded c rs'"
proof -
  have "(pb_name (fst c), snd c) \<in> set (map res_key rs')" unfolding assms by simp
  then show ?thesis by (simp only: cell_recorded_key)
qed

lemma retry_cell_grows:
  "retry_cell env pb dut cfg i k n rs w = (out, rs', w') \<Longrightarrow> i < length rs \<Longrightarrow>
     \<exists>zs. map res_key rs' = map res_key rs @ zs"
proof (induction n arbitrary: k rs w)
  case 0
  then show ?case by simp
next
  case (Suc n)
  obtain r w1 where ex: "execute_playbook env pb dut cfg w = (r, w1)"
    by (cases "execute_playbook env pb dut cfg w")
  show ?case
  proof (cases r)
    case (Inl e)
    then show ?thesis using Suc.prems ex by simp
  next
    case (Inr r0)
    show ?thesis
    proof (cases "status_failed (res_status r0)")
      case False
      then show ?thesis using Suc.prems ex Inr by (auto simp: Let_def)
    next
      case True
      then have "retry_cell env pb dut cfg i (Suc k) n (rs @ [r0\<lparr>res_retry_count := int k + 1\<rparr>]) w1
          = (out, rs', w')"
        using Suc.prems ex Inr by (simp add: Let_def)
      from Suc.IH [OF this] Suc.prems(2) show ?thesis by auto
    qed
  qed
qed

lemma run_cell_grows:
  "run_cell env retry cfg c rs w = (out, rs', w') \<Longrightarrow> \<exists>zs. map res_key rs' = map res_key rs @ zs"
  by (auto simp: run_cell_def split: prod.splits sum.splits if_splits dest!: retry_cell_grows)

lemma run_cell_records:
  "run_cell env retry cfg c rs w = (None, rs', w') \<Longrightarrow> cell_recorded c rs'"
proof -
  obtain pb dut where c: "c = (pb, dut)" by (cases c)
  assume run: "run_cell env retry cfg c rs w = (None, rs', w')"
  then obtain r w1 where ex: "execute_playbook env pb dut cfg w = (Inr r, w1)"
    unfolding run_cell_def c by (auto split: prod.splits sum.splits)
  have key: "res_key r = (pb_name pb, dut)"
    using execute_playbook_ids [OF ex] by (simp add: res_key_def)
  show ?thesis
  proof (cases "retry \<noteq> 0 \<and> res_is_transient r \<and> status_failed (res_status r)")
    case True
    then have "retry_cell env pb dut cfg (length rs) 0 (nat retry) (rs @ [r]) w1 = (None, rs', w')"
      using run ex c by (simp add: run_cell_def)
    from retry_cell_grows [OF this] obtain zs
      where "map res_key rs' = map res_key rs @ (pb_name pb, dut) # zs"
      using key by auto
    then show ?thesis using c by (simp add: cell_recordedI)
  next
    case False
    then show ?thesis using run ex c key by (auto simp: run_cell_def cell_recorded_key)
  qed
qed

lemma run_cells_grows:
  "run_cells env retry cfg cs rs w = (out, rs', w') \<Longrightarrow> \<exists>zs. map res_key rs' = map res_key rs @ zs"
proof (induction cs arbitrary: rs w)
  case Nil
  then show ?case by simp
next
  case (Cons c cs)
  obtain o1 rs1 w1 where run: "run_cell env retry cfg c rs w = (o1, rs1, w1)"
    by (cases "run_cell env retry cfg c rs w")
  from run_cell_grows [OF run] obtain zs where zs: "map res_key rs1 = map res_key rs @ zs"
    by blast
  show ?case
  proof (cases o1)
    case None
    then have "run_cells env retry cfg cs rs1 w1 = (out, rs', w')"
      using Cons.prems run by simp
    from Cons.IH [OF this] zs show ?thesis by auto
  next
    case (Some e)
    then show ?thesis using Cons.prems run zs by auto
  qed
qed

lemma grows_recorded:
  "map res_key rs' = map res_key rs @ zs \<Longrightarrow> cell_recorded c rs \<Longrightarrow> cell_recorded c rs'"
  by (simp add: cell_recorded_key)

lemma run_cells_records:
  "run_cells env retry cfg cs rs w = (None, rs', w') \<Longrightarrow> list_all (\<lambda>c. cell_recorded c rs') cs"
proof (induction cs arbitrary: rs w)
  case Nil
  then show ?case by simp
next
  case (Cons c cs)
  from Cons.prems obtain rs1 w1 where run: "run_cell env retry cfg c rs w = (None, rs1, w1)"
    and rest: "run_cells env retry cfg cs rs1 w1 = (None, rs', w')"
    by (auto split: prod.splits option.splits)
  obtain zs where "map res_key rs' = map res_key rs1 @ zs"
    using run_cells_grows [OF rest] by blast
  with run_cell_records [OF run] have "cell_recorded c rs'" by (rule grows_recorded [rotated])
  with Cons.IH [OF rest] show ?case by simp
qed

lemma mark_remaining_grows: "\<exists>zs. map res_key (mark_remaining mk cs rs) = map res_key rs @ zs"
proof (induction cs arbitrary: rs)
  case Nil
  show ?case by simp
next
  case (Cons c cs)
  show ?case using Cons.IH [of rs] Cons.IH [of "rs @ [mk c]"] by (cases "cell_recorded c rs") auto
qed

lemma mark_remaining_records:
  assumes "\<And>c. res_key (mk c) = (pb_name (fst c), snd c)"
  shows "list_all (\<lambda>c. cell_recorded c (mark_remaining mk cs rs)) cs"
proof (induction cs arbitrary: rs)
  case Nil
  show ?case by simp
next
  case (Cons c cs)
  let ?rs = "if cell_recorded c rs then rs else rs @ [mk c]"
  have "cell_recorded c ?rs" using assms by (simp add: cell_recorded_key)
  moreover obtain zs where "map res_key (mark_remaining mk cs ?rs) = map res_key ?rs @ zs"
    using mark_remaining_grows by blast
  ultimately have "cell_recorded c (mark_remaining mk cs ?rs)" by (rule grows_recorded [rotated])
  with Cons.IH show ?case by simp
qed

lemma lifecycle_error_result_key:
  "res_key (lifecycle_error_result env args name now e c) = (pb_name (fst c), snd c)"
  by (simp add: lifecycle_error_result_def res_key_def mk_OSSTestResult_def split: prod.split)

lemma run_lifecycle_grows:
  "run_lifecycle env args config name pbs rs w = (out, rs', w') \<Longrightarrow>
     \<exists>zs. map res_key rs' = map res_key rs @ zs"
  by (auto simp: run_lifecycle_def split: prod.splits option.splits if_splits dest!: run_cells_grows)

lemma run_lifecycle_records:
  "run_lifecycle env args config name pbs rs w = (None, rs', w') \<Longrightarrow>
     list_all (\<lambda>c. cell_recorded c rs') (grid pbs (arg_duts args))"
  by (auto simp: run_lifecycle_def split: prod.splits option.splits if_splits dest!: run_cells_records)

lemma timed_lifecycle_grows:
  "timed_lifecycle env args config name pbs rs w = (out, rs', w') \<Longrightarrow>
     \<exists>zs. map res_key rs' = map res_key rs @ zs"
  by (auto simp: timed_lifecycle_def split: prod.splits option.splits if_splits dest!: run_lifecycle_grows)

lemma timed_lifecycle_records:
  "timed_lifecycle env args config name pbs rs w = (None, rs', w') \<Longrightarrow>
     list_all (\<lambda>c. cell_recorded c rs') (grid pbs (arg_duts args))"
  by (auto simp: timed_lifecycle_def split: prod.splits option.splits if_splits dest!: run_lifecycle_records)

lemma run_config_grows:
  "run_config env args config name pbs rs w = (out, rs', w') \<Longrightarrow>
     \<exists>zs. map res_key rs' = map res_key rs @ zs"
proof -
  assume run: "run_config env args config name pbs rs w = (out, rs', w')"
  obtain o1 w1 where new: "me_new_runner env (with_missing_duts (arg_duts args) config) w = (o1, w1)"
    by (cases "me_new_runner env (with_missing_duts (arg_duts args) config) w")
  obtain o2 rs2 w2 where life: "timed_lifecycle env args (with_missing_duts (arg_duts args) config)
      name pbs rs w1 = (o2, rs2, w2)"
    by (cases "timed_lifecycle env args (with_missing_duts (arg_duts args) config) name pbs rs w1")
  obtain zs where zs: "map res_key rs2 = map res_key rs @ zs"
    using timed_lifecycle_grows [OF life] by blast
  then show ?thesis
    using run new life mark_remaining_grows
    by (auto simp: run_config_def Let_def split: option.splits if_splits)
       (metis append.assoc)+
qed

lemma run_config_records:
  "run_config env args config name pbs rs w = (None, rs', w') \<Longrightarrow>
     list_all (\<lambda>c. cell_recorded c rs') (grid pbs (arg_duts args))"
  using mark_remaining_records lifecycle_error_result_key
  by (fastforce simp: run_config_def Let_def split: prod.splits option.splits if_splits
      dest: timed_lifecycle_records)

section \<open>Lemmas: the whole run\<close>

lemma run_configs_grows:
  "run_configs env args gs rs w = (out, rs', w') \<Longrightarrow> \<exists>zs. map res_key rs' = map res_key rs @ zs"
proof (induction gs arbitrary: rs w)
  case Nil
  then show ?case by simp
next
  case (Cons g gs)
  obtain path name config pbs where g: "g = ((path, name), (config, pbs))"
    by (metis surj_pair)
  obtain o1 rs1 w1 where run: "run_config env args config name pbs rs w = (o1, rs1, w1)"
    by (cases "run_config env args config name pbs rs w")
  from run_config_grows [OF run] obtain zs where zs: "map res_key rs1 = map res_key rs @ zs"
    by blast
  show ?case
  proof (cases o1)
    case None
    then have "run_configs env args gs rs1 w1 = (out, rs', w')"
      using Cons.prems run g by simp
    from Cons.IH [OF this] zs show ?thesis by auto
  next
    case (Some e)
    then show ?thesis using Cons.prems run zs g by auto
  qed
qed

lemma run_configs_records:
  "run_configs env args gs rs w = (None, rs', w') \<Longrightarrow> list_all (group_recorded args rs') (map snd gs)"
proof (induction gs arbitrary: rs w)
  case Nil
  then show ?case by simp
next
  case (Cons g gs)
  obtain path name config pbs where g: "g = ((path, name), (config, pbs))"
    by (metis surj_pair)
  from Cons.prems obtain rs1 w1 where run: "run_config env args config name pbs rs w = (None, rs1, w1)"
    and rest: "run_configs env args gs rs1 w1 = (None, rs', w')"
    by (auto simp: g split: prod.splits option.splits)
  from run_configs_grows [OF rest] obtain zs where zs: "map res_key rs' = map res_key rs1 @ zs"
    by blast
  have "list_all (\<lambda>c. cell_recorded c rs') (grid pbs (arg_duts args))"
    using run_config_records [OF run] grows_recorded [OF zs] by (auto simp: list_all_iff)
  with Cons.IH [OF rest] show ?case by (simp add: g group_recorded_def)
qed

text \<open>Grouping keeps every enabled playbook, in the group of its file and configuration name.\<close>

lemma add_to_group_keeps:
  "dict_get gs key = Some (c, pbs) \<Longrightarrow> pb \<in> set pbs \<Longrightarrow>
     \<exists>c' pbs'. dict_get (add_to_group gs entry) key = Some (c', pbs') \<and> pb \<in> set pbs'"
  by (auto simp: add_to_group_def Let_def split: prod.splits option.splits)

lemma foldl_group_keeps:
  "dict_get gs key = Some (c, pbs) \<Longrightarrow> pb \<in> set pbs \<Longrightarrow>
     \<exists>c' pbs'. dict_get (foldl add_to_group gs entries) key = Some (c', pbs') \<and> pb \<in> set pbs'"
proof (induction entries arbitrary: gs c pbs)
  case Nil
  then show ?case by simp
next
  case (Cons e es)
  obtain c' pbs' where "dict_get (add_to_group gs e) key = Some (c', pbs')" "pb \<in> set pbs'"
    using add_to_group_keeps [OF Cons.prems] by blast
  from Cons.IH [OF this] show ?case by simp
qed

lemma add_to_group_adds:
  "pb_enabled pb \<Longrightarrow>
     \<exists>c pbs. dict_get (add_to_group gs (path, config, pb)) (path, cfg_name config) = Some (c, pbs)
       \<and> pb \<in> set pbs"
  by (auto simp: add_to_group_def Let_def split: option.splits)

lemma foldl_group_complete:
  "(path, config, pb) \<in> set entries \<Longrightarrow> pb_enabled pb \<Longrightarrow>
     \<exists>c pbs. dict_get (foldl add_to_group gs entries) (path, cfg_name config) = Some (c, pbs)
       \<and> pb \<in> set pbs"
proof (induction entries arbitrary: gs)
  case Nil
  then show ?case by simp
next
  case (Cons e es)
  show ?case
  proof (cases "e = (path, config, pb)")
    case True
    from add_to_group_adds [OF Cons.prems(2), of gs path config] show ?thesis
      using foldl_group_keeps [of "add_to_group gs e"] True by (metis foldl_Cons)
  next
    case False
    then show ?thesis using Cons by simp
  qed
qed

lemma filter_playbooks_enabled: "pb \<in> set (filter_playbooks config names) \<Longrightarrow> pb_enabled pb"
  by (auto simp: filter_playbooks_def split: option.splits list.splits)

lemma selected_enabled: "(path, config, pb) \<in> set (selected_playbooks args configs) \<Longrightarrow> pb_enabled pb"
  by (auto simp: selected_playbooks_def dest: filter_playbooks_enabled)

lemma grid_member: "pb \<in> set pbs \<Longrightarrow> dut \<in> set duts \<Longrightarrow> (pb, dut) \<in> set (grid pbs duts)"
  by (auto simp: grid_def)

lemma run_groups_record_selected:
  assumes run: "run_configs env args (group_configs (selected_playbooks args configs)) [] w = (None, rs, w')"
    and sel: "(path, config, pb) \<in> set (selected_playbooks args configs)"
    and dut: "dut \<in> set (arg_duts args)"
  shows "cell_recorded (pb, dut) rs"
proof -
  obtain c pbs where grp: "dict_get (group_configs (selected_playbooks args configs))
      (path, cfg_name config) = Some (c, pbs)" and pb: "pb \<in> set pbs"
    using foldl_group_complete [OF sel selected_enabled [OF sel], of "[]"]
    unfolding group_configs_def by blast
  from map_of_SomeD [OF grp] run_configs_records [OF run]
  have "group_recorded args rs (c, pbs)" by (force simp: list_all_iff)
  then show ?thesis
    using grid_member [OF pb dut] by (auto simp: group_recorded_def list_all_iff)
qed

lemma main_success_cases:
  assumes "fst (main env args w) = Inr SUCCESS" "\<not> arg_list_tests args" "\<not> arg_dry_run args"
  obtains configs w1 w2 where
    "load_configs env args = Inr configs"
    "run_configs env args (group_configs (selected_playbooks args configs)) []  w
       = (None, fst (snd (main env args w)), w1)"
    "get_exit_code \<lparr>agg_results = fst (snd (main env args w))\<rparr> = SUCCESS"
  using assms
  by (auto simp: main_def main_try_def load_configs_def handle_main_exception_def Let_def
      split: sum.splits prod.splits option.splits if_splits)

lemma success_no_failures:
  "get_exit_code \<lparr>agg_results = rs\<rparr> = SUCCESS \<Longrightarrow>
     rs \<noteq> [] \<and> list_all (\<lambda>r. \<not> res_failed r \<and> \<not> res_is_transient r) rs"
  by (auto simp: get_exit_code_def any_result_def list_all_iff res_failed_def split: if_splits)

section \<open>Lemmas: retries\<close>

lemma retry_cell_spec:
  "retry_cell env pb dut cfg (length pre) k n (pre @ r # fs) w = (None, rs', w') \<Longrightarrow>
     \<exists>r' extra. rs' = pre @ r' # fs @ extra \<and> length extra \<le> n
       \<and> list_all res_failed (butlast extra)
       \<and> (if extra \<noteq> [] \<and> \<not> res_failed (last extra)
          then r' = r\<lparr>res_status := RETRIED, res_is_transient := False\<rparr> else r' = r)"
proof (induction n arbitrary: k fs w)
  case 0
  then show ?case by simp
next
  case (Suc n)
  obtain r0 w1 where ex: "execute_playbook env pb dut cfg w = (Inr r0, w1)"
    using Suc.prems by (auto split: prod.splits sum.splits)
  define r1 where "r1 = r0\<lparr>res_retry_count := int k + 1\<rparr>"
  show ?case
  proof (cases "status_failed (res_status r0)")
    case False
    then have "rs' = pre @ r\<lparr>res_status := RETRIED, res_is_transient := False\<rparr> # fs @ [r1]"
      using Suc.prems ex by (simp add: Let_def r1_def)
    then show ?thesis using False
      by (intro exI [of _ "r\<lparr>res_status := RETRIED, res_is_transient := False\<rparr>"] exI [of _ "[r1]"])
         (simp add: res_failed_def r1_def)
  next
    case True
    then have rec: "retry_cell env pb dut cfg (length pre) (Suc k) n (pre @ r # (fs @ [r1])) w1
        = (None, rs', w')"
      using Suc.prems ex by (simp add: Let_def r1_def)
    have f1: "res_failed r1" using True by (simp add: res_failed_def r1_def)
    from Suc.IH [OF rec] obtain r' extra where x: "rs' = pre @ r' # (fs @ [r1]) @ extra"
      "length extra \<le> n" "list_all res_failed (butlast extra)"
      "if extra \<noteq> [] \<and> \<not> res_failed (last extra)
          then r' = r\<lparr>res_status := RETRIED, res_is_transient := False\<rparr> else r' = r"
      by blast
    then show ?thesis using f1
      by (intro exI [of _ r'] exI [of _ "r1 # extra"]) (auto split: if_splits)
  qed
qed

section \<open>Properties\<close>

text \<open>
  C23. A cell of the grid adds its result and at most \<open>--retry\<close> further ones, leaving every
  earlier result as it was. All retries but the last failed; when the last one did not fail, the
  first result is rewritten to \<open>RETRIED\<close> and no longer counts as transient, and otherwise
  it is exactly what the executor returned.
\<close>

theorem run_cell_retries:
  "run_cell env retry cfg cell rs w = (None, rs', w') \<Longrightarrow>
     \<exists>r extra. rs' = rs @ r # extra \<and> length extra \<le> nat retry
       \<and> list_all res_failed (butlast extra)
       \<and> (if extra \<noteq> [] \<and> \<not> res_failed (last extra)
          then res_status r = RETRIED \<and> \<not> res_is_transient r
          else fst (execute_playbook env (fst cell) (snd cell) cfg w) = Inr r)"
proof -
  assume run: "run_cell env retry cfg cell rs w = (None, rs', w')"
  obtain pb dut where c: "cell = (pb, dut)" by (cases cell)
  from run obtain r w1 where ex: "execute_playbook env pb dut cfg w = (Inr r, w1)"
    unfolding run_cell_def c by (auto split: prod.splits sum.splits)
  show ?thesis
  proof (cases "retry \<noteq> 0 \<and> res_is_transient r \<and> status_failed (res_status r)")
    case True
    then have "retry_cell env pb dut cfg (length rs) 0 (nat retry) (rs @ r # []) w1 = (None, rs', w')"
      using run ex c by (simp add: run_cell_def)
    from retry_cell_spec [OF this] show ?thesis
      using ex c by (fastforce split: if_splits)
  next
    case False
    then have "rs' = rs @ r # []" using run ex c by (simp add: run_cell_def split: if_splits)
    then show ?thesis using ex c by (intro exI [of _ r] exI [of _ "[]"]) simp
  qed
qed

theorem run_cell_retries_witness:
  "\<exists>rs' w'. run_cell (me_exec flaky_env (cfg_of ''c'')) 2 ''c'' (pb1, ''d'') [] 0 = (None, rs', w')
     \<and> map res_status rs' = [RETRIED, PASSED]
     \<and> (\<exists>r extra. rs' = [] @ r # extra \<and> length extra \<le> nat 2
       \<and> list_all res_failed (butlast extra)
       \<and> (if extra \<noteq> [] \<and> \<not> res_failed (last extra)
          then res_status r = RETRIED \<and> \<not> res_is_transient r
          else fst (execute_playbook (me_exec flaky_env (cfg_of ''c'')) (fst (pb1, ''d''))
                 (snd (pb1, ''d'')) ''c'' 0) = Inr r))"
proof -
  have "\<exists>rs' w'. run_cell (me_exec flaky_env (cfg_of ''c'')) 2 ''c'' (pb1, ''d'') [] 0 = (None, rs', w')
     \<and> map res_status rs' = [RETRIED, PASSED]"
    by (simp add: demo_simps flaky_env_def numeral_2_eq_2 is_subclass_def)
  then obtain rs' w' where
    run: "run_cell (me_exec flaky_env (cfg_of ''c'')) 2 ''c'' (pb1, ''d'') [] 0 = (None, rs', w')"
    and "map res_status rs' = [RETRIED, PASSED]" by (elim exE conjE)
  then show ?thesis
    using run_cell_retries [OF run] by (intro exI [of _ rs'] exI [of _ w'] conjI)
qed



text \<open>
  Whatever raises inside the run (a configuration module, a set-up, a playbook, a writer of
  results), no \<open>Exception\<close> leaves \<open>main\<close>: it returns a code, or re-raises what is not an
  \<open>Exception\<close>.
\<close>

theorem main_contains_exceptions:
  "(\<exists>code. fst (main env args w) = Inr code)
     \<or> (\<exists>e. fst (main env args w) = Inl e \<and> \<not> isinstance e Exception)"
  by (auto simp: main_def handle_main_exception_def split: prod.splits sum.splits)





text \<open>
  An \<open>OSSInfrastructureError\<close> out of a playbook, which \<open>is_infra_error\<close> recognizes as
  an infrastructure problem, exits with \<open>TEST_CASE_FAILURE\<close>, the code of a real regression.
\<close>

theorem infra_as_regression:
  "is_infra_error (Exn OSSInfrastructureError [])
   \<and> fst (main (demo_env (\<lambda>n. Some (Exn OSSInfrastructureError [])) (\<lambda>_. None))
        (demo_args [''c''] 0) 0) = Inr TEST_CASE_FAILURE"
  by (simp add: demo_simps is_subclass_def is_infra_error_def INFRA_EXCEPTIONS_def)

end
