(* ===== verification/Periodic_Tasks.thy ===== *)
theory Periodic_Tasks
  imports Taac_Prelude
begin

text \<open>
  Periodic tasks: the loop of one task (\<open>libs/periodic_task_worker.py\<close>) and the executor that
  starts, stops and tears down the workers (\<open>libs/periodic_task_executor.py\<close>).

  The loop runs in a world \<open>'w\<close> that answers whether the shared stop event is set, what time it
  is, and how a run of the task ends; it may run forever, so it has fuel. The executor is a state
  with the liveness of its processes and threads; how long a process or thread takes to stop, and
  what the manager and the uploads do, are arguments of its operations. Because workers and the
  deferred shutdown run concurrently, the executor is also a step relation in which they may end at
  any time.
\<close>

section \<open>The loop of one task\<close>

record periodic_task =
  pt_name :: string
  pt_max_runtime :: "rat option"
  pt_params_list :: "nat list"
  pt_params :: nat
  pt_interval :: rat
  pt_retryable :: bool
  pt_exception_sleep_time :: rat
  pt_terminate_on_error :: bool
  pt_ixia_needed :: bool

text \<open>
  Parameter sets are opaque here (they are evaluated by the parameter evaluator as part of the
  run), and are numbered. \<open>max_runtime or sys.maxsize\<close>: no bound or zero means the largest
  machine integer.
\<close>

definition max_runtime_of :: "periodic_task \<Rightarrow> rat" where
  "max_runtime_of t =
     (case pt_max_runtime t of Some r \<Rightarrow> (if r = 0 then 9223372036854775807 else r) | None \<Rightarrow> 9223372036854775807)"

definition params_for :: "periodic_task \<Rightarrow> nat \<Rightarrow> nat" where
  "params_for t success_count =
     (if pt_params_list t = [] then pt_params t
      else pt_params_list t ! (success_count mod length (pt_params_list t)))"

record 'w task_env =
  te_stop_set :: "'w \<Rightarrow> bool"
  te_now :: "'w \<Rightarrow> rat"
  te_run :: "nat \<Rightarrow> 'w \<Rightarrow> py_exn option \<times> 'w"
  te_wait :: "rat \<Rightarrow> 'w \<Rightarrow> 'w"
  te_set_stop :: "'w \<Rightarrow> 'w"

record 'w loop_result =
  lr_raised :: "py_exn option"
  lr_has_error :: bool
  lr_successes :: nat
  lr_world :: 'w

fun task_loop ::
    "nat \<Rightarrow> 'w task_env \<Rightarrow> periodic_task \<Rightarrow> rat \<Rightarrow> nat \<Rightarrow> 'w \<Rightarrow> 'w loop_result option" where
  "task_loop 0 env t start n w = None"
| "task_loop (Suc fuel) env t start n w =
     (let leave = \<lparr>lr_raised = None, lr_has_error = False, lr_successes = n, lr_world = w\<rparr>
      in if te_stop_set env w then Some leave
         else if te_now env w - start > max_runtime_of t then Some leave
         else case te_run env (params_for t n) w of
                (None, w1) \<Rightarrow> task_loop fuel env t start (Suc n) (te_wait env (pt_interval t) w1)
              | (Some e, w1) \<Rightarrow>
                  if \<not> isinstance e Exception
                  then Some (leave\<lparr>lr_raised := Some e, lr_world := w1\<rparr>)
                  else if pt_retryable t
                  then task_loop fuel env t start n (te_wait env (pt_exception_sleep_time t) w1)
                  else Some (leave\<lparr>lr_has_error := True,
                        lr_world := (if pt_terminate_on_error t then te_set_stop env w1 else w1)\<rparr>))"

definition run_periodic_task_loop ::
    "nat \<Rightarrow> 'w task_env \<Rightarrow> periodic_task \<Rightarrow> 'w \<Rightarrow> 'w loop_result option" where
  "run_periodic_task_loop fuel env t w = task_loop fuel env t (te_now env w) 0 w"

text \<open>
  The two entry points of a worker, \<open>run_periodic_task_process\<close> and \<open>PeriodicTaskWorker.run\<close>, share
  their handling: \<open>setup_error\<close> is what building the logger and the task raises; an \<open>Exception\<close> of the
  set-up or the loop sets the error flag and, when the task asks for it, the stop event, and does
  not leave the worker. The result is what the worker raises, the flag and the world.
\<close>

definition worker_run ::
    "nat \<Rightarrow> 'w task_env \<Rightarrow> periodic_task \<Rightarrow> py_exn option \<Rightarrow> 'w \<Rightarrow> (py_exn option \<times> bool \<times> 'w) option" where
  "worker_run fuel env t setup_error w =
     (let contain = (\<lambda>e flag w1. if isinstance e Exception
                      then (None, True, if pt_terminate_on_error t then te_set_stop env w1 else w1)
                      else (Some e, flag, w1))
      in case setup_error of
           Some e \<Rightarrow> Some (contain e False w)
         | None \<Rightarrow>
             map_option
               (\<lambda>r. case lr_raised r of
                      Some e \<Rightarrow> contain e (lr_has_error r) (lr_world r)
                    | None \<Rightarrow> (None, lr_has_error r, lr_world r))
               (run_periodic_task_loop fuel env t w))"

text \<open>
  The parent's half of the log upload: the address the worker published if there is one, otherwise
  the parent tries the recorded file; a failed upload is logged and gives the empty string.
\<close>

record worker_log =
  wl_url :: "string option"
  wl_file :: "string option"

definition worker_teardown :: "(string \<Rightarrow> string result) \<Rightarrow> worker_log \<Rightarrow> string result" where
  "worker_teardown upload l =
     (case wl_url l of
        Some (c # cs) \<Rightarrow> Inr (c # cs)
      | _ \<Rightarrow>
          case wl_file l of
            Some (c # cs) \<Rightarrow>
              (case upload (c # cs) of
                 Inr url \<Rightarrow> Inr url
               | Inl e \<Rightarrow> if isinstance e Exception then Inr '''' else Inl e)
          | _ \<Rightarrow> Inr '''')"

section \<open>The executor\<close>

abbreviation EOFError :: exn_class where
  "EOFError \<equiv> UserExn ''EOFError'' Exception"

text \<open>\<open>_make_sync_manager\<close>: three attempts; \<open>outcome k\<close> is what the \<open>k\<close>-th one raises.\<close>

fun make_sync_manager :: "nat \<Rightarrow> (nat \<Rightarrow> py_exn option) \<Rightarrow> nat \<Rightarrow> py_exn option" where
  "make_sync_manager 0 outcome attempt = None"
| "make_sync_manager (Suc left) outcome attempt =
     (case outcome attempt of
        None \<Rightarrow> None
      | Some e \<Rightarrow>
          if isinstance_any e [EOFError, OSError] \<and> left \<noteq> 0 then make_sync_manager left outcome (Suc attempt)
          else Some e)"

record executor =
  px_tasks :: "periodic_task list"
  px_started :: bool
  px_stop :: bool
  px_manager :: bool
  px_processes :: "(string \<times> bool) list"
  px_threads :: "(string \<times> bool) list"
  px_deferred :: bool
  px_errors :: "bool list"

text \<open>A thread or process is its name and whether it is alive; \<open>px_deferred\<close>: the deferred
  shutdown thread exists and is alive; \<open>px_errors\<close>: the error flag of each worker.\<close>

definition new_executor :: "periodic_task list \<Rightarrow> executor" where
  "new_executor tasks =
     \<lparr>px_tasks = tasks, px_started = False, px_stop = False, px_manager = False, px_processes = [],
      px_threads = [], px_deferred = False, px_errors = []\<rparr>"

definition any_alive :: "(string \<times> bool) list \<Rightarrow> bool" where
  "any_alive ws \<longleftrightarrow> list_ex snd ws"

definition worker_name :: "periodic_task \<Rightarrow> string" where
  "worker_name t = ''PeriodicTask-'' @ pt_name t"

text \<open>Starting the workers: \<open>starts k\<close> is what starting the \<open>k\<close>-th worker raises.\<close>

fun start_workers ::
    "(nat \<Rightarrow> py_exn option) \<Rightarrow> nat \<Rightarrow> periodic_task list \<Rightarrow> executor \<Rightarrow> unit result \<times> executor" where
  "start_workers starts k [] x = (Inr (), x)"
| "start_workers starts k (t # ts) x =
     (let x1 = x\<lparr>px_errors := px_errors x @ [False]\<rparr>
      in case starts k of
           Some e \<Rightarrow> (Inl e, x1)
         | None \<Rightarrow>
             start_workers starts (Suc k) ts
               (if pt_ixia_needed t
                then x1\<lparr>px_threads := px_threads x @ [(worker_name t, True)]\<rparr>
                else x1\<lparr>px_processes := px_processes x @ [(worker_name t, True)]\<rparr>))"

definition create_periodic_tasks ::
    "(nat \<Rightarrow> py_exn option) \<Rightarrow> (nat \<Rightarrow> py_exn option) \<Rightarrow> executor \<Rightarrow> unit result \<times> executor" where
  "create_periodic_tasks manager_outcome starts x =
     (if px_tasks x = [] then (Inr (), x)
      else if px_started x then (Inl (runtime_error ''PeriodicTaskExecutor instances are single-use''), x)
      else case (if px_manager x then None else make_sync_manager 3 manager_outcome 1) of
             Some e \<Rightarrow> (Inl e, x)
           | None \<Rightarrow> start_workers starts 0 (px_tasks x) (x\<lparr>px_manager := True, px_started := True\<rparr>))"

definition has_error :: "executor \<Rightarrow> bool" where
  "has_error x \<longleftrightarrow> list_ex id (px_errors x)"

text \<open>
  \<open>stop_all_periodic_tasks\<close>: every process is joined, terminated and in the end killed and waited
  for, so it is dead afterwards; \<open>stops k\<close> says whether the \<open>k\<close>-th thread ends within its join.
\<close>

definition join_threads :: "(nat \<Rightarrow> bool) \<Rightarrow> (string \<times> bool) list \<Rightarrow> (string \<times> bool) list" where
  "join_threads stops ws = map (\<lambda>(k, name, alive). (name, alive \<and> \<not> stops k)) (enumerate 0 ws)"

definition stop_all_periodic_tasks :: "(nat \<Rightarrow> bool) \<Rightarrow> executor \<Rightarrow> unit result \<times> executor" where
  "stop_all_periodic_tasks stops x =
     (let x1 = x\<lparr>px_stop := True, px_processes := map (\<lambda>(name, _). (name, False)) (px_processes x),
                 px_threads := join_threads stops (px_threads x)\<rparr>;
          live = map fst (filter snd (px_threads x1))
      in (if live = [] then Inr ()
          else Inl (runtime_error (''Periodic task threads did not stop within 5 seconds: '' @ join '', '' live)),
          x1))"

text \<open>\<open>_shutdown_manager\<close>: an \<open>Exception\<close> of the manager is logged, anything else propagates.\<close>

definition shutdown_manager :: "py_exn option \<Rightarrow> executor \<Rightarrow> unit result \<times> executor" where
  "shutdown_manager failure x =
     (if \<not> px_manager x then (Inr (), x)
      else (case failure of
              Some e \<Rightarrow> if isinstance e Exception then Inr () else Inl e
            | None \<Rightarrow> Inr (),
            x\<lparr>px_manager := False\<rparr>))"

definition defer_manager_shutdown :: "py_exn option \<Rightarrow> executor \<Rightarrow> unit result \<times> executor" where
  "defer_manager_shutdown failure x =
     (if px_deferred x then (Inr (), x)
      else if any_alive (px_threads x) then (Inr (), x\<lparr>px_deferred := True\<rparr>)
      else shutdown_manager failure x)"

text \<open>
  The body of the deferred shutdown thread joins the threads that were alive one after the other,
  each with what is left of sixty seconds; \<open>ends\<close> is when each of them exits, if it does. The result
  is when the thread goes on to shut the manager down.
\<close>

definition join_one :: "rat \<Rightarrow> rat \<Rightarrow> rat option \<Rightarrow> rat" where
  "join_one deadline now exits =
     (let limit = now + max 0 (deadline - now)
      in case exits of Some e \<Rightarrow> max now (min e limit) | None \<Rightarrow> limit)"

fun join_all :: "rat \<Rightarrow> rat \<Rightarrow> rat option list \<Rightarrow> rat" where
  "join_all deadline now [] = now"
| "join_all deadline now (e # es) = join_all deadline (join_one deadline now e) es"

definition shutdown_after_join :: "rat \<Rightarrow> rat option list \<Rightarrow> rat" where
  "shutdown_after_join now ends = join_all (now + 60) now ends"

text \<open>
  \<open>teardown\<close>: \<open>uploads\<close> is what awaiting the workers' log uploads gives, the outcome of each (an
  exception or none), or the exception that interrupted the wait. The \<open>finally\<close> block runs on every
  path, and an exception it raises replaces the pending one.
\<close>

definition teardown_body ::
    "bool \<Rightarrow> bool \<Rightarrow> (nat \<Rightarrow> bool) \<Rightarrow> py_exn option list result \<Rightarrow> executor \<Rightarrow> unit result \<times> executor" where
  "teardown_body skip_log_upload stop_tasks stops uploads x =
     (let (stopped, x1) = (if stop_tasks then stop_all_periodic_tasks stops x else (Inr (), x));
          errors = (case stopped of Inl e \<Rightarrow> [e] | Inr _ \<Rightarrow> [])
      in case (if skip_log_upload then Inr [] else uploads) of
           Inl e \<Rightarrow> (Inl e, x1)
         | Inr outcomes \<Rightarrow>
             let all_errors = errors @ filter (\<lambda>e. isinstance e Exception) (List.map_filter id outcomes)
             in (if all_errors = [] then Inr ()
                 else Inl (ExnGroup ''Periodic task executor teardown failed'' all_errors), x1))"

definition teardown ::
    "bool \<Rightarrow> bool \<Rightarrow> (nat \<Rightarrow> bool) \<Rightarrow> py_exn option list result \<Rightarrow> py_exn option \<Rightarrow> executor
     \<Rightarrow> unit result \<times> executor" where
  "teardown skip_log_upload stop_tasks stops uploads failure x =
     (let (r, x1) = teardown_body skip_log_upload stop_tasks stops uploads x;
          (r2, x2) = (if any_alive (px_threads x1) then defer_manager_shutdown failure x1
                      else shutdown_manager failure x1)
      in (case r2 of Inl e \<Rightarrow> Inl e | Inr _ \<Rightarrow> r, x2))"

section \<open>The executor as a step relation\<close>

text \<open>
  Between the calls of the owner, workers may end at any time, and the deferred shutdown, which
  waits for the threads but at most sixty seconds, may complete.
\<close>

inductive executor_step :: "executor \<Rightarrow> executor \<Rightarrow> bool" where
  creates: "create_periodic_tasks manager_outcome starts x = (r, x') \<Longrightarrow> executor_step x x'"
| stops_all: "stop_all_periodic_tasks stops x = (r, x') \<Longrightarrow> executor_step x x'"
| tears_down: "teardown skip stop_tasks stops uploads failure x = (r, x') \<Longrightarrow> executor_step x x'"
| thread_exits: "k < length (px_threads x) \<Longrightarrow>
    executor_step x (x\<lparr>px_threads := (px_threads x)[k := (fst (px_threads x ! k), False)]\<rparr>)"
| process_exits: "k < length (px_processes x) \<Longrightarrow>
    executor_step x (x\<lparr>px_processes := (px_processes x)[k := (fst (px_processes x ! k), False)]\<rparr>)"
| worker_fails: "k < length (px_errors x) \<Longrightarrow> executor_step x (x\<lparr>px_errors := (px_errors x)[k := True]\<rparr>)"
| stop_requested: "executor_step x (x\<lparr>px_stop := True\<rparr>)"
| deferred_completes: "px_deferred x \<Longrightarrow> snd (shutdown_manager failure x) = x' \<Longrightarrow>
    executor_step x (x'\<lparr>px_deferred := False\<rparr>)"

inductive executor_steps :: "executor \<Rightarrow> executor \<Rightarrow> bool" where
  here: "executor_steps x x"
| step: "executor_steps x y \<Longrightarrow> executor_step y z \<Longrightarrow> executor_steps x z"

definition executor_ok :: "executor \<Rightarrow> bool" where
  "executor_ok x \<longleftrightarrow>
     (px_started x
      \<or> \<not> px_manager x \<and> \<not> px_deferred x \<and> px_processes x = [] \<and> px_threads x = [] \<and> px_errors x = [])
     \<and> length (px_processes x) + length (px_threads x) \<le> length (px_errors x)
     \<and> length (px_errors x) \<le> length (px_tasks x)"

text \<open>The manager is gone, or the thread that will release it is running.\<close>

definition manager_released :: "executor \<Rightarrow> bool" where
  "manager_released x \<longleftrightarrow> (px_manager x \<longrightarrow> px_deferred x)"

text \<open>How a finished loop ended: by the stop event, by its time bound, or in its last run.\<close>

definition loop_outcome :: "'w task_env \<Rightarrow> periodic_task \<Rightarrow> rat \<Rightarrow> 'w loop_result \<Rightarrow> bool" where
  "loop_outcome env t start r \<longleftrightarrow>
     (if lr_has_error r \<or> lr_raised r \<noteq> None
      then \<exists>w e w1. te_run env (params_for t (lr_successes r)) w = (Some e, w1)
             \<and> \<not> te_stop_set env w \<and> te_now env w - start \<le> max_runtime_of t
             \<and> (if isinstance e Exception
                then lr_has_error r \<and> lr_raised r = None \<and> \<not> pt_retryable t
                     \<and> lr_world r = (if pt_terminate_on_error t then te_set_stop env w1 else w1)
                else \<not> lr_has_error r \<and> lr_raised r = Some e \<and> lr_world r = w1)
      else te_stop_set env (lr_world r) \<or> te_now env (lr_world r) - start > max_runtime_of t)"

text \<open>A world for the concrete runs: a clock and the stop event; parameter set 7 makes the run fail.\<close>

definition demo_task :: "nat list \<Rightarrow> bool \<Rightarrow> periodic_task" where
  "demo_task ps retry =
     \<lparr>pt_name = ''poll'', pt_max_runtime = Some 3, pt_params_list = ps, pt_params = 0, pt_interval = 1,
      pt_retryable = retry, pt_exception_sleep_time = 2, pt_terminate_on_error = True,
      pt_ixia_needed = True\<rparr>"

definition clock_env :: "(rat \<times> bool) task_env" where
  "clock_env =
     \<lparr>te_stop_set = snd, te_now = fst,
      te_run = (\<lambda>p w. (if p = 7 then Some (runtime_error ''down'') else None, w)),
      te_wait = (\<lambda>d w. (fst w + d, snd w)), te_set_stop = (\<lambda>w. (fst w, True))\<rparr>"

definition demo_executor :: executor where
  "demo_executor = snd (create_periodic_tasks (\<lambda>_. None) (\<lambda>_. None) (new_executor [demo_task [] True]))"

section \<open>Facts about the loop\<close>

lemma task_loop_Suc:
  "task_loop (Suc fuel) env t start n w =
     (if te_stop_set env w \<or> te_now env w - start > max_runtime_of t
      then Some \<lparr>lr_raised = None, lr_has_error = False, lr_successes = n, lr_world = w\<rparr>
      else let w1 = snd (te_run env (params_for t n) w)
           in case fst (te_run env (params_for t n) w) of
                None \<Rightarrow> task_loop fuel env t start (Suc n) (te_wait env (pt_interval t) w1)
              | Some e \<Rightarrow>
                  if \<not> isinstance e Exception
                  then Some \<lparr>lr_raised = Some e, lr_has_error = False, lr_successes = n, lr_world = w1\<rparr>
                  else if pt_retryable t
                  then task_loop fuel env t start n (te_wait env (pt_exception_sleep_time t) w1)
                  else Some \<lparr>lr_raised = None, lr_has_error = True, lr_successes = n,
                         lr_world = if pt_terminate_on_error t then te_set_stop env w1 else w1\<rparr>)"
  by (simp add: Let_def split: prod.splits option.splits)

declare task_loop.simps(2) [simp del]

lemma task_loop_ends:
  assumes adv: "\<And>d p w. d \<in> {pt_interval t, pt_exception_sleep_time t} \<Longrightarrow>
             te_stop_set env (te_wait env d (snd (te_run env p w)))
             \<or> te_now env w + \<delta> \<le> te_now env (te_wait env d (snd (te_run env p w)))"
    and "max_runtime_of t - (te_now env w - start) < of_nat fuel * \<delta>"
  shows "\<exists>r. task_loop (Suc fuel) env t start n w = Some r"
  using assms(2)
proof (induction fuel arbitrary: n w)
  case 0
  then show ?case by (simp add: task_loop_Suc)
next
  case (Suc fuel)
  have next_ends: "\<exists>r. task_loop (Suc fuel) env t start m (te_wait env d (snd (te_run env p w))) = Some r"
    if d: "d \<in> {pt_interval t, pt_exception_sleep_time t}" for d p m
    using adv[OF d, of p w]
  proof
    assume "te_now env w + \<delta> \<le> te_now env (te_wait env d (snd (te_run env p w)))"
    then show ?thesis
      using Suc.prems by (intro Suc.IH) (simp add: algebra_simps)
  qed (simp add: task_loop_Suc)
  show ?case
    by (subst task_loop_Suc) (simp add: Let_def next_ends split: option.split)
qed

lemma task_loop_outcome:
  "task_loop fuel env t start n w = Some r \<Longrightarrow> loop_outcome env t start r"
proof (induction fuel arbitrary: n w)
  case (Suc fuel)
  show ?case
  proof (cases "te_stop_set env w \<or> te_now env w - start > max_runtime_of t")
    case True
    then show ?thesis using Suc.prems by (auto simp: task_loop_Suc loop_outcome_def)
  next
    case False
    obtain e w1 where run: "te_run env (params_for t n) w = (e, w1)" by fastforce
    show ?thesis
      using Suc.prems False Suc.IH run
      by (simp add: task_loop_Suc Let_def split: option.splits if_splits)
         (fastforce simp: loop_outcome_def)+
  qed
qed simp

lemma task_loop_counts:
  "task_loop fuel env t start n w = Some r \<Longrightarrow> n \<le> lr_successes r \<and> lr_successes r < n + fuel"
proof (induction fuel arbitrary: n w)
  case (Suc fuel)
  then show ?case
    by (fastforce simp: task_loop_Suc Let_def split: if_splits option.splits)
qed simp

section \<open>Facts about the executor\<close>

lemma join_one_bounds:
  assumes "now \<le> deadline"
  shows "now \<le> join_one deadline now e" "join_one deadline now e \<le> deadline"
  using assms by (auto simp: join_one_def Let_def split: option.splits)

lemma join_all_bounds:
  "now \<le> deadline \<Longrightarrow> now \<le> join_all deadline now es \<and> join_all deadline now es \<le> deadline"
proof (induction es arbitrary: now)
  case (Cons e es)
  then show ?case
    using join_one_bounds[OF Cons.prems, of e] by fastforce
qed simp

lemma join_all_waits:
  "now \<le> deadline \<Longrightarrow> Some e \<in> set es \<Longrightarrow> e \<le> deadline \<Longrightarrow> e \<le> join_all deadline now es"
proof (induction es arbitrary: now)
  case (Cons x es)
  note b = join_one_bounds[OF Cons.prems(1), of x]
  show ?case
  proof (cases "x = Some e")
    case True
    then have "e \<le> join_one deadline now x"
      using Cons.prems by (simp add: join_one_def Let_def)
    then show ?thesis
      using join_all_bounds[OF b(2), of es] by simp
  next
    case False
    then show ?thesis
      using Cons b by auto
  qed
qed simp

lemma start_workers_keeps:
  "start_workers starts k ts x = (r, x') \<Longrightarrow>
     px_tasks x' = px_tasks x \<and> px_started x' = px_started x \<and> px_stop x' = px_stop x
     \<and> px_manager x' = px_manager x \<and> px_deferred x' = px_deferred x
     \<and> length (px_errors x') \<le> length (px_errors x) + length ts
     \<and> length (px_processes x') + length (px_threads x') + length (px_errors x)
       \<le> length (px_processes x) + length (px_threads x) + length (px_errors x')"
  by (induction starts k ts x rule: start_workers.induct)
     (fastforce simp: Let_def split: option.splits if_splits)+

lemma length_join_threads [simp]: "length (join_threads stops ws) = length ws"
  by (simp add: join_threads_def)

lemma no_live_names: "filter snd ws = [] \<longleftrightarrow> \<not> any_alive ws"
  by (auto simp: any_alive_def list_ex_iff filter_empty_conv)

lemma not_any_alive_dead: "\<not> any_alive (map (\<lambda>(name, _). (name, False)) ws)"
  by (auto simp: any_alive_def list_ex_iff)

lemma stop_all_keeps:
  assumes "stop_all_periodic_tasks stops x = (r, x')"
  shows "px_tasks x' = px_tasks x" "px_started x' = px_started x" "px_stop x'"
    "px_manager x' = px_manager x" "px_deferred x' = px_deferred x" "px_errors x' = px_errors x"
    "length (px_processes x') = length (px_processes x)" "length (px_threads x') = length (px_threads x)"
    "\<not> any_alive (px_processes x')"
    "r = Inr () \<longleftrightarrow> \<not> any_alive (px_threads x')"
  using assms
  by (auto simp: stop_all_periodic_tasks_def Let_def no_live_names not_any_alive_dead split: if_splits)

lemma shutdown_manager_state:
  "snd (shutdown_manager failure x) = x\<lparr>px_manager := False\<rparr>"
  by (cases x) (simp add: shutdown_manager_def)

lemma defer_state:
  "snd (defer_manager_shutdown failure x) =
     (if px_deferred x then x else if any_alive (px_threads x) then x\<lparr>px_deferred := True\<rparr>
      else x\<lparr>px_manager := False\<rparr>)"
  by (simp add: defer_manager_shutdown_def shutdown_manager_state)

lemma teardown_body_state:
  "snd (teardown_body skip stop_tasks stops uploads x) =
     (if stop_tasks then snd (stop_all_periodic_tasks stops x) else x)"
  by (simp add: teardown_body_def Let_def split: prod.split sum.split)

lemma teardown_state:
  "snd (teardown skip stop_tasks stops uploads failure x) =
     (let x1 = (if stop_tasks then snd (stop_all_periodic_tasks stops x) else x)
      in if any_alive (px_threads x1) then x1\<lparr>px_deferred := True\<rparr> else x1\<lparr>px_manager := False\<rparr>)"
proof -
  obtain r x1 where b: "teardown_body skip stop_tasks stops uploads x = (r, x1)" by fastforce
  have x1: "(if stop_tasks then snd (stop_all_periodic_tasks stops x) else x) = x1"
    using teardown_body_state[of skip stop_tasks stops uploads x] b by simp
  have "px_deferred x1 \<Longrightarrow> x1\<lparr>px_deferred := True\<rparr> = x1" by (cases x1) simp
  moreover have "snd (teardown skip stop_tasks stops uploads failure x) =
      snd (if any_alive (px_threads x1) then defer_manager_shutdown failure x1
           else shutdown_manager failure x1)"
    by (simp add: teardown_def b Let_def case_prod_unfold)
  ultimately show ?thesis
    by (simp add: x1 Let_def defer_state shutdown_manager_state)
qed

lemma manager_released_teardown: "manager_released (snd (teardown skip stop_tasks stops uploads failure x))"
  by (simp add: teardown_state Let_def manager_released_def)

lemma create_keeps:
  assumes "create_periodic_tasks manager_outcome starts x = (r, x')"
  shows "px_started x \<longrightarrow> x' = x" "px_tasks x' = px_tasks x" "px_deferred x' = px_deferred x"
  using assms
  by (auto simp: create_periodic_tasks_def split: if_splits option.splits dest!: start_workers_keeps)

lemma executor_ok_create:
  assumes "create_periodic_tasks manager_outcome starts x = (r, x')" "executor_ok x"
  shows "executor_ok x'"
  using assms
  by (auto simp: create_periodic_tasks_def executor_ok_def split: if_splits option.splits
      dest!: start_workers_keeps)

lemma executor_ok_stop_all:
  assumes "executor_ok x"
  shows "executor_ok (snd (stop_all_periodic_tasks stops x))"
proof -
  obtain r x' where st: "stop_all_periodic_tasks stops x = (r, x')" by fastforce
  have "px_processes x = [] \<Longrightarrow> px_processes x' = []" "px_threads x = [] \<Longrightarrow> px_threads x' = []"
    using stop_all_keeps(7,8)[OF st] by simp_all
  then show ?thesis
    using assms stop_all_keeps[OF st] by (auto simp: executor_ok_def st)
qed

lemma no_thread_alive_unstarted: "executor_ok x \<Longrightarrow> any_alive (px_threads x) \<Longrightarrow> px_started x"
  by (auto simp: executor_ok_def any_alive_def)

lemma executor_ok_teardown:
  assumes "executor_ok x"
  shows "executor_ok (snd (teardown skip stop_tasks stops uploads failure x))"
proof -
  define x1 where "x1 = (if stop_tasks then snd (stop_all_periodic_tasks stops x) else x)"
  have "executor_ok x1"
    using assms executor_ok_stop_all by (simp add: x1_def)
  then show ?thesis
    using no_thread_alive_unstarted[of x1]
    by (auto simp: teardown_state x1_def[symmetric] executor_ok_def)
qed

lemma executor_ok_step: "executor_step x y \<Longrightarrow> executor_ok x \<Longrightarrow> executor_ok y"
proof (induction rule: executor_step.induct)
  case (creates manager_outcome starts x r x')
  then show ?case by (rule executor_ok_create)
next
  case (stops_all stops x r x')
  then show ?case using executor_ok_stop_all[of x stops] by simp
next
  case (tears_down skip stop_tasks stops uploads failure x r x')
  then show ?case using executor_ok_teardown[of x skip stop_tasks stops uploads failure] by simp
next
  case (deferred_completes x failure x')
  then show ?case using shutdown_manager_state[of failure x] by (auto simp: executor_ok_def)
qed (auto simp: executor_ok_def)

lemma executor_ok_steps: "executor_steps x y \<Longrightarrow> executor_ok x \<Longrightarrow> executor_ok y"
  by (induction rule: executor_steps.induct) (auto intro: executor_ok_step)

text \<open>Once started, an executor stays started, and a released manager stays released.\<close>

lemma released_step:
  "executor_step x y \<Longrightarrow> px_started x \<Longrightarrow> manager_released x \<Longrightarrow> px_started y \<and> manager_released y"
proof (induction rule: executor_step.induct)
  case (creates manager_outcome starts x r x')
  then show ?case using create_keeps(1)[OF creates(1)] by simp
next
  case (stops_all stops x r x')
  then show ?case using stop_all_keeps[OF stops_all(1)] by (simp add: manager_released_def)
next
  case (tears_down skip stop_tasks stops uploads failure x r x')
  have "px_started (snd (teardown skip stop_tasks stops uploads failure x))"
    using tears_down(2) stop_all_keeps(2)[of stops x, OF surjective_pairing]
    by (simp add: teardown_state Let_def)
  then show ?case
    using tears_down(1) manager_released_teardown[of skip stop_tasks stops uploads failure x] by simp
next
  case (deferred_completes x failure x')
  then show ?case using shutdown_manager_state[of failure x] by (auto simp: manager_released_def)
qed (auto simp: manager_released_def)

lemma released_steps:
  "executor_steps x y \<Longrightarrow> px_started x \<Longrightarrow> manager_released x \<Longrightarrow> px_started y \<and> manager_released y"
  by (induction rule: executor_steps.induct) (auto dest: released_step)

lemma deferred_releases:
  assumes "px_deferred x"
  shows "\<exists>y. executor_step x y \<and> \<not> px_manager y"
  using executor_step.deferred_completes[OF assms refl, of None] shutdown_manager_state[of None x]
  by (intro exI) auto

section \<open>Properties\<close>

text \<open>
  C33. The loop of a periodic task ends, and ends for a reason the code names. If every iteration leaves
  the stop event set or moves the clock on by at least \<open>\<delta>\<close>, then as many iterations as the time
  bound holds steps \<open>\<delta>\<close>, and one more, are enough. The loop then ended with the stop event set, or
  past its time bound, or in its last run: an \<open>Exception\<close> there sets the error flag, only for a task
  that is not retryable, and sets the stop event exactly when the task terminates on errors, and
  anything else propagates with the flag unset. The parameter set of the last run is the one of the
  number of successes so far.
\<close>

theorem periodic_loop_ends:
  assumes "\<And>d p w. d \<in> {pt_interval t, pt_exception_sleep_time t} \<Longrightarrow>
             te_stop_set env (te_wait env d (snd (te_run env p w)))
             \<or> te_now env w + \<delta> \<le> te_now env (te_wait env d (snd (te_run env p w)))"
    and "max_runtime_of t < of_nat fuel * \<delta>"
  shows "\<exists>r. run_periodic_task_loop (Suc fuel) env t w = Some r
             \<and> loop_outcome env t (te_now env w) r \<and> lr_successes r \<le> fuel"
proof -
  obtain r where r: "task_loop (Suc fuel) env t (te_now env w) 0 w = Some r"
    using task_loop_ends[where w = w and start = "te_now env w" and n = 0, OF assms(1)] assms(2) by auto
  then show ?thesis
    using task_loop_outcome[OF r] task_loop_counts[OF r] by (simp add: run_periodic_task_loop_def)
qed

theorem periodic_loop_witness:
  "(\<exists>r. run_periodic_task_loop (Suc 4) clock_env (demo_task [1, 2] True) (10, False) = Some r
        \<and> loop_outcome clock_env (demo_task [1, 2] True) (te_now clock_env (10, False)) r \<and> lr_successes r \<le> 4)
   \<and> map_option lr_successes (run_periodic_task_loop 5 clock_env (demo_task [1, 2] True) (10, False)) = Some 4
   \<and> map_option lr_has_error (run_periodic_task_loop 5 clock_env (demo_task [1, 7] False) (10, False)) = Some True"
proof (intro conjI)
  show "\<exists>r. run_periodic_task_loop (Suc 4) clock_env (demo_task [1, 2] True) (10, False) = Some r
        \<and> loop_outcome clock_env (demo_task [1, 2] True) (te_now clock_env (10, False)) r \<and> lr_successes r \<le> 4"
    by (rule periodic_loop_ends[where \<delta> = 1])
       (auto simp: clock_env_def demo_task_def max_runtime_of_def)
qed code_simp+

text \<open>
  A worker contains every \<open>Exception\<close> of its set-up and of its loop: only other exceptions, such as
  an interrupt, leave it. A failed set-up sets the error flag, and whenever the flag is set for a task
  that terminates on errors, the stop event shared by all workers is set too.
\<close>

theorem worker_contains_exceptions:
  assumes "worker_run fuel env t setup_error w = Some (raised, flag, w')"
    and "\<And>v. te_stop_set env (te_set_stop env v)"
  shows "(\<forall>e. raised = Some e \<longrightarrow> \<not> isinstance e Exception)
         \<and> ((\<exists>e. setup_error = Some e \<and> isinstance e Exception) \<longrightarrow> flag)
         \<and> (flag \<and> pt_terminate_on_error t \<longrightarrow> te_stop_set env w')"
proof (cases setup_error)
  case (Some e)
  then show ?thesis using assms by (auto simp: worker_run_def Let_def split: if_splits)
next
  case None
  then obtain r where r: "task_loop fuel env t (te_now env w) 0 w = Some r"
    and res: "(raised, flag, w') = (case lr_raised r of
        Some e \<Rightarrow> if isinstance e Exception
          then (None, True, if pt_terminate_on_error t then te_set_stop env (lr_world r) else lr_world r)
          else (Some e, lr_has_error r, lr_world r)
      | None \<Rightarrow> (None, lr_has_error r, lr_world r))"
    using assms(1) by (auto simp: worker_run_def Let_def run_periodic_task_loop_def)
  show ?thesis
    using res task_loop_outcome[OF r] None assms(2)
    by (auto simp: loop_outcome_def split: option.splits if_splits)
qed

theorem worker_contains_witness:
  "worker_run 5 clock_env (demo_task [7] False) None (0, False) = Some (None, True, (0, True))
   \<and> te_stop_set clock_env (0, True)"
proof (intro conjI)
  show run: "worker_run 5 clock_env (demo_task [7] False) None (0, False) = Some (None, True, (0, True))"
    by code_simp
  show "te_stop_set clock_env (0, True)"
    using worker_contains_exceptions[OF run] by (simp add: clock_env_def demo_task_def)
qed

text \<open>
  The deferred shutdown thread waits at most sixty seconds however many threads it joins, and not
  less than it must: when it goes on to shut the manager down, every thread that exits within the
  sixty seconds has exited.
\<close>

theorem deferred_shutdown_bounded:
  "start \<le> shutdown_after_join start ends \<and> shutdown_after_join start ends \<le> start + 60
   \<and> (\<forall>e. Some e \<in> set ends \<and> e \<le> start + 60 \<longrightarrow> e \<le> shutdown_after_join start ends)"
  using join_all_bounds[of start "start + 60" ends] join_all_waits[of start "start + 60"]
  by (auto simp: shutdown_after_join_def)

theorem deferred_shutdown_witness:
  "shutdown_after_join 100 [Some 130, None, Some 110] = 160
   \<and> (\<forall>e. Some e \<in> set [Some 130, None, Some 110] \<and> e \<le> 160 \<longrightarrow> e \<le> (160 :: rat))"
proof -
  have v: "shutdown_after_join 100 [Some 130, None, Some 110] = 160" by code_simp
  show ?thesis
    using deferred_shutdown_bounded[of 100 "[Some 130, None, Some 110]"] by (simp add: v)
qed

text \<open>
  C34. The manager of an executor that was created is always released. Every reachable state of the
  executor, under calls in any order and workers that end or fail at any time, satisfies the
  invariant: before the start there is nothing to release, and there are never more workers than
  tasks. From a teardown of a started executor on, in every later state the manager is gone, or the
  deferred shutdown is running and its completion, a step that can be taken from there, releases the
  manager; and no call creates it again.
\<close>

theorem teardown_releases_manager:
  assumes "executor_steps (new_executor tasks) x" "px_started x"
    and "teardown skip stop_tasks stops uploads failure x = (r, y)"
    and "executor_steps y z"
  shows "executor_ok z \<and> manager_released z
         \<and> (px_manager z \<longrightarrow> (\<exists>z'. executor_step z z' \<and> \<not> px_manager z'))
         \<and> (\<not> px_manager z \<longrightarrow> (\<forall>outcome starts. \<not> px_manager (snd (create_periodic_tasks outcome starts z))))"
proof -
  have y: "executor_step x y" using assms(3) by (rule executor_step.tears_down)
  have ok: "executor_ok x"
    by (rule executor_ok_steps[OF assms(1)]) (simp add: executor_ok_def new_executor_def)
  have started: "px_started y"
    using assms(2,3) teardown_state[of skip stop_tasks stops uploads failure x]
      stop_all_keeps(2)[of stops x, OF surjective_pairing]
    by (auto simp: Let_def split: if_splits)
  have "manager_released y"
    using manager_released_teardown[of skip stop_tasks stops uploads failure x] assms(3) by simp
  then have z: "px_started z" "manager_released z"
    using released_steps[OF assms(4) started] by simp_all
  have "executor_ok z"
    by (rule executor_ok_steps[OF assms(4) executor_ok_step[OF y ok]])
  moreover have "\<exists>z'. executor_step z z' \<and> \<not> px_manager z'" if "px_manager z"
    using that z(2) deferred_releases by (simp add: manager_released_def)
  moreover have "snd (create_periodic_tasks outcome starts z) = z" for outcome starts
    using create_keeps(1)[of outcome starts z, OF surjective_pairing] z(1) by simp
  ultimately show ?thesis using z(2) by auto
qed

theorem teardown_releases_witness:
  "px_manager (snd (teardown True True (\<lambda>_. False) (Inr []) None demo_executor))
   \<and> manager_released (snd (teardown True True (\<lambda>_. False) (Inr []) None demo_executor))"
proof -
  let ?y = "snd (teardown True True (\<lambda>_. False) (Inr []) None demo_executor)"
  have "executor_step (new_executor [demo_task [] True]) demo_executor"
    unfolding demo_executor_def
    by (rule executor_step.creates[OF surjective_pairing])
  then have reach: "executor_steps (new_executor [demo_task [] True]) demo_executor"
    using executor_steps.here executor_steps.step by blast
  have started: "px_started demo_executor" by code_simp
  have "manager_released ?y"
    using teardown_releases_manager[OF reach started surjective_pairing executor_steps.here] by simp
  moreover have "px_manager ?y" by code_simp
  ultimately show ?thesis by simp
qed

end
