(* ===== verification/Policy_Generator.thy ===== *)
theory Policy_Generator
  imports Step_Params
begin

text \<open>
  Generation of BGP policy statements (\<open>policy_generator/base.py\<close>, \<open>community_generator.py\<close>,
  \<open>aspath_generator.py\<close>, and \<open>weight_policy_generator.py\<close> of the EBB feature tests) and the file they are written to (\<open>policy_writer.py\<close>). A policy is the
  JSON document the source builds. A generator's constructor runs \<open>PolicyGenerator.__init__\<close>
  before it sets its own attributes, and the model keeps that order. A file is its path and the
  parsed document it holds; that \<open>json.load\<close> gives back what \<open>json.dump\<close> wrote is taken from the
  library, and failures of the operating system other than a missing directory name are left out.
\<close>

section \<open>The common part\<close>

definition flow_accept :: pyval where
  "flow_accept = VDict [(''type'', VInt 5), (''action_type'', VDict [(''flow_action'', VInt 1)])]"

definition match_block :: "pyval list \<Rightarrow> pyval" where
  "match_block entries =
     VDict [(''name'', VStr []), (''description'', VStr []), (''match_logic_type'', VInt 1),
            (''match_entries'', VList entries)]"

text \<open>The dictionary of one entry, as each of the generators writes it out.\<close>

definition entry_with :: "string \<Rightarrow> string \<Rightarrow> pyval list \<Rightarrow> pyval list \<Rightarrow> pyval" where
  "entry_with name description match_entries actions =
     VDict [(''name'', VStr name), (''description'', VStr description),
            (''policy_match_entries'', match_block match_entries), (''policy_action_entries'', VList actions),
            (''term_miss_action'', VInt 3), (''policy_matches'', VList [match_block match_entries]),
            (''policy_actions'', VList actions)]"

definition policy_entry :: "string \<Rightarrow> string \<Rightarrow> pyval list \<Rightarrow> pyval" where
  "policy_entry name description match_entries = entry_with name description match_entries [flow_accept]"

record PolicyGenerator =
  pg_name :: string
  pg_direction :: string
  pg_description :: string

definition accept_all_entry :: "string \<Rightarrow> pyval" where
  "accept_all_entry policy_name =
     policy_entry (''RULE_ACCEPT_ALL_'' @ policy_name)
       (''Accept all remaining prefixes for '' @ policy_name) []"

definition generate :: "PolicyGenerator \<Rightarrow> pyval list \<Rightarrow> pyval" where
  "generate g entries =
     VDict [(''name'', VStr (pg_name g)), (''description'', VStr (pg_description g)),
            (''policy_version'', VStr []),
            (''policy_entries'', VList (entries @ [accept_all_entry (pg_name g)]))]"

text \<open>
  \<open>PolicyGenerator.__init__\<close>: \<open>description or self._default_description()\<close>, where the second
  is the outcome of the subclass's method at that moment.
\<close>

definition init_generator :: "string \<Rightarrow> string \<Rightarrow> string option \<Rightarrow> string result \<Rightarrow> PolicyGenerator result" where
  "init_generator policy_name direction description default_description =
     rbind (case description of Some (c # cs) \<Rightarrow> Inr (c # cs) | _ \<Rightarrow> default_description)
       (\<lambda>d. Inr \<lparr>pg_name = policy_name, pg_direction = direction, pg_description = d\<rparr>)"

definition direction_suffix :: "PolicyGenerator \<Rightarrow> string" where
  "direction_suffix g = (if pg_direction g = ''ingress'' then ''IN'' else ''OUT'')"

section \<open>Communities\<close>

definition replace_char :: "char \<Rightarrow> string \<Rightarrow> string \<Rightarrow> string" where
  "replace_char c by s = concat (map (\<lambda>x. if x = c then by else [x]) s)"

definition community_match :: "string \<Rightarrow> pyval" where
  "community_match community =
     (let name = ''COMM_'' @ replace_char (CHR '':'') ''_'' community;
          member = VDict [(''community'', VDict [(''type'', VInt 1), (''name'', VStr name), (''value'', VStr community)])];
          community_definition = VDict [(''name'', VStr name), (''description'', VStr []),
            (''communities'', VList [VStr community]), (''boolean_operator'', VInt 1), (''members'', VList [member])]
      in VDict [(''type'', VInt 3), (''communities_filter'', community_definition),
                (''community_list'', VDict [(''community_list'', community_definition)]),
                (''match_logic_type'', VInt 0)])"

record CommunityPolicyGenerator =
  cg_base :: PolicyGenerator
  cg_community_start :: int
  cg_count :: int
  cg_step :: int
  cg_custom_communities :: "string list option"

text \<open>
  \<open>_default_description\<close> reads \<open>self.custom_communities\<close>, which the constructor sets only after
  the base class's constructor has returned: at that moment it raises.
\<close>

definition mk_CommunityPolicyGenerator ::
    "string \<Rightarrow> string \<Rightarrow> int \<Rightarrow> int \<Rightarrow> int \<Rightarrow> string option \<Rightarrow> string list option
     \<Rightarrow> CommunityPolicyGenerator result" where
  "mk_CommunityPolicyGenerator policy_name direction community_start n step description custom =
     rbind (init_generator policy_name direction description
              (Inl (Exn AttributeError ''custom_communities'')))
       (\<lambda>base. Inr \<lparr>cg_base = base, cg_community_start = community_start, cg_count = n, cg_step = step,
                    cg_custom_communities = custom\<rparr>)"

fun community_values :: "nat \<Rightarrow> int \<Rightarrow> int \<Rightarrow> string list" where
  "community_values 0 current step = []"
| "community_values (Suc n) current step =
     (show_int current @ '':'' @ show_int current) # community_values n (current + step) step"

definition generate_communities :: "CommunityPolicyGenerator \<Rightarrow> string list" where
  "generate_communities g =
     (case cg_custom_communities g of
        Some (c # cs) \<Rightarrow> c # cs
      | _ \<Rightarrow> community_values (nat (cg_count g)) (cg_community_start g) (cg_step g))"

definition community_entry :: "PolicyGenerator \<Rightarrow> nat \<Rightarrow> string \<Rightarrow> pyval" where
  "community_entry g rule_num community =
     policy_entry (''RULE_COMM_'' @ direction_suffix g @ ''_'' @ show_nat rule_num)
       (direction_suffix g @ '' policy for community '' @ community @ '' (statement '' @ show_nat rule_num @ '')'')
       [community_match community]"

definition community_entries :: "CommunityPolicyGenerator \<Rightarrow> pyval list" where
  "community_entries g =
     map (\<lambda>(i, c). community_entry (cg_base g) i c) (enumerate 1 (generate_communities g))"

definition generate_community_policy :: "CommunityPolicyGenerator \<Rightarrow> pyval" where
  "generate_community_policy g = generate (cg_base g) (community_entries g)"

section \<open>AS paths\<close>

definition aspath_match :: "string \<Rightarrow> pyval" where
  "aspath_match regex =
     (let name = ''AS_PATH_'' @ replace_char (CHR ''$'') [] (replace_char (CHR ''_'') [] (replace_char (CHR ''^'') [] regex))
      in VDict [(''type'', VInt 4),
                (''as_path_filter'', VDict [(''name'', VStr name),
                   (''description'', VStr (''Match AS path: '' @ regex)), (''as_path_regex'', VStr regex)]),
                (''match_logic_type'', VInt 0)])"

record AsPathPolicyGenerator =
  ag_base :: PolicyGenerator
  ag_patterns :: "string list"

definition mk_AsPathPolicyGenerator ::
    "string \<Rightarrow> string \<Rightarrow> string list \<Rightarrow> string option \<Rightarrow> AsPathPolicyGenerator result" where
  "mk_AsPathPolicyGenerator policy_name direction patterns description =
     rbind (init_generator policy_name direction description (Inl (Exn AttributeError ''as_path_patterns'')))
       (\<lambda>base. Inr \<lparr>ag_base = base, ag_patterns = patterns\<rparr>)"

definition aspath_entry :: "PolicyGenerator \<Rightarrow> nat \<Rightarrow> string \<Rightarrow> pyval" where
  "aspath_entry g rule_num pattern =
     policy_entry (''RULE_ASPATH_'' @ direction_suffix g @ ''_'' @ show_nat rule_num)
       (direction_suffix g @ '' policy for AS path '' @ pattern @ '' (statement '' @ show_nat rule_num @ '')'')
       [aspath_match pattern]"

definition generate_aspath_policy :: "AsPathPolicyGenerator \<Rightarrow> pyval" where
  "generate_aspath_policy g =
     generate (ag_base g) (map (\<lambda>(i, p). aspath_entry (ag_base g) i p) (enumerate 1 (ag_patterns g)))"

section \<open>Weights\<close>

definition weight_action :: "int \<Rightarrow> pyval" where
  "weight_action weight =
     VDict [(''type'', VInt 15),
            (''weight_action'', VDict [(''weight_value'', VInt weight), (''weight_action_type'', VInt 1)])]"

record WeightPolicyGenerator =
  wg_base :: PolicyGenerator
  wg_community_weight_map :: "(string, int) dict"

text \<open>\<open>_default_description\<close> of this generator reads only the direction, which is set by then.\<close>

definition upper_char :: "char \<Rightarrow> char" where
  "upper_char c = (let n = (of_char c :: nat) in if 97 \<le> n \<and> n \<le> 122 then char_of (n - 32) else c)"

fun capitalize :: "string \<Rightarrow> string" where
  "capitalize [] = []"
| "capitalize (c # cs) = upper_char c # Taac_Prelude.lower cs"

definition mk_WeightPolicyGenerator ::
    "string \<Rightarrow> string \<Rightarrow> (string, int) dict \<Rightarrow> string option \<Rightarrow> WeightPolicyGenerator result" where
  "mk_WeightPolicyGenerator policy_name direction weights description =
     rbind (init_generator policy_name direction description
              (Inr (capitalize direction @ '' policy that sets weight based on community matching'')))
       (\<lambda>base. Inr \<lparr>wg_base = base, wg_community_weight_map = weights\<rparr>)"

definition weight_entry :: "PolicyGenerator \<Rightarrow> nat \<Rightarrow> string \<Rightarrow> int \<Rightarrow> pyval" where
  "weight_entry g rule_num community weight =
     entry_with (''RULE_WEIGHT_'' @ show_int weight @ ''_'' @ direction_suffix g @ ''_'' @ show_nat rule_num)
       (''Match community '' @ community @ '' and set weight '' @ show_int weight)
       [community_match community] [weight_action weight, flow_accept]"

definition weight_entries :: "WeightPolicyGenerator \<Rightarrow> pyval list" where
  "weight_entries g =
     map (\<lambda>(i, community, weight). weight_entry (wg_base g) i community weight)
       (enumerate 1 (wg_community_weight_map g))"

definition generate_weight_policy_json :: "string \<Rightarrow> (string, int) dict \<Rightarrow> pyval result" where
  "generate_weight_policy_json policy_name weights =
     rbind (mk_WeightPolicyGenerator policy_name ''ingress'' weights None) (\<lambda>g.
       Inr (VDict [(''bgp_policy_statements'', VList [generate (wg_base g) (weight_entries g)])]))"

section \<open>The policy file\<close>

type_synonym files = "(string, pyval) dict"

definition dirname :: "string \<Rightarrow> string" where
  "dirname path =
     (let head = rev (dropWhile (\<lambda>c. c \<noteq> CHR ''/'') (rev path))
      in if head \<noteq> [] \<and> set head \<noteq> {CHR ''/''}
         then rev (dropWhile (\<lambda>c. c = CHR ''/'') (rev head)) else head)"

definition write_policies :: "string \<Rightarrow> pyval list \<Rightarrow> files \<Rightarrow> unit result \<times> files" where
  "write_policies path policies fs =
     (if dirname path = [] then (Inl (Exn (UserExn ''FileNotFoundError'' OSError) []), fs)
      else (Inr (), dict_set path (VDict [(''bgp_policy_statements'', VList policies)]) fs))"

definition write_single :: "string \<Rightarrow> pyval \<Rightarrow> files \<Rightarrow> unit result \<times> files" where
  "write_single path policy = write_policies path [policy]"

text \<open>\<open>data.get(\<dots>)\<close> needs a dictionary and \<open>append\<close> a list.\<close>

definition existing_policies :: "pyval \<Rightarrow> pyval list result" where
  "existing_policies data =
     (case data of
        VDict d \<Rightarrow>
          (case dict_get_or d ''bgp_policy_statements'' (VList []) of
             VList ps \<Rightarrow> Inr ps
           | _ \<Rightarrow> Inl (Exn AttributeError ''append''))
      | _ \<Rightarrow> Inl (Exn AttributeError ''get''))"

definition append_to_existing :: "string \<Rightarrow> pyval \<Rightarrow> files \<Rightarrow> unit result \<times> files" where
  "append_to_existing path policy fs =
     (case (case dict_get fs path of None \<Rightarrow> Inr [] | Some data \<Rightarrow> existing_policies data) of
        Inl e \<Rightarrow> (Inl e, fs)
      | Inr ps \<Rightarrow> write_policies path (ps @ [policy]) fs)"

section \<open>What the properties speak about\<close>

text \<open>A policy file seen as a map from paths to the policies they hold.\<close>

definition policies_at :: "files \<Rightarrow> string \<Rightarrow> pyval list option" where
  "policies_at fs path =
     (case dict_get fs path of
        None \<Rightarrow> Some []
      | Some data \<Rightarrow> (case existing_policies data of Inr ps \<Rightarrow> Some ps | Inl _ \<Rightarrow> None))"

fun entries_of :: "pyval \<Rightarrow> pyval list" where
  "entries_of (VDict d) = (case dict_get d ''policy_entries'' of Some (VList es) \<Rightarrow> es | _ \<Rightarrow> [])"
| "entries_of _ = []"

section \<open>Lemmas\<close>

lemma community_values_nth:
  "i < n \<Longrightarrow> community_values n a step ! i
     = show_int (a + int i * step) @ '':'' @ show_int (a + int i * step)"
proof (induction n arbitrary: i a)
  case (Suc n)
  then show ?case by (cases i) (simp_all add: algebra_simps)
qed simp

lemma length_community_values [simp]: "length (community_values n a step) = n"
  by (induction n arbitrary: a) simp_all

lemma write_refines:
  "write_policies path ps fs = (Inr (), fs') \<Longrightarrow> policies_at fs' = (policies_at fs)(path := Some ps)"
  by (auto simp: write_policies_def policies_at_def existing_policies_def dict_get_or_def fun_eq_iff
      split: if_splits)

lemma append_refines:
  assumes "append_to_existing path p fs = (Inr (), fs')"
  shows "\<exists>ps. policies_at fs path = Some ps \<and> policies_at fs' = (policies_at fs)(path := Some (ps @ [p]))"
proof -
  obtain ps where ps: "(case dict_get fs path of None \<Rightarrow> Inr [] | Some data \<Rightarrow> existing_policies data) = Inr ps"
    and w: "write_policies path (ps @ [p]) fs = (Inr (), fs')"
    using assms by (auto simp: append_to_existing_def split: sum.splits)
  have "policies_at fs path = Some ps" using ps by (auto simp: policies_at_def split: option.splits)
  with write_refines [OF w] show ?thesis by blast
qed

lemma append_total:
  "(\<exists>fs'. append_to_existing path p fs = (Inr (), fs')) \<longleftrightarrow> dirname path \<noteq> [] \<and> policies_at fs path \<noteq> None"
  by (auto simp: append_to_existing_def write_policies_def policies_at_def split: option.splits sum.splits)

section \<open>Properties\<close>

text \<open>
  A community policy matches exactly the requested communities and then accepts everything: with a
  range, the policy has \<open>count + 1\<close> entries, the \<open>i\<close>-th matches the community whose both halves
  are \<open>community_start + i * step\<close>, and the last one is the accept-all entry, with no match.
\<close>

theorem community_policy_exact:
  assumes "mk_CommunityPolicyGenerator name direction first n step description None = Inr g"
  shows "length (entries_of (generate_community_policy g)) = nat n + 1
     \<and> last (entries_of (generate_community_policy g)) = accept_all_entry name
     \<and> (\<forall>i < nat n. \<exists>rule text. entries_of (generate_community_policy g) ! i =
          policy_entry rule text
            [community_match (show_int (first + int i * step) @ '':'' @ show_int (first + int i * step))])"
proof -
  obtain base where g: "g = \<lparr>cg_base = base, cg_community_start = first, cg_count = n, cg_step = step,
      cg_custom_communities = None\<rparr>" and name: "pg_name base = name"
    using assms by (auto simp: mk_CommunityPolicyGenerator_def init_generator_def rbind_eq_Inr)
  have gen: "generate_communities g = community_values (nat n) first step"
    by (simp add: generate_communities_def g)
  have es: "entries_of (generate_community_policy g) = community_entries g @ [accept_all_entry name]"
    by (simp add: generate_community_policy_def generate_def g name)
  have len: "length (community_entries g) = nat n" by (simp add: community_entries_def gen)
  have "community_entries g ! i = community_entry base (Suc i)
      (show_int (first + int i * step) @ '':'' @ show_int (first + int i * step))" if "i < nat n" for i
    using that by (simp add: community_entries_def gen [unfolded g] nth_enumerate_eq community_values_nth g)
  with es len show ?thesis by (auto simp: nth_append community_entry_def)
qed

theorem community_policy_witness:
  "\<exists>g. mk_CommunityPolicyGenerator ''P'' ''ingress'' 5000 2 10 (Some ''d'') None = Inr g
     \<and> length (entries_of (generate_community_policy g)) = 3"
proof -
  obtain g where g: "mk_CommunityPolicyGenerator ''P'' ''ingress'' 5000 2 10 (Some ''d'') None = Inr g"
    by (simp add: mk_CommunityPolicyGenerator_def init_generator_def)
  from community_policy_exact [OF g] g show ?thesis by auto
qed

text \<open>
  The weight policy is always generated, its default description included, and is exact: one
  statement, whose entries are one per community in the order of the map, each matching that
  community alone, setting its weight and then accepting, followed by the accept-all entry.
\<close>

theorem weight_policy_exact:
  "\<exists>policy. generate_weight_policy_json name weights = Inr (VDict [(''bgp_policy_statements'', VList [policy])])
     \<and> length (entries_of policy) = length weights + 1
     \<and> last (entries_of policy) = accept_all_entry name
     \<and> (\<forall>i < length weights. entries_of policy ! i =
          entry_with (''RULE_WEIGHT_'' @ show_int (snd (weights ! i)) @ ''_IN_'' @ show_nat (Suc i))
            (''Match community '' @ fst (weights ! i) @ '' and set weight '' @ show_int (snd (weights ! i)))
            [community_match (fst (weights ! i))] [weight_action (snd (weights ! i)), flow_accept])"
  by (auto simp: generate_weight_policy_json_def mk_WeightPolicyGenerator_def init_generator_def
      generate_def weight_entries_def weight_entry_def direction_suffix_def nth_append nth_enumerate_eq
      case_prod_unfold)

theorem weight_policy_witness:
  "\<exists>policy. generate_weight_policy_json ''W'' [(''65001:10'', 10), (''65001:20'', 20)]
        = Inr (VDict [(''bgp_policy_statements'', VList [policy])])
     \<and> length (entries_of policy) = 3 \<and> last (entries_of policy) = accept_all_entry ''W''"
  using weight_policy_exact[of "''W''" "[(''65001:10'', 10), (''65001:20'', 20)]"] by auto

text \<open>
  Neither the community nor the AS-path generator can be built without a description, although it is documented as optional: for
  a missing or empty one the constructor raises \<open>AttributeError\<close>, whatever the other arguments.
\<close>

theorem default_description_raises:
  "(\<exists>m. mk_CommunityPolicyGenerator name direction first n step None custom = Inl (Exn AttributeError m))
   \<and> (\<exists>m. mk_CommunityPolicyGenerator name direction first n step (Some []) custom = Inl (Exn AttributeError m))
   \<and> (\<exists>m. mk_AsPathPolicyGenerator name direction patterns None = Inl (Exn AttributeError m))"
  by (simp add: mk_CommunityPolicyGenerator_def mk_AsPathPolicyGenerator_def init_generator_def)

text \<open>
  The policy writer refines an append-only list per file. Seen as a map from paths to policies,
  an append that succeeds adds the policy at the end of its file's list and touches no other file,
  one that raises changes nothing, and it succeeds exactly when the path has a directory part and
  the file is absent or well-formed: a bare file name always raises.
\<close>

theorem writer_refines_list:
  "(\<forall>fs'. append_to_existing path p fs = (Inr (), fs') \<longrightarrow>
      (\<exists>ps. policies_at fs path = Some ps \<and> policies_at fs' = (policies_at fs)(path := Some (ps @ [p]))))
   \<and> (\<forall>e fs'. append_to_existing path p fs = (Inl e, fs') \<longrightarrow> fs' = fs)
   \<and> ((\<exists>fs'. append_to_existing path p fs = (Inr (), fs')) \<longleftrightarrow> dirname path \<noteq> [] \<and> policies_at fs path \<noteq> None)"
proof (intro conjI allI impI)
  fix fs' assume "append_to_existing path p fs = (Inr (), fs')"
  then show "\<exists>ps. policies_at fs path = Some ps \<and> policies_at fs' = (policies_at fs)(path := Some (ps @ [p]))"
    by (rule append_refines)
next
  fix e fs' assume "append_to_existing path p fs = (Inl e, fs')"
  then show "fs' = fs" by (auto simp: append_to_existing_def write_policies_def split: sum.splits if_splits)
qed (rule append_total)

theorem writer_refines_witness:
  "\<exists>fs'. append_to_existing ''/a/p.json'' (VInt 1) [] = (Inr (), fs')
     \<and> policies_at fs' = (policies_at [])(''/a/p.json'' := Some [VInt 1])"
proof -
  have "dirname ''/a/p.json'' = ''/a''" by code_simp
  then obtain fs' where fs': "append_to_existing ''/a/p.json'' (VInt 1) [] = (Inr (), fs')"
    using writer_refines_list [of "''/a/p.json''" "VInt 1" "[]"] by (auto simp: policies_at_def)
  moreover have "policies_at [] ''/a/p.json'' = Some []" by (simp add: policies_at_def)
  ultimately show ?thesis using writer_refines_list [of "''/a/p.json''" "VInt 1" "[]"] by force
qed

end
