(* ===== verification/Sweep_Utils.thy ===== *)
theory Sweep_Utils
  imports Step_Params Ipaddr
begin

text \<open>
  Naming and formats of CPU and RSS characterization (\<open>utils/characterization.py\<close>) and the timing
  of flaps (\<open>utils/flap_timing_utils.py\<close>). Text is ASCII. The calls to the traffic generator are
  the values of a datatype, in the order they are made; the random source is an argument.
\<close>

section \<open>Characterization\<close>

record CharacterizationConfig =
  enable_cpu :: bool
  enable_rss :: bool
  cpu_interval_seconds :: rat
  cpu_on_device :: bool
  cpu_on_device_compare :: bool
  rss_on_device :: bool
  keep_ondevice_log :: bool
  rss_interval_seconds :: rat
  rss_baseline_settle_max_seconds :: rat

definition OBSERVE_ONLY :: CharacterizationConfig where
  "OBSERVE_ONLY = \<lparr>enable_cpu = True, enable_rss = True, cpu_interval_seconds = 2, cpu_on_device = False,
     cpu_on_device_compare = False, rss_on_device = False, keep_ondevice_log = False, rss_interval_seconds = 2,
     rss_baseline_settle_max_seconds = 90\<rparr>"

definition OBSERVE_ONLY_ON_DEVICE :: CharacterizationConfig where
  "OBSERVE_ONLY_ON_DEVICE = OBSERVE_ONLY\<lparr>cpu_on_device := True, rss_on_device := True\<rparr>"

definition OBSERVE_ONLY_ON_DEVICE_COMPARE :: CharacterizationConfig where
  "OBSERVE_ONLY_ON_DEVICE_COMPARE = OBSERVE_ONLY_ON_DEVICE\<lparr>cpu_on_device_compare := True\<rparr>"

definition DISABLED :: CharacterizationConfig where
  "DISABLED = OBSERVE_ONLY\<lparr>enable_cpu := False, enable_rss := False\<rparr>"

definition summary_jq_var_by_kind :: "(string, string) dict" where
  "summary_jq_var_by_kind =
     [(''cpu_percentile'', ''cpu_percentile_summary''), (''rss_delta'', ''rss_delta_summary'')]"

definition is_alnum :: "char \<Rightarrow> bool" where
  "is_alnum ch \<longleftrightarrow>
     (let n = (of_char ch :: nat) in 48 \<le> n \<and> n \<le> 57 \<or> 65 \<le> n \<and> n \<le> 90 \<or> 97 \<le> n \<and> n \<le> 122)"

definition jq_safe :: "string \<Rightarrow> bool" where
  "jq_safe label \<longleftrightarrow>
     (let rest = filter (\<lambda>ch. ch \<noteq> CHR ''_'') label in label \<noteq> [] \<and> rest \<noteq> [] \<and> list_all is_alnum rest)"

definition characterization_summary_jq_var :: "string \<Rightarrow> string \<Rightarrow> string result" where
  "characterization_summary_jq_var kind label =
     (case dict_get summary_jq_var_by_kind kind of
        None \<Rightarrow> Inl (value_error ''Unknown characterization kind'')
      | Some base \<Rightarrow>
          if \<not> jq_safe label then Inl (value_error ''Characterization span is not jq-safe'')
          else Inr (base @ ''_'' @ label))"

definition characterization_session_key :: "string \<Rightarrow> string \<Rightarrow> string \<Rightarrow> string \<Rightarrow> string" where
  "characterization_session_key kind playbook phase device_name =
     join ''|'' [kind, playbook, phase, device_name]"

record session_key_parts =
  si_kind :: string
  si_playbook :: string
  si_phase :: string
  si_device_name :: string

definition parse_session_key :: "string \<Rightarrow> session_key_parts option" where
  "parse_session_key key =
     (case split_on (CHR ''|'') key of
        [kind, playbook, phase, device_name] \<Rightarrow>
          if kind \<noteq> [] \<and> playbook \<noteq> [] \<and> phase \<noteq> [] \<and> device_name \<noteq> []
          then Some \<lparr>si_kind = kind, si_playbook = playbook, si_phase = phase, si_device_name = device_name\<rparr>
          else None
      | _ \<Rightarrow> None)"

definition summary_field :: "text_conv \<Rightarrow> string \<times> pyval \<Rightarrow> string" where
  "summary_field c kv =
     fst kv @ ''='' @ (case snd kv of VFloat x \<Rightarrow> fmt_fixed 2 x | v \<Rightarrow> py_str c v)"

definition format_characterization_summary :: "text_conv \<Rightarrow> string \<Rightarrow> string \<Rightarrow> params \<Rightarrow> string" where
  "format_characterization_summary c kind session_key measured =
     join '' '' ([''TAAC_CHAR'', ''kind='' @ kind]
       @ (case parse_session_key session_key of
            None \<Rightarrow> [''session='' @ session_key]
          | Some i \<Rightarrow> [''playbook='' @ si_playbook i, ''phase='' @ si_phase i, ''host='' @ si_device_name i])
       @ map (summary_field c) measured)"

section \<open>Flap timing\<close>

text \<open>\<open>random.randint\<close> raises on an empty range; \<open>pick\<close> chooses within a non-empty one.\<close>

definition randint :: "(int \<Rightarrow> int \<Rightarrow> int) \<Rightarrow> int \<Rightarrow> int \<Rightarrow> int result" where
  "randint pick a b = (if a > b then Inl (value_error ''empty range for randrange()'') else Inr (pick a b))"

definition pick_flap_timing ::
    "(int \<Rightarrow> int \<Rightarrow> int) \<Rightarrow> (int \<Rightarrow> int \<Rightarrow> int) \<Rightarrow> int \<Rightarrow> int \<Rightarrow> int \<Rightarrow> int \<Rightarrow> (int \<times> int) result" where
  "pick_flap_timing pick1 pick2 uptime_min uptime_max downtime_min downtime_max =
     rbind (randint pick1 uptime_min uptime_max) (\<lambda>up.
     rbind (randint pick2 downtime_min downtime_max) (\<lambda>down. Inr (up, down)))"

datatype ixia_call =
    ActivateDeactivateBgpPrefix bool string
  | TogglePrefixFlapping bool string int int
  | ConfigureBgpPeersFlap bool string int int

definition apply_flap_timing ::
    "string \<Rightarrow> int \<Rightarrow> int \<Rightarrow> bool \<Rightarrow> string option \<Rightarrow> bool \<Rightarrow> string option \<Rightarrow> ixia_call list" where
  "apply_flap_timing churn_mode uptime downtime enable_prefix prefix_regex enable_session session_regex =
     (case prefix_regex of
        Some regex \<Rightarrow>
          if contains ''prefix'' churn_mode
          then [if contains ''activate_deactivate'' churn_mode
                then ActivateDeactivateBgpPrefix enable_prefix regex
                else TogglePrefixFlapping enable_prefix regex uptime downtime]
          else []
      | None \<Rightarrow> [])
     @ (case session_regex of
          Some regex \<Rightarrow>
            if contains ''session'' churn_mode
            then [ConfigureBgpPeersFlap enable_session regex uptime downtime] else []
        | None \<Rightarrow> [])"

section \<open>Lemmas\<close>

lemma parse_session_key_length: "parse_session_key key = Some i \<Longrightarrow> length (split_on (CHR ''|'') key) = 4"
  by (auto simp: parse_session_key_def split: list.splits if_splits)

section \<open>Properties\<close>

text \<open>
  Session keys round-trip exactly: the key built for a measurement, playbook, phase and device
  parses, and then to these four parts, if and only if none of them is empty or contains the
  separator. In particular, two brackets with well-formed identities never share a key.
\<close>

theorem session_key_round_trip:
  "parse_session_key (characterization_session_key kind playbook phase device) = Some i \<longleftrightarrow>
     i = \<lparr>si_kind = kind, si_playbook = playbook, si_phase = phase, si_device_name = device\<rparr>
     \<and> list_all (\<lambda>part. part \<noteq> [] \<and> CHR ''|'' \<notin> set part) [kind, playbook, phase, device]"
    (is "?L \<longleftrightarrow> ?R")
proof
  assume L: ?L
  have "length (filter (\<lambda>x. x = CHR ''|'') (characterization_session_key kind playbook phase device)) = 3"
    using parse_session_key_length [OF L] by (simp add: length_split_on)
  then have "list_all (\<lambda>part. CHR ''|'' \<notin> set part) [kind, playbook, phase, device]"
    by (simp add: characterization_session_key_def no_separator [symmetric])
  with L show ?R
    by (auto simp: parse_session_key_def characterization_session_key_def split_on_append split_on_none
        split: if_splits)
next
  assume ?R
  then show ?L
    by (simp add: parse_session_key_def characterization_session_key_def split_on_append split_on_none)
qed

text \<open>
  The variable a bracket writes and its postcheck reads is unambiguous: two brackets share it only
  if they have the same kind and the same span, and the name holds letters, digits and underscores
  only.
\<close>

theorem jq_var_injective:
  assumes "characterization_summary_jq_var k s = Inr v" "characterization_summary_jq_var k' s' = Inr v"
  shows "k = k' \<and> s = s' \<and> list_all (\<lambda>ch. is_alnum ch \<or> ch = CHR ''_'') v"
proof -
  have shape: "(k = ''cpu_percentile'' \<and> v = ''cpu_percentile_summary_'' @ s
        \<or> k = ''rss_delta'' \<and> v = ''rss_delta_summary_'' @ s) \<and> jq_safe s"
    if "characterization_summary_jq_var k s = Inr v" for k s
    using that
    by (auto simp: characterization_summary_jq_var_def summary_jq_var_by_kind_def split: option.splits if_splits)
  have "list_all (\<lambda>ch. is_alnum ch \<or> ch = CHR ''_'') s"
    using shape [OF assms(1)] by (auto simp: jq_safe_def list_all_iff Let_def)
  moreover have "list_all (\<lambda>ch. is_alnum ch \<or> ch = CHR ''_'') ''cpu_percentile_summary_''"
      "list_all (\<lambda>ch. is_alnum ch \<or> ch = CHR ''_'') ''rss_delta_summary_''"
    by code_simp+
  ultimately show ?thesis using shape [OF assms(1)] shape [OF assms(2)] by auto
qed

theorem jq_var_witness:
  "characterization_summary_jq_var ''rss_delta'' ''soak'' = Inr ''rss_delta_summary_soak''
   \<and> list_all (\<lambda>ch. is_alnum ch \<or> ch = CHR ''_'') ''rss_delta_summary_soak''"
proof -
  have "characterization_summary_jq_var ''rss_delta'' ''soak'' = Inr ''rss_delta_summary_soak''" by code_simp
  with jq_var_injective [OF this this] show ?thesis by blast
qed

end
