(* ===== verification/Baseline_Lifecycle.thy ===== *)
theory Baseline_Lifecycle
  imports Taac_Prelude
begin

text \<open>
  Nested restoration boundaries (\<open>libs/baseline_lifecycle.py\<close>): a topology baseline and, inside
  it, a playbook baseline, each a frame of captured participants that is restored, verified and
  released in reverse order.

  Participants are a protocol of the source: here a record of operations over a world \<open>'w\<close>.
  A snapshot is a mutable object the participant owns, so its operations return it updated. What
  an operation does under \<open>asyncio.timeout(seconds)\<close> is given by whether the deadline
  expired, the outcome that leaves the \<open>async with\<close> block, and the world after it; nothing is
  assumed of them. Notes added to exceptions are not modelled, and the text of
  \<open>BaselineOperationTimeoutError\<close> leaves out the printed number of seconds.
\<close>

section \<open>Data\<close>

datatype BaselineScope = TOPOLOGY | PLAYBOOK

fun scope_value :: "BaselineScope \<Rightarrow> string" where
  "scope_value TOPOLOGY = ''topology''"
| "scope_value PLAYBOOK = ''playbook''"

record BaselineContext =
  test_config_name :: string
  invocation_id :: string
  playbook_name :: "string option"

type_synonym ('a, 'w) timed = "rat \<Rightarrow> 'w \<Rightarrow> bool \<times> 'a \<times> 'w"

record ('s, 'w) BaselineParticipant =
  p_name :: string
  p_capture :: "BaselineContext \<Rightarrow> ('s result, 'w) timed"
  p_restore :: "BaselineContext \<Rightarrow> 's \<Rightarrow> (unit result \<times> 's, 'w) timed"
  p_verify :: "BaselineContext \<Rightarrow> 's \<Rightarrow> (unit result \<times> 's, 'w) timed"
  p_release :: "BaselineContext \<Rightarrow> 's \<Rightarrow> (unit result \<times> 's, 'w) timed"

record BaselineTimeouts =
  capture_seconds :: rat
  restore_seconds :: rat
  verify_seconds :: rat
  release_seconds :: rat

definition mk_BaselineTimeouts :: "rat \<Rightarrow> rat \<Rightarrow> rat \<Rightarrow> rat \<Rightarrow> BaselineTimeouts result" where
  "mk_BaselineTimeouts c r v l =
     (if c \<le> 0 then Inl (value_error ''capture_seconds must be positive'')
      else if r \<le> 0 then Inl (value_error ''restore_seconds must be positive'')
      else if v \<le> 0 then Inl (value_error ''verify_seconds must be positive'')
      else if l \<le> 0 then Inl (value_error ''release_seconds must be positive'')
      else Inr \<lparr>capture_seconds = c, restore_seconds = r, verify_seconds = v, release_seconds = l\<rparr>)"

record BaselineEvent =
  ev_scope :: BaselineScope
  ev_participant :: string
  ev_operation :: string
  ev_status :: string
  ev_error :: "string option"

type_synonym ('s, 'w) Capture = "('s, 'w) BaselineParticipant \<times> 's"

record ('s, 'w) Frame =
  fr_scope :: BaselineScope
  fr_context :: BaselineContext
  fr_captures :: "('s, 'w) Capture list"

record ('s, 'w) BaselineLifecycle =
  bl_timeouts :: BaselineTimeouts
  bl_frames :: "('s, 'w) Frame list"
  bl_events :: "BaselineEvent list"
  bl_failures :: "py_exn list"

definition new_lifecycle :: "BaselineTimeouts \<Rightarrow> ('s, 'w) BaselineLifecycle" where
  "new_lifecycle tm = \<lparr>bl_timeouts = tm, bl_frames = [], bl_events = [], bl_failures = []\<rparr>"

definition active_scopes :: "('s, 'w) BaselineLifecycle \<Rightarrow> BaselineScope list" where
  "active_scopes L = map fr_scope (bl_frames L)"

definition is_healthy :: "('s, 'w) BaselineLifecycle \<Rightarrow> bool" where
  "is_healthy L \<longleftrightarrow> bl_failures L = []"

section \<open>One timed operation\<close>

definition log_event ::
    "BaselineScope \<Rightarrow> string \<Rightarrow> string \<Rightarrow> string \<Rightarrow> string option
     \<Rightarrow> ('s, 'w) BaselineLifecycle \<Rightarrow> ('s, 'w) BaselineLifecycle" where
  "log_event scope name op status err L =
     L\<lparr>bl_events := bl_events L @
        [\<lparr>ev_scope = scope, ev_participant = name, ev_operation = op, ev_status = status,
          ev_error = err\<rparr>]\<rparr>"

definition timeout_message :: "BaselineScope \<Rightarrow> string \<Rightarrow> string \<Rightarrow> string" where
  "timeout_message scope name op =
     scope_value scope @ '' baseline '' @ op @ '' for '' @ name @ '' exceeded the deadline''"

text \<open>\<open>_run\<close>: the error that is raised, given what left the \<open>async with\<close> block.\<close>

definition run_error :: "BaselineScope \<Rightarrow> string \<Rightarrow> string \<Rightarrow> bool \<Rightarrow> py_exn \<Rightarrow> py_exn" where
  "run_error scope name op expired e =
     (if isinstance e TimeoutError \<and> expired
      then Exn BaselineOperationTimeoutError (timeout_message scope name op) else e)"

definition run_op ::
    "BaselineScope \<Rightarrow> string \<Rightarrow> string \<Rightarrow> rat \<Rightarrow> ('a result \<times> 'b, 'w) timed
     \<Rightarrow> ('s, 'w) BaselineLifecycle \<Rightarrow> 'w \<Rightarrow> 'a result \<times> 'b \<times> ('s, 'w) BaselineLifecycle \<times> 'w" where
  "run_op scope name op seconds awaitable L w =
     (let L1 = log_event scope name op ''started'' None L;
          (expired, (out, s), w') = awaitable seconds w
      in case out of
           Inr a \<Rightarrow> (Inr a, s, log_event scope name op ''completed'' None L1, w')
         | Inl e \<Rightarrow>
             (let e' = run_error scope name op expired e
              in (Inl e', s,
                  log_event scope name op ''failed''
                    (Some (exn_name (exn_class_of e') @ '': '' @ exn_str e')) L1, w')))"

section \<open>Restoring captures\<close>

text \<open>The \<open>try\<close> body for one capture: restore, then verify.\<close>

definition restore_and_verify ::
    "BaselineScope \<Rightarrow> BaselineContext \<Rightarrow> string \<Rightarrow> ('s, 'w) Capture
     \<Rightarrow> ('s, 'w) BaselineLifecycle \<Rightarrow> 'w \<Rightarrow> unit result \<times> 's \<times> ('s, 'w) BaselineLifecycle \<times> 'w" where
  "restore_and_verify scope ctx prefix c L w =
     (let (p, s) = c; tm = bl_timeouts L
      in case run_op scope (p_name p) prefix (restore_seconds tm) (p_restore p ctx s) L w of
           (Inl e, s1, L1, w1) \<Rightarrow> (Inl e, s1, L1, w1)
         | (Inr _, s1, L1, w1) \<Rightarrow>
             run_op scope (p_name p) (prefix @ ''_verify'') (verify_seconds tm) (p_verify p ctx s1) L1 w1)"

text \<open>
  One round of \<open>_restore_captures\<close>: the body, the \<open>finally\<close> that releases, and the
  bookkeeping of errors. A body exception that is not an \<open>Exception\<close> is pending while the
  release runs and then leaves the loop, unless the release raises one itself.
\<close>

definition restore_one ::
    "BaselineScope \<Rightarrow> BaselineContext \<Rightarrow> string \<Rightarrow> ('s, 'w) Capture \<Rightarrow> py_exn list
     \<Rightarrow> ('s, 'w) BaselineLifecycle \<Rightarrow> 'w \<Rightarrow> py_exn list result \<times> ('s, 'w) BaselineLifecycle \<times> 'w" where
  "restore_one scope ctx prefix c errors L w =
     (let p = fst c;
          (body, s1, L1, w1) = restore_and_verify scope ctx prefix c L w;
          pending = (case body of
                       Inl e \<Rightarrow> if isinstance e CancelledError then Some e
                                else if isinstance e Exception then None else Some e
                     | Inr _ \<Rightarrow> None);
          errors1 = (case body of
                       Inl e \<Rightarrow> if \<not> isinstance e CancelledError \<and> isinstance e Exception
                                then errors @ [e] else errors
                     | Inr _ \<Rightarrow> errors);
          (rel, _, L2, w2) = run_op scope (p_name p) (prefix @ ''_release'')
             (release_seconds (bl_timeouts L)) (p_release p ctx s1) L1 w1
      in case rel of
           Inl e \<Rightarrow>
             if isinstance e CancelledError then (Inl e, L2, w2)
             else if isinstance e Exception
             then (case pending of
                     Some b \<Rightarrow> (Inl b, L2, w2)
                   | None \<Rightarrow> (Inr (errors1 @ [e]), L2, w2))
             else (Inl e, L2, w2)
         | Inr _ \<Rightarrow>
             (case pending of
                Some b \<Rightarrow> (Inl b, L2, w2)
              | None \<Rightarrow> (Inr errors1, L2, w2)))"

fun restore_each ::
    "BaselineScope \<Rightarrow> BaselineContext \<Rightarrow> string \<Rightarrow> ('s, 'w) Capture list \<Rightarrow> py_exn list
     \<Rightarrow> ('s, 'w) BaselineLifecycle \<Rightarrow> 'w \<Rightarrow> py_exn list result \<times> ('s, 'w) BaselineLifecycle \<times> 'w" where
  "restore_each scope ctx prefix [] errors L w = (Inr errors, L, w)"
| "restore_each scope ctx prefix (c # cs) errors L w =
     (case restore_one scope ctx prefix c errors L w of
        (Inl e, L', w') \<Rightarrow> (Inl e, L', w')
      | (Inr errors', L', w') \<Rightarrow> restore_each scope ctx prefix cs errors' L' w')"

definition restore_captures ::
    "BaselineScope \<Rightarrow> BaselineContext \<Rightarrow> ('s, 'w) Capture list \<Rightarrow> string
     \<Rightarrow> ('s, 'w) BaselineLifecycle \<Rightarrow> 'w \<Rightarrow> py_exn list result \<times> ('s, 'w) BaselineLifecycle \<times> 'w" where
  "restore_captures scope ctx captures prefix L w =
     restore_each scope ctx prefix (rev captures) [] L w"

definition add_failures ::
    "py_exn list \<Rightarrow> ('s, 'w) BaselineLifecycle \<Rightarrow> ('s, 'w) BaselineLifecycle" where
  "add_failures es L = L\<lparr>bl_failures := bl_failures L @ es\<rparr>"

section \<open>Capturing\<close>

definition validate_capture ::
    "BaselineScope \<Rightarrow> BaselineContext \<Rightarrow> ('s, 'w) BaselineLifecycle \<Rightarrow> unit result" where
  "validate_capture scope ctx L =
     (if \<not> is_healthy L then Inl (runtime_error ''baseline lifecycle is unsafe after a restoration failure'')
      else if test_config_name ctx = [] then Inl (value_error ''baseline context requires a TestConfig name'')
      else if invocation_id ctx = [] then Inl (value_error ''baseline context requires an invocation ID'')
      else case scope of
        TOPOLOGY \<Rightarrow>
          if bl_frames L \<noteq> [] then Inl (runtime_error ''topology baseline must be the root scope'')
          else if playbook_name ctx \<noteq> None
          then Inl (value_error ''topology baseline cannot be owned by a Playbook'')
          else Inr ()
      | PLAYBOOK \<Rightarrow>
          if playbook_name ctx = None then Inl (value_error ''playbook baseline requires a Playbook name'')
          else if bl_frames L = [] \<or> fr_scope (last (bl_frames L)) \<noteq> TOPOLOGY
          then Inl (runtime_error ''playbook baseline requires an active topology baseline'')
          else if test_config_name ctx \<noteq> test_config_name (fr_context (last (bl_frames L)))
               \<or> invocation_id ctx \<noteq> invocation_id (fr_context (last (bl_frames L)))
          then Inl (runtime_error ''playbook baseline must belong to its active topology baseline'')
          else Inr ())"

definition validate_participants :: "('s, 'w) BaselineParticipant list \<Rightarrow> unit result" where
  "validate_participants ps =
     (if [] \<in> set (map p_name ps) then Inl (value_error ''baseline participant names must be nonempty'')
      else if \<not> distinct (map p_name ps) then Inl (value_error ''duplicate baseline participant names'')
      else Inr ())"

text \<open>The capture loop; it returns the captures made so far also when a participant raises.\<close>

fun capture_each ::
    "BaselineScope \<Rightarrow> BaselineContext \<Rightarrow> ('s, 'w) BaselineParticipant list \<Rightarrow> ('s, 'w) Capture list
     \<Rightarrow> ('s, 'w) BaselineLifecycle \<Rightarrow> 'w
     \<Rightarrow> py_exn option \<times> ('s, 'w) Capture list \<times> ('s, 'w) BaselineLifecycle \<times> 'w" where
  "capture_each scope ctx [] caps L w = (None, caps, L, w)"
| "capture_each scope ctx (p # ps) caps L w =
     (case run_op scope (p_name p) ''capture'' (capture_seconds (bl_timeouts L))
             (\<lambda>secs w. case p_capture p ctx secs w of (x, out, w') \<Rightarrow> (x, (out, ()), w')) L w of
        (Inl e, _, L', w') \<Rightarrow> (Some e, caps, L', w')
      | (Inr s, _, L', w') \<Rightarrow> capture_each scope ctx ps (caps @ [(p, s)]) L' w')"

definition with_cleanup_errors :: "string \<Rightarrow> py_exn \<Rightarrow> py_exn list \<Rightarrow> py_exn" where
  "with_cleanup_errors msg primary cleanup =
     (if cleanup = [] then primary else ExnGroup msg (primary # cleanup))"

text \<open>Rolling back after an exception in the capture loop, and the exception that is raised.\<close>

definition rollback_capture ::
    "BaselineScope \<Rightarrow> BaselineContext \<Rightarrow> ('s, 'w) Capture list \<Rightarrow> py_exn
     \<Rightarrow> ('s, 'w) BaselineLifecycle \<Rightarrow> 'w \<Rightarrow> unit result \<times> ('s, 'w) BaselineLifecycle \<times> 'w" where
  "rollback_capture scope ctx caps e L w =
     (if isinstance e CancelledError \<or> isinstance e Exception
      then case restore_captures scope ctx caps ''capture_rollback'' L w of
             (Inl e', L', w') \<Rightarrow> (Inl e', L', w')
           | (Inr errs, L', w') \<Rightarrow>
               (Inl (if isinstance e CancelledError then e
                     else with_cleanup_errors ''baseline capture and rollback failed'' e errs),
                add_failures errs L', w')
      else (Inl e, L, w))"

definition capture ::
    "BaselineScope \<Rightarrow> BaselineContext \<Rightarrow> ('s, 'w) BaselineParticipant list
     \<Rightarrow> ('s, 'w) BaselineLifecycle \<Rightarrow> 'w \<Rightarrow> unit result \<times> ('s, 'w) BaselineLifecycle \<times> 'w" where
  "capture scope ctx participants L w =
     (case rbind (validate_capture scope ctx L) (\<lambda>_. validate_participants participants) of
        Inl e \<Rightarrow> (Inl e, L, w)
      | Inr _ \<Rightarrow>
          (case capture_each scope ctx participants [] L w of
             (Some e, caps, L1, w1) \<Rightarrow> rollback_capture scope ctx caps e L1 w1
           | (None, caps, L1, w1) \<Rightarrow>
               (Inr (), L1\<lparr>bl_frames := bl_frames L1
                  @ [\<lparr>fr_scope = scope, fr_context = ctx, fr_captures = caps\<rparr>]\<rparr>, w1)))"

section \<open>Restoring\<close>

definition restore ::
    "BaselineScope \<Rightarrow> BaselineContext \<Rightarrow> ('s, 'w) BaselineLifecycle \<Rightarrow> 'w
     \<Rightarrow> py_exn list result \<times> ('s, 'w) BaselineLifecycle \<times> 'w" where
  "restore scope ctx L w =
     (if bl_frames L = [] then (Inr [], L, w)
      else let frame = last (bl_frames L)
           in if fr_scope frame \<noteq> scope then (Inl (runtime_error ''baseline restore must be LIFO''), L, w)
              else if fr_context frame \<noteq> ctx
              then (Inl (runtime_error ''baseline ownership mismatch''), L, w)
              else case restore_captures scope ctx (fr_captures frame) ''restore''
                          (L\<lparr>bl_frames := butlast (bl_frames L)\<rparr>) w of
                     (Inl e, L', w') \<Rightarrow> (Inl e, L', w')
                   | (Inr errs, L', w') \<Rightarrow> (Inr errs, add_failures errs L', w'))"

text \<open>
  A restored frame is popped before its captures are restored, so the loop of
  \<open>restore_all\<close> ends; it asks for the top frame's own scope and context.
\<close>

lemma run_op_frames: "run_op scope name op secs aw L w = (r, s, L', w') \<Longrightarrow> bl_frames L' = bl_frames L"
  by (auto simp: run_op_def log_event_def Let_def split: prod.splits sum.splits)

lemma restore_one_frames:
  "restore_one scope ctx prefix c errs L w = (r, L', w') \<Longrightarrow> bl_frames L' = bl_frames L"
  by (auto simp: restore_one_def restore_and_verify_def Let_def
      split: prod.splits sum.splits if_splits option.splits dest!: run_op_frames)

lemma restore_each_frames:
  "restore_each scope ctx prefix cs errs L w = (r, L', w') \<Longrightarrow> bl_frames L' = bl_frames L"
proof (induction cs arbitrary: errs L w)
  case (Cons c cs)
  then show ?case
    by (auto split: prod.splits sum.splits dest!: restore_one_frames)
qed simp

lemma restore_pops:
  "restore scope ctx L w = (Inr errs, L', w') \<Longrightarrow> bl_frames L' = butlast (bl_frames L)"
  by (auto simp: restore_def restore_captures_def add_failures_def Let_def
      split: if_splits prod.splits sum.splits dest: restore_each_frames)

lemma restore_shrinks:
  "(Inr errs, L', w') = restore scope ctx L w \<Longrightarrow> bl_frames L \<noteq> [] \<Longrightarrow>
     length (bl_frames L') < length (bl_frames L)"
  using restore_pops [of scope ctx L w errs L' w'] by simp

function restore_all_from ::
    "py_exn list \<Rightarrow> ('s, 'w) BaselineLifecycle \<Rightarrow> 'w
     \<Rightarrow> py_exn list result \<times> ('s, 'w) BaselineLifecycle \<times> 'w" where
  "restore_all_from errors L w =
     (if bl_frames L = [] then (Inr errors, L, w)
      else let frame = last (bl_frames L)
           in case restore (fr_scope frame) (fr_context frame) L w of
                (Inl e, L', w') \<Rightarrow> (Inl e, L', w')
              | (Inr errs, L', w') \<Rightarrow> restore_all_from (errors @ errs) L' w')"
  by auto
termination
  by (relation "measure (\<lambda>(_, L, _). length (bl_frames L))") (auto dest: restore_shrinks)

declare restore_all_from.simps [simp del]

definition restore_all ::
    "('s, 'w) BaselineLifecycle \<Rightarrow> 'w \<Rightarrow> py_exn list result \<times> ('s, 'w) BaselineLifecycle \<times> 'w" where
  "restore_all L w = restore_all_from [] L w"

section \<open>What the properties speak about\<close>

text \<open>The two events of one operation that ended with \<open>r\<close>.\<close>

definition op_pair :: "BaselineScope \<Rightarrow> string \<Rightarrow> string \<Rightarrow> 'a result \<Rightarrow> BaselineEvent list" where
  "op_pair scope name op r =
     [\<lparr>ev_scope = scope, ev_participant = name, ev_operation = op, ev_status = ''started'',
       ev_error = None\<rparr>,
      (case r of
         Inr _ \<Rightarrow> \<lparr>ev_scope = scope, ev_participant = name, ev_operation = op,
                    ev_status = ''completed'', ev_error = None\<rparr>
       | Inl e \<Rightarrow> \<lparr>ev_scope = scope, ev_participant = name, ev_operation = op,
                    ev_status = ''failed'',
                    ev_error = Some (exn_name (exn_class_of e) @ '': '' @ exn_str e)\<rparr>)]"

text \<open>An event log in which every operation that started has ended before the next one starts.\<close>

fun events_ok :: "BaselineEvent list \<Rightarrow> bool" where
  "events_ok [] = True"
| "events_ok [e] = False"
| "events_ok (a # b # es) =
     (ev_scope a = ev_scope b \<and> ev_participant a = ev_participant b
      \<and> ev_operation a = ev_operation b \<and> ev_status a = ''started'' \<and> ev_error a = None
      \<and> (ev_status b = ''completed'' \<and> ev_error b = None \<or> ev_status b = ''failed'' \<and> ev_error b \<noteq> None)
      \<and> events_ok es)"

text \<open>
  The participants whose operation \<open>op\<close> was started, in order, and the number of failed
  operations.
\<close>

definition started :: "string \<Rightarrow> BaselineEvent list \<Rightarrow> string list" where
  "started op es = map ev_participant (filter (\<lambda>e. ev_operation e = op \<and> ev_status e = ''started'') es)"

definition failed_ops :: "BaselineEvent list \<Rightarrow> nat" where
  "failed_ops es = length (filter (\<lambda>e. ev_status e = ''failed'') es)"

abbreviation capture_name :: "('s, 'w) Capture \<Rightarrow> string" where
  "capture_name c \<equiv> p_name (fst c)"

text \<open>The frames a lifecycle may hold: nothing, a topology baseline, or one with a playbook's inside.\<close>

definition captures_ok :: "('s, 'w) Capture list \<Rightarrow> bool" where
  "captures_ok cs \<longleftrightarrow> distinct (map capture_name cs) \<and> [] \<notin> set (map capture_name cs)"

definition topology_frame :: "('s, 'w) Frame \<Rightarrow> bool" where
  "topology_frame f \<longleftrightarrow> fr_scope f = TOPOLOGY \<and> playbook_name (fr_context f) = None
     \<and> test_config_name (fr_context f) \<noteq> [] \<and> invocation_id (fr_context f) \<noteq> []
     \<and> captures_ok (fr_captures f)"

definition playbook_frame :: "('s, 'w) Frame \<Rightarrow> ('s, 'w) Frame \<Rightarrow> bool" where
  "playbook_frame f g \<longleftrightarrow> fr_scope g = PLAYBOOK \<and> playbook_name (fr_context g) \<noteq> None
     \<and> test_config_name (fr_context g) = test_config_name (fr_context f)
     \<and> invocation_id (fr_context g) = invocation_id (fr_context f)
     \<and> captures_ok (fr_captures g)"

fun frames_ok :: "('s, 'w) Frame list \<Rightarrow> bool" where
  "frames_ok [] = True"
| "frames_ok [f] = topology_frame f"
| "frames_ok [f, g] = (topology_frame f \<and> playbook_frame f g)"
| "frames_ok _ = False"

text \<open>What every state of a lifecycle satisfies.\<close>

definition lifecycle_ok :: "('s, 'w) BaselineLifecycle \<Rightarrow> bool" where
  "lifecycle_ok L \<longleftrightarrow> frames_ok (bl_frames L) \<and> events_ok (bl_events L)"

text \<open>The participants whose operation \<open>op\<close> completed, in order.\<close>

definition completed :: "string \<Rightarrow> BaselineEvent list \<Rightarrow> string list" where
  "completed op es = map ev_participant (filter (\<lambda>e. ev_operation e = op \<and> ev_status e = ''completed'') es)"

text \<open>
  A lifecycle in use: its three operations, in any order, with any arguments and whatever
  outcome; between them the test changes the world.
\<close>

inductive lifecycle_step ::
    "('s, 'w) BaselineLifecycle \<times> 'w \<Rightarrow> ('s, 'w) BaselineLifecycle \<times> 'w \<Rightarrow> bool" where
  step_capture: "capture scope ctx ps L w = (r, L', w') \<Longrightarrow> lifecycle_step (L, w) (L', w')"
| step_restore: "restore scope ctx L w = (r, L', w') \<Longrightarrow> lifecycle_step (L, w) (L', w')"
| step_restore_all: "restore_all L w = (r, L', w') \<Longrightarrow> lifecycle_step (L, w) (L', w')"
| step_world: "lifecycle_step (L, w) (L, w')"

inductive_cases lifecycle_stepE: "lifecycle_step (L, w) (L', w')"

inductive lifecycle_reachable ::
    "BaselineTimeouts \<Rightarrow> ('s, 'w) BaselineLifecycle \<times> 'w \<Rightarrow> bool" for tm where
  reach_init: "lifecycle_reachable tm (new_lifecycle tm, w)"
| reach_step: "lifecycle_reachable tm s \<Longrightarrow> lifecycle_step s s' \<Longrightarrow> lifecycle_reachable tm s'"

text \<open>A participant for the witnesses: every operation succeeds, except that restoring may raise.\<close>

definition demo_participant :: "string \<Rightarrow> py_exn option \<Rightarrow> (unit, nat) BaselineParticipant" where
  "demo_participant n fault =
     \<lparr>p_name = n, p_capture = (\<lambda>ctx secs w. (False, Inr (), w)),
      p_restore = (\<lambda>ctx s secs w. (False, (case fault of None \<Rightarrow> Inr () | Some e \<Rightarrow> Inl e, s), w)),
      p_verify = (\<lambda>ctx s secs w. (False, (Inr (), s), w)),
      p_release = (\<lambda>ctx s secs w. (False, (Inr (), s), Suc w))\<rparr>"

definition broken_participant :: "(unit, nat) BaselineParticipant" where
  "broken_participant =
     (demo_participant ''c'' None)\<lparr>p_capture := (\<lambda>ctx secs w. (False, Inl (runtime_error ''x''), w))\<rparr>"

definition demo_context :: BaselineContext where
  "demo_context = \<lparr>test_config_name = ''c'', invocation_id = ''i'', playbook_name = None\<rparr>"

definition demo_timeouts :: BaselineTimeouts where
  "demo_timeouts = \<lparr>capture_seconds = 1, restore_seconds = 1, verify_seconds = 1, release_seconds = 1\<rparr>"

definition demo_captured :: "py_exn option \<Rightarrow> (unit, nat) BaselineLifecycle" where
  "demo_captured fault =
     fst (snd (capture TOPOLOGY demo_context [demo_participant ''a'' None, demo_participant ''b'' fault]
       (new_lifecycle demo_timeouts) 0))"

lemmas lifecycle_eval =
  capture_def validate_capture_def validate_participants_def is_healthy_def run_op_def log_event_def
  restore_def restore_captures_def restore_one_def restore_and_verify_def add_failures_def
  run_error_def demo_participant_def demo_context_def demo_timeouts_def demo_captured_def
  new_lifecycle_def started_def failed_ops_def Let_def

section \<open>Lemmas: one operation\<close>

lemma run_op_events:
  "run_op scope name op secs aw L w = (r, s, L', w') \<Longrightarrow>
     L' = L\<lparr>bl_events := bl_events L @ op_pair scope name op r\<rparr>"
  by (auto simp: run_op_def log_event_def op_pair_def Let_def split: prod.splits sum.splits)

lemma events_ok_append: "events_ok xs \<Longrightarrow> events_ok ys \<Longrightarrow> events_ok (xs @ ys)"
  by (induction xs rule: events_ok.induct) auto

lemma events_ok_pair [simp]: "events_ok (op_pair scope name op r @ es) \<longleftrightarrow> events_ok es"
  by (simp add: op_pair_def split: sum.split)

lemma started_append [simp]: "started op (xs @ ys) = started op xs @ started op ys"
  by (simp add: started_def)

lemma started_pair [simp]: "started op (op_pair scope name op' r) = (if op' = op then [name] else [])"
  by (simp add: started_def op_pair_def split: sum.split)

lemma failed_ops_append [simp]: "failed_ops (xs @ ys) = failed_ops xs + failed_ops ys"
  by (simp add: failed_ops_def)

lemma failed_ops_pair [simp]:
  "failed_ops (op_pair scope name op r) = (case r of Inl _ \<Rightarrow> 1 | Inr _ \<Rightarrow> 0)"
  by (simp add: failed_ops_def op_pair_def split: sum.split)

lemma events_ok_pair_only [simp]: "events_ok (op_pair scope name op r)"
  using events_ok_pair [of scope name op r "[]"] by simp

lemma started_Nil [simp]: "started op [] = []" and failed_ops_Nil [simp]: "failed_ops [] = 0"
  by (simp_all add: started_def failed_ops_def)

text \<open>\<open>only_events\<close>: the state after differs from the state before in appended events only.\<close>

definition only_events ::
    "('s, 'w) BaselineLifecycle \<Rightarrow> BaselineEvent list \<Rightarrow> ('s, 'w) BaselineLifecycle \<Rightarrow> bool" where
  "only_events L es L' \<longleftrightarrow> L' = L\<lparr>bl_events := bl_events L @ es\<rparr> \<and> events_ok es"

lemma only_events_refl [simp]: "only_events L [] L"
  by (simp add: only_events_def)

lemma only_events_trans: "only_events L es M \<Longrightarrow> only_events M fs N \<Longrightarrow> only_events L (es @ fs) N"
  by (simp add: only_events_def events_ok_append)

lemma run_op_only_events:
  "run_op scope name op secs aw L w = (r, s, L', w') \<Longrightarrow> only_events L (op_pair scope name op r) L'"
  by (auto simp: only_events_def dest: run_op_events)

lemma only_events_fields:
  "only_events L es L' \<Longrightarrow> bl_frames L' = bl_frames L \<and> bl_failures L' = bl_failures L
     \<and> bl_timeouts L' = bl_timeouts L \<and> bl_events L' = bl_events L @ es \<and> events_ok es"
  by (auto simp: only_events_def)

section \<open>Lemmas: restoring\<close>

text \<open>All events of a restoration carry its prefix.\<close>

definition prefixed :: "string \<Rightarrow> BaselineEvent list \<Rightarrow> bool" where
  "prefixed prefix es \<longleftrightarrow> list_all (\<lambda>e. \<exists>z. ev_operation e = prefix @ z) es"

lemma prefixed_append [simp]: "prefixed p (xs @ ys) \<longleftrightarrow> prefixed p xs \<and> prefixed p ys"
  by (simp add: prefixed_def)

lemma prefixed_Nil [simp]: "prefixed p []"
  by (simp add: prefixed_def)

lemma prefixed_pair [simp]: "prefixed p (op_pair scope name (p @ z) r)"
  by (simp add: prefixed_def op_pair_def split: sum.split)

lemma prefixed_pair_self [simp]: "prefixed p (op_pair scope name p r)"
  using prefixed_pair [of p scope name "[]" r] by simp

lemma prefixed_completed: "prefixed p es \<Longrightarrow> \<not> is_prefix_of p op \<Longrightarrow> completed op es = []"
  by (auto simp: prefixed_def completed_def list_all_iff filter_empty_conv is_prefix_of_iff)

lemma restore_and_verify_events:
  "restore_and_verify scope ctx prefix c L w = (r, s, L', w') \<Longrightarrow>
     \<exists>es. only_events L es L' \<and> prefixed prefix es \<and> started prefix es = [capture_name c]
       \<and> started (prefix @ ''_release'') es = []
       \<and> failed_ops es = (case r of Inl _ \<Rightarrow> 1 | Inr _ \<Rightarrow> 0)"
proof -
  assume rv: "restore_and_verify scope ctx prefix c L w = (r, s, L', w')"
  obtain p s0 where c: "c = (p, s0)" by (cases c)
  obtain r1 s1 L1 w1 where r1: "run_op scope (p_name p) prefix (restore_seconds (bl_timeouts L))
      (p_restore p ctx s0) L w = (r1, s1, L1, w1)"
    by (metis prod_cases4)
  note e1 = run_op_only_events [OF r1]
  show ?thesis
  proof (cases r1)
    case (Inl e)
    with rv r1 c have "r = Inl e" "L' = L1" by (auto simp: restore_and_verify_def)
    with e1 Inl c show ?thesis by (intro exI [of _ "op_pair scope (p_name p) prefix r1"]) simp
  next
    case (Inr u)
    with rv r1 c have "run_op scope (p_name p) (prefix @ ''_verify'') (verify_seconds (bl_timeouts L))
        (p_verify p ctx s1) L1 w1 = (r, s, L', w')"
      by (simp add: restore_and_verify_def)
    from only_events_trans [OF e1 run_op_only_events [OF this]] Inr c show ?thesis
      by (intro exI [of _ "op_pair scope (p_name p) prefix r1
            @ op_pair scope (p_name p) (prefix @ ''_verify'') r"]) simp
  qed
qed

lemma restore_one_events:
  "restore_one scope ctx prefix c errs L w = (r, L', w') \<Longrightarrow>
     \<exists>es. only_events L es L' \<and> prefixed prefix es \<and> started prefix es = [capture_name c]
       \<and> started (prefix @ ''_release'') es = [capture_name c]
       \<and> (\<forall>errs'. r = Inr errs' \<longrightarrow> (\<exists>new. errs' = errs @ new \<and> length new = failed_ops es))"
proof -
  assume one: "restore_one scope ctx prefix c errs L w = (r, L', w')"
  obtain b s1 L1 w1 where rv: "restore_and_verify scope ctx prefix c L w = (b, s1, L1, w1)"
    by (metis prod_cases4)
  obtain rel s2 L2 w2 where rr: "run_op scope (capture_name c) (prefix @ ''_release'')
      (release_seconds (bl_timeouts L)) (p_release (fst c) ctx s1) L1 w1 = (rel, s2, L2, w2)"
    by (metis prod_cases4)
  from restore_and_verify_events [OF rv] obtain es where es: "only_events L es L1"
    "started prefix es = [capture_name c]" "started (prefix @ ''_release'') es = []"
    "failed_ops es = (case b of Inl _ \<Rightarrow> 1 | Inr _ \<Rightarrow> 0)" "prefixed prefix es" by blast
  let ?es = "es @ op_pair scope (capture_name c) (prefix @ ''_release'') rel"
  have L2: "L' = L2" using one rv rr
    by (auto simp: restore_one_def Let_def split: sum.splits if_splits option.splits)
  have "only_events L ?es L2" using only_events_trans [OF es(1) run_op_only_events [OF rr]] .
  moreover have "r = Inr errs' \<Longrightarrow> \<exists>new. errs' = errs @ new \<and> length new = failed_ops ?es" for errs'
    using one rv rr es(4)
    by (auto simp: restore_one_def Let_def split: sum.splits if_splits option.splits)
  ultimately show ?thesis using es L2 by (intro exI [of _ ?es]) simp
qed

lemma restore_each_events:
  "restore_each scope ctx prefix cs errs L w = (r, L', w') \<Longrightarrow>
     \<exists>es k. only_events L es L' \<and> prefixed prefix es \<and> k \<le> length cs
       \<and> started prefix es = map capture_name (take k cs)
       \<and> started (prefix @ ''_release'') es = map capture_name (take k cs)
       \<and> (\<forall>errs'. r = Inr errs' \<longrightarrow>
            k = length cs \<and> (\<exists>new. errs' = errs @ new \<and> length new = failed_ops es))"
proof (induction cs arbitrary: errs L w)
  case Nil
  then show ?case by (auto intro!: exI [of _ "[]"])
next
  case (Cons c cs)
  obtain r1 L1 w1 where one: "restore_one scope ctx prefix c errs L w = (r1, L1, w1)"
    by (metis prod_cases3)
  from restore_one_events [OF one] obtain es where es: "only_events L es L1" "prefixed prefix es"
    "started prefix es = [capture_name c]" "started (prefix @ ''_release'') es = [capture_name c]"
    "\<And>errs'. r1 = Inr errs' \<Longrightarrow> \<exists>new. errs' = errs @ new \<and> length new = failed_ops es" by blast
  show ?case
  proof (cases r1)
    case (Inl e)
    with Cons.prems one es show ?thesis by (intro exI [of _ es] exI [of _ 1]) auto
  next
    case (Inr errs1)
    with Cons.prems one have "restore_each scope ctx prefix cs errs1 L1 w1 = (r, L', w')" by simp
    from Cons.IH [OF this] obtain fs k where fs: "only_events L1 fs L'" "prefixed prefix fs" "k \<le> length cs"
      "started prefix fs = map capture_name (take k cs)"
      "started (prefix @ ''_release'') fs = map capture_name (take k cs)"
      "\<And>errs'. r = Inr errs' \<Longrightarrow>
            k = length cs \<and> (\<exists>new. errs' = errs1 @ new \<and> length new = failed_ops fs)" by blast
    with only_events_trans [OF es(1) fs(1)] es Inr show ?thesis
      by (intro exI [of _ "es @ fs"] exI [of _ "Suc k"]) force
  qed
qed

lemma restore_captures_events:
  "restore_captures scope ctx caps prefix L w = (r, L', w') \<Longrightarrow>
     \<exists>es. only_events L es L' \<and> prefixed prefix es
       \<and> (\<forall>errs. r = Inr errs \<longrightarrow> length errs = failed_ops es
            \<and> started prefix es = map capture_name (rev caps)
            \<and> started (prefix @ ''_release'') es = map capture_name (rev caps))"
  unfolding restore_captures_def by (drule restore_each_events) fastforce

text \<open>A restoration without error: all three operations of the participant returned.\<close>

lemma run_op_Inr:
  "run_op scope name op secs aw L w = (Inr a, s, L', w') \<Longrightarrow> \<exists>x. aw secs w = (x, (Inr a, s), w')"
  by (auto simp: run_op_def Let_def split: prod.splits sum.splits)

lemma restore_one_clean:
  assumes "restore_one scope ctx prefix (p, s) [] L w = (Inr [], L', w')"
  shows "\<exists>x1 s1 w1 x2 s2 w2 x3 s3.
     p_restore p ctx s (restore_seconds (bl_timeouts L)) w = (x1, (Inr (), s1), w1)
     \<and> p_verify p ctx s1 (verify_seconds (bl_timeouts L)) w1 = (x2, (Inr (), s2), w2)
     \<and> p_release p ctx s2 (release_seconds (bl_timeouts L)) w2 = (x3, (Inr (), s3), w')"
proof -
  obtain b s1 L1 w1 where rv: "restore_and_verify scope ctx prefix (p, s) L w = (b, s1, L1, w1)"
    by (metis prod_cases4)
  obtain rel s2 L2 w2 where rr: "run_op scope (p_name p) (prefix @ ''_release'')
      (release_seconds (bl_timeouts L)) (p_release p ctx s1) L1 w1 = (rel, s2, L2, w2)"
    by (metis prod_cases4)
  from assms rv rr have "b = Inr ()" "rel = Inr ()" "w2 = w'"
    by (auto simp: restore_one_def Let_def split: sum.splits if_splits option.splits)
  moreover from this(1) rv obtain s0 L0 w0 where
    "run_op scope (p_name p) prefix (restore_seconds (bl_timeouts L)) (p_restore p ctx s) L w
       = (Inr (), s0, L0, w0)"
    "run_op scope (p_name p) (prefix @ ''_verify'') (verify_seconds (bl_timeouts L))
       (p_verify p ctx s0) L0 w0 = (Inr (), s1, L1, w1)"
    by (auto simp: restore_and_verify_def Let_def split: prod.splits sum.splits)
  ultimately show ?thesis using rr by (blast dest: run_op_Inr)
qed

section \<open>Lemmas: capturing\<close>

lemma completed_append [simp]: "completed op (xs @ ys) = completed op xs @ completed op ys"
  by (simp add: completed_def)

lemma completed_Nil [simp]: "completed op [] = []"
  by (simp add: completed_def)

lemma completed_pair [simp]:
  "completed op (op_pair scope name op' r) = (if op' = op \<and> \<not> isl r then [name] else [])"
  by (simp add: completed_def op_pair_def isl_def split: sum.split)

lemma capture_each_events:
  "capture_each scope ctx ps caps L w = (e, caps', L', w') \<Longrightarrow>
     \<exists>es new. only_events L es L' \<and> caps' = caps @ new
       \<and> completed ''capture'' es = map capture_name new
       \<and> started ''capture_rollback_release'' es = []
       \<and> (\<exists>rest. map p_name ps = map capture_name new @ rest \<and> (e = None \<longrightarrow> rest = []))"
proof (induction ps arbitrary: caps L w)
  case Nil
  then show ?case by (auto intro!: exI [of _ "[]"])
next
  case (Cons p ps)
  obtain r u L1 w1 where r: "run_op scope (p_name p) ''capture'' (capture_seconds (bl_timeouts L))
      (\<lambda>secs w. case p_capture p ctx secs w of (x, out, w') \<Rightarrow> (x, (out, ()), w')) L w = (r, u, L1, w1)"
    by (metis prod_cases4)
  note ev = run_op_only_events [OF r]
  show ?case
  proof (cases r)
    case (Inl x)
    with Cons.prems r ev show ?thesis
      by (intro exI [of _ "op_pair scope (p_name p) ''capture'' r"] exI [of _ "[]"]) (auto)
  next
    case (Inr s)
    with Cons.prems r have "capture_each scope ctx ps (caps @ [(p, s)]) L1 w1 = (e, caps', L', w')" by simp
    from Cons.IH [OF this] obtain es new rest where
      "only_events L1 es L'" "caps' = (caps @ [(p, s)]) @ new"
      "completed ''capture'' es = map capture_name new"
      "started ''capture_rollback_release'' es = []"
      "map p_name ps = map capture_name new @ rest" "e = None \<longrightarrow> rest = []" by blast
    with only_events_trans [OF ev] Inr show ?thesis
      by (intro exI [of _ "op_pair scope (p_name p) ''capture'' r @ es"] exI [of _ "(p, s) # new"])
         (auto)
  qed
qed

lemma cancelled_class: "is_subclass c CancelledError \<Longrightarrow> \<not> is_subclass c Exception"
  by (induction c) (auto simp: is_subclass_def)

lemma cancelled_not_exception: "isinstance e CancelledError \<Longrightarrow> \<not> isinstance e Exception"
  by (auto simp: isinstance_def dest: cancelled_class)

lemma restore_one_raises:
  "restore_one scope ctx prefix c errs L w = (Inl e, L', w') \<Longrightarrow> \<not> isinstance e Exception"
  by (auto simp: restore_one_def Let_def cancelled_not_exception
      split: prod.splits sum.splits if_splits option.splits)

lemma restore_each_raises:
  "restore_each scope ctx prefix cs errs L w = (Inl e, L', w') \<Longrightarrow> \<not> isinstance e Exception"
proof (induction cs arbitrary: errs L w)
  case (Cons c cs)
  then show ?case by (auto split: prod.splits sum.splits dest: restore_one_raises)
qed simp

text \<open>
  What leaves the lifecycle when something raises: frames are kept, and when the exception is an
  \<open>Exception\<close> the rollback has released whatever was captured, last first.
\<close>

lemma rollback_capture_events:
  assumes "rollback_capture scope ctx caps e L w = (r, L', w')"
  shows "\<exists>es fs. bl_events L' = bl_events L @ es \<and> events_ok es \<and> bl_failures L' = bl_failures L @ fs
     \<and> bl_frames L' = bl_frames L \<and> bl_timeouts L' = bl_timeouts L
     \<and> (\<exists>x. r = Inl x \<and> (isinstance x Exception \<longrightarrow>
           started ''capture_rollback_release'' es = map capture_name (rev caps)
           \<and> length fs = failed_ops es))
     \<and> completed ''capture'' es = []"
proof (cases "isinstance e CancelledError \<or> isinstance e Exception")
  case False
  with assms show ?thesis by (auto simp: rollback_capture_def intro!: exI [of _ "[]"])
next
  case True
  obtain out L1 w1 where rc: "restore_captures scope ctx caps ''capture_rollback'' L w = (out, L1, w1)"
    by (metis prod_cases3)
  from restore_captures_events [OF rc] obtain es where es: "only_events L es L1"
    and pre: "prefixed ''capture_rollback'' es"
    and ok: "\<And>errs. out = Inr errs \<Longrightarrow> length errs = failed_ops es
            \<and> started (''capture_rollback'' @ ''_release'') es = map capture_name (rev caps)" by blast
  have none: "completed ''capture'' es = []" by (rule prefixed_completed [OF pre]) simp
  show ?thesis
  proof (cases out)
    case (Inl x)
    then have "\<not> isinstance x Exception"
      using rc by (auto simp: restore_captures_def dest: restore_each_raises)
    with assms True rc Inl only_events_fields [OF es] none show ?thesis
      by (auto simp: rollback_capture_def intro!: exI [of _ es])
  next
    case (Inr errs)
    with assms True rc only_events_fields [OF es] ok [OF Inr] none show ?thesis
      by (auto simp: rollback_capture_def add_failures_def intro!: exI [of _ es])
  qed
qed

lemma capture_each_participants:
  "capture_each scope ctx ps caps L w = (None, caps', L', w') \<Longrightarrow> map fst caps' = map fst caps @ ps"
proof (induction ps arbitrary: caps L w)
  case (Cons p ps)
  then show ?case by (fastforce split: prod.splits sum.splits)
qed simp

lemma restore_failures:
  "restore scope ctx L w = (Inr errs, L', w') \<Longrightarrow> bl_failures L' = bl_failures L @ errs"
  by (auto simp: restore_def add_failures_def Let_def split: if_splits prod.splits sum.splits
      dest!: restore_captures_events only_events_fields)

lemma restore_top_raises:
  "restore (fr_scope (last (bl_frames L))) (fr_context (last (bl_frames L))) L w = (Inl e, L', w') \<Longrightarrow>
     \<not> isinstance e Exception"
  by (auto simp: restore_def restore_captures_def Let_def split: if_splits prod.splits sum.splits
      dest: restore_each_raises)

section \<open>The contract every operation keeps\<close>

text \<open>
  An operation of the lifecycle appends complete pairs of events, never forgets a restoration
  failure, and keeps the frames nested properly. What follows from that is proved once.
\<close>

locale lifecycle_op =
  fixes op :: "('s, 'w) BaselineLifecycle \<Rightarrow> 'w \<Rightarrow> 'r \<times> ('s, 'w) BaselineLifecycle \<times> 'w"
  assumes op_events: "op L w = (r, L', w') \<Longrightarrow> \<exists>es. bl_events L' = bl_events L @ es \<and> events_ok es"
    and op_failures: "op L w = (r, L', w') \<Longrightarrow> \<exists>fs. bl_failures L' = bl_failures L @ fs"
    and op_frames: "op L w = (r, L', w') \<Longrightarrow> frames_ok (bl_frames L) \<Longrightarrow> frames_ok (bl_frames L')"
begin

lemma keeps_ok: "op L w = (r, L', w') \<Longrightarrow> lifecycle_ok L \<Longrightarrow> lifecycle_ok L'"
  using op_events [of L w r L' w'] op_frames [of L w r L' w']
  by (auto simp: lifecycle_ok_def events_ok_append)

lemma stays_unhealthy: "op L w = (r, L', w') \<Longrightarrow> \<not> is_healthy L \<Longrightarrow> \<not> is_healthy L'"
  using op_failures [of L w r L' w'] by (auto simp: is_healthy_def)

end

lemma frames_ok_butlast: "frames_ok fs \<Longrightarrow> frames_ok (butlast fs)"
  by (cases fs rule: frames_ok.cases) auto

lemma restore_keeps:
  assumes "restore scope ctx L w = (r, L', w')"
  shows "\<exists>es fs. bl_events L' = bl_events L @ es \<and> events_ok es \<and> bl_failures L' = bl_failures L @ fs
     \<and> (bl_frames L' = bl_frames L \<or> bl_frames L' = butlast (bl_frames L))"
proof (cases "bl_frames L = [] \<or> fr_scope (last (bl_frames L)) \<noteq> scope
    \<or> fr_context (last (bl_frames L)) \<noteq> ctx")
  case True
  with assms show ?thesis
    by (auto simp: restore_def Let_def split: if_splits intro!: exI [of _ "[]"])
next
  case False
  define L0 where "L0 = L\<lparr>bl_frames := butlast (bl_frames L)\<rparr>"
  obtain out L1 w1 where rc: "restore_captures scope ctx (fr_captures (last (bl_frames L))) ''restore'' L0 w
      = (out, L1, w1)"
    by (metis prod_cases3)
  from restore_captures_events [OF rc] obtain es where "only_events L0 es L1" by blast
  note ev = only_events_fields [OF this]
  from False assms rc have "L' = (case out of Inl _ \<Rightarrow> L1 | Inr errs \<Rightarrow> add_failures errs L1)"
    by (auto simp: restore_def Let_def L0_def split: sum.splits)
  with ev show ?thesis
    by (intro exI [of _ es] exI [of _ "case out of Inl _ \<Rightarrow> [] | Inr errs \<Rightarrow> errs"])
       (auto simp: L0_def add_failures_def split: sum.splits)
qed

interpretation res: lifecycle_op "restore scope ctx" for scope ctx
proof
  fix L w r L' w'
  assume run: "restore scope ctx L w = (r, L', w')"
  from restore_keeps [OF run] show "\<exists>es. bl_events L' = bl_events L @ es \<and> events_ok es"
    and "\<exists>fs. bl_failures L' = bl_failures L @ fs" by blast+
  assume "frames_ok (bl_frames L)"
  then show "frames_ok (bl_frames L')" using restore_keeps [OF run] frames_ok_butlast by metis
qed

lemma restore_all_from_ind [consumes 1, case_names finished step raised]:
  assumes run: "restore_all_from errors L w = (r, L', w')"
    and finished: "\<And>errors L w. bl_frames L = [] \<Longrightarrow> P errors L w (Inr errors) L w"
    and step: "\<And>errors L w errs L1 w1 r L' w'. bl_frames L \<noteq> [] \<Longrightarrow>
       restore (fr_scope (last (bl_frames L))) (fr_context (last (bl_frames L))) L w = (Inr errs, L1, w1) \<Longrightarrow>
       P (errors @ errs) L1 w1 r L' w' \<Longrightarrow> P errors L w r L' w'"
    and raised: "\<And>errors L w e L' w'. bl_frames L \<noteq> [] \<Longrightarrow>
       restore (fr_scope (last (bl_frames L))) (fr_context (last (bl_frames L))) L w = (Inl e, L', w') \<Longrightarrow>
       P errors L w (Inl e) L' w'"
  shows "P errors L w r L' w'"
  using run
proof (induction errors L w rule: restore_all_from.induct)
  case (1 errors L w)
  show ?case
  proof (cases "bl_frames L = []")
    case True
    with "1.prems" finished show ?thesis by (auto simp: restore_all_from.simps)
  next
    case False
    obtain out L1 w1 where rs: "restore (fr_scope (last (bl_frames L))) (fr_context (last (bl_frames L))) L w
        = (out, L1, w1)"
      by (metis prod_cases3)
    show ?thesis
    proof (cases out)
      case (Inl e)
      with "1.prems" rs False raised show ?thesis
        by (auto simp: restore_all_from.simps [of errors L w] Let_def)
    next
      case (Inr errs)
      with "1.prems" rs False have "restore_all_from (errors @ errs) L1 w1 = (r, L', w')"
        by (simp add: restore_all_from.simps [of errors L w] Let_def)
      with "1.IH" [OF False refl rs [symmetric]] Inr rs False step show ?thesis by auto
    qed
  qed
qed

interpretation all: lifecycle_op restore_all
proof
  fix L w r L' w'
  assume "restore_all L w = (r, L', w')"
  then have run: "restore_all_from [] L w = (r, L', w')" by (simp add: restore_all_def)
  show "\<exists>es. bl_events L' = bl_events L @ es \<and> events_ok es"
    using run by (induction rule: restore_all_from_ind)
      (auto dest!: res.op_events intro: events_ok_append)
  show "\<exists>fs. bl_failures L' = bl_failures L @ fs"
    using run by (induction rule: restore_all_from_ind) (auto dest!: res.op_failures)
  show "frames_ok (bl_frames L')" if "frames_ok (bl_frames L)"
    using run that by (induction rule: restore_all_from_ind) (auto dest: res.op_frames)
qed

lemma capture_cases:
  assumes "capture scope ctx ps L w = (r, L', w')"
  obtains (invalid) e where "r = Inl e" "L' = L" "w' = w"
      "rbind (validate_capture scope ctx L) (\<lambda>_. validate_participants ps) = Inl e"
  | (raised) e caps L1 w1 where "capture_each scope ctx ps [] L w = (Some e, caps, L1, w1)"
      "rollback_capture scope ctx caps e L1 w1 = (r, L', w')"
      "validate_capture scope ctx L = Inr ()" "validate_participants ps = Inr ()"
  | (captured) caps L1 where "capture_each scope ctx ps [] L w = (None, caps, L1, w')" "r = Inr ()"
      "L' = L1\<lparr>bl_frames := bl_frames L1
                  @ [\<lparr>fr_scope = scope, fr_context = ctx, fr_captures = caps\<rparr>]\<rparr>"
      "validate_capture scope ctx L = Inr ()" "validate_participants ps = Inr ()"
proof (cases "rbind (validate_capture scope ctx L) (\<lambda>_. validate_participants ps)")
  case (Inl e)
  with assms invalid [of e] show ?thesis by (simp add: capture_def)
next
  case (Inr u)
  then have valid: "validate_capture scope ctx L = Inr ()" "validate_participants ps = Inr ()"
    by (auto simp: rbind_eq_Inr)
  obtain out caps L1 w1 where each: "capture_each scope ctx ps [] L w = (out, caps, L1, w1)"
    by (metis prod_cases4)
  show ?thesis
  proof (cases out)
    case None
    with assms each valid captured [of caps L1] show ?thesis by (simp add: capture_def)
  next
    case (Some e)
    with assms each valid raised [of e caps L1 w1] show ?thesis by (simp add: capture_def)
  qed
qed

lemma validated_frames_ok:
  assumes "validate_capture scope ctx L = Inr ()" "validate_participants ps = Inr ()"
    "map capture_name caps = map p_name ps" "frames_ok (bl_frames L)"
  shows "frames_ok (bl_frames L @ [\<lparr>fr_scope = scope, fr_context = ctx, fr_captures = caps\<rparr>])"
  using assms
  by (cases "bl_frames L" rule: frames_ok.cases)
     (auto simp: validate_capture_def validate_participants_def captures_ok_def topology_frame_def
        playbook_frame_def split: BaselineScope.splits if_splits)

interpretation cap: lifecycle_op "capture scope ctx ps" for scope ctx ps
proof
  fix L w r L' w'
  assume "capture scope ctx ps L w = (r, L', w')"
  then have "(\<exists>es. bl_events L' = bl_events L @ es \<and> events_ok es)
      \<and> (\<exists>fs. bl_failures L' = bl_failures L @ fs)
      \<and> (frames_ok (bl_frames L) \<longrightarrow> frames_ok (bl_frames L'))"
  proof (cases rule: capture_cases)
    case (invalid e)
    then show ?thesis by (auto intro: exI [of _ "[]"])
  next
    case (raised e caps L1 w1)
    from capture_each_events [OF raised(1)] obtain es where "only_events L es L1" by blast
    note ev = only_events_fields [OF this]
    from rollback_capture_events [OF raised(2)] ev show ?thesis
      by (auto intro: events_ok_append)
  next
    case (captured caps L1)
    from capture_each_events [OF captured(1)] obtain es where "only_events L es L1"
      and names: "map p_name ps = map capture_name caps" by force
    note ev = only_events_fields [OF this(1)]
    with captured validated_frames_ok [OF captured(4, 5) names [symmetric]] show ?thesis by auto
  qed
  then show "\<exists>es. bl_events L' = bl_events L @ es \<and> events_ok es"
    and "\<exists>fs. bl_failures L' = bl_failures L @ fs"
    and "frames_ok (bl_frames L) \<Longrightarrow> frames_ok (bl_frames L')" by blast+
qed

lemma step_keeps_ok: "lifecycle_step (L, w) (L', w') \<Longrightarrow> lifecycle_ok L \<Longrightarrow> lifecycle_ok L'"
  by (elim lifecycle_stepE) (auto dest: cap.keeps_ok res.keeps_ok all.keeps_ok)

lemma step_stays_unhealthy:
  "lifecycle_step (L, w) (L', w') \<Longrightarrow> \<not> is_healthy L \<Longrightarrow> \<not> is_healthy L'"
  by (elim lifecycle_stepE) (auto dest: cap.stays_unhealthy res.stays_unhealthy all.stays_unhealthy)

lemma steps_stay_unhealthy:
  "lifecycle_step\<^sup>*\<^sup>* (L, w) (L', w') \<Longrightarrow> \<not> is_healthy L \<Longrightarrow> \<not> is_healthy L'"
  by (induction rule: rtranclp_induct2) (auto dest: step_stays_unhealthy)

lemma reachable_ok: "lifecycle_reachable tm s \<Longrightarrow> lifecycle_ok (fst s)"
proof (induction rule: lifecycle_reachable.induct)
  case (reach_init w)
  show ?case by (simp add: new_lifecycle_def lifecycle_ok_def)
next
  case (reach_step s s')
  then show ?case using step_keeps_ok by (metis prod.collapse)
qed

lemma frames_ok_scopes: "frames_ok fs \<Longrightarrow> map fr_scope fs \<in> {[], [TOPOLOGY], [TOPOLOGY, PLAYBOOK]}"
  by (cases fs rule: frames_ok.cases) (auto simp: topology_frame_def playbook_frame_def)

section \<open>Properties\<close>

text \<open>
  C9. In every state a lifecycle can reach, the active scopes are none, the topology's, or the
  topology's with a playbook's inside; the playbook baseline belongs to the topology baseline
  (same configuration and invocation); participant names are non-empty and distinct; and every
  operation in the event log has started and ended, without overlap.
\<close>

theorem lifecycle_invariant:
  "lifecycle_reachable tm (L, w) \<Longrightarrow>
     active_scopes L \<in> {[], [TOPOLOGY], [TOPOLOGY, PLAYBOOK]}
     \<and> frames_ok (bl_frames L) \<and> events_ok (bl_events L)"
  using reachable_ok [of tm "(L, w)"] frames_ok_scopes
  by (auto simp: lifecycle_ok_def active_scopes_def)

theorem lifecycle_invariant_witness:
  "active_scopes (demo_captured None) = [TOPOLOGY]
   \<and> active_scopes (demo_captured None) \<in> {[], [TOPOLOGY], [TOPOLOGY, PLAYBOOK]}
   \<and> frames_ok (bl_frames (demo_captured None)) \<and> events_ok (bl_events (demo_captured None))"
proof -
  have "lifecycle_step (new_lifecycle demo_timeouts, 0) (demo_captured None, 0)"
    by (rule step_capture [of TOPOLOGY demo_context "[demo_participant ''a'' None, demo_participant ''b'' None]"
          _ _ "Inr ()"]) (simp add: lifecycle_eval)
  then have "lifecycle_reachable demo_timeouts (demo_captured None, 0)"
    by (rule reach_step [OF reach_init])
  from lifecycle_invariant [OF this] show ?thesis
    by (simp add: active_scopes_def lifecycle_eval)
qed

text \<open>
  C10. A restoration failure poisons the lifecycle for good: whatever is done afterwards, it stays
  unhealthy, and every later capture raises \<open>RuntimeError\<close> before touching any participant.
\<close>

theorem restoration_failure_poisons:
  "lifecycle_step\<^sup>*\<^sup>* (L, w) (L', w') \<Longrightarrow> \<not> is_healthy L \<Longrightarrow>
     \<not> is_healthy L'
     \<and> (\<exists>m. capture scope ctx ps L' w' = (Inl (runtime_error m), L', w'))"
  using steps_stay_unhealthy [of L w L' w'] by (simp add: capture_def validate_capture_def)

theorem restoration_failure_poisons_witness:
  "\<exists>L w. restore TOPOLOGY demo_context (demo_captured (Some (runtime_error ''x''))) 0
      = (Inr [runtime_error ''x''], L, w)
    \<and> \<not> is_healthy L
    \<and> (\<exists>m. capture TOPOLOGY demo_context [] L w = (Inl (runtime_error m), L, w))"
proof -
  have "\<exists>L w. restore TOPOLOGY demo_context (demo_captured (Some (runtime_error ''x''))) 0
      = (Inr [runtime_error ''x''], L, w) \<and> \<not> is_healthy L"
    by (simp add: lifecycle_eval isinstance_Exn)
  then obtain L w where run: "restore TOPOLOGY demo_context (demo_captured (Some (runtime_error ''x''))) 0
      = (Inr [runtime_error ''x''], L, w)" and bad: "\<not> is_healthy L" by (elim exE conjE)
  from restoration_failure_poisons [OF rtranclp.rtrancl_refl [of _ "(L, w)"] bad] run bad show ?thesis
    by (intro exI [of _ L] exI [of _ w]) simp
qed

text \<open>
  C2. A restore that returns has popped the top frame, which had the requested scope and context,
  and has started the restoration and the release of every captured participant of it exactly
  once, last captured first. It returns one error per failed operation and records them all, so the lifecycle stays healthy exactly when it was and nothing failed.
\<close>

theorem restore_complete:
  assumes run: "restore scope ctx L w = (Inr errs, L', w')" and frames: "bl_frames L = fs @ [f]"
  shows "fr_scope f = scope \<and> fr_context f = ctx \<and> bl_frames L' = fs
     \<and> bl_failures L' = bl_failures L @ errs
     \<and> (\<exists>es. bl_events L' = bl_events L @ es \<and> failed_ops es = length errs
          \<and> started ''restore'' es = map capture_name (rev (fr_captures f))
          \<and> started ''restore_release'' es = map capture_name (rev (fr_captures f)))"
proof -
  define L0 where "L0 = L\<lparr>bl_frames := fs\<rparr>"
  have own: "fr_scope f = scope" "fr_context f = ctx"
    using run frames by (auto simp: restore_def Let_def split: if_splits)
  obtain L1 where rc: "restore_captures scope ctx (fr_captures f) ''restore'' L0 w = (Inr errs, L1, w')"
    and L': "L' = add_failures errs L1"
    using run frames own by (auto simp: restore_def L0_def Let_def split: prod.splits sum.splits)
  from restore_captures_events [OF rc] obtain es where es: "only_events L0 es L1"
    "length errs = failed_ops es" "started ''restore'' es = map capture_name (rev (fr_captures f))"
    "started (''restore'' @ ''_release'') es = map capture_name (rev (fr_captures f))" by blast
  then show ?thesis using own L' by (auto simp: only_events_def add_failures_def L0_def)
qed

theorem restore_complete_witness:
  "\<exists>L' w'. restore TOPOLOGY demo_context (demo_captured None) 0 = (Inr [], L', w')
    \<and> w' = 2 \<and> bl_frames L' = [] \<and> bl_failures L' = bl_failures (demo_captured None) @ []
    \<and> (\<exists>es. bl_events L' = bl_events (demo_captured None) @ es \<and> failed_ops es = 0
          \<and> started ''restore_release'' es = [''b'', ''a''])"
proof -
  obtain f where f: "bl_frames (demo_captured None) = [] @ [f]"
      "map capture_name (rev (fr_captures f)) = [''b'', ''a'']"
    by (simp add: lifecycle_eval)
  have "\<exists>L'. restore TOPOLOGY demo_context (demo_captured None) 0 = (Inr [], L', 2)"
    by (simp add: lifecycle_eval)
  then obtain L' where run: "restore TOPOLOGY demo_context (demo_captured None) 0 = (Inr [], L', 2)"
    by blast
  from restore_complete [OF run f(1)] run f(2) show ?thesis by auto
qed

text \<open>
  C22. A capture that succeeds adds one frame holding a snapshot of every participant, in order,
  and records no failure. A capture that raises leaves the frames as they were; and when what it
  raises is an \<open>Exception\<close>, every participant captured so far was released exactly once,
  last captured first.
\<close>

theorem capture_all_or_nothing:
  assumes "capture scope ctx ps L w = (r, L', w')"
  shows "\<exists>es fs. bl_events L' = bl_events L @ es \<and> bl_failures L' = bl_failures L @ fs
     \<and> (case r of
          Inr _ \<Rightarrow> fs = [] \<and> (\<exists>caps. map fst caps = ps
            \<and> bl_frames L' = bl_frames L @ [\<lparr>fr_scope = scope, fr_context = ctx, fr_captures = caps\<rparr>])
        | Inl e \<Rightarrow> bl_frames L' = bl_frames L
            \<and> (isinstance e Exception \<longrightarrow>
                 started ''capture_rollback_release'' es = rev (completed ''capture'' es)))"
  using assms
proof (cases rule: capture_cases)
  case (invalid e)
  then show ?thesis by (auto intro: exI [of _ "[]"])
next
  case (raised e caps L1 w1)
  from capture_each_events [OF raised(1)] obtain es where es: "only_events L es L1"
    "completed ''capture'' es = map capture_name caps" "started ''capture_rollback_release'' es = []"
    by auto
  from rollback_capture_events [OF raised(2)] obtain es' fs x where rb:
    "bl_events L' = bl_events L1 @ es'" "bl_failures L' = bl_failures L1 @ fs"
    "bl_frames L' = bl_frames L1" "r = Inl x"
    "isinstance x Exception \<longrightarrow> started ''capture_rollback_release'' es' = map capture_name (rev caps)"
    "completed ''capture'' es' = []" by blast
  with es show ?thesis
    by (intro exI [of _ "es @ es'"] exI [of _ fs]) (auto simp: only_events_def rev_map)
next
  case (captured caps L1)
  from capture_each_events [OF captured(1)] obtain es where "only_events L es L1" by blast
  moreover have "map fst caps = ps" using capture_each_participants [OF captured(1)] by simp
  ultimately show ?thesis using captured by (auto simp: only_events_def)
qed

theorem capture_all_or_nothing_witness:
  "\<exists>L' w' es fs. capture TOPOLOGY demo_context
        [demo_participant ''a'' None, demo_participant ''b'' None, broken_participant]
        (new_lifecycle demo_timeouts) 0 = (Inl (runtime_error ''x''), L', w')
     \<and> w' = 2 \<and> bl_events L' = [] @ es \<and> bl_failures L' = [] @ fs \<and> bl_frames L' = []
     \<and> started ''capture_rollback_release'' es = rev (completed ''capture'' es)"
proof -
  have "\<exists>L'. capture TOPOLOGY demo_context
        [demo_participant ''a'' None, demo_participant ''b'' None, broken_participant]
        (new_lifecycle demo_timeouts) 0 = (Inl (runtime_error ''x''), L', 2)"
    by (simp add: lifecycle_eval rollback_capture_def with_cleanup_errors_def broken_participant_def
        isinstance_Exn)
  then obtain L' where run: "capture TOPOLOGY demo_context
        [demo_participant ''a'' None, demo_participant ''b'' None, broken_participant]
        (new_lifecycle demo_timeouts) 0 = (Inl (runtime_error ''x''), L', 2)" by blast
  from capture_all_or_nothing [OF run] run show ?thesis
    by (auto simp: isinstance_Exn new_lifecycle_def)
qed

text \<open>
  \<open>restore_all\<close> always ends. When it returns, no frame is left and every error is both
  returned and recorded; and it never raises an \<open>Exception\<close> (only a cancellation or the like
  leaves it), so it never trips over its own ordering checks.
\<close>

theorem restore_all_complete:
  "case restore_all L w of
     (Inr errs, L', w') \<Rightarrow> bl_frames L' = [] \<and> bl_failures L' = bl_failures L @ errs
   | (Inl e, L', w') \<Rightarrow> \<not> isinstance e Exception"
proof -
  obtain r L' w' where run: "restore_all_from [] L w = (r, L', w')" by (metis prod_cases3)
  have "case r of Inr errs' \<Rightarrow> bl_frames L' = [] \<and>
            (\<exists>new. errs' = errs @ new \<and> bl_failures L' = bl_failures L @ new)
        | Inl e \<Rightarrow> \<not> isinstance e Exception" if "restore_all_from errs L w = (r, L', w')" for errs
    using that
  proof (induction rule: restore_all_from_ind)
    case (finished errors L w)
    then show ?case by simp
  next
    case (step errors L w errs L1 w1 r L' w')
    from restore_failures [OF step(2)] step(3) show ?case by (auto split: sum.splits)
  next
    case (raised errors L w e L' w')
    then show ?case by (auto dest: restore_top_raises)
  qed
  from this [OF run] run show ?thesis by (auto simp: restore_all_def split: sum.splits)
qed


end
