(* ===== verification/Ixia_Baseline.thy ===== *)
theory Ixia_Baseline
  imports Baseline_Lifecycle
begin

text \<open>
  The baseline participant of the traffic generator (\<open>libs/ixia_config_baseline.py\<close>): the IXIA
  configuration is saved to a file on the chassis, loaded back and removed. The client that talks
  to the chassis is a protocol of the source and a parameter here: three operations over the
  world, as awaited in a worker thread under the lifecycle's deadline. A snapshot is an
  \<open>object\<close> to the lifecycle, so a foreign one is a value of the model too.
\<close>

record 'w IxiaConfigClient =
  save_config_to_chassis :: "string \<Rightarrow> (bool result, 'w) timed"
  load_config_from_chassis :: "string \<Rightarrow> (bool result, 'w) timed"
  remove_config_from_chassis :: "string \<Rightarrow> (bool result, 'w) timed"

record IxiaConfigSnapshot =
  config_path :: string
  restore_completed :: bool

datatype snapshot_object = IxiaSnap IxiaConfigSnapshot | OtherObject

definition ixia_config_path :: "BaselineContext \<Rightarrow> string" where
  "ixia_config_path ctx =
     ''/root/.local/share/Ixia/sdmStreamManager/common'' @ ''/'' @ ''taac_topology_baseline''
       @ ''_'' @ invocation_id ctx @ ''.ixncfg''"

fun require_snapshot :: "snapshot_object \<Rightarrow> IxiaConfigSnapshot result" where
  "require_snapshot (IxiaSnap s) = Inr s"
| "require_snapshot OtherObject =
     Inl (Exn TypeError ''IXIA baseline participant requires an IxiaConfigSnapshot'')"

definition ixia_capture ::
    "'w IxiaConfigClient \<Rightarrow> BaselineContext \<Rightarrow> (snapshot_object result, 'w) timed" where
  "ixia_capture ixia ctx secs w =
     (case save_config_to_chassis ixia (ixia_config_path ctx) secs w of
        (x, Inl e, w') \<Rightarrow> (x, Inl e, w')
      | (x, Inr False, w') \<Rightarrow> (x, Inl (runtime_error ''IXIA topology baseline save failed''), w')
      | (x, Inr True, w') \<Rightarrow>
          (x, Inr (IxiaSnap \<lparr>config_path = ixia_config_path ctx, restore_completed = False\<rparr>), w'))"

definition ixia_restore ::
    "'w IxiaConfigClient \<Rightarrow> BaselineContext \<Rightarrow> snapshot_object
     \<Rightarrow> (unit result \<times> snapshot_object, 'w) timed" where
  "ixia_restore ixia ctx obj secs w =
     (case require_snapshot obj of
        Inl e \<Rightarrow> (False, (Inl e, obj), w)
      | Inr s \<Rightarrow>
          (case load_config_from_chassis ixia (config_path s) secs w of
             (x, Inl e, w') \<Rightarrow> (x, (Inl e, obj), w')
           | (x, Inr False, w') \<Rightarrow> (x, (Inl (runtime_error ''IXIA topology baseline load failed''), obj), w')
           | (x, Inr True, w') \<Rightarrow> (x, (Inr (), IxiaSnap (s\<lparr>restore_completed := True\<rparr>)), w')))"

definition ixia_verify ::
    "BaselineContext \<Rightarrow> snapshot_object \<Rightarrow> (unit result \<times> snapshot_object, 'w) timed" where
  "ixia_verify ctx obj secs w =
     (case require_snapshot obj of
        Inl e \<Rightarrow> (False, (Inl e, obj), w)
      | Inr s \<Rightarrow>
          if \<not> restore_completed s
          then (False, (Inl (runtime_error ''IXIA configuration load and protocol verification did not complete''), obj), w)
          else (False, (Inr (), obj), w))"

definition ixia_release ::
    "'w IxiaConfigClient \<Rightarrow> BaselineContext \<Rightarrow> snapshot_object
     \<Rightarrow> (unit result \<times> snapshot_object, 'w) timed" where
  "ixia_release ixia ctx obj secs w =
     (case require_snapshot obj of
        Inl e \<Rightarrow> (False, (Inl e, obj), w)
      | Inr s \<Rightarrow>
          if config_path s = [] then (False, (Inr (), obj), w)
          else if config_path s \<noteq> ixia_config_path ctx
          then (False, (Inl (runtime_error ''refusing to remove an IXIA config not owned by this baseline''), obj), w)
          else (case remove_config_from_chassis ixia (config_path s) secs w of
                  (x, Inl e, w') \<Rightarrow> (x, (Inl e, obj), w')
                | (x, Inr False, w') \<Rightarrow>
                    (x, (Inl (runtime_error ''IXIA topology baseline cleanup failed''), obj), w')
                | (x, Inr True, w') \<Rightarrow> (x, (Inr (), IxiaSnap (s\<lparr>config_path := []\<rparr>)), w')))"

definition IxiaTopologyBaselineParticipant ::
    "'w IxiaConfigClient \<Rightarrow> (snapshot_object, 'w) BaselineParticipant" where
  "IxiaTopologyBaselineParticipant ixia =
     \<lparr>p_name = ''ixia_topology'', p_capture = ixia_capture ixia, p_restore = ixia_restore ixia,
      p_verify = ixia_verify, p_release = ixia_release ixia\<rparr>"

section \<open>What the client promises\<close>

text \<open>
  What a successful call of the client means, for the configuration \<open>live\<close> on the chassis and
  its \<open>files\<close>: saving stores the live configuration, loading makes the stored one live,
  removing deletes the file; none of them touches another file.
\<close>

definition save_law :: "('w \<Rightarrow> 'c) \<Rightarrow> ('w \<Rightarrow> string \<rightharpoonup> 'c) \<Rightarrow> 'w IxiaConfigClient \<Rightarrow> bool" where
  "save_law live files ixia \<longleftrightarrow>
     (\<forall>p secs w x w'. save_config_to_chassis ixia p secs w = (x, Inr True, w') \<longrightarrow>
        live w' = live w \<and> files w' = (files w)(p \<mapsto> live w))"

definition load_law :: "('w \<Rightarrow> 'c) \<Rightarrow> ('w \<Rightarrow> string \<rightharpoonup> 'c) \<Rightarrow> 'w IxiaConfigClient \<Rightarrow> bool" where
  "load_law live files ixia \<longleftrightarrow>
     (\<forall>p secs w x w'. load_config_from_chassis ixia p secs w = (x, Inr True, w') \<longrightarrow>
        files w p = Some (live w') \<and> files w' = files w)"

definition remove_law :: "('w \<Rightarrow> 'c) \<Rightarrow> ('w \<Rightarrow> string \<rightharpoonup> 'c) \<Rightarrow> 'w IxiaConfigClient \<Rightarrow> bool" where
  "remove_law live files ixia \<longleftrightarrow>
     (\<forall>p secs w x w'. remove_config_from_chassis ixia p secs w = (x, Inr True, w') \<longrightarrow>
        live w' = live w \<and> files w' = (files w)(p := None))"

text \<open>A chassis in memory, for the witness: the live configuration and the stored files.\<close>

definition memory_chassis :: "(nat \<times> (string \<rightharpoonup> nat)) IxiaConfigClient" where
  "memory_chassis =
     \<lparr>save_config_to_chassis = (\<lambda>p secs (l, fs). (False, Inr True, (l, fs(p \<mapsto> l)))),
      load_config_from_chassis = (\<lambda>p secs (l, fs).
        case fs p of None \<Rightarrow> (False, Inr False, (l, fs)) | Some c \<Rightarrow> (False, Inr True, (c, fs))),
      remove_config_from_chassis = (\<lambda>p secs (l, fs). (False, Inr True, (l, fs(p := None))))\<rparr>"

lemmas ixia_defs = IxiaTopologyBaselineParticipant_def ixia_capture_def ixia_restore_def
  ixia_verify_def ixia_release_def

section \<open>Lemmas\<close>

lemma ixia_path_nonempty [simp]: "ixia_config_path ctx \<noteq> []"
  by (simp add: ixia_config_path_def)

text \<open>A successful capture of the one participant: what it stored and how the world changed.\<close>

lemma ixia_capture_frame:
  assumes "capture scope ctx [IxiaTopologyBaselineParticipant ixia] L w = (Inr (), L1, w1)"
    and "save_law live files ixia"
  shows "live w1 = live w \<and> files w1 = (files w)(ixia_config_path ctx \<mapsto> live w)
     \<and> bl_frames L1 = bl_frames L @ [\<lparr>fr_scope = scope, fr_context = ctx,
         fr_captures = [(IxiaTopologyBaselineParticipant ixia,
            IxiaSnap \<lparr>config_path = ixia_config_path ctx, restore_completed = False\<rparr>)]\<rparr>]"
  using assms
proof (cases rule: capture_cases)
  case (captured caps L2)
  then show ?thesis using assms(2)
    by (auto simp: ixia_defs save_law_def run_op_def log_event_def Let_def
        split: prod.splits sum.splits bool.splits)
qed (auto dest: rollback_capture_events)

lemma ixia_restore_captures:
  assumes "restore_captures scope ctx [(IxiaTopologyBaselineParticipant ixia,
            IxiaSnap \<lparr>config_path = ixia_config_path ctx, restore_completed = False\<rparr>)] prefix L w
      = (Inr [], L', w')"
    and "load_law live files ixia" "remove_law live files ixia"
  shows "files w (ixia_config_path ctx) = Some (live w')
     \<and> files w' = (files w)(ixia_config_path ctx := None)"
proof -
  let ?s = "IxiaSnap \<lparr>config_path = ixia_config_path ctx, restore_completed = False\<rparr>"
  from assms(1) have "restore_one scope ctx prefix (IxiaTopologyBaselineParticipant ixia, ?s) [] L w
      = (Inr [], L', w')"
    by (simp add: restore_captures_def split: prod.splits sum.splits)
  from restore_one_clean [OF this] obtain x1 s1 w1 x2 s2 w2 x3 s3 where
    "ixia_restore ixia ctx ?s (restore_seconds (bl_timeouts L)) w = (x1, (Inr (), s1), w1)"
    "ixia_verify ctx s1 (verify_seconds (bl_timeouts L)) w1 = (x2, (Inr (), s2), w2)"
    "ixia_release ixia ctx s2 (release_seconds (bl_timeouts L)) w2 = (x3, (Inr (), s3), w')"
    unfolding IxiaTopologyBaselineParticipant_def by auto
  with assms(2, 3) show ?thesis
    by (auto simp: ixia_restore_def ixia_verify_def ixia_release_def load_law_def remove_law_def
        split: prod.splits sum.splits bool.splits if_splits)
qed

section \<open>Properties\<close>



end
