(* ===== verification/Py_Seq.thy ===== *)
theory Py_Seq
  imports Taac_Prelude
begin

text \<open>
  What the sources use of Python's sequences: indexing with negative indices, slices
  (\<open>slice.indices\<close> and \<open>range\<close>), and \<open>bisect.bisect_right\<close>, the binary search as the
  standard library has it (on an unsorted list it returns whatever the search ends with).
\<close>

section \<open>Indexing and slicing\<close>

text \<open>
  \<open>obj[index]\<close> as the sequence classes of the sources write it: \<open>item\<close> gives the item at an
  index inside the sequence.
\<close>

definition seq_getitem :: "int \<Rightarrow> (int \<Rightarrow> 'a result) \<Rightarrow> int \<Rightarrow> 'a result" where
  "seq_getitem len item index =
     (let i = (if index < 0 then index + len else index)
      in if i < 0 \<or> i \<ge> len then Inl (Exn IndexError (show_int index)) else item i)"

record slice =
  sl_start :: "int option"
  sl_stop :: "int option"
  sl_step :: "int option"

text \<open>One bound of \<open>slice.indices(len)\<close>, clipped to \<open>lo .. hi\<close>.\<close>

definition clip_bound :: "int \<Rightarrow> int \<Rightarrow> int \<Rightarrow> int \<Rightarrow> int" where
  "clip_bound len lo hi x = (if x < 0 then max (x + len) lo else min x hi)"

definition slice_indices :: "slice \<Rightarrow> int \<Rightarrow> (int \<times> int \<times> int) result" where
  "slice_indices sl len =
     (let step = (case sl_step sl of None \<Rightarrow> 1 | Some s \<Rightarrow> s)
      in if step = 0 then Inl (value_error ''slice step cannot be zero'')
         else let lo = (if step < 0 then -1 else 0);
                  hi = (if step < 0 then len - 1 else len)
              in Inr (case sl_start sl of
                        None \<Rightarrow> if step < 0 then hi else lo
                      | Some x \<Rightarrow> clip_bound len lo hi x,
                      case sl_stop sl of
                        None \<Rightarrow> if step < 0 then lo else hi
                      | Some x \<Rightarrow> clip_bound len lo hi x,
                      step))"

text \<open>\<open>range(start, stop, step)\<close> for a step that is not zero.\<close>

definition py_range :: "int \<Rightarrow> int \<Rightarrow> int \<Rightarrow> int list" where
  "py_range start stop step =
     (let n = (if step > 0 then (stop - start + step - 1) div step
               else (start - stop - step - 1) div (- step))
      in map (\<lambda>k. start + int k * step) [0 ..< nat n])"

definition seq_slice :: "int \<Rightarrow> (int \<Rightarrow> 'a result) \<Rightarrow> slice \<Rightarrow> 'a list result" where
  "seq_slice len item sl =
     rbind (slice_indices sl len) (\<lambda>(start, stop, step).
       rmap (seq_getitem len item) (py_range start stop step))"

section \<open>Binary search\<close>

function bisect_loop :: "'a :: linorder list \<Rightarrow> 'a \<Rightarrow> nat \<Rightarrow> nat \<Rightarrow> nat" where
  "bisect_loop a x lo hi =
     (if lo < hi
      then let mid = (lo + hi) div 2
           in if x < a ! mid then bisect_loop a x lo mid else bisect_loop a x (mid + 1) hi
      else lo)"
  by auto
termination by (relation "measure (\<lambda>(a, x, lo, hi). hi - lo)") auto

declare bisect_loop.simps [simp del]

definition bisect_right :: "'a :: linorder list \<Rightarrow> 'a \<Rightarrow> nat" where
  "bisect_right a x = bisect_loop a x 0 (length a)"

text \<open>\<open>bisect.insort\<close>: insert after the entries that are not greater.\<close>

definition bisect_insort :: "'a :: linorder list \<Rightarrow> 'a \<Rightarrow> 'a list" where
  "bisect_insort a x = take (bisect_right a x) a @ x # drop (bisect_right a x) a"

section \<open>Lemmas\<close>

lemma seq_getitem_negative:
  "1 \<le> k \<Longrightarrow> k \<le> len \<Longrightarrow> seq_getitem len item (- k) = seq_getitem len item (len - k)"
  by (simp add: seq_getitem_def)

lemma seq_getitem_inside: "0 \<le> i \<Longrightarrow> i < len \<Longrightarrow> seq_getitem len item i = item i"
  by (simp add: seq_getitem_def)

lemma seq_getitem_outside:
  "i < - len \<or> len \<le> i \<Longrightarrow> 0 \<le> len \<Longrightarrow> \<exists>m. seq_getitem len item i = Inl (Exn IndexError m)"
  by (auto simp: seq_getitem_def)

lemma rmap_cong: "(\<And>x. x \<in> set xs \<Longrightarrow> f x = g x) \<Longrightarrow> rmap f xs = rmap g xs"
  by (induction xs) auto

lemma rmap_map: "rmap f (map g xs) = rmap (\<lambda>x. f (g x)) xs"
  by (induction xs) auto

text \<open>\<open>seq[:]\<close> and \<open>seq[::-1]\<close>\<close>

lemma seq_slice_all:
  "0 \<le> len \<Longrightarrow> seq_slice len item \<lparr>sl_start = None, sl_stop = None, sl_step = None\<rparr>
     = rmap (\<lambda>k. item (int k)) [0 ..< nat len]"
  by (auto simp: seq_slice_def slice_indices_def py_range_def rmap_map intro!: rmap_cong seq_getitem_inside)

lemma seq_slice_reversed:
  "0 \<le> len \<Longrightarrow> seq_slice len item \<lparr>sl_start = None, sl_stop = None, sl_step = Some (-1)\<rparr>
     = rmap (\<lambda>k. item (len - 1 - int k)) [0 ..< nat len]"
  by (auto simp: seq_slice_def slice_indices_def py_range_def rmap_map Let_def intro!: rmap_cong seq_getitem_inside)

lemma bisect_loop_bounds:
  "lo \<le> hi \<Longrightarrow> hi \<le> length a \<Longrightarrow> sorted a \<Longrightarrow>
     \<forall>i < lo. a ! i \<le> x \<Longrightarrow> \<forall>i < length a. hi \<le> i \<longrightarrow> x < a ! i \<Longrightarrow>
     bisect_loop a x lo hi \<le> length a
     \<and> (\<forall>i < bisect_loop a x lo hi. a ! i \<le> x)
     \<and> (\<forall>i < length a. bisect_loop a x lo hi \<le> i \<longrightarrow> x < a ! i)"
proof (induction a x lo hi rule: bisect_loop.induct)
  case (1 a x lo hi)
  show ?case
  proof (cases "lo < hi")
    case False
    then have "bisect_loop a x lo hi = lo" by (simp add: bisect_loop.simps)
    then show ?thesis using "1.prems" False by simp
  next
    case True
    let ?mid = "(lo + hi) div 2"
    have mid: "lo \<le> ?mid" "?mid < hi" "?mid < length a" using True "1.prems"(2) by auto
    have mono: "i \<le> j \<Longrightarrow> j < length a \<Longrightarrow> a ! i \<le> a ! j" for i j
      using "1.prems"(3) by (rule sorted_nth_mono)
    show ?thesis
    proof (cases "x < a ! ?mid")
      case left: True
      have "\<forall>i < length a. ?mid \<le> i \<longrightarrow> x < a ! i" using left mono by (meson less_le_trans)
      with "1.IH"(1) [OF True refl left] "1.prems" mid True left show ?thesis
        by (simp add: bisect_loop.simps [of a x lo hi])
    next
      case right: False
      have "\<forall>i < ?mid + 1. a ! i \<le> x" using right mono mid(3)
        by (metis less_Suc_eq_le Suc_eq_plus1 not_less order_trans)
      with "1.IH"(2) [OF True refl right] "1.prems" mid True right show ?thesis
        by (simp add: bisect_loop.simps [of a x lo hi])
    qed
  qed
qed

lemma filter_take_drop:
  assumes "\<forall>i < k. P (a ! i)" "\<forall>i < length a. k \<le> i \<longrightarrow> \<not> P (a ! i)" "k \<le> length a"
  shows "filter P a = take k a"
proof -
  have "filter P (take k a) = take k a" using assms(1, 3) by (auto simp: filter_id_conv in_set_conv_nth)
  moreover have "filter P (drop k a) = []" using assms(2) by (auto simp: filter_empty_conv in_set_conv_nth)
  ultimately show ?thesis by (metis append_Nil2 append_take_drop_id filter_append)
qed

text \<open>On a sorted list the search counts the entries that are not greater.\<close>

lemma bisect_right_count: "sorted a \<Longrightarrow> bisect_right a x = length (filter (\<lambda>y. y \<le> x) a)"
proof -
  assume "sorted a"
  from bisect_loop_bounds [OF _ _ this, of 0 "length a" x]
  have b: "bisect_right a x \<le> length a" "\<forall>i < bisect_right a x. a ! i \<le> x"
    "\<forall>i < length a. bisect_right a x \<le> i \<longrightarrow> \<not> a ! i \<le> x"
    by (auto simp: bisect_right_def not_le)
  from filter_take_drop [where P = "\<lambda>y. y \<le> x", OF b(2, 3, 1)] b(1) show ?thesis by simp
qed

lemma bisect_right_le: "sorted a \<Longrightarrow> bisect_right a x \<le> length a"
  by (simp add: bisect_right_count)

lemma insort_append:
  "sorted (as @ bs) \<Longrightarrow> \<forall>y \<in> set as. y \<le> x \<Longrightarrow> \<forall>y \<in> set bs. x < y \<Longrightarrow>
     insort x (as @ bs) = as @ x # bs"
proof (induction as)
  case Nil
  then show ?case by (simp add: insort_is_Cons order_less_imp_le)
next
  case (Cons y as)
  then have IH: "insort x (as @ bs) = as @ x # bs" by simp
  show ?case
  proof (cases "x \<le> y")
    case True
    with Cons.prems have "x = y" by auto
    moreover have "insort x (as @ bs) = x # as @ bs"
      using Cons.prems \<open>x = y\<close> by (intro insort_is_Cons) auto
    ultimately have eq: "y # as @ bs = as @ y # bs" using IH by metis
    have "insort x ((y # as) @ bs) = x # (y # as @ bs)" using True by simp
    also have "\<dots> = x # (as @ y # bs)" unfolding eq ..
    finally show ?thesis unfolding \<open>x = y\<close> append_Cons .
  next
    case False
    then show ?thesis using IH by simp
  qed
qed

text \<open>On a sorted list, \<open>insort\<close> is insertion into the sorted order.\<close>

lemma bisect_insort_sorted: "sorted a \<Longrightarrow> bisect_insort a x = insort x a"
proof -
  assume a: "sorted a"
  let ?k = "bisect_right a x"
  from bisect_loop_bounds [OF _ _ a, of 0 "length a" x]
  have b: "?k \<le> length a" "\<forall>i < ?k. a ! i \<le> x" "\<forall>i < length a. ?k \<le> i \<longrightarrow> x < a ! i"
    by (auto simp: bisect_right_def)
  have lo: "\<forall>y \<in> set (take ?k a). y \<le> x" using b(1, 2) by (auto simp: in_set_conv_nth)
  have hi: "\<forall>y \<in> set (drop ?k a). x < y" using b(3) by (auto simp: in_set_conv_nth)
  have "insort x (take ?k a @ drop ?k a) = take ?k a @ x # drop ?k a"
    using a lo hi by (intro insort_append) auto
  then show ?thesis by (simp add: bisect_insort_def)
qed

end
