(* ===== verification/Routes.thy ===== *)
theory Routes
  imports Py_Seq Ipaddr
begin

text \<open>
  Prefix intent and its resolution (\<open>abstractions/topology/prefix.py\<close>,
  \<open>abstractions/topology/routes.py\<close>, the range validation of
  \<open>abstractions/ixia_semantics.py\<close>, and the prefix arithmetic of
  \<open>abstractions/churn/geometry.py\<close>): which prefixes a formulaic source denotes when some
  candidate indices are excluded, which prefix and next hop each (peer, slot) route carries, and
  which peer-prefix cells a sparse activation switches off.

  Fields have the types of their annotations, so the checks that an integer is not a
  \<open>bool\<close> or some other object cannot fail and are left out.
\<close>

section \<open>Prefix intent\<close>

datatype PeerPrefixDistribution = SHARED | DISJOINT

datatype RouteScaleMode = WINDOWED | FLAT

datatype NextHopMode = SELF | FORMULAIC | EXPLICIT

datatype SelfNextHopRealization = SESSION_LOCAL_ADDRESS

datatype NextHopDistribution = NH_SHARED | PER_PEER | PER_PREFIX | PER_PEER_PREFIX

datatype step_value = StepInt int | StepStr string

record PeerPrefixExclusionBlock =
  prefix_start_index :: int
  ex_prefix_count :: int
  peer_indices :: "int list"

definition mk_exclusion_block :: "int \<Rightarrow> int \<Rightarrow> int list \<Rightarrow> PeerPrefixExclusionBlock result" where
  "mk_exclusion_block start count peers =
     (if start < 0 then Inl (value_error ''peer-prefix exclusion start index must be non-negative'')
      else if count \<le> 0 then Inl (value_error ''peer-prefix exclusion count must be positive'')
      else if peers = [] then Inl (value_error ''peer-prefix exclusion block must name at least one peer'')
      else if list_ex (\<lambda>p. p < 0) peers
      then Inl (value_error ''peer-prefix exclusion indices must be non-negative'')
      else if sorted_list_of_set (set peers) \<noteq> peers
      then Inl (value_error ''peer-prefix exclusion indices must be sorted and unique'')
      else Inr \<lparr>prefix_start_index = start, ex_prefix_count = count, peer_indices = peers\<rparr>)"

text \<open>\<open>validate_ixia_peer_prefix_exclusion_ranges\<close>\<close>

fun ranges_overlap :: "(int \<times> int) list \<Rightarrow> bool" where
  "ranges_overlap (a # b # rs) = (fst a + snd a > fst b \<or> ranges_overlap (b # rs))"
| "ranges_overlap _ = False"

definition validate_exclusion_ranges :: "(int \<times> int) list \<Rightarrow> int option \<Rightarrow> unit result" where
  "validate_exclusion_ranges ranges prefixes_per_peer =
     (if sort_key fst ranges \<noteq> ranges
      then Inl (value_error ''peer-prefix exclusion blocks must be ordered'')
      else if ranges_overlap ranges
      then Inl (value_error ''peer-prefix exclusion blocks must not overlap'')
      else case prefixes_per_peer of
        None \<Rightarrow> Inr ()
      | Some n \<Rightarrow>
          if list_ex (\<lambda>(start, count). start + count > n) ranges
          then Inl (value_error ''peer-prefix exclusion block exceeds the advertisement prefix window'')
          else Inr ())"

definition block_range :: "PeerPrefixExclusionBlock \<Rightarrow> int \<times> int" where
  "block_range b = (prefix_start_index b, ex_prefix_count b)"

record PeerPrefixActivation =
  exclusion_blocks :: "PeerPrefixExclusionBlock list"

definition mk_activation :: "PeerPrefixExclusionBlock list \<Rightarrow> PeerPrefixActivation result" where
  "mk_activation blocks =
     (if blocks = [] then Inl (value_error ''peer-prefix activation requires exclusion blocks'')
      else rbind (validate_exclusion_ranges (map block_range blocks) None)
             (\<lambda>_. Inr \<lparr>exclusion_blocks = blocks\<rparr>))"

definition validate_block_geometry :: "int \<Rightarrow> PeerPrefixExclusionBlock \<Rightarrow> unit result" where
  "validate_block_geometry peer_count b =
     (if last (peer_indices b) \<ge> peer_count
      then Inl (value_error ''peer-prefix exclusion block references a peer outside the device group'')
      else if int (length (peer_indices b)) \<ge> peer_count
      then Inl (value_error ''peer-prefix exclusion block must leave at least one active peer'')
      else Inr ())"

definition validate_geometry :: "PeerPrefixActivation \<Rightarrow> int \<Rightarrow> int \<Rightarrow> unit result" where
  "validate_geometry a peer_count prefixes_per_peer =
     rbind (validate_exclusion_ranges (map block_range (exclusion_blocks a)) (Some prefixes_per_peer))
       (\<lambda>_. rfold (\<lambda>_. validate_block_geometry peer_count) () (exclusion_blocks a))"

record FormulaicPrefixSource =
  start_prefix :: string
  prefix_step :: step_value
  prefix_length :: int
  prefix_count :: int
  parent_network :: string
  excluded_indices :: "int list"

record PrefixSet =
  ps_name :: string
  ps_afi :: string
  ps_source :: FormulaicPrefixSource

record PrefixMembership =
  start_index :: int
  member_count :: int

record PrefixAllocation =
  prefixes_per_peer :: int
  peer_distribution :: PeerPrefixDistribution
  network_group_index :: int
  route_scale_mode :: RouteScaleMode

definition distinct_prefix_count :: "PrefixAllocation \<Rightarrow> int \<Rightarrow> int" where
  "distinct_prefix_count a peer_count =
     (if peer_distribution a = SHARED then prefixes_per_peer a
      else peer_count * prefixes_per_peer a)"

section \<open>Formulaic sequences\<close>

fun step_as_int :: "step_value \<Rightarrow> int \<Rightarrow> int result" where
  "step_as_int (StepInt n) version = Inr n"
| "step_as_int (StepStr s) version =
     rbind (ip_address s) (\<lambda>parsed.
       if ip_version parsed \<noteq> version
       then Inl (value_error ''step AFI does not match its starting address'')
       else Inr (ip_int parsed))"

record FormulaicPrefixSequence =
  fps_source :: FormulaicPrefixSource
  fps_start :: ip_addr
  fps_step :: int
  fps_excluded :: "int list"

definition exclusions_valid :: "int \<Rightarrow> int list \<Rightarrow> bool" where
  "exclusions_valid count excluded \<longleftrightarrow>
     list_all (\<lambda>(l, r). l < r) (zip excluded (tl excluded))
     \<and> list_all (\<lambda>i. 0 \<le> i \<and> i < count + int (length excluded)) excluded"

definition excluded_logical_indices :: "int list \<Rightarrow> int list" where
  "excluded_logical_indices excluded =
     map (\<lambda>(ordinal, candidate). candidate - int ordinal) (enumerate 0 excluded)"

definition mk_FormulaicPrefixSequence ::
    "FormulaicPrefixSource \<Rightarrow> FormulaicPrefixSequence result" where
  "mk_FormulaicPrefixSequence source =
     (if prefix_count source \<le> 0
      then Inl (value_error ''formulaic prefix count must be a positive integer'')
      else if \<not> exclusions_valid (prefix_count source) (excluded_indices source)
      then Inl (value_error ''excluded indices must be unique, sorted, and inside the candidate span'')
      else rbind (ip_address (start_prefix source)) (\<lambda>start.
           rbind (step_as_int (prefix_step source) (ip_version start)) (\<lambda>step.
             Inr \<lparr>fps_source = source, fps_start = start, fps_step = step,
                  fps_excluded = excluded_logical_indices (excluded_indices source)\<rparr>)))"

definition fps_len :: "FormulaicPrefixSequence \<Rightarrow> int" where
  "fps_len s = prefix_count (fps_source s)"

definition candidate_index :: "FormulaicPrefixSequence \<Rightarrow> int \<Rightarrow> int" where
  "candidate_index s i = i + int (bisect_right (fps_excluded s) i)"

definition fps_item :: "FormulaicPrefixSequence \<Rightarrow> int \<Rightarrow> string result" where
  "fps_item s i =
     rbind (ip_of_int (ip_version (fps_start s)) (ip_int (fps_start s) + candidate_index s i * fps_step s))
       (\<lambda>a. Inr (ip_str a))"

abbreviation fps_getitem :: "FormulaicPrefixSequence \<Rightarrow> int \<Rightarrow> string result" where
  "fps_getitem s \<equiv> seq_getitem (fps_len s) (fps_item s)"

abbreviation fps_slice :: "FormulaicPrefixSequence \<Rightarrow> slice \<Rightarrow> string list result" where
  "fps_slice s \<equiv> seq_slice (fps_len s) (fps_item s)"

record FormulaicAddressSequence =
  fas_start :: ip_addr
  fas_step :: int
  fas_count :: int

definition mk_FormulaicAddressSequence ::
    "string \<Rightarrow> step_value \<Rightarrow> int \<Rightarrow> FormulaicAddressSequence result" where
  "mk_FormulaicAddressSequence start step count =
     rbind (ip_address start) (\<lambda>a.
       rbind (step_as_int step (ip_version a)) (\<lambda>n.
         Inr \<lparr>fas_start = a, fas_step = n, fas_count = count\<rparr>))"

definition fas_item :: "FormulaicAddressSequence \<Rightarrow> int \<Rightarrow> string result" where
  "fas_item s i =
     rbind (ip_of_int (ip_version (fas_start s)) (ip_int (fas_start s) + i * fas_step s))
       (\<lambda>a. Inr (ip_str a))"

abbreviation fas_getitem :: "FormulaicAddressSequence \<Rightarrow> int \<Rightarrow> string result" where
  "fas_getitem s \<equiv> seq_getitem (fas_count s) (fas_item s)"

section \<open>The churn step's own prefix arithmetic\<close>

text \<open>
  The loop of \<open>topology_prefix_at\<close> over \<open>range(len(excluded) + 2)\<close>: the number of
  rounds left is its fuel; \<open>None\<close> is the loop's \<open>else\<close>.
\<close>

fun adjust_candidate :: "int list \<Rightarrow> int \<Rightarrow> nat \<Rightarrow> int \<Rightarrow> int option" where
  "adjust_candidate excluded row 0 candidate = None"
| "adjust_candidate excluded row (Suc n) candidate =
     (let adjusted = row + int (bisect_right excluded candidate)
      in if adjusted = candidate then Some candidate
         else adjust_candidate excluded row n adjusted)"

definition topology_prefix_at ::
    "string \<Rightarrow> int \<Rightarrow> int \<Rightarrow> int list \<Rightarrow> int \<Rightarrow> string result" where
  "topology_prefix_at start step count excluded row =
     (if row < 0 \<or> row \<ge> count then Inl (value_error ''topology prefix row is invalid'')
      else case adjust_candidate excluded row (length excluded + 2) row of
        None \<Rightarrow> Inl (value_error ''topology prefix row did not converge around exclusions'')
      | Some candidate \<Rightarrow>
          rbind (ip_address start) (\<lambda>a.
            rbind (ip_of_int (ip_version a) (ip_int a + candidate * step)) (\<lambda>b. Inr (ip_str b))))"

section \<open>Resolved routes\<close>

record FormulaicNextHopSource =
  nhs_start :: string
  nhs_step :: step_value
  nhs_parent :: string

record ExplicitNextHopSource =
  nhs_addresses :: "string list"
  nhs_explicit_parent :: string

record NextHopIntent =
  nh_mode :: NextHopMode
  nh_distribution :: "NextHopDistribution option"
  nh_formulaic_source :: "FormulaicNextHopSource option"
  nh_explicit_source :: "ExplicitNextHopSource option"
  nh_description :: "string option"
  nh_realization :: "SelfNextHopRealization option"

text \<open>Communities as pairs, extended ones with their administrator and number; AS paths as lists.\<close>

record RouteAttributePool =
  community_rows :: "(int \<times> int) list list"
  extended_community_rows :: "(int \<times> int) list list"
  as_paths :: "int list list"

record ResolvedRouteProperties =
  community_row :: "(int \<times> int) list"
  extended_community_row :: "(int \<times> int) list"
  as_path :: "int list option"

text \<open>A policy of an advertisement is an object, of which its communities are read, or a name.\<close>

datatype route_policy = PolicyObject "string list" | PolicyName string

record PrefixAdvertisement =
  adv_name :: string
  adv_prefix_set :: string
  adv_allocation :: PrefixAllocation
  adv_membership :: PrefixMembership
  adv_next_hop :: NextHopIntent
  adv_route_attributes :: "RouteAttributePool option"
  adv_activation :: "PeerPrefixActivation option"
  adv_policy :: "route_policy option"
  adv_attributes :: "(string \<times> pyval) list"
  adv_legacy_ixia_name :: "string option"
  adv_requires_route_mutation :: bool

record ResolvedPrefixSet =
  rps_spec :: PrefixSet
  rps_prefixes :: FormulaicPrefixSequence

datatype next_hop_sequence = FormulaicHops FormulaicAddressSequence | ExplicitHops "string list"

fun next_hops_len :: "next_hop_sequence \<Rightarrow> int" where
  "next_hops_len (FormulaicHops s) = fas_count s"
| "next_hops_len (ExplicitHops xs) = int (length xs)"

fun next_hops_getitem :: "next_hop_sequence \<Rightarrow> int \<Rightarrow> string result" where
  "next_hops_getitem (FormulaicHops s) i = fas_getitem s i"
| "next_hops_getitem (ExplicitHops xs) i = seq_getitem (int (length xs)) (\<lambda>k. Inr (xs ! nat k)) i"

record ResolvedRoutePath =
  path_prefix :: string
  path_prefix_length :: int
  path_next_hop :: string
  path_properties :: ResolvedRouteProperties

record ResolvedRoutePathSequence =
  rs_advertisement :: PrefixAdvertisement
  rs_prefix_set :: ResolvedPrefixSet
  rs_peer_index :: int
  rs_self_next_hop :: string
  rs_next_hops :: "next_hop_sequence option"

definition rs_len :: "ResolvedRoutePathSequence \<Rightarrow> int" where
  "rs_len r = prefixes_per_peer (adv_allocation (rs_advertisement r))"

definition relative_prefix_index :: "PrefixAllocation \<Rightarrow> int \<Rightarrow> int \<Rightarrow> int" where
  "relative_prefix_index a peer slot =
     (if peer_distribution a = SHARED then slot else peer * prefixes_per_peer a + slot)"

definition select_row :: "'a list list \<Rightarrow> int \<Rightarrow> 'a list" where
  "select_row rows index = (if rows = [] then [] else rows ! nat (index mod int (length rows)))"

definition select_as_path :: "RouteAttributePool \<Rightarrow> int \<Rightarrow> int list option" where
  "select_as_path pool index =
     (if as_paths pool = [] then None
      else Some (as_paths pool ! nat (index mod int (length (as_paths pool)))))"

definition route_properties :: "RouteAttributePool option \<Rightarrow> int \<Rightarrow> ResolvedRouteProperties" where
  "route_properties pool ordinal =
     (case pool of
        None \<Rightarrow> \<lparr>community_row = [], extended_community_row = [], as_path = None\<rparr>
      | Some p \<Rightarrow>
          \<lparr>community_row = select_row (community_rows p) ordinal,
           extended_community_row = select_row (extended_community_rows p) ordinal,
           as_path = select_as_path p ordinal\<rparr>)"

fun next_hop_index :: "NextHopDistribution \<Rightarrow> int \<Rightarrow> int \<Rightarrow> int \<Rightarrow> int \<Rightarrow> int" where
  "next_hop_index NH_SHARED peer len slot relative = 0"
| "next_hop_index PER_PEER peer len slot relative = peer"
| "next_hop_index PER_PREFIX peer len slot relative = relative"
| "next_hop_index PER_PEER_PREFIX peer len slot relative = peer * len + slot"

definition next_hop :: "ResolvedRoutePathSequence \<Rightarrow> int \<Rightarrow> int \<Rightarrow> string result" where
  "next_hop r slot relative =
     (let intent = adv_next_hop (rs_advertisement r)
      in if nh_mode intent = SELF then Inr (rs_self_next_hop r)
         else case rs_next_hops r of
           None \<Rightarrow> Inl (value_error ''no resolved next-hop sequence'')
         | Some hops \<Rightarrow>
             (case nh_distribution intent of
                None \<Rightarrow> Inl (value_error ''no next-hop distribution'')
              | Some d \<Rightarrow>
                  (let index = next_hop_index d (rs_peer_index r) (rs_len r) slot relative
                   in if index < 0 \<or> index \<ge> next_hops_len hops
                      then Inl (Exn IndexError ''resolved next-hop index'')
                      else next_hops_getitem hops index)))"

definition rs_item :: "ResolvedRoutePathSequence \<Rightarrow> int \<Rightarrow> ResolvedRoutePath result" where
  "rs_item r slot =
     (let adv = rs_advertisement r;
          relative = relative_prefix_index (adv_allocation adv) (rs_peer_index r) slot;
          prefix_index = start_index (adv_membership adv) + relative;
          prefixes = rps_prefixes (rs_prefix_set r)
      in if prefix_index < 0 \<or> prefix_index \<ge> fps_len prefixes
         then Inl (Exn IndexError ''resolved prefix index outside prefix set'')
         else rbind (fps_getitem prefixes prefix_index) (\<lambda>prefix.
              rbind (next_hop r slot relative) (\<lambda>hop.
                Inr \<lparr>path_prefix = prefix,
                     path_prefix_length = prefix_length (ps_source (rps_spec (rs_prefix_set r))),
                     path_next_hop = hop,
                     path_properties = route_properties (adv_route_attributes adv) relative\<rparr>)))"

abbreviation rs_getitem :: "ResolvedRoutePathSequence \<Rightarrow> int \<Rightarrow> ResolvedRoutePath result" where
  "rs_getitem r \<equiv> seq_getitem (rs_len r) (rs_item r)"

text \<open>\<open>ResolvedPrefixAdvertisement.path_at\<close>: a tuple of sequences indexed by peer.\<close>

definition path_at :: "ResolvedRoutePathSequence list \<Rightarrow> int \<Rightarrow> int \<Rightarrow> ResolvedRoutePath result" where
  "path_at paths_by_peer peer_index prefix_index =
     rbind (seq_getitem (int (length paths_by_peer)) (\<lambda>k. Inr (paths_by_peer ! nat k)) peer_index)
       (\<lambda>paths. rs_getitem paths prefix_index)"

section \<open>The reference: the candidates that are not excluded, in order\<close>

definition candidates :: "int \<Rightarrow> int list \<Rightarrow> int list" where
  "candidates count excluded =
     filter (\<lambda>k. k \<notin> set excluded) [0 .. count + int (length excluded) - 1]"

text \<open>Which cells an activation leaves active, and what the block constructor guarantees.\<close>

definition block_covers :: "PeerPrefixExclusionBlock \<Rightarrow> int \<Rightarrow> bool" where
  "block_covers b p \<longleftrightarrow> prefix_start_index b \<le> p \<and> p < prefix_start_index b + ex_prefix_count b"

definition cell_active :: "PeerPrefixActivation \<Rightarrow> int \<Rightarrow> int \<Rightarrow> bool" where
  "cell_active a peer p \<longleftrightarrow>
     \<not> list_ex (\<lambda>b. block_covers b p \<and> peer \<in> set (peer_indices b)) (exclusion_blocks a)"

definition block_made :: "PeerPrefixExclusionBlock \<Rightarrow> bool" where
  "block_made b \<longleftrightarrow>
     mk_exclusion_block (prefix_start_index b) (ex_prefix_count b) (peer_indices b) = Inr b"

text \<open>A source for the witnesses.\<close>

definition demo_source :: FormulaicPrefixSource where
  "demo_source = \<lparr>start_prefix = ''10.0.0.0'', prefix_step = StepInt 1, prefix_length = 32,
     prefix_count = 3, parent_network = ''10.0.0.0/8'', excluded_indices = [1, 3]\<rparr>"

definition demo_allocation :: PrefixAllocation where
  "demo_allocation = \<lparr>prefixes_per_peer = 3, peer_distribution = DISJOINT, network_group_index = 0,
     route_scale_mode = WINDOWED\<rparr>"

definition demo_block :: PeerPrefixExclusionBlock where
  "demo_block = \<lparr>prefix_start_index = 2, ex_prefix_count = 3, peer_indices = [0]\<rparr>"

lemma demo_address: "ip_address ''10.0.0.0'' = Inr (IPv4 167772160)"
  by (simp add: ip_address_def parse_ip_def ipv4_of_string_def parse_octet_def is_digit_def
      parse_dec_def digit_val_def)

lemma demo_print: "ipv4_str 167772164 = ''10.0.0.4''"
  by code_simp

lemmas demo_eval = mk_FormulaicPrefixSequence_def demo_source_def exclusions_valid_def demo_address

section \<open>Lemmas: rank among the exclusions\<close>

abbreviation rank :: "int list \<Rightarrow> int \<Rightarrow> int" where
  "rank ex c \<equiv> int (length (filter (\<lambda>e. e \<le> c) ex))"

lemma adjacent_sorted: "list_all (\<lambda>(l, r). l < r) (zip xs (tl xs)) \<longleftrightarrow> sorted_wrt (<) (xs :: int list)"
proof (induction xs rule: induct_list012)
  case (3 x y zs)
  have "sorted_wrt (<) (x # y # zs) \<longleftrightarrow> x < y \<and> sorted_wrt (<) (y # zs)" by auto
  with 3 show ?case by simp
qed simp_all

lemma exclusions_validD:
  assumes "exclusions_valid count ex"
  shows "sorted_wrt (<) ex" "sorted ex" "distinct ex"
    "\<And>e. e \<in> set ex \<Longrightarrow> 0 \<le> e \<and> e < count + int (length ex)"
proof -
  show sw: "sorted_wrt (<) ex" using assms by (simp add: exclusions_valid_def adjacent_sorted)
  then show "sorted ex" "distinct ex" by (simp_all add: strict_sorted_iff)
  show "e \<in> set ex \<Longrightarrow> 0 \<le> e \<and> e < count + int (length ex)" for e
    using assms by (simp add: exclusions_valid_def list_all_iff)
qed

lemma rank_card:
  "distinct ex \<Longrightarrow> (\<And>e. e \<in> set ex \<Longrightarrow> 0 \<le> e) \<Longrightarrow> c \<notin> set ex \<Longrightarrow>
     rank ex c = int (card (set ex \<inter> {0..c - 1}))"
proof -
  assume d: "distinct ex" and nn: "\<And>e. e \<in> set ex \<Longrightarrow> 0 \<le> e" and c: "c \<notin> set ex"
  have "set (filter (\<lambda>e. e \<le> c) ex) = set ex \<inter> {0..c - 1}"
    using nn c by (auto simp: order_le_less)
  moreover have "length (filter (\<lambda>e. e \<le> c) ex) = card (set (filter (\<lambda>e. e \<le> c) ex))"
    using d by (simp add: distinct_card del: set_filter)
  ultimately show ?thesis by simp
qed

lemma length_filter_upto:
  assumes "distinct ex" "\<And>e. e \<in> set ex \<Longrightarrow> 0 \<le> e" "c \<notin> set ex" "0 \<le> c"
  shows "int (length (filter (\<lambda>k. k \<notin> set ex) [0..c - 1])) = c - rank ex c"
proof -
  have "length (filter (\<lambda>k. k \<notin> set ex) [0..c - 1]) = card ({0..c - 1} - set ex)"
    by (simp add: distinct_length_filter Int_commute Diff_eq set_diff_eq Int_def)
       (rule arg_cong [of _ _ card], auto)
  also have "\<dots> = card {0..c - 1} - card (set ex \<inter> {0..c - 1})"
    by (simp add: card_Diff_subset_Int Int_commute)
  finally have eq: "length (filter (\<lambda>k. k \<notin> set ex) [0..c - 1])
      = card {0..c - 1} - card (set ex \<inter> {0..c - 1})" .
  have "card (set ex \<inter> {0..c - 1}) \<le> card {0..c - 1}" by (intro card_mono) auto
  then show ?thesis using eq rank_card [OF assms(1, 2, 3)] assms(4) by simp
qed

text \<open>The candidate \<open>c\<close> that is not excluded is the \<open>(c - rank ex c)\<close>-th of the reference.\<close>

lemma candidates_nth:
  assumes ex: "exclusions_valid count ex" and c: "c \<notin> set ex" "0 \<le> c" "c < count + int (length ex)"
  shows "c - rank ex c < int (length (candidates count ex))"
    and "candidates count ex ! nat (c - rank ex c) = c"
proof -
  let ?P = "\<lambda>k. k \<notin> set ex"
  have "[0 .. count + int (length ex) - 1] = [0 .. c - 1] @ c # [c + 1 .. count + int (length ex) - 1]"
    using c(2, 3) by (metis add_diff_cancel_right' upto_rec1 upto_split1 le_add_diff_inverse zle_diff1_eq
        diff_ge_0_iff_ge linorder_not_le upto_split2)
  then have split: "candidates count ex
      = filter ?P [0 .. c - 1] @ c # filter ?P [c + 1 .. count + int (length ex) - 1]"
    using c(1) by (simp add: candidates_def)
  have len: "nat (c - rank ex c) = length (filter ?P [0 .. c - 1])"
    and le: "c - rank ex c = int (length (filter ?P [0 .. c - 1]))"
    using length_filter_upto [OF exclusions_validD(3) [OF ex] _ c(1, 2)] exclusions_validD(4) [OF ex]
    by (metis nat_int)+
  show "candidates count ex ! nat (c - rank ex c) = c" unfolding len split by (simp add: nth_append)
  show "c - rank ex c < int (length (candidates count ex))" unfolding le split by simp
qed

section \<open>Lemmas: both computations find that candidate\<close>

lemma logical_nth:
  "j < length ex \<Longrightarrow> excluded_logical_indices ex ! j = ex ! j - int j"
  by (simp add: excluded_logical_indices_def nth_enumerate_eq)

lemma length_logical [simp]: "length (excluded_logical_indices ex) = length ex"
  by (simp add: excluded_logical_indices_def)

lemma strict_gap:
  "sorted_wrt (<) (ex :: int list) \<Longrightarrow> i \<le> j \<Longrightarrow> j < length ex \<Longrightarrow> ex ! i + int (j - i) \<le> ex ! j"
proof (induction "j - i" arbitrary: j)
  case 0
  then show ?case by simp
next
  case (Suc d)
  have "ex ! i + int (j - 1 - i) \<le> ex ! (j - 1)" using Suc.hyps(1) [of "j - 1"] Suc.hyps(2) Suc.prems by auto
  moreover have "ex ! (j - 1) < ex ! j"
    using sorted_wrt_nth_less [of "(<)" ex "j - 1" j] Suc by auto
  ultimately show ?case using Suc by simp
qed

lemma logical_sorted: "sorted_wrt (<) ex \<Longrightarrow> sorted (excluded_logical_indices ex)"
  unfolding sorted_iff_nth_mono
proof (intro allI impI)
  fix i j
  assume ex: "sorted_wrt (<) ex" and ij: "i \<le> j" "j < length (excluded_logical_indices ex)"
  then show "excluded_logical_indices ex ! i \<le> excluded_logical_indices ex ! j"
    using strict_gap [OF ex, of i j] by (simp add: logical_nth)
qed

lemma logical_shift:
  assumes ex: "sorted_wrt (<) ex" and c: "c = i + int (bisect_right (excluded_logical_indices ex) i)"
  shows "c \<notin> set ex \<and> rank ex c = c - i"
proof -
  let ?k = "bisect_right (excluded_logical_indices ex) i"
  from bisect_loop_bounds [OF _ _ logical_sorted [OF ex], of 0 "length ex" i]
  have k: "?k \<le> length ex" "\<forall>j < ?k. excluded_logical_indices ex ! j \<le> i"
    "\<forall>j < length ex. ?k \<le> j \<longrightarrow> i < excluded_logical_indices ex ! j"
    by (auto simp: bisect_right_def)
  have lo: "\<forall>j < ?k. ex ! j < c"
    using k(1, 2) c by (auto simp: logical_nth)
  have hi: "\<forall>j < length ex. ?k \<le> j \<longrightarrow> c < ex ! j"
    using k(3) c by (fastforce simp: logical_nth)
  have "c \<notin> set ex" using lo hi by (metis in_set_conv_nth less_irrefl not_le)
  moreover have "filter (\<lambda>e. e \<le> c) ex = take ?k ex"
    by (rule filter_take_drop) (use lo hi k(1) in \<open>auto simp: order_less_imp_le not_le\<close>)
  ultimately show ?thesis using k(1) c by simp
qed

lemma rank_mono: "c \<le> d \<Longrightarrow> rank ex c \<le> rank ex d"
  by (induction ex) auto

lemma rank_diff:
  assumes "distinct ex" "d \<notin> set ex" "c < d"
  shows "rank ex d - rank ex c < d - c"
proof -
  have split: "length (filter (\<lambda>e. e \<le> d) ex)
      = length (filter (\<lambda>e. e \<le> c) ex) + length (filter (\<lambda>e. c < e \<and> e \<le> d) ex)"
    using assms(3) by (induction ex) auto
  have "length (filter (\<lambda>e. c < e \<and> e \<le> d) ex) = card (set (filter (\<lambda>e. c < e \<and> e \<le> d) ex))"
    using assms(1) by (simp add: distinct_card del: set_filter)
  also have "\<dots> \<le> card {c + 1..d - 1}"
    using assms(2) by (intro card_mono) (auto simp: order_le_less)
  also have "\<dots> = nat (d - 1 - c)" by simp
  finally show ?thesis using split assms(3) by simp
qed

lemma adjust_converges:
  assumes ex: "sorted_wrt (<) ex" and d: "d = row + rank ex d" "d \<notin> set ex"
  shows "c \<le> d \<Longrightarrow> c \<le> row + rank ex c \<Longrightarrow> nat (d - c) < n \<Longrightarrow> adjust_candidate ex row n c = Some d"
proof (induction n arbitrary: c)
  case 0
  then show ?case by simp
next
  case (Suc n)
  have sorted: "sorted ex" "distinct ex" using ex by (simp_all add: strict_sorted_iff)
  let ?a = "row + rank ex c"
  have adj: "adjust_candidate ex row (Suc n) c = (if ?a = c then Some c else adjust_candidate ex row n ?a)"
    by (simp add: Let_def bisect_right_count [OF sorted(1)])
  show ?case
  proof (cases "?a = c")
    case True
    have "c = d"
    proof (rule ccontr)
      assume "c \<noteq> d"
      with rank_diff [OF sorted(2) d(2), of c] Suc.prems(1) d(1) True show False by simp
    qed
    with adj True show ?thesis by simp
  next
    case False
    with Suc.prems(2) have lt: "c < ?a" by simp
    have "?a \<le> d" using rank_mono [OF Suc.prems(1), of ex] d(1) by simp
    moreover have "?a \<le> row + rank ex ?a" using rank_mono [of c ?a ex] lt by simp
    ultimately have "adjust_candidate ex row n ?a = Some d"
      using Suc.IH [of ?a] Suc.prems(3) lt by simp
    with adj False show ?thesis by simp
  qed
qed

lemma candidate_bounds:
  assumes ex: "exclusions_valid count ex" and i: "0 \<le> i" "i < count"
    and c: "c = i + int (bisect_right (excluded_logical_indices ex) i)"
  shows "0 \<le> c" "c < count + int (length ex)"
proof -
  have "rank ex c = c - i" using logical_shift [OF exclusions_validD(1) [OF ex] c] by simp
  moreover have "rank ex c \<le> int (length ex)" by simp
  ultimately show "0 \<le> c" "c < count + int (length ex)" using i c by auto
qed

lemma candidate_is_nth:
  assumes ex: "exclusions_valid count ex" and i: "0 \<le> i" "i < count"
  shows "i < int (length (candidates count ex))"
    and "candidates count ex ! nat i = i + int (bisect_right (excluded_logical_indices ex) i)"
proof -
  define c where "c = i + int (bisect_right (excluded_logical_indices ex) i)"
  have s: "c \<notin> set ex" "c - rank ex c = i"
    using logical_shift [OF exclusions_validD(1) [OF ex] c_def] by auto
  note n = candidates_nth [OF ex s(1) candidate_bounds [OF ex i c_def]]
  show "i < int (length (candidates count ex))"
    and "candidates count ex ! nat i = i + int (bisect_right (excluded_logical_indices ex) i)"
    using n s(2) c_def by simp_all
qed

lemma length_candidates: "exclusions_valid count ex \<Longrightarrow> 0 \<le> count \<Longrightarrow> length (candidates count ex) = nat count"
proof -
  assume ex: "exclusions_valid count ex" and n: "0 \<le> count"
  let ?span = "count + int (length ex)"
  have notin: "?span \<notin> set ex" using exclusions_validD(4) [OF ex] by force
  have all: "filter (\<lambda>e. e \<le> ?span) ex = ex"
    using exclusions_validD(4) [OF ex] by (auto simp: filter_id_conv order_le_less)
  have "int (length (candidates count ex)) = count"
    using length_filter_upto [OF exclusions_validD(3) [OF ex] _ notin] exclusions_validD(4) [OF ex] n all
    by (simp add: candidates_def)
  then show ?thesis by simp
qed

lemma mk_sequence_Inr:
  "mk_FormulaicPrefixSequence source = Inr s \<Longrightarrow>
     0 < prefix_count source \<and> exclusions_valid (prefix_count source) (excluded_indices source)
     \<and> fps_source s = source \<and> ip_address (start_prefix source) = Inr (fps_start s)
     \<and> step_as_int (prefix_step source) (ip_version (fps_start s)) = Inr (fps_step s)
     \<and> fps_excluded s = excluded_logical_indices (excluded_indices source)"
  by (auto simp: mk_FormulaicPrefixSequence_def rbind_eq_Inr split: if_splits)

section \<open>Lemmas: exclusion blocks\<close>

lemma block_madeD:
  assumes "block_made b"
  shows "0 \<le> prefix_start_index b" "0 < ex_prefix_count b" "peer_indices b \<noteq> []"
    "sorted (peer_indices b)" "distinct (peer_indices b)" "\<And>p. p \<in> set (peer_indices b) \<Longrightarrow> 0 \<le> p"
proof -
  show "0 \<le> prefix_start_index b" "0 < ex_prefix_count b" "peer_indices b \<noteq> []"
    using assms by (auto simp: block_made_def mk_exclusion_block_def split: if_splits)
  have eq: "sorted_list_of_set (set (peer_indices b)) = peer_indices b"
    using assms by (auto simp: block_made_def mk_exclusion_block_def split: if_splits)
  show "sorted (peer_indices b)" "distinct (peer_indices b)"
    using eq by (metis sorted_list_of_set.sorted_sorted_key_list_of_set,
        metis sorted_list_of_set.distinct_sorted_key_list_of_set)
  show "p \<in> set (peer_indices b) \<Longrightarrow> 0 \<le> p" for p
    using assms by (auto simp: block_made_def mk_exclusion_block_def list_ex_iff not_less split: if_splits)
qed

lemma ranges_apart:
  "sort_key fst rs = rs \<Longrightarrow> \<not> ranges_overlap rs \<Longrightarrow> (\<And>r. r \<in> set rs \<Longrightarrow> 0 < snd r) \<Longrightarrow>
     sorted_wrt (\<lambda>a b. fst a + snd a \<le> fst (b :: int \<times> int)) rs"
proof (induction rs rule: ranges_overlap.induct)
  case (1 a b rs)
  have srt: "sorted (map fst (a # b # rs))" using 1 by (metis sorted_sort_key)
  then have "sorted (map fst (b # rs))" by simp
  then have "sort_key fst (b # rs) = b # rs" by (rule sort_key_id_if_sorted)
  with 1 have IH: "sorted_wrt (\<lambda>a b. fst a + snd a \<le> fst b) (b # rs)" by simp
  have "fst a + snd a \<le> fst b" using 1 by simp
  moreover have "\<forall>c \<in> set rs. fst b \<le> fst c" using srt by auto
  ultimately show ?case using IH by auto
qed simp_all

lemma validated_blocks:
  "rfold (\<lambda>_. validate_block_geometry n) () bs = Inr () \<Longrightarrow> b \<in> set bs \<Longrightarrow>
     last (peer_indices b) < n \<and> int (length (peer_indices b)) < n"
  by (induction bs) (auto simp: rbind_eq_Inr validate_block_geometry_def split: if_splits)

lemma free_peer:
  assumes "distinct ps" "int (length ps) < n"
  shows "\<exists>peer. 0 \<le> peer \<and> peer < n \<and> peer \<notin> set ps"
proof (rule ccontr)
  assume "\<nexists>peer. 0 \<le> peer \<and> peer < n \<and> peer \<notin> set ps"
  then have "{0..<n} \<subseteq> set ps" by auto
  then have "card {0..<n} \<le> card (set ps)" by (intro card_mono) auto
  with assms show False by (simp add: distinct_card)
qed

lemma apart_unique:
  "sorted_wrt (\<lambda>a b. fst a + snd a \<le> fst (b :: int \<times> int)) (map block_range bs) \<Longrightarrow>
     b \<in> set bs \<Longrightarrow> c \<in> set bs \<Longrightarrow> block_covers b p \<Longrightarrow> block_covers c p \<Longrightarrow> b = c"
proof (induction bs)
  case (Cons x bs)
  have apart: "\<forall>y \<in> set bs. prefix_start_index x + ex_prefix_count x \<le> prefix_start_index y"
    using Cons.prems(1) by (simp add: block_range_def)
  have one: "\<not> (block_covers x p \<and> block_covers y p)" if "y \<in> set bs" for y
    using apart that by (force simp: block_covers_def)
  show ?case using Cons one by auto
qed simp

text \<open>The prefix indices of a device group's peers, relative to the advertisement.\<close>

lemma relative_disjoint_image:
  assumes "0 \<le> ppp"
  shows "(\<lambda>(peer, slot). peer * ppp + slot) ` ({0..<n} \<times> {0..<ppp}) = {0..<n * (ppp :: int)}"
    (is "?f ` _ = _")
proof
  show "?f ` ({0..<n} \<times> {0..<ppp}) \<subseteq> {0..<n * ppp}"
  proof
    fix k
    assume "k \<in> ?f ` ({0..<n} \<times> {0..<ppp})"
    then obtain peer slot where k: "k = peer * ppp + slot"
      and b: "0 \<le> peer" "peer < n" "0 \<le> slot" "slot < ppp" by auto
    then have "(peer + 1) * ppp \<le> n * ppp" by (intro mult_right_mono) auto
    with b k show "k \<in> {0..<n * ppp}" by (simp add: algebra_simps)
  qed
  show "{0..<n * ppp} \<subseteq> ?f ` ({0..<n} \<times> {0..<ppp})"
  proof
    fix k
    assume k: "k \<in> {0..<n * ppp}"
    with assms have pos: "0 < ppp" by (cases "ppp = 0") auto
    have "k div ppp < n" using k pos by (simp add: int_div_less)
    then show "k \<in> ?f ` ({0..<n} \<times> {0..<ppp})"
      using k pos by (intro image_eqI [of _ _ "(k div ppp, k mod ppp)"]) (auto simp: pos_imp_zdiv_nonneg_iff)
  qed
qed

section \<open>Properties\<close>

text \<open>
  C5. A formulaic prefix sequence enumerates exactly the candidates that are not excluded: the
  constructor accepts the source only when there are exactly \<open>count\<close> of them, and the item at
  an index (negative ones count from the end) is the address of the candidate at that position,
  found by one binary search over the shifted exclusions.
\<close>

theorem prefix_sequence_enumerates:
  assumes "mk_FormulaicPrefixSequence source = Inr s" and "0 \<le> i" "i < prefix_count source"
  shows "length (candidates (prefix_count source) (excluded_indices source)) = nat (prefix_count source)
     \<and> candidate_index s i = candidates (prefix_count source) (excluded_indices source) ! nat i
     \<and> fps_getitem s i = fps_getitem s (i - prefix_count source)
     \<and> fps_getitem s i =
         rbind (ip_of_int (ip_version (fps_start s))
                  (ip_int (fps_start s)
                   + candidates (prefix_count source) (excluded_indices source) ! nat i * fps_step s))
           (\<lambda>a. Inr (ip_str a))"
proof -
  note mk = mk_sequence_Inr [OF assms(1)]
  have len: "fps_len s = prefix_count source" using mk by (simp add: fps_len_def)
  have ci: "candidate_index s i = candidates (prefix_count source) (excluded_indices source) ! nat i"
    using mk assms(2, 3) by (simp add: candidate_index_def candidate_is_nth)
  have "fps_getitem s (i - prefix_count source) = fps_getitem s i"
    using seq_getitem_negative [of "prefix_count source - i" "prefix_count source" "fps_item s"]
      assms(2, 3) by (simp add: len)
  moreover have "fps_getitem s i = fps_item s i"
    using assms(2, 3) by (simp add: len seq_getitem_inside)
  ultimately show ?thesis
    using length_candidates mk ci by (simp add: fps_item_def)
qed

theorem prefix_sequence_witness:
  "\<exists>s. mk_FormulaicPrefixSequence demo_source = Inr s \<and> fps_getitem s 2 = Inr ''10.0.0.4''
     \<and> candidates 3 [1, 3] = [0, 2, 4] \<and> candidate_index s 2 = candidates 3 [1, 3] ! nat 2
     \<and> fps_getitem s 2 = fps_getitem s (2 - 3)"
proof -
  have c: "candidates 3 [1, 3] = [0, 2, 4]" by (simp add: candidates_def upto.simps)
  obtain s where s: "mk_FormulaicPrefixSequence demo_source = Inr s" and start: "fps_start s = IPv4 167772160"
      and step: "fps_step s = 1"
    by (simp add: demo_eval)
  from prefix_sequence_enumerates [OF s, of 2]
  have "candidate_index s 2 = candidates 3 [1, 3] ! nat 2 \<and> fps_getitem s 2 = fps_getitem s (2 - 3)
     \<and> fps_getitem s 2 = rbind (ip_of_int (ip_version (fps_start s))
          (ip_int (fps_start s) + candidates 3 [1, 3] ! nat 2 * fps_step s)) (\<lambda>a. Inr (ip_str a))"
    by (simp add: demo_source_def del: rbind.simps) argo
  with s c start step show ?thesis
    by (auto simp: ip_of_int_def max_prefixlen_def demo_print)
qed

text \<open>
  C24. The two prefix computations of the repository agree: for a valid source with an integer
  step, \<open>topology_prefix_at\<close> of the churn code, which iterates a fixed point, always converges
  within its \<open>len(excluded) + 2\<close> rounds and gives the same prefix as the topology's own
  sequence.
\<close>

theorem topology_prefix_at_agrees:
  assumes "mk_FormulaicPrefixSequence source = Inr s" and "prefix_step source = StepInt step"
    and "0 \<le> row" "row < prefix_count source"
  shows "topology_prefix_at (start_prefix source) step (prefix_count source) (excluded_indices source) row
     = fps_getitem s row"
proof -
  note mk = mk_sequence_Inr [OF assms(1)]
  let ?ex = "excluded_indices source"
  have sw: "sorted_wrt (<) ?ex" using mk exclusions_validD(1) by blast
  define d where "d = candidate_index s row"
  have d: "d \<notin> set ?ex" "rank ?ex d = d - row"
    using logical_shift [OF sw, of d row] mk by (auto simp: d_def candidate_index_def)
  have "rank ?ex d \<le> int (length ?ex)" by simp
  then have "adjust_candidate ?ex row (length ?ex + 2) row = Some d"
    using d by (intro adjust_converges [OF sw]) auto
  moreover have "step = fps_step s" using mk assms(2) by simp
  ultimately show ?thesis
    using mk assms(3, 4) by (simp add: topology_prefix_at_def fps_len_def seq_getitem_inside fps_item_def d_def)
qed

theorem topology_prefix_at_witness:
  "\<exists>s. mk_FormulaicPrefixSequence demo_source = Inr s
     \<and> topology_prefix_at ''10.0.0.0'' 1 3 [1, 3] 1 = fps_getitem s 1"
proof -
  obtain s where s: "mk_FormulaicPrefixSequence demo_source = Inr s" by (simp add: demo_eval)
  from topology_prefix_at_agrees [OF s, of 1 1] s show ?thesis by (simp add: demo_source_def)
qed



text \<open>
  A sparse activation that passed its checks never silences a prefix: at most one exclusion
  block covers any prefix index, and at every prefix index some peer of the group stays active.
\<close>

theorem activation_leaves_a_peer:
  assumes made: "\<And>b. b \<in> set blocks \<Longrightarrow> block_made b" and act: "mk_activation blocks = Inr a"
    and geo: "validate_geometry a peer_count prefixes = Inr ()"
  shows "(\<exists>peer. 0 \<le> peer \<and> peer < peer_count \<and> cell_active a peer p)
     \<and> (\<forall>b \<in> set blocks. \<forall>c \<in> set blocks. block_covers b p \<and> block_covers c p \<longrightarrow> b = c)"
proof -
  have a: "exclusion_blocks a = blocks" "blocks \<noteq> []"
    and rng: "sort_key fst (map block_range blocks) = map block_range blocks"
      "\<not> ranges_overlap (map block_range blocks)"
    using act by (auto simp: mk_activation_def validate_exclusion_ranges_def rbind_eq_Inr split: if_splits)
  have "sorted_wrt (\<lambda>a b. fst a + snd a \<le> fst b) (map block_range blocks)"
    using made by (intro ranges_apart [OF rng]) (auto simp: block_range_def block_madeD(2))
  note unique = apart_unique [OF this]
  have small: "int (length (peer_indices b)) < peer_count" if "b \<in> set blocks" for b
    using geo that a(1) validated_blocks by (auto simp: validate_geometry_def rbind_eq_Inr)
  have "\<exists>peer. 0 \<le> peer \<and> peer < peer_count \<and> cell_active a peer p"
  proof (cases "\<exists>b \<in> set blocks. block_covers b p")
    case True
    then obtain b where b: "b \<in> set blocks" "block_covers b p" by blast
    obtain peer where "0 \<le> peer" "peer < peer_count" "peer \<notin> set (peer_indices b)"
      using free_peer [OF block_madeD(5) [OF made [OF b(1)]] small [OF b(1)]] by blast
    then show ?thesis using unique b a(1) by (auto simp: cell_active_def list_ex_iff)
  next
    case False
    moreover have "0 < peer_count" using small [OF hd_in_set [OF a(2)]] by linarith
    ultimately show ?thesis using a(1) by (auto simp: cell_active_def list_ex_iff intro!: exI [of _ 0])
  qed
  then show ?thesis using unique by blast
qed

theorem activation_witness:
  "\<exists>a. mk_activation [demo_block] = Inr a \<and> validate_geometry a 2 10 = Inr ()
     \<and> \<not> cell_active a 0 3 \<and> (\<exists>peer. 0 \<le> peer \<and> peer < 2 \<and> cell_active a peer 3)"
proof -
  obtain a where a: "mk_activation [demo_block] = Inr a" "validate_geometry a 2 10 = Inr ()"
      "\<not> cell_active a 0 3"
    by (simp add: mk_activation_def validate_exclusion_ranges_def validate_geometry_def block_range_def
        validate_block_geometry_def demo_block_def cell_active_def block_covers_def)
  have "block_made b" if "b \<in> set [demo_block]" for b
    using that by (simp add: block_made_def mk_exclusion_block_def demo_block_def)
  from activation_leaves_a_peer [OF this a(1, 2), of 3] a show ?thesis by blast
qed

end
