(* ===== verification/Churn_Geometry.thy ===== *)
theory Churn_Geometry
  imports Routes "HOL-Library.Char_ord" "HOL-Library.List_Lexorder" "HOL-Library.Product_Lexorder"
begin

text \<open>
  The hardware-independent parts of churn runs: target and prefix selection
  (\<open>abstractions/churn/geometry.py\<close>), the observations it works on
  (\<open>abstractions/churn/observations.py\<close>) and the comparisons of observed state with a baseline
  (\<open>abstractions/churn/verification.py\<close>). \<open>topology_prefix_at\<close> is in the theory of routes.
  Attribute values are dynamic values; two mappings are equal when they have the same keys and
  equal values, whatever their order.
\<close>

section \<open>Observations\<close>

record Block =
  blk_afi :: string
  blk_plane :: int
  blk_row :: int
  blk_pool_name :: string
  blk_peer :: string
  blk_prefixes :: "string list"
  blk_route_peer :: "string option"

definition rib_peer :: "Block \<Rightarrow> string" where
  "rib_peer b = (case blk_route_peer b of Some (c # cs) \<Rightarrow> c # cs | _ \<Rightarrow> blk_peer b)"

record Counters =
  ct_state :: string
  ct_reset_time :: pyval
  ct_uptime :: int
  ct_resets :: int
  ct_flaps :: int
  ct_recv4 :: int
  ct_recv6 :: int
  ct_recv_withdrawals :: int
  ct_sent4 :: int
  ct_sent6 :: int
  ct_sent_withdrawals :: int
  ct_peer_asn :: int
  ct_recv_update_msgs :: int

record RouteState =
  rt_rib_version :: int
  rt_pending :: bool
  rt_best_peers :: "string list"
  rt_peer_attributes :: "(string, (string, pyval) dict) dict"

section \<open>Row and prefix selection\<close>

definition select_uniform_rows :: "int \<Rightarrow> int \<Rightarrow> int list result" where
  "select_uniform_rows row_count count =
     (if count < 2 \<or> row_count < count
      then Inl (value_error ''selected block count must be between 2 and row count'')
      else Inr (map (\<lambda>k. (int k * (row_count - 1)) div (count - 1)) [0 ..< nat count]))"

text \<open>
  \<open>1 << (max_prefixlen - prefix_length)\<close> raises on a negative shift; \<open>address + n\<close> is
  the address constructor of the same version.
\<close>

definition sample_prefix_range ::
    "string \<Rightarrow> int \<Rightarrow> int \<Rightarrow> int \<Rightarrow> string option \<Rightarrow> (string \<times> string) result" where
  "sample_prefix_range start prefix_len route_count sample_count concrete_last =
     (if route_count \<noteq> 750 \<or> sample_count \<noteq> 2
      then Inl (value_error ''CICD-EBB-10 geometry requires 750 routes and 2 samples'')
      else rbind (ip_address start) (\<lambda>address.
        (let shift = int (max_prefixlen (ip_version address)) - prefix_len
         in if shift < 0 then Inl (value_error ''negative shift count'')
            else rbind (case concrete_last of
                          Some s \<Rightarrow> ip_address s
                        | None \<Rightarrow> ip_of_int (ip_version address)
                                    (ip_int address + (route_count - 1) * 2 ^ nat shift))
              (\<lambda>last_address.
                if ip_version last_address \<noteq> ip_version address \<or> ip_int last_address < ip_int address
                then Inl (value_error ''invalid concrete IXIA range'')
                else Inr (ip_str address @ ''/'' @ show_int prefix_len,
                          ip_str last_address @ ''/'' @ show_int prefix_len)))))"

section \<open>Comparison peers\<close>

text \<open>The nested loops over blocks and their prefixes, as one sequence of table entries.\<close>

definition occurrences :: "Block list \<Rightarrow> ((string \<times> int) \<times> string) list" where
  "occurrences blocks =
     concat (map (\<lambda>b. map (\<lambda>p. ((p, blk_plane b), rib_peer b)) (blk_prefixes b)) blocks)"

type_synonym peers_by_plane = "(int, string list) dict"

definition peers_by_prefix :: "Block list \<Rightarrow> (string, peers_by_plane) dict" where
  "peers_by_prefix blocks =
     foldl (\<lambda>d kv. nested_set (fst kv)
              ((case nested_get d (fst kv) of None \<Rightarrow> [] | Some ps \<Rightarrow> ps) @ [snd kv]) d)
       [] (occurrences blocks)"

definition compare_prefix :: "peers_by_plane \<Rightarrow> (string \<times> string set) result" where
  "compare_prefix by_plane =
     (if set (dict_keys by_plane) \<noteq> {1, 2, 3, 4}
      then Inl (value_error ''comparison geometry requires planes 1-4'')
      else if list_ex (\<lambda>(plane, peers). length peers \<noteq> 1) by_plane
      then Inl (value_error ''expected exactly one sampled peer per plane'')
      else let peer = (\<lambda>plane. hd (dict_get_or by_plane plane []))
           in if card {peer 1, peer 2, peer 3, peer 4} \<noteq> 4
              then Inl (value_error ''sampled comparison peers must be distinct'')
              else Inr (peer 1, {peer 2, peer 3, peer 4}))"

definition comparison_peers :: "Block list \<Rightarrow> (string, string \<times> string set) dict result" where
  "comparison_peers blocks =
     (if peers_by_prefix blocks = [] then Inl (value_error ''no sampled comparison prefixes'')
      else rmap (\<lambda>(prefix, by_plane). rbind (compare_prefix by_plane) (\<lambda>c. Inr (prefix, c)))
             (peers_by_prefix blocks))"

section \<open>Samples per address family\<close>

type_synonym sample_key = "int \<times> int \<times> string"

definition keep_smallest :: "int \<Rightarrow> sample_key list \<Rightarrow> sample_key \<Rightarrow> sample_key list" where
  "keep_smallest maximum family item =
     (let family' = bisect_insort family item
      in if int (length family') > maximum then butlast family' else family')"

definition sample_step ::
    "int \<Rightarrow> sample_key list \<times> sample_key list \<Rightarrow> string \<Rightarrow> (sample_key list \<times> sample_key list) result" where
  "sample_step maximum acc prefix =
     rbind (ip_network prefix) (\<lambda>network.
       (let item = (ip_int (network_address network), int (net_prefixlen network), prefix)
        in Inr (if ip_version (network_address network) = 4
                then (keep_smallest maximum (fst acc) item, snd acc)
                else (fst acc, keep_smallest maximum (snd acc) item))))"

definition sample_prefixes_by_family :: "string list \<Rightarrow> int \<Rightarrow> string list result" where
  "sample_prefixes_by_family prefixes maximum =
     rbind (rfold (sample_step maximum) ([], []) prefixes)
       (\<lambda>(v4, v6). Inr (map (\<lambda>item. snd (snd item)) (v4 @ v6)))"

section \<open>Row summaries\<close>

text \<open>The loop over the sorted rows; the last range is the one that grows.\<close>

definition add_row :: "(int \<times> int) list \<Rightarrow> int \<Rightarrow> (int \<times> int) list" where
  "add_row ranges row =
     (if ranges = [] \<or> row > snd (last ranges) + 1 then ranges @ [(row, row)]
      else butlast ranges @ [(fst (last ranges), row)])"

definition row_ranges :: "int list \<Rightarrow> (int \<times> int) list" where
  "row_ranges rows = foldl add_row [] (sort rows)"

definition range_value :: "int \<times> int \<Rightarrow> pyval" where
  "range_value r = VDict [(''start'', VInt (fst r)), (''end'', VInt (snd r))]"

definition summarize_rows :: "int list \<Rightarrow> (string, pyval) dict" where
  "summarize_rows rows =
     (let ranges = row_ranges rows
      in [(''count'', VInt (int (length rows))),
          (''total_ranges'', VInt (int (length ranges))),
          (''reported_ranges'', VInt (int (min (length ranges) 10))),
          (''ranges'', VList (map range_value (take 10 ranges))),
          (''truncated'', VBool (length ranges > 10))])"

section \<open>Verification\<close>

definition counter_snapshot :: "Counters \<Rightarrow> (string, pyval) dict" where
  "counter_snapshot c =
     [(''state'', VStr (ct_state c)), (''uptime'', VInt (ct_uptime c)), (''resets'', VInt (ct_resets c)),
      (''flaps'', VInt (ct_flaps c)), (''recv4'', VInt (ct_recv4 c)), (''recv6'', VInt (ct_recv6 c)),
      (''recv_update_msgs'', VInt (ct_recv_update_msgs c)),
      (''recv_withdrawals'', VInt (ct_recv_withdrawals c)), (''sent4'', VInt (ct_sent4 c)),
      (''sent6'', VInt (ct_sent6 c)), (''sent_withdrawals'', VInt (ct_sent_withdrawals c))]"

definition counter_delta :: "Counters \<Rightarrow> Counters \<Rightarrow> (string, pyval) dict" where
  "counter_delta b a =
     [(''state'', VStr (ct_state a)), (''uptime'', VInt (ct_uptime a - ct_uptime b)),
      (''resets'', VInt (ct_resets a - ct_resets b)), (''flaps'', VInt (ct_flaps a - ct_flaps b)),
      (''recv4'', VInt (ct_recv4 a - ct_recv4 b)), (''recv6'', VInt (ct_recv6 a - ct_recv6 b)),
      (''recv_update_msgs'', VInt (ct_recv_update_msgs a - ct_recv_update_msgs b)),
      (''recv_withdrawals'', VInt (ct_recv_withdrawals a - ct_recv_withdrawals b)),
      (''sent4'', VInt (ct_sent4 a - ct_sent4 b)), (''sent6'', VInt (ct_sent6 a - ct_sent6 b)),
      (''sent_withdrawals'', VInt (ct_sent_withdrawals a - ct_sent_withdrawals b))]"

text \<open>\<open>==\<close> on mappings.\<close>

definition dict_eq_by :: "('v \<Rightarrow> 'v \<Rightarrow> bool) \<Rightarrow> ('k, 'v) dict \<Rightarrow> ('k, 'v) dict \<Rightarrow> bool" where
  "dict_eq_by eq d e \<longleftrightarrow>
     list_all (\<lambda>k. case (dict_get d k, dict_get e k) of (Some x, Some y) \<Rightarrow> eq x y | _ \<Rightarrow> False)
       (dict_keys d @ dict_keys e)"

definition route_matches :: "RouteState \<Rightarrow> RouteState option \<Rightarrow> bool" where
  "route_matches before current =
     (case current of
        None \<Rightarrow> False
      | Some after \<Rightarrow> \<not> rt_pending after \<and> rt_best_peers after = rt_best_peers before
          \<and> dict_eq_by (dict_eq_by (=)) (rt_peer_attributes after) (rt_peer_attributes before))"

definition routes_match_baseline :: "(string, RouteState) dict \<Rightarrow> (string, RouteState) dict \<Rightarrow> bool" where
  "routes_match_baseline baseline current =
     list_all (\<lambda>(prefix, before). route_matches before (dict_get current prefix)) baseline"

definition missing_session_peers :: "string set \<Rightarrow> (string, Counters) dict \<Rightarrow> string list" where
  "missing_session_peers expected sessions = sorted_list_of_set (expected - set (dict_keys sessions))"

text \<open>The loop \<open>for peer, before in old.items(): after = new[peer]; if bad: return peer\<close>.\<close>

fun first_violation ::
    "(Counters \<Rightarrow> Counters \<Rightarrow> bool) \<Rightarrow> (string, Counters) dict \<Rightarrow> (string, Counters) dict
     \<Rightarrow> string option result" where
  "first_violation bad [] current = Inr None"
| "first_violation bad ((peer, before) # old) current =
     rbind (dict_index current peer) (\<lambda>after.
       if bad before after then Inr (Some peer) else first_violation bad old current)"

definition baseline_broken :: "Counters \<Rightarrow> Counters \<Rightarrow> bool" where
  "baseline_broken before after \<longleftrightarrow>
     ct_resets after \<noteq> ct_resets before \<or> ct_flaps after \<noteq> ct_flaps before
     \<or> ct_uptime after < ct_uptime before
     \<or> ct_recv_withdrawals after \<noteq> ct_recv_withdrawals before
     \<or> ct_sent_withdrawals after \<noteq> ct_sent_withdrawals before"

definition session_baseline_violation ::
    "(string, Counters) dict \<Rightarrow> (string, Counters) dict \<Rightarrow> string option result" where
  "session_baseline_violation old current = first_violation baseline_broken old current"

definition updates_seen :: "Counters \<Rightarrow> Counters \<Rightarrow> bool" where
  "updates_seen before after \<longleftrightarrow>
     (ct_recv4 after, ct_recv6 after, ct_sent4 after, ct_sent6 after)
       \<noteq> (ct_recv4 before, ct_recv6 before, ct_sent4 before, ct_sent6 before)
     \<or> ct_recv_update_msgs after \<noteq> ct_recv_update_msgs before"

definition quiet_update_violation ::
    "(string, Counters) dict \<Rightarrow> (string, Counters) dict \<Rightarrow> string option result" where
  "quiet_update_violation old current = first_violation updates_seen old current"

definition transition_best_peer ::
    "RouteState \<Rightarrow> RouteState \<Rightarrow> string set \<Rightarrow> bool \<Rightarrow> string result" where
  "transition_best_peer before after expected_peers should_advance =
     (if rt_pending after then Inl (value_error ''path selection is pending'')
      else if should_advance \<and> rt_rib_version after \<le> rt_rib_version before
      then Inl (value_error ''per-prefix RIB version did not advance'')
      else if rt_best_peers after = [] then Inl (value_error ''no best path selected'')
      else if set (rt_best_peers after) - expected_peers \<noteq> {}
      then Inl (value_error ''unexpected best-path peers'')
      else if length (rt_best_peers after) \<noteq> 1
      then Inl (value_error ''expected exactly one deterministic best path'')
      else Inr (hd (rt_best_peers after)))"

definition verify_preferred_path :: "string \<Rightarrow> string \<Rightarrow> string set \<Rightarrow> bool option \<Rightarrow> unit result" where
  "verify_preferred_path best_peer plane1_peer reference_peers preferred =
     (if preferred = Some True \<and> best_peer \<noteq> plane1_peer
      then Inl (value_error ''plane 1 did not become best'')
      else if preferred = Some False \<and> best_peer = plane1_peer
      then Inl (value_error ''plane 1 remained best'')
      else if preferred = Some False \<and> best_peer \<notin> reference_peers
      then Inl (value_error ''no reference plane became best'')
      else Inr ())"

definition verify_prefix_attribute ::
    "(string, RouteState) dict \<Rightarrow> string \<Rightarrow> pyval \<Rightarrow> Block \<Rightarrow> string \<Rightarrow> unit result" where
  "verify_prefix_attribute routes family expected b prefix =
     rbind (dict_index routes prefix) (\<lambda>state.
       if rt_pending state then Inl (value_error ''path selection is pending'')
       else rbind (dict_index (rt_peer_attributes state) (rib_peer b)) (\<lambda>attrs.
            rbind (dict_index attrs family) (\<lambda>actual.
              raise_if (actual \<noteq> expected) (value_error ''unexpected attribute value''))))"

definition verify_route_attributes ::
    "Block list \<Rightarrow> (string, RouteState) dict \<Rightarrow> string \<Rightarrow> pyval \<Rightarrow> int set \<Rightarrow> unit result" where
  "verify_route_attributes blocks routes family expected planes =
     rfold (\<lambda>_ b. if blk_plane b \<notin> planes then Inr ()
                  else rfold (\<lambda>_. verify_prefix_attribute routes family expected b) () (blk_prefixes b))
       () blocks"

section \<open>What the properties speak about\<close>

text \<open>The peers a list of blocks gives for a prefix in a plane, in order.\<close>

definition sampled_peers :: "Block list \<Rightarrow> string \<Rightarrow> int \<Rightarrow> string list" where
  "sampled_peers blocks prefix plane =
     map snd (filter (\<lambda>kv. fst kv = (prefix, plane)) (occurrences blocks))"

text \<open>The sort key of a prefix that parses as a network of the given version.\<close>

definition sample_keys :: "int \<Rightarrow> string list \<Rightarrow> sample_key list" where
  "sample_keys version prefixes =
     concat (map (\<lambda>p. case ip_network p of
                         Inl _ \<Rightarrow> []
                       | Inr n \<Rightarrow> if ip_version (network_address n) = version
                                  then [(ip_int (network_address n), int (net_prefixlen n), p)] else [])
               prefixes)"

text \<open>Ranges in ascending order with a gap between any two of them.\<close>

definition ranges_ok :: "(int \<times> int) list \<Rightarrow> bool" where
  "ranges_ok rs \<longleftrightarrow>
     list_all (\<lambda>r. fst r \<le> snd r) rs \<and> sorted_wrt (\<lambda>a b. snd a + 1 < fst b) rs"

definition rows_of :: "(int \<times> int) list \<Rightarrow> int set" where
  "rows_of rs = (\<Union>r \<in> set rs. {fst r..snd r})"

definition demo_counters :: "int \<Rightarrow> Counters" where
  "demo_counters n = \<lparr>ct_state = ''ESTABLISHED'', ct_reset_time = VNone, ct_uptime = n, ct_resets = 0,
     ct_flaps = 0, ct_recv4 = 0, ct_recv6 = 0, ct_recv_withdrawals = 0, ct_sent4 = 0, ct_sent6 = 0,
     ct_sent_withdrawals = 0, ct_peer_asn = 0, ct_recv_update_msgs = 0\<rparr>"

definition demo_blocks :: "Block list" where
  "demo_blocks = map (\<lambda>n. \<lparr>blk_afi = ''v6'', blk_plane = n, blk_row = 0, blk_pool_name = ''pool'',
     blk_peer = show_int n, blk_prefixes = [''p''], blk_route_peer = None\<rparr>) [1, 2, 3, 4]"

section \<open>Lemmas\<close>

lemma peers_by_prefix_group: "peers_by_prefix blocks = foldl nested.add [] (occurrences blocks)"
  unfolding peers_by_prefix_def nested.add_def nested.entry_def ..

lemma peers_by_prefix_entry: "nested.entry (peers_by_prefix blocks) (p, k) = sampled_peers blocks p k"
  by (simp add: peers_by_prefix_group nested.entry_group sampled_peers_def)
     (simp add: nested.entry_def nested_get_def dict_get_or_def)

lemma distinct_keys_nested: "distinct (dict_keys d) \<Longrightarrow> distinct (dict_keys (foldl nested.add d kvs))"
  by (induction kvs arbitrary: d) (simp_all add: nested.add_def nested_set_def distinct_dict_set)

lemma peers_by_prefix_distinct: "distinct (dict_keys (peers_by_prefix blocks))"
  unfolding peers_by_prefix_group by (rule distinct_keys_nested) (simp add: dict_keys_def)

lemma entry_inner:
  "dict_get d p = Some inner \<Longrightarrow> nested.entry d (p, k) = dict_get_or inner k []"
  by (simp add: nested.entry_def nested_get_def dict_get_or_def)

lemma single_entry:
  assumes "set (dict_keys by_plane) = {1, 2, 3, 4}" "\<not> list_ex (\<lambda>(plane, peers). length peers \<noteq> 1) by_plane"
    "k \<in> {1, 2, 3, 4}"
  shows "dict_get_or by_plane k [] = [hd (dict_get_or by_plane k [])]"
proof -
  have "k \<in> fst ` set by_plane" using assms(1, 3) by (auto simp: dict_keys_def)
  then obtain peers where get: "dict_get by_plane k = Some peers"
    by (metis map_of_eq_None_iff not_Some_eq)
  with assms(2) have "length peers = 1" by (auto simp: list_ex_iff dest: map_of_SomeD)
  with get show ?thesis by (cases peers) (auto simp: dict_get_or_def)
qed

lemma card4_distinct: "card {a, b, c, d} = 4 \<Longrightarrow> distinct [a, b, c, d]"
  using card_distinct [of "[a, b, c, d]"] by simp

lemma compare_prefix_Inr:
  assumes "compare_prefix by_plane = Inr (p1, refs)"
  shows "\<exists>p2 p3 p4. dict_get_or by_plane 1 [] = [p1] \<and> dict_get_or by_plane 2 [] = [p2]
     \<and> dict_get_or by_plane 3 [] = [p3] \<and> dict_get_or by_plane 4 [] = [p4]
     \<and> refs = {p2, p3, p4} \<and> distinct [p1, p2, p3, p4]"
proof -
  let ?peer = "\<lambda>k. hd (dict_get_or by_plane k [])"
  from assms have planes: "set (dict_keys by_plane) = {1, 2, 3, 4}"
    and single: "\<not> list_ex (\<lambda>(plane, peers). length peers \<noteq> 1) by_plane"
    and card: "card {?peer 1, ?peer 2, ?peer 3, ?peer 4} = 4"
    and res: "p1 = ?peer 1" "refs = {?peer 2, ?peer 3, ?peer 4}"
    by (auto simp: compare_prefix_def Let_def split: if_splits)
  have one: "\<exists>x. dict_get_or by_plane k [] = [x]" if "k \<in> {1, 2, 3, 4}" for k
    using single_entry [OF planes single that] by blast
  obtain q1 q2 q3 q4 where q: "dict_get_or by_plane 1 [] = [q1]" "dict_get_or by_plane 2 [] = [q2]"
    "dict_get_or by_plane 3 [] = [q3]" "dict_get_or by_plane 4 [] = [q4]"
    using one [of 1] one [of 2] one [of 3] one [of 4] by auto
  show ?thesis using card4_distinct [OF card] res unfolding q list.sel by blast
qed

lemma comparison_keys:
  "rmap (\<lambda>(prefix, x). rbind (f x) (\<lambda>c. Inr (prefix, c))) d = Inr cmp \<Longrightarrow>
     dict_keys cmp = dict_keys d
     \<and> (\<forall>p c. dict_get cmp p = Some c \<longrightarrow> (\<exists>x. dict_get d p = Some x \<and> f x = Inr c))"
proof (induction d arbitrary: cmp)
  case Nil
  then show ?case by (simp add: dict_keys_def)
next
  case (Cons a d)
  obtain prefix x where a: "a = (prefix, x)" by (cases a)
  with Cons.prems obtain c rest where c: "f x = Inr c"
    and rest: "rmap (\<lambda>(prefix, x). rbind (f x) (\<lambda>c. Inr (prefix, c))) d = Inr rest"
    and cmp: "cmp = (prefix, c) # rest"
    by (auto simp: rbind_eq_Inr)
  from Cons.IH [OF rest] c show ?case by (auto simp: cmp a dict_keys_def)
qed

lemma take_insort:
  "sorted ys \<Longrightarrow> take m (insort x ys) = take m (insort x (take m ys))"
proof (induction ys arbitrary: m)
  case Nil
  show ?case by simp
next
  case (Cons y ys)
  show ?case
  proof (cases m)
    case (Suc n)
    with Cons show ?thesis
      by (cases n) (auto simp: insort_is_Cons)
  qed simp
qed

lemma keep_smallest_take:
  assumes "family = take (nat m) (sort xs)"
  shows "keep_smallest m family x = take (nat m) (sort (xs @ [x]))"
proof -
  have srt: "sorted family" using assms by (simp add: sorted_wrt_take)
  have ins: "bisect_insort family x = insort x family" by (rule bisect_insort_sorted [OF srt])
  have "sort (xs @ [x]) = insort x (sort xs)"
    by (simp add: sort_key_conv_fold fold_append)
  then have "take (nat m) (sort (xs @ [x])) = take (nat m) (insort x family)"
    using take_insort [of "sort xs" "nat m" x] assms by simp
  moreover have "length family \<le> nat m" using assms by simp
  then have "keep_smallest m family x = take (nat m) (insort x family)"
  proof (cases "int (length (insort x family)) > m")
    case True
    with \<open>length family \<le> nat m\<close> have "length family = nat m" by simp
    with True show ?thesis by (simp add: keep_smallest_def ins Let_def butlast_conv_take)
  qed (simp add: keep_smallest_def ins Let_def)
  ultimately show ?thesis by simp
qed

lemma sample_step_Inr:
  assumes "sample_step m (take (nat m) (sort xs), take (nat m) (sort ys)) p = Inr acc"
  shows "acc = (take (nat m) (sort (xs @ sample_keys 4 [p])), take (nat m) (sort (ys @ sample_keys 6 [p])))"
proof -
  from assms obtain n where n: "ip_network p = Inr n" by (auto simp: sample_step_def rbind_eq_Inr)
  with assms ip_version_cases [of "network_address n"] show ?thesis
    by (auto simp: sample_step_def sample_keys_def keep_smallest_take Let_def split: if_splits)
qed

lemma sample_keys_Cons: "sample_keys v (p # ps) = sample_keys v [p] @ sample_keys v ps"
  by (simp add: sample_keys_def)

lemma sample_fold:
  "rfold (sample_step m) (take (nat m) (sort xs), take (nat m) (sort ys)) ps = Inr acc \<Longrightarrow>
     acc = (take (nat m) (sort (xs @ sample_keys 4 ps)), take (nat m) (sort (ys @ sample_keys 6 ps)))"
proof (induction ps arbitrary: xs ys)
  case Nil
  then show ?case by (simp add: sample_keys_def)
next
  case (Cons p ps)
  from Cons.prems obtain acc1 where one: "sample_step m (take (nat m) (sort xs), take (nat m) (sort ys)) p = Inr acc1"
    and rest: "rfold (sample_step m) acc1 ps = Inr acc" by (auto simp: rbind_eq_Inr)
  from Cons.IH [OF rest [unfolded sample_step_Inr [OF one]]] show ?case
    by (simp add: sample_keys_Cons [of _ p ps])
qed

lemma add_row_ok:
  assumes "ranges_ok rs" "rs = [] \<or> snd (last rs) \<le> row"
  shows "ranges_ok (add_row rs row) \<and> add_row rs row \<noteq> [] \<and> snd (last (add_row rs row)) = row
     \<and> rows_of (add_row rs row) = insert row (rows_of rs)"
proof (cases rs rule: rev_cases)
  case Nil
  then show ?thesis by (simp add: add_row_def ranges_ok_def rows_of_def)
next
  case (snoc ps r)
  have ps: "\<forall>a \<in> set ps. snd a + 1 < fst r" "fst r \<le> snd r" "snd r \<le> row"
    and ok: "list_all (\<lambda>r. fst r \<le> snd r) ps" "sorted_wrt (\<lambda>a b. snd a + 1 < fst b) ps"
    using assms snoc by (auto simp: ranges_ok_def sorted_wrt_append)
  show ?thesis
  proof (cases "row > snd r + 1")
    case True
    then show ?thesis
      using snoc ps ok by (fastforce simp: add_row_def ranges_ok_def sorted_wrt_append rows_of_def)
  next
    case False
    then have "{fst r..row} = insert row {fst r..snd r}" using ps by auto
    with False show ?thesis
      using snoc ps ok by (auto simp: add_row_def ranges_ok_def sorted_wrt_append rows_of_def)
  qed
qed

lemma fold_rows_ok:
  "ranges_ok rs \<Longrightarrow> sorted xs \<Longrightarrow> (rs = [] \<or> (\<forall>x \<in> set xs. snd (last rs) \<le> x)) \<Longrightarrow>
     ranges_ok (foldl add_row rs xs) \<and> rows_of (foldl add_row rs xs) = rows_of rs \<union> set xs"
proof (induction xs arbitrary: rs)
  case Nil
  then show ?case by simp
next
  case (Cons x xs)
  from Cons.prems have "rs = [] \<or> snd (last rs) \<le> x" by auto
  from add_row_ok [OF Cons.prems(1) this] Cons show ?case by auto
qed

lemma first_violation_None:
  "first_violation bad old new = Inr None \<longleftrightarrow>
     list_all (\<lambda>(peer, before). \<exists>after. dict_get new peer = Some after \<and> \<not> bad before after) old"
proof (induction old)
  case (Cons a old)
  then show ?case by (cases a) (auto simp: rbind_eq_Inr dict_index_def split: option.splits if_splits)
qed simp

lemma first_violation_total:
  "set (dict_keys old) \<subseteq> set (dict_keys new) \<Longrightarrow> \<exists>v. first_violation bad old new = Inr v"
proof (induction old)
  case (Cons a old)
  obtain peer before where a: "a = (peer, before)" by (cases a)
  with Cons.prems have "peer \<in> fst ` set new" by (auto simp: dict_keys_def)
  then obtain after where "dict_get new peer = Some after" by (metis map_of_eq_None_iff not_Some_eq)
  with Cons a show ?case by (auto simp: dict_index_def dict_keys_def)
qed simp

lemma mod_carry: "0 < (d :: int) \<Longrightarrow> (a mod d + b mod d) div d \<in> {0, 1}"
proof -
  assume d: "0 < d"
  have "a mod d < d" "b mod d < d" "0 \<le> a mod d" "0 \<le> b mod d" using d by simp_all
  then have "0 \<le> a mod d + b mod d" "a mod d + b mod d < 2 * d" by linarith+
  then have "0 \<le> (a mod d + b mod d) div d" "(a mod d + b mod d) div d < 2"
    using d int_div_less by (simp_all add: pos_imp_zdiv_nonneg_iff)
  then show ?thesis by auto
qed

lemma comparison_peers_run:
  "comparison_peers blocks = Inr cmp \<Longrightarrow>
     rmap (\<lambda>(prefix, by_plane). rbind (compare_prefix by_plane) (\<lambda>c. Inr (prefix, c))) (peers_by_prefix blocks)
       = Inr cmp"
  by (auto simp: comparison_peers_def split: if_splits)

lemmas compared_keys = comparison_keys [OF comparison_peers_run, THEN conjunct1]
lemmas compared_entry = comparison_keys [OF comparison_peers_run, THEN conjunct2, rule_format]

section \<open>Properties\<close>

text \<open>
  Uniform row selection covers the whole range: for a valid request it returns exactly
  \<open>count\<close> rows, the first is 0, the last is \<open>row_count - 1\<close>, and neighbouring rows differ
  by the same step up to rounding, so all rows are distinct and ascending.
\<close>

theorem select_uniform_rows_spread:
  assumes "select_uniform_rows row_count n = Inr rows"
  shows "int (length rows) = n \<and> hd rows = 0 \<and> last rows = row_count - 1
     \<and> (\<forall>k. Suc k < length rows \<longrightarrow>
          rows ! Suc k - rows ! k \<in> {(row_count - 1) div (n - 1), (row_count - 1) div (n - 1) + 1}
          \<and> rows ! k < rows ! Suc k)"
proof -
  have n: "2 \<le> n" "n \<le> row_count" and rows: "rows = map (\<lambda>k. (int k * (row_count - 1)) div (n - 1)) [0 ..< nat n]"
    using assms by (auto simp: select_uniform_rows_def split: if_splits)
  let ?q = "(row_count - 1) div (n - 1)"
  have q: "1 \<le> ?q" using n by (simp add: pos_imp_zdiv_pos_iff int_one_le_iff_zero_less)
  have gap: "rows ! Suc k - rows ! k \<in> {?q, ?q + 1}" if "Suc k < length rows" for k
  proof -
    let ?a = "int k * (row_count - 1)" and ?b = "row_count - 1" and ?d = "n - 1"
    have d: "0 < ?d" using n by simp
    have "(?a + ?b) div ?d = ?a div ?d + ?b div ?d + (?a mod ?d + ?b mod ?d) div ?d"
      by (rule div_add1_eq)
    moreover have "(?a mod ?d + ?b mod ?d) div ?d \<in> {0, 1}" by (rule mod_carry [OF d])
    moreover have "rows ! Suc k = (?a + ?b) div ?d" "rows ! k = ?a div ?d"
      using that by (simp_all add: rows distrib_right add.commute del: upt_Suc)
    ultimately show ?thesis by auto
  qed
  have "hd rows = 0" using n by (simp add: rows hd_map upt_conv_Cons)
  moreover have "last rows = row_count - 1"
    using n by (simp add: rows last_map last_upt of_nat_diff nat_diff_distrib)
  moreover have "int (length rows) = n" using n by (simp add: rows)
  ultimately show ?thesis using gap q by fastforce
qed

theorem select_uniform_rows_witness:
  "\<exists>rows. select_uniform_rows 10 4 = Inr rows \<and> rows = [0, 3, 6, 9]
     \<and> int (length rows) = 4 \<and> hd rows = 0 \<and> last rows = 10 - 1"
proof -
  have run: "select_uniform_rows 10 4 = Inr [0, 3, 6, 9]"
    by (simp add: select_uniform_rows_def upt_rec)
  from select_uniform_rows_spread [OF run] run show ?thesis by blast
qed

text \<open>
  Comparison peers are sound: for every prefix that is compared, the sampled blocks give
  exactly one peer in each of the planes 1 to 4, the four peers are distinct, the first component
  is the peer of plane 1 and the second the set of the other three; and the compared prefixes are
  exactly the sampled ones.
\<close>

theorem comparison_peers_sound:
  assumes "comparison_peers blocks = Inr cmp"
  shows "(dict_get cmp prefix \<noteq> None \<longleftrightarrow> (\<exists>plane. sampled_peers blocks prefix plane \<noteq> []))
     \<and> (case dict_get cmp prefix of
          None \<Rightarrow> True
        | Some (p1, refs) \<Rightarrow>
            \<exists>p2 p3 p4. sampled_peers blocks prefix 1 = [p1] \<and> sampled_peers blocks prefix 2 = [p2]
              \<and> sampled_peers blocks prefix 3 = [p3] \<and> sampled_peers blocks prefix 4 = [p4]
              \<and> refs = {p2, p3, p4} \<and> distinct [p1, p2, p3, p4])"
proof (cases "dict_get cmp prefix")
  case None
  have "dict_get (peers_by_prefix blocks) prefix = None"
    using compared_keys [OF assms] None by (metis dict_keys_def map_of_eq_None_iff set_map)
  then show ?thesis using peers_by_prefix_entry [of blocks prefix] None
    by (simp add: nested.entry_def nested_get_def dict_get_or_def)
next
  case (Some c)
  obtain p1 refs where c: "c = (p1, refs)" by fastforce
  from compared_entry [OF assms] Some c obtain by_plane where
    bp: "dict_get (peers_by_prefix blocks) prefix = Some by_plane" "compare_prefix by_plane = Inr (p1, refs)"
    by blast
  have "sampled_peers blocks prefix k = dict_get_or by_plane k []" for k
    using peers_by_prefix_entry [of blocks prefix k] entry_inner [OF bp(1), of k] by simp
  with compare_prefix_Inr [OF bp(2)] Some c show ?thesis by auto
qed

theorem comparison_peers_witness:
  "\<exists>cmp. comparison_peers demo_blocks = Inr cmp \<and> dict_get cmp ''p'' = Some (''1'', {''2'', ''3'', ''4''})
     \<and> sampled_peers demo_blocks ''p'' 1 = [''1'']"
proof -
  have digits: "show_int 1 = ''1''" "show_int 2 = ''2''" "show_int 3 = ''3''" "show_int 4 = ''4''"
    by code_simp+
  have run: "comparison_peers demo_blocks = Inr [(''p'', (''1'', {''2'', ''3'', ''4''}))]"
    by (simp add: comparison_peers_def peers_by_prefix_def occurrences_def demo_blocks_def rib_peer_def
        nested_get_def nested_set_def dict_get_or_def compare_prefix_def dict_keys_def digits Let_def
        insert_commute)
  from comparison_peers_sound [OF run, of "''p''"] run show ?thesis by auto
qed

text \<open>
  Prefix sampling keeps the smallest prefixes of each family: when every prefix parses, the
  result is, for IPv4 and then for IPv6, the first \<open>maximum\<close> of the prefixes sorted by
  address, length and text, whatever the order of the input.
\<close>

theorem sample_prefixes_smallest:
  "sample_prefixes_by_family prefixes maximum = Inr out \<Longrightarrow>
     out = map (\<lambda>item. snd (snd item))
             (take (nat maximum) (sort (sample_keys 4 prefixes))
              @ take (nat maximum) (sort (sample_keys 6 prefixes)))"
  using sample_fold [where xs = "[]" and ys = "[]" and m = maximum and ps = prefixes]
  by (auto simp: sample_prefixes_by_family_def rbind_eq_Inr)

theorem sample_prefixes_witness:
  "sample_prefixes_by_family [''10.0.0.0/8'', ''9.0.0.0/8''] 1 = Inr [''9.0.0.0/8'']
   \<and> [''9.0.0.0/8''] = map (\<lambda>item. snd (snd item))
             (take (nat 1) (sort (sample_keys 4 [''10.0.0.0/8'', ''9.0.0.0/8'']))
              @ take (nat 1) (sort (sample_keys 6 [''10.0.0.0/8'', ''9.0.0.0/8''])))"
proof -
  have run: "sample_prefixes_by_family [''10.0.0.0/8'', ''9.0.0.0/8''] 1 = Inr [''9.0.0.0/8'']"
    by code_simp
  from sample_prefixes_smallest [OF run] run show ?thesis by blast
qed

text \<open>
  The row summary is exact: the ranges cover precisely the given rows, each is non-empty, and
  they are ascending with at least one missing row between any two, so no two could be merged.
\<close>

theorem row_ranges_exact: "rows_of (row_ranges rows) = set rows \<and> ranges_ok (row_ranges rows)"
  using fold_rows_ok [of "[]" "sort rows"] by (simp add: row_ranges_def ranges_ok_def rows_of_def)

text \<open>
  The session comparison reports nothing exactly when every session of the baseline is still
  there with the same resets, flaps and withdrawals and an uptime that did not go back; and it
  cannot raise when no session of the baseline is missing.
\<close>

theorem session_baseline_exact:
  "(session_baseline_violation old new = Inr None \<longleftrightarrow>
      list_all (\<lambda>(peer, before). \<exists>after. dict_get new peer = Some after
        \<and> ct_resets after = ct_resets before \<and> ct_flaps after = ct_flaps before
        \<and> ct_uptime before \<le> ct_uptime after
        \<and> ct_recv_withdrawals after = ct_recv_withdrawals before
        \<and> ct_sent_withdrawals after = ct_sent_withdrawals before) old)
   \<and> (missing_session_peers (set (dict_keys old)) new = [] \<longrightarrow>
        (\<exists>v. session_baseline_violation old new = Inr v))"
proof
  show "session_baseline_violation old new = Inr None \<longleftrightarrow>
      list_all (\<lambda>(peer, before). \<exists>after. dict_get new peer = Some after
        \<and> ct_resets after = ct_resets before \<and> ct_flaps after = ct_flaps before
        \<and> ct_uptime before \<le> ct_uptime after
        \<and> ct_recv_withdrawals after = ct_recv_withdrawals before
        \<and> ct_sent_withdrawals after = ct_sent_withdrawals before) old"
    unfolding session_baseline_violation_def first_violation_None
    by (auto simp: baseline_broken_def list_all_iff not_less)
  have "missing_session_peers (set (dict_keys old)) new = [] \<Longrightarrow> set (dict_keys old) \<subseteq> set (dict_keys new)"
    by (simp add: missing_session_peers_def sorted_list_of_set_eq_Nil_iff)
  then show "missing_session_peers (set (dict_keys old)) new = [] \<longrightarrow>
        (\<exists>v. session_baseline_violation old new = Inr v)"
    unfolding session_baseline_violation_def using first_violation_total by blast
qed

theorem session_baseline_witness:
  "missing_session_peers (set (dict_keys [(''p'', demo_counters 5)])) [(''p'', demo_counters 4)] = []
   \<and> (\<exists>v. session_baseline_violation [(''p'', demo_counters 5)] [(''p'', demo_counters 4)] = Inr v)"
proof -
  have none: "missing_session_peers (set (dict_keys [(''p'', demo_counters 5)])) [(''p'', demo_counters 4)] = []"
    by (simp add: missing_session_peers_def dict_keys_def)
  with session_baseline_exact [of "[(''p'', demo_counters 5)]" "[(''p'', demo_counters 4)]"]
  show ?thesis by blast
qed

end
