(* ===== verification/Gates.thy ===== *)
theory Gates
  imports Taac_Prelude "HOL-Library.Char_ord" "HOL-Library.List_Lexorder"
begin

text \<open>
  Pass/fail gates: the registry of gate modes and its enforcement (\<open>utils/gate_control.py\<close>),
  upper bounds on collected metrics (\<open>utils/upper_bound_gate.py\<close>) and the verdict of the
  policy-evaluation sweep (\<open>utils/policy_evaluation.py\<close>).

  The process-wide registry is explicit state. Of the logger the model keeps the warnings, which
  are all a permissive gate leaves behind; progress lines are left out. Measurements are
  rationals, so they are finite and the checks for infinities and NaN cannot fail.
\<close>

section \<open>Gate control\<close>

definition valid_gate_modes :: "string list" where
  "valid_gate_modes = [''blocking'', ''permissive'']"

definition validate_mode :: "string \<Rightarrow> unit result" where
  "validate_mode mode = raise_if (mode \<notin> set valid_gate_modes) (value_error ''Invalid gate mode'')"

text \<open>The result of a gate together with the warnings logged so far.\<close>

type_synonym gated = "unit result \<times> string list"

definition apply_gate :: "bool \<Rightarrow> string \<Rightarrow> string \<Rightarrow> string list \<Rightarrow> gated" where
  "apply_gate breached message mode warnings =
     (case validate_mode mode of
        Inl e \<Rightarrow> (Inl e, warnings)
      | Inr _ \<Rightarrow>
          if \<not> breached then (Inr (), warnings)
          else if mode = ''blocking'' then (Inl (Exn TestCaseFailure message), warnings)
          else (Inr (), warnings @ [''[PERMISSIVE GATE] '' @ message]))"

record GateRegistry =
  default_mode :: string
  gate_modes :: "(string, string) dict"

definition mk_GateRegistry :: "string \<Rightarrow> GateRegistry result" where
  "mk_GateRegistry mode = rbind (validate_mode mode) (\<lambda>_. Inr \<lparr>default_mode = mode, gate_modes = []\<rparr>)"

definition register :: "string \<Rightarrow> string option \<Rightarrow> GateRegistry \<Rightarrow> GateRegistry result" where
  "register name mode r =
     (let resolved = (case mode of None \<Rightarrow> default_mode r | Some m \<Rightarrow> m)
      in rbind (validate_mode resolved)
           (\<lambda>_. Inr (r\<lparr>gate_modes := dict_set name resolved (gate_modes r)\<rparr>)))"

definition set_mode :: "string \<Rightarrow> string \<Rightarrow> GateRegistry \<Rightarrow> GateRegistry result" where
  "set_mode name mode r =
     rbind (validate_mode mode) (\<lambda>_. Inr (r\<lparr>gate_modes := dict_set name mode (gate_modes r)\<rparr>))"

definition get_mode :: "string \<Rightarrow> GateRegistry \<Rightarrow> string" where
  "get_mode name r = dict_get_or (gate_modes r) name (default_mode r)"

definition is_registered :: "string \<Rightarrow> GateRegistry \<Rightarrow> bool" where
  "is_registered name r \<longleftrightarrow> dict_get (gate_modes r) name \<noteq> None"

definition apply_registered ::
    "string \<Rightarrow> bool \<Rightarrow> string \<Rightarrow> string option \<Rightarrow> GateRegistry \<Rightarrow> string list \<Rightarrow> gated" where
  "apply_registered name breached message mode r warnings =
     apply_gate breached message (case mode of None \<Rightarrow> get_mode name r | Some m \<Rightarrow> m) warnings"

definition format_registered_gates :: "GateRegistry \<Rightarrow> string list option \<Rightarrow> string result" where
  "format_registered_gates r gate_names =
     rbind (case gate_names of
              None \<Rightarrow> Inr (gate_modes r)
            | Some names \<Rightarrow>
                if \<exists>n \<in> set names. n \<notin> set (dict_keys (gate_modes r))
                then Inl (value_error ''Unregistered gate name(s)'')
                else Inr (map (\<lambda>n. (n, dict_get_or (gate_modes r) n [])) (remdups names)))
       (\<lambda>gates.
          if gates = [] then Inr ''Registered gates: (none)''
          else let width = Max (set (map length (dict_keys gates)));
                   line = (\<lambda>n. ''  '' @ ljust width n @ ''  '' @ dict_get_or gates n [])
               in Inr (join [nl] (''Registered gates (name -> enforcement mode):''
                         # map line (sort (dict_keys gates)))))"

text \<open>
  \<open>apply_flatness_gate\<close>; \<open>unit\<close> is added to the numbers of the message.
\<close>

definition flatness_message :: "string \<Rightarrow> string \<Rightarrow> string \<Rightarrow> string \<Rightarrow> rat \<Rightarrow> rat \<Rightarrow> string" where
  "flatness_message metric_label sweep_label unit_text detail vmin vmax =
     (let unit_sfx = (if unit_text = [] then [] else '' '' @ unit_text)
      in strip (metric_label @ '' grew '' @ fmt_fixed 2 (vmax / vmin) @ ''x across the '' @ sweep_label
           @ '' ('' @ fmt_fixed 1 vmin @ '' -> '' @ fmt_fixed 1 vmax @ unit_sfx @ ''); '' @ detail))"

definition apply_flatness_gate ::
    "string \<Rightarrow> rat list \<Rightarrow> rat \<Rightarrow> string option \<Rightarrow> string \<Rightarrow> string \<Rightarrow> string \<Rightarrow> string
     \<Rightarrow> GateRegistry \<Rightarrow> string list \<Rightarrow> gated" where
  "apply_flatness_gate gate_name values tolerance mode metric_label sweep_label unit_text detail r warnings =
     (if length values < 2 then (Inr (), warnings)
      else let vmin = Min (set values); vmax = Max (set values)
           in if vmin \<le> 0 then (Inr (), warnings)
              else apply_registered gate_name (vmax / vmin > tolerance)
                     (flatness_message metric_label sweep_label unit_text detail vmin vmax) mode r warnings)"

section \<open>Upper bounds\<close>

record UpperBoundObservation =
  ub_metric :: string
  ub_value :: rat
  ub_threshold :: rat

definition observation_passed :: "UpperBoundObservation \<Rightarrow> bool" where
  "observation_passed o' \<longleftrightarrow> ub_value o' \<le> ub_threshold o'"

record UpperBoundGateResult =
  ub_observations :: "UpperBoundObservation list"
  ub_missing_metrics :: "string list"

definition gates_passed :: "UpperBoundGateResult \<Rightarrow> bool" where
  "gates_passed g \<longleftrightarrow> ub_missing_metrics g = [] \<and> list_all observation_passed (ub_observations g)"

fun numeric :: "pyval option \<Rightarrow> rat option" where
  "numeric (Some (VInt i)) = Some (of_int i)"
| "numeric (Some (VFloat x)) = Some x"
| "numeric _ = None"

definition observe ::
    "(string, pyval) dict \<Rightarrow> UpperBoundGateResult \<Rightarrow> string \<times> rat \<Rightarrow> UpperBoundGateResult" where
  "observe values g bound =
     (let (metric, threshold) = bound
      in case numeric (dict_get values metric) of
           None \<Rightarrow> g\<lparr>ub_missing_metrics := ub_missing_metrics g @ [metric]\<rparr>
         | Some v \<Rightarrow> g\<lparr>ub_observations := ub_observations g
             @ [\<lparr>ub_metric = metric, ub_value = v, ub_threshold = threshold\<rparr>]\<rparr>)"

definition evaluate_upper_bound_gates ::
    "(string, pyval) dict \<Rightarrow> (string, rat) dict \<Rightarrow> UpperBoundGateResult" where
  "evaluate_upper_bound_gates values thresholds =
     foldl (observe values) \<lparr>ub_observations = [], ub_missing_metrics = []\<rparr> thresholds"

section \<open>The policy-evaluation sweep\<close>

record PolicyEvaluationMeasurement =
  pm_prefix_count :: int
  pm_total_hits :: int
  pm_total_runs :: int
  pm_total_time_us :: rat

definition validate_measurement :: "PolicyEvaluationMeasurement \<Rightarrow> unit result" where
  "validate_measurement x =
     (if pm_prefix_count x \<le> 0 then Inl (value_error ''prefix_count must be positive'')
      else if pm_total_hits x \<le> 0 then Inl (value_error ''policy measurement has no hits'')
      else if pm_total_runs x \<le> 0 then Inl (value_error ''policy measurement has no runs'')
      else if pm_total_time_us x \<le> 0
      then Inl (value_error ''policy measurement has invalid processing time'')
      else Inr ())"

record PolicyEvaluationVerdict =
  pv_passed :: bool
  pv_baseline_slope :: rat
  pv_candidate_slope :: rat
  pv_slope_overhead :: rat
  pv_max_overhead :: rat
  pv_overheads :: "(int, rat) dict"

type_synonym measurements = "(int, PolicyEvaluationMeasurement) dict"

definition index_measurements :: "PolicyEvaluationMeasurement list \<Rightarrow> measurements result" where
  "index_measurements xs =
     rfold (\<lambda>indexed x.
       rbind (validate_measurement x) (\<lambda>_.
         if pm_prefix_count x \<in> set (dict_keys indexed)
         then Inl (value_error ''duplicate measurement'')
         else Inr (dict_set (pm_prefix_count x) x indexed))) [] xs"

definition mean :: "rat list \<Rightarrow> rat" where
  "mean xs = sum_list xs / of_nat (length xs)"

definition sum_squares :: "rat list \<Rightarrow> rat" where
  "sum_squares xs = (\<Sum>x \<leftarrow> xs. (x - mean xs) ^ 2)"

definition covariation :: "rat list \<Rightarrow> rat list \<Rightarrow> rat" where
  "covariation xs ys = (\<Sum>(x, y) \<leftarrow> zip xs ys. (x - mean xs) * (y - mean ys))"

definition times_at :: "measurements \<Rightarrow> int list \<Rightarrow> rat list" where
  "times_at ms counts = map (\<lambda>c. case dict_get ms c of Some x \<Rightarrow> pm_total_time_us x | None \<Rightarrow> 0) counts"

text \<open>
  The mapping is not empty where the slope is computed (its counts are the expected ones), so
  the division by the number of points is defined.
\<close>

definition slope_us_per_10k :: "measurements \<Rightarrow> rat result" where
  "slope_us_per_10k ms =
     (let counts = sort (dict_keys ms); xs = map of_int counts; ys = times_at ms counts
      in if sum_squares xs \<le> 0 then Inl (value_error ''at least two distinct prefix counts are required'')
         else Inr (covariation xs ys / sum_squares xs * 10000))"

definition check_sweep_inputs :: "int list \<Rightarrow> rat \<Rightarrow> rat \<Rightarrow> unit result" where
  "check_sweep_inputs expected max_absolute max_slope =
     (if max_absolute < 0 then Inl (value_error ''max_absolute_overhead_us must be finite and non-negative'')
      else if max_slope < 0
      then Inl (value_error ''max_slope_overhead_us_per_10k must be finite and non-negative'')
      else if length expected < 2 \<or> list_ex (\<lambda>v. v \<le> 0) expected
      then Inl (value_error ''expected_prefix_counts must contain two or more positive points'')
      else if \<not> distinct expected then Inl (value_error ''expected_prefix_counts must be unique'')
      else Inr ())"

definition evaluate_policy_evaluation_sweep ::
    "PolicyEvaluationMeasurement list \<Rightarrow> PolicyEvaluationMeasurement list \<Rightarrow> int list \<Rightarrow> rat \<Rightarrow> rat
     \<Rightarrow> PolicyEvaluationVerdict result" where
  "evaluate_policy_evaluation_sweep baseline candidate expected max_absolute max_slope =
     rbind (check_sweep_inputs expected max_absolute max_slope) (\<lambda>_.
     rbind (index_measurements baseline) (\<lambda>base.
     rbind (index_measurements candidate) (\<lambda>cand.
     rbind (raise_if (set (dict_keys base) \<noteq> set expected)
              (value_error ''baseline prefix counts do not match expected'')) (\<lambda>_.
     rbind (raise_if (set (dict_keys cand) \<noteq> set expected)
              (value_error ''candidate prefix counts do not match expected'')) (\<lambda>_.
       (let counts = sort expected;
            overheads = map2 (-) (times_at cand counts) (times_at base counts);
            max_overhead = Max (set overheads)
        in rbind (slope_us_per_10k base) (\<lambda>baseline_slope.
           rbind (slope_us_per_10k cand) (\<lambda>candidate_slope.
             Inr \<lparr>pv_passed = (max_overhead \<le> max_absolute
                     \<and> candidate_slope - baseline_slope \<le> max_slope),
                  pv_baseline_slope = baseline_slope, pv_candidate_slope = candidate_slope,
                  pv_slope_overhead = candidate_slope - baseline_slope,
                  pv_max_overhead = max_overhead, pv_overheads = zip counts overheads\<rparr>))))))))"

section \<open>What the properties speak about\<close>

definition registry_ok :: "GateRegistry \<Rightarrow> bool" where
  "registry_ok r \<longleftrightarrow> default_mode r \<in> set valid_gate_modes
     \<and> snd ` set (gate_modes r) \<subseteq> set valid_gate_modes"

text \<open>A registry in use: it is created with some default and changed by the two operations.\<close>

inductive registry_reachable :: "GateRegistry \<Rightarrow> bool" where
  made: "mk_GateRegistry mode = Inr r \<Longrightarrow> registry_reachable r"
| registered: "registry_reachable r \<Longrightarrow> register name mode r = Inr r' \<Longrightarrow> registry_reachable r'"
| mode_set: "registry_reachable r \<Longrightarrow> set_mode name mode r = Inr r' \<Longrightarrow> registry_reachable r'"

section \<open>Lemmas\<close>

lemma validate_mode_Inr [result_simps]: "validate_mode m = Inr u \<longleftrightarrow> m \<in> set valid_gate_modes"
  by (simp add: validate_mode_def raise_if_Inr)

lemma set_update_values: "snd ` set (AList.update k v d) \<subseteq> insert v (snd ` set d)"
  by (induction d) auto

lemma registry_step_ok:
  "registry_ok r \<Longrightarrow> m \<in> set valid_gate_modes \<Longrightarrow>
     registry_ok (r\<lparr>gate_modes := dict_set name m (gate_modes r)\<rparr>)"
  using set_update_values [of name m "gate_modes r"] by (auto simp: registry_ok_def)

lemma reachable_registry_ok: "registry_reachable r \<Longrightarrow> registry_ok r"
proof (induction rule: registry_reachable.induct)
  case (made mode r)
  then show ?case by (auto simp: mk_GateRegistry_def registry_ok_def result_simps)
next
  case (registered r name mode r')
  then show ?case by (auto simp: register_def registry_step_ok result_simps Let_def)
next
  case (mode_set r name mode r')
  then show ?case by (auto simp: set_mode_def registry_step_ok result_simps)
qed

lemma get_mode_valid: "registry_ok r \<Longrightarrow> get_mode name r \<in> set valid_gate_modes"
  by (auto simp: get_mode_def registry_ok_def dict_get_or_def split: option.splits dest!: map_of_SomeD)

lemma observe_fold:
  "foldl (observe values) g bounds =
     \<lparr>ub_observations = ub_observations g @ concat (map (\<lambda>(metric, t). case numeric (dict_get values metric) of
          None \<Rightarrow> [] | Some v \<Rightarrow> [\<lparr>ub_metric = metric, ub_value = v, ub_threshold = t\<rparr>]) bounds),
      ub_missing_metrics = ub_missing_metrics g
        @ map fst (filter (\<lambda>(metric, t). numeric (dict_get values metric) = None) bounds)\<rparr>"
  by (induction bounds arbitrary: g) (auto simp: observe_def split: option.splits)

lemma mean_diff:
  "length xs = length ys \<Longrightarrow> mean (map2 (-) xs ys) = mean xs - mean ys"
proof -
  assume "length xs = length ys"
  then have "sum_list (map2 (-) xs ys) = sum_list xs - sum_list ys"
    by (induction xs ys rule: list_induct2) auto
  with \<open>length xs = length ys\<close> show ?thesis by (simp add: mean_def diff_divide_distrib)
qed

lemma weighted_diff:
  "length xs = length ys \<Longrightarrow> length ys = length zs \<Longrightarrow>
     (\<Sum>(x, y) \<leftarrow> zip xs (map2 (-) ys zs). (x - m) * (y - (a - b)))
       = (\<Sum>(x, y) \<leftarrow> zip xs ys. (x - m) * (y - a)) - (\<Sum>(x, y) \<leftarrow> zip xs zs. (x - m) * (y - (b :: rat)))"
  by (induction xs ys zs rule: list_induct3) (auto simp: algebra_simps)

lemma covariation_diff:
  assumes "length xs = length ys" "length ys = length zs"
  shows "covariation xs (map2 (-) ys zs) = covariation xs ys - covariation xs zs"
  unfolding covariation_def mean_diff [OF assms(2)] by (rule weighted_diff [OF assms])

lemma sorted_keys_expected:
  "distinct (dict_keys ms) \<Longrightarrow> distinct expected \<Longrightarrow> set (dict_keys ms) = set expected \<Longrightarrow>
     sort (dict_keys ms) = sort (expected :: int list)"
  by (simp add: sorted_distinct_set_unique)

lemma index_distinct:
  "rfold (\<lambda>indexed x.
       rbind (validate_measurement x) (\<lambda>_.
         if pm_prefix_count x \<in> set (dict_keys indexed)
         then Inl (value_error ''duplicate measurement'')
         else Inr (dict_set (pm_prefix_count x) x indexed))) d xs = Inr ms \<Longrightarrow>
     distinct (dict_keys d) \<Longrightarrow> distinct (dict_keys ms)"
  by (induction xs arbitrary: d) (auto simp: rbind_eq_Inr distinct_dict_set split: if_splits)

lemma index_measurements_distinct: "index_measurements xs = Inr ms \<Longrightarrow> distinct (dict_keys ms)"
  unfolding index_measurements_def by (drule index_distinct) (simp_all add: dict_keys_def)

section \<open>Properties\<close>



text \<open>
  The flatness gate fails the test exactly when it is conclusive and the sweep is not flat: in
  blocking mode it raises \<open>TestCaseFailure\<close> if and only if there are at least two values,
  all are positive, and the largest exceeds the tolerance times the smallest.
\<close>

theorem flatness_gate_exact:
  "(\<exists>m. fst (apply_flatness_gate g values tolerance (Some ''blocking'') l1 l2 u d r warnings)
        = Inl (Exn TestCaseFailure m))
   \<longleftrightarrow> 2 \<le> length values \<and> list_all (\<lambda>v. 0 < v) values
       \<and> (\<exists>x y. x \<in> set values \<and> y \<in> set values \<and> y > tolerance * x)"
proof (cases "2 \<le> length values")
  case False
  then show ?thesis by (simp add: apply_flatness_gate_def)
next
  case True
  then have ne: "set values \<noteq> {}" by auto
  let ?lo = "Min (set values)" and ?hi = "Max (set values)"
  have pos: "0 < ?lo \<longleftrightarrow> list_all (\<lambda>v. 0 < v) values" using ne by (auto simp: Min_gr_iff list_all_iff)
  have big: "(\<exists>x y. x \<in> set values \<and> y \<in> set values \<and> y > tolerance * x) \<longleftrightarrow> ?hi > tolerance * ?lo"
    if lo: "0 < ?lo"
  proof
    assume "?hi > tolerance * ?lo"
    then show "\<exists>x y. x \<in> set values \<and> y \<in> set values \<and> y > tolerance * x"
      using Min_in [OF _ ne] Max_in [OF _ ne] by blast
  next
    assume "\<exists>x y. x \<in> set values \<and> y \<in> set values \<and> y > tolerance * x"
    then obtain x y where xy: "x \<in> set values" "y \<in> set values" "y > tolerance * x" by blast
    have b: "?lo \<le> x" "y \<le> ?hi" "x \<le> ?hi" using xy by simp_all
    show "?hi > tolerance * ?lo"
    proof (cases "0 \<le> tolerance")
      case True
      then have "tolerance * ?lo \<le> tolerance * x" using b by (intro mult_left_mono) auto
      with xy b show ?thesis by linarith
    next
      case False
      then have "tolerance * ?lo < 0" using lo by (simp add: mult_neg_pos)
      moreover have "0 < ?hi" using lo b by linarith
      ultimately show ?thesis by linarith
    qed
  qed
  have ratio: "?hi / ?lo > tolerance \<longleftrightarrow> ?hi > tolerance * ?lo" if "0 < ?lo"
    using that by (simp add: pos_less_divide_eq)
  show ?thesis
  proof (cases "0 < ?lo")
    case lo: True
    then show ?thesis
      using True big [OF lo] ratio [OF lo] pos
      by (simp add: apply_flatness_gate_def apply_registered_def apply_gate_def validate_mode_def
          valid_gate_modes_def Let_def not_le)
  next
    case False
    then have "?lo \<le> 0" by simp
    then show ?thesis using True pos False by (auto simp: apply_flatness_gate_def Let_def)
  qed
qed

text \<open>
  The flatness gate does not check its mode on an inconclusive sweep: with a misspelled mode
  and a series that starts at zero it returns as if everything were in order, although the module
  promises that an unrecognized mode always raises up front.
\<close>

theorem flatness_gate_accepts_typo:
  "apply_flatness_gate ''g'' [0, 100] 2 (Some ''blokcing'') l1 l2 u d r [] = (Inr (), [])"
  by (simp add: apply_flatness_gate_def)

text \<open>
  Upper bounds have AND semantics and never pass on missing data: the aggregate passes exactly
  when every configured metric was observed as a number (not a boolean) within its threshold.
\<close>

theorem upper_bounds_exact:
  "gates_passed (evaluate_upper_bound_gates values thresholds) \<longleftrightarrow>
     list_all (\<lambda>(metric, threshold).
       case numeric (dict_get values metric) of None \<Rightarrow> False | Some v \<Rightarrow> v \<le> threshold) thresholds"
  unfolding evaluate_upper_bound_gates_def observe_fold gates_passed_def
  by (induction thresholds) (auto simp: observation_passed_def split: option.splits)

text \<open>
  The slope overhead of a policy sweep is the least-squares slope of the overheads: what the
  verdict compares with its limit, the difference of the two fitted slopes, is exactly the slope
  fitted to the point-wise differences, so a uniformly slower candidate has slope overhead zero.
\<close>

theorem sweep_slope_of_overheads:
  assumes "evaluate_policy_evaluation_sweep baseline candidate expected a b = Inr v"
  shows "map fst (pv_overheads v) = sort expected
     \<and> pv_slope_overhead v =
         covariation (map of_int (sort expected)) (map snd (pv_overheads v))
           / sum_squares (map of_int (sort expected)) * 10000
     \<and> (pv_passed v \<longleftrightarrow> Max (set (map snd (pv_overheads v))) \<le> a \<and> pv_slope_overhead v \<le> b)"
proof -
  from assms obtain base cand where ib: "index_measurements baseline = Inr base"
    and ic: "index_measurements candidate = Inr cand" and distinct: "distinct expected"
    and kb: "set (dict_keys base) = set expected" and kc: "set (dict_keys cand) = set expected"
    by (auto simp: evaluate_policy_evaluation_sweep_def check_sweep_inputs_def rbind_eq_Inr raise_if_Inr
        split: if_splits)
  let ?c = "sort expected" and ?xs = "map of_int (sort expected) :: rat list"
  have sk: "sort (dict_keys base) = ?c" "sort (dict_keys cand) = ?c"
    using sorted_keys_expected index_measurements_distinct ib ic distinct kb kc by blast+
  have v: "pv_overheads v = zip ?c (map2 (-) (times_at cand ?c) (times_at base ?c))"
    "pv_slope_overhead v = covariation ?xs (times_at cand ?c) / sum_squares ?xs * 10000
        - covariation ?xs (times_at base ?c) / sum_squares ?xs * 10000"
    "pv_passed v \<longleftrightarrow> Max (set (map2 (-) (times_at cand ?c) (times_at base ?c))) \<le> a
        \<and> pv_slope_overhead v \<le> b"
    using assms ib ic kb kc
    by (auto simp: evaluate_policy_evaluation_sweep_def rbind_eq_Inr slope_us_per_10k_def sk Let_def
        split: if_splits)
  have len: "length (times_at ms ?c) = length ?c" for ms by (simp add: times_at_def)
  have snds: "map snd (pv_overheads v) = map2 (-) (times_at cand ?c) (times_at base ?c)"
    "map fst (pv_overheads v) = ?c"
    by (simp_all add: v(1) len)
  have "covariation ?xs (map2 (-) (times_at cand ?c) (times_at base ?c))
      = covariation ?xs (times_at cand ?c) - covariation ?xs (times_at base ?c)"
    by (rule covariation_diff) (simp_all add: len)
  then show ?thesis
    unfolding snds v(2, 3) by (simp add: diff_divide_distrib left_diff_distrib)
qed

theorem sweep_slope_witness:
  "\<exists>v. evaluate_policy_evaluation_sweep
        [\<lparr>pm_prefix_count = 1, pm_total_hits = 1, pm_total_runs = 1, pm_total_time_us = 10\<rparr>,
         \<lparr>pm_prefix_count = 3, pm_total_hits = 1, pm_total_runs = 1, pm_total_time_us = 30\<rparr>]
        [\<lparr>pm_prefix_count = 1, pm_total_hits = 1, pm_total_runs = 1, pm_total_time_us = 15\<rparr>,
         \<lparr>pm_prefix_count = 3, pm_total_hits = 1, pm_total_runs = 1, pm_total_time_us = 35\<rparr>]
        [1, 3] 5 0 = Inr v
     \<and> pv_passed v
     \<and> pv_slope_overhead v = covariation (map of_int (sort [1, 3])) (map snd (pv_overheads v))
           / sum_squares (map of_int (sort [1, 3])) * 10000"
proof -
  obtain v where v: "evaluate_policy_evaluation_sweep
        [\<lparr>pm_prefix_count = 1, pm_total_hits = 1, pm_total_runs = 1, pm_total_time_us = 10\<rparr>,
         \<lparr>pm_prefix_count = 3, pm_total_hits = 1, pm_total_runs = 1, pm_total_time_us = 30\<rparr>]
        [\<lparr>pm_prefix_count = 1, pm_total_hits = 1, pm_total_runs = 1, pm_total_time_us = 15\<rparr>,
         \<lparr>pm_prefix_count = 3, pm_total_hits = 1, pm_total_runs = 1, pm_total_time_us = 35\<rparr>]
        [1, 3] 5 0 = Inr v" and "pv_passed v"
    by (simp add: evaluate_policy_evaluation_sweep_def check_sweep_inputs_def index_measurements_def
        validate_measurement_def slope_us_per_10k_def sum_squares_def covariation_def mean_def
        times_at_def dict_keys_def Let_def)
  with sweep_slope_of_overheads [OF v] show ?thesis by blast
qed

end
