(* ===== verification/Resource_Ids.thy ===== *)
theory Resource_Ids
  imports Ipaddr
begin

text \<open>
  Logical identities of the topology compiler: \<open>ResourceKind\<close> and \<open>ResourceId\<close> of
  \<open>abstractions/compilation/model.py\<close>, the small enumerations the identities are made of, and the
  functions of \<open>abstractions/compilation/resource_ids.py\<close> that build them. Checks of the source that
  only reject values of another Python type are discharged by the types here.
\<close>

section \<open>Kinds and identities\<close>

datatype ResourceKind =
    ENDPOINT | LINK | PHYSICAL_INTERFACE | INTERFACE | BGP_ADJACENCY | POLICY | POLICY_BINDING
  | ROUTING_CONFIG | COMPONENT | IXIA_PORT | IXIA_DEVICE_GROUP | IXIA_BGP_SESSION
  | IXIA_ADVERTISEMENT | IXIA_TRAFFIC_FLOW | OPENR

fun kind_value :: "ResourceKind \<Rightarrow> string" where
  "kind_value ENDPOINT = ''endpoint''"
| "kind_value LINK = ''link''"
| "kind_value PHYSICAL_INTERFACE = ''physical_interface''"
| "kind_value INTERFACE = ''interface''"
| "kind_value BGP_ADJACENCY = ''bgp_adjacency''"
| "kind_value POLICY = ''policy''"
| "kind_value POLICY_BINDING = ''policy_binding''"
| "kind_value ROUTING_CONFIG = ''routing_config''"
| "kind_value COMPONENT = ''component''"
| "kind_value IXIA_PORT = ''ixia_port''"
| "kind_value IXIA_DEVICE_GROUP = ''ixia_device_group''"
| "kind_value IXIA_BGP_SESSION = ''ixia_bgp_session''"
| "kind_value IXIA_ADVERTISEMENT = ''ixia_advertisement''"
| "kind_value IXIA_TRAFFIC_FLOW = ''ixia_traffic_flow''"
| "kind_value OPENR = ''openr''"

datatype AddressFamily = IPV4 | IPV6

fun afi_value :: "AddressFamily \<Rightarrow> string" where
  "afi_value IPV4 = ''v4''"
| "afi_value IPV6 = ''v6''"

datatype PolicyDirection = IMPORT | EXPORT

fun direction_value :: "PolicyDirection \<Rightarrow> string" where
  "direction_value IMPORT = ''import''"
| "direction_value EXPORT = ''export''"

datatype NetworkRole = EB

fun network_role_value :: "NetworkRole \<Rightarrow> string" where
  "network_role_value EB = ''EB''"

datatype PeerRelationship = EXTERNAL | INTERNAL | MONITOR

fun relationship_value :: "PeerRelationship \<Rightarrow> string" where
  "relationship_value EXTERNAL = ''external''"
| "relationship_value INTERNAL = ''internal''"
| "relationship_value MONITOR = ''monitor''"

datatype ComponentRole = ROUTING_CONTROL_PLANE

fun component_role_value :: "ComponentRole \<Rightarrow> string" where
  "component_role_value ROUTING_CONTROL_PLANE = ''routing_control_plane''"

datatype PhysicalInterfaceGroupKind = REUSE_GROUP | LOGICAL_ROLE

fun group_kind_value :: "PhysicalInterfaceGroupKind \<Rightarrow> string" where
  "group_kind_value REUSE_GROUP = ''reuse_group''"
| "group_kind_value LOGICAL_ROLE = ''logical_role''"

record ResourceId =
  ri_kind :: ResourceKind
  ri_path :: "string list"

definition mk_ResourceId :: "ResourceKind \<Rightarrow> string list \<Rightarrow> ResourceId result" where
  "mk_ResourceId kind path =
     (if path = [] then Inl (value_error ''resource ID path must be a non-empty tuple'')
      else if [] \<in> set path then Inl (value_error ''resource ID path segments must be non-empty strings'')
      else Inr \<lparr>ri_kind = kind, ri_path = path\<rparr>)"

definition rid_str :: "ResourceId \<Rightarrow> string" where
  "rid_str r = kind_value (ri_kind r) @ '':'' @ join ''/'' (ri_path r)"

record RolePolicyKey =
  rpk_local_role :: NetworkRole
  rpk_relationship :: PeerRelationship
  rpk_afi :: AddressFamily
  rpk_direction :: PolicyDirection

section \<open>Building identities\<close>

record EndpointSpec =
  es_name :: string
  es_role :: string
  es_kind :: string
  es_required_os :: "string option"
  es_setup_mode :: string

definition traffic_endpoint_roles :: "string list" where
  "traffic_endpoint_roles = [''ixia'', ''traffic'', ''trafficgen'']"

definition is_dut_endpoint :: "EndpointSpec \<Rightarrow> bool" where
  "is_dut_endpoint e \<longleftrightarrow>
     es_role e = ''dut'' \<or> es_kind e = ''dut'' \<and> es_role e \<notin> set traffic_endpoint_roles"

definition endpoint_resource_id :: "string \<Rightarrow> ResourceId result" where
  "endpoint_resource_id logical_name = mk_ResourceId ENDPOINT [logical_name]"

definition link_resource_id :: "string \<Rightarrow> ResourceId result" where
  "link_resource_id device_group_name = mk_ResourceId LINK [device_group_name]"

definition interface_resource_id :: "string \<Rightarrow> string \<Rightarrow> AddressFamily \<Rightarrow> ResourceId result" where
  "interface_resource_id endpoint_name logical_port_role afi =
     mk_ResourceId INTERFACE [endpoint_name, logical_port_role, afi_value afi]"

definition physical_interface_resource_id ::
    "ResourceId \<Rightarrow> PhysicalInterfaceGroupKind \<Rightarrow> string \<Rightarrow> ResourceId result" where
  "physical_interface_resource_id endpoint_id group_kind logical_key =
     (if ri_kind endpoint_id \<noteq> ENDPOINT
      then Inl (value_error ''physical interface endpoint ID must have endpoint kind'')
      else if logical_key = [] then Inl (value_error ''physical interface logical key must be nonempty'')
      else mk_ResourceId PHYSICAL_INTERFACE (ri_path endpoint_id @ [group_kind_value group_kind, logical_key]))"

definition adjacency_resource_id :: "string \<Rightarrow> int \<Rightarrow> ResourceId result" where
  "adjacency_resource_id device_group_name ordinal =
     mk_ResourceId BGP_ADJACENCY [device_group_name, show_int ordinal]"

definition policy_resource_id :: "string \<Rightarrow> ResourceId result" where
  "policy_resource_id logical_name = mk_ResourceId POLICY [logical_name]"

definition role_policy_resource_id :: "RolePolicyKey \<Rightarrow> ResourceId result" where
  "role_policy_resource_id key =
     mk_ResourceId POLICY
       [''role'', network_role_value (rpk_local_role key), relationship_value (rpk_relationship key),
        afi_value (rpk_afi key), direction_value (rpk_direction key)]"

definition policy_binding_resource_id :: "ResourceId \<Rightarrow> PolicyDirection \<Rightarrow> ResourceId result" where
  "policy_binding_resource_id adjacency_id direction =
     mk_ResourceId POLICY_BINDING (ri_path adjacency_id @ [direction_value direction])"

definition routing_config_resource_id :: "string \<Rightarrow> ResourceId result" where
  "routing_config_resource_id endpoint_name = mk_ResourceId ROUTING_CONFIG [endpoint_name]"

definition component_resource_id :: "ResourceId \<Rightarrow> ComponentRole \<Rightarrow> ResourceId result" where
  "component_resource_id endpoint_id role =
     (if ri_kind endpoint_id \<noteq> ENDPOINT
      then Inl (value_error ''component endpoint ID must have endpoint kind'')
      else mk_ResourceId COMPONENT (ri_path endpoint_id @ [component_role_value role]))"

definition openr_resource_id :: "string \<Rightarrow> ResourceId result" where
  "openr_resource_id endpoint_name = mk_ResourceId OPENR [endpoint_name]"

definition ixia_port_resource_id :: "string \<Rightarrow> ResourceId result" where
  "ixia_port_resource_id logical_role = mk_ResourceId IXIA_PORT [logical_role]"

definition ixia_instance_path :: "string \<Rightarrow> string option \<Rightarrow> string list" where
  "ixia_instance_path device_group_name child_name =
     (case child_name of None \<Rightarrow> [device_group_name] | Some child \<Rightarrow> [device_group_name, child])"

definition ixia_device_group_resource_id :: "string \<Rightarrow> string option \<Rightarrow> ResourceId result" where
  "ixia_device_group_resource_id device_group_name child_name =
     mk_ResourceId IXIA_DEVICE_GROUP (ixia_instance_path device_group_name child_name)"

definition ixia_session_resource_id :: "string \<Rightarrow> string option \<Rightarrow> ResourceId result" where
  "ixia_session_resource_id device_group_name child_name =
     mk_ResourceId IXIA_BGP_SESSION (ixia_instance_path device_group_name child_name)"

definition ixia_advertisement_resource_id :: "string \<Rightarrow> string \<Rightarrow> string option \<Rightarrow> ResourceId result" where
  "ixia_advertisement_resource_id device_group_name logical_name child_name =
     mk_ResourceId IXIA_ADVERTISEMENT (ixia_instance_path device_group_name child_name @ [logical_name])"

definition ixia_traffic_flow_resource_id :: "string \<Rightarrow> ResourceId result" where
  "ixia_traffic_flow_resource_id logical_name = mk_ResourceId IXIA_TRAFFIC_FLOW [logical_name]"

section \<open>Identities as values\<close>

text \<open>Whatever the compiler names, as one type, and the identity it gets.\<close>

datatype resource_name =
    NEndpoint string
  | NLink string
  | NInterface string string AddressFamily
  | NPhysicalInterface string PhysicalInterfaceGroupKind string
  | NAdjacency string int
  | NPolicy string
  | NRolePolicy RolePolicyKey
  | NPolicyBinding string int PolicyDirection
  | NRoutingConfig string
  | NComponent string ComponentRole
  | NOpenr string
  | NIxiaPort string
  | NIxiaDeviceGroup string "string option"
  | NIxiaSession string "string option"
  | NIxiaAdvertisement string string "string option"
  | NIxiaTrafficFlow string

fun resource_id_of :: "resource_name \<Rightarrow> ResourceId result" where
  "resource_id_of (NEndpoint n) = endpoint_resource_id n"
| "resource_id_of (NLink n) = link_resource_id n"
| "resource_id_of (NInterface e r a) = interface_resource_id e r a"
| "resource_id_of (NPhysicalInterface e g k) =
     rbind (endpoint_resource_id e) (\<lambda>r. physical_interface_resource_id r g k)"
| "resource_id_of (NAdjacency d i) = adjacency_resource_id d i"
| "resource_id_of (NPolicy n) = policy_resource_id n"
| "resource_id_of (NRolePolicy k) = role_policy_resource_id k"
| "resource_id_of (NPolicyBinding d i dir) =
     rbind (adjacency_resource_id d i) (\<lambda>r. policy_binding_resource_id r dir)"
| "resource_id_of (NRoutingConfig e) = routing_config_resource_id e"
| "resource_id_of (NComponent e role) =
     rbind (endpoint_resource_id e) (\<lambda>r. component_resource_id r role)"
| "resource_id_of (NOpenr e) = openr_resource_id e"
| "resource_id_of (NIxiaPort r) = ixia_port_resource_id r"
| "resource_id_of (NIxiaDeviceGroup d c) = ixia_device_group_resource_id d c"
| "resource_id_of (NIxiaSession d c) = ixia_session_resource_id d c"
| "resource_id_of (NIxiaAdvertisement d n c) = ixia_advertisement_resource_id d n c"
| "resource_id_of (NIxiaTrafficFlow n) = ixia_traffic_flow_resource_id n"

text \<open>The two parts of the identity of a name.\<close>

fun name_kind :: "resource_name \<Rightarrow> ResourceKind" where
  "name_kind (NEndpoint n) = ENDPOINT"
| "name_kind (NLink n) = LINK"
| "name_kind (NInterface e r a) = INTERFACE"
| "name_kind (NPhysicalInterface e g k) = PHYSICAL_INTERFACE"
| "name_kind (NAdjacency d i) = BGP_ADJACENCY"
| "name_kind (NPolicy n) = POLICY"
| "name_kind (NRolePolicy k) = POLICY"
| "name_kind (NPolicyBinding d i dir) = POLICY_BINDING"
| "name_kind (NRoutingConfig e) = ROUTING_CONFIG"
| "name_kind (NComponent e role) = COMPONENT"
| "name_kind (NOpenr e) = OPENR"
| "name_kind (NIxiaPort r) = IXIA_PORT"
| "name_kind (NIxiaDeviceGroup d c) = IXIA_DEVICE_GROUP"
| "name_kind (NIxiaSession d c) = IXIA_BGP_SESSION"
| "name_kind (NIxiaAdvertisement d n c) = IXIA_ADVERTISEMENT"
| "name_kind (NIxiaTrafficFlow n) = IXIA_TRAFFIC_FLOW"

fun name_path :: "resource_name \<Rightarrow> string list" where
  "name_path (NEndpoint n) = [n]"
| "name_path (NLink n) = [n]"
| "name_path (NInterface e r a) = [e, r, afi_value a]"
| "name_path (NPhysicalInterface e g k) = [e, group_kind_value g, k]"
| "name_path (NAdjacency d i) = [d, show_int i]"
| "name_path (NPolicy n) = [n]"
| "name_path (NRolePolicy k) =
     [''role'', network_role_value (rpk_local_role k), relationship_value (rpk_relationship k),
      afi_value (rpk_afi k), direction_value (rpk_direction k)]"
| "name_path (NPolicyBinding d i dir) = [d, show_int i, direction_value dir]"
| "name_path (NRoutingConfig e) = [e]"
| "name_path (NComponent e role) = [e, component_role_value role]"
| "name_path (NOpenr e) = [e]"
| "name_path (NIxiaPort r) = [r]"
| "name_path (NIxiaDeviceGroup d c) = ixia_instance_path d c"
| "name_path (NIxiaSession d c) = ixia_instance_path d c"
| "name_path (NIxiaAdvertisement d n c) = ixia_instance_path d c @ [n]"
| "name_path (NIxiaTrafficFlow n) = [n]"

lemmas resource_id_defs =
  endpoint_resource_id_def link_resource_id_def interface_resource_id_def
  physical_interface_resource_id_def adjacency_resource_id_def policy_resource_id_def
  role_policy_resource_id_def policy_binding_resource_id_def routing_config_resource_id_def
  component_resource_id_def openr_resource_id_def ixia_port_resource_id_def
  ixia_device_group_resource_id_def ixia_session_resource_id_def ixia_advertisement_resource_id_def
  ixia_traffic_flow_resource_id_def

section \<open>Lemmas\<close>

lemma mk_ResourceId_eq_Inr [simp]:
  "mk_ResourceId kind path = Inr r \<longleftrightarrow>
     path \<noteq> [] \<and> [] \<notin> set path \<and> r = \<lparr>ri_kind = kind, ri_path = path\<rparr>"
  by (auto simp: mk_ResourceId_def)

lemma afi_value_inj [simp]: "afi_value a = afi_value b \<longleftrightarrow> a = b"
  by (cases a; cases b; simp)

lemma direction_value_inj [simp]: "direction_value a = direction_value b \<longleftrightarrow> a = b"
  by (cases a; cases b; simp)

lemma relationship_value_inj [simp]: "relationship_value a = relationship_value b \<longleftrightarrow> a = b"
  by (cases a; cases b; simp)

lemma group_kind_value_inj [simp]: "group_kind_value a = group_kind_value b \<longleftrightarrow> a = b"
  by (cases a; cases b; simp)

lemma kind_value_inj [simp]: "kind_value k = kind_value l \<longleftrightarrow> k = l"
  by (cases k; cases l; simp)

lemma kind_value_no_colon: "CHR '':'' \<notin> set (kind_value k)"
  by (cases k) simp_all

lemma network_role_unique [simp]: "(x :: NetworkRole) = y"
  by (cases x; cases y; simp)

lemma component_role_unique [simp]: "(x :: ComponentRole) = y"
  by (cases x; cases y; simp)

text \<open>Printing an integer is injective: the digits determine the number.\<close>

definition digits_value :: "string \<Rightarrow> nat" where
  "digits_value s = foldl (\<lambda>acc c. acc * 10 + (of_char c - 48)) 0 s"

lemma digits_value_show_nat: "digits_value (show_nat n) = n"
proof (induction n rule: show_nat.induct)
  case (1 n)
  show ?case
  proof (cases "n < 10")
    case True
    then show ?thesis by (subst show_nat.simps) (simp add: digits_value_def digit_char_def)
  next
    case False
    then have IH: "foldl (\<lambda>acc c. acc * 10 + (of_char c - 48)) 0 (show_nat (n div 10)) = n div 10"
      using 1 by (simp add: digits_value_def)
    have "of_char (digit_char (n mod 10)) - 48 = n mod 10" by (simp add: digit_char_def)
    then show ?thesis
      using False IH by (subst show_nat.simps) (simp add: digits_value_def)
  qed
qed

lemma show_nat_inj [simp]: "show_nat m = show_nat n \<longleftrightarrow> m = n"
  by (metis digits_value_show_nat)

lemma show_nat_hd: "\<exists>d < 10. hd (show_nat n) = digit_char d \<and> show_nat n \<noteq> []"
proof (induction n rule: show_nat.induct)
  case (1 n)
  then show ?case by (subst (1 2) show_nat.simps) (auto intro: exI[of _ n] simp: hd_append)
qed

lemma show_nat_no_sign: "show_nat n \<noteq> CHR ''-'' # s"
proof
  assume s: "show_nat n = CHR ''-'' # s"
  obtain d where d: "d < 10" "hd (show_nat n) = digit_char d" using show_nat_hd by blast
  then have "of_char (CHR ''-'') = (of_char (digit_char d) :: nat)" using s by simp
  then show False using d(1) by (simp add: digit_char_def)
qed

lemma show_int_inj [simp]: "show_int i = show_int j \<longleftrightarrow> i = j"
  using show_nat_no_sign show_nat_no_sign[symmetric] by (auto simp: show_int_def split: if_splits)

lemma resource_id_of_parts:
  "resource_id_of a = Inr r \<Longrightarrow> ri_kind r = name_kind a \<and> ri_path r = name_path a"
  by (cases a) (auto simp: resource_id_defs rbind_eq_Inr split: if_splits)

lemma ixia_instance_path_inj [simp]: "ixia_instance_path d c = ixia_instance_path d' c' \<longleftrightarrow> d = d' \<and> c = c'"
  by (auto simp: ixia_instance_path_def split: option.splits)

lemma name_parts_inj:
  assumes "name_kind a = name_kind b" "name_path a = name_path b"
  shows "a = b"
  using assms by (cases a) (cases b; simp)+

section \<open>Properties\<close>

text \<open>
  The identities are faithful: whatever two resources the compiler names, of the same or of
  different kinds, they get the same identity only if they are the same resource. In particular a
  role policy never collides with a named policy, and an advertisement of a child group never with
  one of its parent.
\<close>

theorem resource_ids_injective:
  assumes "resource_id_of a = Inr r" "resource_id_of b = Inr r"
  shows "a = b"
  using resource_id_of_parts[OF assms(1)] resource_id_of_parts[OF assms(2)]
  by (intro name_parts_inj) simp_all

theorem resource_ids_witness:
  "\<exists>r. resource_id_of (NIxiaAdvertisement ''dg'' ''routes'' (Some ''c'')) = Inr r
       \<and> resource_id_of (NIxiaAdvertisement ''dg'' ''routes'' None) \<noteq> Inr r"
proof -
  obtain r where r: "resource_id_of (NIxiaAdvertisement ''dg'' ''routes'' (Some ''c'')) = Inr r"
    by (simp add: resource_id_defs ixia_instance_path_def)
  show ?thesis
    using r resource_ids_injective[OF r, of "NIxiaAdvertisement ''dg'' ''routes'' None"] by auto
qed

text \<open>
  The printed form of an identity determines it as long as no path segment contains a slash: the
  kind is what precedes the first colon and the path is what the slashes separate.
\<close>

theorem resource_id_print_injective:
  assumes "mk_ResourceId k p = Inr r" "mk_ResourceId l q = Inr s"
    and "\<forall>x \<in> set p \<union> set q. CHR ''/'' \<notin> set x"
    and "rid_str r = rid_str s"
  shows "r = s"
proof -
  have r: "r = \<lparr>ri_kind = k, ri_path = p\<rparr>" "p \<noteq> []" and s: "s = \<lparr>ri_kind = l, ri_path = q\<rparr>" "q \<noteq> []"
    using assms(1,2) by simp_all
  have eq: "kind_value k @ CHR '':'' # join ''/'' p = kind_value l @ CHR '':'' # join ''/'' q"
    using assms(4) by (simp add: rid_str_def r s)
  have "split_on (CHR '':'') (kind_value k @ CHR '':'' # join ''/'' p)
      = split_on (CHR '':'') (kind_value l @ CHR '':'' # join ''/'' q)"
    using eq by simp
  then have kl: "k = l" by (simp add: split_on_append kind_value_no_colon)
  then have jn: "join ''/'' p = join ''/'' q" using eq by simp
  have "p = split_on (CHR ''/'') (join ''/'' p)"
    using assms(3) r(2) by (simp add: split_on_join)
  also have "\<dots> = split_on (CHR ''/'') (join ''/'' q)" by (simp only: jn)
  also have "\<dots> = q" using assms(3) s(2) by (simp add: split_on_join)
  finally show ?thesis by (simp add: r s kl)
qed

theorem resource_id_print_witness:
  "rid_str \<lparr>ri_kind = LINK, ri_path = [''a'', ''b'']\<rparr> = ''link:a/b''
   \<and> (\<forall>p. rid_str \<lparr>ri_kind = LINK, ri_path = [p]\<rparr> = ''link:a/b'' \<longrightarrow> p = [] \<or> CHR ''/'' \<in> set p)"
proof (intro conjI allI impI)
  show ab: "rid_str \<lparr>ri_kind = LINK, ri_path = [''a'', ''b'']\<rparr> = ''link:a/b''" by (simp add: rid_str_def)
  fix p
  assume p: "rid_str \<lparr>ri_kind = LINK, ri_path = [p]\<rparr> = ''link:a/b''"
  show "p = [] \<or> CHR ''/'' \<in> set p"
  proof (rule ccontr)
    assume "\<not> ?thesis"
    then show False
      using resource_id_print_injective[of LINK "[''a'', ''b'']" _ LINK "[p]"] ab p by fastforce
  qed
qed

end
