(* ===== verification/Plan_Resources.thy ===== *)
theory Plan_Resources
  imports Resource_Ids Routes
begin

text \<open>
  The resources of a compilation plan (\<open>abstractions/compilation/model.py\<close>, up to the plans
  themselves): each dataclass as a record, and its \<open>__post_init__\<close> as a validator that returns the
  record or raises. Checks that only reject values of another Python type are discharged by the
  types; a \<open>bool\<close> where an \<open>int\<close> is expected does not arise here.
\<close>

section \<open>Checks\<close>

text \<open>
  A validator is a sequence of \<open>if bad: raise ValueError(message)\<close>, and the first bad one raises.
\<close>

definition validated :: "(bool \<times> string) list \<Rightarrow> 'a \<Rightarrow> 'a result" where
  "validated checks x = (case find fst checks of Some (_, m) \<Rightarrow> Inl (value_error m) | None \<Rightarrow> Inr x)"

definition wrong_kind :: "ResourceKind \<Rightarrow> ResourceId \<Rightarrow> bool \<times> string" where
  "wrong_kind kind r = (ri_kind r \<noteq> kind, ''resource must have kind '' @ kind_value kind)"

definition negative :: "int \<Rightarrow> string \<Rightarrow> bool \<times> string" where
  "negative n field_name = (n < 0, field_name @ '' must be non-negative'')"

definition not_positive :: "int \<Rightarrow> string \<Rightarrow> bool \<times> string" where
  "not_positive n field_name = (n \<le> 0, field_name @ '' must be positive'')"

text \<open>\<open>ipaddress.ip_interface(text)\<close>, its \<open>str\<close> and its version.\<close>

definition ip_interface :: "string \<Rightarrow> (ip_addr \<times> nat) option" where
  "ip_interface s =
     (let build = (\<lambda>addr netmask.
            case parse_ip addr of
              None \<Rightarrow> None
            | Some a \<Rightarrow> map_option (Pair a) (make_netmask (ip_version a) netmask))
      in case split_on (CHR ''/'') s of
           [addr] \<Rightarrow> build addr None
         | [addr, netmask] \<Rightarrow> build addr (Some netmask)
         | _ \<Rightarrow> None)"

definition ip_interface_str :: "ip_addr \<times> nat \<Rightarrow> string" where
  "ip_interface_str i = ip_str (fst i) @ ''/'' @ show_nat (snd i)"

text \<open>
  \<open>ip_network(cidr, strict=False)\<close> is the network of \<open>ip_interface(cidr)\<close>; an address is in it when it
  has the same version and the same bits above the prefix.
\<close>

definition in_network :: "ip_addr \<Rightarrow> ip_addr \<times> nat \<Rightarrow> bool" where
  "in_network a n \<longleftrightarrow>
     ip_version a = ip_version (fst n)
     \<and> (let w = 2 ^ (max_prefixlen (ip_version a) - snd n) in ip_int a div w = ip_int (fst n) div w)"

section \<open>Enumerations\<close>

datatype EndpointSetupMode = FULL | PRELOADED | SKIP | VERIFY_ONLY
datatype DesiredPresence = PRESENT | ABSENT
datatype IxiaPeerPrefixDistribution = IXIA_SHARED | IXIA_DISJOINT
datatype IxiaRouteScaleMode = IXIA_WINDOWED | IXIA_FLAT
datatype IxiaNextHopMode = IXIA_SELF | IXIA_FORMULAIC | IXIA_EXPLICIT
datatype IxiaSelfNextHopRealization = ADVERTISING_SESSION_LOCAL_ADDRESS
datatype IxiaNextHopDistribution = IXIA_NH_SHARED | IXIA_PER_PEER | IXIA_PER_PREFIX | IXIA_PER_PEER_PREFIX
datatype OpenRDesiredMode = OPENR_NONE | STANDALONE | PEER
datatype ComponentDesiredState = RUNNING | STOPPED
datatype ComponentReconcileMode = RECONCILE_NONE | RESTART_AFTER_CONFIGURATION
datatype ComponentReadinessRequirement = REQUIRE_NONE | REQUIRE_ACKNOWLEDGED | REQUIRE_HEALTHY
datatype IxiaBgpCapability =
    IPV4_UNICAST | IPV6_UNICAST | IPV4_UNICAST_ADD_PATH | IPV6_UNICAST_ADD_PATH | NEXT_HOP_ENCODING
datatype IxiaEndpointPortLabelStyle = DUT_INTERFACE | CHASSIS_PORT

section \<open>Resources of the device under test\<close>

record RolePolicyPreset =
  rpp_key :: RolePolicyKey
  rpp_semantic_id :: string

definition mk_RolePolicyPreset :: "RolePolicyPreset \<Rightarrow> RolePolicyPreset result" where
  "mk_RolePolicyPreset p = validated [(rpp_semantic_id p = [], ''role-policy semantic ID must be nonempty'')] p"

record EndpointPlan =
  ep_resource_id :: ResourceId
  ep_logical_name :: string
  ep_role :: string
  ep_kind :: string
  ep_backend :: string
  ep_is_dut :: bool
  ep_physical_identifier :: "string option"
  ep_setup_mode :: EndpointSetupMode
  ep_network_role :: "NetworkRole option"

definition mk_EndpointPlan :: "EndpointPlan \<Rightarrow> EndpointPlan result" where
  "mk_EndpointPlan p = validated [wrong_kind ENDPOINT (ep_resource_id p)] p"

record DutLinkPlan =
  dl_resource_id :: ResourceId
  dl_a_endpoint_id :: ResourceId
  dl_z_endpoint_id :: ResourceId
  dl_afi :: AddressFamily
  dl_logical_port_role :: string
  dl_peer_count :: int
  dl_parent_network :: "string option"

definition mk_DutLinkPlan :: "DutLinkPlan \<Rightarrow> DutLinkPlan result" where
  "mk_DutLinkPlan p =
     validated [wrong_kind LINK (dl_resource_id p), wrong_kind ENDPOINT (dl_a_endpoint_id p),
       wrong_kind ENDPOINT (dl_z_endpoint_id p), not_positive (dl_peer_count p) ''peer_count''] p"

record PhysicalLinkRate =
  plr_aggregate_gbps :: int
  plr_lane_count :: int

definition mk_PhysicalLinkRate :: "PhysicalLinkRate \<Rightarrow> PhysicalLinkRate result" where
  "mk_PhysicalLinkRate r =
     validated [not_positive (plr_aggregate_gbps r) ''physical link aggregate_gbps'',
       not_positive (plr_lane_count r) ''physical link lane_count''] r"

record PhysicalInterfacePlan =
  pi_resource_id :: ResourceId
  pi_endpoint_id :: ResourceId
  pi_group_kind :: PhysicalInterfaceGroupKind
  pi_logical_key :: string
  pi_link_ids :: "ResourceId list"
  pi_bound_interface :: string
  pi_profile :: PhysicalLinkRate

definition mk_PhysicalInterfacePlan :: "PhysicalInterfacePlan \<Rightarrow> PhysicalInterfacePlan result" where
  "mk_PhysicalInterfacePlan p =
     validated ([wrong_kind PHYSICAL_INTERFACE (pi_resource_id p), wrong_kind ENDPOINT (pi_endpoint_id p),
       (pi_logical_key p = [], ''physical interface logical key must be nonempty''),
       (ri_path (pi_resource_id p)
          \<noteq> ri_path (pi_endpoint_id p) @ [group_kind_value (pi_group_kind p), pi_logical_key p],
        ''physical interface resource ID must derive from endpoint and group''),
       (pi_link_ids p = [], ''physical interface link IDs must be a nonempty tuple'')]
       @ map (wrong_kind LINK) (pi_link_ids p)
       @ [(\<not> distinct (pi_link_ids p), ''physical interface link IDs must be unique''),
          (pi_bound_interface p = [], ''physical interface binding must be nonempty'')]) p"

record InterfacePlan =
  if_resource_id :: ResourceId
  if_endpoint_id :: ResourceId
  if_link_ids :: "ResourceId list"
  if_logical_port_role :: string
  if_afi :: AddressFamily
  if_addresses :: "string list"
  if_bound_interface :: "string option"
  if_physical_interface_id :: "ResourceId option"

definition address_check :: "string \<Rightarrow> bool \<times> string" where
  "address_check a =
     (case ip_interface a of
        None \<Rightarrow> (True, ''does not appear to be an IPv4 or IPv6 interface'')
      | Some i \<Rightarrow> (ip_interface_str i \<noteq> a, ''interface address must be a canonical CIDR''))"

definition mk_InterfacePlan :: "InterfacePlan \<Rightarrow> InterfacePlan result" where
  "mk_InterfacePlan p =
     validated ([wrong_kind INTERFACE (if_resource_id p), wrong_kind ENDPOINT (if_endpoint_id p)]
       @ map (wrong_kind LINK) (if_link_ids p)
       @ [(\<not> distinct (if_addresses p), ''interface addresses must be unique'')]
       @ map address_check (if_addresses p)
       @ (case if_physical_interface_id p of None \<Rightarrow> [] | Some r \<Rightarrow> [wrong_kind PHYSICAL_INTERFACE r])) p"

record BgpAdjacencyPlan =
  ba_resource_id :: ResourceId
  ba_link_id :: ResourceId
  ba_ordinal :: int
  ba_afi :: AddressFamily
  ba_local_address :: string
  ba_peer_address :: string
  ba_local_asn :: "int option"
  ba_remote_asn :: "int option"
  ba_desired_presence :: DesiredPresence
  ba_relationship :: "PeerRelationship option"

definition mk_BgpAdjacencyPlan :: "BgpAdjacencyPlan \<Rightarrow> BgpAdjacencyPlan result" where
  "mk_BgpAdjacencyPlan p =
     validated [wrong_kind BGP_ADJACENCY (ba_resource_id p), wrong_kind LINK (ba_link_id p),
       negative (ba_ordinal p) ''ordinal''] p"

record PolicyPlan =
  po_resource_id :: ResourceId
  po_logical_name :: string
  po_preset :: "RolePolicyPreset option"

definition mk_PolicyPlan :: "PolicyPlan \<Rightarrow> PolicyPlan result" where
  "mk_PolicyPlan p = validated [wrong_kind POLICY (po_resource_id p)] p"

record PolicyBinding =
  pb_resource_id :: ResourceId
  pb_adjacency_id :: ResourceId
  pb_policy_id :: ResourceId
  pb_direction :: PolicyDirection

definition mk_PolicyBinding :: "PolicyBinding \<Rightarrow> PolicyBinding result" where
  "mk_PolicyBinding p =
     validated [wrong_kind POLICY_BINDING (pb_resource_id p), wrong_kind BGP_ADJACENCY (pb_adjacency_id p),
       wrong_kind POLICY (pb_policy_id p)] p"

text \<open>The source artifact is its path; \<open>variant\<close> is always \<open>None\<close>.\<close>

record RoutingConfigPlan =
  rc_resource_id :: ResourceId
  rc_endpoint_id :: ResourceId
  rc_routing_driver :: string
  rc_source :: "string option"
  rc_required_features :: "string list"

definition mk_RoutingConfigPlan :: "RoutingConfigPlan \<Rightarrow> RoutingConfigPlan result" where
  "mk_RoutingConfigPlan p =
     validated [wrong_kind ROUTING_CONFIG (rc_resource_id p), wrong_kind ENDPOINT (rc_endpoint_id p),
       (rc_routing_driver p = [], ''routing config driver must be nonempty''),
       ([] \<in> set (rc_required_features p), ''routing config required features must be nonempty''),
       (\<not> distinct (rc_required_features p), ''routing config required features must be unique'')] p"

record ComponentPlan =
  cp_resource_id :: ResourceId
  cp_endpoint_id :: ResourceId
  cp_role :: ComponentRole
  cp_desired_state :: ComponentDesiredState
  cp_reconcile_mode :: ComponentReconcileMode
  cp_readiness :: ComponentReadinessRequirement
  cp_depends_on :: "ResourceId list"

definition dependency_checks :: "ResourceId \<Rightarrow> ResourceId \<Rightarrow> (bool \<times> string) list" where
  "dependency_checks self d =
     [(ri_kind d \<notin> {COMPONENT, ROUTING_CONFIG},
       ''component dependencies must target components or routing configs''),
      (d = self, ''component cannot depend on itself'')]"

definition mk_ComponentPlan :: "ComponentPlan \<Rightarrow> ComponentPlan result" where
  "mk_ComponentPlan p =
     validated ([wrong_kind COMPONENT (cp_resource_id p), wrong_kind ENDPOINT (cp_endpoint_id p),
       (ri_path (cp_resource_id p) \<noteq> ri_path (cp_endpoint_id p) @ [component_role_value (cp_role p)],
        ''component resource ID must derive from endpoint and role''),
       (cp_desired_state p = STOPPED
          \<and> (cp_reconcile_mode p \<noteq> RECONCILE_NONE \<or> cp_readiness p \<noteq> REQUIRE_NONE),
        ''stopped component cannot request reconciliation or readiness''),
       (\<not> distinct (cp_depends_on p), ''component dependencies must be unique'')]
       @ concat (map (dependency_checks (cp_resource_id p)) (cp_depends_on p))) p"

record OpenRPlan =
  or_resource_id :: ResourceId
  or_endpoint_id :: ResourceId
  or_mode :: OpenRDesiredMode
  or_link_id :: "ResourceId option"

definition mk_OpenRPlan :: "OpenRPlan \<Rightarrow> OpenRPlan result" where
  "mk_OpenRPlan p =
     validated ([wrong_kind OPENR (or_resource_id p), wrong_kind ENDPOINT (or_endpoint_id p)]
       @ (case or_link_id p of None \<Rightarrow> [] | Some l \<Rightarrow> [wrong_kind LINK l])) p"

section \<open>Resources of the traffic generator\<close>

record IxiaPortPlan =
  xp_resource_id :: ResourceId
  xp_logical_role :: string
  xp_link_ids :: "ResourceId list"
  xp_dut_endpoint_id :: ResourceId
  xp_traffic_endpoint_id :: ResourceId
  xp_dut_physical_identifier :: string
  xp_chassis_identifier :: string
  xp_dut_interface :: string
  xp_ixia_port :: string
  xp_physical_inventory_index :: int
  xp_endpoint_label_style :: IxiaEndpointPortLabelStyle
  xp_reuse_group :: "string option"

definition mk_IxiaPortPlan :: "IxiaPortPlan \<Rightarrow> IxiaPortPlan result" where
  "mk_IxiaPortPlan p =
     validated (wrong_kind IXIA_PORT (xp_resource_id p) # map (wrong_kind LINK) (xp_link_ids p)
       @ [wrong_kind ENDPOINT (xp_dut_endpoint_id p), wrong_kind ENDPOINT (xp_traffic_endpoint_id p),
          (xp_dut_physical_identifier p = [] \<or> xp_chassis_identifier p = [],
           ''IXIA port endpoint identifiers must be nonempty''),
          negative (xp_physical_inventory_index p) ''physical_inventory_index'']) p"

record IxiaDeviceGroupPlan =
  dg_resource_id :: ResourceId
  dg_link_id :: ResourceId
  dg_port_id :: ResourceId
  dg_afi :: AddressFamily
  dg_peer_count :: int
  dg_local_asn :: "int option"
  dg_remote_asn :: "int option"
  dg_parent_network :: "string option"
  dg_peer_start_index :: int

definition mk_IxiaDeviceGroupPlan :: "IxiaDeviceGroupPlan \<Rightarrow> IxiaDeviceGroupPlan result" where
  "mk_IxiaDeviceGroupPlan p =
     validated [wrong_kind IXIA_DEVICE_GROUP (dg_resource_id p), wrong_kind LINK (dg_link_id p),
       wrong_kind IXIA_PORT (dg_port_id p), not_positive (dg_peer_count p) ''peer_count'',
       negative (dg_peer_start_index p) ''peer_start_index''] p"

record IxiaBgpSessionPlan =
  bs_resource_id :: ResourceId
  bs_device_group_id :: ResourceId
  bs_adjacency_ids :: "ResourceId list"
  bs_local_addresses :: "string list"
  bs_peer_addresses :: "string list"
  bs_peer_cidrs :: "string option list"
  bs_relationship :: PeerRelationship
  bs_capabilities :: "IxiaBgpCapability list"
  bs_address_prefix_length :: int
  bs_address_step :: int
  bs_address_start_index :: int
  bs_enable_four_byte_local_as :: bool
  bs_hold_timer_s :: int
  bs_keepalive_timer_s :: int
  bs_enable_graceful_restart :: bool
  bs_tcp_window_size_bytes :: "int option"

definition tcp_window_checks :: "int \<Rightarrow> (bool \<times> string) list" where
  "tcp_window_checks n =
     [(n \<le> 0, ''IXIA BGP TCP window size must be positive''),
      (n > 2 ^ 16 - 1, ''IXIA BGP TCP window size must not exceed 65535 bytes'')]"

definition mk_IxiaBgpSessionPlan :: "IxiaBgpSessionPlan \<Rightarrow> IxiaBgpSessionPlan result" where
  "mk_IxiaBgpSessionPlan p =
     validated ([wrong_kind IXIA_BGP_SESSION (bs_resource_id p),
       wrong_kind IXIA_DEVICE_GROUP (bs_device_group_id p)]
       @ map (wrong_kind BGP_ADJACENCY) (bs_adjacency_ids p)
       @ [(card {length (bs_adjacency_ids p), length (bs_local_addresses p), length (bs_peer_addresses p),
                 length (bs_peer_cidrs p)} \<noteq> 1,
           ''IXIA BGP adjacency, address, and peer-CIDR counts must match''),
          (bs_capabilities p = [], ''IXIA BGP sessions require typed capabilities''),
          (\<not> distinct (bs_capabilities p), ''IXIA BGP session capabilities must be unique''),
          negative (bs_address_prefix_length p) ''address_prefix_length'',
          not_positive (bs_address_step p) ''address_step'',
          negative (bs_address_start_index p) ''address_start_index'',
          not_positive (bs_hold_timer_s p) ''hold_timer_s'',
          not_positive (bs_keepalive_timer_s p) ''keepalive_timer_s'']
       @ (case bs_tcp_window_size_bytes p of None \<Rightarrow> [] | Some n \<Rightarrow> tcp_window_checks n)) p"

record IxiaPrefixWindowPlan =
  pw_source_start :: string
  pw_source_step :: int
  pw_source_count :: int
  pw_source_excluded_indices :: "int list"
  pw_membership_start_index :: int
  pw_membership_prefix_count :: int
  pw_starting_prefix :: string
  pw_prefix_length :: int
  pw_prefixes_per_peer :: int
  pw_peer_distribution :: IxiaPeerPrefixDistribution
  pw_network_group_index :: int
  pw_route_scale_mode :: IxiaRouteScaleMode

definition mk_IxiaPrefixWindowPlan :: "IxiaPrefixWindowPlan \<Rightarrow> IxiaPrefixWindowPlan result" where
  "mk_IxiaPrefixWindowPlan p =
     (let excluded = pw_source_excluded_indices p
      in validated
           [(pw_source_start p = [] \<or> pw_starting_prefix p = [],
             ''IXIA prefix source and starting prefix must be nonempty''),
            not_positive (pw_source_step p) ''source_step'',
            not_positive (pw_source_count p) ''source_count'',
            negative (pw_membership_start_index p) ''membership_start_index'',
            not_positive (pw_membership_prefix_count p) ''membership_prefix_count'',
            negative (pw_prefix_length p) ''prefix_length'',
            not_positive (pw_prefixes_per_peer p) ''prefixes_per_peer'',
            negative (pw_network_group_index p) ''network_group_index'',
            (pw_membership_start_index p + pw_membership_prefix_count p > pw_source_count p,
             ''prefix membership extends beyond the retained source''),
            (list_ex (\<lambda>i. i < 0) excluded \<or> list_ex (\<lambda>(l, r). l \<ge> r) (zip excluded (tl excluded)),
             ''source excluded indices must be non-negative, unique, and sorted''),
            (excluded \<noteq> [] \<and> last excluded \<ge> pw_source_count p + int (length excluded),
             ''source excluded index is outside the candidate span'')] p)"

record IxiaNextHopPlan =
  nh_mode :: IxiaNextHopMode
  nh_distribution :: "IxiaNextHopDistribution option"
  nh_formulaic_start :: "string option"
  nh_formulaic_step :: "int option"
  nh_explicit_addresses :: "string list"
  nh_self_realization :: "IxiaSelfNextHopRealization option"

definition self_next_hop_checks :: "IxiaNextHopPlan \<Rightarrow> (bool \<times> string) list" where
  "self_next_hop_checks p =
     [(nh_distribution p \<noteq> None \<or> nh_formulaic_start p \<noteq> None \<or> nh_formulaic_step p \<noteq> None
         \<or> nh_explicit_addresses p \<noteq> [],
       ''self next hop cannot carry a source or distribution'')]"

definition mk_IxiaNextHopPlan :: "IxiaNextHopPlan \<Rightarrow> IxiaNextHopPlan result" where
  "mk_IxiaNextHopPlan p =
     (let sourced =
            [(nh_self_realization p \<noteq> None, ''non-self next hop cannot carry a self realization''),
             (nh_distribution p = None, ''non-self next hop requires a distribution'')]
      in validated
           (case nh_mode p of
              IXIA_SELF \<Rightarrow> self_next_hop_checks p
            | IXIA_FORMULAIC \<Rightarrow> sourced @
                [(nh_formulaic_start p \<in> {None, Some []} \<or> nh_formulaic_step p = None,
                  ''formulaic next hop requires a start and step''),
                 not_positive (the (nh_formulaic_step p)) ''formulaic_step'',
                 (nh_explicit_addresses p \<noteq> [], ''formulaic next hop cannot carry explicit addresses'')]
            | IXIA_EXPLICIT \<Rightarrow> sourced @
                [(nh_formulaic_start p \<noteq> None \<or> nh_formulaic_step p \<noteq> None,
                  ''explicit next hop cannot carry a formulaic source''),
                 (nh_explicit_addresses p = [], ''explicit next hop requires at least one address'')]) p)"

record IxiaPeerPrefixExclusionBlock =
  xb_prefix_start_index :: int
  xb_prefix_count :: int
  xb_peer_indices :: "int list"

definition mk_IxiaPeerPrefixExclusionBlock ::
    "IxiaPeerPrefixExclusionBlock \<Rightarrow> IxiaPeerPrefixExclusionBlock result" where
  "mk_IxiaPeerPrefixExclusionBlock b =
     validated ([negative (xb_prefix_start_index b) ''prefix_start_index'',
       not_positive (xb_prefix_count b) ''prefix_count'',
       (xb_peer_indices b = [], ''IXIA peer-prefix exclusion block requires peers''),
       (sort (remdups (xb_peer_indices b)) \<noteq> xb_peer_indices b,
        ''IXIA peer-prefix exclusion peers must be sorted and unique'')]
       @ map (\<lambda>i. negative i ''peer_index'') (xb_peer_indices b)) b"

datatype IxiaRouteAttributeDistribution = IXIA_ROUND_ROBIN

record IxiaStandardCommunityPlan =
  xsc_asn :: int
  xsc_value :: int

record IxiaExtendedCommunityPlan =
  xec_kind :: string
  xec_administrator :: int
  xec_assigned_number :: int

definition mk_IxiaExtendedCommunityPlan :: "IxiaExtendedCommunityPlan \<Rightarrow> IxiaExtendedCommunityPlan result" where
  "mk_IxiaExtendedCommunityPlan c = validated [(xec_kind c = [], ''extended-community kind must be nonempty'')] c"

record IxiaAsPathPlan =
  xap_asns :: "int list"

record IxiaRouteAttributePoolPlan =
  xra_community_rows :: "IxiaStandardCommunityPlan list list"
  xra_extended_community_rows :: "IxiaExtendedCommunityPlan list list"
  xra_as_paths :: "IxiaAsPathPlan list"
  xra_distribution :: IxiaRouteAttributeDistribution

text \<open>Attribute values are carried through unread.\<close>

record IxiaAdvertisementPlan =
  ad_resource_id :: ResourceId
  ad_device_group_id :: ResourceId
  ad_logical_name :: string
  ad_prefix_set_name :: string
  ad_afi :: AddressFamily
  ad_route_count :: int
  ad_prefix_window :: IxiaPrefixWindowPlan
  ad_next_hop :: IxiaNextHopPlan
  ad_attributes :: "(string \<times> pyval) list"
  ad_route_attributes :: "IxiaRouteAttributePoolPlan option"
  ad_policy_communities :: "string list"
  ad_requires_route_mutation :: bool
  ad_exclusion_blocks :: "IxiaPeerPrefixExclusionBlock list"

definition xb_range :: "IxiaPeerPrefixExclusionBlock \<Rightarrow> int \<times> int" where
  "xb_range b = (xb_prefix_start_index b, xb_prefix_count b)"

definition mk_IxiaAdvertisementPlan :: "IxiaAdvertisementPlan \<Rightarrow> IxiaAdvertisementPlan result" where
  "mk_IxiaAdvertisementPlan p =
     rbind (validated
       [wrong_kind IXIA_ADVERTISEMENT (ad_resource_id p), wrong_kind IXIA_DEVICE_GROUP (ad_device_group_id p),
        negative (ad_route_count p) ''route_count'',
        ([] \<in> set (map fst (ad_attributes p)), ''IXIA advertisement attribute names must be nonempty''),
        ([] \<in> set (ad_policy_communities p), ''IXIA policy communities must be nonempty''),
        (ad_exclusion_blocks p \<noteq> []
           \<and> (pw_peer_distribution (ad_prefix_window p) \<noteq> IXIA_SHARED
              \<or> pw_route_scale_mode (ad_prefix_window p) \<noteq> IXIA_FLAT),
         ''IXIA peer-prefix exclusion requires flat shared route geometry'')] p) (\<lambda>_.
     rbind (validate_exclusion_ranges (map xb_range (ad_exclusion_blocks p))
              (Some (pw_prefixes_per_peer (ad_prefix_window p)))) (\<lambda>_. Inr p))"

record IxiaTrafficFlowPlan =
  tf_resource_id :: ResourceId
  tf_logical_name :: string
  tf_source_device_group_id :: ResourceId
  tf_destination_advertisement_id :: ResourceId
  tf_afi :: AddressFamily
  tf_traffic_profile :: "string option"
  tf_rate_percent :: "rat option"
  tf_rate_bps :: "int option"
  tf_frame_size_bytes :: "int option"
  tf_bidirectional :: bool
  tf_enabled :: bool

definition mk_IxiaTrafficFlowPlan :: "IxiaTrafficFlowPlan \<Rightarrow> IxiaTrafficFlowPlan result" where
  "mk_IxiaTrafficFlowPlan p =
     validated [wrong_kind IXIA_TRAFFIC_FLOW (tf_resource_id p),
       wrong_kind IXIA_DEVICE_GROUP (tf_source_device_group_id p),
       wrong_kind IXIA_ADVERTISEMENT (tf_destination_advertisement_id p),
       (tf_logical_name p = [], ''IXIA traffic-flow logical name must be nonempty''),
       (tf_traffic_profile p = Some [], ''IXIA traffic-flow profile must be nonempty''),
       (tf_rate_percent p \<noteq> None \<and> tf_rate_bps p \<noteq> None, ''IXIA traffic flow cannot set both rate units'')] p"

section \<open>Lemmas\<close>

lemma validated_eq_Inr [simp]: "validated checks x = Inr y \<longleftrightarrow> y = x \<and> (\<forall>c \<in> set checks. \<not> fst c)"
  by (auto simp: validated_def find_None_iff find_Some_iff split: option.splits)

lemma validated_eq_Inl: "validated checks x = Inl e \<Longrightarrow> exn_class_of e = ValueError"
  by (auto simp: validated_def split: option.splits)

lemma check_fst [simp]:
  "fst (wrong_kind k r) \<longleftrightarrow> ri_kind r \<noteq> k" "fst (negative n f) \<longleftrightarrow> n < 0" "fst (not_positive n f) \<longleftrightarrow> n \<le> 0"
  by (simp_all add: wrong_kind_def negative_def not_positive_def)

end
