(* ===== verification/Compilation_Plan.thy ===== *)
theory Compilation_Plan
  imports Plan_Resources
begin

text \<open>
  Compilation plans (\<open>abstractions/compilation/model.py\<close>, from \<open>DutPlan\<close> on): the three aggregates
  and the checks of their cross references, in the order the constructors make them. A dictionary
  \<open>{x.resource_id: x for x in xs}\<close> is the association list of its entries; identities have been
  checked to be unique before it is read.
\<close>

section \<open>Loops and tables\<close>

text \<open>\<open>for x in xs: check(x)\<close>, and the table of resources by identity.\<close>

definition for_each :: "('a \<Rightarrow> unit result) \<Rightarrow> 'a list \<Rightarrow> unit result" where
  "for_each f xs = rfold (\<lambda>_. f) () xs"

definition by_id :: "('a \<Rightarrow> ResourceId) \<Rightarrow> 'a list \<Rightarrow> (ResourceId, 'a) dict" where
  "by_id ident xs = map (\<lambda>x. (ident x, x)) xs"

abbreviation fail :: "string \<Rightarrow> 'a result" where
  "fail m \<equiv> Inl (value_error m)"

section \<open>The plan of the devices\<close>

record DutPlan =
  dp_endpoints :: "EndpointPlan list"
  dp_links :: "DutLinkPlan list"
  dp_physical_interfaces :: "PhysicalInterfacePlan list"
  dp_interfaces :: "InterfacePlan list"
  dp_adjacencies :: "BgpAdjacencyPlan list"
  dp_policies :: "PolicyPlan list"
  dp_policy_bindings :: "PolicyBinding list"
  dp_routing_configs :: "RoutingConfigPlan list"
  dp_components :: "ComponentPlan list"
  dp_openr :: "OpenRPlan list"

text \<open>\<open>iter_resources\<close>: what the checks read of a resource is its identity.\<close>

definition dut_resource_ids :: "DutPlan \<Rightarrow> ResourceId list" where
  "dut_resource_ids p =
     map ep_resource_id (dp_endpoints p) @ map dl_resource_id (dp_links p)
     @ map pi_resource_id (dp_physical_interfaces p) @ map if_resource_id (dp_interfaces p)
     @ map ba_resource_id (dp_adjacencies p) @ map po_resource_id (dp_policies p)
     @ map pb_resource_id (dp_policy_bindings p) @ map rc_resource_id (dp_routing_configs p)
     @ map cp_resource_id (dp_components p) @ map or_resource_id (dp_openr p)"

definition validate_unique_resource_ids :: "ResourceId list \<Rightarrow> unit result" where
  "validate_unique_resource_ids ids =
     (if distinct ids then Inr () else fail ''duplicate compilation resource IDs'')"

text \<open>Physical interfaces and their owners.\<close>

type_synonym link_owners = "(ResourceId \<times> ResourceId, ResourceId) dict"
type_synonym connection_owners = "(ResourceId \<times> string, ResourceId) dict"

definition claim_physical_link ::
    "PhysicalInterfacePlan \<Rightarrow> (ResourceId, DutLinkPlan) dict \<Rightarrow> link_owners \<Rightarrow> ResourceId \<Rightarrow> link_owners result" where
  "claim_physical_link p links owners link_id =
     (case dict_get links link_id of
        None \<Rightarrow> fail ''physical interface references unknown link''
      | Some l \<Rightarrow>
          if pi_endpoint_id p \<notin> {dl_a_endpoint_id l, dl_z_endpoint_id l}
          then fail ''physical interface link targets a different endpoint''
          else case dict_get owners (pi_endpoint_id p, link_id) of
                 Some _ \<Rightarrow> fail ''link has multiple physical owners''
               | None \<Rightarrow> Inr (dict_set (pi_endpoint_id p, link_id) (pi_resource_id p) owners))"

definition claim_physical_interface ::
    "(ResourceId, EndpointPlan) dict \<Rightarrow> (ResourceId, DutLinkPlan) dict
     \<Rightarrow> connection_owners \<times> link_owners \<Rightarrow> PhysicalInterfacePlan \<Rightarrow> (connection_owners \<times> link_owners) result" where
  "claim_physical_interface endpoints links owners p =
     (case dict_get endpoints (pi_endpoint_id p) of
        None \<Rightarrow> fail ''physical interface references unknown endpoint''
      | Some _ \<Rightarrow>
          rbind (rfold (claim_physical_link p links) (snd owners) (pi_link_ids p)) (\<lambda>link_owners.
          let connection = (pi_endpoint_id p, pi_bound_interface p)
          in case dict_get (fst owners) connection of
               Some _ \<Rightarrow> fail ''physical connection has multiple owners''
             | None \<Rightarrow> Inr (dict_set connection (pi_resource_id p) (fst owners), link_owners)))"

definition validate_physical_interface_owners ::
    "PhysicalInterfacePlan list \<Rightarrow> (ResourceId, EndpointPlan) dict \<Rightarrow> (ResourceId, DutLinkPlan) dict
     \<Rightarrow> (connection_owners \<times> link_owners) result" where
  "validate_physical_interface_owners ps endpoints links =
     rfold (claim_physical_interface endpoints links) ([], []) ps"

text \<open>Logical interfaces and the physical interfaces they are members of.\<close>

definition validate_interface_link :: "InterfacePlan \<Rightarrow> (ResourceId, DutLinkPlan) dict \<Rightarrow> ResourceId \<Rightarrow> unit result" where
  "validate_interface_link i links link_id =
     (case dict_get links link_id of
        None \<Rightarrow> fail ''interface references unknown link''
      | Some l \<Rightarrow>
          if if_endpoint_id i \<notin> {dl_a_endpoint_id l, dl_z_endpoint_id l}
          then fail ''interface link targets a different endpoint''
          else if if_logical_port_role i \<noteq> dl_logical_port_role l
          then fail ''interface logical role does not match link''
          else if if_afi i \<noteq> dl_afi l then fail ''interface AFI does not match link''
          else Inr ())"

definition validate_interface_address :: "AddressFamily \<Rightarrow> string \<Rightarrow> unit result" where
  "validate_interface_address afi address =
     (case ip_interface address of
        None \<Rightarrow> fail ''does not appear to be an IPv4 or IPv6 interface''
      | Some a \<Rightarrow>
          if ip_version (fst a) \<noteq> (if afi = IPV4 then 4 else 6)
          then fail ''interface address does not match family'' else Inr ())"

definition validate_logical_interface_links ::
    "InterfacePlan \<Rightarrow> (ResourceId, EndpointPlan) dict \<Rightarrow> (ResourceId, DutLinkPlan) dict \<Rightarrow> unit result" where
  "validate_logical_interface_links i endpoints links =
     (case dict_get endpoints (if_endpoint_id i) of
        None \<Rightarrow> fail ''interface references unknown endpoint''
      | Some _ \<Rightarrow>
          rbind (for_each (validate_interface_link i links) (if_link_ids i)) (\<lambda>_.
          for_each (validate_interface_address (if_afi i)) (if_addresses i)))"

definition validate_logical_physical_interface :: "InterfacePlan \<Rightarrow> PhysicalInterfacePlan \<Rightarrow> unit result" where
  "validate_logical_physical_interface i p =
     (if if_endpoint_id i \<noteq> pi_endpoint_id p
      then fail ''interface and physical interface target different endpoints''
      else if if_bound_interface i \<noteq> Some (pi_bound_interface p)
      then fail ''interface binding does not match physical interface''
      else if \<not> set (if_link_ids i) \<subseteq> set (pi_link_ids p)
      then fail ''interface links are not owned by physical interface''
      else if pi_group_kind p = LOGICAL_ROLE \<and> if_logical_port_role i \<noteq> pi_logical_key p
      then fail ''interface logical role does not match physical interface''
      else Inr ())"

type_synonym members = "(ResourceId, InterfacePlan list) dict"

definition add_member ::
    "(ResourceId, PhysicalInterfacePlan) dict \<Rightarrow> (ResourceId, EndpointPlan) dict \<Rightarrow> (ResourceId, DutLinkPlan) dict
     \<Rightarrow> members \<Rightarrow> InterfacePlan \<Rightarrow> members result" where
  "add_member physical endpoints links ms i =
     rbind (validate_logical_interface_links i endpoints links) (\<lambda>_.
       case if_bound_interface i of
         None \<Rightarrow>
           if if_physical_interface_id i \<noteq> None then fail ''unbound interface references physical interface''
           else Inr ms
       | Some _ \<Rightarrow>
           (case if_physical_interface_id i of
              None \<Rightarrow> fail ''bound interface has no physical interface''
            | Some pid \<Rightarrow>
                (case dict_get physical pid of
                   None \<Rightarrow> fail ''interface references unknown physical interface''
                 | Some p \<Rightarrow>
                     rbind (validate_logical_physical_interface i p) (\<lambda>_.
                       Inr (dict_append pid i ms)))))"

definition physical_interface_members ::
    "InterfacePlan list \<Rightarrow> (ResourceId, PhysicalInterfacePlan) dict \<Rightarrow> (ResourceId, EndpointPlan) dict
     \<Rightarrow> (ResourceId, DutLinkPlan) dict \<Rightarrow> members result" where
  "physical_interface_members interfaces physical endpoints links =
     rfold (add_member physical endpoints links) (map (\<lambda>(pid, _). (pid, [])) physical) interfaces"

definition validate_membership ::
    "(ResourceId, PhysicalInterfacePlan) dict \<Rightarrow> ResourceId \<times> InterfacePlan list \<Rightarrow> unit result" where
  "validate_membership physical m =
     (let links = concat (map if_link_ids (snd m))
      in if snd m = [] then fail ''physical interface has no members''
         else if card (set links) \<noteq> length links then fail ''physical interface link membership is duplicated''
         else case dict_get physical (fst m) of
                None \<Rightarrow> Inl (Exn KeyError [])
              | Some p \<Rightarrow>
                  if set links \<noteq> set (pi_link_ids p)
                  then fail ''physical interface link membership is incomplete'' else Inr ())"

definition validate_physical_interface_references :: "DutPlan \<Rightarrow> unit result" where
  "validate_physical_interface_references p =
     (let endpoints = by_id ep_resource_id (dp_endpoints p);
          links = by_id dl_resource_id (dp_links p);
          physical = by_id pi_resource_id (dp_physical_interfaces p)
      in rbind (validate_physical_interface_owners (dp_physical_interfaces p) endpoints links) (\<lambda>_.
         rbind (physical_interface_members (dp_interfaces p) physical endpoints links) (\<lambda>ms.
         for_each (validate_membership physical) ms)))"

text \<open>Dependencies of components: routing configurations and components of the same endpoint.\<close>

definition dependency_table :: "DutPlan \<Rightarrow> (ResourceId, ResourceId) dict" where
  "dependency_table p =
     map (\<lambda>c. (rc_resource_id c, rc_endpoint_id c)) (dp_routing_configs p)
     @ map (\<lambda>c. (cp_resource_id c, cp_endpoint_id c)) (dp_components p)"

definition validate_component_dependency ::
    "(ResourceId, ResourceId) dict \<Rightarrow> ComponentPlan \<Rightarrow> ResourceId \<Rightarrow> unit result" where
  "validate_component_dependency table c d =
     (case dict_get table d of
        None \<Rightarrow> fail ''component references unknown dependency''
      | Some endpoint \<Rightarrow>
          if endpoint \<noteq> cp_endpoint_id c then fail ''component dependency targets a different endpoint'' else Inr ())"

definition validate_component_references :: "DutPlan \<Rightarrow> unit result" where
  "validate_component_references p =
     for_each (\<lambda>c. for_each (validate_component_dependency (dependency_table p) c) (cp_depends_on c))
       (dp_components p)"

definition mk_DutPlan :: "DutPlan \<Rightarrow> DutPlan result" where
  "mk_DutPlan p =
     rbind (validate_unique_resource_ids (dut_resource_ids p)) (\<lambda>_.
     rbind (validate_physical_interface_references p) (\<lambda>_.
     rbind (validate_component_references p) (\<lambda>_. Inr p)))"

section \<open>The plan of the traffic generator\<close>

record IxiaPlan =
  xx_ports :: "IxiaPortPlan list"
  xx_device_groups :: "IxiaDeviceGroupPlan list"
  xx_bgp_sessions :: "IxiaBgpSessionPlan list"
  xx_advertisements :: "IxiaAdvertisementPlan list"
  xx_traffic_flows :: "IxiaTrafficFlowPlan list"

definition ixia_resource_ids :: "IxiaPlan \<Rightarrow> ResourceId list" where
  "ixia_resource_ids p =
     map xp_resource_id (xx_ports p) @ map dg_resource_id (xx_device_groups p)
     @ map bs_resource_id (xx_bgp_sessions p) @ map ad_resource_id (xx_advertisements p)
     @ map tf_resource_id (xx_traffic_flows p)"

definition validate_device_group_port ::
    "(ResourceId, IxiaPortPlan) dict \<Rightarrow> IxiaDeviceGroupPlan \<Rightarrow> unit result" where
  "validate_device_group_port ports g =
     (case dict_get ports (dg_port_id g) of
        None \<Rightarrow> fail ''IXIA device group references unknown port''
      | Some port \<Rightarrow>
          if dg_link_id g \<notin> set (xp_link_ids port) then fail ''IXIA device group link is not owned by port''
          else Inr ())"

definition validate_session_group ::
    "(ResourceId, IxiaDeviceGroupPlan) dict \<Rightarrow> IxiaBgpSessionPlan \<Rightarrow> unit result" where
  "validate_session_group groups s =
     (case dict_get groups (bs_device_group_id s) of
        None \<Rightarrow> fail ''IXIA BGP session references unknown device group''
      | Some g \<Rightarrow>
          if int (length (bs_adjacency_ids s)) \<noteq> dg_peer_count g
          then fail ''IXIA BGP session and device group declare different peers''
          else if bs_address_prefix_length s > (if dg_afi g = IPV4 then 32 else 128)
          then fail ''IXIA BGP session address prefix length exceeds width''
          else Inr ())"

definition validate_block_peers :: "int \<Rightarrow> IxiaPeerPrefixExclusionBlock \<Rightarrow> unit result" where
  "validate_block_peers peer_count b =
     (if last (xb_peer_indices b) \<ge> peer_count
      then fail ''IXIA advertisement has a peer-prefix exclusion index outside device group''
      else if int (length (xb_peer_indices b)) \<ge> peer_count
      then fail ''IXIA advertisement peer-prefix exclusion must leave at least one active peer''
      else Inr ())"

definition expected_route_count :: "IxiaAdvertisementPlan \<Rightarrow> IxiaDeviceGroupPlan \<Rightarrow> int" where
  "expected_route_count a g =
     pw_prefixes_per_peer (ad_prefix_window a)
     * (if pw_peer_distribution (ad_prefix_window a) = IXIA_DISJOINT then dg_peer_count g else 1)"

definition validate_advertisement_group ::
    "(ResourceId, IxiaDeviceGroupPlan) dict \<Rightarrow> IxiaAdvertisementPlan \<Rightarrow> unit result" where
  "validate_advertisement_group groups a =
     (case dict_get groups (ad_device_group_id a) of
        None \<Rightarrow> fail ''IXIA advertisement references unknown device group''
      | Some g \<Rightarrow>
          if ad_afi a \<noteq> dg_afi g then fail ''IXIA advertisement address family does not match device group''
          else if ad_route_count a \<noteq> expected_route_count a g
          then fail ''IXIA advertisement route count does not match allocation''
          else if expected_route_count a g > pw_membership_prefix_count (ad_prefix_window a)
          then fail ''IXIA advertisement allocation exceeds its membership''
          else for_each (validate_block_peers (dg_peer_count g)) (ad_exclusion_blocks a))"

definition validate_traffic_flow ::
    "(ResourceId, IxiaDeviceGroupPlan) dict \<Rightarrow> (ResourceId, IxiaAdvertisementPlan) dict
     \<Rightarrow> IxiaTrafficFlowPlan \<Rightarrow> unit result" where
  "validate_traffic_flow groups advertisements f =
     (case dict_get groups (tf_source_device_group_id f) of
        None \<Rightarrow> fail ''IXIA traffic flow references unknown source device group''
      | Some source \<Rightarrow>
          (case dict_get advertisements (tf_destination_advertisement_id f) of
             None \<Rightarrow> fail ''IXIA traffic flow references unknown destination advertisement''
           | Some destination \<Rightarrow>
               (case dict_get groups (ad_device_group_id destination) of
                  None \<Rightarrow> fail ''IXIA traffic flow destination references unknown device group''
                | Some g \<Rightarrow>
                    if ad_afi destination \<noteq> tf_afi f
                    then fail ''IXIA traffic flow address family does not match its destination''
                    else if dg_afi source \<noteq> tf_afi f \<or> dg_afi g \<noteq> tf_afi f
                    then fail ''IXIA traffic flow endpoint group address family does not match its traffic''
                    else if ad_route_count destination \<le> 0
                    then fail ''IXIA traffic flow destination advertises no routes''
                    else Inr ())))"

definition validate_ixia_internal_references :: "IxiaPlan \<Rightarrow> unit result" where
  "validate_ixia_internal_references p =
     (let ports = by_id xp_resource_id (xx_ports p);
          groups = by_id dg_resource_id (xx_device_groups p)
      in rbind (for_each (validate_device_group_port ports) (xx_device_groups p)) (\<lambda>_.
         rbind (for_each (validate_session_group groups) (xx_bgp_sessions p)) (\<lambda>_.
         rbind (for_each (validate_advertisement_group groups) (xx_advertisements p)) (\<lambda>_.
         for_each (validate_traffic_flow groups (by_id ad_resource_id (xx_advertisements p)))
           (xx_traffic_flows p)))))"

definition mk_IxiaPlan :: "IxiaPlan \<Rightarrow> IxiaPlan result" where
  "mk_IxiaPlan p =
     rbind (validate_unique_resource_ids (ixia_resource_ids p)) (\<lambda>_.
     rbind (validate_ixia_internal_references p) (\<lambda>_. Inr p))"

section \<open>The whole plan\<close>

record TopologyCompilationPlan =
  tp_dut :: DutPlan
  tp_ixia :: IxiaPlan

definition validate_port_link ::
    "(ResourceId, DutLinkPlan) dict \<Rightarrow> IxiaPortPlan \<Rightarrow> ResourceId \<Rightarrow> unit result" where
  "validate_port_link links port link_id =
     (case dict_get links link_id of
        None \<Rightarrow> fail ''IXIA port references unknown link''
      | Some l \<Rightarrow>
          if {dl_a_endpoint_id l, dl_z_endpoint_id l} \<noteq> {xp_dut_endpoint_id port, xp_traffic_endpoint_id port}
          then fail ''IXIA port endpoints do not match link'' else Inr ())"

definition validate_port ::
    "ResourceId list \<Rightarrow> (ResourceId, DutLinkPlan) dict \<Rightarrow> IxiaPortPlan \<Rightarrow> unit result" where
  "validate_port endpoint_ids links port =
     rbind (for_each (\<lambda>e. if e \<in> set endpoint_ids then Inr () else fail ''IXIA port references unknown endpoint'')
              [xp_dut_endpoint_id port, xp_traffic_endpoint_id port]) (\<lambda>_.
     for_each (validate_port_link links port) (xp_link_ids port))"

definition validate_device_group_link :: "(ResourceId, DutLinkPlan) dict \<Rightarrow> IxiaDeviceGroupPlan \<Rightarrow> unit result" where
  "validate_device_group_link links g =
     (case dict_get links (dg_link_id g) of
        None \<Rightarrow> fail ''IXIA device group references unknown link''
      | Some l \<Rightarrow>
          if dg_afi g \<noteq> dl_afi l then fail ''IXIA device group address family does not match link''
          else if dg_peer_start_index g + dg_peer_count g > dl_peer_count l
          then fail ''IXIA device group peer window exceeds link peer count''
          else Inr ())"

definition validate_session_peer ::
    "IxiaBgpSessionPlan \<Rightarrow> IxiaDeviceGroupPlan \<Rightarrow> BgpAdjacencyPlan \<Rightarrow> string \<Rightarrow> string \<Rightarrow> int \<Rightarrow> unit result" where
  "validate_session_peer s g a local_address peer_address expected_ordinal =
     (if ba_link_id a \<noteq> dg_link_id g \<or> ba_ordinal a \<noteq> expected_ordinal \<or> ba_afi a \<noteq> dg_afi g
      then fail ''IXIA BGP session adjacency does not match device group''
      else if (local_address, peer_address) \<noteq> (ba_peer_address a, ba_local_address a)
      then fail ''IXIA BGP session addresses do not mirror adjacency''
      else if ba_relationship a \<noteq> Some (bs_relationship s)
      then fail ''IXIA BGP session relationship does not match adjacency''
      else if dg_local_asn g \<noteq> ba_remote_asn a \<or> dg_remote_asn g \<noteq> ba_local_asn a
      then fail ''IXIA device group ASNs do not mirror adjacency''
      else Inr ())"

text \<open>\<open>zip(\<dots>, strict=True)\<close> raises when one of its arguments runs out before the others.\<close>

fun validate_session_peers ::
    "(ResourceId, BgpAdjacencyPlan) dict \<Rightarrow> IxiaBgpSessionPlan \<Rightarrow> IxiaDeviceGroupPlan
     \<Rightarrow> ResourceId list \<Rightarrow> string list \<Rightarrow> string list \<Rightarrow> int list \<Rightarrow> unit result" where
  "validate_session_peers adjacencies s g [] [] [] [] = Inr ()"
| "validate_session_peers adjacencies s g (i # ids) (l # ls) (p # ps) (n # ns) =
     (case dict_get adjacencies i of
        None \<Rightarrow> fail ''IXIA BGP session references unknown adjacency''
      | Some a \<Rightarrow>
          rbind (validate_session_peer s g a l p n) (\<lambda>_.
          validate_session_peers adjacencies s g ids ls ps ns))"
| "validate_session_peers adjacencies s g _ _ _ _ = fail ''zip() arguments have different lengths''"

definition validate_session_adjacencies ::
    "(ResourceId, IxiaDeviceGroupPlan) dict \<Rightarrow> (ResourceId, BgpAdjacencyPlan) dict \<Rightarrow> IxiaBgpSessionPlan \<Rightarrow> unit result" where
  "validate_session_adjacencies groups adjacencies s =
     rbind (dict_index groups (bs_device_group_id s)) (\<lambda>g.
     validate_session_peers adjacencies s g (bs_adjacency_ids s) (bs_local_addresses s) (bs_peer_addresses s)
       [dg_peer_start_index g .. dg_peer_start_index g + dg_peer_count g - 1])"

definition validate_ixia_topology_references :: "TopologyCompilationPlan \<Rightarrow> unit result" where
  "validate_ixia_topology_references p =
     (let dut = tp_dut p; ixia = tp_ixia p; links = by_id dl_resource_id (dp_links dut)
      in rbind (for_each (validate_port (map ep_resource_id (dp_endpoints dut)) links) (xx_ports ixia)) (\<lambda>_.
         rbind (for_each (validate_device_group_link links) (xx_device_groups ixia)) (\<lambda>_.
         for_each (validate_session_adjacencies (by_id dg_resource_id (xx_device_groups ixia))
             (by_id ba_resource_id (dp_adjacencies dut))) (xx_bgp_sessions ixia))))"

definition mk_TopologyCompilationPlan :: "TopologyCompilationPlan \<Rightarrow> TopologyCompilationPlan result" where
  "mk_TopologyCompilationPlan p =
     rbind (validate_unique_resource_ids (dut_resource_ids (tp_dut p) @ ixia_resource_ids (tp_ixia p))) (\<lambda>_.
     rbind (validate_ixia_topology_references p) (\<lambda>_. Inr p))"

section \<open>What the properties speak about\<close>

text \<open>A plan all of whose parts passed their constructors.\<close>

definition dut_made :: "DutPlan \<Rightarrow> bool" where
  "dut_made p \<longleftrightarrow>
     list_all (\<lambda>x. mk_PhysicalInterfacePlan x = Inr x) (dp_physical_interfaces p)
     \<and> list_all (\<lambda>x. mk_InterfacePlan x = Inr x) (dp_interfaces p)
     \<and> list_all (\<lambda>x. mk_RoutingConfigPlan x = Inr x) (dp_routing_configs p)
     \<and> list_all (\<lambda>x. mk_ComponentPlan x = Inr x) (dp_components p)
     \<and> mk_DutPlan p = Inr p"

definition ixia_made :: "IxiaPlan \<Rightarrow> bool" where
  "ixia_made p \<longleftrightarrow>
     list_all (\<lambda>x. mk_IxiaDeviceGroupPlan x = Inr x) (xx_device_groups p)
     \<and> list_all (\<lambda>x. mk_IxiaBgpSessionPlan x = Inr x) (xx_bgp_sessions p)
     \<and> list_all (\<lambda>x. mk_IxiaAdvertisementPlan x = Inr x
          \<and> list_all (\<lambda>b. mk_IxiaPeerPrefixExclusionBlock b = Inr b) (ad_exclusion_blocks x)) (xx_advertisements p)
     \<and> mk_IxiaPlan p = Inr p"

definition topology_made :: "TopologyCompilationPlan \<Rightarrow> bool" where
  "topology_made p \<longleftrightarrow> dut_made (tp_dut p) \<and> ixia_made (tp_ixia p) \<and> mk_TopologyCompilationPlan p = Inr p"

text \<open>The peers that advertise a prefix index of an advertisement.\<close>

definition active_peers :: "IxiaAdvertisementPlan \<Rightarrow> IxiaDeviceGroupPlan \<Rightarrow> int \<Rightarrow> int set" where
  "active_peers a g prefix_index =
     {peer. 0 \<le> peer \<and> peer < dg_peer_count g
        \<and> \<not> (\<exists>b \<in> set (ad_exclusion_blocks a).
              xb_prefix_start_index b \<le> prefix_index
              \<and> prefix_index < xb_prefix_start_index b + xb_prefix_count b \<and> peer \<in> set (xb_peer_indices b))}"

text \<open>A small plan for the concrete instances: one device, one traffic generator, one link with two peers.\<close>

abbreviation rid :: "ResourceKind \<Rightarrow> string list \<Rightarrow> ResourceId" where
  "rid k path \<equiv> \<lparr>ri_kind = k, ri_path = path\<rparr>"

definition demo_endpoint :: "string \<Rightarrow> bool \<Rightarrow> EndpointPlan" where
  "demo_endpoint n dut = \<lparr>ep_resource_id = rid ENDPOINT [n], ep_logical_name = n, ep_role = n, ep_kind = n,
     ep_backend = ''eos'', ep_is_dut = dut, ep_physical_identifier = Some (n @ ''.lab''), ep_setup_mode = FULL,
     ep_network_role = None\<rparr>"

definition demo_adjacency :: "int \<Rightarrow> string \<Rightarrow> BgpAdjacencyPlan" where
  "demo_adjacency n peer = \<lparr>ba_resource_id = rid BGP_ADJACENCY [''dg'', show_int n], ba_link_id = rid LINK [''dg''],
     ba_ordinal = n, ba_afi = IPV6, ba_local_address = ''2001:db8::1'', ba_peer_address = peer,
     ba_local_asn = Some 65000, ba_remote_asn = Some 65001, ba_desired_presence = PRESENT,
     ba_relationship = Some EXTERNAL\<rparr>"

definition demo_dut :: DutPlan where
  "demo_dut = \<lparr>dp_endpoints = [demo_endpoint ''dut'' True, demo_endpoint ''ixia'' False],
     dp_links = [\<lparr>dl_resource_id = rid LINK [''dg''], dl_a_endpoint_id = rid ENDPOINT [''dut''],
        dl_z_endpoint_id = rid ENDPOINT [''ixia''], dl_afi = IPV6, dl_logical_port_role = ''uplink'',
        dl_peer_count = 2, dl_parent_network = None\<rparr>],
     dp_physical_interfaces = [\<lparr>pi_resource_id = rid PHYSICAL_INTERFACE [''dut'', ''logical_role'', ''uplink''],
        pi_endpoint_id = rid ENDPOINT [''dut''], pi_group_kind = LOGICAL_ROLE, pi_logical_key = ''uplink'',
        pi_link_ids = [rid LINK [''dg'']], pi_bound_interface = ''Ethernet1'',
        pi_profile = \<lparr>plr_aggregate_gbps = 100, plr_lane_count = 4\<rparr>\<rparr>],
     dp_interfaces = [\<lparr>if_resource_id = rid INTERFACE [''dut'', ''uplink'', ''v6''],
        if_endpoint_id = rid ENDPOINT [''dut''], if_link_ids = [rid LINK [''dg'']], if_logical_port_role = ''uplink'',
        if_afi = IPV6, if_addresses = [''::1/64''], if_bound_interface = Some ''Ethernet1'',
        if_physical_interface_id = Some (rid PHYSICAL_INTERFACE [''dut'', ''logical_role'', ''uplink''])\<rparr>],
     dp_adjacencies = [demo_adjacency 0 ''2001:db8::2'', demo_adjacency 1 ''2001:db8::3''],
     dp_policies = [], dp_policy_bindings = [],
     dp_routing_configs = [\<lparr>rc_resource_id = rid ROUTING_CONFIG [''dut''], rc_endpoint_id = rid ENDPOINT [''dut''],
        rc_routing_driver = ''bgpcpp'', rc_source = None, rc_required_features = []\<rparr>],
     dp_components = [\<lparr>cp_resource_id = rid COMPONENT [''dut'', ''routing_control_plane''],
        cp_endpoint_id = rid ENDPOINT [''dut''], cp_role = ROUTING_CONTROL_PLANE, cp_desired_state = RUNNING,
        cp_reconcile_mode = RESTART_AFTER_CONFIGURATION, cp_readiness = REQUIRE_HEALTHY,
        cp_depends_on = [rid ROUTING_CONFIG [''dut'']]\<rparr>],
     dp_openr = []\<rparr>"

definition demo_session :: IxiaBgpSessionPlan where
  "demo_session = \<lparr>bs_resource_id = rid IXIA_BGP_SESSION [''dg''], bs_device_group_id = rid IXIA_DEVICE_GROUP [''dg''],
     bs_adjacency_ids = [rid BGP_ADJACENCY [''dg'', ''0''], rid BGP_ADJACENCY [''dg'', ''1'']],
     bs_local_addresses = [''2001:db8::2'', ''2001:db8::3''], bs_peer_addresses = [''2001:db8::1'', ''2001:db8::1''],
     bs_peer_cidrs = [None, None], bs_relationship = EXTERNAL, bs_capabilities = [IPV6_UNICAST],
     bs_address_prefix_length = 64, bs_address_step = 1, bs_address_start_index = 0,
     bs_enable_four_byte_local_as = True, bs_hold_timer_s = 90, bs_keepalive_timer_s = 30,
     bs_enable_graceful_restart = False, bs_tcp_window_size_bytes = Some 1\<rparr>"

definition demo_advertisement :: IxiaAdvertisementPlan where
  "demo_advertisement = \<lparr>ad_resource_id = rid IXIA_ADVERTISEMENT [''dg'', ''routes''],
     ad_device_group_id = rid IXIA_DEVICE_GROUP [''dg''], ad_logical_name = ''routes'', ad_prefix_set_name = ''set'',
     ad_afi = IPV6, ad_route_count = 4,
     ad_prefix_window = \<lparr>pw_source_start = ''2001:db8:1::'', pw_source_step = 1, pw_source_count = 4,
        pw_source_excluded_indices = [], pw_membership_start_index = 0, pw_membership_prefix_count = 4,
        pw_starting_prefix = ''2001:db8:1::'', pw_prefix_length = 64, pw_prefixes_per_peer = 4,
        pw_peer_distribution = IXIA_SHARED, pw_network_group_index = 0, pw_route_scale_mode = IXIA_FLAT\<rparr>,
     ad_next_hop = \<lparr>nh_mode = IXIA_SELF, nh_distribution = None, nh_formulaic_start = None, nh_formulaic_step = None,
        nh_explicit_addresses = [], nh_self_realization = None\<rparr>,
     ad_attributes = [], ad_route_attributes = None, ad_policy_communities = [], ad_requires_route_mutation = False,
     ad_exclusion_blocks = [\<lparr>xb_prefix_start_index = 0, xb_prefix_count = 2, xb_peer_indices = [1]\<rparr>]\<rparr>"

definition demo_flow :: IxiaTrafficFlowPlan where
  "demo_flow = \<lparr>tf_resource_id = rid IXIA_TRAFFIC_FLOW [''flow''], tf_logical_name = ''flow'',
     tf_source_device_group_id = rid IXIA_DEVICE_GROUP [''dg''],
     tf_destination_advertisement_id = rid IXIA_ADVERTISEMENT [''dg'', ''routes''], tf_afi = IPV6,
     tf_traffic_profile = None, tf_rate_percent = Some 10, tf_rate_bps = None, tf_frame_size_bytes = None,
     tf_bidirectional = False, tf_enabled = True\<rparr>"

definition demo_ixia :: IxiaPlan where
  "demo_ixia = \<lparr>xx_ports = [\<lparr>xp_resource_id = rid IXIA_PORT [''uplink''], xp_logical_role = ''uplink'',
        xp_link_ids = [rid LINK [''dg'']], xp_dut_endpoint_id = rid ENDPOINT [''dut''],
        xp_traffic_endpoint_id = rid ENDPOINT [''ixia''], xp_dut_physical_identifier = ''dut.lab'',
        xp_chassis_identifier = ''ixia.lab'', xp_dut_interface = ''Ethernet1'', xp_ixia_port = ''1/1'',
        xp_physical_inventory_index = 0, xp_endpoint_label_style = DUT_INTERFACE, xp_reuse_group = None\<rparr>],
     xx_device_groups = [\<lparr>dg_resource_id = rid IXIA_DEVICE_GROUP [''dg''], dg_link_id = rid LINK [''dg''],
        dg_port_id = rid IXIA_PORT [''uplink''], dg_afi = IPV6, dg_peer_count = 2, dg_local_asn = Some 65001,
        dg_remote_asn = Some 65000, dg_parent_network = None, dg_peer_start_index = 0\<rparr>],
     xx_bgp_sessions = [demo_session], xx_advertisements = [demo_advertisement],
     xx_traffic_flows = [demo_flow]\<rparr>"

definition demo_topology :: TopologyCompilationPlan where
  "demo_topology = \<lparr>tp_dut = demo_dut, tp_ixia = demo_ixia\<rparr>"

section \<open>Lemmas\<close>

lemma rbindE:
  assumes "rbind r f = Inr y"
  obtains x where "r = Inr x" "f x = Inr y"
  using assms by (cases r) auto

lemma for_each_ok [simp]: "for_each f xs = Inr () \<longleftrightarrow> (\<forall>x \<in> set xs. f x = Inr ())"
  by (induction xs) (auto simp: for_each_def rbind_eq_Inr)

lemma by_id_get:
  assumes "distinct (map ident xs)"
  shows "dict_get (by_id ident xs) r = Some x \<longleftrightarrow> x \<in> set xs \<and> ident x = r"
proof -
  have "distinct (map fst (by_id ident xs))" using assms by (simp add: by_id_def comp_def)
  then show ?thesis by (auto simp: by_id_def map_of_eq_Some_iff)
qed

lemma by_id_get_D: "dict_get (by_id ident xs) r = Some x \<Longrightarrow> x \<in> set xs \<and> ident x = r"
  by (auto simp: by_id_def dest!: map_of_SomeD)

lemma validate_unique_ok [simp]: "validate_unique_resource_ids ids = Inr () \<longleftrightarrow> distinct ids"
  by (simp add: validate_unique_resource_ids_def)

lemma mk_DutPlan_ok:
  "mk_DutPlan p = Inr q \<longleftrightarrow>
     q = p \<and> distinct (dut_resource_ids p) \<and> validate_physical_interface_references p = Inr ()
     \<and> validate_component_references p = Inr ()"
  by (auto simp: mk_DutPlan_def rbind_eq_Inr)

text \<open>Ranges that do not overlap cover a point at most once.\<close>

lemma covered_once:
  "sorted_wrt (\<lambda>a b. fst a + snd a \<le> fst (b :: int \<times> int)) (map f bs) \<Longrightarrow> b \<in> set bs \<Longrightarrow> c \<in> set bs \<Longrightarrow>
     fst (f b) \<le> p \<and> p < fst (f b) + snd (f b) \<Longrightarrow> fst (f c) \<le> p \<and> p < fst (f c) + snd (f c) \<Longrightarrow> b = c"
proof (induction bs)
  case (Cons x bs)
  have "\<not> (fst (f x) \<le> p \<and> p < fst (f x) + snd (f x) \<and> fst (f y) \<le> p)" if "y \<in> set bs" for y
    using Cons.prems(1) that by force
  then show ?case using Cons by auto
qed simp

lemma exclusion_block_ok:
  assumes "mk_IxiaPeerPrefixExclusionBlock b = Inr b"
  shows "0 < xb_prefix_count b" "distinct (xb_peer_indices b)"
proof -
  have "0 < xb_prefix_count b" "sort (remdups (xb_peer_indices b)) = xb_peer_indices b"
    using assms by (auto simp: mk_IxiaPeerPrefixExclusionBlock_def)
  then show "0 < xb_prefix_count b" "distinct (xb_peer_indices b)"
    by (simp, metis distinct_remdups distinct_sort)
qed

lemma advertisement_ranges:
  assumes "mk_IxiaAdvertisementPlan a = Inr a"
    and "list_all (\<lambda>b. mk_IxiaPeerPrefixExclusionBlock b = Inr b) (ad_exclusion_blocks a)"
  shows "sorted_wrt (\<lambda>a b. fst a + snd a \<le> fst b) (map xb_range (ad_exclusion_blocks a))"
proof (rule ranges_apart)
  show "sort_key fst (map xb_range (ad_exclusion_blocks a)) = map xb_range (ad_exclusion_blocks a)"
    "\<not> ranges_overlap (map xb_range (ad_exclusion_blocks a))"
    using assms(1)
    by (auto simp: mk_IxiaAdvertisementPlan_def rbind_eq_Inr validate_exclusion_ranges_def split: if_splits)
  show "0 < snd r" if "r \<in> set (map xb_range (ad_exclusion_blocks a))" for r
    using that assms(2) exclusion_block_ok(1) by (auto simp: xb_range_def list_all_iff)
qed

lemma active_peer_exists:
  assumes ranges: "sorted_wrt (\<lambda>a b. fst a + snd a \<le> fst b) (map xb_range (ad_exclusion_blocks a))"
    and blocks: "\<forall>b \<in> set (ad_exclusion_blocks a). distinct (xb_peer_indices b)
        \<and> validate_block_peers (dg_peer_count g) b = Inr ()"
    and "0 < dg_peer_count g"
  shows "active_peers a g i \<noteq> {}"
proof (cases "\<exists>b \<in> set (ad_exclusion_blocks a). fst (xb_range b) \<le> i \<and> i < fst (xb_range b) + snd (xb_range b)")
  case True
  then obtain b where b: "b \<in> set (ad_exclusion_blocks a)"
      "fst (xb_range b) \<le> i \<and> i < fst (xb_range b) + snd (xb_range b)" by blast
  have "int (length (xb_peer_indices b)) < dg_peer_count g"
    using blocks b(1) by (auto simp: validate_block_peers_def split: if_splits)
  then obtain peer where peer: "0 \<le> peer" "peer < dg_peer_count g" "peer \<notin> set (xb_peer_indices b)"
    using free_peer blocks b(1) by blast
  have "peer \<in> active_peers a g i"
    using peer covered_once[OF ranges b(1) _ b(2)] by (auto simp: active_peers_def xb_range_def)
  then show ?thesis by blast
next
  case False
  then have "0 \<in> active_peers a g i" using assms(3) by (auto simp: active_peers_def xb_range_def)
  then show ?thesis by blast
qed

lemma ixia_madeD:
  assumes "ixia_made p"
  shows "distinct (ixia_resource_ids p)"
    "\<forall>g \<in> set (xx_device_groups p). validate_device_group_port (by_id xp_resource_id (xx_ports p)) g = Inr ()"
    "\<forall>s \<in> set (xx_bgp_sessions p). validate_session_group (by_id dg_resource_id (xx_device_groups p)) s = Inr ()"
    "\<forall>a \<in> set (xx_advertisements p). validate_advertisement_group (by_id dg_resource_id (xx_device_groups p)) a = Inr ()"
    "\<forall>f \<in> set (xx_traffic_flows p). validate_traffic_flow (by_id dg_resource_id (xx_device_groups p))
        (by_id ad_resource_id (xx_advertisements p)) f = Inr ()"
  using assms
  by (simp_all add: ixia_made_def mk_IxiaPlan_def rbind_eq_Inr validate_ixia_internal_references_def Let_def)

lemma group_positive:
  assumes "ixia_made p" "g \<in> set (xx_device_groups p)"
  shows "0 < dg_peer_count g" "0 \<le> dg_peer_start_index g"
  using assms by (auto simp: ixia_made_def list_all_iff mk_IxiaDeviceGroupPlan_def)

lemma topology_madeD:
  assumes "topology_made p"
  shows "dut_made (tp_dut p)" "ixia_made (tp_ixia p)"
    "distinct (dut_resource_ids (tp_dut p))"
    "\<forall>x \<in> set (xx_ports (tp_ixia p)). validate_port (map ep_resource_id (dp_endpoints (tp_dut p)))
        (by_id dl_resource_id (dp_links (tp_dut p))) x = Inr ()"
    "\<forall>g \<in> set (xx_device_groups (tp_ixia p)).
        validate_device_group_link (by_id dl_resource_id (dp_links (tp_dut p))) g = Inr ()"
    "\<forall>s \<in> set (xx_bgp_sessions (tp_ixia p)).
        validate_session_adjacencies (by_id dg_resource_id (xx_device_groups (tp_ixia p)))
          (by_id ba_resource_id (dp_adjacencies (tp_dut p))) s = Inr ()"
  using assms
  by (simp_all add: topology_made_def mk_TopologyCompilationPlan_def rbind_eq_Inr
      validate_ixia_topology_references_def Let_def)

text \<open>What a session's loop over its peers establishes.\<close>

definition mirrors ::
    "IxiaBgpSessionPlan \<Rightarrow> IxiaDeviceGroupPlan \<Rightarrow> BgpAdjacencyPlan \<Rightarrow> string \<Rightarrow> string \<Rightarrow> int \<Rightarrow> bool" where
  "mirrors s g a local_address peer_address ordinal \<longleftrightarrow>
     ba_link_id a = dg_link_id g \<and> ba_ordinal a = ordinal \<and> ba_afi a = dg_afi g
     \<and> ba_peer_address a = local_address \<and> ba_local_address a = peer_address
     \<and> ba_relationship a = Some (bs_relationship s)
     \<and> ba_remote_asn a = dg_local_asn g \<and> ba_local_asn a = dg_remote_asn g"

lemma validate_session_peer_ok:
  "validate_session_peer s g a l p n = Inr () \<longleftrightarrow> mirrors s g a l p n"
  by (auto simp: validate_session_peer_def mirrors_def)

lemma session_peers_ok:
  "validate_session_peers adjacencies s g ids ls ps ns = Inr () \<Longrightarrow>
     length ls = length ids \<and> length ps = length ids \<and> length ns = length ids
     \<and> (\<forall>k < length ids. \<exists>a. dict_get adjacencies (ids ! k) = Some a \<and> mirrors s g a (ls ! k) (ps ! k) (ns ! k))"
proof (induction adjacencies s g ids ls ps ns rule: validate_session_peers.induct)
  case (2 adjacencies s g i ids l ls p ps n ns)
  obtain a where a: "dict_get adjacencies i = Some a" "validate_session_peer s g a l p n = Inr ()"
      "validate_session_peers adjacencies s g ids ls ps ns = Inr ()"
    using "2.prems" by (auto simp: rbind_eq_Inr split: option.splits)
  then show ?case
    using "2.IH"[OF a(1) a(3)] by (auto simp: validate_session_peer_ok nth_Cons split: nat.split)
qed simp_all

text \<open>Claiming links: afterwards exactly the claimed keys have been added, and each was free.\<close>

lemma claim_links_ok:
  assumes "rfold (claim_physical_link x links) owners ls = Inr owners'"
  shows "distinct ls
     \<and> (\<forall>l \<in> set ls. dict_get owners (pi_endpoint_id x, l) = None
          \<and> (\<exists>k. dict_get links l = Some k \<and> pi_endpoint_id x \<in> {dl_a_endpoint_id k, dl_z_endpoint_id k}))
     \<and> (\<forall>key. dict_get owners' key = None \<longleftrightarrow>
          dict_get owners key = None \<and> key \<notin> Pair (pi_endpoint_id x) ` set ls)"
  using assms
proof (induction ls arbitrary: owners)
  case (Cons l ls)
  obtain owners1 where one: "claim_physical_link x links owners l = Inr owners1"
    and rest: "rfold (claim_physical_link x links) owners1 ls = Inr owners'"
    using Cons.prems by (auto simp: rbind_eq_Inr)
  obtain k where k: "dict_get links l = Some k" "pi_endpoint_id x \<in> {dl_a_endpoint_id k, dl_z_endpoint_id k}"
      "dict_get owners (pi_endpoint_id x, l) = None"
    and o1: "owners1 = dict_set (pi_endpoint_id x, l) (pi_resource_id x) owners"
    using one unfolding claim_physical_link_def by (auto split: option.splits if_splits)
  show ?case using Cons.IH[OF rest] k by (auto simp: o1 update_conv' split: if_splits)
qed simp

text \<open>Physical interfaces that do not share a connection, nor a link at the same endpoint.\<close>

definition apart :: "PhysicalInterfacePlan \<Rightarrow> PhysicalInterfacePlan \<Rightarrow> bool" where
  "apart x y \<longleftrightarrow>
     pi_endpoint_id x \<noteq> pi_endpoint_id y
     \<or> pi_bound_interface x \<noteq> pi_bound_interface y \<and> set (pi_link_ids x) \<inter> set (pi_link_ids y) = {}"

lemma claim_interface_ok:
  assumes "claim_physical_interface endpoints links owners x = Inr owners'"
  shows "dict_get (fst owners) (pi_endpoint_id x, pi_bound_interface x) = None
     \<and> dict_get endpoints (pi_endpoint_id x) \<noteq> None
     \<and> (\<forall>l \<in> set (pi_link_ids x). dict_get (snd owners) (pi_endpoint_id x, l) = None
          \<and> (\<exists>k. dict_get links l = Some k \<and> pi_endpoint_id x \<in> {dl_a_endpoint_id k, dl_z_endpoint_id k}))
     \<and> (\<forall>key. dict_get (fst owners') key = None \<longleftrightarrow>
          dict_get (fst owners) key = None \<and> key \<noteq> (pi_endpoint_id x, pi_bound_interface x))
     \<and> (\<forall>key. dict_get (snd owners') key = None \<longleftrightarrow>
          dict_get (snd owners) key = None \<and> key \<notin> Pair (pi_endpoint_id x) ` set (pi_link_ids x))"
proof -
  obtain lo where lo: "rfold (claim_physical_link x links) (snd owners) (pi_link_ids x) = Inr lo"
    and conn: "dict_get (fst owners) (pi_endpoint_id x, pi_bound_interface x) = None"
    and ep: "dict_get endpoints (pi_endpoint_id x) \<noteq> None"
    and res: "owners' = (dict_set (pi_endpoint_id x, pi_bound_interface x) (pi_resource_id x) (fst owners), lo)"
    using assms
    by (auto simp: claim_physical_interface_def rbind_eq_Inr Let_def split: option.splits)
  show ?thesis using claim_links_ok[OF lo] conn ep by (auto simp: res update_conv')
qed

lemma claim_interfaces_ok:
  assumes "rfold (claim_physical_interface endpoints links) owners xs = Inr owners'"
  shows "sorted_wrt apart xs
     \<and> (\<forall>x \<in> set xs. dict_get (fst owners) (pi_endpoint_id x, pi_bound_interface x) = None
          \<and> dict_get endpoints (pi_endpoint_id x) \<noteq> None
          \<and> (\<forall>l \<in> set (pi_link_ids x). dict_get (snd owners) (pi_endpoint_id x, l) = None
               \<and> (\<exists>k. dict_get links l = Some k \<and> pi_endpoint_id x \<in> {dl_a_endpoint_id k, dl_z_endpoint_id k})))"
  using assms
proof (induction xs arbitrary: owners)
  case (Cons x xs)
  obtain owners1 where one: "claim_physical_interface endpoints links owners x = Inr owners1"
    and rest: "rfold (claim_physical_interface endpoints links) owners1 xs = Inr owners'"
    using Cons.prems by (auto simp: rbind_eq_Inr)
  note c = claim_interface_ok[OF one] and ih = Cons.IH[OF rest]
  have "apart x y" if y: "y \<in> set xs" for y
  proof (cases "pi_endpoint_id x = pi_endpoint_id y")
    case True
    have "dict_get (fst owners1) (pi_endpoint_id y, pi_bound_interface y) = None"
      and "\<forall>l \<in> set (pi_link_ids y). dict_get (snd owners1) (pi_endpoint_id y, l) = None"
      using ih y by blast+
    then have "pi_bound_interface x \<noteq> pi_bound_interface y" "set (pi_link_ids x) \<inter> set (pi_link_ids y) = {}"
      using c True by auto
    then show ?thesis by (simp add: apart_def)
  qed (simp add: apart_def)
  moreover have "\<forall>y \<in> set xs. dict_get (fst owners) (pi_endpoint_id y, pi_bound_interface y) = None
      \<and> (\<forall>l \<in> set (pi_link_ids y). dict_get (snd owners) (pi_endpoint_id y, l) = None)"
    using c ih by blast
  ultimately show ?case using c ih by simp
qed simp

text \<open>Collecting the members of the physical interfaces.\<close>

definition member_of :: "ResourceId \<Rightarrow> InterfacePlan \<Rightarrow> bool" where
  "member_of pid i \<longleftrightarrow> if_bound_interface i \<noteq> None \<and> if_physical_interface_id i = Some pid"

lemma add_member_ok:
  assumes "add_member physical endpoints links ms i = Inr ms'"
  shows "dict_get_or ms' pid [] = dict_get_or ms pid [] @ (if member_of pid i then [i] else [])"
    and "dict_get ms pid \<noteq> None \<Longrightarrow> dict_get ms' pid \<noteq> None"
    and "member_of pid i \<Longrightarrow> \<exists>x. dict_get physical pid = Some x \<and> validate_logical_physical_interface i x = Inr ()"
  using assms
  by (auto simp: add_member_def rbind_eq_Inr member_of_def dict_append_def dict_get_or_def update_conv'
      split: option.splits if_splits)

lemma members_ok:
  assumes "rfold (add_member physical endpoints links) ms interfaces = Inr ms'"
  shows "dict_get_or ms' pid [] = dict_get_or ms pid [] @ filter (member_of pid) interfaces
     \<and> (dict_get ms pid \<noteq> None \<longrightarrow> dict_get ms' pid \<noteq> None)
     \<and> (\<forall>i \<in> set interfaces. member_of pid i \<longrightarrow>
          (\<exists>x. dict_get physical pid = Some x \<and> validate_logical_physical_interface i x = Inr ()))"
  using assms
proof (induction interfaces arbitrary: ms)
  case (Cons i interfaces)
  obtain ms1 where one: "add_member physical endpoints links ms i = Inr ms1"
    and rest: "rfold (add_member physical endpoints links) ms1 interfaces = Inr ms'"
    using Cons.prems by (auto simp: rbind_eq_Inr)
  show ?case using Cons.IH[OF rest] add_member_ok[OF one, of pid] by auto
qed simp

lemma sorted_wrt_symmetric:
  "sorted_wrt R xs \<Longrightarrow> (\<And>x y. R x y \<Longrightarrow> R y x) \<Longrightarrow> x \<in> set xs \<Longrightarrow> y \<in> set xs \<Longrightarrow> x \<noteq> y \<Longrightarrow> R x y"
  by (induction xs) auto

lemma apart_sym: "apart x y \<Longrightarrow> apart y x"
  by (auto simp: apart_def)

lemma dut_madeD:
  assumes "dut_made p"
  shows "distinct (dut_resource_ids p)" "validate_physical_interface_references p = Inr ()"
    "validate_component_references p = Inr ()"
    "distinct (map pi_resource_id (dp_physical_interfaces p))" "distinct (map ba_resource_id (dp_adjacencies p))"
    "distinct (map dl_resource_id (dp_links p))"
  using assms by (auto simp: dut_made_def mk_DutPlan_ok dut_resource_ids_def)

lemma physical_references_ok:
  assumes "dut_made p"
  obtains ms where "sorted_wrt apart (dp_physical_interfaces p)"
    and "physical_interface_members (dp_interfaces p) (by_id pi_resource_id (dp_physical_interfaces p))
           (by_id ep_resource_id (dp_endpoints p)) (by_id dl_resource_id (dp_links p)) = Inr ms"
    and "\<forall>m \<in> set ms. validate_membership (by_id pi_resource_id (dp_physical_interfaces p)) m = Inr ()"
proof -
  have "validate_physical_interface_references p = Inr ()" by (rule dut_madeD(2)[OF assms])
  then show thesis
    unfolding validate_physical_interface_references_def validate_physical_interface_owners_def Let_def
  proof (elim rbindE)
    fix owners ms
    assume own: "rfold (claim_physical_interface (by_id ep_resource_id (dp_endpoints p))
        (by_id dl_resource_id (dp_links p))) ([], []) (dp_physical_interfaces p) = Inr owners"
      and ms: "physical_interface_members (dp_interfaces p) (by_id pi_resource_id (dp_physical_interfaces p))
           (by_id ep_resource_id (dp_endpoints p)) (by_id dl_resource_id (dp_links p)) = Inr ms"
      and each: "for_each (validate_membership (by_id pi_resource_id (dp_physical_interfaces p))) ms = Inr ()"
    have srt: "sorted_wrt apart (dp_physical_interfaces p)" using claim_interfaces_ok[OF own] by blast
    have all: "\<forall>m \<in> set ms. validate_membership (by_id pi_resource_id (dp_physical_interfaces p)) m = Inr ()"
      using each by (simp only: for_each_ok)
    show thesis using srt ms all by (rule that)
  qed
qed

lemma membership_exact:
  assumes "dut_made p" "x \<in> set (dp_physical_interfaces p)"
    and "ms = filter (member_of (pi_resource_id x)) (dp_interfaces p)"
  shows "ms \<noteq> [] \<and> distinct (concat (map if_link_ids ms)) \<and> set (concat (map if_link_ids ms)) = set (pi_link_ids x)
     \<and> (\<forall>i \<in> set ms. if_endpoint_id i = pi_endpoint_id x)"
proof -
  let ?phys = "by_id pi_resource_id (dp_physical_interfaces p)"
  obtain table where "sorted_wrt apart (dp_physical_interfaces p)"
    and mem: "physical_interface_members (dp_interfaces p) ?phys
        (by_id ep_resource_id (dp_endpoints p)) (by_id dl_resource_id (dp_links p)) = Inr table"
    and each: "\<forall>m \<in> set table. validate_membership ?phys m = Inr ()"
    by (rule physical_references_ok[OF assms(1)])
  have x: "dict_get ?phys (pi_resource_id x) = Some x"
    using assms(2) by_id_get[OF dut_madeD(4)[OF assms(1)]] by blast
  note m = members_ok[OF mem[unfolded physical_interface_members_def], of "pi_resource_id x"]
  have init: "dict_get_or (map (\<lambda>(pid, _). (pid, [])) ?phys) (pi_resource_id x) [] = []"
    by (auto simp: dict_get_or_def split: option.splits dest!: map_of_SomeD)
  have "dict_get (map (\<lambda>(pid, _). (pid, [])) ?phys) (pi_resource_id x) \<noteq> None"
    using assms(2) by (auto simp: map_of_eq_None_iff by_id_def image_image)
  then obtain lst where "dict_get table (pi_resource_id x) = Some lst" using m by auto
  then have "dict_get table (pi_resource_id x) = Some ms" using m init by (simp add: dict_get_or_def assms(3))
  then have "validate_membership ?phys (pi_resource_id x, ms) = Inr ()"
    using each by (auto dest!: map_of_SomeD)
  then have "ms \<noteq> [] \<and> distinct (concat (map if_link_ids ms)) \<and> set (concat (map if_link_ids ms)) = set (pi_link_ids x)"
    using x by (auto simp: validate_membership_def Let_def card_distinct split: if_splits)
  moreover have "if_endpoint_id i = pi_endpoint_id x" if "i \<in> set ms" for i
    using that m x by (auto simp: assms(3) validate_logical_physical_interface_def split: if_splits)
  ultimately show ?thesis by blast
qed

lemma session_chain:
  assumes "topology_made p" "s \<in> set (xx_bgp_sessions (tp_ixia p))"
  obtains g where "g \<in> set (xx_device_groups (tp_ixia p))" "dg_resource_id g = bs_device_group_id s"
    "int (length (bs_adjacency_ids s)) = dg_peer_count g"
    "validate_session_peers (by_id ba_resource_id (dp_adjacencies (tp_dut p))) s g (bs_adjacency_ids s)
       (bs_local_addresses s) (bs_peer_addresses s)
       [dg_peer_start_index g .. dg_peer_start_index g + dg_peer_count g - 1] = Inr ()"
proof -
  note t = topology_madeD[OF assms(1)]
  have "validate_session_group (by_id dg_resource_id (xx_device_groups (tp_ixia p))) s = Inr ()"
    using ixia_madeD(3)[OF t(2)] assms(2) by blast
  then obtain g where g: "dict_get (by_id dg_resource_id (xx_device_groups (tp_ixia p))) (bs_device_group_id s) = Some g"
      "int (length (bs_adjacency_ids s)) = dg_peer_count g"
    by (auto simp: validate_session_group_def split: option.splits if_splits)
  have "validate_session_adjacencies (by_id dg_resource_id (xx_device_groups (tp_ixia p)))
      (by_id ba_resource_id (dp_adjacencies (tp_dut p))) s = Inr ()"
    using t(6) assms(2) by blast
  then show ?thesis
    using that[of g] g by_id_get_D[OF g(1)]
    by (auto simp: validate_session_adjacencies_def dict_index_def rbind_eq_Inr)
qed

lemma group_link:
  assumes "topology_made p" "g \<in> set (xx_device_groups (tp_ixia p))"
  shows "\<exists>l \<in> set (dp_links (tp_dut p)). dl_resource_id l = dg_link_id g \<and> dl_afi l = dg_afi g
     \<and> 0 \<le> dg_peer_start_index g \<and> dg_peer_start_index g + dg_peer_count g \<le> dl_peer_count l"
proof -
  have "validate_device_group_link (by_id dl_resource_id (dp_links (tp_dut p))) g = Inr ()"
    using topology_madeD(5)[OF assms(1)] assms(2) by blast
  then show ?thesis
    using group_positive[OF topology_madeD(2)[OF assms(1)] assms(2)]
    by (auto simp: validate_device_group_link_def split: option.splits if_splits dest!: by_id_get_D)
qed

lemma mk_IxiaPlan_ok:
  "mk_IxiaPlan p = Inr q \<longleftrightarrow>
     q = p \<and> distinct (ixia_resource_ids p) \<and> validate_ixia_internal_references p = Inr ()"
  by (auto simp: mk_IxiaPlan_def rbind_eq_Inr)

lemma mk_TopologyCompilationPlan_ok:
  "mk_TopologyCompilationPlan p = Inr q \<longleftrightarrow>
     q = p \<and> distinct (dut_resource_ids (tp_dut p) @ ixia_resource_ids (tp_ixia p))
     \<and> validate_ixia_topology_references p = Inr ()"
  by (auto simp: mk_TopologyCompilationPlan_def rbind_eq_Inr)

lemma demo_address_canonical: "\<not> fst (address_check ''::1/64'')"
  by code_simp

lemma demo_dut_resources:
  "list_all (\<lambda>x. mk_PhysicalInterfacePlan x = Inr x) (dp_physical_interfaces demo_dut)"
  "list_all (\<lambda>x. mk_InterfacePlan x = Inr x) (dp_interfaces demo_dut)"
  "list_all (\<lambda>x. mk_RoutingConfigPlan x = Inr x) (dp_routing_configs demo_dut)"
  "list_all (\<lambda>x. mk_ComponentPlan x = Inr x) (dp_components demo_dut)"
  by (simp_all add: demo_dut_def mk_PhysicalInterfacePlan_def mk_InterfacePlan_def mk_RoutingConfigPlan_def
        mk_ComponentPlan_def wrong_kind_def dependency_checks_def demo_address_canonical)

lemma demo_dut_made: "dut_made demo_dut"
proof -
  have "distinct (dut_resource_ids demo_dut)" by code_simp
  moreover have "validate_physical_interface_references demo_dut = Inr ()" by code_simp
  moreover have "validate_component_references demo_dut = Inr ()" by code_simp
  ultimately show ?thesis using demo_dut_resources by (simp add: dut_made_def mk_DutPlan_ok)
qed

lemma demo_ixia_made: "ixia_made demo_ixia"
proof -
  have "distinct (ixia_resource_ids demo_ixia)" by code_simp
  moreover have "validate_ixia_internal_references demo_ixia = Inr ()" by code_simp
  moreover have "mk_IxiaAdvertisementPlan demo_advertisement = Inr demo_advertisement"
    by (simp add: mk_IxiaAdvertisementPlan_def rbind_eq_Inr)
       (simp add: demo_advertisement_def validate_exclusion_ranges_def xb_range_def)
  moreover have "mk_IxiaBgpSessionPlan demo_session = Inr demo_session"
    by (simp add: mk_IxiaBgpSessionPlan_def demo_session_def tcp_window_checks_def)
  ultimately show ?thesis
    by (simp add: ixia_made_def mk_IxiaPlan_ok)
       (simp add: demo_ixia_def demo_advertisement_def mk_IxiaDeviceGroupPlan_def mk_IxiaPeerPrefixExclusionBlock_def)
qed

lemma demo_topology_made: "topology_made demo_topology"
proof -
  have "dut_made demo_dut" by (rule demo_dut_made)
  moreover have "distinct (dut_resource_ids demo_dut @ ixia_resource_ids demo_ixia)" by code_simp
  moreover have "validate_ixia_topology_references demo_topology = Inr ()" by code_simp
  ultimately show ?thesis
    using demo_ixia_made by (simp add: topology_made_def mk_TopologyCompilationPlan_ok demo_topology_def)
qed

section \<open>Properties\<close>

text \<open>
  C32. Physical interfaces of a valid plan partition what they own. Two different ones at the same
  endpoint share neither their bound interface nor a link, and the logical interfaces that name a
  physical interface, at least one and all at its endpoint, divide exactly its links among them,
  each link going to one of them once.
\<close>

theorem physical_ownership_exact:
  assumes "dut_made p"
  shows "(\<forall>x \<in> set (dp_physical_interfaces p). \<forall>y \<in> set (dp_physical_interfaces p). x \<noteq> y \<longrightarrow> apart x y)
     \<and> (\<forall>x \<in> set (dp_physical_interfaces p).
          let ms = filter (member_of (pi_resource_id x)) (dp_interfaces p)
          in ms \<noteq> [] \<and> distinct (concat (map if_link_ids ms))
             \<and> set (concat (map if_link_ids ms)) = set (pi_link_ids x)
             \<and> (\<forall>i \<in> set ms. if_endpoint_id i = pi_endpoint_id x))"
proof -
  have "sorted_wrt apart (dp_physical_interfaces p)" by (rule physical_references_ok[OF assms])
  then have "\<forall>x \<in> set (dp_physical_interfaces p). \<forall>y \<in> set (dp_physical_interfaces p). x \<noteq> y \<longrightarrow> apart x y"
    using sorted_wrt_symmetric[of apart] apart_sym by blast
  then show ?thesis using membership_exact[OF assms _ refl] by (simp add: Let_def)
qed

theorem physical_ownership_witness:
  "\<exists>x. dp_physical_interfaces demo_dut = [x] \<and> pi_link_ids x = [rid LINK [''dg'']]
     \<and> filter (member_of (pi_resource_id x)) (dp_interfaces demo_dut) \<noteq> []"
proof -
  obtain x where x: "dp_physical_interfaces demo_dut = [x]" "pi_link_ids x = [rid LINK [''dg'']]"
    by (simp add: demo_dut_def)
  have "filter (member_of (pi_resource_id x)) (dp_interfaces demo_dut) \<noteq> []"
    using physical_ownership_exact[OF demo_dut_made] x(1) by (simp add: Let_def)
  with x show ?thesis by blast
qed

text \<open>
  C31. Every BGP session of a valid plan mirrors the device side. Its device group exists and sits on a
  link with the same address family whose peers include the group's whole window; the session has
  exactly one adjacency per peer of the group, all different; and the \<open>k\<close>-th is the adjacency of that
  link with ordinal \<open>peer_start_index + k\<close>, with the addresses and AS numbers of the two sides
  exchanged and the same relationship.
\<close>

theorem session_mirrors_devices:
  assumes "topology_made p" "s \<in> set (xx_bgp_sessions (tp_ixia p))"
  shows "\<exists>g \<in> set (xx_device_groups (tp_ixia p)). dg_resource_id g = bs_device_group_id s
     \<and> (\<exists>l \<in> set (dp_links (tp_dut p)). dl_resource_id l = dg_link_id g \<and> dl_afi l = dg_afi g
          \<and> 0 \<le> dg_peer_start_index g \<and> dg_peer_start_index g + dg_peer_count g \<le> dl_peer_count l)
     \<and> int (length (bs_adjacency_ids s)) = dg_peer_count g \<and> distinct (bs_adjacency_ids s)
     \<and> (\<forall>k < length (bs_adjacency_ids s). \<exists>a \<in> set (dp_adjacencies (tp_dut p)).
          ba_resource_id a = bs_adjacency_ids s ! k
          \<and> mirrors s g a (bs_local_addresses s ! k) (bs_peer_addresses s ! k) (dg_peer_start_index g + int k))"
proof -
  obtain g where g: "g \<in> set (xx_device_groups (tp_ixia p))" "dg_resource_id g = bs_device_group_id s"
      "int (length (bs_adjacency_ids s)) = dg_peer_count g"
    and peers: "validate_session_peers (by_id ba_resource_id (dp_adjacencies (tp_dut p))) s g (bs_adjacency_ids s)
       (bs_local_addresses s) (bs_peer_addresses s)
       [dg_peer_start_index g .. dg_peer_start_index g + dg_peer_count g - 1] = Inr ()"
    using session_chain[OF assms] by blast
  have each: "\<exists>a. dict_get (by_id ba_resource_id (dp_adjacencies (tp_dut p))) (bs_adjacency_ids s ! k) = Some a
      \<and> mirrors s g a (bs_local_addresses s ! k) (bs_peer_addresses s ! k) (dg_peer_start_index g + int k)"
    if "k < length (bs_adjacency_ids s)" for k
    using session_peers_ok[OF peers] that g(3) by (auto simp: nth_upto)
  have "bs_adjacency_ids s ! j \<noteq> bs_adjacency_ids s ! k"
    if "j < length (bs_adjacency_ids s)" "k < length (bs_adjacency_ids s)" "j \<noteq> k" for j k
    using each[OF that(1)] each[OF that(2)] that(3) by (auto simp: mirrors_def)
  then have "distinct (bs_adjacency_ids s)" by (simp add: distinct_conv_nth)
  moreover have "\<forall>k < length (bs_adjacency_ids s). \<exists>a \<in> set (dp_adjacencies (tp_dut p)).
      ba_resource_id a = bs_adjacency_ids s ! k
      \<and> mirrors s g a (bs_local_addresses s ! k) (bs_peer_addresses s ! k) (dg_peer_start_index g + int k)"
    using each by_id_get_D by fastforce
  ultimately show ?thesis using g group_link[OF assms(1) g(1)] by blast
qed

theorem session_mirrors_witness:
  "topology_made demo_topology
   \<and> (\<exists>g \<in> set (xx_device_groups demo_ixia). \<exists>a \<in> set (dp_adjacencies demo_dut).
        ba_resource_id a = rid BGP_ADJACENCY [''dg'', ''1''] \<and> mirrors demo_session g a ''2001:db8::3'' ''2001:db8::1'' 1)"
proof -
  have made: "topology_made demo_topology" by (rule demo_topology_made)
  have s: "demo_session \<in> set (xx_bgp_sessions (tp_ixia demo_topology))"
    by (simp add: demo_topology_def demo_ixia_def)
  obtain g where g: "g \<in> set (xx_device_groups demo_ixia)" "dg_peer_start_index g = 0"
    and k: "\<forall>k < length (bs_adjacency_ids demo_session). \<exists>a \<in> set (dp_adjacencies demo_dut).
          ba_resource_id a = bs_adjacency_ids demo_session ! k
          \<and> mirrors demo_session g a (bs_local_addresses demo_session ! k) (bs_peer_addresses demo_session ! k)
                (dg_peer_start_index g + int k)"
    using session_mirrors_devices[OF made s] by (auto simp: demo_topology_def demo_ixia_def)
  have "\<exists>a \<in> set (dp_adjacencies demo_dut). ba_resource_id a = rid BGP_ADJACENCY [''dg'', ''1'']
      \<and> mirrors demo_session g a ''2001:db8::3'' ''2001:db8::1'' 1"
    using k[rule_format, of 1] g(2) by (simp add: demo_session_def)
  then show ?thesis using made g(1) by blast
qed

text \<open>
  Every traffic flow of a valid plan runs end to end in one address family: its source group, the
  advertisement it is sent to and that advertisement's group exist and have the flow's family, so do
  the links the two groups sit on, and the destination advertises at least one route.
\<close>

theorem flow_end_to_end:
  assumes "topology_made p" "f \<in> set (xx_traffic_flows (tp_ixia p))"
  shows "\<exists>src \<in> set (xx_device_groups (tp_ixia p)). \<exists>a \<in> set (xx_advertisements (tp_ixia p)).
     \<exists>dst \<in> set (xx_device_groups (tp_ixia p)). \<exists>ls \<in> set (dp_links (tp_dut p)). \<exists>ld \<in> set (dp_links (tp_dut p)).
       dg_resource_id src = tf_source_device_group_id f \<and> ad_resource_id a = tf_destination_advertisement_id f
       \<and> dg_resource_id dst = ad_device_group_id a \<and> dl_resource_id ls = dg_link_id src \<and> dl_resource_id ld = dg_link_id dst
       \<and> {dg_afi src, ad_afi a, dg_afi dst, dl_afi ls, dl_afi ld} = {tf_afi f} \<and> 0 < ad_route_count a"
proof -
  have "validate_traffic_flow (by_id dg_resource_id (xx_device_groups (tp_ixia p)))
      (by_id ad_resource_id (xx_advertisements (tp_ixia p))) f = Inr ()"
    using ixia_madeD(5)[OF topology_madeD(2)[OF assms(1)]] assms(2) by blast
  then obtain src a dst where
      get: "dict_get (by_id dg_resource_id (xx_device_groups (tp_ixia p))) (tf_source_device_group_id f) = Some src"
        "dict_get (by_id ad_resource_id (xx_advertisements (tp_ixia p))) (tf_destination_advertisement_id f) = Some a"
        "dict_get (by_id dg_resource_id (xx_device_groups (tp_ixia p))) (ad_device_group_id a) = Some dst"
    and afi: "ad_afi a = tf_afi f" "dg_afi src = tf_afi f" "dg_afi dst = tf_afi f" "0 < ad_route_count a"
    by (auto simp: validate_traffic_flow_def split: option.splits if_splits)
  note mem = get[THEN by_id_get_D]
  obtain ls ld where "ls \<in> set (dp_links (tp_dut p))" "dl_resource_id ls = dg_link_id src" "dl_afi ls = dg_afi src"
      "ld \<in> set (dp_links (tp_dut p))" "dl_resource_id ld = dg_link_id dst" "dl_afi ld = dg_afi dst"
    using group_link[OF assms(1)] mem by meson
  then show ?thesis
    using mem afi by (intro bexI[of _ src] bexI[of _ a] bexI[of _ dst] bexI[of _ ls] bexI[of _ ld]) auto
qed

theorem flow_end_to_end_witness:
  "\<exists>a \<in> set (xx_advertisements demo_ixia). ad_resource_id a = tf_destination_advertisement_id demo_flow
     \<and> ad_afi a = IPV6 \<and> 0 < ad_route_count a"
proof -
  have made: "topology_made demo_topology" by (rule demo_topology_made)
  have f: "demo_flow \<in> set (xx_traffic_flows (tp_ixia demo_topology))"
    by (simp add: demo_topology_def demo_ixia_def)
  have "tf_afi demo_flow = IPV6" by (simp add: demo_flow_def)
  then show ?thesis using flow_end_to_end[OF made f] by (auto simp: demo_topology_def)
qed

text \<open>
  No exclusion silences a prefix: for every advertisement of a valid traffic-generator plan its
  device group exists with the same address family, and at every prefix index some peer of the
  group advertises. The allocation fits: the route count is what the distribution requires and at
  most the membership.
\<close>

theorem advertisement_keeps_a_peer:
  assumes "ixia_made p" "a \<in> set (xx_advertisements p)"
  shows "\<exists>g \<in> set (xx_device_groups p). dg_resource_id g = ad_device_group_id a \<and> dg_afi g = ad_afi a
     \<and> ad_route_count a = expected_route_count a g
     \<and> ad_route_count a \<le> pw_membership_prefix_count (ad_prefix_window a)
     \<and> (\<forall>i. active_peers a g i \<noteq> {})"
proof -
  have "validate_advertisement_group (by_id dg_resource_id (xx_device_groups p)) a = Inr ()"
    using ixia_madeD(4)[OF assms(1)] assms(2) by blast
  then obtain g where get: "dict_get (by_id dg_resource_id (xx_device_groups p)) (ad_device_group_id a) = Some g"
    and ok: "ad_afi a = dg_afi g" "ad_route_count a = expected_route_count a g"
      "ad_route_count a \<le> pw_membership_prefix_count (ad_prefix_window a)"
      "\<forall>b \<in> set (ad_exclusion_blocks a). validate_block_peers (dg_peer_count g) b = Inr ()"
    by (auto simp: validate_advertisement_group_def split: option.splits if_splits)
  note g = by_id_get_D[OF get]
  have made: "mk_IxiaAdvertisementPlan a = Inr a"
    "list_all (\<lambda>b. mk_IxiaPeerPrefixExclusionBlock b = Inr b) (ad_exclusion_blocks a)"
    using assms by (auto simp: ixia_made_def list_all_iff)
  have blocks: "\<forall>b \<in> set (ad_exclusion_blocks a). distinct (xb_peer_indices b)
        \<and> validate_block_peers (dg_peer_count g) b = Inr ()"
    using ok(4) made(2) exclusion_block_ok(2) by (auto simp: list_all_iff)
  have "active_peers a g i \<noteq> {}" for i
    using active_peer_exists[OF advertisement_ranges[OF made] blocks] group_positive(1)[OF assms(1)] g by blast
  then show ?thesis using g ok by auto
qed

theorem advertisement_keeps_witness:
  "\<exists>g \<in> set (xx_device_groups demo_ixia). dg_afi g = IPV6 \<and> active_peers demo_advertisement g 1 = {0}"
proof -
  have made: "ixia_made demo_ixia" by (rule demo_ixia_made)
  have a: "demo_advertisement \<in> set (xx_advertisements demo_ixia)" by (simp add: demo_ixia_def)
  obtain g where g: "g \<in> set (xx_device_groups demo_ixia)" "dg_afi g = ad_afi demo_advertisement"
      "active_peers demo_advertisement g 1 \<noteq> {}"
    using advertisement_keeps_a_peer[OF made a] by blast
  then have "active_peers demo_advertisement g 1 \<subseteq> {0}"
    by (auto simp: active_peers_def demo_advertisement_def demo_ixia_def)
  then show ?thesis using g by (auto simp: demo_advertisement_def)
qed

end
