(* ===== verification/Py_Int.thy ===== *)
theory Py_Int
  imports Ipaddr
begin

text \<open>
  Python's \<open>int(text)\<close> and \<open>int(text, 0)\<close> on ASCII text: surrounding blanks, a sign, digits with
  single underscores between them; with base 0 a prefix selects the base, and a decimal number may
  not begin with a zero unless it is zero.
\<close>

fun based_value :: "nat \<Rightarrow> nat \<Rightarrow> string \<Rightarrow> nat option" where
  "based_value base n [] = Some n"
| "based_value base n (c # cs) =
     (case hex_val c of
        None \<Rightarrow> None
      | Some d \<Rightarrow> if d < base then based_value base (n * base + d) cs else None)"

definition digits_with_underscores :: "nat \<Rightarrow> string \<Rightarrow> nat option" where
  "digits_with_underscores base s =
     (let groups = split_on (CHR ''_'') s
      in if [] \<in> set groups then None else based_value base 0 (concat groups))"

definition signed_value :: "(string \<Rightarrow> nat option) \<Rightarrow> string \<Rightarrow> int option" where
  "signed_value f text =
     (case strip text of
        [] \<Rightarrow> None
      | c # cs \<Rightarrow>
          if c = CHR ''-'' then map_option (\<lambda>n. - int n) (f cs)
          else if c = CHR ''+'' then map_option int (f cs)
          else map_option int (f (c # cs)))"

definition int_text :: "string \<Rightarrow> int option" where
  "int_text = signed_value (digits_with_underscores 10)"

text \<open>An underscore may follow the prefix.\<close>

definition after_prefix :: "nat \<Rightarrow> string \<Rightarrow> nat option" where
  "after_prefix base s = digits_with_underscores base (if s \<noteq> [] \<and> hd s = CHR ''_'' then tl s else s)"

definition base0_value :: "string \<Rightarrow> nat option" where
  "base0_value s =
     (case s of
        a # b # rest \<Rightarrow>
          if a = CHR ''0'' \<and> b \<in> {CHR ''x'', CHR ''X''} then after_prefix 16 rest
          else if a = CHR ''0'' \<and> b \<in> {CHR ''o'', CHR ''O''} then after_prefix 8 rest
          else if a = CHR ''0'' \<and> b \<in> {CHR ''b'', CHR ''B''} then after_prefix 2 rest
          else (case digits_with_underscores 10 s of
                  None \<Rightarrow> None
                | Some n \<Rightarrow> if a = CHR ''0'' \<and> n \<noteq> 0 then None else Some n)
      | _ \<Rightarrow> digits_with_underscores 10 s)"

definition int_text_base0 :: "string \<Rightarrow> int option" where
  "int_text_base0 = signed_value base0_value"

end
