(* ===== verification/Logical_Topology.thy ===== *)
theory Logical_Topology
  imports Compilation_Plan Py_Int
begin

text \<open>
  Authored topology intent (\<open>abstractions/topology/address.py\<close> and the logical dataclasses of
  \<open>abstractions/topology/model.py\<close>), before it is bound to an inventory: address plans, peer groups,
  pools, traffic flows, device configuration, device groups with their partitions and
  traffic-generator children, and the topology. Values annotated \<open>int | str\<close> whose run-time type the
  code tests are dynamic values; every other field has the type of its annotation, so the tests for
  it cannot fail and are left out.
\<close>

section \<open>Addresses, peer groups and pools\<close>

record AddressPlan =
  ap_afi :: string
  ap_a_ips :: "string list"
  ap_z_ips :: "string list"
  ap_parent_network_key :: "string option"
  ap_parent_network :: "string option"
  ap_a_offset :: "step_value option"
  ap_z_offset :: "step_value option"
  ap_stride :: step_value
  ap_increment :: "step_value option"
  ap_mask :: "string option"
  ap_prefix_length :: "int option"
  ap_start_index :: int
  ap_auto_allocate :: bool

record IxiaBgpSessionIntent =
  si_capabilities :: "IxiaBgpCapability list option"
  si_address_prefix_length :: "int option"
  si_address_step :: "int option"
  si_address_start_index :: "int option"
  si_hold_timer_s :: int
  si_keepalive_timer_s :: int
  si_enable_graceful_restart :: "bool option"

definition default_intent :: IxiaBgpSessionIntent where
  "default_intent = \<lparr>si_capabilities = None, si_address_prefix_length = None, si_address_step = None,
     si_address_start_index = None, si_hold_timer_s = 30, si_keepalive_timer_s = 10, si_enable_graceful_restart = None\<rparr>"

definition option_check :: "(int \<Rightarrow> bool \<times> string) \<Rightarrow> int option \<Rightarrow> (bool \<times> string) list" where
  "option_check f x = (case x of None \<Rightarrow> [] | Some n \<Rightarrow> [f n])"

definition mk_IxiaBgpSessionIntent :: "IxiaBgpSessionIntent \<Rightarrow> IxiaBgpSessionIntent result" where
  "mk_IxiaBgpSessionIntent i =
     validated ((case si_capabilities i of
          None \<Rightarrow> []
        | Some cs \<Rightarrow> [(cs = [], ''IXIA BGP capabilities must be nonempty typed capabilities''),
            (\<not> distinct cs, ''IXIA BGP capabilities must be unique'')])
       @ option_check (\<lambda>n. negative n ''IXIA BGP address prefix length'') (si_address_prefix_length i)
       @ [not_positive (si_hold_timer_s i) ''IXIA BGP hold_timer_s'',
          not_positive (si_keepalive_timer_s i) ''IXIA BGP keepalive_timer_s'']
       @ option_check (\<lambda>n. not_positive n ''IXIA BGP address_step'') (si_address_step i)
       @ option_check (\<lambda>n. negative n ''IXIA BGP address_start_index'') (si_address_start_index i)) i"

text \<open>ASN references and limits are integers or names.\<close>

record BgpPeerGroup =
  bpg_name :: string
  bpg_local_asn :: pyval
  bpg_remote_asn :: pyval
  bpg_policy :: "route_policy option"
  bpg_hold_timer_s :: int
  bpg_keepalive_timer_s :: int
  bpg_connect_retry_timer_s :: int
  bpg_route_limit :: pyval
  bpg_enable_graceful_restart :: "bool option"
  bpg_ixia_session :: IxiaBgpSessionIntent

text \<open>\<open>BgpPeerGroup | str\<close>\<close>

datatype peer_group_ref = PeerGroupObject BgpPeerGroup | PeerGroupName string

record BgpSlowPeerConfig =
  slow_tcp_window_size_bytes :: int

definition mk_BgpSlowPeerConfig :: "BgpSlowPeerConfig \<Rightarrow> BgpSlowPeerConfig result" where
  "mk_BgpSlowPeerConfig c = validated (tcp_window_checks (slow_tcp_window_size_bytes c)) c"

record PrefixPool =
  pp_name :: string
  pp_afi :: string
  pp_route_count :: int
  pp_route_file :: "string option"
  pp_prefixes :: "string list"
  pp_prefix_length :: "int option"
  pp_policy :: "route_policy option"
  pp_legacy_ixia_name :: "string option"
  pp_attributes :: "(string \<times> pyval) list"

record TrafficFlowSpec =
  fl_name :: string
  fl_src_dg :: string
  fl_dst_dg :: "string option"
  fl_dst_prefix_pool :: "string option"
  fl_traffic_profile :: "string option"
  fl_rate_percent :: "rat option"
  fl_rate_bps :: "int option"
  fl_frame_size_bytes :: "int option"
  fl_bidirectional :: bool
  fl_enabled :: bool

section \<open>Device configuration\<close>

datatype OpenRMode = OPENR_MODE_NONE | OPENR_MODE_STANDALONE | OPENR_MODE_PEER

record OpenRStandaloneEndpoint =
  oe_hostname :: string
  oe_member_interface :: string
  oe_ipv4_cidr :: string
  oe_ipv6_cidr :: string
  oe_link_local_cidr :: string

definition interface_of :: "string \<Rightarrow> (ip_addr \<times> nat) result" where
  "interface_of s = (case ip_interface s of
     None \<Rightarrow> fail ''does not appear to be an IPv4 or IPv6 interface'' | Some i \<Rightarrow> Inr i)"

text \<open>\<open>is_link_local\<close> of an IPv6 address: in \<open>fe80::/10\<close>.\<close>

definition ipv6_is_link_local :: "ip_addr \<Rightarrow> bool" where
  "ipv6_is_link_local a \<longleftrightarrow> ip_int a div 2 ^ 118 = 1018"

definition mk_OpenRStandaloneEndpoint :: "OpenRStandaloneEndpoint \<Rightarrow> OpenRStandaloneEndpoint result" where
  "mk_OpenRStandaloneEndpoint e =
     (if oe_hostname e = [] \<or> oe_member_interface e = []
      then fail ''OpenR endpoint hostname and member interface are required''
      else rbind (interface_of (oe_ipv4_cidr e)) (\<lambda>v4.
           rbind (interface_of (oe_ipv6_cidr e)) (\<lambda>v6.
           rbind (interface_of (oe_link_local_cidr e)) (\<lambda>ll.
             validated
               [(ip_version (fst v4) \<noteq> 4 \<or> snd v4 \<noteq> 31, ''OpenR endpoint IPv4 address must use a /31''),
                (ip_version (fst v6) \<noteq> 6 \<or> snd v6 \<noteq> 127, ''OpenR endpoint global IPv6 address must use a /127''),
                (ip_version (fst ll) \<noteq> 6 \<or> \<not> ipv6_is_link_local (fst ll) \<or> snd ll \<noteq> 64,
                   ''OpenR endpoint link-local IPv6 address must use a /64'')] e))))"

record OpenRStandaloneLink =
  ol_port_channel_id :: int
  ol_owner :: OpenRStandaloneEndpoint
  ol_helper :: OpenRStandaloneEndpoint
  ol_speed :: string
  ol_metric :: int

definition same_network :: "ip_addr \<times> nat \<Rightarrow> ip_addr \<times> nat \<Rightarrow> bool" where
  "same_network i j \<longleftrightarrow> snd i = snd j \<and> in_network (fst i) j"

definition openr_family_check :: "string \<Rightarrow> (ip_addr \<times> nat) \<times> (ip_addr \<times> nat) \<Rightarrow> (bool \<times> string) list" where
  "openr_family_check family ij =
     [(\<not> same_network (fst ij) (snd ij), ''OpenR '' @ family @ '' endpoints must share a network''),
      (fst (fst ij) = fst (snd ij), ''OpenR '' @ family @ '' endpoint addresses must differ'')]"

definition mk_OpenRStandaloneLink :: "OpenRStandaloneLink \<Rightarrow> OpenRStandaloneLink result" where
  "mk_OpenRStandaloneLink l =
     (if ol_port_channel_id l \<le> 0 then fail ''OpenR port-channel ID must be positive''
      else if oe_hostname (ol_owner l) = oe_hostname (ol_helper l)
      then fail ''OpenR owner and helper must be different devices''
      else rbind (interface_of (oe_ipv4_cidr (ol_owner l))) (\<lambda>o4.
           rbind (interface_of (oe_ipv4_cidr (ol_helper l))) (\<lambda>h4.
           rbind (interface_of (oe_ipv6_cidr (ol_owner l))) (\<lambda>o6.
           rbind (interface_of (oe_ipv6_cidr (ol_helper l))) (\<lambda>h6.
           rbind (interface_of (oe_link_local_cidr (ol_owner l))) (\<lambda>oll.
           rbind (interface_of (oe_link_local_cidr (ol_helper l))) (\<lambda>hll.
             validated (openr_family_check ''IPv4'' (o4, h4) @ openr_family_check ''global IPv6'' (o6, h6)
               @ openr_family_check ''link-local IPv6'' (oll, hll)) l)))))))"

text \<open>\<open>ipv4\<close>, \<open>link_local\<close>, and the entry of an endpoint in the link's key-value store.\<close>

definition interface_ip_str :: "string \<Rightarrow> string result" where
  "interface_ip_str cidr = rbind (interface_of cidr) (\<lambda>i. Inr (ip_str (fst i)))"

definition short_interface_name :: "OpenRStandaloneLink \<Rightarrow> string" where
  "short_interface_name l = ''po'' @ show_int (ol_port_channel_id l)"

definition kv_link :: "OpenRStandaloneLink \<Rightarrow> OpenRStandaloneEndpoint \<Rightarrow> (string, pyval) dict result" where
  "kv_link l e =
     (if e \<notin> {ol_owner l, ol_helper l} then fail ''OpenR KV endpoint must belong to the standalone link''
      else rbind (interface_ip_str (oe_ipv4_cidr e)) (\<lambda>v4.
           rbind (interface_ip_str (oe_link_local_cidr e)) (\<lambda>ll.
             Inr [(''ipv4'', VStr v4), (''ipv6'', VStr ll), (''ifName'', VStr (short_interface_name l)),
               (''weight'', VInt 0), (''metric'', VInt (ol_metric l))])))"

text \<open>
  The limits are integers or text; an unset one is \<open>None\<close>. The overridden fields are the names the
  constructor was given.
\<close>

record RoutingDeviceConfig =
  dc_update_group_enable :: bool
  dc_enable_next_hop_tracking :: bool
  dc_enable_dynamic_policy_evaluation :: bool
  dc_openr_mode :: OpenRMode
  dc_openr_configerator_path :: "string option"
  dc_openr_standalone_link :: "OpenRStandaloneLink option"
  dc_openr_injected_start_ipv4s :: "string list"
  dc_openr_injected_start_ipv6s :: "string list"
  dc_route_limit :: "pyval option"
  dc_prefix_limit :: "pyval option"
  dc_per_peer_max_route_limit :: "pyval option"
  dc_bgp_hold_timer_s :: int
  dc_bgp_keepalive_timer_s :: int
  dc_bgp_connect_retry_timer_s :: int
  dc_graceful_restart_timer_s :: "int option"
  dc_bgpcpp_logging_config_override :: "string option"
  dc_fibagent_bgp_nhg_watermark_high :: "int option"
  dc_fibagent_bgp_nhg_watermark_low :: "int option"
  dc_overridden_fields :: "string list"

definition default_device_config :: RoutingDeviceConfig where
  "default_device_config = \<lparr>dc_update_group_enable = False, dc_enable_next_hop_tracking = False,
     dc_enable_dynamic_policy_evaluation = False, dc_openr_mode = OPENR_MODE_NONE, dc_openr_configerator_path = None,
     dc_openr_standalone_link = None, dc_openr_injected_start_ipv4s = [], dc_openr_injected_start_ipv6s = [],
     dc_route_limit = None, dc_prefix_limit = None, dc_per_peer_max_route_limit = None, dc_bgp_hold_timer_s = 180,
     dc_bgp_keepalive_timer_s = 60, dc_bgp_connect_retry_timer_s = 120, dc_graceful_restart_timer_s = None,
     dc_bgpcpp_logging_config_override = None, dc_fibagent_bgp_nhg_watermark_high = None,
     dc_fibagent_bgp_nhg_watermark_low = None, dc_overridden_fields = []\<rparr>"

section \<open>Device groups and topologies\<close>

record IxiaPortAssignment =
  ipa_logical_role :: string
  ipa_reuse_group :: "string option"
  ipa_endpoint_label_style :: IxiaEndpointPortLabelStyle

record DeviceGroupPartition =
  dgp_family :: string
  dgp_ordinal :: int
  dgp_start_index :: int
  dgp_total_peer_count :: int

record IxiaDeviceGroupChild =
  ic_name :: string
  ic_ordinal :: int
  ic_start_index :: int
  ic_peer_count :: int
  ic_legacy_device_group_name :: "string option"
  ic_legacy_bgp_peer_name :: "string option"
  ic_legacy_device_group_index :: "int option"
  ic_legacy_prefix_pool_name :: "string option"

record RouteSender =
  rsn_device_group :: string
  rsn_prefix_advertisement :: string

record DeviceGroupSpec =
  sp_name :: string
  sp_role :: string
  sp_afi :: string
  sp_peer_count :: int
  sp_a_endpoint :: string
  sp_z_endpoint :: string
  sp_address_plan :: AddressPlan
  sp_peer_group :: "peer_group_ref option"
  sp_prefix_pools :: "PrefixPool list"
  sp_prefix_advertisements :: "PrefixAdvertisement list"
  sp_traffic_flows :: "TrafficFlowSpec list"
  sp_routing_driver :: "string option"
  sp_legacy_ixia_tag_name :: "string option"
  sp_legacy_ixia_bgp_peer_name :: "string option"
  sp_legacy_ixia_device_group_name :: "string option"
  sp_routing_device_config :: "RoutingDeviceConfig option"
  sp_port_assignment :: "IxiaPortAssignment option"
  sp_partition :: "DeviceGroupPartition option"
  sp_legacy_ixia_device_group_index :: "int option"
  sp_route_attributes :: "RouteAttributePool option"
  sp_ixia_children :: "IxiaDeviceGroupChild list"
  sp_dut_neighbor_absent :: bool
  sp_peer_relationship :: "PeerRelationship option"
  sp_slow_peer :: "BgpSlowPeerConfig option"

datatype TaskCompatibilityProfile =
    BOUNDED_ECMP | EBB_FULL_SCALE_NO_BGPMON | EBB_FULL_SCALE_WITH_BGPMON | EGRESS_PEER_SCALE
  | IPV6_UPDATE_PACKING | UG_ADD_PEER_DYNAMIC | UG_BACKPRESSURE | UG_NEW_PEER_JOIN

text \<open>Of the policies only the names are read.\<close>

record LogicalTopology =
  lt_name :: string
  lt_endpoints :: "EndpointSpec list"
  lt_device_groups :: "DeviceGroupSpec list"
  lt_device_config :: RoutingDeviceConfig
  lt_peer_groups :: "BgpPeerGroup list"
  lt_policy_names :: "string list"
  lt_prefix_pools :: "PrefixPool list"
  lt_prefix_sets :: "PrefixSet list"
  lt_traffic_flows :: "TrafficFlowSpec list"
  lt_legacy_profile :: "string option"
  lt_task_compatibility_profile :: "TaskCompatibilityProfile option"
  lt_route_senders :: "RouteSender list"

end
