(* ===== verification/Bound_Topology.thy ===== *)
theory Bound_Topology
  imports Logical_Topology
begin

text \<open>
  A topology bound to an inventory, as the planners read it
  (\<open>abstractions/topology/model.py\<close>): endpoints, device groups with their interfaces, addresses and
  port assignments, routing configuration. Fields that no planner reads are left out. Text that
  Python turns into an enumeration member raises \<open>ValueError\<close> when no member has it as value.
\<close>

section \<open>Data\<close>

record ResolvedIxiaPortAssignment =
  pa_logical_role :: string
  pa_dut_interface :: string
  pa_ixia_port :: string
  pa_physical_inventory_index :: int
  pa_reuse_group :: "string option"
  pa_profile :: PhysicalLinkRate
  pa_endpoint_label_style :: IxiaEndpointPortLabelStyle

record ResolvedPeer =
  rp_a_ip :: string
  rp_z_ip :: string
  rp_peer_cidr :: "string option"

text \<open>The device group, with the fields of its \<open>spec\<close> that its properties forward.\<close>

record BoundDeviceGroup =
  bg_name :: string
  bg_role :: string
  bg_afi :: string
  bg_peer_count :: int
  bg_a_endpoint :: string
  bg_z_endpoint :: string
  bg_dut_neighbor_absent :: bool
  bg_a_interface :: "string option"
  bg_z_interface :: "string option"
  bg_a_ips :: "string list"
  bg_z_ips :: "string list"
  bg_peer_cidrs :: "string option list"
  bg_routing_driver :: "string option"
  bg_parent_network :: "string option"
  bg_local_asn :: "int option"
  bg_remote_asn :: "int option"
  bg_port_assignment :: "ResolvedIxiaPortAssignment option"
  bg_peer_relationship :: "PeerRelationship option"

record BoundRoutingConfig =
  br_routing_driver :: string
  br_source :: "string option"

definition mk_BoundRoutingConfig :: "BoundRoutingConfig \<Rightarrow> BoundRoutingConfig result" where
  "mk_BoundRoutingConfig c =
     validated [(br_routing_driver c = [], ''bound routing config driver must be nonempty'')] c"

text \<open>
  The inventory is an object of which the planner reads attributes by name: a dictionary. The
  logical topology is the part of it the planner reads.
\<close>

record 'g BoundTopology =
  bt_endpoints :: "EndpointSpec list"
  bt_policy_names :: "string list"
  bt_logical_device_config :: RoutingDeviceConfig
  bt_device_groups :: "'g list"
  bt_device_config :: "RoutingDeviceConfig option"
  bt_physical_inventory :: "(string, pyval) dict option"
  bt_resolved_endpoints :: "(string, (string, pyval) dict) dict"
  bt_endpoint_os :: "(string, string) dict"
  bt_endpoint_network_roles :: "(string, NetworkRole) dict"
  bt_routing_configs :: "(string, BoundRoutingConfig) dict"
  bt_routing_drivers :: "(string, string) dict"

section \<open>Reading it\<close>

definition address_family :: "string \<Rightarrow> AddressFamily result" where
  "address_family afi =
     (if afi = ''v4'' then Inr IPV4 else if afi = ''v6'' then Inr IPV6
      else fail (afi @ '' is not a valid AddressFamily''))"

definition endpoint_setup_mode :: "string \<Rightarrow> EndpointSetupMode result" where
  "endpoint_setup_mode mode =
     (if mode = ''full'' then Inr FULL else if mode = ''preloaded'' then Inr PRELOADED
      else if mode = ''skip'' then Inr SKIP else if mode = ''verify_only'' then Inr VERIFY_ONLY
      else fail (mode @ '' is not a valid EndpointSetupMode''))"

fun openr_desired_mode :: "OpenRMode \<Rightarrow> OpenRDesiredMode" where
  "openr_desired_mode OPENR_MODE_NONE = OPENR_NONE"
| "openr_desired_mode OPENR_MODE_STANDALONE = STANDALONE"
| "openr_desired_mode OPENR_MODE_PEER = PEER"

definition endpoint_specs :: "('g, 'm) BoundTopology_scheme \<Rightarrow> (string, EndpointSpec) dict" where
  "endpoint_specs b = foldl (\<lambda>d e. dict_set (es_name e) e d) [] (bt_endpoints b)"

definition effective_config :: "('g, 'm) BoundTopology_scheme \<Rightarrow> RoutingDeviceConfig" where
  "effective_config b = (case bt_device_config b of Some c \<Rightarrow> c | None \<Rightarrow> bt_logical_device_config b)"

text \<open>\<open>zip(\<dots>, strict=True)\<close> of the two address lists and the prefixes, which default to \<open>None\<close>.\<close>

definition bound_peers :: "'m BoundDeviceGroup_scheme \<Rightarrow> ResolvedPeer list result" where
  "bound_peers g =
     (let cidrs = (if bg_peer_cidrs g = [] then replicate (length (bg_a_ips g)) None else bg_peer_cidrs g)
      in if length (bg_z_ips g) \<noteq> length (bg_a_ips g) \<or> length cidrs \<noteq> length (bg_a_ips g)
         then fail ''zip() argument lengths differ''
         else Inr (map (\<lambda>(a, z, c). \<lparr>rp_a_ip = a, rp_z_ip = z, rp_peer_cidr = c\<rparr>)
                     (zip (bg_a_ips g) (zip (bg_z_ips g) cidrs))))"

definition physical_identifier :: "('g, 'm) BoundTopology_scheme \<Rightarrow> EndpointSpec \<Rightarrow> string option" where
  "physical_identifier b e =
     (let resolved = dict_get_or (bt_resolved_endpoints b) (es_name e) []
      in case dict_get resolved ''physical_identifier_field'' of
           Some (VStr field_name) \<Rightarrow>
             (case dict_get resolved field_name of
                Some (VStr v) \<Rightarrow> Some v
              | _ \<Rightarrow>
                  (case bt_physical_inventory b of
                     None \<Rightarrow> None
                   | Some inventory \<Rightarrow>
                       (case dict_get inventory field_name of Some (VStr v) \<Rightarrow> Some v | _ \<Rightarrow> None)))
         | _ \<Rightarrow> None)"

definition logical_port_role :: "'m BoundDeviceGroup_scheme \<Rightarrow> string" where
  "logical_port_role g = (case bg_port_assignment g of Some a \<Rightarrow> pa_logical_role a | None \<Rightarrow> bg_role g)"

text \<open>\<open>xs.append(x)\<close> unless it is there.\<close>

definition add_once :: "'a \<Rightarrow> 'a list \<Rightarrow> 'a list" where
  "add_once x xs = (if x \<in> set xs then xs else xs @ [x])"

definition group_driver :: "(string, string) dict \<Rightarrow> 'm BoundDeviceGroup_scheme \<Rightarrow> string option" where
  "group_driver drivers g =
     (case bg_routing_driver g of
        Some (c # cs) \<Rightarrow> Some (c # cs)
      | _ \<Rightarrow> dict_get drivers (bg_name g))"

definition resolve_endpoint_routing_drivers ::
    "string \<Rightarrow> 'm BoundDeviceGroup_scheme list \<Rightarrow> (string, string) dict \<Rightarrow> string list" where
  "resolve_endpoint_routing_drivers endpoint groups drivers =
     foldl (\<lambda>ds g. if endpoint \<notin> {bg_a_endpoint g, bg_z_endpoint g} then ds
                   else case group_driver drivers g of None \<Rightarrow> ds | Some d \<Rightarrow> add_once d ds) [] groups"

definition required_routing_features :: "RoutingDeviceConfig \<Rightarrow> string list" where
  "required_routing_features c =
     map fst (filter snd
       [(''update_group_enable'', dc_update_group_enable c),
        (''enable_next_hop_tracking'', dc_enable_next_hop_tracking c),
        (''enable_dynamic_policy_evaluation'', dc_enable_dynamic_policy_evaluation c),
        (''route_limit'', dc_route_limit c \<noteq> None), (''prefix_limit'', dc_prefix_limit c \<noteq> None),
        (''per_peer_max_route_limit'', dc_per_peer_max_route_limit c \<noteq> None),
        (''graceful_restart_timer_s'', dc_graceful_restart_timer_s c \<noteq> None)])"

section \<open>Lemmas\<close>

lemma address_family_ok [simp]: "address_family s = Inr a \<longleftrightarrow> s = afi_value a"
  by (cases a) (auto simp: address_family_def)

lemma address_family_value [simp]: "address_family (afi_value a) = Inr a"
  by simp

lemma set_add_once [simp]: "set (add_once x xs) = insert x (set xs)"
  by (auto simp: add_once_def)

lemma distinct_add_once [simp]: "distinct (add_once x xs) \<longleftrightarrow> distinct xs"
  by (auto simp: add_once_def)

lemma bound_peers_ok:
  assumes "bound_peers g = Inr ps"
  shows "length (bg_a_ips g) = length ps" "length (bg_z_ips g) = length ps"
    "map rp_a_ip ps = bg_a_ips g" "map rp_z_ip ps = bg_z_ips g"
  using assms by (auto simp: bound_peers_def Let_def split: if_splits intro!: nth_equalityI)

end
