(* ===== verification/Dut_Planner.thy ===== *)
theory Dut_Planner
  imports Bound_Topology
begin

text \<open>
  The device half of \<open>BoundTopologyPlanner\<close> (\<open>abstractions/compilation/planner.py\<close>,
  \<open>eb_policy_presets.py\<close>): the plan of a bound topology's endpoints, links, interfaces, adjacencies,
  policies, configurations and components. Loops that collect into a dictionary of accumulators are
  folds over it; an accumulator has the fields of the plan it is frozen to, so the plan's record
  stands for both.
\<close>

section \<open>Role policies\<close>

abbreviation UnsupportedEbPolicyPresetError :: exn_class where
  "UnsupportedEbPolicyPresetError \<equiv> UserExn ''UnsupportedEbPolicyPresetError'' ValueError"

fun semantic_for :: "PeerRelationship \<Rightarrow> PolicyDirection \<Rightarrow> string" where
  "semantic_for EXTERNAL IMPORT = ''eb_external_import''"
| "semantic_for EXTERNAL EXPORT = ''eb_external_export''"
| "semantic_for INTERNAL IMPORT = ''eb_internal_import''"
| "semantic_for INTERNAL EXPORT = ''eb_internal_export''"
| "semantic_for MONITOR IMPORT = ''eb_monitor_import''"
| "semantic_for MONITOR EXPORT = ''eb_monitor_export''"

definition EB_POLICY_PRESETS :: "RolePolicyPreset list" where
  "EB_POLICY_PRESETS =
     [\<lparr>rpp_key = \<lparr>rpk_local_role = EB, rpk_relationship = r, rpk_afi = a, rpk_direction = d\<rparr>,
       rpp_semantic_id = semantic_for r d\<rparr>.
      r \<leftarrow> [EXTERNAL, INTERNAL, MONITOR], a \<leftarrow> [IPV4, IPV6], d \<leftarrow> [IMPORT, EXPORT]]"

definition resolve_eb_policy_preset :: "RolePolicyKey \<Rightarrow> RolePolicyPreset result" where
  "resolve_eb_policy_preset key =
     (if rpk_local_role key \<noteq> EB then Inl (Exn UnsupportedEbPolicyPresetError ''unsupported local network role'')
      else case find (\<lambda>p. rpp_key p = key) EB_POLICY_PRESETS of
             Some p \<Rightarrow> Inr p
           | None \<Rightarrow> Inl (Exn UnsupportedEbPolicyPresetError ''unsupported EB role-policy key''))"

section \<open>The device side of a group\<close>

definition peer_interface_cidr :: "bool \<Rightarrow> ResolvedPeer \<Rightarrow> string result" where
  "peer_interface_cidr dut_is_a p =
     (case rp_peer_cidr p of
        None \<Rightarrow> fail ''device group has no exact peer prefix''
      | Some cidr \<Rightarrow>
          (case ip_interface cidr of
             None \<Rightarrow> fail ''does not appear to be an IPv4 or IPv6 network''
           | Some network \<Rightarrow>
               (case ip_interface ((if dut_is_a then rp_a_ip p else rp_z_ip p) @ ''/'' @ show_nat (snd network)) of
                  None \<Rightarrow> fail ''does not appear to be an IPv4 or IPv6 interface''
                | Some interface_address \<Rightarrow>
                    if ip_version (fst interface_address) \<noteq> ip_version (fst network)
                    then fail ''address and peer prefix have different families''
                    else if \<not> in_network (fst interface_address) network then fail ''address is not in peer prefix''
                    else Inr (ip_interface_str interface_address))))"

definition dut_interface_cidrs :: "'m BoundDeviceGroup_scheme \<Rightarrow> bool \<Rightarrow> bool \<Rightarrow> string list result" where
  "dut_interface_cidrs g dut_is_a require_prefix =
     rbind (bound_peers g) (\<lambda>peers.
       if \<not> require_prefix \<and> (\<exists>p \<in> set peers. rp_peer_cidr p = None) then Inr []
       else rfold (\<lambda>cidrs p. rbind (peer_interface_cidr dut_is_a p) (\<lambda>c. Inr (add_once c cidrs))) [] peers)"

record DutSide =
  ds_endpoint_name :: string
  ds_bound_interface :: "string option"
  ds_addresses :: "string list"
  ds_dut_is_a :: bool

definition side_of :: "'m BoundDeviceGroup_scheme \<Rightarrow> EndpointSpec \<Rightarrow> string option \<Rightarrow> bool \<Rightarrow> DutSide result" where
  "side_of g e iface is_a =
     rbind (dut_interface_cidrs g is_a (es_setup_mode e = ''full'')) (\<lambda>cidrs.
       Inr \<lparr>ds_endpoint_name = es_name e, ds_bound_interface = iface, ds_addresses = cidrs, ds_dut_is_a = is_a\<rparr>)"

definition dut_side :: "'m BoundDeviceGroup_scheme \<Rightarrow> (string, EndpointSpec) dict \<Rightarrow> DutSide result" where
  "dut_side g specs =
     rbind (dict_index specs (bg_a_endpoint g)) (\<lambda>a.
     rbind (dict_index specs (bg_z_endpoint g)) (\<lambda>z.
       if bg_a_interface g \<noteq> None then side_of g a (bg_a_interface g) True
       else if bg_z_interface g \<noteq> None then side_of g z (bg_z_interface g) False
       else if is_dut_endpoint a \<and> \<not> is_dut_endpoint z then side_of g a None True
       else if is_dut_endpoint z \<and> \<not> is_dut_endpoint a then side_of g z None False
       else fail ''device group does not identify one DUT endpoint''))"

section \<open>Endpoints and links\<close>

definition endpoint_plan :: "('g, 'm) BoundTopology_scheme \<Rightarrow> EndpointSpec \<Rightarrow> EndpointPlan result" where
  "endpoint_plan b e =
     rbind (endpoint_resource_id (es_name e)) (\<lambda>r.
     rbind (endpoint_setup_mode (es_setup_mode e)) (\<lambda>mode.
       mk_EndpointPlan \<lparr>ep_resource_id = r, ep_logical_name = es_name e, ep_role = es_role e, ep_kind = es_kind e,
         ep_backend = dict_get_or (bt_endpoint_os b) (es_name e)
           (case es_required_os e of Some (c # cs) \<Rightarrow> c # cs | _ \<Rightarrow> ''unknown''),
         ep_is_dut = is_dut_endpoint e, ep_physical_identifier = physical_identifier b e, ep_setup_mode = mode,
         ep_network_role = dict_get (bt_endpoint_network_roles b) (es_name e)\<rparr>))"

definition endpoint_plans :: "('g, 'm) BoundTopology_scheme \<Rightarrow> EndpointPlan list result" where
  "endpoint_plans b = rmap (endpoint_plan b) (bt_endpoints b)"

definition link_plan :: "'m BoundDeviceGroup_scheme \<Rightarrow> DutLinkPlan result" where
  "link_plan g =
     rbind (link_resource_id (bg_name g)) (\<lambda>r.
     rbind (endpoint_resource_id (bg_a_endpoint g)) (\<lambda>a.
     rbind (endpoint_resource_id (bg_z_endpoint g)) (\<lambda>z.
     rbind (address_family (bg_afi g)) (\<lambda>afi.
       mk_DutLinkPlan \<lparr>dl_resource_id = r, dl_a_endpoint_id = a, dl_z_endpoint_id = z, dl_afi = afi,
         dl_logical_port_role = logical_port_role g, dl_peer_count = bg_peer_count g,
         dl_parent_network = bg_parent_network g\<rparr>))))"

definition link_plans :: "('m BoundDeviceGroup_scheme, 'n) BoundTopology_scheme \<Rightarrow> DutLinkPlan list result" where
  "link_plans b = rmap link_plan (bt_device_groups b)"

section \<open>Logical interfaces\<close>

definition physical_interface_group :: "ResolvedIxiaPortAssignment \<Rightarrow> PhysicalInterfaceGroupKind \<times> string" where
  "physical_interface_group a =
     (case pa_reuse_group a of Some g \<Rightarrow> (REUSE_GROUP, g) | None \<Rightarrow> (LOGICAL_ROLE, pa_logical_role a))"

definition physical_interface_id :: "string \<Rightarrow> ResolvedIxiaPortAssignment option \<Rightarrow> ResourceId option result" where
  "physical_interface_id endpoint_name assignment =
     (case assignment of
        None \<Rightarrow> Inr None
      | Some a \<Rightarrow>
          rbind (endpoint_resource_id endpoint_name) (\<lambda>e.
          rbind (physical_interface_resource_id e (fst (physical_interface_group a)) (snd (physical_interface_group a)))
            (\<lambda>r. Inr (Some r))))"

definition interface_add ::
    "InterfacePlan \<Rightarrow> ResourceId \<Rightarrow> string option \<Rightarrow> ResourceId option \<Rightarrow> string list \<Rightarrow> InterfacePlan result" where
  "interface_add acc link_id bound physical addresses =
     (if if_bound_interface acc \<noteq> None \<and> bound \<noteq> None \<and> if_bound_interface acc \<noteq> bound
      then fail ''logical interface resolves to multiple physical interfaces''
      else if if_physical_interface_id acc \<noteq> physical
      then fail ''logical interface resolves to multiple physical interface owners''
      else Inr (acc\<lparr>if_bound_interface := (if if_bound_interface acc = None then bound else if_bound_interface acc),
             if_link_ids := add_once link_id (if_link_ids acc),
             if_addresses := foldl (\<lambda>as a. add_once a as) (if_addresses acc) addresses\<rparr>))"

type_synonym interface_key = "string \<times> string \<times> AddressFamily"

definition add_interface ::
    "(string, EndpointSpec) dict \<Rightarrow> (interface_key, InterfacePlan) dict \<Rightarrow> 'm BoundDeviceGroup_scheme
     \<Rightarrow> (interface_key, InterfacePlan) dict result" where
  "add_interface specs accs g =
     rbind (dut_side g specs) (\<lambda>side.
     rbind (address_family (bg_afi g)) (\<lambda>afi.
     rbind (physical_interface_id (ds_endpoint_name side) (bg_port_assignment g)) (\<lambda>physical.
     let key = (ds_endpoint_name side, logical_port_role g, afi)
     in rbind (case dict_get accs key of
                 Some acc \<Rightarrow> Inr acc
               | None \<Rightarrow>
                   rbind (interface_resource_id (ds_endpoint_name side) (logical_port_role g) afi) (\<lambda>r.
                   rbind (endpoint_resource_id (ds_endpoint_name side)) (\<lambda>e.
                     Inr \<lparr>if_resource_id = r, if_endpoint_id = e, if_link_ids = [],
                       if_logical_port_role = logical_port_role g, if_afi = afi, if_addresses = [],
                       if_bound_interface = ds_bound_interface side, if_physical_interface_id = physical\<rparr>))) (\<lambda>acc.
        rbind (link_resource_id (bg_name g)) (\<lambda>link_id.
        rbind (interface_add acc link_id (ds_bound_interface side) physical (ds_addresses side)) (\<lambda>acc'.
          Inr (dict_set key acc' accs)))))))"

definition interface_plans ::
    "('m BoundDeviceGroup_scheme, 'n) BoundTopology_scheme \<Rightarrow> (string, EndpointSpec) dict \<Rightarrow> InterfacePlan list result" where
  "interface_plans b specs =
     rbind (rfold (add_interface specs) [] (bt_device_groups b)) (\<lambda>accs.
       rmap mk_InterfacePlan (map snd accs))"

section \<open>Physical interfaces\<close>

definition claim_physical_connection ::
    "connection_owners \<Rightarrow> ResourceId \<Rightarrow> string \<Rightarrow> ResourceId \<Rightarrow> connection_owners result" where
  "claim_physical_connection owners endpoint bound r =
     (case dict_get owners (endpoint, bound) of
        Some prior \<Rightarrow>
          if prior \<noteq> r then fail ''physical connection resolves to multiple logical interface groups''
          else Inr (dict_set (endpoint, bound) r owners)
      | None \<Rightarrow> Inr (dict_set (endpoint, bound) r owners))"

definition physical_add :: "PhysicalInterfacePlan \<Rightarrow> string \<Rightarrow> PhysicalLinkRate \<Rightarrow> ResourceId \<Rightarrow> PhysicalInterfacePlan result" where
  "physical_add acc bound profile link_id =
     (if (bound, profile) \<noteq> (pi_bound_interface acc, pi_profile acc)
      then fail ''physical interface has conflicting bindings or profiles''
      else Inr (acc\<lparr>pi_link_ids := add_once link_id (pi_link_ids acc)\<rparr>))"

definition add_physical_interface ::
    "(string, EndpointSpec) dict \<Rightarrow> (ResourceId, PhysicalInterfacePlan) dict \<times> connection_owners
     \<Rightarrow> 'm BoundDeviceGroup_scheme \<Rightarrow> ((ResourceId, PhysicalInterfacePlan) dict \<times> connection_owners) result" where
  "add_physical_interface specs state g =
     (case bg_port_assignment g of
        None \<Rightarrow> Inr state
      | Some a \<Rightarrow>
          rbind (dut_side g specs) (\<lambda>side.
            case ds_bound_interface side of
              None \<Rightarrow> fail ''device group has no bound DUT interface''
            | Some bound \<Rightarrow>
                rbind (endpoint_resource_id (ds_endpoint_name side)) (\<lambda>endpoint.
                let kind = fst (physical_interface_group a); key = snd (physical_interface_group a)
                in rbind (physical_interface_resource_id endpoint kind key) (\<lambda>r.
                   rbind (claim_physical_connection (snd state) endpoint bound r) (\<lambda>owners.
                   let acc = (case dict_get (fst state) r of
                                Some acc \<Rightarrow> acc
                              | None \<Rightarrow> \<lparr>pi_resource_id = r, pi_endpoint_id = endpoint, pi_group_kind = kind,
                                  pi_logical_key = key, pi_link_ids = [], pi_bound_interface = bound,
                                  pi_profile = pa_profile a\<rparr>)
                   in rbind (link_resource_id (bg_name g)) (\<lambda>link_id.
                      rbind (physical_add acc bound (pa_profile a) link_id) (\<lambda>acc'.
                        Inr (dict_set r acc' (fst state), owners))))))))"

definition physical_interface_plans ::
    "('m BoundDeviceGroup_scheme, 'n) BoundTopology_scheme \<Rightarrow> (string, EndpointSpec) dict
     \<Rightarrow> PhysicalInterfacePlan list result" where
  "physical_interface_plans b specs =
     rbind (rfold (add_physical_interface specs) ([], []) (bt_device_groups b)) (\<lambda>state.
       rmap mk_PhysicalInterfacePlan (map snd (fst state)))"

section \<open>Adjacencies\<close>

definition adjacency_plan :: "'m BoundDeviceGroup_scheme \<Rightarrow> bool \<Rightarrow> nat \<times> ResolvedPeer \<Rightarrow> BgpAdjacencyPlan result" where
  "adjacency_plan g dut_is_a op =
     rbind (adjacency_resource_id (bg_name g) (int (fst op))) (\<lambda>r.
     rbind (link_resource_id (bg_name g)) (\<lambda>link_id.
     rbind (address_family (bg_afi g)) (\<lambda>afi.
       mk_BgpAdjacencyPlan \<lparr>ba_resource_id = r, ba_link_id = link_id, ba_ordinal = int (fst op), ba_afi = afi,
         ba_local_address = (if dut_is_a then rp_a_ip (snd op) else rp_z_ip (snd op)),
         ba_peer_address = (if dut_is_a then rp_z_ip (snd op) else rp_a_ip (snd op)),
         ba_local_asn = bg_local_asn g, ba_remote_asn = bg_remote_asn g,
         ba_desired_presence = (if bg_dut_neighbor_absent g then ABSENT else PRESENT),
         ba_relationship = bg_peer_relationship g\<rparr>)))"

definition group_adjacencies :: "(string, EndpointSpec) dict \<Rightarrow> 'm BoundDeviceGroup_scheme \<Rightarrow> BgpAdjacencyPlan list result" where
  "group_adjacencies specs g =
     rbind (dut_side g specs) (\<lambda>side.
     rbind (bound_peers g) (\<lambda>peers.
       rmap (adjacency_plan g (ds_dut_is_a side)) (enumerate 0 peers)))"

definition adjacency_plans ::
    "('m BoundDeviceGroup_scheme, 'n) BoundTopology_scheme \<Rightarrow> (string, EndpointSpec) dict \<Rightarrow> BgpAdjacencyPlan list result" where
  "adjacency_plans b specs = rbind (rmap (group_adjacencies specs) (bt_device_groups b)) (\<lambda>xss. Inr (concat xss))"

section \<open>Policies\<close>

type_synonym policy_state = "(RolePolicyKey, PolicyPlan) dict \<times> PolicyBinding list"

definition bind_policy :: "NetworkRole \<Rightarrow> PeerRelationship \<Rightarrow> AddressFamily \<Rightarrow> ResourceId
     \<Rightarrow> policy_state \<Rightarrow> PolicyDirection \<Rightarrow> policy_state result" where
  "bind_policy role relationship afi adjacency_id st direction =
     (let key = \<lparr>rpk_local_role = role, rpk_relationship = relationship, rpk_afi = afi, rpk_direction = direction\<rparr>
      in rbind (resolve_eb_policy_preset key) (\<lambda>preset.
         rbind (role_policy_resource_id key) (\<lambda>policy_id.
         rbind (if dict_get (fst st) key \<noteq> None then Inr (fst st)
                else rbind (mk_PolicyPlan \<lparr>po_resource_id = policy_id, po_logical_name = rpp_semantic_id preset,
                              po_preset = Some preset\<rparr>) (\<lambda>p. Inr (dict_set key p (fst st)))) (\<lambda>policies.
         rbind (policy_binding_resource_id adjacency_id direction) (\<lambda>binding_id.
         rbind (mk_PolicyBinding \<lparr>pb_resource_id = binding_id, pb_adjacency_id = adjacency_id,
                  pb_policy_id = policy_id, pb_direction = direction\<rparr>) (\<lambda>binding.
           Inr (policies, snd st @ [binding])))))))"

definition bind_peer :: "'m BoundDeviceGroup_scheme \<Rightarrow> NetworkRole \<Rightarrow> PeerRelationship \<Rightarrow> AddressFamily
     \<Rightarrow> policy_state \<Rightarrow> int \<Rightarrow> policy_state result" where
  "bind_peer g role relationship afi st ordinal =
     rbind (adjacency_resource_id (bg_name g) ordinal) (\<lambda>adjacency_id.
       rfold (bind_policy role relationship afi adjacency_id) st [IMPORT, EXPORT])"

definition bind_group :: "('g, 'n) BoundTopology_scheme \<Rightarrow> (string, EndpointSpec) dict
     \<Rightarrow> policy_state \<Rightarrow> 'm BoundDeviceGroup_scheme \<Rightarrow> policy_state result" where
  "bind_group b specs st g =
     rbind (dut_side g specs) (\<lambda>side.
       case dict_get (bt_endpoint_network_roles b) (ds_endpoint_name side) of
         None \<Rightarrow> Inr st
       | Some role \<Rightarrow>
           if bg_dut_neighbor_absent g then Inr st
           else case bg_peer_relationship g of
                  None \<Rightarrow> fail ''device group has no peer relationship''
                | Some relationship \<Rightarrow>
                    rbind (address_family (bg_afi g)) (\<lambda>afi.
                      rfold (bind_peer g role relationship afi) st [0 .. bg_peer_count g - 1]))"

definition role_policy_plans ::
    "('m BoundDeviceGroup_scheme, 'n) BoundTopology_scheme \<Rightarrow> (string, EndpointSpec) dict
     \<Rightarrow> (PolicyPlan list \<times> PolicyBinding list) result" where
  "role_policy_plans b specs =
     rbind (rfold (bind_group b specs) ([], []) (bt_device_groups b)) (\<lambda>st. Inr (map snd (fst st), snd st))"

definition declared_policies :: "('g, 'n) BoundTopology_scheme \<Rightarrow> PolicyPlan list result" where
  "declared_policies b =
     rmap (\<lambda>n. rbind (policy_resource_id n) (\<lambda>r.
       mk_PolicyPlan \<lparr>po_resource_id = r, po_logical_name = n, po_preset = None\<rparr>)) (bt_policy_names b)"

section \<open>Routing configurations, components and OpenR\<close>

definition validate_bound_routing_configs :: "('g, 'n) BoundTopology_scheme \<Rightarrow> (string, EndpointSpec) dict \<Rightarrow> unit result" where
  "validate_bound_routing_configs b specs =
     (let duts = map fst (filter (\<lambda>(_, e). is_dut_endpoint e) specs)
      in raise_if (\<exists>n \<in> set (dict_keys (bt_routing_configs b)). n \<notin> set duts)
           (value_error ''bound routing configs target unknown or non-DUT endpoints''))"

definition routing_config_plan ::
    "('m BoundDeviceGroup_scheme, 'n) BoundTopology_scheme \<Rightarrow> EndpointSpec \<Rightarrow> RoutingConfigPlan list result" where
  "routing_config_plan b e =
     (case resolve_endpoint_routing_drivers (es_name e) (bt_device_groups b) (bt_routing_drivers b) of
        [] \<Rightarrow>
          if dict_get (bt_routing_configs b) (es_name e) \<noteq> None
          then fail ''DUT endpoint has a bound routing config but no routing driver'' else Inr []
      | [driver] \<Rightarrow>
          (case dict_get (bt_routing_configs b) (es_name e) of
             None \<Rightarrow> fail ''DUT endpoint has no bound routing config''
           | Some c \<Rightarrow>
               if br_routing_driver c \<noteq> driver
               then fail ''DUT endpoint bound routing config driver does not match''
               else rbind (routing_config_resource_id (es_name e)) (\<lambda>r.
                    rbind (endpoint_resource_id (es_name e)) (\<lambda>endpoint.
                    rbind (mk_RoutingConfigPlan \<lparr>rc_resource_id = r, rc_endpoint_id = endpoint,
                             rc_routing_driver = driver, rc_source = br_source c,
                             rc_required_features = required_routing_features (effective_config b)\<rparr>) (\<lambda>p. Inr [p]))))
      | _ \<Rightarrow> fail ''DUT endpoint resolves to multiple routing drivers'')"

definition routing_config_plans ::
    "('m BoundDeviceGroup_scheme, 'n) BoundTopology_scheme \<Rightarrow> (string, EndpointSpec) dict \<Rightarrow> RoutingConfigPlan list result" where
  "routing_config_plans b specs =
     rbind (validate_bound_routing_configs b specs) (\<lambda>_.
     rbind (rmap (routing_config_plan b) (filter is_dut_endpoint (bt_endpoints b))) (\<lambda>xss. Inr (concat xss)))"

definition component_plan :: "RoutingConfigPlan \<Rightarrow> ComponentPlan result" where
  "component_plan c =
     rbind (component_resource_id (rc_endpoint_id c) ROUTING_CONTROL_PLANE) (\<lambda>r.
       mk_ComponentPlan \<lparr>cp_resource_id = r, cp_endpoint_id = rc_endpoint_id c, cp_role = ROUTING_CONTROL_PLANE,
         cp_desired_state = RUNNING, cp_reconcile_mode = RESTART_AFTER_CONFIGURATION,
         cp_readiness = REQUIRE_ACKNOWLEDGED, cp_depends_on = [rc_resource_id c]\<rparr>)"

definition component_plans :: "RoutingConfigPlan list \<Rightarrow> ComponentPlan list result" where
  "component_plans configs = rmap component_plan configs"

definition openr_plan :: "('g, 'n) BoundTopology_scheme \<Rightarrow> EndpointSpec \<Rightarrow> OpenRPlan result" where
  "openr_plan b e =
     rbind (openr_resource_id (es_name e)) (\<lambda>r.
     rbind (endpoint_resource_id (es_name e)) (\<lambda>endpoint.
       mk_OpenRPlan \<lparr>or_resource_id = r, or_endpoint_id = endpoint,
         or_mode = openr_desired_mode (dc_openr_mode (effective_config b)), or_link_id = None\<rparr>))"

definition openr_plans :: "('g, 'n) BoundTopology_scheme \<Rightarrow> OpenRPlan list result" where
  "openr_plans b = rmap (openr_plan b) (filter is_dut_endpoint (bt_endpoints b))"

section \<open>The device half of a plan\<close>

definition dut_parts ::
    "('m BoundDeviceGroup_scheme, 'n) BoundTopology_scheme \<Rightarrow> DutPlan result" where
  "dut_parts b =
     (let specs = endpoint_specs b
      in rbind (endpoint_plans b) (\<lambda>endpoints.
         rbind (link_plans b) (\<lambda>links.
         rbind (interface_plans b specs) (\<lambda>interfaces.
         rbind (physical_interface_plans b specs) (\<lambda>physical.
         rbind (adjacency_plans b specs) (\<lambda>adjacencies.
         rbind (declared_policies b) (\<lambda>declared.
         rbind (role_policy_plans b specs) (\<lambda>(role_policies, bindings).
         rbind (routing_config_plans b specs) (\<lambda>configs.
         rbind (component_plans configs) (\<lambda>components.
         rbind (openr_plans b) (\<lambda>openr.
           Inr \<lparr>dp_endpoints = endpoints, dp_links = links, dp_physical_interfaces = physical,
             dp_interfaces = interfaces, dp_adjacencies = adjacencies, dp_policies = declared @ role_policies,
             dp_policy_bindings = bindings, dp_routing_configs = configs, dp_components = components,
             dp_openr = openr\<rparr>)))))))))))"

definition plan_devices :: "('m BoundDeviceGroup_scheme, 'n) BoundTopology_scheme \<Rightarrow> DutPlan result" where
  "plan_devices b = rbind (dut_parts b) mk_DutPlan"

end
