(* ===== verification/Legacy_Identity.thy ===== *)
theory Legacy_Identity
  imports Compilation_Plan
begin

text \<open>
  Names the compatibility renderer takes over from earlier configurations
  (\<open>abstractions/compilation/legacy_ixia_identity.py\<close>): identities beside a plan, each attached to one
  of its traffic-generator resources.
\<close>

abbreviation LegacyIxiaIdentityError :: exn_class where
  "LegacyIxiaIdentityError \<equiv> UserExn ''LegacyIxiaIdentityError'' ValueError"

abbreviation identity_error :: "string \<Rightarrow> py_exn" where
  "identity_error \<equiv> Exn LegacyIxiaIdentityError"

definition require_kind :: "ResourceId \<Rightarrow> ResourceKind \<Rightarrow> unit result" where
  "require_kind r kind =
     raise_if (ri_kind r \<noteq> kind) (identity_error (''legacy IXIA identity must reference '' @ kind_value kind))"

record LegacyIxiaPortIdentity =
  lp_resource_id :: ResourceId
  lp_endpoint_ixia_port_label :: string

definition mk_LegacyIxiaPortIdentity :: "LegacyIxiaPortIdentity \<Rightarrow> LegacyIxiaPortIdentity result" where
  "mk_LegacyIxiaPortIdentity i =
     rbind (require_kind (lp_resource_id i) IXIA_PORT) (\<lambda>_.
     rbind (raise_if (lp_endpoint_ixia_port_label i = [])
              (identity_error ''legacy endpoint IXIA port label must be non-empty'')) (\<lambda>_. Inr i))"

record LegacyIxiaGroupIdentity =
  lg_resource_id :: ResourceId
  lg_device_group_name :: "string option"
  lg_tag_name :: "string option"
  lg_device_group_index :: "int option"

definition mk_LegacyIxiaGroupIdentity :: "LegacyIxiaGroupIdentity \<Rightarrow> LegacyIxiaGroupIdentity result" where
  "mk_LegacyIxiaGroupIdentity i =
     rbind (require_kind (lg_resource_id i) IXIA_DEVICE_GROUP) (\<lambda>_.
     rbind (raise_if (Some [] \<in> {lg_device_group_name i, lg_tag_name i})
              (identity_error ''legacy IXIA names must be non-empty'')) (\<lambda>_.
     rbind (raise_if (case lg_device_group_index i of None \<Rightarrow> False | Some n \<Rightarrow> n < 0)
              (identity_error ''legacy IXIA device-group index must be non-negative'')) (\<lambda>_.
     rbind (raise_if (lg_device_group_name i = None \<and> lg_tag_name i = None \<and> lg_device_group_index i = None)
              (identity_error ''legacy IXIA group identity is empty'')) (\<lambda>_. Inr i))))"

record LegacyIxiaSessionIdentity =
  ls_resource_id :: ResourceId
  ls_bgp_peer_name :: string

definition mk_LegacyIxiaSessionIdentity :: "LegacyIxiaSessionIdentity \<Rightarrow> LegacyIxiaSessionIdentity result" where
  "mk_LegacyIxiaSessionIdentity i =
     rbind (require_kind (ls_resource_id i) IXIA_BGP_SESSION) (\<lambda>_.
     rbind (raise_if (ls_bgp_peer_name i = [])
              (identity_error ''legacy IXIA BGP peer name must be non-empty'')) (\<lambda>_. Inr i))"

record LegacyIxiaAdvertisementIdentity =
  la_resource_id :: ResourceId
  la_prefix_name :: string

definition mk_LegacyIxiaAdvertisementIdentity ::
    "LegacyIxiaAdvertisementIdentity \<Rightarrow> LegacyIxiaAdvertisementIdentity result" where
  "mk_LegacyIxiaAdvertisementIdentity i =
     rbind (require_kind (la_resource_id i) IXIA_ADVERTISEMENT) (\<lambda>_.
     rbind (raise_if (la_prefix_name i = [])
              (identity_error ''legacy IXIA advertisement prefix name must be non-empty'')) (\<lambda>_. Inr i))"

record LegacyIxiaIdentitySidecar =
  sc_port_identities :: "LegacyIxiaPortIdentity list"
  sc_group_identities :: "LegacyIxiaGroupIdentity list"
  sc_session_identities :: "LegacyIxiaSessionIdentity list"
  sc_advertisement_identities :: "LegacyIxiaAdvertisementIdentity list"

text \<open>The identifiers a sidecar names, in the order both of its checks read them.\<close>

definition sidecar_ids :: "LegacyIxiaIdentitySidecar \<Rightarrow> ResourceId list" where
  "sidecar_ids s =
     map lp_resource_id (sc_port_identities s) @ map lg_resource_id (sc_group_identities s)
     @ map ls_resource_id (sc_session_identities s) @ map la_resource_id (sc_advertisement_identities s)"

definition mk_LegacyIxiaIdentitySidecar :: "LegacyIxiaIdentitySidecar \<Rightarrow> LegacyIxiaIdentitySidecar result" where
  "mk_LegacyIxiaIdentitySidecar s =
     rbind (raise_if (\<not> distinct (sidecar_ids s))
              (identity_error ''legacy IXIA sidecar contains duplicate resource IDs'')) (\<lambda>_. Inr s)"

definition port_identity :: "LegacyIxiaIdentitySidecar \<Rightarrow> ResourceId \<Rightarrow> LegacyIxiaPortIdentity option" where
  "port_identity s r = find (\<lambda>i. lp_resource_id i = r) (sc_port_identities s)"

definition group_identity :: "LegacyIxiaIdentitySidecar \<Rightarrow> ResourceId \<Rightarrow> LegacyIxiaGroupIdentity option" where
  "group_identity s r = find (\<lambda>i. lg_resource_id i = r) (sc_group_identities s)"

definition advertisement_identity ::
    "LegacyIxiaIdentitySidecar \<Rightarrow> ResourceId \<Rightarrow> LegacyIxiaAdvertisementIdentity option" where
  "advertisement_identity s r = find (\<lambda>i. la_resource_id i = r) (sc_advertisement_identities s)"

definition session_identity :: "LegacyIxiaIdentitySidecar \<Rightarrow> ResourceId \<Rightarrow> LegacyIxiaSessionIdentity option" where
  "session_identity s r = find (\<lambda>i. ls_resource_id i = r) (sc_session_identities s)"

definition validate_sidecar :: "LegacyIxiaIdentitySidecar \<Rightarrow> ResourceId list \<Rightarrow> unit result" where
  "validate_sidecar s known =
     raise_if (filter (\<lambda>r. r \<notin> set known) (sidecar_ids s) \<noteq> [])
       (identity_error ''legacy IXIA sidecar references unknown resources'')"

section \<open>Lemmas\<close>

lemma require_kind_ok [simp]: "require_kind r kind = Inr () \<longleftrightarrow> ri_kind r = kind"
  by (simp add: require_kind_def raise_if_def)

lemma validate_sidecar_ok [simp]: "validate_sidecar s known = Inr () \<longleftrightarrow> set (sidecar_ids s) \<subseteq> set known"
  by (auto simp: validate_sidecar_def raise_if_def filter_empty_conv)

lemma mk_sidecar_ok [simp]: "mk_LegacyIxiaIdentitySidecar s = Inr t \<longleftrightarrow> t = s \<and> distinct (sidecar_ids s)"
  by (auto simp: mk_LegacyIxiaIdentitySidecar_def rbind_eq_Inr raise_if_def)

end
