(* ===== verification/Ixia_Planner.thy ===== *)
theory Ixia_Planner
  imports Dut_Planner Legacy_Identity
begin

text \<open>
  The traffic-generator half of the planner (\<open>abstractions/compilation/ixia_planner.py\<close>): ports,
  device groups, BGP sessions, advertisements and traffic flows of the emulated side, with the
  identities taken over from earlier configurations. Every BGP session faces the adjacencies of its
  group, seen from the other end.
\<close>

section \<open>What the planner reads\<close>

record ResolvedPrefixAdvertisement =
  ra_spec :: PrefixAdvertisement
  ra_prefix_set :: ResolvedPrefixSet

record BoundIxiaDeviceGroupChild =
  ch_name :: string
  ch_start_index :: int
  ch_legacy_device_group_name :: "string option"
  ch_legacy_bgp_peer_name :: "string option"
  ch_legacy_device_group_index :: "int option"
  ch_legacy_prefix_pool_name :: "string option"
  ch_peers :: "ResolvedPeer list"
  ch_prefix_advertisements :: "ResolvedPrefixAdvertisement list"

text \<open>
  The group with what only this planner reads. A peer group that is a name, or none, is \<open>None\<close>: the
  planner tells apart only objects and the rest.
\<close>

record IxiaBoundDeviceGroup = BoundDeviceGroup +
  xg_peer_group :: "BgpPeerGroup option"
  xg_stride :: step_value
  xg_partition_start :: "int option"
  xg_slow_peer_tcp_window_size_bytes :: "int option"
  xg_legacy_tag_name :: "string option"
  xg_legacy_bgp_peer_name :: "string option"
  xg_legacy_device_group_name :: "string option"
  xg_legacy_device_group_index :: "int option"
  xg_prefix_advertisements :: "ResolvedPrefixAdvertisement list"
  xg_children :: "BoundIxiaDeviceGroupChild list"

text \<open>The topology with its flows: those of the topology, and those of each logical device group.\<close>

record 'g IxiaBoundTopology = "'g BoundTopology" +
  xt_traffic_flows :: "TrafficFlowSpec list"
  xt_group_traffic_flows :: "TrafficFlowSpec list list"

section \<open>Endpoints and ports\<close>

record IxiaEndpoints =
  xe_dut :: EndpointSpec
  xe_traffic :: EndpointSpec
  xe_dut_is_a :: bool
  xe_dut_physical_identifier :: string
  xe_chassis_identifier :: string

fun named_endpoints :: "EndpointSpec \<Rightarrow> EndpointSpec \<Rightarrow> bool \<Rightarrow> string option \<Rightarrow> string option \<Rightarrow> IxiaEndpoints result" where
  "named_endpoints dut traffic dut_is_a (Some (d # ds)) (Some (c # cs)) =
     Inr \<lparr>xe_dut = dut, xe_traffic = traffic, xe_dut_is_a = dut_is_a,
       xe_dut_physical_identifier = d # ds, xe_chassis_identifier = c # cs\<rparr>"
| "named_endpoints _ _ _ _ _ = fail ''device group has unresolved DUT or IXIA identity''"

definition ixia_endpoints ::
    "('g, 'n) BoundTopology_scheme \<Rightarrow> (string, EndpointSpec) dict \<Rightarrow> 'm BoundDeviceGroup_scheme \<Rightarrow> IxiaEndpoints result" where
  "ixia_endpoints b specs g =
     rbind (dict_index specs (bg_a_endpoint g)) (\<lambda>a.
     rbind (dict_index specs (bg_z_endpoint g)) (\<lambda>z.
     rbind (if is_dut_endpoint a \<and> \<not> is_dut_endpoint z then Inr (a, z, True)
            else if is_dut_endpoint z \<and> \<not> is_dut_endpoint a then Inr (z, a, False)
            else fail ''device group does not identify one DUT and one traffic endpoint'') (\<lambda>(dut, traffic, dut_is_a).
       named_endpoints dut traffic dut_is_a (physical_identifier b dut) (physical_identifier b traffic))))"

text \<open>A new accumulator of a port, and a group added to one.\<close>

definition new_port :: "ResolvedIxiaPortAssignment \<Rightarrow> IxiaEndpoints \<Rightarrow> IxiaPortPlan result" where
  "new_port a e =
     rbind (ixia_port_resource_id (pa_logical_role a)) (\<lambda>r.
     rbind (endpoint_resource_id (es_name (xe_dut e))) (\<lambda>dut.
     rbind (endpoint_resource_id (es_name (xe_traffic e))) (\<lambda>traffic.
       Inr \<lparr>xp_resource_id = r, xp_logical_role = pa_logical_role a, xp_link_ids = [], xp_dut_endpoint_id = dut,
         xp_traffic_endpoint_id = traffic, xp_dut_physical_identifier = xe_dut_physical_identifier e,
         xp_chassis_identifier = xe_chassis_identifier e, xp_dut_interface = pa_dut_interface a,
         xp_ixia_port = pa_ixia_port a, xp_physical_inventory_index = pa_physical_inventory_index a,
         xp_endpoint_label_style = pa_endpoint_label_style a, xp_reuse_group = pa_reuse_group a\<rparr>)))"

definition port_add :: "IxiaPortPlan \<Rightarrow> 'm BoundDeviceGroup_scheme \<Rightarrow> IxiaEndpoints \<Rightarrow> IxiaPortPlan result" where
  "port_add p g e =
     (case bg_port_assignment g of
        None \<Rightarrow> fail ''IXIA port accumulation requires a bound assignment''
      | Some a \<Rightarrow>
          if pa_endpoint_label_style a \<noteq> xp_endpoint_label_style p
          then fail ''IXIA port has conflicting endpoint label styles''
          else rbind (endpoint_resource_id (es_name (xe_dut e))) (\<lambda>dut.
               rbind (endpoint_resource_id (es_name (xe_traffic e))) (\<lambda>traffic.
               if (dut, traffic, xe_dut_physical_identifier e, xe_chassis_identifier e, pa_dut_interface a,
                     pa_ixia_port a, pa_physical_inventory_index a, pa_reuse_group a)
                  \<noteq> (xp_dut_endpoint_id p, xp_traffic_endpoint_id p, xp_dut_physical_identifier p, xp_chassis_identifier p,
                     xp_dut_interface p, xp_ixia_port p, xp_physical_inventory_index p, xp_reuse_group p)
               then fail ''logical IXIA port resolves to multiple physical connections''
               else rbind (link_resource_id (bg_name g)) (\<lambda>l.
                 Inr (p\<lparr>xp_link_ids := add_once l (xp_link_ids p)\<rparr>)))))"

definition accumulate_port ::
    "(string, IxiaPortPlan) dict \<Rightarrow> 'm BoundDeviceGroup_scheme \<times> IxiaEndpoints \<Rightarrow> (string, IxiaPortPlan) dict result" where
  "accumulate_port accs ge =
     (case bg_port_assignment (fst ge) of
        None \<Rightarrow> fail ''resolved IXIA device group has no port assignment''
      | Some a \<Rightarrow>
          rbind (case dict_get accs (pa_logical_role a) of Some p \<Rightarrow> Inr p | None \<Rightarrow> new_port a (snd ge)) (\<lambda>p.
          rbind (port_add p (fst ge) (snd ge)) (\<lambda>p'.
            Inr (dict_set (pa_logical_role a) p' accs))))"

definition ixia_port_plans :: "('m BoundDeviceGroup_scheme \<times> IxiaEndpoints) list \<Rightarrow> IxiaPortPlan list result" where
  "ixia_port_plans groups =
     rbind (rfold accumulate_port [] groups) (\<lambda>accs. rmap mk_IxiaPortPlan (map snd accs))"

section \<open>Sessions\<close>

text \<open>\<open>_ip_step\<close>: an integer, or an address of the family read as one.\<close>

fun ip_step :: "step_value \<Rightarrow> string \<Rightarrow> int result" where
  "ip_step (StepInt n) afi = Inr n"
| "ip_step (StepStr s) afi =
     rbind (ip_address s) (\<lambda>parsed.
       if ip_version parsed \<noteq> (if afi = ''v4'' then 4 else 6) then fail ''step does not match afi''
       else Inr (ip_int parsed))"

definition default_bgp_capabilities :: "'m BoundDeviceGroup_scheme \<Rightarrow> IxiaBgpCapability list" where
  "default_bgp_capabilities g =
     (if bg_peer_relationship g = Some MONITOR
      then [IPV6_UNICAST, IPV4_UNICAST, IPV4_UNICAST_ADD_PATH, IPV6_UNICAST_ADD_PATH, NEXT_HOP_ENCODING]
      else [if bg_afi g = ''v4'' then IPV4_UNICAST else IPV6_UNICAST])"

text \<open>\<open>int(peer_cidr.rsplit("/", 1)[1])\<close>\<close>

definition cidr_prefix_length :: "string \<Rightarrow> int result" where
  "cidr_prefix_length cidr =
     (if CHR ''/'' \<notin> set cidr then Inl (Exn IndexError ''list index out of range'')
      else case int_text (last (split_on (CHR ''/'') cidr)) of
             None \<Rightarrow> fail ''invalid literal for int() with base 10''
           | Some n \<Rightarrow> Inr n)"

definition default_address_prefix_length :: "'m BoundDeviceGroup_scheme \<Rightarrow> int result" where
  "default_address_prefix_length g =
     (if bg_afi g = ''v6'' then Inr 64
      else rbind (bound_peers g) (\<lambda>peers.
        case peers of
          [] \<Rightarrow> Inl (Exn IndexError ''tuple index out of range'')
        | p # _ \<Rightarrow>
            (case rp_peer_cidr p of
               None \<Rightarrow> fail ''IPv4 IXIA device group has no peer CIDR''
             | Some cidr \<Rightarrow> cidr_prefix_length cidr)))"

record BgpBehavior =
  be_capabilities :: "IxiaBgpCapability list"
  be_address_prefix_length :: int
  be_address_step :: int
  be_address_start_index :: int
  be_hold_timer_s :: int
  be_keepalive_timer_s :: int
  be_enable_graceful_restart :: bool

definition or_else :: "'a option \<Rightarrow> 'a \<Rightarrow> 'a" where
  "or_else x d = (case x of Some v \<Rightarrow> v | None \<Rightarrow> d)"

definition bgp_behavior :: "'m IxiaBoundDeviceGroup_scheme \<Rightarrow> BgpBehavior result" where
  "bgp_behavior g =
     (let intent = (case xg_peer_group g of Some p \<Rightarrow> bpg_ixia_session p | None \<Rightarrow> default_intent);
          configured = (case xg_peer_group g of Some p \<Rightarrow> bpg_enable_graceful_restart p | None \<Rightarrow> None)
      in rbind (case si_address_prefix_length intent of Some n \<Rightarrow> Inr n | None \<Rightarrow> default_address_prefix_length g) (\<lambda>len.
         rbind (case si_address_step intent of Some n \<Rightarrow> Inr n | None \<Rightarrow> ip_step (xg_stride g) (bg_afi g)) (\<lambda>step.
           Inr \<lparr>be_capabilities = (case si_capabilities intent of Some (c # cs) \<Rightarrow> c # cs | _ \<Rightarrow> default_bgp_capabilities g),
             be_address_prefix_length = len, be_address_step = step,
             be_address_start_index = or_else (si_address_start_index intent) (or_else (xg_partition_start g) 0),
             be_hold_timer_s = si_hold_timer_s intent, be_keepalive_timer_s = si_keepalive_timer_s intent,
             be_enable_graceful_restart = or_else (si_enable_graceful_restart intent) (or_else configured True)\<rparr>)))"

section \<open>Advertisements\<close>

fun distribution_plan :: "NextHopDistribution \<Rightarrow> IxiaNextHopDistribution" where
  "distribution_plan NH_SHARED = IXIA_NH_SHARED"
| "distribution_plan PER_PEER = IXIA_PER_PEER"
| "distribution_plan PER_PREFIX = IXIA_PER_PREFIX"
| "distribution_plan PER_PEER_PREFIX = IXIA_PER_PEER_PREFIX"

definition next_hop_plan :: "NextHopIntent \<Rightarrow> string \<Rightarrow> IxiaNextHopPlan result" where
  "next_hop_plan i afi =
     (let mode = NextHopIntent.nh_mode i;
          distribution = map_option distribution_plan (NextHopIntent.nh_distribution i)
      in if mode \<noteq> SELF \<and> nh_realization i \<noteq> None
         then fail ''non-self IXIA next hop cannot carry a self realization''
         else case mode of
           FORMULAIC \<Rightarrow>
             (case nh_formulaic_source i of
                None \<Rightarrow> fail ''formulaic IXIA next-hop intent has no source''
              | Some f \<Rightarrow>
                  rbind (ip_step (nhs_step f) afi) (\<lambda>step.
                    mk_IxiaNextHopPlan \<lparr>nh_mode = IXIA_FORMULAIC, nh_distribution = distribution,
                      nh_formulaic_start = Some (nhs_start f), nh_formulaic_step = Some step,
                      nh_explicit_addresses = [], nh_self_realization = None\<rparr>))
         | EXPLICIT \<Rightarrow>
             (case nh_explicit_source i of
                None \<Rightarrow> fail ''explicit IXIA next-hop intent has no source''
              | Some e \<Rightarrow>
                  mk_IxiaNextHopPlan \<lparr>nh_mode = IXIA_EXPLICIT, nh_distribution = distribution,
                    nh_formulaic_start = None, nh_formulaic_step = None,
                    nh_explicit_addresses = nhs_addresses e, nh_self_realization = None\<rparr>)
         | SELF \<Rightarrow>
             mk_IxiaNextHopPlan \<lparr>nh_mode = IXIA_SELF, nh_distribution = None, nh_formulaic_start = None,
               nh_formulaic_step = None, nh_explicit_addresses = [],
               nh_self_realization = map_option (\<lambda>_. ADVERTISING_SESSION_LOCAL_ADDRESS) (nh_realization i)\<rparr>)"

definition route_attribute_plan :: "RouteAttributePool option \<Rightarrow> IxiaRouteAttributePoolPlan option result" where
  "route_attribute_plan pool =
     (case pool of
        None \<Rightarrow> Inr None
      | Some p \<Rightarrow>
          rbind (rmap (rmap (\<lambda>(administrator, assigned).
                   mk_IxiaExtendedCommunityPlan \<lparr>xec_kind = ''rt'', xec_administrator = administrator,
                     xec_assigned_number = assigned\<rparr>)) (extended_community_rows p)) (\<lambda>extended.
            Inr (Some \<lparr>xra_community_rows = map (map (\<lambda>(asn, v). \<lparr>xsc_asn = asn, xsc_value = v\<rparr>)) (community_rows p),
              xra_extended_community_rows = extended,
              xra_as_paths = map (\<lambda>asns. \<lparr>xap_asns = asns\<rparr>) (as_paths p), xra_distribution = IXIA_ROUND_ROBIN\<rparr>)))"

fun scalar_attribute :: "pyval \<Rightarrow> bool" where
  "scalar_attribute (VList xs) = False"
| "scalar_attribute (VDict d) = False"
| "scalar_attribute v = True"

definition scalar_attributes :: "(string \<times> pyval) list \<Rightarrow> (string \<times> pyval) list result" where
  "scalar_attributes attributes =
     rmap (\<lambda>(n, v). if scalar_attribute v then Inr (n, v)
                     else fail ''IXIA advertisement attribute has unsupported value type'') attributes"

definition policy_communities :: "route_policy option \<Rightarrow> string list" where
  "policy_communities p = (case p of Some (PolicyObject cs) \<Rightarrow> cs | _ \<Rightarrow> [])"

fun peer_distribution_plan :: "PeerPrefixDistribution \<Rightarrow> IxiaPeerPrefixDistribution" where
  "peer_distribution_plan SHARED = IXIA_SHARED"
| "peer_distribution_plan DISJOINT = IXIA_DISJOINT"

fun route_scale_plan :: "RouteScaleMode \<Rightarrow> IxiaRouteScaleMode" where
  "route_scale_plan WINDOWED = IXIA_WINDOWED"
| "route_scale_plan FLAT = IXIA_FLAT"

definition exclusion_plan :: "PeerPrefixExclusionBlock \<Rightarrow> IxiaPeerPrefixExclusionBlock result" where
  "exclusion_plan blk =
     mk_IxiaPeerPrefixExclusionBlock \<lparr>xb_prefix_start_index = prefix_start_index blk,
       xb_prefix_count = ex_prefix_count blk, xb_peer_indices = peer_indices blk\<rparr>"

definition validate_activation :: "PrefixAdvertisement \<Rightarrow> int \<Rightarrow> unit result" where
  "validate_activation spec peer_count =
     (case adv_activation spec of
        None \<Rightarrow> Inr ()
      | Some activation \<Rightarrow>
          if peer_distribution (adv_allocation spec) \<noteq> SHARED \<or> route_scale_mode (adv_allocation spec) \<noteq> FLAT
          then fail ''IXIA peer-prefix activation requires flat shared route geometry''
          else validate_geometry activation peer_count (prefixes_per_peer (adv_allocation spec)))"

definition prefix_window_plan :: "PrefixAdvertisement \<Rightarrow> ResolvedPrefixSet \<Rightarrow> string \<Rightarrow> IxiaPrefixWindowPlan result" where
  "prefix_window_plan spec ps afi =
     (let source = ps_source (rps_spec ps); membership = adv_membership spec; allocation = adv_allocation spec
      in rbind (ip_step (prefix_step source) afi) (\<lambda>step.
         rbind (fps_getitem (rps_prefixes ps) (start_index membership)) (\<lambda>starting.
           mk_IxiaPrefixWindowPlan \<lparr>pw_source_start = start_prefix source, pw_source_step = step,
             pw_source_count = prefix_count source, pw_source_excluded_indices = excluded_indices source,
             pw_membership_start_index = start_index membership, pw_membership_prefix_count = member_count membership,
             pw_starting_prefix = starting, pw_prefix_length = prefix_length source,
             pw_prefixes_per_peer = prefixes_per_peer allocation,
             pw_peer_distribution = peer_distribution_plan (peer_distribution allocation),
             pw_network_group_index = network_group_index allocation,
             pw_route_scale_mode = route_scale_plan (route_scale_mode allocation)\<rparr>)))"

definition advertisement_plan ::
    "ResourceId \<Rightarrow> ResourceId \<Rightarrow> string \<Rightarrow> ResolvedPeer list \<Rightarrow> ResolvedPrefixAdvertisement \<Rightarrow> IxiaAdvertisementPlan result" where
  "advertisement_plan advertisement_id device_group_id afi peers ra =
     (let spec = ra_spec ra; start = start_index (adv_membership spec); peer_count = int (length peers)
      in if \<not> (0 \<le> start \<and> start < fps_len (rps_prefixes (ra_prefix_set ra)))
         then fail ''IXIA advertisement membership start index is outside its materialized prefixes''
         else rbind (validate_activation spec peer_count) (\<lambda>_.
              rbind (address_family afi) (\<lambda>family.
              rbind (prefix_window_plan spec (ra_prefix_set ra) afi) (\<lambda>window.
              rbind (next_hop_plan (adv_next_hop spec) afi) (\<lambda>hop.
              rbind (scalar_attributes (adv_attributes spec)) (\<lambda>attributes.
              rbind (route_attribute_plan (adv_route_attributes spec)) (\<lambda>route_attributes.
              rbind (case adv_activation spec of
                       None \<Rightarrow> Inr [] | Some activation \<Rightarrow> rmap exclusion_plan (exclusion_blocks activation)) (\<lambda>blocks.
                mk_IxiaAdvertisementPlan \<lparr>ad_resource_id = advertisement_id, ad_device_group_id = device_group_id,
                  ad_logical_name = adv_name spec, ad_prefix_set_name = adv_prefix_set spec, ad_afi = family,
                  ad_route_count = distinct_prefix_count (adv_allocation spec) peer_count, ad_prefix_window = window,
                  ad_next_hop = hop, ad_attributes = attributes, ad_route_attributes = route_attributes,
                  ad_policy_communities = policy_communities (adv_policy spec),
                  ad_requires_route_mutation = adv_requires_route_mutation spec, ad_exclusion_blocks = blocks\<rparr>))))))))"

section \<open>Instances of a group\<close>

record IxiaInstance =
  in_child_name :: "string option"
  in_peer_start_index :: int
  in_peers :: "ResolvedPeer list"
  in_advertisements :: "ResolvedPrefixAdvertisement list"
  in_device_group_name :: "string option"
  in_bgp_peer_name :: "string option"
  in_tag_name :: "string option"
  in_device_group_index :: "int option"
  in_prefix_name :: "string option"

definition ixia_child_instance :: "BoundIxiaDeviceGroupChild \<Rightarrow> IxiaInstance" where
  "ixia_child_instance c =
     \<lparr>in_child_name = Some (ch_name c), in_peer_start_index = ch_start_index c, in_peers = ch_peers c,
       in_advertisements = ch_prefix_advertisements c, in_device_group_name = ch_legacy_device_group_name c,
       in_bgp_peer_name = ch_legacy_bgp_peer_name c, in_tag_name = None,
       in_device_group_index = ch_legacy_device_group_index c, in_prefix_name = ch_legacy_prefix_pool_name c\<rparr>"

text \<open>\<open>a or b\<close> on optional texts: \<open>b\<close> when \<open>a\<close> is missing or empty.\<close>

definition text_or :: "string option \<Rightarrow> string option \<Rightarrow> string option" where
  "text_or a c = (case a of Some (x # xs) \<Rightarrow> Some (x # xs) | _ \<Rightarrow> c)"

definition ixia_instances :: "'m IxiaBoundDeviceGroup_scheme \<Rightarrow> IxiaInstance list result" where
  "ixia_instances g =
     (if xg_children g \<noteq> [] then Inr (map ixia_child_instance (xg_children g))
      else rbind (bound_peers g) (\<lambda>peers.
        Inr [\<lparr>in_child_name = None, in_peer_start_index = 0, in_peers = peers,
          in_advertisements = xg_prefix_advertisements g, in_device_group_name = xg_legacy_device_group_name g,
          in_bgp_peer_name = text_or (xg_legacy_bgp_peer_name g) (xg_legacy_tag_name g),
          in_tag_name = (if xg_legacy_device_group_name g = None then xg_legacy_tag_name g else None),
          in_device_group_index = xg_legacy_device_group_index g, in_prefix_name = None\<rparr>]))"

definition group_identities :: "ResourceId \<Rightarrow> IxiaInstance \<Rightarrow> LegacyIxiaGroupIdentity list result" where
  "group_identities r i =
     (if in_device_group_name i = None \<and> in_tag_name i = None \<and> in_device_group_index i = None then Inr []
      else rbind (mk_LegacyIxiaGroupIdentity \<lparr>lg_resource_id = r, lg_device_group_name = in_device_group_name i,
             lg_tag_name = in_tag_name i, lg_device_group_index = in_device_group_index i\<rparr>) (\<lambda>x. Inr [x]))"

definition session_identities :: "ResourceId \<Rightarrow> IxiaInstance \<Rightarrow> LegacyIxiaSessionIdentity list result" where
  "session_identities r i =
     (case in_bgp_peer_name i of
        None \<Rightarrow> Inr []
      | Some n \<Rightarrow> rbind (mk_LegacyIxiaSessionIdentity \<lparr>ls_resource_id = r, ls_bgp_peer_name = n\<rparr>) (\<lambda>x. Inr [x]))"

definition advertisement_identities ::
    "ResourceId \<Rightarrow> IxiaInstance \<Rightarrow> ResolvedPrefixAdvertisement \<Rightarrow> LegacyIxiaAdvertisementIdentity list result" where
  "advertisement_identities r i ra =
     (case text_or (in_prefix_name i) (adv_legacy_ixia_name (ra_spec ra)) of
        Some (c # cs) \<Rightarrow>
          rbind (mk_LegacyIxiaAdvertisementIdentity \<lparr>la_resource_id = r, la_prefix_name = c # cs\<rparr>) (\<lambda>x. Inr [x])
      | _ \<Rightarrow> Inr [])"

text \<open>What one instance contributes: its group, its session, its advertisements and their identities.\<close>

record instance_plan =
  ip_group :: IxiaDeviceGroupPlan
  ip_session :: IxiaBgpSessionPlan
  ip_advertisements :: "IxiaAdvertisementPlan list"
  ip_group_identities :: "LegacyIxiaGroupIdentity list"
  ip_session_identities :: "LegacyIxiaSessionIdentity list"
  ip_advertisement_identities :: "LegacyIxiaAdvertisementIdentity list"

definition instance_advertisement :: "string \<Rightarrow> string \<Rightarrow> ResourceId \<Rightarrow> IxiaInstance \<Rightarrow> ResolvedPrefixAdvertisement
     \<Rightarrow> (IxiaAdvertisementPlan \<times> LegacyIxiaAdvertisementIdentity list) result" where
  "instance_advertisement n afi group_id i ra =
     rbind (ixia_advertisement_resource_id n (adv_name (ra_spec ra)) (in_child_name i)) (\<lambda>r.
     rbind (advertisement_plan r group_id afi (in_peers i) ra) (\<lambda>a.
     rbind (advertisement_identities r i ra) (\<lambda>ids. Inr (a, ids))))"

definition instance_plan_of ::
    "'m IxiaBoundDeviceGroup_scheme \<Rightarrow> bool \<Rightarrow> string \<Rightarrow> PeerRelationship \<Rightarrow> BgpBehavior \<Rightarrow> IxiaInstance \<Rightarrow> instance_plan result" where
  "instance_plan_of g dut_is_a logical_role relationship bgp i =
     rbind (ixia_device_group_resource_id (bg_name g) (in_child_name i)) (\<lambda>group_id.
     rbind (ixia_session_resource_id (bg_name g) (in_child_name i)) (\<lambda>session_id.
     rbind (link_resource_id (bg_name g)) (\<lambda>link_id.
     rbind (ixia_port_resource_id logical_role) (\<lambda>port_id.
     rbind (address_family (bg_afi g)) (\<lambda>afi.
     rbind (mk_IxiaDeviceGroupPlan \<lparr>dg_resource_id = group_id, dg_link_id = link_id, dg_port_id = port_id, dg_afi = afi,
              dg_peer_count = int (length (in_peers i)), dg_local_asn = bg_remote_asn g, dg_remote_asn = bg_local_asn g,
              dg_parent_network = bg_parent_network g, dg_peer_start_index = in_peer_start_index i\<rparr>) (\<lambda>group.
     rbind (rmap (\<lambda>k. adjacency_resource_id (bg_name g) (in_peer_start_index i + int k)) [0 ..< length (in_peers i)]) (\<lambda>adjacencies.
     rbind (mk_IxiaBgpSessionPlan \<lparr>bs_resource_id = session_id, bs_device_group_id = group_id, bs_adjacency_ids = adjacencies,
              bs_local_addresses = map (if dut_is_a then rp_z_ip else rp_a_ip) (in_peers i),
              bs_peer_addresses = map (if dut_is_a then rp_a_ip else rp_z_ip) (in_peers i),
              bs_peer_cidrs = map rp_peer_cidr (in_peers i), bs_relationship = relationship,
              bs_capabilities = be_capabilities bgp, bs_address_prefix_length = be_address_prefix_length bgp,
              bs_address_step = be_address_step bgp, bs_address_start_index = be_address_start_index bgp,
              bs_enable_four_byte_local_as = True, bs_hold_timer_s = be_hold_timer_s bgp,
              bs_keepalive_timer_s = be_keepalive_timer_s bgp, bs_enable_graceful_restart = be_enable_graceful_restart bgp,
              bs_tcp_window_size_bytes = xg_slow_peer_tcp_window_size_bytes g\<rparr>) (\<lambda>session.
     rbind (group_identities group_id i) (\<lambda>group_ids.
     rbind (session_identities session_id i) (\<lambda>session_ids.
     rbind (rmap (instance_advertisement (bg_name g) (bg_afi g) group_id i) (in_advertisements i)) (\<lambda>ads.
       Inr \<lparr>ip_group = group, ip_session = session, ip_advertisements = map fst ads, ip_group_identities = group_ids,
         ip_session_identities = session_ids, ip_advertisement_identities = concat (map snd ads)\<rparr>)))))))))))"

definition group_instances :: "'m IxiaBoundDeviceGroup_scheme \<times> IxiaEndpoints \<Rightarrow> instance_plan list result" where
  "group_instances ge =
     (let g = fst ge
      in case bg_port_assignment g of
           None \<Rightarrow> fail ''resolved IXIA device group has no port assignment''
         | Some a \<Rightarrow>
             (case bg_peer_relationship g of
                None \<Rightarrow> fail ''IXIA device group has no peer relationship''
              | Some relationship \<Rightarrow>
                  rbind (bgp_behavior g) (\<lambda>bgp.
                  rbind (ixia_instances g) (\<lambda>instances.
                    rmap (instance_plan_of g (xe_dut_is_a (snd ge)) (pa_logical_role a) relationship bgp) instances))))"

section \<open>Traffic flows\<close>

abbreviation unsupported_flow :: "string \<Rightarrow> 'a result" where
  "unsupported_flow m \<equiv> Inl (Exn (UserExn ''UnsupportedTrafficFlowIntentError'' ValueError) m)"

definition single_traffic_flow_group :: "string \<Rightarrow> IxiaDeviceGroupPlan list \<Rightarrow> IxiaDeviceGroupPlan result" where
  "single_traffic_flow_group logical_group_name groups =
     (case filter (\<lambda>g. hd (ri_path (dg_resource_id g)) = logical_group_name) groups of
        [g] \<Rightarrow> Inr g
      | _ \<Rightarrow> unsupported_flow ''traffic flow device group must resolve to exactly one IXIA instance'')"

definition single_traffic_flow_advertisement ::
    "IxiaDeviceGroupPlan \<Rightarrow> IxiaAdvertisementPlan list \<Rightarrow> IxiaAdvertisementPlan result" where
  "single_traffic_flow_advertisement g advertisements =
     (case filter (\<lambda>a. ad_device_group_id a = dg_resource_id g) advertisements of
        [a] \<Rightarrow> Inr a
      | _ \<Rightarrow> unsupported_flow ''traffic flow device group must resolve to exactly one IXIA advertisement'')"

definition traffic_flow_plan ::
    "IxiaDeviceGroupPlan list \<Rightarrow> IxiaAdvertisementPlan list \<Rightarrow> TrafficFlowSpec \<Rightarrow> IxiaTrafficFlowPlan result" where
  "traffic_flow_plan groups advertisements f =
     (if fl_dst_prefix_pool f \<noteq> None then unsupported_flow ''traffic flow uses dst_prefix_pool''
      else case fl_dst_dg f of
        None \<Rightarrow> unsupported_flow ''traffic flow has no destination device group''
      | Some dst \<Rightarrow>
          rbind (single_traffic_flow_group (fl_src_dg f) groups) (\<lambda>source.
          rbind (single_traffic_flow_group dst groups) (\<lambda>destination.
          rbind (single_traffic_flow_advertisement destination advertisements) (\<lambda>advertisement.
          if fl_rate_bps f \<noteq> None then unsupported_flow ''traffic flow uses bit-rate pacing, which is not supported''
          else if fl_rate_percent f = None then unsupported_flow ''traffic flow requires an explicit percentage rate''
          else rbind (ixia_traffic_flow_resource_id (fl_name f)) (\<lambda>r.
            mk_IxiaTrafficFlowPlan \<lparr>tf_resource_id = r, tf_logical_name = fl_name f,
              tf_source_device_group_id = dg_resource_id source,
              tf_destination_advertisement_id = ad_resource_id advertisement, tf_afi = dg_afi source,
              tf_traffic_profile = fl_traffic_profile f, tf_rate_percent = fl_rate_percent f, tf_rate_bps = fl_rate_bps f,
              tf_frame_size_bytes = fl_frame_size_bytes f, tf_bidirectional = fl_bidirectional f,
              tf_enabled = fl_enabled f\<rparr>)))))"

definition traffic_flow_plans ::
    "('g, 'n) IxiaBoundTopology_scheme \<Rightarrow> IxiaDeviceGroupPlan list \<Rightarrow> IxiaAdvertisementPlan list \<Rightarrow> IxiaTrafficFlowPlan list result" where
  "traffic_flow_plans b groups advertisements =
     (let flows = xt_traffic_flows b @ concat (xt_group_traffic_flows b)
      in if \<not> distinct (map fl_name flows) then unsupported_flow ''duplicate IXIA traffic-flow name''
         else rmap (traffic_flow_plan groups advertisements) flows)"

section \<open>The traffic-generator half of a plan\<close>

record IxiaPlanningResult =
  ir_plan :: IxiaPlan
  ir_legacy_identity :: LegacyIxiaIdentitySidecar

definition mk_IxiaPlanningResult :: "IxiaPlanningResult \<Rightarrow> IxiaPlanningResult result" where
  "mk_IxiaPlanningResult r =
     rbind (validate_sidecar (ir_legacy_identity r) (ixia_resource_ids (ir_plan r))) (\<lambda>_. Inr r)"

definition sidecar_of :: "instance_plan list \<Rightarrow> LegacyIxiaIdentitySidecar" where
  "sidecar_of xs = \<lparr>sc_port_identities = [], sc_group_identities = concat (map ip_group_identities xs),
     sc_session_identities = concat (map ip_session_identities xs),
     sc_advertisement_identities = concat (map ip_advertisement_identities xs)\<rparr>"

definition resolved_groups ::
    "('m IxiaBoundDeviceGroup_scheme, 'n) IxiaBoundTopology_scheme \<Rightarrow> (string, EndpointSpec) dict
     \<Rightarrow> ('m IxiaBoundDeviceGroup_scheme \<times> IxiaEndpoints) list result" where
  "resolved_groups b specs =
     rmap (\<lambda>g. rbind (ixia_endpoints b specs g) (\<lambda>e. Inr (g, e)))
       (filter (\<lambda>g. bg_port_assignment g \<noteq> None) (bt_device_groups b))"

definition plan_ixia ::
    "('m IxiaBoundDeviceGroup_scheme, 'n) IxiaBoundTopology_scheme \<Rightarrow> (string, EndpointSpec) dict
     \<Rightarrow> IxiaPlanningResult result" where
  "plan_ixia b specs =
     rbind (resolved_groups b specs) (\<lambda>groups.
     rbind (ixia_port_plans groups) (\<lambda>ports.
     rbind (rmap group_instances groups) (\<lambda>iss.
     let xs = concat iss; device_groups = map ip_group xs; advertisements = concat (map ip_advertisements xs)
     in rbind (traffic_flow_plans b device_groups advertisements) (\<lambda>flows.
        rbind (mk_IxiaPlan \<lparr>xx_ports = ports, xx_device_groups = device_groups, xx_bgp_sessions = map ip_session xs,
                 xx_advertisements = advertisements, xx_traffic_flows = flows\<rparr>) (\<lambda>plan.
        rbind (mk_LegacyIxiaIdentitySidecar (sidecar_of xs)) (\<lambda>sidecar.
          mk_IxiaPlanningResult \<lparr>ir_plan = plan, ir_legacy_identity = sidecar\<rparr>))))))"

end
