(* ===== verification/Dut_Planner_Facts.thy ===== *)
theory Dut_Planner_Facts
  imports Dut_Planner
begin

text \<open>
  What the loops of the device planner compute. A group is first reduced to what the loops read of
  it, its \<open>planned_group\<close>; the two dictionaries of accumulators are then related to the list of
  planned groups by an invariant that each step preserves.
\<close>

section \<open>Groups as the loops see them\<close>

record planned_group =
  pg_link :: ResourceId
  pg_endpoint :: string
  pg_role :: string
  pg_afi :: AddressFamily
  pg_bound :: "string option"
  pg_addresses :: "string list"
  pg_assignment :: "ResolvedIxiaPortAssignment option"

abbreviation endpoint_rid :: "string \<Rightarrow> ResourceId" where
  "endpoint_rid n \<equiv> \<lparr>ri_kind = ENDPOINT, ri_path = [n]\<rparr>"

abbreviation link_rid :: "string \<Rightarrow> ResourceId" where
  "link_rid n \<equiv> \<lparr>ri_kind = LINK, ri_path = [n]\<rparr>"

definition pg_physical :: "planned_group \<Rightarrow> ResourceId option" where
  "pg_physical p = map_option (\<lambda>a. \<lparr>ri_kind = PHYSICAL_INTERFACE,
     ri_path = [pg_endpoint p, group_kind_value (fst (physical_interface_group a)), snd (physical_interface_group a)]\<rparr>)
     (pg_assignment p)"

definition pg_key :: "planned_group \<Rightarrow> interface_key" where
  "pg_key p = (pg_endpoint p, pg_role p, pg_afi p)"

definition resolve_group :: "(string, EndpointSpec) dict \<Rightarrow> 'm BoundDeviceGroup_scheme \<Rightarrow> planned_group result" where
  "resolve_group specs g =
     rbind (dut_side g specs) (\<lambda>side.
     rbind (address_family (bg_afi g)) (\<lambda>afi.
     rbind (physical_interface_id (ds_endpoint_name side) (bg_port_assignment g)) (\<lambda>_.
     rbind (link_resource_id (bg_name g)) (\<lambda>link_id.
       Inr \<lparr>pg_link = link_id, pg_endpoint = ds_endpoint_name side, pg_role = logical_port_role g, pg_afi = afi,
         pg_bound = ds_bound_interface side, pg_addresses = ds_addresses side,
         pg_assignment = bg_port_assignment g\<rparr>))))"

definition fresh_interface :: "planned_group \<Rightarrow> InterfacePlan" where
  "fresh_interface p = \<lparr>if_resource_id = \<lparr>ri_kind = INTERFACE, ri_path = [pg_endpoint p, pg_role p, afi_value (pg_afi p)]\<rparr>,
     if_endpoint_id = endpoint_rid (pg_endpoint p), if_link_ids = [], if_logical_port_role = pg_role p,
     if_afi = pg_afi p, if_addresses = [], if_bound_interface = pg_bound p,
     if_physical_interface_id = pg_physical p\<rparr>"

lemma physical_interface_id_ok:
  "physical_interface_id e a = Inr r \<Longrightarrow>
     r = map_option (\<lambda>a. \<lparr>ri_kind = PHYSICAL_INTERFACE,
       ri_path = [e, group_kind_value (fst (physical_interface_group a)), snd (physical_interface_group a)]\<rparr>) a"
  by (auto simp: physical_interface_id_def resource_id_defs rbind_eq_Inr split: option.splits if_splits)

lemma add_interface_resolved:
  assumes "add_interface specs accs g = Inr accs'"
  obtains p acc' where "resolve_group specs g = Inr p"
    "interface_add (case dict_get accs (pg_key p) of Some acc \<Rightarrow> acc | None \<Rightarrow> fresh_interface p)
        (pg_link p) (pg_bound p) (pg_physical p) (pg_addresses p) = Inr acc'"
    "accs' = dict_set (pg_key p) acc' accs"
proof -
  obtain side afi physical acc link_id acc' where
      side: "dut_side g specs = Inr side" and afi: "address_family (bg_afi g) = Inr afi"
    and ph: "physical_interface_id (ds_endpoint_name side) (bg_port_assignment g) = Inr physical"
    and link_id: "link_resource_id (bg_name g) = Inr link_id"
    and acc: "(case dict_get accs (ds_endpoint_name side, logical_port_role g, afi) of
                 Some acc \<Rightarrow> Inr acc
               | None \<Rightarrow>
                   rbind (interface_resource_id (ds_endpoint_name side) (logical_port_role g) afi) (\<lambda>r.
                   rbind (endpoint_resource_id (ds_endpoint_name side)) (\<lambda>e.
                     Inr \<lparr>if_resource_id = r, if_endpoint_id = e, if_link_ids = [],
                       if_logical_port_role = logical_port_role g, if_afi = afi, if_addresses = [],
                       if_bound_interface = ds_bound_interface side, if_physical_interface_id = physical\<rparr>))) = Inr acc"
    and add: "interface_add acc link_id (ds_bound_interface side) physical (ds_addresses side) = Inr acc'"
      "accs' = dict_set (ds_endpoint_name side, logical_port_role g, afi) acc' accs"
    using assms unfolding add_interface_def Let_def rbind_eq_Inr by blast
  define p where "p = \<lparr>pg_link = link_id, pg_endpoint = ds_endpoint_name side, pg_role = logical_port_role g, pg_afi = afi,
         pg_bound = ds_bound_interface side, pg_addresses = ds_addresses side,
         pg_assignment = bg_port_assignment g\<rparr>"
  have ph': "physical = pg_physical p" using physical_interface_id_ok[OF ph] by (simp add: p_def pg_physical_def)
  have key: "pg_key p = (ds_endpoint_name side, logical_port_role g, afi)" by (simp add: p_def pg_key_def)
  have "resolve_group specs g = Inr p"
    using side afi ph link_id by (simp add: resolve_group_def p_def)
  moreover have "acc = (case dict_get accs (pg_key p) of Some acc \<Rightarrow> acc | None \<Rightarrow> fresh_interface p)"
    using acc unfolding key[symmetric]
    by (auto simp: fresh_interface_def ph' rbind_eq_Inr resource_id_defs p_def split: option.splits)
  ultimately show ?thesis
    using that[of p acc'] add ph' key by (simp add: p_def)
qed

lemma resolve_group_ok:
  assumes "resolve_group specs g = Inr p"
  shows "pg_link p = link_rid (bg_name g)" "pg_assignment p = bg_port_assignment g" "pg_role p = logical_port_role g"
    "bg_afi g = afi_value (pg_afi p)"
    "\<exists>side. dut_side g specs = Inr side \<and> ds_endpoint_name side = pg_endpoint p \<and> ds_bound_interface side = pg_bound p
       \<and> ds_addresses side = pg_addresses p"
  using assms by (auto simp: resolve_group_def rbind_eq_Inr link_resource_id_def)

section \<open>The interface accumulators\<close>

definition acc_ok :: "planned_group list \<Rightarrow> interface_key \<Rightarrow> InterfacePlan \<Rightarrow> bool" where
  "acc_ok ps k acc \<longleftrightarrow>
     if_resource_id acc = \<lparr>ri_kind = INTERFACE, ri_path = [fst k, fst (snd k), afi_value (snd (snd k))]\<rparr>
     \<and> if_endpoint_id acc = endpoint_rid (fst k) \<and> if_logical_port_role acc = fst (snd k) \<and> if_afi acc = snd (snd k)
     \<and> if_link_ids acc = map pg_link (filter (\<lambda>p. pg_key p = k) ps)
     \<and> set (if_addresses acc) = (\<Union>p \<in> {p \<in> set ps. pg_key p = k}. set (pg_addresses p))
     \<and> (\<forall>p \<in> set ps. pg_key p = k \<longrightarrow> pg_physical p = if_physical_interface_id acc
          \<and> (pg_bound p = None \<or> pg_bound p = if_bound_interface acc))
     \<and> (if_bound_interface acc = None \<or> (\<exists>p \<in> set ps. pg_key p = k \<and> pg_bound p = if_bound_interface acc))"

definition interfaces_inv :: "planned_group list \<Rightarrow> (interface_key, InterfacePlan) dict \<Rightarrow> bool" where
  "interfaces_inv ps accs \<longleftrightarrow>
     distinct (map fst accs) \<and> fst ` set accs = pg_key ` set ps \<and> (\<forall>(k, acc) \<in> set accs. acc_ok ps k acc)"

lemma foldl_add_once: "set (foldl (\<lambda>as a. add_once a as) xs ys) = set xs \<union> set ys"
  by (induction ys arbitrary: xs) auto

lemma dict_set_entries:
  assumes "distinct (map fst d)"
  shows "set (dict_set k v d) = insert (k, v) {x \<in> set d. fst x \<noteq> k}"
  using assms by (induction d) (auto simp: image_iff)

lemma keys_dict_set: "fst ` set (dict_set k v d) = insert k (fst ` set d)"
  by (induction d) auto

lemma acc_ok_other: "pg_key p \<noteq> k \<Longrightarrow> acc_ok (ps @ [p]) k acc \<longleftrightarrow> acc_ok ps k acc"
  by (auto simp: acc_ok_def)

lemma acc_ok_fresh:
  assumes "pg_key p \<notin> pg_key ` set ps" "interface_add (fresh_interface p) (pg_link p) (pg_bound p) (pg_physical p) (pg_addresses p) = Inr acc"
  shows "acc_ok (ps @ [p]) (pg_key p) acc"
proof -
  have other: "pg_key q \<noteq> pg_key p" if "q \<in> set ps" for q using assms(1) that by (metis imageI)
  then have none: "filter (\<lambda>q. pg_key q = pg_key p) (ps @ [p]) = [p]" "{q \<in> set (ps @ [p]). pg_key q = pg_key p} = {p}"
    by (auto simp: filter_empty_conv)
  have acc: "acc = (fresh_interface p)\<lparr>if_link_ids := [pg_link p],
      if_addresses := foldl (\<lambda>as a. add_once a as) [] (pg_addresses p)\<rparr>"
    using assms(2) by (auto simp: interface_add_def fresh_interface_def add_once_def split: if_splits)
  have fields: "if_resource_id acc = \<lparr>ri_kind = INTERFACE, ri_path = [pg_endpoint p, pg_role p, afi_value (pg_afi p)]\<rparr>"
    "if_endpoint_id acc = endpoint_rid (pg_endpoint p)" "if_logical_port_role acc = pg_role p" "if_afi acc = pg_afi p"
    "if_link_ids acc = [pg_link p]" "set (if_addresses acc) = set (pg_addresses p)"
    "if_physical_interface_id acc = pg_physical p" "if_bound_interface acc = pg_bound p"
    by (simp_all add: acc fresh_interface_def foldl_add_once)
  have "\<forall>q \<in> set (ps @ [p]). pg_key q = pg_key p \<longrightarrow> pg_physical q = pg_physical p \<and> (pg_bound q = None \<or> pg_bound q = pg_bound p)"
    using other by auto
  moreover have "\<exists>q \<in> set (ps @ [p]). pg_key q = pg_key p \<and> pg_bound q = pg_bound p" by auto
  ultimately show ?thesis
    unfolding acc_ok_def none fields by (simp add: pg_key_def)
qed

lemma acc_ok_step:
  assumes "acc_ok ps (pg_key p) acc" "pg_link p \<notin> pg_link ` set ps"
    and "interface_add acc (pg_link p) (pg_bound p) (pg_physical p) (pg_addresses p) = Inr acc'"
  shows "acc_ok (ps @ [p]) (pg_key p) acc'"
proof -
  have acc': "acc' = acc\<lparr>if_bound_interface := (if if_bound_interface acc = None then pg_bound p else if_bound_interface acc),
        if_link_ids := if_link_ids acc @ [pg_link p],
        if_addresses := foldl (\<lambda>as a. add_once a as) (if_addresses acc) (pg_addresses p)\<rparr>"
    and same: "if_physical_interface_id acc = pg_physical p"
      "if_bound_interface acc = None \<or> pg_bound p = None \<or> if_bound_interface acc = pg_bound p"
    using assms by (auto simp: interface_add_def add_once_def acc_ok_def split: if_splits)
  show ?thesis using assms(1) same unfolding acc' by (auto simp: acc_ok_def foldl_add_once)
qed

lemma interfaces_inv_step:
  assumes "interfaces_inv ps accs" "pg_link p \<notin> pg_link ` set ps"
    and "interface_add (case dict_get accs (pg_key p) of Some acc \<Rightarrow> acc | None \<Rightarrow> fresh_interface p)
        (pg_link p) (pg_bound p) (pg_physical p) (pg_addresses p) = Inr acc'"
  shows "interfaces_inv (ps @ [p]) (dict_set (pg_key p) acc' accs)"
proof -
  have inv: "distinct (map fst accs)" "fst ` set accs = pg_key ` set ps" "\<forall>(k, acc) \<in> set accs. acc_ok ps k acc"
    using assms(1) by (simp_all add: interfaces_inv_def)
  have "acc_ok (ps @ [p]) (pg_key p) acc'"
  proof (cases "dict_get accs (pg_key p)")
    case None
    then have "pg_key p \<notin> pg_key ` set ps" using inv(2) by (simp add: map_of_eq_None_iff)
    then show ?thesis using acc_ok_fresh assms(3) None by simp
  next
    case (Some acc)
    then have "acc_ok ps (pg_key p) acc" using inv(3) by (auto dest!: map_of_SomeD)
    then show ?thesis using acc_ok_step[OF _ assms(2)] assms(3) Some by simp
  qed
  moreover have "acc_ok (ps @ [p]) k acc" if "(k, acc) \<in> set accs" "k \<noteq> pg_key p" for k acc
    using that inv(3) acc_ok_other[of p k ps acc] by auto
  ultimately have "\<forall>(k, acc) \<in> set (dict_set (pg_key p) acc' accs). acc_ok (ps @ [p]) k acc"
    by (auto simp: dict_set_entries[OF inv(1)])
  then show ?thesis
    using distinct_update[OF inv(1)] by (simp add: interfaces_inv_def keys_dict_set inv(2))
qed

lemma interfaces_inv_fold:
  assumes "rfold (add_interface specs) accs gs = Inr accs'" "interfaces_inv ps accs"
    and "distinct (map bg_name gs)" "\<forall>g \<in> set gs. link_rid (bg_name g) \<notin> pg_link ` set ps"
  shows "\<exists>qs. rmap (resolve_group specs) gs = Inr qs \<and> interfaces_inv (ps @ qs) accs'"
  using assms
proof (induction gs arbitrary: accs ps)
  case (Cons g gs)
  obtain accs1 where step: "add_interface specs accs g = Inr accs1" "rfold (add_interface specs) accs1 gs = Inr accs'"
    using Cons.prems(1) by (auto simp: rbind_eq_Inr)
  obtain p acc' where p: "resolve_group specs g = Inr p"
      "interface_add (case dict_get accs (pg_key p) of Some acc \<Rightarrow> acc | None \<Rightarrow> fresh_interface p)
        (pg_link p) (pg_bound p) (pg_physical p) (pg_addresses p) = Inr acc'"
      "accs1 = dict_set (pg_key p) acc' accs"
    by (rule add_interface_resolved[OF step(1)])
  have l: "pg_link p = link_rid (bg_name g)" by (rule resolve_group_ok[OF p(1)])
  have "interfaces_inv (ps @ [p]) accs1"
    using interfaces_inv_step[OF Cons.prems(2) _ p(2)] Cons.prems(4) l p(3) by simp
  moreover have "\<forall>h \<in> set gs. link_rid (bg_name h) \<notin> pg_link ` set (ps @ [p])"
  proof
    fix h
    assume h: "h \<in> set gs"
    then have "bg_name h \<noteq> bg_name g" using Cons.prems(3) by (metis distinct.simps(2) imageI list.simps(9) list.set_map)
    then show "link_rid (bg_name h) \<notin> pg_link ` set (ps @ [p])" using Cons.prems(4) h l by simp
  qed
  ultimately obtain qs where "rmap (resolve_group specs) gs = Inr qs" "interfaces_inv ((ps @ [p]) @ qs) accs'"
    using Cons.IH[OF step(2), of "ps @ [p]"] Cons.prems(3) by auto
  then show ?case using p(1) by auto
qed simp

section \<open>The physical accumulators\<close>

definition fresh_physical :: "planned_group \<Rightarrow> ResolvedIxiaPortAssignment \<Rightarrow> PhysicalInterfacePlan" where
  "fresh_physical p a = \<lparr>pi_resource_id = the (pg_physical p), pi_endpoint_id = endpoint_rid (pg_endpoint p),
     pi_group_kind = fst (physical_interface_group a), pi_logical_key = snd (physical_interface_group a),
     pi_link_ids = [], pi_bound_interface = the (pg_bound p), pi_profile = pa_profile a\<rparr>"

lemma add_physical_resolved:
  assumes "add_physical_interface specs (accs, owners) g = Inr st" "resolve_group specs g = Inr p" "pg_assignment p = Some a"
  obtains bound r acc' where "pg_bound p = Some bound" "pg_physical p = Some r"
    "dict_get owners (endpoint_rid (pg_endpoint p), bound) \<in> {None, Some r}"
    "physical_add (case dict_get accs r of Some acc \<Rightarrow> acc | None \<Rightarrow> fresh_physical p a)
        bound (pa_profile a) (pg_link p) = Inr acc'"
    "st = (dict_set r acc' accs, dict_set (endpoint_rid (pg_endpoint p), bound) r owners)"
proof -
  note rg = resolve_group_ok[OF assms(2)]
  obtain side where side: "dut_side g specs = Inr side" "ds_endpoint_name side = pg_endpoint p" "ds_bound_interface side = pg_bound p"
    using rg(5) by blast
  obtain bound where bound: "pg_bound p = Some bound"
    using assms(1,3) rg(2) side by (auto simp: add_physical_interface_def split: option.splits)
  define r where "r = the (pg_physical p)"
  have r: "pg_physical p = Some r" using assms(3) by (simp add: r_def pg_physical_def)
  have fr: "fresh_physical p a = \<lparr>pi_resource_id = r, pi_endpoint_id = endpoint_rid (pg_endpoint p),
     pi_group_kind = fst (physical_interface_group a), pi_logical_key = snd (physical_interface_group a),
     pi_link_ids = [], pi_bound_interface = bound, pi_profile = pa_profile a\<rparr>"
    using r bound by (simp add: fresh_physical_def)
  have r_eq: "r = \<lparr>ri_kind = PHYSICAL_INTERFACE, ri_path = [pg_endpoint p, group_kind_value (fst (physical_interface_group a)),
      snd (physical_interface_group a)]\<rparr>"
    using r assms(3) by (simp add: pg_physical_def)
  obtain owners' acc' where "claim_physical_connection owners (endpoint_rid (pg_endpoint p)) bound r = Inr owners'"
      "physical_add (case dict_get accs r of Some acc \<Rightarrow> acc | None \<Rightarrow> fresh_physical p a)
        bound (pa_profile a) (pg_link p) = Inr acc'" "st = (dict_set r acc' accs, owners')"
    using assms(1,3) rg(1,2) side bound
    by (auto simp: add_physical_interface_def rbind_eq_Inr resource_id_defs Let_def fr r_eq split: if_splits cong: option.case_cong)
  then show ?thesis
    using that[OF bound r] by (auto simp: claim_physical_connection_def split: option.splits if_splits)
qed

lemma add_physical_unassigned:
  assumes "add_physical_interface specs st g = Inr st'" "resolve_group specs g = Inr p" "pg_assignment p = None"
  shows "st' = st"
  using assms(1,3) resolve_group_ok(2)[OF assms(2)] by (simp add: add_physical_interface_def)

definition phys_ok :: "planned_group list \<Rightarrow> ResourceId \<Rightarrow> PhysicalInterfacePlan \<Rightarrow> bool" where
  "phys_ok ps r acc \<longleftrightarrow>
     pi_resource_id acc = r
     \<and> (\<exists>e. pi_endpoint_id acc = endpoint_rid e
          \<and> r = \<lparr>ri_kind = PHYSICAL_INTERFACE, ri_path = [e, group_kind_value (pi_group_kind acc), pi_logical_key acc]\<rparr>)
     \<and> pi_link_ids acc = map pg_link (filter (\<lambda>p. pg_physical p = Some r) ps)
     \<and> (\<forall>p \<in> set ps. pg_physical p = Some r \<longrightarrow> pg_bound p = Some (pi_bound_interface acc))"

definition physical_inv :: "planned_group list \<Rightarrow> (ResourceId, PhysicalInterfacePlan) dict \<Rightarrow> connection_owners \<Rightarrow> bool" where
  "physical_inv ps accs owners \<longleftrightarrow>
     distinct (map fst accs) \<and> (\<forall>r. r \<in> fst ` set accs \<longleftrightarrow> (\<exists>p \<in> set ps. pg_physical p = Some r))
     \<and> (\<forall>(r, acc) \<in> set accs. phys_ok ps r acc)
     \<and> (\<forall>p \<in> set ps. \<forall>r. pg_physical p = Some r \<longrightarrow>
          (\<exists>bound. pg_bound p = Some bound \<and> dict_get owners (endpoint_rid (pg_endpoint p), bound) = Some r))"

lemma phys_ok_other: "pg_physical p \<noteq> Some r \<Longrightarrow> phys_ok (ps @ [p]) r acc \<longleftrightarrow> phys_ok ps r acc"
  by (auto simp: phys_ok_def)

lemma physical_add_ok:
  "physical_add acc bound profile link_id = Inr acc' \<longleftrightarrow>
     bound = pi_bound_interface acc \<and> profile = pi_profile acc \<and> acc' = acc\<lparr>pi_link_ids := add_once link_id (pi_link_ids acc)\<rparr>"
  by (auto simp: physical_add_def)

lemma phys_ok_step:
  assumes "phys_ok ps r acc" "pg_link p \<notin> pg_link ` set ps" "pg_physical p = Some r" "pg_bound p = Some bound"
    and "physical_add acc bound profile (pg_link p) = Inr acc'"
  shows "phys_ok (ps @ [p]) r acc'"
proof -
  have acc': "acc' = acc\<lparr>pi_link_ids := pi_link_ids acc @ [pg_link p]\<rparr>" "bound = pi_bound_interface acc"
    using assms by (auto simp: physical_add_ok add_once_def phys_ok_def)
  show ?thesis using assms(1,3,4) acc'(2) unfolding acc'(1) by (auto simp: phys_ok_def)
qed

lemma phys_ok_fresh:
  assumes "\<forall>q \<in> set ps. pg_physical q \<noteq> Some r" "pg_physical p = Some r" "pg_bound p = Some bound" "pg_assignment p = Some a"
    and "physical_add (fresh_physical p a) bound (pa_profile a) (pg_link p) = Inr acc'"
  shows "phys_ok (ps @ [p]) r acc'"
proof -
  have acc': "acc' = (fresh_physical p a)\<lparr>pi_link_ids := [pg_link p]\<rparr>" "bound = pi_bound_interface (fresh_physical p a)"
    using assms(5) by (simp_all add: physical_add_ok add_once_def fresh_physical_def)
  have none: "filter (\<lambda>q. pg_physical q = Some r) (ps @ [p]) = [p]"
    using assms(1,2) by (simp add: filter_empty_conv)
  have all: "\<forall>q \<in> set (ps @ [p]). pg_physical q = Some r \<longrightarrow> pg_bound q = Some bound"
    using assms(1,3) by simp
  have "r = \<lparr>ri_kind = PHYSICAL_INTERFACE, ri_path = [pg_endpoint p, group_kind_value (fst (physical_interface_group a)),
      snd (physical_interface_group a)]\<rparr>"
    using assms(2,4) by (simp add: pg_physical_def)
  then show ?thesis
    unfolding phys_ok_def none using all assms(2) by (simp add: acc'(1) fresh_physical_def acc'(2))
qed

lemma physical_inv_step:
  assumes "physical_inv ps accs owners" "pg_link p \<notin> pg_link ` set ps" "resolve_group specs g = Inr p"
    and "add_physical_interface specs (accs, owners) g = Inr (accs', owners')"
  shows "physical_inv (ps @ [p]) accs' owners'"
proof (cases "pg_assignment p")
  case None
  then have "pg_physical p = None" by (simp add: pg_physical_def)
  moreover have "accs' = accs" "owners' = owners" using add_physical_unassigned[OF assms(4,3) None] by simp_all
  ultimately show ?thesis
    using assms(1) phys_ok_other[of p] by (auto simp: physical_inv_def)
next
  case (Some a)
  obtain bound r acc' where p: "pg_bound p = Some bound" "pg_physical p = Some r"
    and prior: "dict_get owners (endpoint_rid (pg_endpoint p), bound) \<in> {None, Some r}"
    and add: "physical_add (case dict_get accs r of Some acc \<Rightarrow> acc | None \<Rightarrow> fresh_physical p a)
        bound (pa_profile a) (pg_link p) = Inr acc'"
    and st: "(accs', owners') = (dict_set r acc' accs, dict_set (endpoint_rid (pg_endpoint p), bound) r owners)"
    by (rule add_physical_resolved[OF assms(4,3) Some])
  have inv: "distinct (map fst accs)" "\<forall>r. r \<in> fst ` set accs \<longleftrightarrow> (\<exists>p \<in> set ps. pg_physical p = Some r)"
      "\<forall>(r, acc) \<in> set accs. phys_ok ps r acc"
      "\<forall>p \<in> set ps. \<forall>r. pg_physical p = Some r \<longrightarrow>
          (\<exists>bound. pg_bound p = Some bound \<and> dict_get owners (endpoint_rid (pg_endpoint p), bound) = Some r)"
    using assms(1) by (simp_all add: physical_inv_def)
  have "phys_ok (ps @ [p]) r acc'"
  proof (cases "dict_get accs r")
    case None
    then have "\<forall>q \<in> set ps. pg_physical q \<noteq> Some r" using inv(2) by (auto simp: map_of_eq_None_iff)
    then show ?thesis using phys_ok_fresh[OF _ p(2,1) Some] add None by simp
  next
    case (Some acc)
    then have "phys_ok ps r acc" using inv(3) by (auto dest!: map_of_SomeD)
    then show ?thesis using phys_ok_step[OF _ assms(2) p(2,1)] add Some by simp
  qed
  then have "\<forall>(r, acc) \<in> set accs'. phys_ok (ps @ [p]) r acc"
    using inv(3) phys_ok_other[of p] p(2) st by (auto simp: dict_set_entries[OF inv(1)])
  moreover have "\<forall>q \<in> set (ps @ [p]). \<forall>s. pg_physical q = Some s \<longrightarrow>
      (\<exists>bound. pg_bound q = Some bound \<and> dict_get owners' (endpoint_rid (pg_endpoint q), bound) = Some s)"
    using inv(4) p prior st by fastforce
  moreover have "\<forall>s. s \<in> fst ` set accs' \<longleftrightarrow> (\<exists>q \<in> set (ps @ [p]). pg_physical q = Some s)"
    using inv(2) p(2) st by (auto simp: keys_dict_set)
  ultimately show ?thesis
    using distinct_update[OF inv(1)] st by (simp add: physical_inv_def)
qed

lemma physical_inv_fold:
  assumes "rfold (add_physical_interface specs) (accs, owners) gs = Inr (accs', owners')"
    and "rmap (resolve_group specs) gs = Inr qs" "physical_inv ps accs owners" "distinct (map pg_link (ps @ qs))"
  shows "physical_inv (ps @ qs) accs' owners'"
  using assms
proof (induction gs arbitrary: accs owners ps qs)
  case (Cons g gs)
  obtain accs1 owners1 where step: "add_physical_interface specs (accs, owners) g = Inr (accs1, owners1)"
      "rfold (add_physical_interface specs) (accs1, owners1) gs = Inr (accs', owners')"
    using Cons.prems(1) by (auto simp: rbind_eq_Inr)
  obtain p qs' where qs: "qs = p # qs'" "resolve_group specs g = Inr p" "rmap (resolve_group specs) gs = Inr qs'"
    using Cons.prems(2) by (auto simp: rbind_eq_Inr)
  have "physical_inv (ps @ [p]) accs1 owners1"
    using Cons.prems(4) by (intro physical_inv_step[OF Cons.prems(3) _ qs(2) step(1)]) (auto simp: qs(1))
  then show ?case
    using Cons.IH[OF step(2) qs(3), of "ps @ [p]"] Cons.prems(4) by (simp add: qs(1))
qed simp
end
