(* ===== verification/Dut_Plan_Ids.thy ===== *)
theory Dut_Plan_Ids
  imports Dut_Planner_Facts
begin

text \<open>
  The identities of the resources the device planner makes, per kind, as functions of the names it
  reads: with unique names no two are the same.
\<close>

section \<open>Lists of resources made one by one\<close>

lemma rmap_project:
  assumes "rmap f xs = Inr ys" "\<And>x y. x \<in> set xs \<Longrightarrow> f x = Inr y \<Longrightarrow> h y = k x"
  shows "map h ys = map k xs"
  using assms by (induction xs arbitrary: ys) (auto simp: rbind_eq_Inr)

lemma rmap_member:
  assumes "rmap f xs = Inr ys" "y \<in> set ys"
  shows "\<exists>x \<in> set xs. f x = Inr y"
  using assms by (induction xs arbitrary: ys) (auto simp: rbind_eq_Inr)

lemma rmap_image:
  assumes "rmap f xs = Inr ys" "x \<in> set xs"
  shows "\<exists>y \<in> set ys. f x = Inr y"
  using assms by (induction xs arbitrary: ys) (auto simp: rbind_eq_Inr)

lemma distinct_tagged:
  assumes "distinct (map name xs)" "\<And>x. x \<in> set xs \<Longrightarrow> distinct (f x)"
    and "\<And>x y. x \<in> set xs \<Longrightarrow> y \<in> set (f x) \<Longrightarrow> tag y = name x"
  shows "distinct (concat (map f xs))"
  using assms
proof (induction xs)
  case (Cons x xs)
  have "set (f x) \<inter> set (concat (map f xs)) = {}"
  proof (rule ccontr)
    assume "set (f x) \<inter> set (concat (map f xs)) \<noteq> {}"
    then obtain y x' where "y \<in> set (f x)" "x' \<in> set xs" "y \<in> set (f x')" by auto
    then have "name x = name x'" using Cons.prems(3)[of x y] Cons.prems(3)[of x' y] by simp
    then show False using Cons.prems(1) \<open>x' \<in> set xs\<close> by (metis distinct.simps(2) imageI list.simps(9) list.set_map)
  qed
  moreover have "distinct (concat (map f xs))" using Cons by auto
  ultimately show ?case using Cons.prems(2) by simp
qed simp

lemma distinct_map_inj: "distinct xs \<Longrightarrow> inj f \<Longrightarrow> distinct (map f xs)"
  by (auto simp: distinct_map intro: inj_on_subset)

section \<open>Endpoints, links, configurations\<close>

lemma endpoint_plan_id: "endpoint_plan b e = Inr p \<Longrightarrow> ep_resource_id p = endpoint_rid (es_name e)"
  by (auto simp: endpoint_plan_def mk_EndpointPlan_def rbind_eq_Inr resource_id_defs)

lemma link_plan_ok:
  "link_plan g = Inr l \<Longrightarrow>
     dl_resource_id l = link_rid (bg_name g) \<and> dl_a_endpoint_id l = endpoint_rid (bg_a_endpoint g)
     \<and> dl_z_endpoint_id l = endpoint_rid (bg_z_endpoint g) \<and> bg_afi g = afi_value (dl_afi l)
     \<and> dl_logical_port_role l = logical_port_role g"
  by (auto simp: link_plan_def mk_DutLinkPlan_def rbind_eq_Inr resource_id_defs)

lemma openr_plan_id: "openr_plan b e = Inr p \<Longrightarrow> or_resource_id p = \<lparr>ri_kind = OPENR, ri_path = [es_name e]\<rparr>"
  by (auto simp: openr_plan_def mk_OpenRPlan_def rbind_eq_Inr resource_id_defs)

lemma component_plan_ok:
  "component_plan c = Inr p \<Longrightarrow>
     cp_resource_id p = \<lparr>ri_kind = COMPONENT, ri_path = ri_path (rc_endpoint_id c) @ [component_role_value ROUTING_CONTROL_PLANE]\<rparr>
     \<and> cp_endpoint_id p = rc_endpoint_id c \<and> cp_depends_on p = [rc_resource_id c]"
  by (auto simp: component_plan_def mk_ComponentPlan_def rbind_eq_Inr component_resource_id_def split: if_splits)

lemma routing_config_plan_ok:
  "routing_config_plan b e = Inr cs \<Longrightarrow>
     cs = [] \<or> (\<exists>c. cs = [c] \<and> rc_resource_id c = \<lparr>ri_kind = ROUTING_CONFIG, ri_path = [es_name e]\<rparr>
       \<and> rc_endpoint_id c = endpoint_rid (es_name e))"
  by (auto simp: routing_config_plan_def mk_RoutingConfigPlan_def rbind_eq_Inr resource_id_defs
      split: list.splits option.splits if_splits)

lemma routing_configs_distinct:
  assumes "rmap (routing_config_plan b) es = Inr css" "distinct (map es_name es)"
  shows "distinct (map rc_endpoint_id (concat css))
     \<and> (\<forall>c \<in> set (concat css). \<exists>e \<in> set es. rc_resource_id c = \<lparr>ri_kind = ROUTING_CONFIG, ri_path = [es_name e]\<rparr>
          \<and> rc_endpoint_id c = endpoint_rid (es_name e))"
  using assms
proof (induction es arbitrary: css)
  case (Cons e es)
  obtain cs css' where c: "css = cs # css'" "routing_config_plan b e = Inr cs" "rmap (routing_config_plan b) es = Inr css'"
    using Cons.prems(1) by (auto simp: rbind_eq_Inr)
  have ih: "distinct (map rc_endpoint_id (concat css'))"
    "\<forall>c \<in> set (concat css'). \<exists>e \<in> set es. rc_resource_id c = \<lparr>ri_kind = ROUTING_CONFIG, ri_path = [es_name e]\<rparr>
          \<and> rc_endpoint_id c = endpoint_rid (es_name e)"
    using Cons.IH[OF c(3)] Cons.prems(2) by simp_all
  have new: "es_name e \<notin> es_name ` set es" using Cons.prems(2) by simp
  from routing_config_plan_ok[OF c(2)] show ?case
  proof (elim disjE exE conjE)
    assume "cs = []"
    then show ?thesis using ih by (auto simp: c(1))
  next
    fix r
    assume r: "cs = [r]" "rc_resource_id r = \<lparr>ri_kind = ROUTING_CONFIG, ri_path = [es_name e]\<rparr>"
      "rc_endpoint_id r = endpoint_rid (es_name e)"
    have "rc_endpoint_id c \<noteq> rc_endpoint_id r" if old: "c \<in> set (concat css')" for c
    proof -
      obtain e' where "e' \<in> set es" "rc_endpoint_id c = endpoint_rid (es_name e')" using ih(2) old by blast
      moreover have "es_name e' \<noteq> es_name e" using calculation(1) new by (metis imageI)
      ultimately show ?thesis using r(3) by simp
    qed
    then have "rc_endpoint_id r \<notin> rc_endpoint_id ` set (concat css')" by (metis imageE)
    moreover have "concat css = r # concat css'" by (simp add: c(1) r(1))
    ultimately show ?thesis using ih r by auto
  qed
qed simp

section \<open>Adjacencies and policy bindings\<close>

abbreviation adjacency_rid :: "string \<Rightarrow> int \<Rightarrow> ResourceId" where
  "adjacency_rid n i \<equiv> \<lparr>ri_kind = BGP_ADJACENCY, ri_path = [n, show_int i]\<rparr>"

abbreviation binding_rid :: "string \<Rightarrow> int \<Rightarrow> PolicyDirection \<Rightarrow> ResourceId" where
  "binding_rid n i d \<equiv> \<lparr>ri_kind = POLICY_BINDING, ri_path = [n, show_int i, direction_value d]\<rparr>"

definition role_policy_rid :: "RolePolicyKey \<Rightarrow> ResourceId" where
  "role_policy_rid k = \<lparr>ri_kind = POLICY, ri_path = name_path (NRolePolicy k)\<rparr>"

lemma adjacency_plan_id: "adjacency_plan g is_a op = Inr a \<Longrightarrow> ba_resource_id a = adjacency_rid (bg_name g) (int (fst op))"
  by (auto simp: adjacency_plan_def mk_BgpAdjacencyPlan_def rbind_eq_Inr resource_id_defs)

lemma group_adjacencies_ids:
  assumes "group_adjacencies specs g = Inr as"
  shows "map ba_resource_id as = map (\<lambda>i. adjacency_rid (bg_name g) (int i)) [0 ..< length as]"
proof -
  obtain is_a peers where as: "rmap (adjacency_plan g is_a) (enumerate 0 peers) = Inr as"
    using assms by (auto simp: group_adjacencies_def rbind_eq_Inr)
  have "map ba_resource_id as = map (\<lambda>op. adjacency_rid (bg_name g) (int (fst op))) (enumerate 0 peers)"
    by (rule rmap_project[OF as]) (rule adjacency_plan_id)
  moreover have "map (\<lambda>op. adjacency_rid (bg_name g) (int (fst op))) (enumerate 0 peers)
      = map (\<lambda>i. adjacency_rid (bg_name g) (int i)) [0 ..< length peers]"
    by (intro nth_equalityI) (simp_all add: nth_enumerate_eq)
  moreover have "length as = length peers" using calculation(1) by (metis length_enumerate length_map)
  ultimately show ?thesis by simp
qed

lemma adjacency_ids_distinct:
  assumes "rmap (group_adjacencies specs) gs = Inr ass" "distinct (map bg_name gs)"
  shows "distinct (map ba_resource_id (concat ass)) \<and> (\<forall>a \<in> set (concat ass). ri_kind (ba_resource_id a) = BGP_ADJACENCY)"
proof -
  have "\<exists>ns. map (map ba_resource_id) ass = map (\<lambda>(g, n). map (\<lambda>i. adjacency_rid (bg_name g) (int i)) [0 ..< n]) (zip gs ns)
      \<and> length ns = length gs"
    using assms(1)
  proof (induction gs arbitrary: ass)
    case (Cons g gs)
    obtain as ass' where a: "ass = as # ass'" "group_adjacencies specs g = Inr as" "rmap (group_adjacencies specs) gs = Inr ass'"
      using Cons.prems by (auto simp: rbind_eq_Inr)
    obtain ns where "map (map ba_resource_id) ass' = map (\<lambda>(g, n). map (\<lambda>i. adjacency_rid (bg_name g) (int i)) [0 ..< n]) (zip gs ns)"
        "length ns = length gs"
      using Cons.IH[OF a(3)] by blast
    then show ?case
      using group_adjacencies_ids[OF a(2)] by (intro exI[of _ "length as # ns"]) (simp add: a(1))
  qed simp
  then obtain ns where ns: "map (map ba_resource_id) ass
      = map (\<lambda>(g, n). map (\<lambda>i. adjacency_rid (bg_name g) (int i)) [0 ..< n]) (zip gs ns)" "length ns = length gs"
    by blast
  have names: "distinct (map (\<lambda>(g, n). bg_name g) (zip gs ns))"
  proof -
    have "map (\<lambda>(g, n). bg_name g) (zip gs ns) = map bg_name (map fst (zip gs ns))" by (simp add: case_prod_unfold)
    then show ?thesis using assms(2) ns(2) by simp
  qed
  have ids: "map ba_resource_id (concat ass) = concat (map (\<lambda>(g, n). map (\<lambda>i. adjacency_rid (bg_name g) (int i)) [0 ..< n]) (zip gs ns))"
    by (simp add: map_concat ns(1))
  have "distinct (concat (map (\<lambda>(g, n). map (\<lambda>i. adjacency_rid (bg_name g) (int i)) [0 ..< n]) (zip gs ns)))"
    by (rule distinct_tagged[OF names, where tag = "\<lambda>r. hd (ri_path r)"]) (auto intro!: distinct_map_inj injI)
  moreover have "\<forall>r \<in> set (map ba_resource_id (concat ass)). ri_kind r = BGP_ADJACENCY" unfolding ids by auto
  then have "ri_kind (ba_resource_id a) = BGP_ADJACENCY" if "a \<in> set (concat ass)" for a
    using that by (simp only: set_map ball_simps)
  ultimately show ?thesis unfolding ids by blast
qed

section \<open>Role policies\<close>

definition policies_ok :: "(RolePolicyKey, PolicyPlan) dict \<Rightarrow> bool" where
  "policies_ok d \<longleftrightarrow> distinct (map fst d) \<and> (\<forall>(k, p) \<in> set d. po_resource_id p = role_policy_rid k)"

lemma role_policy_rid_inj: "role_policy_rid k = role_policy_rid k' \<longleftrightarrow> k = k'"
  using name_parts_inj[of "NRolePolicy k" "NRolePolicy k'"] by (auto simp: role_policy_rid_def)

lemma policies_ok_set:
  assumes "policies_ok d" "po_resource_id p = role_policy_rid k"
  shows "policies_ok (dict_set k p d)"
proof -
  have d: "distinct (map fst d)" using assms(1) by (simp add: policies_ok_def)
  then show ?thesis
    using assms distinct_update[OF d] by (auto simp: policies_ok_def dict_set_entries)
qed

lemma policies_ok_ids: "policies_ok d \<Longrightarrow> map po_resource_id (map snd d) = map role_policy_rid (map fst d)"
  by (auto simp: policies_ok_def)

lemma bind_policy_ok:
  assumes "bind_policy role rel afi (adjacency_rid n i) st dir = Inr st'" "policies_ok (fst st)"
  shows "policies_ok (fst st') \<and> map pb_resource_id (snd st') = map pb_resource_id (snd st) @ [binding_rid n i dir]"
  using assms
  by (auto simp: bind_policy_def Let_def rbind_eq_Inr mk_PolicyPlan_def mk_PolicyBinding_def role_policy_rid_def
      role_policy_resource_id_def policy_binding_resource_id_def intro!: policies_ok_set split: if_splits)

lemma bind_peer_ok:
  assumes "bind_peer g role rel afi st i = Inr st'" "policies_ok (fst st)"
  shows "policies_ok (fst st')
     \<and> map pb_resource_id (snd st') = map pb_resource_id (snd st) @ map (binding_rid (bg_name g) i) [IMPORT, EXPORT]"
proof -
  obtain st1 where one: "bind_policy role rel afi (adjacency_rid (bg_name g) i) st IMPORT = Inr st1"
    and two: "bind_policy role rel afi (adjacency_rid (bg_name g) i) st1 EXPORT = Inr st'"
    using assms(1) by (auto simp: bind_peer_def rbind_eq_Inr adjacency_resource_id_def)
  show ?thesis using bind_policy_ok[OF one assms(2)] bind_policy_ok[OF two] by simp
qed

lemma bind_peers_ok:
  assumes "rfold (bind_peer g role rel afi) st is = Inr st'" "policies_ok (fst st)"
  shows "policies_ok (fst st') \<and> map pb_resource_id (snd st') = map pb_resource_id (snd st)
      @ concat (map (\<lambda>i. map (binding_rid (bg_name g) i) [IMPORT, EXPORT]) is)"
  using assms
proof (induction "is" arbitrary: st)
  case (Cons i "is")
  obtain st1 where one: "bind_peer g role rel afi st i = Inr st1" and rest: "rfold (bind_peer g role rel afi) st1 is = Inr st'"
    using Cons.prems(1) by (auto simp: rbind_eq_Inr)
  show ?case using Cons.IH[OF rest] bind_peer_ok[OF one Cons.prems(2)] by simp
qed simp

definition bindings_of :: "string set \<Rightarrow> ResourceId list \<Rightarrow> bool" where
  "bindings_of names rs \<longleftrightarrow> distinct rs \<and> (\<forall>r \<in> set rs. ri_kind r = POLICY_BINDING \<and> hd (ri_path r) \<in> names)"

lemma bind_group_ok:
  assumes "bind_group b specs st g = Inr st'" "policies_ok (fst st)"
  shows "policies_ok (fst st')
     \<and> (\<exists>new. map pb_resource_id (snd st') = map pb_resource_id (snd st) @ new \<and> bindings_of {bg_name g} new)"
proof (cases "st' = st")
  case True
  then show ?thesis using assms(2) by (auto simp: bindings_of_def)
next
  case False
  then obtain role rel afi where "rfold (bind_peer g role rel afi) st [0 .. bg_peer_count g - 1] = Inr st'"
    using assms(1) by (auto simp: bind_group_def rbind_eq_Inr split: option.splits if_splits) blast
  note peers = bind_peers_ok[OF this assms(2)]
  have d: "distinct (map show_int [0 .. bg_peer_count g - 1])" by (intro distinct_map_inj injI) simp_all
  have "distinct (concat (map (\<lambda>i. map (binding_rid (bg_name g) i) [IMPORT, EXPORT]) [0 .. bg_peer_count g - 1]))"
    by (rule distinct_tagged[OF d, where tag = "\<lambda>r. ri_path r ! 1"]) auto
  then have "bindings_of {bg_name g} (concat (map (\<lambda>i. map (binding_rid (bg_name g) i) [IMPORT, EXPORT]) [0 .. bg_peer_count g - 1]))"
    by (auto simp: bindings_of_def)
  then show ?thesis using peers by blast
qed

lemma bind_groups_ok:
  assumes "rfold (bind_group b specs) st gs = Inr st'" "policies_ok (fst st)" "distinct (map bg_name gs)"
  shows "policies_ok (fst st')
     \<and> (\<exists>new. map pb_resource_id (snd st') = map pb_resource_id (snd st) @ new \<and> bindings_of (bg_name ` set gs) new)"
  using assms
proof (induction gs arbitrary: st)
  case (Cons g gs)
  obtain st1 where one: "bind_group b specs st g = Inr st1" and rest: "rfold (bind_group b specs) st1 gs = Inr st'"
    using Cons.prems(1) by (auto simp: rbind_eq_Inr)
  obtain new1 where n1: "policies_ok (fst st1)" "map pb_resource_id (snd st1) = map pb_resource_id (snd st) @ new1"
      "bindings_of {bg_name g} new1"
    using bind_group_ok[OF one Cons.prems(2)] by blast
  obtain new2 where n2: "policies_ok (fst st')" "map pb_resource_id (snd st') = map pb_resource_id (snd st1) @ new2"
      "bindings_of (bg_name ` set gs) new2"
    using Cons.IH[OF rest n1(1)] Cons.prems(3) by auto
  have "bg_name g \<notin> bg_name ` set gs" using Cons.prems(3) by simp
  then have "bindings_of (bg_name ` set (g # gs)) (new1 @ new2)"
    using n1(3) n2(3) unfolding bindings_of_def by force
  then show ?case using n1(2) n2(1,2) by auto
qed (auto simp: bindings_of_def)

lemma declared_policy_ids:
  assumes "declared_policies b = Inr ps"
  shows "map po_resource_id ps = map (\<lambda>n. \<lparr>ri_kind = POLICY, ri_path = [n]\<rparr>) (bt_policy_names b)"
  by (rule rmap_project[OF assms[unfolded declared_policies_def]])
     (auto simp: rbind_eq_Inr policy_resource_id_def mk_PolicyPlan_def)

end
