(* ===== verification/Dut_Consistency.thy ===== *)
theory Dut_Consistency
  imports Dut_Plan_Ids
begin

text \<open>
  The checks that the constructor of a device plan makes are sufficient conditions turned into code;
  here they are turned back: when they cannot fail, and that the plans the planner assembles are
  such, whatever topology it is given, once names are unique and the bindings are complete.
\<close>

section \<open>When the checks of a plan pass\<close>

lemma rfold_total:
  assumes "\<And>s x. x \<in> set xs \<Longrightarrow> \<exists>s'. f s x = Inr s'"
  shows "\<exists>s'. rfold f s xs = Inr s'"
  using assms
proof (induction xs arbitrary: s)
  case (Cons x xs)
  obtain s1 where "f s x = Inr s1" using Cons.prems by fastforce
  moreover obtain s2 where "rfold f s1 xs = Inr s2" using Cons by (metis list.set_intros(2))
  ultimately show ?case by simp
qed simp

definition link_known :: "(ResourceId, DutLinkPlan) dict \<Rightarrow> PhysicalInterfacePlan \<Rightarrow> ResourceId \<Rightarrow> bool" where
  "link_known links x l \<longleftrightarrow>
     (\<exists>k. dict_get links l = Some k \<and> pi_endpoint_id x \<in> {dl_a_endpoint_id k, dl_z_endpoint_id k})"

lemma claim_links_total:
  assumes "distinct ls" "\<forall>l \<in> set ls. link_known links x l" "\<forall>l \<in> set ls. dict_get owners (pi_endpoint_id x, l) = None"
  shows "\<exists>owners'. rfold (claim_physical_link x links) owners ls = Inr owners'"
  using assms
proof (induction ls arbitrary: owners)
  case (Cons l ls)
  obtain k where k: "dict_get links l = Some k" "pi_endpoint_id x \<in> {dl_a_endpoint_id k, dl_z_endpoint_id k}"
    using Cons.prems(2) by (auto simp: link_known_def)
  have "claim_physical_link x links owners l = Inr (dict_set (pi_endpoint_id x, l) (pi_resource_id x) owners)"
    using k Cons.prems(3) by (auto simp: claim_physical_link_def)
  moreover have "\<forall>l' \<in> set ls. dict_get (dict_set (pi_endpoint_id x, l) (pi_resource_id x) owners) (pi_endpoint_id x, l') = None"
    using Cons.prems(1,3) by auto
  then obtain owners' where "rfold (claim_physical_link x links) (dict_set (pi_endpoint_id x, l) (pi_resource_id x) owners) ls = Inr owners'"
    using Cons.IH Cons.prems(1,2) by (metis distinct.simps(2) list.set_intros(2))
  ultimately show ?case by simp
qed simp

definition claimable ::
    "(ResourceId, EndpointPlan) dict \<Rightarrow> (ResourceId, DutLinkPlan) dict \<Rightarrow> PhysicalInterfacePlan \<Rightarrow> bool" where
  "claimable endpoints links x \<longleftrightarrow>
     dict_get endpoints (pi_endpoint_id x) \<noteq> None \<and> distinct (pi_link_ids x)
     \<and> (\<forall>l \<in> set (pi_link_ids x). link_known links x l)"

definition unclaimed :: "connection_owners \<times> link_owners \<Rightarrow> PhysicalInterfacePlan \<Rightarrow> bool" where
  "unclaimed owners x \<longleftrightarrow>
     dict_get (fst owners) (pi_endpoint_id x, pi_bound_interface x) = None
     \<and> (\<forall>l \<in> set (pi_link_ids x). dict_get (snd owners) (pi_endpoint_id x, l) = None)"

lemma claim_interface_total:
  assumes "claimable endpoints links x" "unclaimed owners x"
  shows "\<exists>owners'. claim_physical_interface endpoints links owners x = Inr owners'"
proof -
  obtain lo where "rfold (claim_physical_link x links) (snd owners) (pi_link_ids x) = Inr lo"
    using assms claim_links_total[of "pi_link_ids x" links x "snd owners"] by (auto simp: claimable_def unclaimed_def)
  then show ?thesis
    using assms by (auto simp: claim_physical_interface_def claimable_def unclaimed_def Let_def)
qed

lemma unclaimed_after:
  assumes "claim_physical_interface endpoints links owners x = Inr owners'" "unclaimed owners y" "apart x y"
  shows "unclaimed owners' y"
proof -
  have keys: "dict_get (fst owners') key = None \<longleftrightarrow>
        dict_get (fst owners) key = None \<and> key \<noteq> (pi_endpoint_id x, pi_bound_interface x)"
      "dict_get (snd owners') key' = None \<longleftrightarrow>
        dict_get (snd owners) key' = None \<and> key' \<notin> Pair (pi_endpoint_id x) ` set (pi_link_ids x)" for key key'
    using claim_interface_ok[OF assms(1)] by blast+
  show ?thesis
    using assms(2,3) unfolding unclaimed_def keys by (auto simp: apart_def)
qed

lemma claim_interfaces_total:
  assumes "sorted_wrt apart xs" "\<forall>x \<in> set xs. claimable endpoints links x \<and> unclaimed owners x"
  shows "\<exists>owners'. rfold (claim_physical_interface endpoints links) owners xs = Inr owners'"
  using assms
proof (induction xs arbitrary: owners)
  case (Cons x xs)
  obtain owners1 where one: "claim_physical_interface endpoints links owners x = Inr owners1"
    using claim_interface_total Cons.prems(2) by (metis list.set_intros(1))
  have "\<forall>y \<in> set xs. claimable endpoints links y \<and> unclaimed owners1 y"
    using unclaimed_after[OF one] Cons.prems by auto
  then obtain owners2 where "rfold (claim_physical_interface endpoints links) owners1 xs = Inr owners2"
    using Cons.IH[of owners1] Cons.prems(1) by auto
  then show ?case using one by simp
qed simp

text \<open>The table of members keeps the keys it starts with.\<close>

lemma add_member_keys:
  assumes "add_member physical endpoints links ms i = Inr ms'" "fst ` set physical \<subseteq> fst ` set ms"
  shows "map fst ms' = map fst ms"
proof -
  have "map fst (dict_set k v ms) = map fst ms" if "k \<in> fst ` set physical" for k v
    using that assms(2) by (simp add: update_keys) (meson subsetD)
  then show ?thesis
    using assms(1) by (auto simp: add_member_def rbind_eq_Inr dict_append_def split: option.splits if_splits
        dest!: map_of_SomeD) force
qed

lemma members_keys:
  assumes "rfold (add_member physical endpoints links) ms interfaces = Inr ms'" "fst ` set physical \<subseteq> fst ` set ms"
  shows "map fst ms' = map fst ms"
  using assms
proof (induction interfaces arbitrary: ms)
  case (Cons i interfaces)
  obtain ms1 where one: "add_member physical endpoints links ms i = Inr ms1"
    and rest: "rfold (add_member physical endpoints links) ms1 interfaces = Inr ms'"
    using Cons.prems by (auto simp: rbind_eq_Inr)
  have k: "map fst ms1 = map fst ms" by (rule add_member_keys[OF one Cons.prems(2)])
  then have "fst ` set ms1 = fst ` set ms" by (metis set_map)
  then show ?case using Cons.IH[OF rest] Cons.prems(2) k by simp
qed simp

definition covered :: "InterfacePlan list \<Rightarrow> PhysicalInterfacePlan \<Rightarrow> bool" where
  "covered interfaces x \<longleftrightarrow>
     (let ms = filter (member_of (pi_resource_id x)) interfaces
      in ms \<noteq> [] \<and> distinct (concat (map if_link_ids ms)) \<and> set (concat (map if_link_ids ms)) = set (pi_link_ids x))"

lemma references_total:
  assumes ids: "distinct (map pi_resource_id (dp_physical_interfaces p))"
    and owners: "sorted_wrt apart (dp_physical_interfaces p)"
      "\<forall>x \<in> set (dp_physical_interfaces p). claimable (by_id ep_resource_id (dp_endpoints p)) (by_id dl_resource_id (dp_links p)) x"
    and member: "\<And>ms i. i \<in> set (dp_interfaces p) \<Longrightarrow>
      \<exists>ms'. add_member (by_id pi_resource_id (dp_physical_interfaces p)) (by_id ep_resource_id (dp_endpoints p))
              (by_id dl_resource_id (dp_links p)) ms i = Inr ms'"
    and cover: "\<forall>x \<in> set (dp_physical_interfaces p). covered (dp_interfaces p) x"
  shows "validate_physical_interface_references p = Inr ()"
proof -
  let ?phys = "by_id pi_resource_id (dp_physical_interfaces p)"
  let ?init = "map (\<lambda>(pid, _). (pid, [])) ?phys :: members"
  have free: "\<forall>x \<in> set (dp_physical_interfaces p).
      claimable (by_id ep_resource_id (dp_endpoints p)) (by_id dl_resource_id (dp_links p)) x \<and> unclaimed ([], []) x"
    using owners(2) by (simp add: unclaimed_def)
  obtain ow where ow: "rfold (claim_physical_interface (by_id ep_resource_id (dp_endpoints p)) (by_id dl_resource_id (dp_links p)))
      ([], []) (dp_physical_interfaces p) = Inr ow"
    using claim_interfaces_total[OF owners(1) free] by blast
  obtain ms where ms: "rfold (add_member ?phys (by_id ep_resource_id (dp_endpoints p)) (by_id dl_resource_id (dp_links p)))
      ?init (dp_interfaces p) = Inr ms"
    using member by (metis rfold_total)
  have keys: "map fst ms = map pi_resource_id (dp_physical_interfaces p)"
    using members_keys[OF ms] by (simp add: by_id_def comp_def case_prod_unfold image_image)
  have init: "dict_get_or ?init pid [] = []" for pid
    by (auto simp: dict_get_or_def split: option.splits dest!: map_of_SomeD)
  have "validate_membership ?phys (pid, is) = Inr ()" if entry: "(pid, is) \<in> set ms" for pid "is"
  proof -
    have "pid \<in> set (map fst ms)" using entry by force
    then obtain x where x: "x \<in> set (dp_physical_interfaces p)" "pi_resource_id x = pid" unfolding keys by auto
    have "dict_get ms pid = Some is" using entry ids keys by (simp add: map_of_is_SomeI)
    then have ms_x: "is = filter (member_of (pi_resource_id x)) (dp_interfaces p)"
      using members_ok[OF ms, of pid] init x by (simp add: dict_get_or_def)
    define ls where "ls = concat (map if_link_ids is)"
    have "covered (dp_interfaces p) x" using cover x by blast
    then have ls: "is \<noteq> []" "distinct ls" "set ls = set (pi_link_ids x)"
      unfolding covered_def Let_def ms_x[symmetric] ls_def[symmetric] by blast+
    have "dict_get ?phys pid = Some x" using by_id_get[OF ids] x by blast
    then show ?thesis
      using ls(1,3) distinct_card[OF ls(2)] by (simp add: validate_membership_def ls_def[symmetric])
  qed
  then show ?thesis
    using ow ms
    by (auto simp: validate_physical_interface_references_def Let_def validate_physical_interface_owners_def
        physical_interface_members_def)
qed

section \<open>Families of printed addresses\<close>

lemma join_separator: "2 \<le> length xs \<Longrightarrow> c \<in> set (join [c] xs)"
  by (induction "[c]" xs rule: join.induct) simp_all

lemma compress_hextets_parts: "2 \<le> length hs \<Longrightarrow> 2 \<le> length (compress_hextets hs)"
  by (cases hs) (auto simp: compress_hextets_def split: prod.splits)

lemma ipv6_has_colon: "CHR '':'' \<in> set (ipv6_str n)"
  unfolding ipv6_str_def by (intro join_separator compress_hextets_parts) (simp add: hextets_def)

lemma show_nat_no_colon: "CHR '':'' \<notin> set (show_nat n)"
proof
  assume "CHR '':'' \<in> set (show_nat n)"
  then obtain d where d: "d < 10" "CHR '':'' = digit_char d" using show_nat_digits by blast
  then have "of_char (CHR '':'') = (of_char (digit_char d) :: nat)" by simp
  then show False using d(1) by (simp add: digit_char_def)
qed

lemma ipv4_no_colon: "CHR '':'' \<notin> set (ipv4_str n)"
  by (simp add: ipv4_str_def show_nat_no_colon)

lemma interface_str_version: "ip_version (fst i) = (if CHR '':'' \<in> set (ip_interface_str i) then 6 else 4)"
  by (cases "fst i") (simp_all add: ip_interface_str_def ipv6_has_colon ipv4_no_colon show_nat_no_colon)

lemma canonical_address_family:
  assumes "\<not> fst (address_check (ip_interface_str i))" "ip_version (fst i) = (if afi = IPV4 then 4 else 6)"
  shows "validate_interface_address afi (ip_interface_str i) = Inr ()"
proof -
  obtain j where j: "ip_interface (ip_interface_str i) = Some j" "ip_interface_str j = ip_interface_str i"
    using assms(1) by (auto simp: address_check_def split: option.splits)
  then have "ip_version (fst j) = ip_version (fst i)" by (simp add: interface_str_version)
  then show ?thesis using j(1) assms(2) by (simp add: validate_interface_address_def)
qed

lemma peer_interface_cidr_ok:
  assumes "peer_interface_cidr is_a p = Inr a"
  shows "\<exists>cidr network i. rp_peer_cidr p = Some cidr \<and> ip_interface cidr = Some network
     \<and> a = ip_interface_str i \<and> ip_version (fst i) = ip_version (fst network)"
  using assms unfolding peer_interface_cidr_def
  by (auto simp del: split_paired_Ex split: option.splits if_splits)

lemma collect_once_ok:
  assumes "rfold (\<lambda>cs p. rbind (f p) (\<lambda>c. Inr (add_once c cs))) cs ps = Inr cs'" "c \<in> set cs'"
  shows "c \<in> set cs \<or> (\<exists>p \<in> set ps. f p = Inr c)"
  using assms
proof (induction ps arbitrary: cs)
  case (Cons p ps)
  obtain d where "f p = Inr d" "rfold (\<lambda>cs p. rbind (f p) (\<lambda>c. Inr (add_once c cs))) (add_once d cs) ps = Inr cs'"
    using Cons.prems(1) by (auto simp: rbind_eq_Inr)
  then show ?case using Cons.IH[of "add_once d cs"] Cons.prems(2) by auto
qed simp

lemma bound_peers_cidrs:
  assumes "bound_peers g = Inr ps" "p \<in> set ps" "rp_peer_cidr p = Some c"
  shows "Some c \<in> set (bg_peer_cidrs g)"
  using assms by (auto simp: bound_peers_def Let_def dest!: set_zip_rightD split: if_splits)

lemma dut_cidrs_ok:
  assumes "dut_interface_cidrs g is_a required = Inr cs" "c \<in> set cs"
  shows "\<exists>cidr network i. Some cidr \<in> set (bg_peer_cidrs g) \<and> ip_interface cidr = Some network
     \<and> c = ip_interface_str i \<and> ip_version (fst i) = ip_version (fst network)"
proof -
  obtain peers where peers: "bound_peers g = Inr peers"
    and fold: "cs = [] \<or> rfold (\<lambda>cs p. rbind (peer_interface_cidr is_a p) (\<lambda>c. Inr (add_once c cs))) [] peers = Inr cs"
    using assms(1) by (auto simp: dut_interface_cidrs_def rbind_eq_Inr split: if_splits)
  then obtain p where p: "p \<in> set peers" "peer_interface_cidr is_a p = Inr c"
    using collect_once_ok[of "peer_interface_cidr is_a" "[]" peers cs c] assms(2) by auto
  show ?thesis using peer_interface_cidr_ok[OF p(2)] bound_peers_cidrs[OF peers p(1)] by blast
qed

section \<open>Well bound topologies\<close>

text \<open>
  What the planner's inputs must satisfy: unique names, a port assignment wherever an interface of
  a device is bound, and peer prefixes of the group's family.
\<close>

definition prefix_in_family :: "string \<Rightarrow> string option \<Rightarrow> bool" where
  "prefix_in_family afi cidr =
     (case cidr of
        None \<Rightarrow> True
      | Some c \<Rightarrow> (case ip_interface c of None \<Rightarrow> True | Some n \<Rightarrow> ip_version (fst n) = (if afi = ''v4'' then 4 else 6)))"

definition well_bound :: "('m BoundDeviceGroup_scheme, 'n) BoundTopology_scheme \<Rightarrow> bool" where
  "well_bound b \<longleftrightarrow>
     distinct (map es_name (bt_endpoints b)) \<and> distinct (map bg_name (bt_device_groups b)) \<and> distinct (bt_policy_names b)
     \<and> list_all (\<lambda>g. (bg_a_interface g = None \<and> bg_z_interface g = None \<or> bg_port_assignment g \<noteq> None)
                   \<and> list_all (prefix_in_family (bg_afi g)) (bg_peer_cidrs g)) (bt_device_groups b)"

lemma endpoint_specs_get:
  assumes "dict_get (endpoint_specs b) n = Some e"
  shows "e \<in> set (bt_endpoints b) \<and> es_name e = n"
proof -
  have "dict_get (foldl (\<lambda>d e. dict_set (es_name e) e d) d es) n = Some e \<Longrightarrow>
      dict_get d n = Some e \<or> e \<in> set es \<and> es_name e = n" for d es
  proof (induction es arbitrary: d)
    case (Cons a es)
    then show ?case using Cons.IH[of "dict_set (es_name a) a d"] by (auto split: if_splits)
  qed simp
  from this[of "[]"] show ?thesis using assms by (simp add: endpoint_specs_def)
qed

lemma dut_side_ok:
  assumes "dut_side g (endpoint_specs b) = Inr side"
  shows "ds_endpoint_name side \<in> {bg_a_endpoint g, bg_z_endpoint g}"
    and "ds_endpoint_name side \<in> es_name ` set (bt_endpoints b)"
    and "ds_bound_interface side \<noteq> None \<Longrightarrow> bg_a_interface g \<noteq> None \<or> bg_z_interface g \<noteq> None"
    and "\<exists>required. dut_interface_cidrs g (ds_dut_is_a side) required = Inr (ds_addresses side)"
proof -
  obtain a z where az: "dict_get (endpoint_specs b) (bg_a_endpoint g) = Some a" "dict_get (endpoint_specs b) (bg_z_endpoint g) = Some z"
    using assms by (auto simp: dut_side_def dict_index_def rbind_eq_Inr split: option.splits)
  obtain e n is_a where side: "side_of g e n is_a = Inr side" "e \<in> {a, z}"
    and bound: "n \<noteq> None \<Longrightarrow> bg_a_interface g \<noteq> None \<or> bg_z_interface g \<noteq> None"
    using assms az by (auto simp: dut_side_def dict_index_def split: if_splits)
  then have s: "ds_endpoint_name side = es_name e" "ds_bound_interface side = n" "ds_dut_is_a side = is_a"
      "\<exists>required. dut_interface_cidrs g is_a required = Inr (ds_addresses side)"
    by (auto simp: side_of_def rbind_eq_Inr)
  show "ds_endpoint_name side \<in> {bg_a_endpoint g, bg_z_endpoint g}"
    "ds_endpoint_name side \<in> es_name ` set (bt_endpoints b)"
    using s(1) side(2) endpoint_specs_get[OF az(1)] endpoint_specs_get[OF az(2)] by auto
  show "bg_a_interface g \<noteq> None \<or> bg_z_interface g \<noteq> None" if "ds_bound_interface side \<noteq> None"
    using that bound s(2) by simp
  show "\<exists>required. dut_interface_cidrs g (ds_dut_is_a side) required = Inr (ds_addresses side)" using s(3,4) by simp
qed

text \<open>What a group contributes, once resolved, agrees with its link.\<close>

definition group_ok :: "EndpointPlan list \<Rightarrow> DutLinkPlan list \<Rightarrow> planned_group \<Rightarrow> bool" where
  "group_ok endpoints links q \<longleftrightarrow>
     endpoint_rid (pg_endpoint q) \<in> ep_resource_id ` set endpoints
     \<and> (\<exists>l \<in> set links. dl_resource_id l = pg_link q \<and> endpoint_rid (pg_endpoint q) \<in> {dl_a_endpoint_id l, dl_z_endpoint_id l}
          \<and> dl_logical_port_role l = pg_role q \<and> dl_afi l = pg_afi q)
     \<and> (pg_bound q \<noteq> None \<longrightarrow> pg_assignment q \<noteq> None)
     \<and> (pg_assignment q \<noteq> None \<longrightarrow> pg_role q = pa_logical_role (the (pg_assignment q)))
     \<and> (\<forall>c \<in> set (pg_addresses q). \<exists>i. c = ip_interface_str i \<and> ip_version (fst i) = (if pg_afi q = IPV4 then 4 else 6))"

lemma resolved_group_ok:
  assumes "well_bound b" "g \<in> set (bt_device_groups b)" "resolve_group (endpoint_specs b) g = Inr q"
    and "endpoint_plans b = Inr endpoints" "link_plans b = Inr links"
  shows "group_ok endpoints links q"
proof -
  note rg = resolve_group_ok[OF assms(3)]
  obtain side where side: "dut_side g (endpoint_specs b) = Inr side" "ds_endpoint_name side = pg_endpoint q"
      "ds_bound_interface side = pg_bound q" "ds_addresses side = pg_addresses q"
    using rg(5) by blast
  note ds = dut_side_ok[OF side(1)]
  have wb: "bg_a_interface g = None \<and> bg_z_interface g = None \<or> bg_port_assignment g \<noteq> None"
      "\<forall>c \<in> set (bg_peer_cidrs g). prefix_in_family (bg_afi g) c"
    using assms(1,2) by (auto simp: well_bound_def list_all_iff)
  obtain l where l: "l \<in> set links" "link_plan g = Inr l"
    using rmap_image[OF assms(5)[unfolded link_plans_def] assms(2)] by blast
  have "map ep_resource_id endpoints = map (\<lambda>e. endpoint_rid (es_name e)) (bt_endpoints b)"
    by (rule rmap_project[OF assms(4)[unfolded endpoint_plans_def] endpoint_plan_id])
  then have ids: "ep_resource_id ` set endpoints = endpoint_rid ` es_name ` set (bt_endpoints b)"
    by (simp only: map_map comp_def flip: set_map)
  have address: "\<exists>i. c = ip_interface_str i \<and> ip_version (fst i) = (if pg_afi q = IPV4 then 4 else 6)"
    if addr: "c \<in> set (pg_addresses q)" for c
  proof -
    obtain required where "dut_interface_cidrs g (ds_dut_is_a side) required = Inr (pg_addresses q)"
      using ds(4) side(4) by auto
    from dut_cidrs_ok[OF this addr] obtain cidr network i where i: "Some cidr \<in> set (bg_peer_cidrs g)"
        "ip_interface cidr = Some network" "c = ip_interface_str i" "ip_version (fst i) = ip_version (fst network)"
      by blast
    then have "ip_version (fst network) = (if bg_afi g = ''v4'' then 4 else 6)"
      using wb(2) by (auto simp: prefix_in_family_def)
    then show ?thesis using i(3,4) rg(4) by (intro exI[of _ i]) (cases "pg_afi q"; simp)
  qed
  have "logical_port_role g = pa_logical_role (the (bg_port_assignment g))" if "bg_port_assignment g \<noteq> None"
    using that by (auto simp: logical_port_role_def)
  then show ?thesis
  proof (unfold group_ok_def ids, intro conjI)
    show "endpoint_rid (pg_endpoint q) \<in> endpoint_rid ` es_name ` set (bt_endpoints b)" using ds(2) side(2) by simp
    show "\<exists>l \<in> set links. dl_resource_id l = pg_link q \<and> endpoint_rid (pg_endpoint q) \<in> {dl_a_endpoint_id l, dl_z_endpoint_id l}
          \<and> dl_logical_port_role l = pg_role q \<and> dl_afi l = pg_afi q"
      using link_plan_ok[OF l(2)] rg(1,3,4) ds(1) side(2) by (intro bexI[OF _ l(1)]) auto
    show "pg_bound q \<noteq> None \<longrightarrow> pg_assignment q \<noteq> None" using ds(3) side(3) wb(1) rg(2) by auto
    show "\<forall>c \<in> set (pg_addresses q). \<exists>i. c = ip_interface_str i \<and> ip_version (fst i) = (if pg_afi q = IPV4 then 4 else 6)"
      using address by blast
  qed (use rg(2,3) in simp)
qed

section \<open>Physical references of the assembled plan\<close>

definition planned :: "planned_group list \<Rightarrow> (interface_key, InterfacePlan) dict \<Rightarrow> (ResourceId, PhysicalInterfacePlan) dict
     \<Rightarrow> connection_owners \<Rightarrow> DutPlan \<Rightarrow> bool" where
  "planned qs accs paccs owners d \<longleftrightarrow>
     distinct (map pg_link qs) \<and> interfaces_inv qs accs \<and> physical_inv qs paccs owners
     \<and> dp_interfaces d = map snd accs \<and> dp_physical_interfaces d = map snd paccs
     \<and> (\<forall>i \<in> set (dp_interfaces d). mk_InterfacePlan i = Inr i)
     \<and> (\<forall>q \<in> set qs. group_ok (dp_endpoints d) (dp_links d) q)
     \<and> distinct (map ep_resource_id (dp_endpoints d)) \<and> distinct (map dl_resource_id (dp_links d))"

lemma plannedD:
  assumes "planned qs accs paccs owners d"
  shows "distinct (map pg_link qs)" "dp_interfaces d = map snd accs" "dp_physical_interfaces d = map snd paccs"
    "\<forall>i \<in> set (dp_interfaces d). mk_InterfacePlan i = Inr i"
    "\<forall>q \<in> set qs. group_ok (dp_endpoints d) (dp_links d) q"
    "distinct (map fst accs)" "fst ` set accs = pg_key ` set qs" "\<And>k acc. (k, acc) \<in> set accs \<Longrightarrow> acc_ok qs k acc"
    "distinct (map fst paccs)" "\<And>r. r \<in> fst ` set paccs \<longleftrightarrow> (\<exists>q \<in> set qs. pg_physical q = Some r)"
    "\<And>r x. (r, x) \<in> set paccs \<Longrightarrow> phys_ok qs r x"
    "\<And>q r. q \<in> set qs \<Longrightarrow> pg_physical q = Some r \<Longrightarrow>
       \<exists>bound. pg_bound q = Some bound \<and> dict_get owners (endpoint_rid (pg_endpoint q), bound) = Some r"
  using assms by (auto simp: planned_def interfaces_inv_def physical_inv_def)

lemma pg_physical_endpoint:
  "pg_physical q = Some \<lparr>ri_kind = PHYSICAL_INTERFACE, ri_path = [e, kind, key]\<rparr> \<Longrightarrow> pg_endpoint q = e"
  by (auto simp: pg_physical_def)

lemma phys_member:
  assumes "planned qs accs paccs owners d" "x \<in> set (dp_physical_interfaces d)"
  shows "(pi_resource_id x, x) \<in> set paccs" "phys_ok qs (pi_resource_id x) x"
    "\<exists>q \<in> set qs. pg_physical q = Some (pi_resource_id x)"
proof -
  obtain r where r: "(r, x) \<in> set paccs" using assms(2) plannedD(3)[OF assms(1)] by auto
  then have "pi_resource_id x = r" using plannedD(11)[OF assms(1)] by (simp add: phys_ok_def)
  then show "(pi_resource_id x, x) \<in> set paccs" "phys_ok qs (pi_resource_id x) x"
    "\<exists>q \<in> set qs. pg_physical q = Some (pi_resource_id x)"
    using r plannedD(10,11)[OF assms(1)] by force+
qed

lemma phys_group:
  assumes "phys_ok qs r x" "q \<in> set qs" "pg_physical q = Some r"
  shows "pi_endpoint_id x = endpoint_rid (pg_endpoint q)" "pg_bound q = Some (pi_bound_interface x)"
    "pg_link q \<in> set (pi_link_ids x)"
  using assms by (auto simp: phys_ok_def dest!: pg_physical_endpoint)

lemma phys_link:
  assumes "phys_ok qs r x" "l \<in> set (pi_link_ids x)"
  shows "\<exists>q \<in> set qs. pg_physical q = Some r \<and> pg_link q = l"
  using assms by (auto simp: phys_ok_def)

lemma same_link:
  assumes "planned qs accs paccs owners d" "q \<in> set qs" "q' \<in> set qs" "pg_link q = pg_link q'"
  shows "q = q'"
  using plannedD(1)[OF assms(1)] assms(2-4) by (metis distinct_map inj_onD)

lemma planned_apart:
  assumes "planned qs accs paccs owners d" "x \<in> set (dp_physical_interfaces d)" "y \<in> set (dp_physical_interfaces d)"
    and "pi_resource_id x \<noteq> pi_resource_id y"
  shows "apart x y"
proof -
  note px = phys_member[OF assms(1,2)] and py = phys_member[OF assms(1,3)]
  obtain q q' where q: "q \<in> set qs" "pg_physical q = Some (pi_resource_id x)"
      "q' \<in> set qs" "pg_physical q' = Some (pi_resource_id y)"
    using px(3) py(3) by blast
  note gx = phys_group[OF px(2) q(1,2)] and gy = phys_group[OF py(2) q(3,4)]
  have "dict_get owners (pi_endpoint_id x, pi_bound_interface x) = Some (pi_resource_id x)"
      "dict_get owners (pi_endpoint_id y, pi_bound_interface y) = Some (pi_resource_id y)"
    using plannedD(12)[OF assms(1) q(1,2)] plannedD(12)[OF assms(1) q(3,4)] gx(1,2) gy(1,2) by auto
  then have "pi_endpoint_id x = pi_endpoint_id y \<Longrightarrow> pi_bound_interface x \<noteq> pi_bound_interface y"
    using assms(4) by auto
  moreover have "set (pi_link_ids x) \<inter> set (pi_link_ids y) = {}"
  proof (rule ccontr)
    assume "set (pi_link_ids x) \<inter> set (pi_link_ids y) \<noteq> {}"
    then obtain l where "l \<in> set (pi_link_ids x)" "l \<in> set (pi_link_ids y)" by blast
    then obtain p p' where "p \<in> set qs" "pg_physical p = Some (pi_resource_id x)" "pg_link p = l"
        "p' \<in> set qs" "pg_physical p' = Some (pi_resource_id y)" "pg_link p' = l"
      using phys_link[OF px(2)] phys_link[OF py(2)] by meson
    then show False using same_link[OF assms(1), of p p'] assms(4) by simp
  qed
  ultimately show ?thesis by (auto simp: apart_def)
qed

lemma phys_ids:
  assumes "planned qs accs paccs owners d"
  shows "map pi_resource_id (dp_physical_interfaces d) = map fst paccs"
  using plannedD(3,11)[OF assms] by (auto simp: phys_ok_def)

lemma planned_sorted:
  assumes "planned qs accs paccs owners d"
  shows "sorted_wrt apart (dp_physical_interfaces d)"
proof -
  have "distinct (map pi_resource_id (dp_physical_interfaces d))" using phys_ids[OF assms] plannedD(9)[OF assms] by simp
  then show ?thesis
    using planned_apart[OF assms] by (simp add: sorted_wrt_iff_nth_less distinct_conv_nth)
qed

lemma link_lookup:
  assumes "planned qs accs paccs owners d" "q \<in> set qs"
  shows "\<exists>l. dict_get (by_id dl_resource_id (dp_links d)) (pg_link q) = Some l
     \<and> endpoint_rid (pg_endpoint q) \<in> {dl_a_endpoint_id l, dl_z_endpoint_id l} \<and> dl_logical_port_role l = pg_role q \<and> dl_afi l = pg_afi q"
    and "dict_get (by_id ep_resource_id (dp_endpoints d)) (endpoint_rid (pg_endpoint q)) \<noteq> None"
proof -
  have ok: "group_ok (dp_endpoints d) (dp_links d) q" using plannedD(5)[OF assms(1)] assms(2) by blast
  have dl: "distinct (map dl_resource_id (dp_links d))" and de: "distinct (map ep_resource_id (dp_endpoints d))"
    using assms(1) by (simp_all add: planned_def)
  obtain l where l: "l \<in> set (dp_links d)" "dl_resource_id l = pg_link q"
      "endpoint_rid (pg_endpoint q) \<in> {dl_a_endpoint_id l, dl_z_endpoint_id l}" "dl_logical_port_role l = pg_role q" "dl_afi l = pg_afi q"
    using ok unfolding group_ok_def by blast
  have "dict_get (by_id dl_resource_id (dp_links d)) (pg_link q) = Some l" using by_id_get[OF dl] l(1,2) by blast
  then show "\<exists>l. dict_get (by_id dl_resource_id (dp_links d)) (pg_link q) = Some l
     \<and> endpoint_rid (pg_endpoint q) \<in> {dl_a_endpoint_id l, dl_z_endpoint_id l} \<and> dl_logical_port_role l = pg_role q \<and> dl_afi l = pg_afi q"
    using l(3-5) by blast
  obtain e where "e \<in> set (dp_endpoints d)" "ep_resource_id e = endpoint_rid (pg_endpoint q)"
    using ok unfolding group_ok_def by force
  then show "dict_get (by_id ep_resource_id (dp_endpoints d)) (endpoint_rid (pg_endpoint q)) \<noteq> None"
    using by_id_get[OF de] by fastforce
qed

lemma planned_claimable:
  assumes "planned qs accs paccs owners d" "x \<in> set (dp_physical_interfaces d)"
  shows "claimable (by_id ep_resource_id (dp_endpoints d)) (by_id dl_resource_id (dp_links d)) x"
proof -
  note px = phys_member[OF assms]
  obtain q where q: "q \<in> set qs" "pg_physical q = Some (pi_resource_id x)" using px(3) by blast
  have "link_known (by_id dl_resource_id (dp_links d)) x l" if l: "l \<in> set (pi_link_ids x)" for l
  proof -
    obtain p where p: "p \<in> set qs" "pg_physical p = Some (pi_resource_id x)" "pg_link p = l" using phys_link[OF px(2) l] by blast
    then show ?thesis
      using link_lookup(1)[OF assms(1) p(1)] phys_group(1)[OF px(2) p(1,2)] by (auto simp: link_known_def)
  qed
  moreover have "distinct (pi_link_ids x)"
    using px(2) plannedD(1)[OF assms(1)] by (auto simp: phys_ok_def distinct_map_filter)
  moreover have "dict_get (by_id ep_resource_id (dp_endpoints d)) (pi_endpoint_id x) \<noteq> None"
    using link_lookup(2)[OF assms(1) q(1)] phys_group(1)[OF px(2) q] by simp
  ultimately show ?thesis by (simp add: claimable_def)
qed

text \<open>Interfaces and the groups they collect.\<close>

lemma interface_member:
  assumes "planned qs accs paccs owners d" "i \<in> set (dp_interfaces d)"
  obtains k where "(k, i) \<in> set accs" "acc_ok qs k i" "\<exists>q \<in> set qs. pg_key q = k"
proof -
  obtain k where k: "(k, i) \<in> set accs" using assms(2) plannedD(2)[OF assms(1)] by auto
  then have "k \<in> pg_key ` set qs" using plannedD(7)[OF assms(1)] by force
  then show ?thesis using that[OF k] plannedD(8)[OF assms(1) k] by blast
qed

lemma interface_links_known:
  assumes "planned qs accs paccs owners d" "i \<in> set (dp_interfaces d)"
  shows "validate_logical_interface_links i (by_id ep_resource_id (dp_endpoints d)) (by_id dl_resource_id (dp_links d)) = Inr ()"
proof -
  obtain k where k: "(k, i) \<in> set accs" "acc_ok qs k i" "\<exists>q \<in> set qs. pg_key q = k"
    by (rule interface_member[OF assms])
  have if_i: "if_endpoint_id i = endpoint_rid (fst k)" "if_logical_port_role i = fst (snd k)" "if_afi i = snd (snd k)"
    "if_link_ids i = map pg_link (filter (\<lambda>p. pg_key p = k) qs)"
    "set (if_addresses i) = (\<Union>p \<in> {p \<in> set qs. pg_key p = k}. set (pg_addresses p))"
    using k(2) by (simp_all add: acc_ok_def)
  have of_key: "pg_endpoint q = fst k" "pg_role q = fst (snd k)" "pg_afi q = snd (snd k)" if "pg_key q = k" for q
    using that by (auto simp: pg_key_def)
  obtain q0 where "q0 \<in> set qs" "pg_key q0 = k" using k(3) by blast
  then have "dict_get (by_id ep_resource_id (dp_endpoints d)) (if_endpoint_id i) \<noteq> None"
    using link_lookup(2)[OF assms(1)] of_key(1) if_i(1) by metis
  moreover have "validate_interface_link i (by_id dl_resource_id (dp_links d)) l = Inr ()" if l: "l \<in> set (if_link_ids i)" for l
  proof -
    obtain q where q: "q \<in> set qs" "pg_key q = k" "pg_link q = l" using l if_i(4) by auto
    then show ?thesis
      using link_lookup(1)[OF assms(1) q(1)] of_key[OF q(2)] if_i(1-3) by (auto simp: validate_interface_link_def)
  qed
  moreover have "validate_interface_address (if_afi i) a = Inr ()" if a: "a \<in> set (if_addresses i)" for a
  proof -
    obtain q where q: "q \<in> set qs" "pg_key q = k" "a \<in> set (pg_addresses q)" using a if_i(5) by auto
    then obtain j where j: "a = ip_interface_str j" "ip_version (fst j) = (if pg_afi q = IPV4 then 4 else 6)"
      using plannedD(5)[OF assms(1)] unfolding group_ok_def by blast
    have "\<not> fst (address_check a)" using plannedD(4)[OF assms(1)] assms(2) a by (auto simp: mk_InterfacePlan_def)
    then show ?thesis using canonical_address_family[of j] j of_key(3)[OF q(2)] if_i(3) by simp
  qed
  ultimately have "for_each (validate_interface_link i (by_id dl_resource_id (dp_links d))) (if_link_ids i) = Inr ()"
      "for_each (validate_interface_address (if_afi i)) (if_addresses i) = Inr ()"
      "dict_get (by_id ep_resource_id (dp_endpoints d)) (if_endpoint_id i) \<noteq> None"
    by simp_all
  then show ?thesis by (auto simp: validate_logical_interface_links_def simp del: for_each_ok)
qed

lemma interface_physical:
  assumes "planned qs accs paccs owners d" "acc_ok qs k i" "q \<in> set qs" "pg_key q = k"
  shows "if_physical_interface_id i = pg_physical q" "if_bound_interface i = None \<longleftrightarrow> pg_physical q = None"
proof -
  have phys: "pg_physical p = if_physical_interface_id i \<and> (pg_bound p = None \<or> pg_bound p = if_bound_interface i)"
    if "p \<in> set qs" "pg_key p = k" for p
    using assms(2) that by (simp add: acc_ok_def)
  show one: "if_physical_interface_id i = pg_physical q" using phys assms(3,4) by simp
  show "if_bound_interface i = None \<longleftrightarrow> pg_physical q = None"
  proof
    assume none: "if_bound_interface i = None"
    then have "pg_bound q = None" using phys[OF assms(3,4)] by auto
    then show "pg_physical q = None" using plannedD(12)[OF assms(1,3)] by (cases "pg_physical q") auto
  next
    assume none: "pg_physical q = None"
    show "if_bound_interface i = None"
    proof (rule ccontr)
      assume "if_bound_interface i \<noteq> None"
      then obtain p where p: "p \<in> set qs" "pg_key p = k" "pg_bound p \<noteq> None" using assms(2) by (auto simp: acc_ok_def)
      then have "pg_assignment p \<noteq> None" using plannedD(5)[OF assms(1)] by (auto simp: group_ok_def)
      then show False using phys[OF p(1,2)] one none by (auto simp: pg_physical_def)
    qed
  qed
qed

lemma physical_role:
  assumes "group_ok endpoints links q" "pg_physical q = Some (pi_resource_id x)" "phys_ok qs (pi_resource_id x) x"
    "pi_group_kind x = LOGICAL_ROLE"
  shows "pi_logical_key x = pg_role q"
proof -
  obtain a where a: "pg_assignment q = Some a" using assms(2) by (auto simp: pg_physical_def)
  then have "group_kind_value (fst (physical_interface_group a)) = group_kind_value LOGICAL_ROLE"
      "snd (physical_interface_group a) = pi_logical_key x"
    using assms(2-4) by (auto simp: pg_physical_def phys_ok_def)
  then have "pa_logical_role a = pi_logical_key x" by (auto simp: physical_interface_group_def split: option.splits)
  then show ?thesis using assms(1) a by (simp add: group_ok_def)
qed

lemma interface_in_physical:
  assumes "planned qs accs paccs owners d" "acc_ok qs k i" "q \<in> set qs" "pg_key q = k"
    and "x \<in> set (dp_physical_interfaces d)" "if_physical_interface_id i = Some (pi_resource_id x)"
  shows "validate_logical_physical_interface i x = Inr ()"
proof -
  note px = phys_member[OF assms(1,5)] and ip = interface_physical[OF assms(1-4)]
  have q: "pg_physical q = Some (pi_resource_id x)" using ip(1) assms(6) by simp
  note pg = phys_group[OF px(2) assms(3) q]
  have all: "pg_physical p = Some (pi_resource_id x)" if "p \<in> set qs" "pg_key p = k" for p
    using interface_physical(1)[OF assms(1,2) that] assms(6) by simp
  have "if_endpoint_id i = pi_endpoint_id x" using assms(2,4) pg(1) by (auto simp: acc_ok_def pg_key_def)
  moreover have "if_bound_interface i = Some (pi_bound_interface x)" using assms(2-4) pg(2) by (auto simp: acc_ok_def)
  moreover have "set (if_link_ids i) \<subseteq> set (pi_link_ids x)"
    using assms(2) all phys_group(3)[OF px(2)] by (auto simp: acc_ok_def)
  moreover have "if_logical_port_role i = pi_logical_key x" if "pi_group_kind x = LOGICAL_ROLE"
    using physical_role[OF _ q px(2) that] plannedD(5)[OF assms(1)] assms(2-4) by (auto simp: acc_ok_def pg_key_def)
  ultimately show ?thesis by (auto simp: validate_logical_physical_interface_def)
qed

lemma planned_add_member:
  assumes "planned qs accs paccs owners d" "i \<in> set (dp_interfaces d)"
  shows "\<exists>ms'. add_member (by_id pi_resource_id (dp_physical_interfaces d)) (by_id ep_resource_id (dp_endpoints d))
              (by_id dl_resource_id (dp_links d)) ms i = Inr ms'"
proof -
  obtain k where k: "(k, i) \<in> set accs" "acc_ok qs k i" "\<exists>q \<in> set qs. pg_key q = k"
    by (rule interface_member[OF assms])
  obtain q where q: "q \<in> set qs" "pg_key q = k" using k(3) by blast
  note ip = interface_physical[OF assms(1) k(2) q] and links = interface_links_known[OF assms]
  show ?thesis
  proof (cases "pg_physical q")
    case None
    then show ?thesis using ip links by (auto simp: add_member_def)
  next
    case (Some r)
    then have "r \<in> fst ` set paccs" using plannedD(10)[OF assms(1), of r] q(1) by blast
    then obtain x where x: "(r, x) \<in> set paccs" by auto
    then have mem: "x \<in> set (dp_physical_interfaces d)" "pi_resource_id x = r"
      using plannedD(3)[OF assms(1)] plannedD(11)[OF assms(1) x] by (auto simp: phys_ok_def image_iff intro: rev_bexI)
    have "distinct (map pi_resource_id (dp_physical_interfaces d))"
      using phys_ids[OF assms(1)] plannedD(9)[OF assms(1)] by simp
    then have get: "dict_get (by_id pi_resource_id (dp_physical_interfaces d)) r = Some x" using mem by (simp add: by_id_get)
    have "validate_logical_physical_interface i x = Inr ()"
      using interface_in_physical[OF assms(1) k(2) q mem(1)] ip(1) Some mem(2) by simp
    moreover obtain n where "if_bound_interface i = Some n" using ip(2) Some by auto
    ultimately show ?thesis using get ip(1) Some links by (simp add: add_member_def)
  qed
qed

definition if_key :: "InterfacePlan \<Rightarrow> interface_key" where
  "if_key i = (hd (ri_path (if_endpoint_id i)), if_logical_port_role i, if_afi i)"

lemma planned_covered:
  assumes "planned qs accs paccs owners d" "x \<in> set (dp_physical_interfaces d)"
  shows "covered (dp_interfaces d) x"
proof -
  define r where "r = pi_resource_id x"
  define ms where "ms = filter (member_of r) (dp_interfaces d)"
  define key_of where "key_of l = map_of (map (\<lambda>q. (pg_link q, pg_key q)) qs) l" for l
  note px = phys_member[OF assms]
  have key_of: "key_of (pg_link q) = Some (pg_key q)" if "q \<in> set qs" for q
    using that plannedD(1)[OF assms(1)] unfolding key_of_def by (intro map_of_is_SomeI) (auto simp: comp_def)
  have acc: "acc_ok qs (if_key i) i" "if_key i \<in> pg_key ` set qs" if i: "i \<in> set (dp_interfaces d)" for i
  proof -
    obtain k where k: "acc_ok qs k i" "\<exists>q \<in> set qs. pg_key q = k" using interface_member[OF assms(1) i] by blast
    moreover have "if_key i = k" using k(1) by (cases k) (auto simp: acc_ok_def if_key_def)
    ultimately show "acc_ok qs (if_key i) i" "if_key i \<in> pg_key ` set qs" by (auto intro: rev_image_eqI)
  qed
  have member: "pg_physical q = Some r" if "i \<in> set ms" "q \<in> set qs" "pg_key q = if_key i" for i q
    using interface_physical(1)[OF assms(1) acc(1) that(2,3)] that(1) by (auto simp: ms_def member_of_def)
  have joins: "\<exists>i \<in> set ms. pg_link q \<in> set (if_link_ids i)" if q: "q \<in> set qs" "pg_physical q = Some r" for q
  proof -
    have "pg_key q \<in> fst ` set accs" using plannedD(7)[OF assms(1)] q(1) by blast
    then obtain i where i: "(pg_key q, i) \<in> set accs" by auto
    have ok: "acc_ok qs (pg_key q) i" by (rule plannedD(8)[OF assms(1) i])
    have "i \<in> set (dp_interfaces d)" using plannedD(2)[OF assms(1)] i by force
    moreover have "member_of r i"
      using interface_physical[OF assms(1) ok q(1) refl] q(2) by (simp add: member_of_def)
    moreover have "pg_link q \<in> set (if_link_ids i)" using ok q(1) by (auto simp: acc_ok_def)
    ultimately show ?thesis by (auto simp: ms_def)
  qed
  have keys: "distinct (map (\<lambda>i. Some (if_key i)) ms)"
  proof -
    have "map if_key (dp_interfaces d) = map fst accs"
      using plannedD(2)[OF assms(1)] plannedD(8)[OF assms(1)] by (auto simp: acc_ok_def if_key_def)
    then have "distinct (map if_key (dp_interfaces d))" using plannedD(6)[OF assms(1)] by simp
    then have "distinct (map if_key ms)" by (simp add: ms_def distinct_map_filter)
    then show ?thesis by (simp add: distinct_map inj_on_def)
  qed
  have "distinct (concat (map if_link_ids ms))"
  proof (rule distinct_tagged[OF keys, where tag = key_of])
    fix i l
    assume i: "i \<in> set ms"
    then have links: "if_link_ids i = map pg_link (filter (\<lambda>p. pg_key p = if_key i) qs)"
      using acc(1) by (auto simp: ms_def acc_ok_def)
    show "distinct (if_link_ids i)" using plannedD(1)[OF assms(1)] by (simp add: links distinct_map_filter)
    assume "l \<in> set (if_link_ids i)"
    then show "key_of l = Some (if_key i)" using key_of by (auto simp: links)
  qed
  moreover have "set (concat (map if_link_ids ms)) = set (pi_link_ids x)"
  proof (intro equalityI subsetI)
    fix l
    assume "l \<in> set (concat (map if_link_ids ms))"
    then obtain i where i: "i \<in> set ms" "l \<in> set (if_link_ids i)" by auto
    then obtain q where q: "q \<in> set qs" "pg_key q = if_key i" "l = pg_link q"
      using acc(1) by (auto simp: ms_def acc_ok_def)
    then show "l \<in> set (pi_link_ids x)"
      using phys_group(3)[OF px(2) q(1)] member[OF i(1) q(1,2)] by (simp add: r_def)
  next
    fix l
    assume "l \<in> set (pi_link_ids x)"
    then obtain q where "q \<in> set qs" "pg_physical q = Some r" "pg_link q = l" using phys_link[OF px(2)] by (auto simp: r_def)
    then show "l \<in> set (concat (map if_link_ids ms))" using joins by fastforce
  qed
  moreover have "ms \<noteq> []"
    using px(3) joins by (auto simp: r_def)
  ultimately show ?thesis by (simp add: covered_def Let_def ms_def[symmetric] r_def[symmetric])
qed

lemma planned_references:
  assumes "planned qs accs paccs owners d"
  shows "validate_physical_interface_references d = Inr ()"
proof (rule references_total)
  show "distinct (map pi_resource_id (dp_physical_interfaces d))" using phys_ids[OF assms] plannedD(9)[OF assms] by simp
qed (use planned_sorted[OF assms] planned_claimable[OF assms] planned_add_member[OF assms] planned_covered[OF assms] in blast)+

end
