(* ===== verification/Dut_Plan_Check.thy ===== *)
theory Dut_Plan_Check
  imports Dut_Consistency
begin

text \<open>
  The device half of a plan as a whole: its identities are unique, its components depend on
  configurations it holds, and so the constructor \<open>DutPlan\<close> accepts it.
\<close>

section \<open>The parts\<close>

lemma dut_partsE:
  assumes "dut_parts b = Inr d"
  obtains configs role_policies bindings declared
  where "endpoint_plans b = Inr (dp_endpoints d)" "link_plans b = Inr (dp_links d)"
    "interface_plans b (endpoint_specs b) = Inr (dp_interfaces d)"
    "physical_interface_plans b (endpoint_specs b) = Inr (dp_physical_interfaces d)"
    "adjacency_plans b (endpoint_specs b) = Inr (dp_adjacencies d)"
    "declared_policies b = Inr declared" "role_policy_plans b (endpoint_specs b) = Inr (role_policies, dp_policy_bindings d)"
    "dp_policies d = declared @ role_policies"
    "routing_config_plans b (endpoint_specs b) = Inr (dp_routing_configs d)"
    "component_plans (dp_routing_configs d) = Inr (dp_components d)" "openr_plans b = Inr (dp_openr d)"
  using assms by (auto simp: dut_parts_def Let_def rbind_eq_Inr split: prod.splits)

lemma rmap_checked:
  assumes "rmap f xs = Inr ys" "\<And>x y. f x = Inr y \<Longrightarrow> y = x"
  shows "ys = xs \<and> (\<forall>x \<in> set xs. f x = Inr x)"
  using assms by (induction xs arbitrary: ys) (auto simp: rbind_eq_Inr)

lemma parts_planned:
  assumes "well_bound b" "dut_parts b = Inr d"
  shows "\<exists>qs accs paccs owners. planned qs accs paccs owners d"
proof (rule dut_partsE[OF assms(2)])
  assume ep: "endpoint_plans b = Inr (dp_endpoints d)" and lk: "link_plans b = Inr (dp_links d)"
    and ifs: "interface_plans b (endpoint_specs b) = Inr (dp_interfaces d)"
    and phs: "physical_interface_plans b (endpoint_specs b) = Inr (dp_physical_interfaces d)"
  have names: "distinct (map bg_name (bt_device_groups b))" "distinct (map es_name (bt_endpoints b))"
    using assms(1) by (simp_all add: well_bound_def)
  obtain accs where accs: "rfold (add_interface (endpoint_specs b)) [] (bt_device_groups b) = Inr accs"
      "rmap mk_InterfacePlan (map snd accs) = Inr (dp_interfaces d)"
    using ifs by (auto simp: interface_plans_def rbind_eq_Inr)
  obtain paccs owners where paccs: "rfold (add_physical_interface (endpoint_specs b)) ([], []) (bt_device_groups b) = Inr (paccs, owners)"
      "rmap mk_PhysicalInterfacePlan (map snd paccs) = Inr (dp_physical_interfaces d)"
    using phs by (auto simp: physical_interface_plans_def rbind_eq_Inr)
  obtain qs where qs: "rmap (resolve_group (endpoint_specs b)) (bt_device_groups b) = Inr qs" "interfaces_inv qs accs"
    using interfaces_inv_fold[OF accs(1), of "[]"] names(1) by (auto simp: interfaces_inv_def)
  have "map pg_link qs = map (\<lambda>g. link_rid (bg_name g)) (bt_device_groups b)"
    by (rule rmap_project[OF qs(1) resolve_group_ok(1)])
  moreover have "distinct (map (\<lambda>g. link_rid (bg_name g)) (bt_device_groups b))"
    using names(1) by (auto simp: distinct_map inj_on_def)
  ultimately have links: "distinct (map pg_link qs)" by simp
  have "physical_inv ([] @ qs) paccs owners"
    by (rule physical_inv_fold[OF paccs(1) qs(1)]) (use links in \<open>simp_all add: physical_inv_def\<close>)
  moreover have "dp_interfaces d = map snd accs \<and> (\<forall>i \<in> set (map snd accs). mk_InterfacePlan i = Inr i)"
    by (rule rmap_checked[OF accs(2)]) (simp add: mk_InterfacePlan_def)
  moreover have "dp_physical_interfaces d = map snd paccs \<and> (\<forall>i \<in> set (map snd paccs). mk_PhysicalInterfacePlan i = Inr i)"
    by (rule rmap_checked[OF paccs(2)]) (simp add: mk_PhysicalInterfacePlan_def)
  moreover have "group_ok (dp_endpoints d) (dp_links d) q" if q: "q \<in> set qs" for q
    using rmap_member[OF qs(1) q] resolved_group_ok[OF assms(1) _ _ ep lk] by blast
  moreover have "map ep_resource_id (dp_endpoints d) = map (\<lambda>e. endpoint_rid (es_name e)) (bt_endpoints b)"
    by (rule rmap_project[OF ep[unfolded endpoint_plans_def] endpoint_plan_id])
  moreover have "distinct (map (\<lambda>e. endpoint_rid (es_name e)) (bt_endpoints b))"
    using names(2) by (auto simp: distinct_map inj_on_def)
  moreover have "map dl_resource_id (dp_links d) = map (\<lambda>g. link_rid (bg_name g)) (bt_device_groups b)"
    by (rule rmap_project[OF lk[unfolded link_plans_def]]) (use link_plan_ok in blast)
  ultimately have "planned qs accs paccs owners d"
    using qs(2) links \<open>distinct (map (\<lambda>g. link_rid (bg_name g)) (bt_device_groups b))\<close> by (simp add: planned_def)
  then show ?thesis by blast
qed

section \<open>Unique identities\<close>

definition of_kind :: "ResourceKind \<Rightarrow> ResourceId list \<Rightarrow> bool" where
  "of_kind k rs \<longleftrightarrow> distinct rs \<and> (\<forall>r \<in> set rs. ri_kind r = k)"

lemma of_kind_map:
  assumes "distinct (map name xs)" "map ident ys = map (\<lambda>x. \<lparr>ri_kind = k, ri_path = [name x]\<rparr>) xs"
  shows "of_kind k (map ident ys)"
proof -
  have "distinct (map (\<lambda>x. \<lparr>ri_kind = k, ri_path = [name x]\<rparr>) xs)"
    using assms(1) by (auto simp: distinct_map inj_on_def)
  then show ?thesis unfolding of_kind_def assms(2) by auto
qed

lemma distinct_filter_names: "distinct (map f xs) \<Longrightarrow> distinct (map f (filter P xs))"
  by (simp add: distinct_map_filter)

lemma policy_ids:
  assumes "well_bound b" "declared_policies b = Inr declared" "role_policy_plans b specs = Inr (role_policies, bindings)"
  shows "of_kind POLICY (map po_resource_id (declared @ role_policies))" "of_kind POLICY_BINDING (map pb_resource_id bindings)"
proof -
  obtain table where table: "rfold (bind_group b specs) ([], []) (bt_device_groups b) = Inr (table, bindings)"
      "role_policies = map snd table"
    using assms(3) by (auto simp: role_policy_plans_def rbind_eq_Inr)
  have groups: "distinct (map bg_name (bt_device_groups b))" using assms(1) by (simp add: well_bound_def)
  have ok: "policies_ok table" "bindings_of (bg_name ` set (bt_device_groups b)) (map pb_resource_id bindings)"
    using bind_groups_ok[OF table(1) _ groups] by (auto simp: policies_ok_def)
  show "of_kind POLICY_BINDING (map pb_resource_id bindings)" using ok(2) by (simp add: bindings_of_def of_kind_def)
  have role: "map po_resource_id role_policies = map role_policy_rid (map fst table)"
    using policies_ok_ids[OF ok(1)] table(2) by simp
  have "of_kind POLICY (map po_resource_id declared)"
    by (rule of_kind_map[where name = id and xs = "bt_policy_names b"])
       (use assms(1) declared_policy_ids[OF assms(2)] in \<open>simp_all add: well_bound_def\<close>)
  moreover have "distinct (map role_policy_rid (map fst table))"
    by (rule distinct_map_inj) (use ok(1) in \<open>simp_all add: policies_ok_def inj_def role_policy_rid_inj\<close>)
  moreover have "set (map po_resource_id declared) \<inter> set (map role_policy_rid (map fst table)) = {}"
    unfolding declared_policy_ids[OF assms(2)] by (auto simp: role_policy_rid_def)
  moreover have "\<forall>r \<in> set (map role_policy_rid (map fst table)). ri_kind r = POLICY" by (auto simp: role_policy_rid_def)
  ultimately show "of_kind POLICY (map po_resource_id (declared @ role_policies))"
    unfolding of_kind_def map_append role by auto
qed

lemma config_ids:
  assumes "well_bound b" "routing_config_plans b specs = Inr configs" "component_plans configs = Inr components"
  shows "of_kind ROUTING_CONFIG (map rc_resource_id configs)" "of_kind COMPONENT (map cp_resource_id components)"
proof -
  obtain css where css: "rmap (routing_config_plan b) (filter is_dut_endpoint (bt_endpoints b)) = Inr css" "configs = concat css"
    using assms(2) by (auto simp: routing_config_plans_def rbind_eq_Inr)
  have names: "distinct (map es_name (filter is_dut_endpoint (bt_endpoints b)))"
    using assms(1) by (simp add: well_bound_def distinct_filter_names)
  have d: "distinct (map rc_endpoint_id configs)"
    and e: "\<forall>c \<in> set configs. \<exists>n. rc_resource_id c = \<lparr>ri_kind = ROUTING_CONFIG, ri_path = [n]\<rparr> \<and> rc_endpoint_id c = endpoint_rid n"
    using routing_configs_distinct[OF css(1) names] css(2) by blast+
  have inj: "inj_on rc_resource_id (set configs)"
    using d e unfolding distinct_map inj_on_def by (metis ResourceId.select_convs(2))
  moreover have "distinct configs" using d by (simp add: distinct_map)
  ultimately show "of_kind ROUTING_CONFIG (map rc_resource_id configs)"
    using e by (auto simp: of_kind_def distinct_map)
  have ids: "map cp_resource_id components
      = map (\<lambda>c. \<lparr>ri_kind = COMPONENT, ri_path = ri_path (rc_endpoint_id c) @ [component_role_value ROUTING_CONTROL_PLANE]\<rparr>) configs"
    by (rule rmap_project[OF assms(3)[unfolded component_plans_def]]) (use component_plan_ok in blast)
  have "inj_on (\<lambda>c. \<lparr>ri_kind = COMPONENT, ri_path = ri_path (rc_endpoint_id c) @ [component_role_value ROUTING_CONTROL_PLANE]\<rparr>)
      (set configs)"
    using d e unfolding distinct_map inj_on_def
    by (metis ResourceId.select_convs(2) append1_eq_conv)
  with \<open>distinct configs\<close> have "distinct (map cp_resource_id components)" unfolding ids by (simp add: distinct_map)
  then show "of_kind COMPONENT (map cp_resource_id components)" unfolding of_kind_def ids by auto
qed

lemma interface_ids:
  assumes "planned qs accs paccs owners d"
  shows "of_kind INTERFACE (map if_resource_id (dp_interfaces d))"
proof -
  have "map if_resource_id (dp_interfaces d)
      = map (\<lambda>k. \<lparr>ri_kind = INTERFACE, ri_path = [fst k, fst (snd k), afi_value (snd (snd k))]\<rparr>) (map fst accs)"
    using plannedD(2)[OF assms] plannedD(8)[OF assms] by (auto simp: acc_ok_def)
  moreover have "distinct (map (\<lambda>k. \<lparr>ri_kind = INTERFACE, ri_path = [fst k, fst (snd k), afi_value (snd (snd k))]\<rparr>) (map fst accs))"
    by (rule distinct_map_inj[OF plannedD(6)[OF assms]]) (auto simp: inj_def)
  ultimately show ?thesis by (auto simp: of_kind_def)
qed

lemma physical_ids:
  assumes "planned qs accs paccs owners d"
  shows "of_kind PHYSICAL_INTERFACE (map pi_resource_id (dp_physical_interfaces d))"
proof -
  have "ri_kind r = PHYSICAL_INTERFACE" if "(r, x) \<in> set paccs" for r x
    using plannedD(11)[OF assms that] by (auto simp: phys_ok_def)
  then show ?thesis using phys_ids[OF assms] plannedD(9)[OF assms] by (auto simp: of_kind_def)
qed

definition dut_segments :: "DutPlan \<Rightarrow> (ResourceKind \<times> ResourceId list) list" where
  "dut_segments d =
     [(ENDPOINT, map ep_resource_id (dp_endpoints d)), (LINK, map dl_resource_id (dp_links d)),
      (PHYSICAL_INTERFACE, map pi_resource_id (dp_physical_interfaces d)), (INTERFACE, map if_resource_id (dp_interfaces d)),
      (BGP_ADJACENCY, map ba_resource_id (dp_adjacencies d)), (POLICY, map po_resource_id (dp_policies d)),
      (POLICY_BINDING, map pb_resource_id (dp_policy_bindings d)), (ROUTING_CONFIG, map rc_resource_id (dp_routing_configs d)),
      (COMPONENT, map cp_resource_id (dp_components d)), (OPENR, map or_resource_id (dp_openr d))]"

lemma dut_segments_ids: "concat (map snd (dut_segments d)) = dut_resource_ids d"
  by (simp only: dut_segments_def dut_resource_ids_def list.map snd_conv concat.simps append_Nil2)

lemma parts_segments:
  assumes "well_bound b" "dut_parts b = Inr d"
  shows "\<forall>s \<in> set (dut_segments d). of_kind (fst s) (snd s)"
proof (rule dut_partsE[OF assms(2)])
  fix declared role_policies
  assume ep: "endpoint_plans b = Inr (dp_endpoints d)" and lk: "link_plans b = Inr (dp_links d)"
    and ad: "adjacency_plans b (endpoint_specs b) = Inr (dp_adjacencies d)"
    and po: "declared_policies b = Inr declared"
      "role_policy_plans b (endpoint_specs b) = Inr (role_policies, dp_policy_bindings d)" "dp_policies d = declared @ role_policies"
    and rc: "routing_config_plans b (endpoint_specs b) = Inr (dp_routing_configs d)"
      "component_plans (dp_routing_configs d) = Inr (dp_components d)" and orp: "openr_plans b = Inr (dp_openr d)"
  have names: "distinct (map bg_name (bt_device_groups b))" "distinct (map es_name (bt_endpoints b))"
    using assms(1) by (simp_all add: well_bound_def)
  obtain qs accs paccs owners where pl: "planned qs accs paccs owners d" using parts_planned[OF assms] by blast
  obtain ass where ass: "rmap (group_adjacencies (endpoint_specs b)) (bt_device_groups b) = Inr ass" "dp_adjacencies d = concat ass"
    using ad by (auto simp: adjacency_plans_def rbind_eq_Inr)
  have "of_kind ENDPOINT (map ep_resource_id (dp_endpoints d))"
    by (rule of_kind_map[OF names(2) rmap_project[OF ep[unfolded endpoint_plans_def] endpoint_plan_id]])
  moreover have "of_kind LINK (map dl_resource_id (dp_links d))"
    using of_kind_map[OF names(1) rmap_project[OF lk[unfolded link_plans_def]]] link_plan_ok by blast
  moreover have "of_kind OPENR (map or_resource_id (dp_openr d))"
    by (rule of_kind_map[OF distinct_filter_names[OF names(2)] rmap_project[OF orp[unfolded openr_plans_def] openr_plan_id]])
  moreover have "of_kind BGP_ADJACENCY (map ba_resource_id (dp_adjacencies d))"
    using adjacency_ids_distinct[OF ass(1) names(1)] by (auto simp: of_kind_def ass(2))
  ultimately show ?thesis
    using policy_ids[OF assms(1) po(1,2)] config_ids[OF assms(1) rc] interface_ids[OF pl] physical_ids[OF pl]
    by (simp add: dut_segments_def po(3))
qed

lemma parts_unique:
  assumes "well_bound b" "dut_parts b = Inr d"
  shows "distinct (dut_resource_ids d)"
    and "\<forall>r \<in> set (dut_resource_ids d). ri_kind r \<in> fst ` set (dut_segments d)"
proof -
  note each = parts_segments[OF assms]
  have "distinct (concat (map snd (dut_segments d)))"
    by (rule distinct_tagged[where name = fst and tag = ri_kind]) (use each in \<open>auto simp: of_kind_def dut_segments_def\<close>)
  then show "distinct (dut_resource_ids d)" by (simp only: dut_segments_ids)
  show "\<forall>r \<in> set (dut_resource_ids d). ri_kind r \<in> fst ` set (dut_segments d)"
    unfolding dut_segments_ids[symmetric] using each by (fastforce simp: of_kind_def)
qed

section \<open>Components\<close>

lemma parts_components:
  assumes "well_bound b" "dut_parts b = Inr d"
  shows "validate_component_references d = Inr ()"
proof (rule dut_partsE[OF assms(2)])
  assume cp: "component_plans (dp_routing_configs d) = Inr (dp_components d)"
  have "distinct (map rc_resource_id (dp_routing_configs d))"
    using parts_unique(1)[OF assms] by (simp add: dut_resource_ids_def)
  then have dist: "distinct (map fst (map (\<lambda>c. (rc_resource_id c, rc_endpoint_id c)) (dp_routing_configs d)))"
    by (simp add: comp_def)
  have "validate_component_dependency (dependency_table d) c r = Inr ()"
    if c: "c \<in> set (dp_components d)" "r \<in> set (cp_depends_on c)" for c r
  proof -
    obtain rc where rc: "rc \<in> set (dp_routing_configs d)" "component_plan rc = Inr c"
      using rmap_member[OF cp[unfolded component_plans_def] c(1)] by blast
    have r: "r = rc_resource_id rc" "cp_endpoint_id c = rc_endpoint_id rc"
      using component_plan_ok[OF rc(2)] c(2) by simp_all
    have "dict_get (dependency_table d) r = Some (rc_endpoint_id rc)"
      using map_of_is_SomeI[OF dist, of r "rc_endpoint_id rc"] rc(1)
      by (simp add: dependency_table_def map_add_def r(1) split: option.split)
    then show ?thesis by (simp add: validate_component_dependency_def r(2))
  qed
  then show ?thesis by (simp add: validate_component_references_def)
qed

section \<open>The constructor accepts the parts\<close>

lemma routing_config_made: "routing_config_plan b e = Inr cs \<Longrightarrow> c \<in> set cs \<Longrightarrow> mk_RoutingConfigPlan c = Inr c"
  by (auto simp: routing_config_plan_def rbind_eq_Inr split: list.splits option.splits if_splits)
     (auto simp: mk_RoutingConfigPlan_def)

lemma component_made: "component_plan c = Inr p \<Longrightarrow> mk_ComponentPlan p = Inr p"
  by (auto simp: component_plan_def rbind_eq_Inr) (auto simp: mk_ComponentPlan_def)

lemma parts_made:
  assumes "dut_parts b = Inr d"
  shows "list_all (\<lambda>x. mk_PhysicalInterfacePlan x = Inr x) (dp_physical_interfaces d)"
    "list_all (\<lambda>x. mk_InterfacePlan x = Inr x) (dp_interfaces d)"
    "list_all (\<lambda>x. mk_RoutingConfigPlan x = Inr x) (dp_routing_configs d)"
    "list_all (\<lambda>x. mk_ComponentPlan x = Inr x) (dp_components d)"
proof -
  show "list_all (\<lambda>x. mk_PhysicalInterfacePlan x = Inr x) (dp_physical_interfaces d)"
  proof (rule dut_partsE[OF assms])
    assume "physical_interface_plans b (endpoint_specs b) = Inr (dp_physical_interfaces d)"
    then obtain ps where ps: "rmap mk_PhysicalInterfacePlan ps = Inr (dp_physical_interfaces d)"
      by (auto simp: physical_interface_plans_def rbind_eq_Inr)
    have "dp_physical_interfaces d = ps \<and> (\<forall>x \<in> set ps. mk_PhysicalInterfacePlan x = Inr x)"
      by (rule rmap_checked[OF ps]) (simp add: mk_PhysicalInterfacePlan_def)
    then show ?thesis by (simp add: list_all_iff)
  qed
  show "list_all (\<lambda>x. mk_InterfacePlan x = Inr x) (dp_interfaces d)"
  proof (rule dut_partsE[OF assms])
    assume "interface_plans b (endpoint_specs b) = Inr (dp_interfaces d)"
    then obtain xs where xs: "rmap mk_InterfacePlan xs = Inr (dp_interfaces d)"
      by (auto simp: interface_plans_def rbind_eq_Inr)
    have "dp_interfaces d = xs \<and> (\<forall>x \<in> set xs. mk_InterfacePlan x = Inr x)"
      by (rule rmap_checked[OF xs]) (simp add: mk_InterfacePlan_def)
    then show ?thesis by (simp add: list_all_iff)
  qed
  show "list_all (\<lambda>x. mk_RoutingConfigPlan x = Inr x) (dp_routing_configs d)"
  proof (rule dut_partsE[OF assms])
    assume "routing_config_plans b (endpoint_specs b) = Inr (dp_routing_configs d)"
    then obtain css where css: "rmap (routing_config_plan b) (filter is_dut_endpoint (bt_endpoints b)) = Inr css"
        "dp_routing_configs d = concat css"
      by (auto simp: routing_config_plans_def rbind_eq_Inr)
    have "mk_RoutingConfigPlan c = Inr c" if "c \<in> set (concat css)" for c
      using that rmap_member[OF css(1)] routing_config_made by fastforce
    then show ?thesis by (simp add: list_all_iff css(2))
  qed
  show "list_all (\<lambda>x. mk_ComponentPlan x = Inr x) (dp_components d)"
  proof (rule dut_partsE[OF assms])
    assume "component_plans (dp_routing_configs d) = Inr (dp_components d)"
    from rmap_member[OF this[unfolded component_plans_def]] show ?thesis
      unfolding list_all_iff using component_made by blast
  qed
qed

lemma parts_accepted:
  assumes "well_bound b" "dut_parts b = Inr d"
  shows "dut_made d"
proof -
  obtain qs accs paccs owners where "planned qs accs paccs owners d" using parts_planned[OF assms] by blast
  then have "mk_DutPlan d = Inr d"
    using parts_unique(1)[OF assms] parts_components[OF assms] planned_references by (simp add: mk_DutPlan_ok)
  then show ?thesis using parts_made[OF assms(2)] by (simp add: dut_made_def)
qed

section \<open>An example\<close>

definition demo_config :: RoutingDeviceConfig where
  "demo_config = default_device_config\<lparr>dc_update_group_enable := True, dc_openr_mode := OPENR_MODE_STANDALONE\<rparr>"

definition demo_group :: BoundDeviceGroup where
  "demo_group = \<lparr>bg_name = ''dg'', bg_role = ''spine'', bg_afi = ''v6'', bg_peer_count = 1, bg_a_endpoint = ''dut'',
     bg_z_endpoint = ''ixia'', bg_dut_neighbor_absent = False, bg_a_interface = Some ''Ethernet1'', bg_z_interface = None,
     bg_a_ips = [''::1''], bg_z_ips = [''::2''], bg_peer_cidrs = [Some ''::/64''], bg_routing_driver = Some ''bgpcpp'',
     bg_parent_network = None, bg_local_asn = Some 65000, bg_remote_asn = Some 65001,
     bg_port_assignment = Some \<lparr>pa_logical_role = ''uplink'', pa_dut_interface = ''Ethernet1'', pa_ixia_port = ''1/1'',
       pa_physical_inventory_index = 0, pa_reuse_group = None,
       pa_profile = \<lparr>plr_aggregate_gbps = 100, plr_lane_count = 4\<rparr>, pa_endpoint_label_style = DUT_INTERFACE\<rparr>,
     bg_peer_relationship = Some EXTERNAL\<rparr>"

definition demo_bound :: "BoundDeviceGroup BoundTopology" where
  "demo_bound = \<lparr>
     bt_endpoints = [\<lparr>es_name = ''dut'', es_role = ''dut'', es_kind = ''dut'', es_required_os = Some ''eos'', es_setup_mode = ''full''\<rparr>,
       \<lparr>es_name = ''ixia'', es_role = ''ixia'', es_kind = ''ixia'', es_required_os = None, es_setup_mode = ''full''\<rparr>],
     bt_policy_names = [''in''], bt_logical_device_config = demo_config, bt_device_groups = [demo_group],
     bt_device_config = None, bt_physical_inventory = None, bt_resolved_endpoints = [], bt_endpoint_os = [],
     bt_endpoint_network_roles = [(''dut'', EB)],
     bt_routing_configs = [(''dut'', \<lparr>br_routing_driver = ''bgpcpp'', br_source = Some ''golden''\<rparr>)],
     bt_routing_drivers = []\<rparr>"

section \<open>Property\<close>

text \<open>
  C19. The device plan the planner assembles from a well bound topology is always accepted: once the
  parts have been built, no check of the plan's constructor can fail. Identities are unique across
  the ten kinds of resources, physical interfaces own their links and connections alone and are
  exactly divided among the logical interfaces, addresses have their interface's family, and
  components depend on configurations of their own endpoint.
\<close>

theorem planned_devices_consistent:
  assumes "well_bound b"
  shows "plan_devices b = dut_parts b \<and> (\<forall>d. plan_devices b = Inr d \<longrightarrow> dut_made d)"
proof (cases "dut_parts b")
  case (Inr d)
  then show ?thesis using parts_accepted[OF assms Inr] by (simp add: plan_devices_def dut_made_def)
qed (simp add: plan_devices_def)

lemma demo_parts:
  "rbind (dut_parts demo_bound) (\<lambda>d. Inr (map if_addresses (dp_interfaces d), map po_logical_name (dp_policies d)))
     = Inr ([[''::1/64'']], [''in'', ''eb_external_import'', ''eb_external_export''])"
  by code_simp

theorem planned_devices_witness:
  "\<exists>d. plan_devices demo_bound = Inr d \<and> dut_made d \<and> map if_addresses (dp_interfaces d) = [[''::1/64'']]
     \<and> map po_logical_name (dp_policies d) = [''in'', ''eb_external_import'', ''eb_external_export'']"
proof -
  have "well_bound demo_bound" by code_simp
  note consistent = planned_devices_consistent[OF this]
  obtain d where d: "dut_parts demo_bound = Inr d" "map if_addresses (dp_interfaces d) = [[''::1/64'']]"
      "map po_logical_name (dp_policies d) = [''in'', ''eb_external_import'', ''eb_external_export'']"
    using demo_parts by (auto simp: rbind_eq_Inr)
  with consistent show ?thesis by auto
qed

end
