(* ===== verification/Compile_Report.thy ===== *)
theory Compile_Report
  imports Resource_Ids "HOL-Library.Multiset"
begin

text \<open>
  The report of a compilation (\<open>abstractions/compilation/report.py\<close>): what became of every resource
  of a plan and which renderer produced each lane, and the accounting that a compiler makes before
  it hands artifacts out.
\<close>

section \<open>Reports\<close>

datatype ResourceDisposition = EMITTED | RESOURCE_BORROWED | RESOURCE_SKIPPED | UNSUPPORTED

datatype RendererLane = DUT_LANE | TRAFFIC_GENERATOR_LANE | ARTIFACT_ADAPTER_LANE

datatype RendererDisposition = NATIVE | COMPATIBILITY_DELEGATED

abbreviation CompileReportValidationError :: exn_class where
  "CompileReportValidationError \<equiv> UserExn ''CompileReportValidationError'' ValueError"

abbreviation UnsupportedRequiredIntentError :: exn_class where
  "UnsupportedRequiredIntentError \<equiv> UserExn ''UnsupportedRequiredIntentError'' ValueError"

definition has_reason :: "string option \<Rightarrow> bool" where
  "has_reason reason = (case reason of None \<Rightarrow> False | Some s \<Rightarrow> strip s \<noteq> [])"

record ResourceReport =
  rr_resource_id :: ResourceId
  rr_required :: bool
  rr_disposition :: ResourceDisposition
  rr_reason :: "string option"

definition mk_ResourceReport :: "ResourceReport \<Rightarrow> ResourceReport result" where
  "mk_ResourceReport r =
     rbind (raise_if (rr_disposition r \<noteq> EMITTED \<and> \<not> has_reason (rr_reason r))
              (value_error ''resource requires a reason'')) (\<lambda>_. Inr r)"

record RendererReport =
  rn_lane :: RendererLane
  rn_disposition :: RendererDisposition
  rn_reason :: "string option"

definition mk_RendererReport :: "RendererReport \<Rightarrow> RendererReport result" where
  "mk_RendererReport r =
     rbind (raise_if (rn_disposition r = COMPATIBILITY_DELEGATED \<and> \<not> has_reason (rn_reason r))
              (value_error ''compatibility-delegated renderer requires a reason'')) (\<lambda>_. Inr r)"

text \<open>
  \<open>_duplicate_resource_ids\<close> and \<open>_duplicate_renderer_values\<close>, which are the same loop: the values that
  occur again, each once, in the order in which they do.
\<close>

fun duplicates_loop :: "'a list \<Rightarrow> 'a list \<Rightarrow> 'a list \<Rightarrow> 'a list" where
  "duplicates_loop seen duplicates [] = duplicates"
| "duplicates_loop seen duplicates (x # xs) =
     duplicates_loop (x # seen)
       (if x \<in> set seen \<and> x \<notin> set duplicates then duplicates @ [x] else duplicates) xs"

definition duplicate_values :: "'a list \<Rightarrow> 'a list" where
  "duplicate_values xs = duplicates_loop [] [] xs"

record CompileReport =
  cr_resource_reports :: "ResourceReport list"
  cr_renderer_reports :: "RendererReport list"

definition mk_CompileReport :: "CompileReport \<Rightarrow> CompileReport result" where
  "mk_CompileReport c =
     rbind (raise_if (duplicate_values (map rr_resource_id (cr_resource_reports c)) \<noteq> [])
              (Exn CompileReportValidationError ''resource report contains duplicate IDs'')) (\<lambda>_.
     rbind (raise_if (duplicate_values (map rn_lane (cr_renderer_reports c)) \<noteq> [])
              (Exn CompileReportValidationError ''renderer report contains duplicate lanes'')) (\<lambda>_. Inr c))"

definition with_resource_reports :: "CompileReport \<Rightarrow> ResourceReport list \<Rightarrow> CompileReport result" where
  "with_resource_reports c reports =
     mk_CompileReport (c\<lparr>cr_resource_reports := cr_resource_reports c @ reports\<rparr>)"

definition with_renderer_reports :: "CompileReport \<Rightarrow> RendererReport list \<Rightarrow> CompileReport result" where
  "with_renderer_reports c reports =
     mk_CompileReport (c\<lparr>cr_renderer_reports := cr_renderer_reports c @ reports\<rparr>)"

text \<open>The two halves of \<open>validate\<close> make the same comparison, of identities and of lanes.\<close>

definition validate_accounting :: "string \<Rightarrow> 'a list \<Rightarrow> 'a list \<Rightarrow> unit result" where
  "validate_accounting subject expected actual =
     rbind (raise_if (duplicate_values expected \<noteq> [])
              (Exn CompileReportValidationError (''expected '' @ subject @ ''s contain duplicates''))) (\<lambda>_.
     raise_if (filter (\<lambda>x. x \<notin> set actual) expected \<noteq> [] \<or> filter (\<lambda>x. x \<notin> set expected) actual \<noteq> [])
       (Exn CompileReportValidationError (''compile report '' @ subject @ '' accounting is incomplete'')))"

definition validate_report :: "CompileReport \<Rightarrow> ResourceId list \<Rightarrow> RendererLane list \<Rightarrow> unit result" where
  "validate_report c ids lanes =
     rbind (validate_accounting ''resource'' ids (map rr_resource_id (cr_resource_reports c))) (\<lambda>_.
     if lanes = [] then Inr ()
     else validate_accounting ''renderer'' lanes (map rn_lane (cr_renderer_reports c)))"

definition unsupported_detail :: "ResourceReport \<Rightarrow> string" where
  "unsupported_detail r =
     rid_str (rr_resource_id r) @ '' ('' @ (case rr_reason r of None \<Rightarrow> ''None'' | Some s \<Rightarrow> s) @ '')''"

definition assert_renderable :: "CompileReport \<Rightarrow> ResourceId list \<Rightarrow> RendererLane list \<Rightarrow> unit result" where
  "assert_renderable c ids lanes =
     rbind (validate_report c ids lanes) (\<lambda>_.
     let unsupported = filter (\<lambda>r. rr_required r \<and> rr_disposition r = UNSUPPORTED) (cr_resource_reports c)
     in raise_if (unsupported \<noteq> [])
          (Exn UnsupportedRequiredIntentError
             (''required compilation resources are unsupported: '' @ join '', '' (map unsupported_detail unsupported))))"

section \<open>Lemmas\<close>

lemma duplicates_loop_set:
  "set (duplicates_loop seen dups xs) =
     set dups \<union> {x. x \<in> set xs \<and> x \<in> set seen} \<union> {x. Suc 0 < count (mset xs) x}"
proof (induction seen dups xs rule: duplicates_loop.induct)
  case (2 seen dups x xs)
  have "y \<in> set xs \<longleftrightarrow> 0 < count (mset xs) y" for y by simp
  then show ?case using 2 by (auto simp del: count_greater_zero_iff)
qed simp

lemma duplicate_values_set: "set (duplicate_values xs) = {x. Suc 0 < count (mset xs) x}"
  by (simp add: duplicate_values_def duplicates_loop_set)

lemma duplicate_values_empty [simp]: "duplicate_values xs = [] \<longleftrightarrow> distinct xs"
proof -
  have "duplicate_values xs = [] \<longleftrightarrow> (\<forall>x. count (mset xs) x \<le> 1)"
    unfolding set_empty[symmetric] duplicate_values_set by (auto simp: not_less)
  also have "\<dots> \<longleftrightarrow> distinct xs"
    by (auto simp: distinct_count_atmost_1 count_eq_zero_iff le_Suc_eq)
  finally show ?thesis .
qed

lemma validate_accounting_ok:
  assumes "distinct actual"
  shows "validate_accounting subject expected actual = Inr () \<longleftrightarrow> mset actual = mset expected"
proof -
  have "validate_accounting subject expected actual = Inr () \<longleftrightarrow> distinct expected \<and> set actual = set expected"
    by (auto simp: validate_accounting_def rbind_eq_Inr raise_if_def filter_empty_conv)
  then show ?thesis
    using assms set_eq_iff_mset_eq_distinct mset_eq_imp_distinct_iff mset_eq_setD by metis
qed

lemma mk_CompileReport_ok:
  "mk_CompileReport c = Inr d \<longleftrightarrow>
     d = c \<and> distinct (map rr_resource_id (cr_resource_reports c)) \<and> distinct (map rn_lane (cr_renderer_reports c))"
  by (auto simp: mk_CompileReport_def rbind_eq_Inr raise_if_def)

section \<open>Properties\<close>

text \<open>
  A report is renderable exactly when it accounts for the plan: every expected resource has one
  report and nothing else has, the same for the expected lanes when there are any, and no resource
  that is required is unsupported. What is optional may be unsupported, with the reason the report
  must give.
\<close>

theorem renderable_iff_accounted:
  assumes "mk_CompileReport c = Inr c"
  shows "assert_renderable c ids lanes = Inr () \<longleftrightarrow>
     mset (map rr_resource_id (cr_resource_reports c)) = mset ids
     \<and> (lanes = [] \<or> mset (map rn_lane (cr_renderer_reports c)) = mset lanes)
     \<and> (\<forall>r \<in> set (cr_resource_reports c). rr_required r \<longrightarrow> rr_disposition r \<noteq> UNSUPPORTED)"
proof -
  have d: "distinct (map rr_resource_id (cr_resource_reports c))" "distinct (map rn_lane (cr_renderer_reports c))"
    using assms by (simp_all add: mk_CompileReport_ok)
  show ?thesis
    by (auto simp: assert_renderable_def validate_report_def rbind_eq_Inr raise_if_def filter_empty_conv Let_def
        validate_accounting_ok[OF d(1)] validate_accounting_ok[OF d(2)] simp del: mset_map)
qed

definition demo_report :: "ResourceDisposition \<Rightarrow> CompileReport" where
  "demo_report d = \<lparr>cr_resource_reports = [\<lparr>rr_resource_id = \<lparr>ri_kind = OPENR, ri_path = [''dut'']\<rparr>,
     rr_required = True, rr_disposition = d, rr_reason = Some ''no driver''\<rparr>], cr_renderer_reports = []\<rparr>"

theorem renderable_witness:
  "assert_renderable (demo_report EMITTED) [\<lparr>ri_kind = OPENR, ri_path = [''dut'']\<rparr>] [] = Inr ()
   \<and> assert_renderable (demo_report UNSUPPORTED) [\<lparr>ri_kind = OPENR, ri_path = [''dut'']\<rparr>] []
     = Inl (Exn UnsupportedRequiredIntentError ''required compilation resources are unsupported: openr:dut (no driver)'')"
proof
  have "mk_CompileReport (demo_report EMITTED) = Inr (demo_report EMITTED)"
    by (simp add: mk_CompileReport_ok demo_report_def)
  from renderable_iff_accounted[OF this]
  show "assert_renderable (demo_report EMITTED) [\<lparr>ri_kind = OPENR, ri_path = [''dut'']\<rparr>] [] = Inr ()"
    by (simp add: demo_report_def)
qed code_simp

end
