(* ===== verification/Lifecycle_Plan.thy ===== *)
theory Lifecycle_Plan
  imports Resource_Ids "HOL-Library.Multiset"
begin

text \<open>
  Lifecycle metadata of the topology compiler (\<open>abstractions/compilation/lifecycle.py\<close>): validation
  of an operation, the stable dependency order of a plan, the store of first snapshots, and the
  clean-up that runs the reversed order and collects failures.

  \<open>heapq\<close> is modelled by what it promises: a heap is the sorted list of its elements. The dictionaries
  of the ordering loop hold every identity of the plan, and the checks before the loop make every
  identity it looks up one of them.
\<close>

section \<open>Operations\<close>

datatype OwnershipMode = OWNED | BORROWED | SNAPSHOT_RESTORED

datatype RestorationMode = INVERSE | NO_RESTORATION | FIRST_SNAPSHOT

datatype ReadinessMode = NO_READINESS | ACKNOWLEDGED | EXACT_READBACK | HEALTH_CHECK

abbreviation LifecycleValidationError :: exn_class where
  "LifecycleValidationError \<equiv> UserExn ''LifecycleValidationError'' ValueError"

record LifecycleOperation =
  lo_resource_id :: ResourceId
  lo_ownership :: OwnershipMode
  lo_restoration :: RestorationMode
  lo_readiness :: ReadinessMode
  lo_dependencies :: "ResourceId list"
  lo_state_changing :: bool

definition expected_restoration :: "LifecycleOperation \<Rightarrow> RestorationMode" where
  "expected_restoration op =
     (if \<not> lo_state_changing op \<or> lo_ownership op = BORROWED then NO_RESTORATION
      else if lo_ownership op = SNAPSHOT_RESTORED then FIRST_SNAPSHOT
      else INVERSE)"

fun check_dependencies :: "ResourceId \<Rightarrow> ResourceId list \<Rightarrow> ResourceId list \<Rightarrow> unit result" where
  "check_dependencies resource seen [] = Inr ()"
| "check_dependencies resource seen (d # ds) =
     (if d = resource then Inl (Exn LifecycleValidationError ''cannot depend on itself'')
      else if d \<in> set seen then Inl (Exn LifecycleValidationError ''repeats dependency'')
      else check_dependencies resource (d # seen) ds)"

definition mk_LifecycleOperation :: "LifecycleOperation \<Rightarrow> LifecycleOperation result" where
  "mk_LifecycleOperation op =
     rbind (check_dependencies (lo_resource_id op) [] (lo_dependencies op)) (\<lambda>_.
     rbind (raise_if (lo_ownership op = BORROWED \<and> lo_state_changing op)
              (Exn LifecycleValidationError ''borrowed resource cannot change state'')) (\<lambda>_.
     rbind (raise_if (lo_restoration op \<noteq> expected_restoration op)
              (Exn LifecycleValidationError ''requires restoration'')) (\<lambda>_. Inr op)))"

definition teardown_eligible :: "LifecycleOperation \<Rightarrow> bool" where
  "teardown_eligible op \<longleftrightarrow>
     lo_state_changing op \<and> lo_ownership op \<in> {OWNED, SNAPSHOT_RESTORED}"

section \<open>The stable dependency order\<close>

abbreviation heapify :: "nat list \<Rightarrow> nat list" where
  "heapify \<equiv> sort"

abbreviation heappush :: "nat \<Rightarrow> nat list \<Rightarrow> nat list" where
  "heappush \<equiv> insort"

definition declaration_index :: "LifecycleOperation list \<Rightarrow> (ResourceId, nat) dict" where
  "declaration_index ops = map (\<lambda>(i, op). (lo_resource_id op, i)) (enumerate 0 ops)"

definition indegrees :: "LifecycleOperation list \<Rightarrow> (ResourceId, int) dict" where
  "indegrees ops = map (\<lambda>op. (lo_resource_id op, int (length (lo_dependencies op)))) ops"

definition add_dependents ::
    "(ResourceId, ResourceId list) dict \<Rightarrow> LifecycleOperation \<Rightarrow> (ResourceId, ResourceId list) dict" where
  "add_dependents d op = foldl (\<lambda>d dep. dict_append dep (lo_resource_id op) d) d (lo_dependencies op)"

definition dependents_of :: "LifecycleOperation list \<Rightarrow> (ResourceId, ResourceId list) dict" where
  "dependents_of ops = foldl add_dependents (map (\<lambda>op. (lo_resource_id op, [])) ops) ops"

fun release ::
    "(ResourceId, nat) dict \<Rightarrow> ResourceId list \<Rightarrow> (ResourceId, int) dict \<Rightarrow> nat list
     \<Rightarrow> (ResourceId, int) dict \<times> nat list" where
  "release index [] indegree ready = (indegree, ready)"
| "release index (d # ds) indegree ready =
     (let n = dict_get_or indegree d 0 - 1
      in release index ds (dict_set d n indegree)
           (if n = 0 then heappush (dict_get_or index d 0) ready else ready))"

definition blocked :: "(ResourceId, int) dict \<Rightarrow> nat" where
  "blocked indegree = length (filter (\<lambda>(_, n). n > 0) indegree)"

lemma blocked_dict_set:
  "blocked (dict_set k n d) + (if dict_get_or d k 0 > 0 then 1 else 0) = blocked d + (if n > 0 then 1 else 0)"
  by (induction d) (auto simp: blocked_def dict_get_or_def split: if_splits)

lemma release_decreases:
  "release index ds indegree ready = (indegree', ready') \<Longrightarrow>
     length ready' + blocked indegree' \<le> length ready + blocked indegree"
proof (induction index ds indegree ready rule: release.induct)
  case (2 index d ds indegree ready)
  let ?n = "dict_get_or indegree d 0 - 1"
  have "length ready' + blocked indegree'
      \<le> length (if ?n = 0 then heappush (dict_get_or index d 0) ready else ready) + blocked (dict_set d ?n indegree)"
    using 2 by (simp add: Let_def)
  then show ?case
    using blocked_dict_set[of d ?n indegree] by (auto split: if_splits)
qed simp

function order_loop ::
    "LifecycleOperation list \<Rightarrow> (ResourceId, nat) dict \<Rightarrow> (ResourceId, ResourceId list) dict
     \<Rightarrow> (ResourceId, int) dict \<Rightarrow> nat list \<Rightarrow> LifecycleOperation list
     \<Rightarrow> LifecycleOperation list \<times> (ResourceId, int) dict" where
  "order_loop ops index dependents indegree [] ordered = (ordered, indegree)"
| "order_loop ops index dependents indegree (i # ready) ordered =
     (let op = ops ! i;
          (indegree', ready') = release index (dict_get_or dependents (lo_resource_id op) []) indegree ready
      in order_loop ops index dependents indegree' ready' (ordered @ [op]))"
  by pat_completeness auto
termination
  by (relation "measure (\<lambda>(_, _, _, indegree, ready, _). length ready + blocked indegree)")
     (auto dest!: release_decreases[OF sym])

definition stable_dependency_order :: "LifecycleOperation list \<Rightarrow> LifecycleOperation list result" where
  "stable_dependency_order ops =
     (let index = declaration_index ops;
          indegree = indegrees ops;
          ready = heapify (map (\<lambda>op. dict_get_or index (lo_resource_id op) 0)
                     (filter (\<lambda>op. dict_get_or indegree (lo_resource_id op) 0 = 0) ops));
          ordered = fst (order_loop ops index (dependents_of ops) indegree ready [])
      in if length ordered \<noteq> length ops
         then Inl (Exn LifecycleValidationError ''lifecycle dependency cycle leaves unresolved resources'')
         else Inr ordered)"

record LifecyclePlan =
  lp_operations :: "LifecycleOperation list"
  lp_ordered_setup :: "LifecycleOperation list"

definition mk_LifecyclePlan :: "LifecycleOperation list \<Rightarrow> LifecyclePlan result" where
  "mk_LifecyclePlan ops =
     rbind (raise_if (\<not> distinct (map lo_resource_id ops))
              (Exn LifecycleValidationError ''duplicate lifecycle resource ID'')) (\<lambda>_.
     rbind (raise_if (\<exists>op \<in> set ops. \<exists>d \<in> set (lo_dependencies op). d \<notin> set (map lo_resource_id ops))
              (Exn LifecycleValidationError ''missing lifecycle dependencies'')) (\<lambda>_.
     rbind (stable_dependency_order ops) (\<lambda>ordered.
     Inr \<lparr>lp_operations = ops, lp_ordered_setup = ordered\<rparr>)))"

definition setup_order :: "LifecyclePlan \<Rightarrow> LifecycleOperation list" where
  "setup_order plan = lp_ordered_setup plan"

definition teardown_order :: "LifecyclePlan \<Rightarrow> LifecycleOperation list" where
  "teardown_order plan = filter teardown_eligible (rev (lp_ordered_setup plan))"

section \<open>Snapshots\<close>

abbreviation MissingSnapshotError :: exn_class where
  "MissingSnapshotError \<equiv> UserExn ''MissingSnapshotError'' (UserExn ''LookupError'' Exception)"

type_synonym 's snapshot_store = "(ResourceId, 's) dict"

definition capture_once :: "ResourceId \<Rightarrow> 's \<Rightarrow> 's snapshot_store \<Rightarrow> 's \<times> 's snapshot_store" where
  "capture_once r snapshot store =
     (case dict_get store r of Some first \<Rightarrow> (first, store) | None \<Rightarrow> (snapshot, dict_set r snapshot store))"

definition snapshot_for :: "ResourceId \<Rightarrow> 's snapshot_store \<Rightarrow> 's result" where
  "snapshot_for r store =
     (case dict_get store r of Some s \<Rightarrow> Inr s | None \<Rightarrow> Inl (Exn MissingSnapshotError ''no first snapshot captured''))"

definition has_snapshot :: "ResourceId \<Rightarrow> 's snapshot_store \<Rightarrow> bool" where
  "has_snapshot r store \<longleftrightarrow> dict_get store r \<noteq> None"

section \<open>Clean-up\<close>

text \<open>
  The clean-up action is an argument: given an operation, its snapshot if it needs one, and the
  world, it may raise and it changes the world. An exception that is not an \<open>Exception\<close> leaves the
  loop at once.
\<close>

type_synonym ('s, 'w) cleanup_action = "LifecycleOperation \<Rightarrow> 's option \<Rightarrow> 'w \<Rightarrow> py_exn option \<times> 'w"

type_synonym cleanup_failure = "ResourceId \<times> py_exn"

definition cleanup_snapshot :: "'s snapshot_store option \<Rightarrow> LifecycleOperation \<Rightarrow> 's option result" where
  "cleanup_snapshot snapshots op =
     (if lo_restoration op \<noteq> FIRST_SNAPSHOT then Inr None
      else case snapshots of
             None \<Rightarrow> Inl (Exn MissingSnapshotError ''no first snapshot captured'')
           | Some store \<Rightarrow> rbind (snapshot_for (lo_resource_id op) store) (\<lambda>s. Inr (Some s)))"

definition cleanup_one ::
    "('s, 'w) cleanup_action \<Rightarrow> 's snapshot_store option \<Rightarrow> LifecycleOperation \<Rightarrow> 'w \<Rightarrow> py_exn option \<times> 'w" where
  "cleanup_one cleanup snapshots op w =
     (case cleanup_snapshot snapshots op of Inl e \<Rightarrow> (Some e, w) | Inr s \<Rightarrow> cleanup op s w)"

fun cleanup_each ::
    "('s, 'w) cleanup_action \<Rightarrow> 's snapshot_store option \<Rightarrow> LifecycleOperation list
     \<Rightarrow> cleanup_failure list \<Rightarrow> 'w \<Rightarrow> (py_exn + cleanup_failure list) \<times> 'w" where
  "cleanup_each cleanup snapshots [] failures w = (Inr failures, w)"
| "cleanup_each cleanup snapshots (op # ops) failures w =
     (case cleanup_one cleanup snapshots op w of
        (None, w1) \<Rightarrow> cleanup_each cleanup snapshots ops failures w1
      | (Some e, w1) \<Rightarrow>
          if isinstance e Exception
          then cleanup_each cleanup snapshots ops (failures @ [(lo_resource_id op, e)]) w1
          else (Inl e, w1))"

text \<open>What a clean-up raises: nothing, an exception as it is, or \<open>CleanupAggregateError\<close>.\<close>

datatype cleanup_outcome =
    CleanupReturned
  | CleanupRaised py_exn
  | CleanupAggregate "py_exn option" "cleanup_failure list"

definition completed_ids :: "LifecyclePlan \<Rightarrow> ResourceId list option \<Rightarrow> ResourceId list result" where
  "completed_ids plan completed =
     (case completed of
        None \<Rightarrow> Inr (map lo_resource_id (lp_operations plan))
      | Some ids \<Rightarrow>
          if \<exists>i \<in> set ids. i \<notin> set (map lo_resource_id (lp_operations plan))
          then Inl (Exn LifecycleValidationError ''completed resources are absent from the lifecycle plan'')
          else Inr ids)"

definition run_cleanup ::
    "LifecyclePlan \<Rightarrow> ('s, 'w) cleanup_action \<Rightarrow> ResourceId list option \<Rightarrow> 's snapshot_store option
     \<Rightarrow> py_exn option \<Rightarrow> 'w \<Rightarrow> cleanup_outcome \<times> 'w" where
  "run_cleanup plan cleanup completed snapshots primary w =
     (case completed_ids plan completed of
        Inl e \<Rightarrow> (CleanupRaised e, w)
      | Inr ids \<Rightarrow>
          case cleanup_each cleanup snapshots
                 (filter (\<lambda>op. lo_resource_id op \<in> set ids) (teardown_order plan)) [] w of
            (Inl e, w1) \<Rightarrow> (CleanupRaised e, w1)
          | (Inr failures, w1) \<Rightarrow>
              (if failures \<noteq> [] then CleanupAggregate primary failures
               else case primary of Some e \<Rightarrow> CleanupRaised e | None \<Rightarrow> CleanupReturned, w1))"

section \<open>The specification of the order\<close>

text \<open>
  The order a reader expects: again and again the first declared operation that is not placed yet
  and whose dependencies all are.
\<close>

definition placeable :: "LifecycleOperation list \<Rightarrow> LifecycleOperation \<Rightarrow> bool" where
  "placeable placed op \<longleftrightarrow>
     op \<notin> set placed \<and> set (lo_dependencies op) \<subseteq> lo_resource_id ` set placed"

fun greedy_order :: "nat \<Rightarrow> LifecycleOperation list \<Rightarrow> LifecycleOperation list \<Rightarrow> LifecycleOperation list" where
  "greedy_order 0 ops placed = placed"
| "greedy_order (Suc n) ops placed =
     (case find (placeable placed) ops of
        None \<Rightarrow> placed
      | Some op \<Rightarrow> greedy_order n ops (placed @ [op]))"

text \<open>An order in which every operation comes after its dependencies.\<close>

definition respects_dependencies :: "LifecycleOperation list \<Rightarrow> bool" where
  "respects_dependencies os \<longleftrightarrow>
     (\<forall>k < length os. set (lo_dependencies (os ! k)) \<subseteq> lo_resource_id ` set (take k os))"

definition operation_made :: "LifecycleOperation \<Rightarrow> bool" where
  "operation_made op \<longleftrightarrow> mk_LifecycleOperation op = Inr op"

definition plan_made :: "LifecyclePlan \<Rightarrow> bool" where
  "plan_made plan \<longleftrightarrow> list_all operation_made (lp_operations plan) \<and> mk_LifecyclePlan (lp_operations plan) = Inr plan"

text \<open>An action that also records the identities it is called for.\<close>

definition logged :: "('s, 'w) cleanup_action \<Rightarrow> ('s, 'w \<times> ResourceId list) cleanup_action" where
  "logged cleanup op s = (\<lambda>(w, calls). let (r, w1) = cleanup op s w in (r, (w1, calls @ [lo_resource_id op])))"

definition only_exceptions :: "('s, 'w) cleanup_action \<Rightarrow> bool" where
  "only_exceptions cleanup \<longleftrightarrow> (\<forall>op s w e. fst (cleanup op s w) = Some e \<longrightarrow> isinstance e Exception)"

definition capture_all :: "(ResourceId \<times> 's) list \<Rightarrow> 's snapshot_store \<Rightarrow> 's snapshot_store" where
  "capture_all captures store = foldl (\<lambda>st (r, s). snd (capture_once r s st)) store captures"

text \<open>A plan for the concrete runs: a component that needs a configuration that needs a port.\<close>

definition demo_id :: "string \<Rightarrow> ResourceId" where
  "demo_id n = \<lparr>ri_kind = ENDPOINT, ri_path = [n]\<rparr>"

definition demo_op :: "string \<Rightarrow> string list \<Rightarrow> LifecycleOperation" where
  "demo_op n ds = \<lparr>lo_resource_id = demo_id n, lo_ownership = OWNED, lo_restoration = INVERSE,
     lo_readiness = NO_READINESS, lo_dependencies = map demo_id ds, lo_state_changing = True\<rparr>"

definition demo_ops :: "LifecycleOperation list" where
  "demo_ops = [demo_op ''daemon'' [''config''], demo_op ''config'' [''port''], demo_op ''port'' []]"

definition demo_plan :: LifecyclePlan where
  "demo_plan = \<lparr>lp_operations = demo_ops,
     lp_ordered_setup = [demo_op ''port'' [], demo_op ''config'' [''port''], demo_op ''daemon'' [''config'']]\<rparr>"

definition demo_cleanup :: "(unit, unit) cleanup_action" where
  "demo_cleanup op s w = (if lo_resource_id op = demo_id ''config'' then Some (runtime_error ''busy'') else None, w)"

section \<open>Facts about operations\<close>

lemma check_dependencies_ok:
  "check_dependencies r seen ds = Inr () \<longleftrightarrow> r \<notin> set ds \<and> distinct ds \<and> set ds \<inter> set seen = {}"
  by (induction r seen ds rule: check_dependencies.induct) auto

lemma operation_made_iff:
  "operation_made op \<longleftrightarrow>
     lo_resource_id op \<notin> set (lo_dependencies op) \<and> distinct (lo_dependencies op)
     \<and> \<not> (lo_ownership op = BORROWED \<and> lo_state_changing op)
     \<and> lo_restoration op = expected_restoration op"
  by (auto simp: operation_made_def mk_LifecycleOperation_def rbind_eq_Inr raise_if_def check_dependencies_ok
      split: if_splits)

section \<open>Facts about the greedy order\<close>

lemma respects_snoc:
  "respects_dependencies (os @ [op]) \<longleftrightarrow>
     respects_dependencies os \<and> set (lo_dependencies op) \<subseteq> lo_resource_id ` set os"
  by (auto simp: respects_dependencies_def nth_append less_Suc_eq_le le_less)

definition order_inv :: "LifecycleOperation list \<Rightarrow> LifecycleOperation list \<Rightarrow> bool" where
  "order_inv ops placed \<longleftrightarrow> distinct placed \<and> set placed \<subseteq> set ops \<and> respects_dependencies placed"

lemma order_inv_snoc:
  "order_inv ops placed \<Longrightarrow> op \<in> set ops \<Longrightarrow> placeable placed op \<Longrightarrow> order_inv ops (placed @ [op])"
  by (auto simp: order_inv_def respects_snoc placeable_def)

lemma order_inv_found:
  "order_inv ops placed \<Longrightarrow> find (placeable placed) ops = Some op \<Longrightarrow> order_inv ops (placed @ [op])"
  by (rule order_inv_snoc) (auto simp: find_Some_iff)

lemma order_inv_greedy: "order_inv ops placed \<Longrightarrow> order_inv ops (greedy_order n ops placed)"
  by (induction n ops placed rule: greedy_order.induct) (auto split: option.splits dest: order_inv_found)

lemma order_inv_full:
  assumes "order_inv ops placed" "distinct ops"
  shows "length placed \<le> length ops" "length ops \<le> length placed \<longleftrightarrow> set placed = set ops"
proof -
  have c: "card (set placed) = length placed" "card (set ops) = length ops" "set placed \<subseteq> set ops"
    using assms by (simp_all add: order_inv_def distinct_card)
  show "length placed \<le> length ops" using c card_mono[of "set ops" "set placed"] by simp
  show "length ops \<le> length placed \<longleftrightarrow> set placed = set ops"
    using c card_seteq[of "set ops" "set placed"] by auto
qed

lemma greedy_maximal:
  assumes "order_inv ops placed" "distinct ops" "length ops \<le> n + length placed"
  shows "find (placeable (greedy_order n ops placed)) ops = None"
  using assms
proof (induction n ops placed rule: greedy_order.induct)
  case (1 ops placed)
  then show ?case using order_inv_full(2)[of ops placed] by (auto simp: find_None_iff placeable_def)
next
  case (2 n ops placed)
  show ?case
  proof (cases "find (placeable placed) ops")
    case (Some op)
    then show ?thesis using 2 order_inv_found[OF 2(2) Some] by simp
  qed simp
qed

lemma find_eq_None_iff_maximal:
  "find (placeable placed) ops = None \<longleftrightarrow>
     (\<forall>op \<in> set ops - set placed. \<not> set (lo_dependencies op) \<subseteq> lo_resource_id ` set placed)"
  by (auto simp: find_None_iff placeable_def)

text \<open>A maximal placement is complete as soon as some dependency-respecting order exists.\<close>

lemma maximal_complete:
  assumes "find (placeable placed) ops = None"
    and "set os = set ops" "respects_dependencies os"
  shows "set ops \<subseteq> set placed"
proof (rule ccontr)
  assume "\<not> ?thesis"
  then have ex: "\<exists>k. k < length os \<and> os ! k \<notin> set placed"
    using assms(2) by (metis in_set_conv_nth subsetI)
  define k where "k = (LEAST k. k < length os \<and> os ! k \<notin> set placed)"
  have k: "k < length os" "os ! k \<notin> set placed"
    using LeastI_ex[OF ex] unfolding k_def by blast+
  have "os ! j \<in> set placed" if "j < k" for j
    using not_less_Least[of j] that k(1) unfolding k_def by force
  then have "set (take k os) \<subseteq> set placed"
    by (auto simp: in_set_conv_nth)
  then have "set (lo_dependencies (os ! k)) \<subseteq> lo_resource_id ` set placed"
    using assms(3) k(1) unfolding respects_dependencies_def by fastforce
  moreover have "os ! k \<in> set ops - set placed"
    using k assms(2) nth_mem by blast
  ultimately show False
    using assms(1) unfolding find_eq_None_iff_maximal by blast
qed

section \<open>The loop places what the specification places\<close>

lemma dict_get_declaration_index:
  assumes "distinct (map lo_resource_id ops)" "i < length ops"
  shows "dict_get_or (declaration_index ops) (lo_resource_id (ops ! i)) 0 = i"
proof -
  have m: "map fst (declaration_index ops) = map lo_resource_id ops"
    by (rule nth_equalityI) (simp_all add: declaration_index_def nth_enumerate_eq case_prod_unfold)
  have "declaration_index ops ! i = (lo_resource_id (ops ! i), i)"
    using assms(2) by (simp add: declaration_index_def nth_enumerate_eq)
  then have "(lo_resource_id (ops ! i), i) \<in> set (declaration_index ops)"
    using assms(2) nth_mem[of i "declaration_index ops"] by (simp add: declaration_index_def)
  then have "dict_get (declaration_index ops) (lo_resource_id (ops ! i)) = Some i"
    using assms(1) m by (intro map_of_is_SomeI) simp_all
  then show ?thesis by (simp add: dict_get_or_def)
qed

lemma dict_get_indegrees:
  assumes "distinct (map lo_resource_id ops)" "op \<in> set ops"
  shows "dict_get_or (indegrees ops) (lo_resource_id op) 0 = int (length (lo_dependencies op))"
proof -
  have "dict_get (indegrees ops) (lo_resource_id op) = Some (int (length (lo_dependencies op)))"
    using assms by (intro map_of_is_SomeI) (auto simp: indegrees_def comp_def)
  then show ?thesis by (simp add: dict_get_or_def)
qed

declare dict_get_or_set [simp]

lemma dict_get_or_append [simp]:
  "dict_get_or (dict_append k v d) k' [] = dict_get_or d k' [] @ (if k' = k then [v] else [])"
  by (simp add: dict_append_def)

lemma dict_get_add_dependents:
  "dict_get_or (add_dependents d op) r [] =
     dict_get_or d r [] @ map (\<lambda>_. lo_resource_id op) (filter (\<lambda>x. x = r) (lo_dependencies op))"
proof -
  have "dict_get_or (foldl (\<lambda>d dep. dict_append dep i d) d ds) r []
      = dict_get_or d r [] @ map (\<lambda>_. i) (filter (\<lambda>x. x = r) ds)" for i ds
    by (induction ds arbitrary: d) auto
  then show ?thesis by (simp add: add_dependents_def)
qed

lemma distinct_filter_eq: "distinct ds \<Longrightarrow> filter (\<lambda>x. x = r) ds = (if r \<in> set ds then [r] else [])"
  by (induction ds) auto

lemma dict_get_dependents:
  assumes "list_all operation_made ops"
  shows "dict_get_or (dependents_of ops) r [] =
     map lo_resource_id (filter (\<lambda>op. r \<in> set (lo_dependencies op)) ops)"
proof -
  have "dict_get_or (foldl add_dependents d os) r []
      = dict_get_or d r [] @ map lo_resource_id (filter (\<lambda>op. r \<in> set (lo_dependencies op)) os)"
    if "list_all operation_made os" for d os
    using that by (induction os arbitrary: d)
      (auto simp: dict_get_add_dependents operation_made_iff distinct_filter_eq)
  moreover have "dict_get_or (map (\<lambda>op. (lo_resource_id op, [])) ops) r [] = []"
    by (auto simp: dict_get_or_def split: option.splits dest!: map_of_SomeD)
  ultimately show ?thesis using assms by (simp add: dependents_of_def)
qed

lemma release_spec:
  assumes "distinct ds" "sorted ready" "release index ds indegree ready = (indegree', ready')"
  shows "\<forall>r. dict_get_or indegree' r 0 = dict_get_or indegree r 0 - (if r \<in> set ds then 1 else 0)"
    and "sorted ready'"
    and "mset ready' = mset ready
           + mset (map (\<lambda>d. dict_get_or index d 0) (filter (\<lambda>d. dict_get_or indegree d 0 = 1) ds))"
proof -
  have "(\<forall>r. dict_get_or indegree' r 0 = dict_get_or indegree r 0 - (if r \<in> set ds then 1 else 0))
      \<and> sorted ready'
      \<and> mset ready' = mset ready
           + mset (map (\<lambda>d. dict_get_or index d 0) (filter (\<lambda>d. dict_get_or indegree d 0 = 1) ds))"
    using assms
  proof (induction index ds indegree ready rule: release.induct)
    case (2 index d ds indegree ready)
    have same: "filter (\<lambda>x. (if x = d then n else dict_get_or indegree x 0) = 1) ds
        = filter (\<lambda>x. dict_get_or indegree x 0 = 1) ds" for n
      using 2(2) by (intro filter_cong) auto
    show ?case
      using 2 by (auto simp: Let_def same sorted_insort split: if_splits)
  qed simp
  then show "\<forall>r. dict_get_or indegree' r 0 = dict_get_or indegree r 0 - (if r \<in> set ds then 1 else 0)"
    and "sorted ready'"
    and "mset ready' = mset ready
           + mset (map (\<lambda>d. dict_get_or index d 0) (filter (\<lambda>d. dict_get_or indegree d 0 = 1) ds))"
    by blast+
qed

definition unplaced :: "LifecycleOperation list \<Rightarrow> LifecycleOperation \<Rightarrow> ResourceId set" where
  "unplaced placed op = set (lo_dependencies op) - lo_resource_id ` set placed"

definition loop_inv ::
    "LifecycleOperation list \<Rightarrow> (ResourceId, int) dict \<Rightarrow> nat list \<Rightarrow> LifecycleOperation list \<Rightarrow> bool" where
  "loop_inv ops indegree ready placed \<longleftrightarrow>
     order_inv ops placed \<and> sorted ready \<and> distinct ready
     \<and> set ready = {i. i < length ops \<and> placeable placed (ops ! i)}
     \<and> (\<forall>op \<in> set ops. dict_get_or indegree (lo_resource_id op) 0 = int (card (unplaced placed op)))"

lemma placed_dependencies_placed:
  assumes "order_inv ops placed" "op \<in> set placed"
  shows "unplaced placed op = {}"
proof -
  obtain k where k: "k < length placed" "op = placed ! k" using assms(2) by (auto simp: in_set_conv_nth)
  then have "set (lo_dependencies op) \<subseteq> lo_resource_id ` set (take k placed)"
    using assms(1) by (simp add: order_inv_def respects_dependencies_def)
  then show ?thesis using set_take_subset[of k placed] by (auto simp: unplaced_def)
qed

lemma loop_inv_found:
  assumes "loop_inv ops indegree (i # ready) placed"
  shows "find (placeable placed) ops = Some (ops ! i)"
proof -
  have set_eq: "set (i # ready) = {j. j < length ops \<and> placeable placed (ops ! j)}"
    and sorted: "sorted (i # ready)"
    using assms by (simp_all only: loop_inv_def)
  have i: "i < length ops" "placeable placed (ops ! i)" using set_eq by auto
  have "\<not> placeable placed (ops ! j)" if "j < i" for j
  proof
    assume "placeable placed (ops ! j)"
    then have "j \<in> set (i # ready)" using that i(1) unfolding set_eq by simp
    then show False using sorted that by auto
  qed
  then show ?thesis using i by (auto simp: find_Some_iff)
qed

text \<open>Which operations become placeable when one is placed.\<close>

lemma newly_placeable:
  assumes inv: "order_inv ops placed" and dist: "distinct (map lo_resource_id ops)"
    and op: "op \<in> set ops" "placeable placed op" "operation_made op"
    and other: "other \<in> set ops"
  shows "placeable (placed @ [op]) other \<longleftrightarrow>
     placeable placed other \<and> other \<noteq> op \<or> unplaced placed other = {lo_resource_id op}"
proof -
  have inj: "inj_on lo_resource_id (set ops)" using dist by (simp add: distinct_map)
  have fresh: "lo_resource_id op \<notin> lo_resource_id ` set placed"
    using op inv inj_on_image_mem_iff[OF inj, of op "set placed"] by (simp add: placeable_def order_inv_def)
  have self: "lo_resource_id op \<notin> set (lo_dependencies op)" using op(3) by (simp add: operation_made_iff)
  show ?thesis
    using placed_dependencies_placed[OF inv, of other] fresh self
    by (auto simp: placeable_def unplaced_def)
qed

lemma unplaced_snoc: "unplaced (placed @ [op]) x = unplaced placed x - {lo_resource_id op}"
  by (auto simp: unplaced_def)

lemma card_unplaced_snoc:
  assumes "lo_resource_id op \<notin> lo_resource_id ` set placed"
  shows "int (card (unplaced (placed @ [op]) x))
       = int (card (unplaced placed x)) - (if lo_resource_id op \<in> set (lo_dependencies x) then 1 else 0)"
proof (cases "lo_resource_id op \<in> set (lo_dependencies x)")
  case True
  then have m: "lo_resource_id op \<in> unplaced placed x" using assms by (simp add: unplaced_def)
  have "finite (unplaced placed x)" by (simp add: unplaced_def)
  then have "card (unplaced placed x) = Suc (card (unplaced placed x - {lo_resource_id op}))"
    using m card_Suc_Diff1 by metis
  then show ?thesis using True by (simp add: unplaced_snoc)
next
  case False
  then have "unplaced placed x - {lo_resource_id op} = unplaced placed x" by (auto simp: unplaced_def)
  then show ?thesis using False by (simp add: unplaced_snoc)
qed

lemma sole_unplaced:
  assumes "r \<notin> lo_resource_id ` set placed"
  shows "r \<in> set (lo_dependencies x) \<and> card (unplaced placed x) = 1 \<longleftrightarrow> unplaced placed x = {r}"
proof
  assume r: "r \<in> set (lo_dependencies x) \<and> card (unplaced placed x) = 1"
  then have "r \<in> unplaced placed x" using assms by (simp add: unplaced_def)
  moreover obtain y where "unplaced placed x = {y}" using r card_1_singletonE by metis
  ultimately show "unplaced placed x = {r}" by simp
qed (auto simp: unplaced_def)

lemma declaration_indices:
  assumes "distinct (map lo_resource_id ops)"
  shows "map (\<lambda>op. dict_get_or (declaration_index ops) (lo_resource_id op) 0) (filter P ops)
       = filter (\<lambda>j. P (ops ! j)) [0..<length ops]"
proof -
  have "filter P ops = map ((!) ops) (filter (P \<circ> (!) ops) [0..<length ops])"
    by (subst map_nth[symmetric]) (simp only: filter_map)
  then show ?thesis
    using dict_get_declaration_index[OF assms] by (auto simp: comp_def intro!: map_idI)
qed

lemma fresh_id:
  assumes "distinct (map lo_resource_id ops)" "order_inv ops placed" "op \<in> set ops" "placeable placed op"
  shows "lo_resource_id op \<notin> lo_resource_id ` set placed"
  using assms inj_on_image_mem_iff[of lo_resource_id "set ops" op "set placed"]
  by (simp add: placeable_def order_inv_def distinct_map)

lemma dependent_ids:
  assumes "distinct (map lo_resource_id ops)" "x \<in> set ops"
  shows "lo_resource_id x \<in> set (map lo_resource_id (filter P ops)) \<longleftrightarrow> P x"
  using assms inj_on_image_mem_iff[of lo_resource_id "set ops" x "set (filter P ops)"]
  by (auto simp: distinct_map)

lemma pushed_indices:
  assumes dist: "distinct (map lo_resource_id ops)"
    and deg: "\<And>x. x \<in> set ops \<Longrightarrow> dict_get_or indegree (lo_resource_id x) 0 = int (f x)"
  shows "map (\<lambda>d. dict_get_or (declaration_index ops) d 0)
      (filter (\<lambda>d. dict_get_or indegree d 0 = 1) (map lo_resource_id (filter D ops)))
    = filter (\<lambda>j. D (ops ! j) \<and> f (ops ! j) = 1) [0..<length ops]"
proof -
  have "map (\<lambda>d. dict_get_or (declaration_index ops) d 0)
      (filter (\<lambda>d. dict_get_or indegree d 0 = 1) (map lo_resource_id (filter D ops)))
    = map (\<lambda>x. dict_get_or (declaration_index ops) (lo_resource_id x) 0) (filter (\<lambda>x. D x \<and> f x = 1) ops)"
    using deg by (auto simp: filter_map comp_def conj_commute intro!: filter_cong arg_cong[where f = "map _"])
  then show ?thesis by (simp add: declaration_indices[OF dist])
qed

lemma loop_inv_step:
  assumes inv: "loop_inv ops indegree (i # ready) placed"
    and dist: "distinct (map lo_resource_id ops)" and made: "list_all operation_made ops"
    and rel: "release (declaration_index ops) (dict_get_or (dependents_of ops) (lo_resource_id (ops ! i)) [])
               indegree ready = (indegree', ready')"
  shows "loop_inv ops indegree' ready' (placed @ [ops ! i])"
proof -
  define op where "op = ops ! i"
  define D where "D x \<longleftrightarrow> lo_resource_id op \<in> set (lo_dependencies x)" for x :: LifecycleOperation
  have order: "order_inv ops placed" and srt: "sorted (i # ready)" "distinct (i # ready)"
    and set_eq: "set (i # ready) = {j. j < length ops \<and> placeable placed (ops ! j)}"
    and deg: "\<And>x. x \<in> set ops \<Longrightarrow> dict_get_or indegree (lo_resource_id x) 0 = int (card (unplaced placed x))"
    using inv by (simp_all only: loop_inv_def)
  have i: "i < length ops" "placeable placed op"
    using set_eq by (auto simp: op_def)
  then have op: "op \<in> set ops" "operation_made op"
    using made by (simp_all add: op_def list_all_length)
  have fresh: "lo_resource_id op \<notin> lo_resource_id ` set placed"
    using fresh_id[OF dist order op(1) i(2)] .
  have dl: "dict_get_or (dependents_of ops) (lo_resource_id op) [] = map lo_resource_id (filter D ops)"
    by (simp add: dict_get_dependents[OF made] D_def[abs_def])
  have dd: "distinct (map lo_resource_id (filter D ops))" using dist by (simp add: distinct_map_filter)
  define new where "new = filter (\<lambda>j. D (ops ! j) \<and> card (unplaced placed (ops ! j)) = 1) [0..<length ops]"
  have pushed: "map (\<lambda>d. dict_get_or (declaration_index ops) d 0)
      (filter (\<lambda>d. dict_get_or indegree d 0 = 1) (map lo_resource_id (filter D ops))) = new"
    unfolding new_def by (rule pushed_indices[OF dist]) (rule deg)
  have "sorted ready" using srt(1) by simp
  note rs = release_spec[OF dd this rel[folded op_def, unfolded dl], unfolded pushed]
  have deg': "dict_get_or indegree' (lo_resource_id x) 0 = int (card (unplaced (placed @ [op]) x))"
    if "x \<in> set ops" for x
    using rs(1) deg[OF that] dependent_ids[OF dist that, of D] card_unplaced_snoc[OF fresh, of x]
    by (simp add: D_def)
  have new_iff: "j \<in> set new \<longleftrightarrow> j < length ops \<and> unplaced placed (ops ! j) = {lo_resource_id op}" for j
    using sole_unplaced[OF fresh, of "ops ! j"] by (auto simp: new_def D_def)
  have same: "mset ready' = mset (ready @ new)" using rs(3) by simp
  have "unplaced placed (ops ! j) = {}" if "j \<in> set ready" for j
  proof -
    have "j \<in> set (i # ready)" using that by simp
    then show ?thesis unfolding set_eq by (auto simp: placeable_def unplaced_def)
  qed
  then have "set ready \<inter> set new = {}" using new_iff by fastforce
  then have "distinct ready'"
    using mset_eq_imp_distinct_iff[OF same] srt(2) by (simp add: new_def)
  moreover have "ops ! j = op \<longleftrightarrow> j = i" if "j < length ops" for j
    using that i(1) dist nth_eq_iff_index_eq[of ops j i] by (auto simp: op_def distinct_map)
  then have "set ready' = {j. j < length ops \<and> placeable (placed @ [op]) (ops ! j)}"
    using set_eq srt(2) newly_placeable[OF order dist op(1) i(2) op(2) nth_mem]
    by (auto simp: mset_eq_setD[OF same] new_iff)
  ultimately show ?thesis
    using order_inv_snoc[OF order op(1) i(2)] rs(2) deg' by (simp add: loop_inv_def op_def)
qed

lemma order_loop_greedy:
  assumes "distinct (map lo_resource_id ops)" "list_all operation_made ops"
    and "loop_inv ops indegree ready placed"
  shows "fst (order_loop ops (declaration_index ops) (dependents_of ops) indegree ready placed)
       = greedy_order (length ops - length placed) ops placed"
  using assms
proof (induction ops "declaration_index ops" "dependents_of ops" indegree ready placed rule: order_loop.induct)
  case (1 ops indegree placed)
  then have "find (placeable placed) ops = None"
    by (auto simp: loop_inv_def find_None_iff in_set_conv_nth)
  then show ?case by (cases "length ops - length placed") simp_all
next
  case (2 ops indegree i ready placed)
  obtain indegree' ready' where rel: "release (declaration_index ops)
      (dict_get_or (dependents_of ops) (lo_resource_id (ops ! i)) []) indegree ready = (indegree', ready')"
    by fastforce
  have found: "find (placeable placed) ops = Some (ops ! i)" using loop_inv_found[OF 2(4)] .
  have step: "loop_inv ops indegree' ready' (placed @ [ops ! i])"
    using loop_inv_step[OF 2(4) 2(2,3) rel] .
  then have "length placed < length ops"
    using order_inv_full(1)[of ops "placed @ [ops ! i]"] 2(2)
    by (auto simp: loop_inv_def distinct_map)
  then have "length ops - length placed = Suc (length ops - Suc (length placed))" by simp
  then show ?case using 2(1)[OF refl rel[symmetric] refl 2(2,3) step] rel found by simp
qed

lemma loop_inv_initial:
  assumes "distinct (map lo_resource_id ops)" "list_all operation_made ops"
  shows "loop_inv ops (indegrees ops)
     (heapify (map (\<lambda>op. dict_get_or (declaration_index ops) (lo_resource_id op) 0)
        (filter (\<lambda>op. dict_get_or (indegrees ops) (lo_resource_id op) 0 = 0) ops))) []"
proof -
  have deg: "dict_get_or (indegrees ops) (lo_resource_id op) 0 = int (card (unplaced [] op))"
    if "op \<in> set ops" for op
    using that dict_get_indegrees[OF assms(1) that] assms(2)
    by (simp add: unplaced_def operation_made_iff list_all_iff distinct_card)
  have "dict_get_or (indegrees ops) (lo_resource_id (ops ! j)) 0 = 0 \<longleftrightarrow> placeable [] (ops ! j)"
    if "j < length ops" for j
    using deg[OF nth_mem[OF that]] by (auto simp: unplaced_def placeable_def)
  then show ?thesis
    using deg declaration_indices[OF assms(1)]
    by (auto simp: loop_inv_def order_inv_def respects_dependencies_def)
qed

lemma stable_order_greedy:
  assumes "distinct (map lo_resource_id ops)" "list_all operation_made ops"
  shows "stable_dependency_order ops =
     (if length (greedy_order (length ops) ops []) \<noteq> length ops
      then Inl (Exn LifecycleValidationError ''lifecycle dependency cycle leaves unresolved resources'')
      else Inr (greedy_order (length ops) ops []))"
  using order_loop_greedy[OF assms loop_inv_initial[OF assms]]
  by (simp add: stable_dependency_order_def Let_def)

section \<open>The interface of an ordered plan\<close>

lemma filter_split:
  "filter P zs = as @ x # bs \<Longrightarrow> \<exists>us vs. zs = us @ x # vs \<and> filter P us = as"
proof (induction zs arbitrary: as)
  case (Cons z zs)
  show ?case
  proof (cases "P z \<and> as = []")
    case True
    then show ?thesis using Cons.prems by (intro exI[of _ "[]"] exI[of _ zs]) auto
  next
    case False
    then obtain us vs where "zs = us @ x # vs" "filter P (z # us) = as"
      using Cons by (cases as) (auto split: if_splits)
    then have "z # zs = (z # us) @ x # vs \<and> filter P (z # us) = as" by simp
    then show ?thesis by blast
  qed
qed simp

text \<open>
  What the clients of a plan rely on: the set-up order names every resource once, and a resource
  comes after everything it needs. Any selection of it, reversed, is then safe to tear down.
\<close>

locale ordered_plan =
  fixes valid :: "'plan \<Rightarrow> bool"
    and setup_of :: "'plan \<Rightarrow> 'op list"
    and ident :: "'op \<Rightarrow> 'id"
    and needs :: "'op \<Rightarrow> 'id list"
  assumes setup_distinct: "valid p \<Longrightarrow> distinct (map ident (setup_of p))"
    and setup_closed: "valid p \<Longrightarrow> setup_of p = xs @ x # ys \<Longrightarrow> set (needs x) \<subseteq> ident ` set xs"
begin

lemma needs_placed_before:
  assumes "valid p" "setup_of p = xs @ x # ys" "y \<in> set (x # ys)"
  shows "ident y \<notin> set (needs x)"
proof -
  have "ident y \<notin> ident ` set xs"
    using setup_distinct[OF assms(1)] assms(2,3) by auto
  then show ?thesis using setup_closed[OF assms(1,2)] by blast
qed

lemma dependents_first:
  assumes "valid p" "filter P (rev (setup_of p)) = xs @ x # ys" "y \<in> set (x # ys)"
  shows "ident x \<notin> set (needs y)"
proof -
  have rev: "filter P (setup_of p) = rev ys @ x # rev xs"
    using assms(2) by (metis (no_types, lifting) append.assoc append_Cons append_Nil rev.simps(2) rev_append
        rev_filter rev_rev_ident)
  obtain us vs where split: "setup_of p = us @ x # vs" "filter P us = rev ys"
    using filter_split[OF rev] by blast
  show ?thesis
  proof (cases "y = x")
    case True
    then show ?thesis using needs_placed_before[OF assms(1) split(1), of x] by simp
  next
    case False
    then have "y \<in> set us" using assms(3) split(2) by (metis filter_is_subset in_mono set_ConsD set_rev)
    then obtain as bs where us: "us = as @ y # bs" by (meson split_list)
    then show ?thesis
      using needs_placed_before[OF assms(1), of as y "bs @ x # vs" x] split(1) by simp
  qed
qed

end

section \<open>Facts about plans\<close>

lemma respects_split:
  "respects_dependencies os \<longleftrightarrow>
     (\<forall>xs x ys. os = xs @ x # ys \<longrightarrow> set (lo_dependencies x) \<subseteq> lo_resource_id ` set xs)"
proof
  assume r: "respects_dependencies os"
  show "\<forall>xs x ys. os = xs @ x # ys \<longrightarrow> set (lo_dependencies x) \<subseteq> lo_resource_id ` set xs"
  proof (intro allI impI)
    fix xs x ys
    assume os: "os = xs @ x # ys"
    have "length xs < length os" by (simp add: os)
    then have "set (lo_dependencies (os ! length xs)) \<subseteq> lo_resource_id ` set (take (length xs) os)"
      using r unfolding respects_dependencies_def by blast
    then show "set (lo_dependencies x) \<subseteq> lo_resource_id ` set xs" by (simp add: os)
  qed
next
  assume "\<forall>xs x ys. os = xs @ x # ys \<longrightarrow> set (lo_dependencies x) \<subseteq> lo_resource_id ` set xs"
  then show "respects_dependencies os"
    unfolding respects_dependencies_def using id_take_nth_drop by metis
qed

lemma plan_order:
  assumes "list_all operation_made ops" "mk_LifecyclePlan ops = Inr plan"
  shows "lp_operations plan = ops" "distinct (map lo_resource_id ops)"
    "setup_order plan = greedy_order (length ops) ops []"
    "order_inv ops (setup_order plan)" "set (setup_order plan) = set ops"
proof -
  have d: "distinct (map lo_resource_id ops)" and st: "stable_dependency_order ops = Inr (lp_ordered_setup plan)"
    and o: "lp_operations plan = ops"
    using assms(2) by (auto simp: mk_LifecyclePlan_def rbind_eq_Inr raise_if_def split: if_splits)
  have g: "length (greedy_order (length ops) ops []) = length ops"
    "lp_ordered_setup plan = greedy_order (length ops) ops []"
    using st stable_order_greedy[OF d assms(1)] by (simp_all split: if_splits)
  have inv: "order_inv ops (greedy_order (length ops) ops [])"
    by (rule order_inv_greedy) (simp add: order_inv_def respects_dependencies_def)
  have "distinct ops" using d by (simp add: distinct_map)
  then have "set (greedy_order (length ops) ops []) = set ops"
    using order_inv_full(2)[OF inv] g(1) by simp
  then show "lp_operations plan = ops" "distinct (map lo_resource_id ops)"
    "setup_order plan = greedy_order (length ops) ops []"
    "order_inv ops (setup_order plan)" "set (setup_order plan) = set ops"
    using o d g inv by (simp_all add: setup_order_def)
qed

lemma plan_made_order:
  assumes "plan_made plan"
  shows "distinct (map lo_resource_id (setup_order plan))" "respects_dependencies (setup_order plan)"
    "set (setup_order plan) = set (lp_operations plan)"
proof -
  note po = plan_order[of "lp_operations plan" plan]
  have m: "list_all operation_made (lp_operations plan)" "mk_LifecyclePlan (lp_operations plan) = Inr plan"
    using assms by (simp_all add: plan_made_def)
  show "respects_dependencies (setup_order plan)" "set (setup_order plan) = set (lp_operations plan)"
    using po[OF m] by (simp_all add: order_inv_def)
  show "distinct (map lo_resource_id (setup_order plan))"
    using po[OF m] by (simp add: order_inv_def distinct_map)
qed

interpretation lifecycle: ordered_plan plan_made setup_order lo_resource_id lo_dependencies
  by unfold_locales (use plan_made_order respects_split in blast)+

section \<open>Facts about clean-up\<close>

lemma cleanup_one_logged:
  "cleanup_one (logged cleanup) snapshots op (w, calls) =
     (case cleanup_snapshot snapshots op of
        Inl e \<Rightarrow> (Some e, (w, calls))
      | Inr sn \<Rightarrow> (fst (cleanup op sn w), (snd (cleanup op sn w), calls @ [lo_resource_id op])))"
  by (simp add: cleanup_one_def logged_def case_prod_unfold Let_def split: sum.split)

text \<open>One clean-up adds at most its own failure, and adds it if the snapshot is missing.\<close>

lemma cleanup_each_Cons:
  assumes "cleanup_each (logged cleanup) snapshots (op # ops) failures (w, calls) = (Inr failures', res)"
  shows "\<exists>w1 fs. cleanup_each (logged cleanup) snapshots ops (failures @ fs)
             (w1, calls @ (if isl (cleanup_snapshot snapshots op) then [] else [lo_resource_id op])) = (Inr failures', res)
           \<and> set (map fst fs) \<subseteq> {lo_resource_id op}
           \<and> (isl (cleanup_snapshot snapshots op) \<longrightarrow> lo_resource_id op \<in> set (map fst fs))"
proof -
  obtain r w1 where one: "cleanup_one (logged cleanup) snapshots op (w, calls)
      = (r, (w1, calls @ (if isl (cleanup_snapshot snapshots op) then [] else [lo_resource_id op])))"
    and missing: "isl (cleanup_snapshot snapshots op) \<Longrightarrow> r \<noteq> None"
    by (cases "cleanup_snapshot snapshots op") (auto simp: cleanup_one_logged)
  show ?thesis
  proof (cases r)
    case None
    then show ?thesis using assms one missing by (intro exI[of _ w1] exI[of _ "[]"]) auto
  next
    case (Some e)
    then show ?thesis using assms one
      by (intro exI[of _ w1] exI[of _ "[(lo_resource_id op, e)]"]) (simp split: if_splits)
  qed
qed

lemma cleanup_each_logged:
  assumes "cleanup_each (logged cleanup) snapshots ops failures (w, calls) = (Inr failures', (w', calls'))"
  shows "calls' = calls @ map lo_resource_id (filter (\<lambda>op. \<not> isl (cleanup_snapshot snapshots op)) ops)
     \<and> (\<exists>fs. failures' = failures @ fs
          \<and> set (map fst fs) \<subseteq> lo_resource_id ` set ops
          \<and> lo_resource_id ` {op \<in> set ops. isl (cleanup_snapshot snapshots op)} \<subseteq> set (map fst fs))"
  using assms
proof (induction ops arbitrary: failures w calls)
  case (Cons op ops)
  obtain w1 fs where run: "cleanup_each (logged cleanup) snapshots ops (failures @ fs)
      (w1, calls @ (if isl (cleanup_snapshot snapshots op) then [] else [lo_resource_id op])) = (Inr failures', (w', calls'))"
    and fs: "set (map fst fs) \<subseteq> {lo_resource_id op}"
      "isl (cleanup_snapshot snapshots op) \<longrightarrow> lo_resource_id op \<in> set (map fst fs)"
    using cleanup_each_Cons[OF Cons.prems] by blast
  obtain gs where gs: "failures' = failures @ (fs @ gs)" "set (map fst gs) \<subseteq> lo_resource_id ` set ops"
      "lo_resource_id ` {op \<in> set ops. isl (cleanup_snapshot snapshots op)} \<subseteq> set (map fst gs)"
    using Cons.IH[OF run] by auto
  have "set (map fst (fs @ gs)) \<subseteq> lo_resource_id ` set (op # ops)
      \<and> lo_resource_id ` {x \<in> set (op # ops). isl (cleanup_snapshot snapshots x)} \<subseteq> set (map fst (fs @ gs))"
    using fs gs(2,3) by auto
  moreover have "calls' = calls @ map lo_resource_id (filter (\<lambda>op. \<not> isl (cleanup_snapshot snapshots op)) (op # ops))"
    using Cons.IH[OF run] by simp
  ultimately show ?case using gs(1) by blast
qed simp

lemma missing_snapshot_exception:
  "cleanup_snapshot snapshots op = Inl e \<Longrightarrow> isinstance e Exception"
  by (auto simp: cleanup_snapshot_def snapshot_for_def isinstance_def is_subclass_def
      split: if_splits option.splits)

lemma cleanup_each_returns:
  assumes "only_exceptions cleanup"
  shows "\<exists>failures' w'. cleanup_each (logged cleanup) snapshots ops failures wc = (Inr failures', w')"
proof (induction ops arbitrary: failures wc)
  case (Cons op ops)
  have "isinstance e Exception" if "cleanup_one (logged cleanup) snapshots op wc = (Some e, w1)" for e w1
    using that assms missing_snapshot_exception[of snapshots op]
    by (cases wc) (auto simp: cleanup_one_logged only_exceptions_def split: sum.splits)
  then show ?case
    using Cons by (auto split: prod.split option.split)
qed simp

lemma capture_all_map:
  "dict_get (capture_all captures store) r =
     (case dict_get store r of Some s \<Rightarrow> Some s | None \<Rightarrow> map_of captures r)"
proof (induction captures arbitrary: store)
  case (Cons c captures)
  obtain r' s' where c: "c = (r', s')" by fastforce
  show ?case
    using Cons[of "snd (capture_once r' s' store)"]
    by (auto simp: capture_all_def c capture_once_def update_conv' split: option.splits)
qed (simp add: capture_all_def split: option.splits)

section \<open>Properties\<close>

text \<open>
  C27. The stable order is what its specification says. For valid operations, a plan's set-up order is
  the greedy order (again and again the first declared operation whose dependencies have all been
  placed), it contains every operation exactly once, and every operation comes after all of its
  dependencies.
\<close>

theorem setup_order_exact:
  assumes "list_all operation_made ops" "mk_LifecyclePlan ops = Inr plan"
  shows "setup_order plan = greedy_order (length ops) ops []
     \<and> mset (setup_order plan) = mset ops \<and> respects_dependencies (setup_order plan)"
proof -
  note po = plan_order[OF assms]
  have "mset (setup_order plan) = mset ops"
    using po(2,4,5) set_eq_iff_mset_eq_distinct[of "setup_order plan" ops]
    by (simp add: order_inv_def distinct_map)
  then show ?thesis using po(3,4) by (simp add: order_inv_def)
qed

theorem setup_order_witness:
  "mk_LifecyclePlan demo_ops = Inr demo_plan
   \<and> respects_dependencies (setup_order demo_plan) \<and> mset (setup_order demo_plan) = mset demo_ops"
proof -
  have made: "list_all operation_made demo_ops" by code_simp
  have plan: "mk_LifecyclePlan demo_ops = Inr demo_plan" by code_simp
  show ?thesis using setup_order_exact[OF made plan] plan by blast
qed

text \<open>
  C28. A plan is accepted exactly when it can be: for valid operations with distinct identities, the
  constructor succeeds if and only if some order of the operations respects all dependencies, and
  otherwise it raises a validation error. No acyclic plan is rejected and no cyclic one accepted.
\<close>

theorem plan_accepted_iff:
  assumes "list_all operation_made ops" "distinct (map lo_resource_id ops)"
  shows "((\<exists>plan. mk_LifecyclePlan ops = Inr plan) \<longleftrightarrow> (\<exists>os. set os = set ops \<and> respects_dependencies os))
     \<and> (\<forall>e. mk_LifecyclePlan ops = Inl e \<longrightarrow> exn_class_of e = LifecycleValidationError)"
proof (intro conjI iffI)
  assume "\<exists>plan. mk_LifecyclePlan ops = Inr plan"
  then show "\<exists>os. set os = set ops \<and> respects_dependencies os"
    using plan_order[OF assms(1)] unfolding order_inv_def by blast
next
  assume "\<exists>os. set os = set ops \<and> respects_dependencies os"
  then obtain os where os: "set os = set ops" "respects_dependencies os" by blast
  have inv: "order_inv ops []" by (simp add: order_inv_def respects_dependencies_def)
  have d: "distinct ops" using assms(2) by (simp add: distinct_map)
  have "find (placeable (greedy_order (length ops) ops [])) ops = None"
    using greedy_maximal[OF inv d] by simp
  then have "set ops \<subseteq> set (greedy_order (length ops) ops [])"
    using maximal_complete os by blast
  moreover have gi: "order_inv ops (greedy_order (length ops) ops [])" using order_inv_greedy[OF inv] .
  ultimately have "length (greedy_order (length ops) ops []) = length ops"
    using order_inv_full[OF gi d] by (auto simp: order_inv_def)
  moreover have "\<not> (\<exists>op \<in> set ops. \<exists>x \<in> set (lo_dependencies op). x \<notin> set (map lo_resource_id ops))"
  proof -
    have "set (lo_dependencies op) \<subseteq> lo_resource_id ` set ops" if op: "op \<in> set ops" for op
    proof -
      obtain k where k: "k < length os" "op = os ! k" using op os(1) by (metis in_set_conv_nth)
      then have "set (lo_dependencies op) \<subseteq> lo_resource_id ` set (take k os)"
        using os(2) by (simp add: respects_dependencies_def)
      then show ?thesis using set_take_subset[of k os] os(1) by blast
    qed
    then show ?thesis by auto
  qed
  ultimately show "\<exists>plan. mk_LifecyclePlan ops = Inr plan"
    using assms by (simp add: mk_LifecyclePlan_def stable_order_greedy raise_if_def)
next
  show "\<forall>e. mk_LifecyclePlan ops = Inl e \<longrightarrow> exn_class_of e = LifecycleValidationError"
    using assms by (auto simp: mk_LifecyclePlan_def stable_order_greedy raise_if_def split: if_splits)
qed

theorem plan_accepted_witness:
  "\<not> (\<exists>plan. mk_LifecyclePlan [demo_op ''a'' [''b''], demo_op ''b'' [''a'']] = Inr plan)
   \<and> \<not> (\<exists>os. set os = {demo_op ''a'' [''b''], demo_op ''b'' [''a'']} \<and> respects_dependencies os)"
proof -
  let ?ops = "[demo_op ''a'' [''b''], demo_op ''b'' [''a'']]"
  have made: "list_all operation_made ?ops" and dist: "distinct (map lo_resource_id ?ops)" by code_simp+
  have "isl (mk_LifecyclePlan ?ops)" by code_simp
  then show ?thesis using plan_accepted_iff[OF made dist] by auto
qed

text \<open>
  C29. Tearing down is safe: in the tear-down order of a plan, nothing that is still to be torn down
  (the operation itself included) depends on the operation that is torn down next, and exactly
  the operations that change state and are owned or restored from a snapshot are in it.
\<close>

theorem teardown_order_safe:
  assumes "plan_made plan"
  shows "(\<forall>xs x ys. teardown_order plan = xs @ x # ys \<longrightarrow>
            (\<forall>y \<in> set (x # ys). lo_resource_id x \<notin> set (lo_dependencies y)))
     \<and> set (teardown_order plan) = {op \<in> set (lp_operations plan). teardown_eligible op}
     \<and> distinct (teardown_order plan)"
proof (intro conjI allI impI ballI)
  fix xs x ys y
  assume "teardown_order plan = xs @ x # ys" "y \<in> set (x # ys)"
  then show "lo_resource_id x \<notin> set (lo_dependencies y)"
    using lifecycle.dependents_first[OF assms] by (simp add: teardown_order_def setup_order_def)
next
  show "set (teardown_order plan) = {op \<in> set (lp_operations plan). teardown_eligible op}"
    using plan_made_order(3)[OF assms] by (auto simp: teardown_order_def setup_order_def)
  show "distinct (teardown_order plan)"
    using plan_made_order(1)[OF assms] by (simp add: teardown_order_def setup_order_def distinct_map)
qed

theorem teardown_order_witness:
  "map (hd \<circ> ri_path \<circ> lo_resource_id) (teardown_order demo_plan) = [''daemon'', ''config'', ''port'']
   \<and> distinct (teardown_order demo_plan)"
proof -
  have made: "plan_made demo_plan" by code_simp
  have "map (hd \<circ> ri_path \<circ> lo_resource_id) (teardown_order demo_plan) = [''daemon'', ''config'', ''port'']"
    by code_simp
  then show ?thesis using teardown_order_safe[OF made] by blast
qed



text \<open>
  The snapshot store keeps the first snapshot of each resource: after any sequence of captures, the
  snapshot of a resource is the first one captured for it, and asking for one that was never captured
  raises.
\<close>

theorem first_snapshot_wins:
  "snapshot_for r (capture_all captures []) =
     (case map_of captures r of
        Some s \<Rightarrow> Inr s
      | None \<Rightarrow> Inl (Exn MissingSnapshotError ''no first snapshot captured''))"
  by (simp add: snapshot_for_def capture_all_map)

end
