(* ===== verification/Dut_Render.thy ===== *)
theory Dut_Render
  imports Compilation_Plan Lifecycle_Plan
begin

text \<open>
  From a compilation plan to the work on the devices: the lifecycle plan projected from it
  (\<open>abstractions/compilation/lifecycle_projection.py\<close>), the results a renderer of the device side
  hands back and their validation against the plan (\<open>dut.py\<close>), and the check that lowering intents
  to tasks keeps them (\<open>lifecycle_materialization.py\<close>).
\<close>

section \<open>Projection of the lifecycle\<close>

abbreviation LifecycleProjectionError :: exn_class where
  "LifecycleProjectionError \<equiv> UserExn ''LifecycleProjectionError'' ValueError"

fun component_readiness :: "ComponentReadinessRequirement \<Rightarrow> ReadinessMode" where
  "component_readiness REQUIRE_NONE = NO_READINESS"
| "component_readiness REQUIRE_ACKNOWLEDGED = ACKNOWLEDGED"
| "component_readiness REQUIRE_HEALTHY = HEALTH_CHECK"

definition full_endpoint_ids :: "TopologyCompilationPlan \<Rightarrow> ResourceId list" where
  "full_endpoint_ids p =
     map ep_resource_id (filter (\<lambda>e. ep_is_dut e \<and> ep_setup_mode e = FULL) (dp_endpoints (tp_dut p)))"

definition validate_full_interface_ownership :: "TopologyCompilationPlan \<Rightarrow> ResourceId list \<Rightarrow> unit result" where
  "validate_full_interface_ownership p full =
     for_each (\<lambda>i. raise_if (if_endpoint_id i \<in> set full \<and> if_physical_interface_id i = None)
         (Exn LifecycleProjectionError ''full-setup interface has no physical owner'')) (dp_interfaces (tp_dut p))"

definition snapshot_operation :: "ResourceId \<Rightarrow> ResourceId list \<Rightarrow> ReadinessMode \<Rightarrow> LifecycleOperation result" where
  "snapshot_operation r dependencies readiness =
     mk_LifecycleOperation \<lparr>lo_resource_id = r, lo_ownership = SNAPSHOT_RESTORED, lo_restoration = FIRST_SNAPSHOT,
       lo_readiness = readiness, lo_dependencies = dependencies, lo_state_changing = True\<rparr>"

definition physical_ids_at :: "TopologyCompilationPlan \<Rightarrow> ResourceId \<Rightarrow> ResourceId list" where
  "physical_ids_at p endpoint =
     map pi_resource_id (filter (\<lambda>x. pi_endpoint_id x = endpoint) (dp_physical_interfaces (tp_dut p)))"

definition project_lifecycle :: "TopologyCompilationPlan \<Rightarrow> LifecyclePlan result" where
  "project_lifecycle p =
     (let full = full_endpoint_ids p; d = tp_dut p
      in rbind (validate_full_interface_ownership p full) (\<lambda>_.
         rbind (rmap (\<lambda>x. snapshot_operation (pi_resource_id x) [] EXACT_READBACK)
                  (filter (\<lambda>x. pi_endpoint_id x \<in> set full) (dp_physical_interfaces d))) (\<lambda>physical.
         rbind (rmap (\<lambda>c. snapshot_operation (rc_resource_id c) (physical_ids_at p (rc_endpoint_id c)) EXACT_READBACK)
                  (filter (\<lambda>c. rc_endpoint_id c \<in> set full) (dp_routing_configs d))) (\<lambda>configs.
         rbind (rmap (\<lambda>c. snapshot_operation (cp_resource_id c) (cp_depends_on c) (component_readiness (cp_readiness c)))
                  (filter (\<lambda>c. cp_endpoint_id c \<in> set full) (dp_components d))) (\<lambda>components.
         mk_LifecyclePlan (physical @ configs @ components))))))"

section \<open>Coverage of a plan\<close>

definition validate_unique_ids :: "string \<Rightarrow> ResourceId list \<Rightarrow> unit result" where
  "validate_unique_ids subject ids =
     raise_if (card (set ids) \<noteq> length ids) (value_error (subject @ '' resource IDs must be unique''))"

definition validate_exact_coverage :: "string \<Rightarrow> ResourceId list \<Rightarrow> ResourceId list \<Rightarrow> unit result" where
  "validate_exact_coverage subject expected actual =
     rbind (validate_unique_ids subject actual) (\<lambda>_.
     raise_if (filter (\<lambda>r. r \<notin> set actual) expected \<noteq> [] \<or> filter (\<lambda>r. r \<notin> set expected) actual \<noteq> [])
       (value_error (subject @ '' coverage mismatch'')))"

section \<open>Values per endpoint\<close>

text \<open>
  \<open>DutHostOsFragment\<close> and \<open>DutEndpointBaseFragment\<close>, and their results, are one pair of classes
  written twice: a value per endpoint, with the endpoint's physical identifier. The value may be
  \<open>None\<close>, which the constructor refuses.
\<close>

record 'v DutEndpointFragment =
  ef_endpoint_id :: ResourceId
  ef_physical_identifier :: string
  ef_value :: "'v option"

definition mk_fragment :: "string \<Rightarrow> 'v DutEndpointFragment \<Rightarrow> 'v DutEndpointFragment result" where
  "mk_fragment subject f =
     validated [(ri_kind (ef_endpoint_id f) \<noteq> ENDPOINT, subject @ '' fragment must reference an endpoint''),
       (ef_physical_identifier f = [], subject @ '' physical identifier must be nonempty''),
       (ef_value f = None, subject @ '' must be present'')] f"

record 'v DutEndpointRenderResult =
  er_owned_endpoint_ids :: "ResourceId list"
  er_fragments :: "'v DutEndpointFragment list"

definition mk_endpoint_result :: "string \<Rightarrow> 'v DutEndpointRenderResult \<Rightarrow> 'v DutEndpointRenderResult result" where
  "mk_endpoint_result subject r =
     rbind (validate_unique_ids (subject @ '' result'') (er_owned_endpoint_ids r)) (\<lambda>_.
     rbind (validate_unique_ids (subject @ '' fragment'') (map ef_endpoint_id (er_fragments r))) (\<lambda>_.
     rbind (raise_if (card (set (map ef_physical_identifier (er_fragments r))) \<noteq> length (er_fragments r))
              (value_error (subject @ '' physical identifiers must be unique''))) (\<lambda>_. Inr r)))"

definition validate_endpoint_result :: "string \<Rightarrow> 'v DutEndpointRenderResult \<Rightarrow> DutPlan \<Rightarrow> unit result" where
  "validate_endpoint_result subject r plan =
     (let expected = filter ep_is_dut (dp_endpoints plan);
          ids = map ep_resource_id expected
      in rbind (validate_exact_coverage (subject @ '' result'') ids (er_owned_endpoint_ids r)) (\<lambda>_.
         rbind (validate_exact_coverage (subject @ '' fragment'') ids (map ef_endpoint_id (er_fragments r))) (\<lambda>_.
         for_each (\<lambda>f. rbind (dict_index (by_id ep_resource_id expected) (ef_endpoint_id f)) (\<lambda>e.
             raise_if (ep_physical_identifier e \<noteq> Some (ef_physical_identifier f))
               (value_error (subject @ '' fragment physical identifier mismatch'')))) (er_fragments r))))"

abbreviation mk_DutHostOsRenderResult :: "'os DutEndpointRenderResult \<Rightarrow> 'os DutEndpointRenderResult result" where
  "mk_DutHostOsRenderResult \<equiv> mk_endpoint_result ''DUT host-OS''"

abbreviation mk_DutEndpointBaseRenderResult :: "'e DutEndpointRenderResult \<Rightarrow> 'e DutEndpointRenderResult result" where
  "mk_DutEndpointBaseRenderResult \<equiv> mk_endpoint_result ''DUT endpoint-base''"

definition host_os_type_map :: "'os DutEndpointRenderResult \<Rightarrow> (string, 'os option) dict" where
  "host_os_type_map r = foldl (\<lambda>d f. dict_set (ef_physical_identifier f) (ef_value f) d) [] (er_fragments r)"

definition base_endpoints :: "'e DutEndpointRenderResult \<Rightarrow> 'e option list" where
  "base_endpoints r = map ef_value (er_fragments r)"

section \<open>Tasks per lifecycle operation\<close>

record 't DutLifecycleFragment =
  lf_operation_id :: ResourceId
  lf_pre_ixia_tasks :: "'t list"
  lf_post_ixia_tasks :: "'t list"

definition mk_DutLifecycleFragment :: "'t DutLifecycleFragment \<Rightarrow> 't DutLifecycleFragment result" where
  "mk_DutLifecycleFragment f =
     validated [(lf_pre_ixia_tasks f = [] \<and> lf_post_ixia_tasks f = [], ''DUT lifecycle fragment must emit a task'')] f"

record 't DutLifecycleCleanupFragment =
  lc_operation_ids :: "ResourceId list"
  lc_task :: 't

definition mk_DutLifecycleCleanupFragment :: "'t DutLifecycleCleanupFragment \<Rightarrow> 't DutLifecycleCleanupFragment result" where
  "mk_DutLifecycleCleanupFragment f =
     rbind (raise_if (lc_operation_ids f = []) (value_error ''DUT lifecycle cleanup fragment must target an operation'')) (\<lambda>_.
     rbind (validate_unique_ids ''DUT lifecycle cleanup fragment'' (lc_operation_ids f)) (\<lambda>_. Inr f))"

record 't DutLifecycleRenderResult =
  lr_consumed_operation_ids :: "ResourceId list"
  lr_fragments :: "'t DutLifecycleFragment list"
  lr_cleanup_fragments :: "'t DutLifecycleCleanupFragment list"

definition fragment_ids :: "'t DutLifecycleRenderResult \<Rightarrow> ResourceId list" where
  "fragment_ids r = map lf_operation_id (lr_fragments r)"

definition mk_DutLifecycleRenderResult :: "'t DutLifecycleRenderResult \<Rightarrow> 't DutLifecycleRenderResult result" where
  "mk_DutLifecycleRenderResult r =
     rbind (validate_unique_ids ''DUT lifecycle result'' (lr_consumed_operation_ids r)) (\<lambda>_.
     rbind (validate_unique_ids ''DUT lifecycle fragment'' (fragment_ids r)) (\<lambda>_. Inr r))"

definition pre_ixia_tasks :: "'t DutLifecycleRenderResult \<Rightarrow> 't list" where
  "pre_ixia_tasks r = concat (map lf_pre_ixia_tasks (lr_fragments r))"

definition post_ixia_tasks :: "'t DutLifecycleRenderResult \<Rightarrow> 't list" where
  "post_ixia_tasks r = concat (map lf_post_ixia_tasks (lr_fragments r))"

definition cleanup_tasks :: "'t DutLifecycleRenderResult \<Rightarrow> 't list" where
  "cleanup_tasks r = map lc_task (lr_cleanup_fragments r)"

definition validate_lifecycle_result :: "'t DutLifecycleRenderResult \<Rightarrow> DutPlan \<Rightarrow> LifecyclePlan \<Rightarrow> unit result" where
  "validate_lifecycle_result r plan lifecycle =
     (let plan_ids = dut_resource_ids plan;
          lifecycle_ids = map lo_resource_id (setup_order lifecycle);
          consumed = lr_consumed_operation_ids r
      in rbind (raise_if (filter (\<lambda>i. i \<notin> set plan_ids \<or> i \<notin> set lifecycle_ids) consumed \<noteq> [])
                  (value_error ''DUT lifecycle result consumes unknown operations'')) (\<lambda>_.
         rbind (validate_exact_coverage ''DUT lifecycle fragment'' consumed (fragment_ids r)) (\<lambda>_.
         rbind (raise_if (consumed \<noteq> filter (\<lambda>i. i \<in> set consumed) lifecycle_ids)
                  (value_error ''DUT lifecycle result must follow lifecycle setup order'')) (\<lambda>_.
         raise_if (concat (map lc_operation_ids (lr_cleanup_fragments r))
              \<noteq> filter (\<lambda>i. i \<in> set consumed) (map lo_resource_id (teardown_order lifecycle)))
           (value_error ''DUT lifecycle cleanup must follow lifecycle teardown order'')))))"

section \<open>Lowering intents to tasks\<close>

abbreviation materialization_error :: "string \<Rightarrow> py_exn" where
  "materialization_error \<equiv> Exn (UserExn ''LifecycleTaskMaterializationError'' ValueError)"

definition lane_signature :: "'t DutLifecycleFragment \<Rightarrow> bool \<times> bool" where
  "lane_signature f = (lf_pre_ixia_tasks f \<noteq> [], lf_post_ixia_tasks f \<noteq> [])"

definition lane_cardinality :: "'t DutLifecycleFragment \<Rightarrow> nat \<times> nat" where
  "lane_cardinality f = (length (lf_pre_ixia_tasks f), length (lf_post_ixia_tasks f))"

definition cleanup_groups :: "'t DutLifecycleRenderResult \<Rightarrow> ResourceId list list" where
  "cleanup_groups r = map lc_operation_ids (lr_cleanup_fragments r)"

definition validate_non_null_tasks :: "'t option DutLifecycleRenderResult \<Rightarrow> unit result" where
  "validate_non_null_tasks r =
     raise_if (None \<in> set (concat (map (\<lambda>f. lf_pre_ixia_tasks f @ lf_post_ixia_tasks f) (lr_fragments r)) @ cleanup_tasks r))
       (materialization_error ''materialized lifecycle tasks must be non-null'')"

definition validate_lifecycle_task_materialization ::
    "DutPlan \<Rightarrow> LifecyclePlan \<Rightarrow> 'i DutLifecycleRenderResult \<Rightarrow> 't option DutLifecycleRenderResult \<Rightarrow> unit result" where
  "validate_lifecycle_task_materialization plan lifecycle intents tasks =
     rbind (validate_lifecycle_result intents plan lifecycle) (\<lambda>_.
     rbind (raise_if (lr_consumed_operation_ids tasks \<noteq> lr_consumed_operation_ids intents)
              (materialization_error ''materialized lifecycle operation coverage drift'')) (\<lambda>_.
     rbind (raise_if (fragment_ids tasks \<noteq> fragment_ids intents)
              (materialization_error ''materialized lifecycle fragment order drift'')) (\<lambda>_.
     rbind (raise_if (map lane_signature (lr_fragments tasks) \<noteq> map lane_signature (lr_fragments intents))
              (materialization_error ''materialized lifecycle lane drift'')) (\<lambda>_.
     rbind (raise_if (\<exists>(e, a) \<in> set (zip (map lane_cardinality (lr_fragments intents))
                                     (map lane_cardinality (lr_fragments tasks))). fst a < fst e \<or> snd a < snd e)
              (materialization_error ''materialized lifecycle intent cardinality drift'')) (\<lambda>_.
     rbind (raise_if (cleanup_groups tasks \<noteq> cleanup_groups intents)
              (materialization_error ''materialized lifecycle cleanup grouping drift'')) (\<lambda>_.
     rbind (validate_non_null_tasks tasks) (\<lambda>_.
     validate_lifecycle_result tasks plan lifecycle)))))))"

section \<open>Declared order\<close>

text \<open>When the declared order already respects the dependencies, the plan keeps it.\<close>

lemma find_next_declared:
  assumes "distinct ops" "respects_dependencies ops" "k < length ops"
  shows "find (placeable (take k ops)) ops = Some (ops ! k)"
proof -
  have "ops ! k \<notin> set (take k ops)"
    using assms(1,3) by (auto simp: in_set_conv_nth nth_eq_iff_index_eq)
  then have "placeable (take k ops) (ops ! k)"
    using assms(2,3) by (simp add: placeable_def respects_dependencies_def)
  moreover have "\<not> placeable (take k ops) (ops ! j)" if "j < k" for j
    using that assms(3) by (auto simp: placeable_def in_set_conv_nth)
  ultimately show ?thesis using assms(3) by (auto simp: find_Some_iff)
qed

lemma greedy_declared:
  assumes "distinct ops" "respects_dependencies ops"
  shows "greedy_order n ops (take k ops) = take (k + n) ops"
proof (induction n arbitrary: k)
  case (Suc n)
  show ?case
  proof (cases "k < length ops")
    case True
    then show ?thesis
      using Suc[of "Suc k"] find_next_declared[OF assms True] by (simp add: take_Suc_conv_app_nth)
  next
    case False
    then have "find (placeable (take k ops)) ops = None" by (simp add: find_None_iff placeable_def)
    then show ?thesis using False by simp
  qed
qed simp

lemma declared_order_kept:
  assumes "list_all operation_made ops" "distinct (map lo_resource_id ops)" "respects_dependencies ops"
  shows "mk_LifecyclePlan ops = Inr \<lparr>lp_operations = ops, lp_ordered_setup = ops\<rparr>"
proof -
  have "distinct ops" using assms(2) by (simp add: distinct_map)
  then have "greedy_order (length ops) ops [] = ops"
    using greedy_declared[OF _ assms(3), of "length ops" 0] by simp
  then have "stable_dependency_order ops = Inr ops"
    using stable_order_greedy[OF assms(2,1)] by simp
  moreover have "set (lo_dependencies op) \<subseteq> set (map lo_resource_id ops)" if op: "op \<in> set ops" for op
  proof -
    obtain k where "k < length ops" "op = ops ! k" using op by (auto simp: in_set_conv_nth)
    then have "set (lo_dependencies op) \<subseteq> lo_resource_id ` set (take k ops)"
      using assms(3) by (simp add: respects_dependencies_def)
    then show ?thesis using set_take_subset[of k ops] by auto
  qed
  then have "\<not> (\<exists>op \<in> set ops. \<exists>d \<in> set (lo_dependencies op). d \<notin> set (map lo_resource_id ops))" by blast
  ultimately show ?thesis using assms(2) by (simp add: mk_LifecyclePlan_def raise_if_def)
qed

lemma respects_append:
  assumes "respects_dependencies xs" "\<forall>y \<in> set ys. set (lo_dependencies y) \<subseteq> lo_resource_id ` set xs"
  shows "respects_dependencies (xs @ ys)"
  using assms(2)
proof (induction ys rule: rev_induct)
  case (snoc y ys)
  then have "respects_dependencies ((xs @ ys) @ [y])" unfolding respects_snoc by fastforce
  then show ?case by simp
qed (simp add: assms(1))

section \<open>Components depend on configurations\<close>

lemma component_madeD:
  assumes "dut_made p" "c \<in> set (dp_components p)"
  shows "cp_resource_id c = \<lparr>ri_kind = COMPONENT, ri_path = ri_path (cp_endpoint_id c) @ [component_role_value (cp_role c)]\<rparr>"
    "distinct (cp_depends_on c)" "cp_resource_id c \<notin> set (cp_depends_on c)"
  using assms by (auto simp: dut_made_def list_all_iff mk_ComponentPlan_def wrong_kind_def dependency_checks_def
      intro: ResourceId.equality)

text \<open>There is one component role, so the other component a component could name is itself.\<close>

lemma component_dependencies:
  assumes "dut_made p" "c \<in> set (dp_components p)" "d \<in> set (cp_depends_on c)"
  shows "\<exists>r \<in> set (dp_routing_configs p). rc_resource_id r = d \<and> rc_endpoint_id r = cp_endpoint_id c"
proof -
  have "validate_component_dependency (dependency_table p) c d = Inr ()"
    using dut_madeD(3)[OF assms(1)] assms(2,3) by (auto simp: validate_component_references_def)
  then have "(d, cp_endpoint_id c) \<in> set (dependency_table p)"
    by (auto simp: validate_component_dependency_def split: option.splits if_splits dest!: map_of_SomeD)
  then consider (config) r where "r \<in> set (dp_routing_configs p)" "rc_resource_id r = d" "rc_endpoint_id r = cp_endpoint_id c"
    | (component) c' where "c' \<in> set (dp_components p)" "cp_resource_id c' = d" "cp_endpoint_id c' = cp_endpoint_id c"
    by (auto simp: dependency_table_def)
  then show ?thesis
  proof cases
    case component
    then have "d = cp_resource_id c"
      using component_madeD(1)[OF assms(1)] assms(2) component_role_unique by metis
    then show ?thesis using component_madeD(3)[OF assms(1,2)] assms(3) by simp
  qed blast
qed

section \<open>The projected operations\<close>

definition projected :: "TopologyCompilationPlan \<Rightarrow> LifecycleOperation list" where
  "projected p =
     (let full = full_endpoint_ids p; d = tp_dut p;
          op = (\<lambda>r ds readiness. \<lparr>lo_resource_id = r, lo_ownership = SNAPSHOT_RESTORED, lo_restoration = FIRST_SNAPSHOT,
            lo_readiness = readiness, lo_dependencies = ds, lo_state_changing = True\<rparr>)
      in map (\<lambda>x. op (pi_resource_id x) [] EXACT_READBACK)
           (filter (\<lambda>x. pi_endpoint_id x \<in> set full) (dp_physical_interfaces d))
         @ map (\<lambda>c. op (rc_resource_id c) (physical_ids_at p (rc_endpoint_id c)) EXACT_READBACK)
             (filter (\<lambda>c. rc_endpoint_id c \<in> set full) (dp_routing_configs d))
         @ map (\<lambda>c. op (cp_resource_id c) (cp_depends_on c) (component_readiness (cp_readiness c)))
             (filter (\<lambda>c. cp_endpoint_id c \<in> set full) (dp_components d)))"

definition owned_interfaces :: "TopologyCompilationPlan \<Rightarrow> bool" where
  "owned_interfaces p \<longleftrightarrow>
     (\<forall>i \<in> set (dp_interfaces (tp_dut p)). if_endpoint_id i \<in> set (full_endpoint_ids p) \<longrightarrow> if_physical_interface_id i \<noteq> None)"

lemma projected_distinct:
  assumes "dut_made (tp_dut p)"
  shows "distinct (map lo_resource_id (projected p))"
proof -
  have "distinct (map pi_resource_id (dp_physical_interfaces (tp_dut p))
      @ map rc_resource_id (dp_routing_configs (tp_dut p)) @ map cp_resource_id (dp_components (tp_dut p)))"
    using dut_madeD(1)[OF assms] by (auto simp: dut_resource_ids_def)
  then show ?thesis
    by (auto simp: projected_def Let_def comp_def distinct_map_filter)
qed

lemma projected_made:
  assumes "dut_made (tp_dut p)"
  shows "list_all operation_made (projected p)"
proof -
  have ids: "distinct (map pi_resource_id (dp_physical_interfaces (tp_dut p)) @ map rc_resource_id (dp_routing_configs (tp_dut p)))"
    using dut_madeD(1)[OF assms] by (auto simp: dut_resource_ids_def)
  have "distinct (physical_ids_at p r)" for r
    using ids by (simp add: physical_ids_at_def distinct_map_filter)
  moreover have "rc_resource_id c \<notin> set (physical_ids_at p r)" if "c \<in> set (dp_routing_configs (tp_dut p))" for c r
    using ids that by (auto simp: physical_ids_at_def)
  ultimately show ?thesis
    using component_madeD(2,3)[OF assms]
    by (auto simp: projected_def Let_def list_all_iff operation_made_iff expected_restoration_def)
qed

lemma projected_respects:
  assumes "dut_made (tp_dut p)"
  shows "respects_dependencies (projected p)"
proof -
  have "set (cp_depends_on c) \<subseteq> rc_resource_id ` {r \<in> set (dp_routing_configs (tp_dut p)). rc_endpoint_id r \<in> set (full_endpoint_ids p)}"
    if "c \<in> set (dp_components (tp_dut p))" "cp_endpoint_id c \<in> set (full_endpoint_ids p)" for c
    using component_dependencies[OF assms that(1)] that(2) by force
  then show ?thesis
    unfolding projected_def Let_def append_assoc[symmetric]
    by (intro respects_append) (auto 4 4 simp: respects_dependencies_def physical_ids_at_def image_Un image_image)
qed

lemma for_each_raise_if: "for_each (\<lambda>x. raise_if (P x) e) xs = (if \<exists>x \<in> set xs. P x then Inl e else Inr ())"
  by (induction xs) (auto simp: for_each_def raise_if_def)

lemma snapshot_operations:
  assumes "\<forall>x \<in> set xs. operation_made \<lparr>lo_resource_id = r x, lo_ownership = SNAPSHOT_RESTORED,
      lo_restoration = FIRST_SNAPSHOT, lo_readiness = q x, lo_dependencies = ds x, lo_state_changing = True\<rparr>"
  shows "rmap (\<lambda>x. snapshot_operation (r x) (ds x) (q x)) xs
       = Inr (map (\<lambda>x. \<lparr>lo_resource_id = r x, lo_ownership = SNAPSHOT_RESTORED, lo_restoration = FIRST_SNAPSHOT,
            lo_readiness = q x, lo_dependencies = ds x, lo_state_changing = True\<rparr>) xs)"
  using assms by (intro rmap_all_Inr) (simp add: snapshot_operation_def operation_made_def)

lemma project_lifecycle_cases:
  assumes "dut_made (tp_dut p)"
  shows "project_lifecycle p =
     (if owned_interfaces p then Inr \<lparr>lp_operations = projected p, lp_ordered_setup = projected p\<rparr>
      else Inl (Exn LifecycleProjectionError ''full-setup interface has no physical owner''))"
proof -
  have owned: "validate_full_interface_ownership p (full_endpoint_ids p) =
      (if owned_interfaces p then Inr () else Inl (Exn LifecycleProjectionError ''full-setup interface has no physical owner''))"
    by (auto simp: validate_full_interface_ownership_def for_each_raise_if owned_interfaces_def)
  have made: "\<forall>op \<in> set (projected p). operation_made op"
    using projected_made[OF assms] by (simp add: list_all_iff)
  show ?thesis
    unfolding project_lifecycle_def Let_def owned
    using declared_order_kept[OF projected_made[OF assms] projected_distinct[OF assms] projected_respects[OF assms]] made
    by (simp add: snapshot_operations projected_def Let_def ball_Un)
qed

section \<open>Coverage and results\<close>

lemma validate_unique_ids_ok [simp]: "validate_unique_ids subject ids = Inr () \<longleftrightarrow> distinct ids"
  by (auto simp: validate_unique_ids_def raise_if_def card_distinct distinct_card)

lemma exact_coverage_ok [simp]:
  "validate_exact_coverage subject expected actual = Inr () \<longleftrightarrow> distinct actual \<and> set actual = set expected"
  by (auto simp: validate_exact_coverage_def rbind_eq_Inr raise_if_def filter_empty_conv)

lemma lifecycle_result_ok:
  "validate_lifecycle_result r plan lifecycle = Inr () \<longleftrightarrow>
     set (lr_consumed_operation_ids r) \<subseteq> set (dut_resource_ids plan)
     \<and> distinct (fragment_ids r) \<and> set (fragment_ids r) = set (lr_consumed_operation_ids r)
     \<and> lr_consumed_operation_ids r
         = filter (\<lambda>i. i \<in> set (lr_consumed_operation_ids r)) (map lo_resource_id (setup_order lifecycle))
     \<and> concat (map lc_operation_ids (lr_cleanup_fragments r))
         = filter (\<lambda>i. i \<in> set (lr_consumed_operation_ids r)) (map lo_resource_id (teardown_order lifecycle))"
proof -
  have "set (lr_consumed_operation_ids r) \<subseteq> lo_resource_id ` set (setup_order lifecycle)"
    if "lr_consumed_operation_ids r
       = filter (\<lambda>i. i \<in> set (lr_consumed_operation_ids r)) (map lo_resource_id (setup_order lifecycle))"
    using that by (metis filter_is_subset set_map)
  then show ?thesis
    by (auto simp: validate_lifecycle_result_def Let_def rbind_eq_Inr raise_if_def filter_empty_conv)
qed

lemma materialization_ok:
  "validate_lifecycle_task_materialization plan lifecycle intents tasks = Inr () \<longleftrightarrow>
     validate_lifecycle_result intents plan lifecycle = Inr ()
     \<and> lr_consumed_operation_ids tasks = lr_consumed_operation_ids intents
     \<and> fragment_ids tasks = fragment_ids intents
     \<and> map lane_signature (lr_fragments tasks) = map lane_signature (lr_fragments intents)
     \<and> (\<forall>(e, a) \<in> set (zip (map lane_cardinality (lr_fragments intents)) (map lane_cardinality (lr_fragments tasks))).
          fst e \<le> fst a \<and> snd e \<le> snd a)
     \<and> cleanup_groups tasks = cleanup_groups intents
     \<and> validate_non_null_tasks tasks = Inr ()
     \<and> validate_lifecycle_result tasks plan lifecycle = Inr ()"
  by (simp add: validate_lifecycle_task_materialization_def rbind_eq_Inr raise_if_def not_less case_prod_unfold)
     (metis not_less)

lemma same_lanes:
  assumes "map lf_operation_id ks = map lf_operation_id is" "map lane_signature ks = map lane_signature is"
    and "\<forall>(e, a) \<in> set (zip (map lane_cardinality is) (map lane_cardinality ks)). fst e \<le> fst a \<and> snd e \<le> snd a"
  shows "list_all2 (\<lambda>i k. lf_operation_id k = lf_operation_id i
      \<and> (lf_pre_ixia_tasks k = [] \<longleftrightarrow> lf_pre_ixia_tasks i = []) \<and> (lf_post_ixia_tasks k = [] \<longleftrightarrow> lf_post_ixia_tasks i = [])
      \<and> length (lf_pre_ixia_tasks i) \<le> length (lf_pre_ixia_tasks k)
      \<and> length (lf_post_ixia_tasks i) \<le> length (lf_post_ixia_tasks k)) is ks"
proof -
  have "length is = length ks" using assms(1) by (metis length_map)
  then show ?thesis
    using assms by (induction "is" ks rule: list_induct2) (auto simp: lane_signature_def lane_cardinality_def)
qed

text \<open>A selection of the teardown order undoes dependents first.\<close>

lemma cleanup_order_safe:
  assumes "plan_made L" "filter P (map lo_resource_id (teardown_order L)) = xs @ x # ys"
    and "op \<in> set (setup_order L)" "lo_resource_id op \<in> set ys"
  shows "x \<notin> set (lo_dependencies op)"
proof -
  let ?Q = "\<lambda>op. teardown_eligible op \<and> P (lo_resource_id op)"
  have "map lo_resource_id (filter ?Q (rev (setup_order L))) = xs @ x # ys"
    using assms(2) by (simp add: teardown_order_def setup_order_def filter_map comp_def)
  then obtain as a bs where split: "filter ?Q (rev (setup_order L)) = as @ a # bs" "lo_resource_id a = x"
      "map lo_resource_id bs = ys"
    by (auto simp: map_eq_append_conv map_eq_Cons_conv)
  then obtain b where b: "b \<in> set bs" "lo_resource_id b = lo_resource_id op" using assms(4) by auto
  have "b \<in> set (filter ?Q (rev (setup_order L)))" unfolding split(1) using b(1) by simp
  then have "b = op"
    using plan_made_order(1)[OF assms(1)] assms(3) b(2) by (auto simp: distinct_map dest: inj_onD)
  then show ?thesis
    using lifecycle.dependents_first[OF assms(1) split(1), of b] b(1) split(2) by simp
qed

section \<open>Properties\<close>

text \<open>
  C20. The lifecycle projected from a valid plan exists exactly when every interface of a fully set-up
  device has a physical owner, and then it is the declared order: physical interfaces, then routing
  configurations, then components of the fully set-up devices. The order respects every dependency,
  and tearing down is its exact reverse, so every projected resource is restored.
\<close>

theorem lifecycle_projection_exact:
  assumes "topology_made p"
  shows "if owned_interfaces p
     then \<exists>L. project_lifecycle p = Inr L \<and> plan_made L
        \<and> map lo_resource_id (setup_order L) =
            map pi_resource_id (filter (\<lambda>x. pi_endpoint_id x \<in> set (full_endpoint_ids p)) (dp_physical_interfaces (tp_dut p)))
            @ map rc_resource_id (filter (\<lambda>c. rc_endpoint_id c \<in> set (full_endpoint_ids p)) (dp_routing_configs (tp_dut p)))
            @ map cp_resource_id (filter (\<lambda>c. cp_endpoint_id c \<in> set (full_endpoint_ids p)) (dp_components (tp_dut p)))
        \<and> respects_dependencies (setup_order L) \<and> teardown_order L = rev (setup_order L)
     else \<exists>m. project_lifecycle p = Inl (Exn LifecycleProjectionError m)"
proof -
  have made: "dut_made (tp_dut p)" by (rule topology_madeD[OF assms])
  let ?L = "\<lparr>lp_operations = projected p, lp_ordered_setup = projected p\<rparr>"
  have "plan_made ?L"
    using declared_order_kept[OF projected_made[OF made] projected_distinct[OF made] projected_respects[OF made]]
      projected_made[OF made] by (simp add: plan_made_def)
  moreover have "teardown_order ?L = rev (projected p)"
    by (auto simp: teardown_order_def teardown_eligible_def projected_def Let_def filter_id_conv)
  moreover have "map lo_resource_id (projected p) =
      map pi_resource_id (filter (\<lambda>x. pi_endpoint_id x \<in> set (full_endpoint_ids p)) (dp_physical_interfaces (tp_dut p)))
      @ map rc_resource_id (filter (\<lambda>c. rc_endpoint_id c \<in> set (full_endpoint_ids p)) (dp_routing_configs (tp_dut p)))
      @ map cp_resource_id (filter (\<lambda>c. cp_endpoint_id c \<in> set (full_endpoint_ids p)) (dp_components (tp_dut p)))"
    by (simp add: projected_def Let_def comp_def)
  ultimately show ?thesis
    using projected_respects[OF made] unfolding project_lifecycle_cases[OF made]
    by (simp add: setup_order_def)
qed

theorem lifecycle_projection_witness:
  "\<exists>L. project_lifecycle demo_topology = Inr L \<and> plan_made L
     \<and> map lo_resource_id (setup_order L) = [rid PHYSICAL_INTERFACE [''dut'', ''logical_role'', ''uplink''],
          rid ROUTING_CONFIG [''dut''], rid COMPONENT [''dut'', ''routing_control_plane'']]"
proof -
  have owned: "owned_interfaces demo_topology"
    by (simp add: owned_interfaces_def demo_topology_def demo_dut_def)
  have full: "full_endpoint_ids demo_topology = [rid ENDPOINT [''dut'']]"
    by (simp add: full_endpoint_ids_def demo_topology_def demo_dut_def demo_endpoint_def)
  have "map pi_resource_id (filter (\<lambda>x. pi_endpoint_id x \<in> set (full_endpoint_ids demo_topology)) (dp_physical_interfaces (tp_dut demo_topology)))
      @ map rc_resource_id (filter (\<lambda>c. rc_endpoint_id c \<in> set (full_endpoint_ids demo_topology)) (dp_routing_configs (tp_dut demo_topology)))
      @ map cp_resource_id (filter (\<lambda>c. cp_endpoint_id c \<in> set (full_endpoint_ids demo_topology)) (dp_components (tp_dut demo_topology)))
      = [rid PHYSICAL_INTERFACE [''dut'', ''logical_role'', ''uplink''], rid ROUTING_CONFIG [''dut''],
         rid COMPONENT [''dut'', ''routing_control_plane'']]"
    unfolding full by (simp add: demo_topology_def demo_dut_def)
  then show ?thesis
    using lifecycle_projection_exact[OF demo_topology_made] owned by auto
qed


text \<open>
  Results for the concrete runs: one task per operation of the valid plan, in set-up order, and the
  same with the fragments reversed.
\<close>

definition demo_fragment :: "ResourceId \<Rightarrow> string \<Rightarrow> string option DutLifecycleFragment" where
  "demo_fragment r t = \<lparr>lf_operation_id = r, lf_pre_ixia_tasks = [Some t], lf_post_ixia_tasks = []\<rparr>"

definition demo_operation_ids :: "ResourceId list" where
  "demo_operation_ids = [rid PHYSICAL_INTERFACE [''dut'', ''logical_role'', ''uplink''],
     rid ROUTING_CONFIG [''dut''], rid COMPONENT [''dut'', ''routing_control_plane'']]"

definition demo_result :: "string option DutLifecycleFragment list \<Rightarrow> string option DutLifecycleRenderResult" where
  "demo_result fragments = \<lparr>lr_consumed_operation_ids = demo_operation_ids, lr_fragments = fragments,
     lr_cleanup_fragments = [\<lparr>lc_operation_ids = rev demo_operation_ids, lc_task = Some ''undo''\<rparr>]\<rparr>"

definition demo_fragments :: "string option DutLifecycleFragment list" where
  "demo_fragments = map2 demo_fragment demo_operation_ids [''port'', ''config'', ''daemon'']"

definition demo_lifecycle :: LifecyclePlan where
  "demo_lifecycle = \<lparr>lp_operations = projected demo_topology, lp_ordered_setup = projected demo_topology\<rparr>"

lemma demo_projected_ids: "map lo_resource_id (projected demo_topology) = demo_operation_ids"
  by code_simp

lemma demo_eligible: "list_all teardown_eligible (projected demo_topology)"
  by code_simp

lemma demo_teardown_ids: "map lo_resource_id (teardown_order demo_lifecycle) = rev demo_operation_ids"
  using demo_projected_ids demo_eligible
  by (simp add: teardown_order_def demo_lifecycle_def list_all_iff flip: rev_filter rev_map)

lemma demo_lifecycle_made: "plan_made demo_lifecycle"
proof -
  have made: "dut_made (tp_dut demo_topology)" by (rule topology_madeD[OF demo_topology_made])
  show ?thesis
    using declared_order_kept[OF projected_made[OF made] projected_distinct[OF made] projected_respects[OF made]]
      projected_made[OF made] by (simp add: plan_made_def demo_lifecycle_def)
qed

lemma demo_materialization:
  assumes "fs \<in> {demo_fragments, rev demo_fragments}"
  shows "validate_lifecycle_task_materialization demo_dut demo_lifecycle (demo_result fs) (demo_result fs) = Inr ()"
proof -
  have ids: "set demo_operation_ids \<subseteq> set (dut_resource_ids demo_dut)" "distinct demo_operation_ids" by code_simp+
  have order: "map lo_resource_id (setup_order demo_lifecycle) = demo_operation_ids"
    using demo_projected_ids by (simp add: setup_order_def demo_lifecycle_def)
  have frags: "map lf_operation_id demo_fragments = demo_operation_ids" "None \<notin> set (concat (map lf_pre_ixia_tasks demo_fragments))"
     "concat (map lf_post_ixia_tasks demo_fragments) = []" by code_simp+
  have "lf_operation_id ` set demo_fragments = set demo_operation_ids" using frags(1) by (metis set_map)
  then have "distinct (map lf_operation_id fs) \<and> set (map lf_operation_id fs) = set demo_operation_ids"
      "\<forall>f \<in> set fs. None \<notin> set (lf_pre_ixia_tasks f @ lf_post_ixia_tasks f)"
    using assms ids(2) frags by (auto simp flip: rev_map)
  then show ?thesis
    using ids unfolding materialization_ok lifecycle_result_ok order demo_teardown_ids
    by (auto simp: demo_result_def fragment_ids_def validate_non_null_tasks_def raise_if_def cleanup_tasks_def
        in_set_zip intro: filter_True[symmetric] split: if_splits)
qed



text \<open>
  A validated result of the host systems names every device under test once, by its physical
  identifier: the map it yields sends the identifier of each such endpoint to the value of that
  endpoint's fragment, and has no other key. Every such endpoint then has an identifier.
\<close>

theorem host_os_map_exact:
  assumes "dut_made plan" "mk_DutHostOsRenderResult r = Inr r" "validate_endpoint_result ''DUT host-OS'' r plan = Inr ()"
  shows "distinct (dict_keys (host_os_type_map r))
     \<and> Some ` set (dict_keys (host_os_type_map r)) = ep_physical_identifier ` {e \<in> set (dp_endpoints plan). ep_is_dut e}
     \<and> (\<forall>f \<in> set (er_fragments r). dict_get (host_os_type_map r) (ef_physical_identifier f) = Some (ef_value f))
     \<and> length (er_fragments r) = length (filter ep_is_dut (dp_endpoints plan))"
proof -
  let ?duts = "filter ep_is_dut (dp_endpoints plan)"
  have pids: "distinct (map ef_physical_identifier (er_fragments r))"
    using assms(2) by (auto simp: mk_endpoint_result_def rbind_eq_Inr raise_if_def card_distinct split: if_splits)
  have ids: "distinct (map ep_resource_id ?duts)"
    using dut_madeD(1)[OF assms(1)] by (simp add: dut_resource_ids_def distinct_map_filter)
  have cover: "distinct (map ef_endpoint_id (er_fragments r))" "ef_endpoint_id ` set (er_fragments r) = ep_resource_id ` set ?duts"
    and idx: "\<And>f. f \<in> set (er_fragments r) \<Longrightarrow>
      \<exists>e. dict_get (by_id ep_resource_id ?duts) (ef_endpoint_id f) = Some e
        \<and> ep_physical_identifier e = Some (ef_physical_identifier f)"
    using assms(3)
    by (auto simp: validate_endpoint_result_def Let_def rbind_eq_Inr dict_index_def raise_if_def split: option.splits if_splits)
       metis
  have each: "\<exists>e \<in> set ?duts. ep_resource_id e = ef_endpoint_id f \<and> ep_physical_identifier e = Some (ef_physical_identifier f)"
    if "f \<in> set (er_fragments r)" for f
    using idx[OF that] by_id_get_D by metis
  have "\<exists>f \<in> set (er_fragments r). ep_physical_identifier e = Some (ef_physical_identifier f)" if e: "e \<in> set ?duts" for e
  proof -
    have "ep_resource_id e \<in> ef_endpoint_id ` set (er_fragments r)" unfolding cover(2) using e by (rule imageI)
    then obtain f where f: "f \<in> set (er_fragments r)" "ef_endpoint_id f = ep_resource_id e" by auto
    then obtain e' where e': "e' \<in> set ?duts" "ep_resource_id e' = ep_resource_id e"
        "ep_physical_identifier e' = Some (ef_physical_identifier f)" using each by metis
    have "inj_on ep_resource_id (set ?duts)" using ids unfolding distinct_map by blast
    then have "e' = e" using e'(2,1) e by (rule inj_onD)
    then show ?thesis using f(1) e'(3) by blast
  qed
  then have "Some ` set (map ef_physical_identifier (er_fragments r)) = ep_physical_identifier ` set ?duts"
    using each by (auto simp: image_iff) metis+
  moreover have "length (map ef_endpoint_id (er_fragments r)) = length (map ep_resource_id ?duts)"
    using cover ids by (metis distinct_card set_map)
  ultimately show ?thesis
    using pids unfolding host_os_type_map_def fold_new_entries[OF pids]
    by (auto simp: dict_keys_def comp_def map_of_eq_Some_iff)
qed

definition demo_host_os :: "string DutEndpointRenderResult" where
  "demo_host_os = \<lparr>er_owned_endpoint_ids = [rid ENDPOINT [''dut'']],
     er_fragments = [\<lparr>ef_endpoint_id = rid ENDPOINT [''dut''], ef_physical_identifier = ''dut.lab'', ef_value = Some ''eos''\<rparr>]\<rparr>"

theorem host_os_map_witness:
  "Some ` set (dict_keys (host_os_type_map demo_host_os)) = {Some ''dut.lab''}"
proof -
  have made: "mk_DutHostOsRenderResult demo_host_os = Inr demo_host_os"
    and valid: "validate_endpoint_result ''DUT host-OS'' demo_host_os demo_dut = Inr ()" by code_simp+
  have "ep_physical_identifier ` {e \<in> set (dp_endpoints demo_dut). ep_is_dut e} = {Some ''dut.lab''}"
    unfolding set_filter[symmetric] by (simp add: demo_dut_def demo_endpoint_def)
  then show ?thesis using host_os_map_exact[OF demo_dut_made made valid] by simp
qed

end
