(* ===== verification/Topology_Planner.thy ===== *)
theory Topology_Planner
  imports Ixia_Planner Dut_Plan_Check Compile_Report Dut_Render
begin

text \<open>
  \<open>BoundTopologyPlanner.plan\<close> as a whole (\<open>abstractions/compilation/planner.py\<close>): the plan of both
  sides, the report on its resources, the identities beside it and the lifecycle projected from it.
\<close>

section \<open>Report on a plan\<close>

text \<open>\<open>iter_resources\<close>: of an OpenR plan the report also reads the mode.\<close>

datatype plan_resource = OpenrResource OpenRPlan | OtherResource ResourceId

definition plan_resources :: "TopologyCompilationPlan \<Rightarrow> plan_resource list" where
  "plan_resources p =
     (let d = tp_dut p
      in map OtherResource
           (map ep_resource_id (dp_endpoints d) @ map dl_resource_id (dp_links d)
            @ map pi_resource_id (dp_physical_interfaces d) @ map if_resource_id (dp_interfaces d)
            @ map ba_resource_id (dp_adjacencies d) @ map po_resource_id (dp_policies d)
            @ map pb_resource_id (dp_policy_bindings d) @ map rc_resource_id (dp_routing_configs d)
            @ map cp_resource_id (dp_components d))
         @ map OpenrResource (dp_openr d) @ map OtherResource (ixia_resource_ids (tp_ixia p)))"

fun plan_resource_id :: "plan_resource \<Rightarrow> ResourceId" where
  "plan_resource_id (OpenrResource x) = or_resource_id x"
| "plan_resource_id (OtherResource r) = r"

definition topology_resource_ids :: "TopologyCompilationPlan \<Rightarrow> ResourceId list" where
  "topology_resource_ids p = dut_resource_ids (tp_dut p) @ ixia_resource_ids (tp_ixia p)"

definition resource_report :: "plan_resource \<Rightarrow> ResourceReport result" where
  "resource_report x =
     (let r = plan_resource_id x
      in if (case x of OpenrResource y \<Rightarrow> or_mode y = OPENR_NONE | OtherResource _ \<Rightarrow> False)
         then mk_ResourceReport \<lparr>rr_resource_id = r, rr_required = False, rr_disposition = RESOURCE_SKIPPED,
                rr_reason = Some ''logical topology explicitly disables OpenR''\<rparr>
         else mk_ResourceReport \<lparr>rr_resource_id = r, rr_required = True, rr_disposition = EMITTED, rr_reason = None\<rparr>)"

definition compile_report :: "TopologyCompilationPlan \<Rightarrow> CompileReport result" where
  "compile_report p =
     rbind (rmap resource_report (plan_resources p)) (\<lambda>reports.
     rbind (mk_CompileReport \<lparr>cr_resource_reports = reports, cr_renderer_reports = []\<rparr>) (\<lambda>report.
     rbind (validate_report report (topology_resource_ids p) []) (\<lambda>_. Inr report)))"

section \<open>The result of planning\<close>

record PlanningResult =
  pr_plan :: TopologyCompilationPlan
  pr_report :: CompileReport
  pr_legacy_identity :: LegacyIxiaIdentitySidecar
  pr_lifecycle :: LifecyclePlan

definition mk_PlanningResult :: "PlanningResult \<Rightarrow> PlanningResult result" where
  "mk_PlanningResult r =
     rbind (validate_report (pr_report r) (topology_resource_ids (pr_plan r)) []) (\<lambda>_.
     rbind (validate_sidecar (pr_legacy_identity r) (ixia_resource_ids (tp_ixia (pr_plan r)))) (\<lambda>_.
     rbind (raise_if (\<exists>op \<in> set (lp_operations (pr_lifecycle r)).
               lo_resource_id op \<notin> set (topology_resource_ids (pr_plan r)))
              (value_error ''lifecycle operations target resources absent from the plan'')) (\<lambda>_. Inr r)))"

definition assemble ::
    "('m IxiaBoundDeviceGroup_scheme, 'n) IxiaBoundTopology_scheme \<Rightarrow> (TopologyCompilationPlan \<times> LegacyIxiaIdentitySidecar) result" where
  "assemble b =
     rbind (dut_parts b) (\<lambda>parts.
     rbind (plan_ixia b (endpoint_specs b)) (\<lambda>ixia.
     rbind (mk_DutPlan parts) (\<lambda>dut.
     rbind (mk_TopologyCompilationPlan \<lparr>tp_dut = dut, tp_ixia = ir_plan ixia\<rparr>) (\<lambda>p.
       Inr (p, ir_legacy_identity ixia)))))"

definition plan_topology ::
    "('m IxiaBoundDeviceGroup_scheme, 'n) IxiaBoundTopology_scheme \<Rightarrow> PlanningResult result" where
  "plan_topology b =
     rbind (assemble b) (\<lambda>(p, legacy).
     rbind (compile_report p) (\<lambda>report.
     rbind (project_lifecycle p) (\<lambda>lifecycle.
       mk_PlanningResult \<lparr>pr_plan = p, pr_report = report, pr_legacy_identity = legacy, pr_lifecycle = lifecycle\<rparr>)))"

section \<open>Constructors return what they check\<close>

lemma mk_IxiaDeviceGroupPlan_same: "mk_IxiaDeviceGroupPlan p = Inr q \<Longrightarrow> q = p \<and> mk_IxiaDeviceGroupPlan q = Inr q"
  by (simp add: mk_IxiaDeviceGroupPlan_def)

lemma mk_IxiaBgpSessionPlan_same: "mk_IxiaBgpSessionPlan p = Inr q \<Longrightarrow> q = p \<and> mk_IxiaBgpSessionPlan q = Inr q"
  by (simp add: mk_IxiaBgpSessionPlan_def)

lemma mk_IxiaAdvertisementPlan_same: "mk_IxiaAdvertisementPlan p = Inr q \<Longrightarrow> q = p \<and> mk_IxiaAdvertisementPlan q = Inr q"
  by (auto simp: mk_IxiaAdvertisementPlan_def rbind_eq_Inr)

lemma exclusion_plan_made: "exclusion_plan blk = Inr x \<Longrightarrow> mk_IxiaPeerPrefixExclusionBlock x = Inr x"
  by (simp add: exclusion_plan_def mk_IxiaPeerPrefixExclusionBlock_def)

lemma advertisement_plan_made:
  assumes "advertisement_plan r group_id afi peers ra = Inr a"
  shows "ad_resource_id a = r" "ad_device_group_id a = group_id" "mk_IxiaAdvertisementPlan a = Inr a"
    "list_all (\<lambda>x. mk_IxiaPeerPrefixExclusionBlock x = Inr x) (ad_exclusion_blocks a)"
proof -
  obtain q blocks where q: "mk_IxiaAdvertisementPlan q = Inr a" "ad_resource_id q = r" "ad_device_group_id q = group_id"
      "ad_exclusion_blocks q = blocks"
      "(case adv_activation (ra_spec ra) of None \<Rightarrow> Inr [] | Some x \<Rightarrow> rmap exclusion_plan (exclusion_blocks x)) = Inr blocks"
    using assms by (auto simp: advertisement_plan_def Let_def rbind_eq_Inr split: if_splits)
  then show "ad_resource_id a = r" "ad_device_group_id a = group_id" "mk_IxiaAdvertisementPlan a = Inr a"
    using mk_IxiaAdvertisementPlan_same[OF q(1)] by auto
  have "mk_IxiaPeerPrefixExclusionBlock x = Inr x" if "x \<in> set blocks" for x
    using q(5) that rmap_member[of exclusion_plan _ blocks x] exclusion_plan_made by (auto split: option.splits)
  then show "list_all (\<lambda>x. mk_IxiaPeerPrefixExclusionBlock x = Inr x) (ad_exclusion_blocks a)"
    using mk_IxiaAdvertisementPlan_same[OF q(1)] q(4) by (auto simp: list_all_iff)
qed

definition instance_ok :: "instance_plan \<Rightarrow> bool" where
  "instance_ok x \<longleftrightarrow>
     mk_IxiaDeviceGroupPlan (ip_group x) = Inr (ip_group x) \<and> mk_IxiaBgpSessionPlan (ip_session x) = Inr (ip_session x)
     \<and> (\<forall>a \<in> set (ip_advertisements x). mk_IxiaAdvertisementPlan a = Inr a
          \<and> list_all (\<lambda>y. mk_IxiaPeerPrefixExclusionBlock y = Inr y) (ad_exclusion_blocks a))
     \<and> (\<forall>i \<in> set (ip_group_identities x). lg_resource_id i = dg_resource_id (ip_group x))
     \<and> (\<forall>i \<in> set (ip_session_identities x). ls_resource_id i = bs_resource_id (ip_session x))
     \<and> (\<forall>i \<in> set (ip_advertisement_identities x). la_resource_id i \<in> ad_resource_id ` set (ip_advertisements x))"

lemma instance_advertisement_ok:
  assumes "instance_advertisement n afi group_id i ra = Inr (a, ids)"
  shows "mk_IxiaAdvertisementPlan a = Inr a" "list_all (\<lambda>x. mk_IxiaPeerPrefixExclusionBlock x = Inr x) (ad_exclusion_blocks a)"
    "\<forall>x \<in> set ids. la_resource_id x = ad_resource_id a"
proof -
  obtain r where r: "advertisement_plan r group_id afi (in_peers i) ra = Inr a" "advertisement_identities r i ra = Inr ids"
    using assms by (auto simp: instance_advertisement_def rbind_eq_Inr)
  note made = advertisement_plan_made[OF r(1)]
  show "mk_IxiaAdvertisementPlan a = Inr a" "list_all (\<lambda>x. mk_IxiaPeerPrefixExclusionBlock x = Inr x) (ad_exclusion_blocks a)"
    by (rule made)+
  show "\<forall>x \<in> set ids. la_resource_id x = ad_resource_id a"
    using r(2) made(1)
    by (auto simp: advertisement_identities_def mk_LegacyIxiaAdvertisementIdentity_def rbind_eq_Inr split: option.splits list.splits)
qed

lemma group_identities_ok: "group_identities r i = Inr xs \<Longrightarrow> \<forall>j \<in> set xs. lg_resource_id j = r"
  by (auto simp: group_identities_def mk_LegacyIxiaGroupIdentity_def rbind_eq_Inr split: if_splits)

lemma session_identities_ok: "session_identities r i = Inr xs \<Longrightarrow> \<forall>j \<in> set xs. ls_resource_id j = r"
  by (auto simp: session_identities_def mk_LegacyIxiaSessionIdentity_def rbind_eq_Inr split: option.splits)

lemma instance_plan_ok:
  assumes "instance_plan_of g is_a role rel bgp i = Inr x"
  shows "instance_ok x"
proof -
  obtain dg0 bs0 group_id session_id ads where
      dg: "mk_IxiaDeviceGroupPlan dg0 = Inr (ip_group x)" "dg_resource_id dg0 = group_id"
    and bs: "mk_IxiaBgpSessionPlan bs0 = Inr (ip_session x)" "bs_resource_id bs0 = session_id"
    and gi: "group_identities group_id i = Inr (ip_group_identities x)"
    and si: "session_identities session_id i = Inr (ip_session_identities x)"
    and ads: "rmap (instance_advertisement (bg_name g) (bg_afi g) group_id i) (in_advertisements i) = Inr ads"
      "ip_advertisements x = map fst ads" "ip_advertisement_identities x = concat (map snd ads)"
    using assms by (force simp: instance_plan_of_def rbind_eq_Inr)
  note g = mk_IxiaDeviceGroupPlan_same[OF dg(1)] and s = mk_IxiaBgpSessionPlan_same[OF bs(1)]
  have gis: "\<forall>j \<in> set (ip_group_identities x). lg_resource_id j = group_id"
    by (rule group_identities_ok[OF gi])
  have sis: "\<forall>j \<in> set (ip_session_identities x). ls_resource_id j = session_id"
    by (rule session_identities_ok[OF si])
  have each: "mk_IxiaAdvertisementPlan (fst p) = Inr (fst p) \<and> list_all (\<lambda>y. mk_IxiaPeerPrefixExclusionBlock y = Inr y) (ad_exclusion_blocks (fst p))
      \<and> (\<forall>j \<in> set (snd p). la_resource_id j = ad_resource_id (fst p))" if p: "p \<in> set ads" for p
  proof -
    obtain ra where "instance_advertisement (bg_name g) (bg_afi g) group_id i ra = Inr (fst p, snd p)"
      using rmap_member[OF ads(1) p] by auto
    from instance_advertisement_ok[OF this] show ?thesis by blast
  qed
  have "\<forall>j \<in> set (ip_advertisement_identities x). la_resource_id j \<in> ad_resource_id ` set (ip_advertisements x)"
  proof
    fix j
    assume "j \<in> set (ip_advertisement_identities x)"
    then obtain p where p: "p \<in> set ads" "j \<in> set (snd p)" by (auto simp: ads(3))
    then have "la_resource_id j = ad_resource_id (fst p)" using each by blast
    then show "la_resource_id j \<in> ad_resource_id ` set (ip_advertisements x)" using p(1) by (simp add: ads(2))
  qed
  then show ?thesis
    using g s gis sis each dg(2) bs(2) unfolding instance_ok_def ads(2) by auto
qed

lemma group_instances_ok:
  assumes "group_instances ge = Inr xs" "x \<in> set xs"
  shows "instance_ok x"
proof -
  obtain role rel bgp ins where "rmap (instance_plan_of (fst ge) (xe_dut_is_a (snd ge)) role rel bgp) ins = Inr xs"
    using assms(1) by (auto simp: group_instances_def Let_def rbind_eq_Inr split: option.splits)
  from rmap_member[OF this assms(2)] show ?thesis using instance_plan_ok by blast
qed

lemma plan_ixia_ok:
  assumes "plan_ixia b specs = Inr r"
  shows "ixia_made (ir_plan r)" "set (sidecar_ids (ir_legacy_identity r)) \<subseteq> set (ixia_resource_ids (ir_plan r))"
proof -
  obtain groups ports iss flows plan sidecar where "resolved_groups b specs = Inr groups" and iss: "rmap group_instances groups = Inr iss"
    and plan: "mk_IxiaPlan \<lparr>xx_ports = ports, xx_device_groups = map ip_group (concat iss),
        xx_bgp_sessions = map ip_session (concat iss), xx_advertisements = concat (map ip_advertisements (concat iss)),
        xx_traffic_flows = flows\<rparr> = Inr plan"
    and r: "mk_IxiaPlanningResult \<lparr>ir_plan = plan, ir_legacy_identity = sidecar\<rparr> = Inr r"
    using assms by (auto simp: plan_ixia_def Let_def rbind_eq_Inr)
  define xs where "xs = concat iss"
  have ok: "\<forall>x \<in> set xs. instance_ok x"
    using rmap_member[OF iss] group_instances_ok by (fastforce simp: xs_def)
  have p: "plan = \<lparr>xx_ports = ports, xx_device_groups = map ip_group xs, xx_bgp_sessions = map ip_session xs,
        xx_advertisements = concat (map ip_advertisements xs), xx_traffic_flows = flows\<rparr>" "mk_IxiaPlan plan = Inr plan"
    using plan by (auto simp: mk_IxiaPlan_ok xs_def)
  have ir: "ir_plan r = plan" using r by (auto simp: mk_IxiaPlanningResult_def rbind_eq_Inr)
  have parts: "list_all (\<lambda>x. mk_IxiaDeviceGroupPlan x = Inr x) (xx_device_groups plan)"
      "list_all (\<lambda>x. mk_IxiaBgpSessionPlan x = Inr x) (xx_bgp_sessions plan)"
      "list_all (\<lambda>x. mk_IxiaAdvertisementPlan x = Inr x
          \<and> list_all (\<lambda>b. mk_IxiaPeerPrefixExclusionBlock b = Inr b) (ad_exclusion_blocks x)) (xx_advertisements plan)"
    using ok by (auto simp: p(1) list_all_iff instance_ok_def)
  show "ixia_made (ir_plan r)" unfolding ixia_made_def ir using parts p(2) by simp
  show "set (sidecar_ids (ir_legacy_identity r)) \<subseteq> set (ixia_resource_ids (ir_plan r))"
    using r by (auto simp: mk_IxiaPlanningResult_def rbind_eq_Inr)
qed

section \<open>The assembled plan\<close>

lemma assemble_ok:
  assumes "assemble b = Inr (p, legacy)"
  shows "topology_made p" "set (sidecar_ids legacy) \<subseteq> set (ixia_resource_ids (tp_ixia p))"
proof -
  obtain parts ixia where parts: "dut_parts b = Inr parts" and ixia: "plan_ixia b (endpoint_specs b) = Inr ixia"
    and dut: "mk_DutPlan parts = Inr parts"
    and p: "mk_TopologyCompilationPlan p = Inr p" "p = \<lparr>tp_dut = parts, tp_ixia = ir_plan ixia\<rparr>" "legacy = ir_legacy_identity ixia"
    using assms by (auto simp: assemble_def rbind_eq_Inr mk_DutPlan_ok mk_TopologyCompilationPlan_ok)
  have "dut_made parts" using parts_made[OF parts] dut by (simp add: dut_made_def)
  then show "topology_made p" using plan_ixia_ok(1)[OF ixia] p(1,2) by (simp add: topology_made_def)
  show "set (sidecar_ids legacy) \<subseteq> set (ixia_resource_ids (tp_ixia p))"
    using plan_ixia_ok(2)[OF ixia] p(2,3) by simp
qed

lemma plan_resource_ids: "map plan_resource_id (plan_resources p) = topology_resource_ids p"
  by (simp add: plan_resources_def topology_resource_ids_def dut_resource_ids_def Let_def comp_def)

definition report_of :: "plan_resource \<Rightarrow> ResourceReport" where
  "report_of x =
     (if \<exists>y. x = OpenrResource y \<and> or_mode y = OPENR_NONE
      then \<lparr>rr_resource_id = plan_resource_id x, rr_required = False, rr_disposition = RESOURCE_SKIPPED,
             rr_reason = Some ''logical topology explicitly disables OpenR''\<rparr>
      else \<lparr>rr_resource_id = plan_resource_id x, rr_required = True, rr_disposition = EMITTED, rr_reason = None\<rparr>)"

lemma resource_report_total: "resource_report x = Inr (report_of x)"
proof -
  have "has_reason (Some ''logical topology explicitly disables OpenR'')" by code_simp
  then show ?thesis
    by (cases x) (auto simp: resource_report_def report_of_def mk_ResourceReport_def Let_def raise_if_def)
qed

lemma accounting_same: "distinct ids \<Longrightarrow> validate_accounting subject ids ids = Inr ()"
  by (simp add: validate_accounting_ok)

lemma compile_report_total:
  assumes "topology_made p"
  shows "compile_report p = Inr \<lparr>cr_resource_reports = map report_of (plan_resources p), cr_renderer_reports = []\<rparr>"
    and "mk_CompileReport \<lparr>cr_resource_reports = map report_of (plan_resources p), cr_renderer_reports = []\<rparr>
      = Inr \<lparr>cr_resource_reports = map report_of (plan_resources p), cr_renderer_reports = []\<rparr>"
    and "map (rr_resource_id \<circ> report_of) (plan_resources p) = topology_resource_ids p"
proof -
  have ids: "map (rr_resource_id \<circ> report_of) (plan_resources p) = topology_resource_ids p"
    unfolding plan_resource_ids[symmetric] by (simp add: report_of_def comp_def)
  moreover have d: "distinct (topology_resource_ids p)"
    using assms by (simp add: topology_made_def mk_TopologyCompilationPlan_ok topology_resource_ids_def)
  ultimately have mk: "mk_CompileReport \<lparr>cr_resource_reports = map report_of (plan_resources p), cr_renderer_reports = []\<rparr>
      = Inr \<lparr>cr_resource_reports = map report_of (plan_resources p), cr_renderer_reports = []\<rparr>"
    by (simp add: mk_CompileReport_ok)
  show "compile_report p = Inr \<lparr>cr_resource_reports = map report_of (plan_resources p), cr_renderer_reports = []\<rparr>"
    using mk ids d
    by (simp add: compile_report_def rmap_all_Inr[OF resource_report_total] validate_report_def accounting_same)
  show "mk_CompileReport \<lparr>cr_resource_reports = map report_of (plan_resources p), cr_renderer_reports = []\<rparr>
      = Inr \<lparr>cr_resource_reports = map report_of (plan_resources p), cr_renderer_reports = []\<rparr>"
    by (rule mk)
  show "map (rr_resource_id \<circ> report_of) (plan_resources p) = topology_resource_ids p" by (rule ids)
qed

lemma projected_in_plan: "lo_resource_id ` set (projected p) \<subseteq> set (topology_resource_ids p)"
  by (auto simp: projected_def Let_def topology_resource_ids_def dut_resource_ids_def)

lemma plan_topology_cases:
  "plan_topology b =
     (case assemble b of
        Inl e \<Rightarrow> Inl e
      | Inr (p, legacy) \<Rightarrow>
          if owned_interfaces p
          then Inr \<lparr>pr_plan = p, pr_report = \<lparr>cr_resource_reports = map report_of (plan_resources p), cr_renderer_reports = []\<rparr>,
                 pr_legacy_identity = legacy, pr_lifecycle = \<lparr>lp_operations = projected p, lp_ordered_setup = projected p\<rparr>\<rparr>
          else Inl (Exn LifecycleProjectionError ''full-setup interface has no physical owner''))"
proof (cases "assemble b")
  case (Inr x)
  obtain p legacy where x: "x = (p, legacy)" by (cases x)
  note asm = assemble_ok[OF Inr[unfolded x]]
  note report = compile_report_total[OF asm(1)]
  have dut: "dut_made (tp_dut p)" using asm(1) by (simp add: topology_made_def)
  have d: "distinct (topology_resource_ids p)"
    using asm(1) by (simp add: topology_made_def mk_TopologyCompilationPlan_ok topology_resource_ids_def)
  have "validate_report \<lparr>cr_resource_reports = map report_of (plan_resources p), cr_renderer_reports = []\<rparr> (topology_resource_ids p) []
      = Inr ()"
    using report(3) d by (simp add: validate_report_def accounting_same)
  moreover have "\<forall>op \<in> set (projected p). lo_resource_id op \<in> set (topology_resource_ids p)"
    using projected_in_plan by blast
  moreover have "validate_sidecar legacy (ixia_resource_ids (tp_ixia p)) = Inr ()" using asm(2) by simp
  ultimately show ?thesis
    by (auto simp: Inr x plan_topology_def report(1) project_lifecycle_cases[OF dut] mk_PlanningResult_def raise_if_def
        simp del: validate_sidecar_ok)
qed (simp add: plan_topology_def)

section \<open>Property\<close>


end
