(* ===== verification/Facing_Sides.thy ===== *)
theory Facing_Sides
  imports Topology_Planner
begin

text \<open>
  The two halves of a planned topology face each other: the references between them, which the
  constructor \<open>TopologyCompilationPlan\<close> checks, hold by the way the planner builds both halves from
  one bound topology.
\<close>

section \<open>Bound topologies whose sides agree\<close>

text \<open>
  Only the device side of a group has a bound interface, the peer count is the number of peers, and
  a child's peers are its window of the group's peers.
\<close>

definition child_window :: "ResolvedPeer list \<Rightarrow> BoundIxiaDeviceGroupChild \<Rightarrow> bool" where
  "child_window peers c \<longleftrightarrow>
     0 \<le> ch_start_index c \<and> nat (ch_start_index c) + length (ch_peers c) \<le> length peers
     \<and> ch_peers c = take (length (ch_peers c)) (drop (nat (ch_start_index c)) peers)"

definition dut_named :: "(string, EndpointSpec) dict \<Rightarrow> string \<Rightarrow> bool" where
  "dut_named specs n = (case dict_get specs n of Some e \<Rightarrow> is_dut_endpoint e | None \<Rightarrow> False)"

definition sides_agree :: "(string, EndpointSpec) dict \<Rightarrow> 'm IxiaBoundDeviceGroup_scheme \<Rightarrow> bool" where
  "sides_agree specs g \<longleftrightarrow>
     (bg_a_interface g = None \<or> dut_named specs (bg_a_endpoint g))
     \<and> (bg_z_interface g = None \<or> dut_named specs (bg_z_endpoint g))
     \<and> (case bound_peers g of
          Inl e \<Rightarrow> True
        | Inr peers \<Rightarrow> bg_peer_count g = int (length peers) \<and> list_all (child_window peers) (xg_children g))"

definition facing :: "('m IxiaBoundDeviceGroup_scheme, 'n) IxiaBoundTopology_scheme \<Rightarrow> bool" where
  "facing b \<longleftrightarrow> well_bound b \<and> list_all (sides_agree (endpoint_specs b)) (bt_device_groups b)"

section \<open>One group seen from both sides\<close>

lemma named_endpoints_ok:
  "named_endpoints dut traffic is_a x y = Inr e \<Longrightarrow> xe_dut e = dut \<and> xe_traffic e = traffic \<and> xe_dut_is_a e = is_a"
  by (induction dut traffic is_a x y rule: named_endpoints.induct) auto

lemma ixia_endpoints_ok:
  assumes "ixia_endpoints b (endpoint_specs b) g = Inr e"
  shows "es_name (xe_dut e) = (if xe_dut_is_a e then bg_a_endpoint g else bg_z_endpoint g)"
    "es_name (xe_traffic e) = (if xe_dut_is_a e then bg_z_endpoint g else bg_a_endpoint g)"
    "{bg_a_endpoint g, bg_z_endpoint g} \<subseteq> es_name ` set (bt_endpoints b)"
    "dut_named (endpoint_specs b) (bg_a_endpoint g) = xe_dut_is_a e"
    "dut_named (endpoint_specs b) (bg_z_endpoint g) = (\<not> xe_dut_is_a e)"
proof -
  obtain a z where az: "dict_get (endpoint_specs b) (bg_a_endpoint g) = Some a" "dict_get (endpoint_specs b) (bg_z_endpoint g) = Some z"
    using assms by (auto simp: ixia_endpoints_def dict_index_def rbind_eq_Inr split: option.splits)
  note names = endpoint_specs_get[OF az(1)] endpoint_specs_get[OF az(2)]
  obtain t where t: "(if is_dut_endpoint a \<and> \<not> is_dut_endpoint z then Inr (a, z, True)
            else if is_dut_endpoint z \<and> \<not> is_dut_endpoint a then Inr (z, a, False)
            else fail ''device group does not identify one DUT and one traffic endpoint'') = Inr t"
      "xe_dut e = fst t \<and> xe_traffic e = fst (snd t) \<and> xe_dut_is_a e = snd (snd t)"
    using assms unfolding ixia_endpoints_def dict_index_def az
    by (auto simp: rbind_eq_Inr dest!: named_endpoints_ok)
  have e: "is_dut_endpoint a = xe_dut_is_a e" "is_dut_endpoint z = (\<not> xe_dut_is_a e)"
      "xe_dut e = (if xe_dut_is_a e then a else z)" "xe_traffic e = (if xe_dut_is_a e then z else a)"
    using t by (auto split: if_splits)
  show "es_name (xe_dut e) = (if xe_dut_is_a e then bg_a_endpoint g else bg_z_endpoint g)"
    "es_name (xe_traffic e) = (if xe_dut_is_a e then bg_z_endpoint g else bg_a_endpoint g)"
    using e(3,4) names by simp_all
  show "{bg_a_endpoint g, bg_z_endpoint g} \<subseteq> es_name ` set (bt_endpoints b)"
    using names by (auto intro: rev_image_eqI)
  show "dut_named (endpoint_specs b) (bg_a_endpoint g) = xe_dut_is_a e"
    "dut_named (endpoint_specs b) (bg_z_endpoint g) = (\<not> xe_dut_is_a e)"
    using e(1,2) az by (simp_all add: dut_named_def)
qed

lemma same_side:
  assumes "ixia_endpoints b (endpoint_specs b) g = Inr e" "dut_side g (endpoint_specs b) = Inr side" "sides_agree (endpoint_specs b) g"
  shows "ds_dut_is_a side = xe_dut_is_a e"
proof -
  note dn = ixia_endpoints_ok(4,5)[OF assms(1)]
  obtain a z where az: "dict_get (endpoint_specs b) (bg_a_endpoint g) = Some a" "dict_get (endpoint_specs b) (bg_z_endpoint g) = Some z"
    using assms(2) by (auto simp: dut_side_def dict_index_def rbind_eq_Inr split: option.splits)
  have d: "is_dut_endpoint a = xe_dut_is_a e" "is_dut_endpoint z = (\<not> xe_dut_is_a e)"
    using dn az by (simp_all add: dut_named_def)
  have i: "bg_a_interface g \<noteq> None \<longrightarrow> xe_dut_is_a e" "bg_z_interface g \<noteq> None \<longrightarrow> \<not> xe_dut_is_a e"
    using assms(3) dn by (auto simp: sides_agree_def)
  have side_is: "ds_dut_is_a s = is_a" if "side_of g x n is_a = Inr s" for x n is_a s
    using that by (auto simp: side_of_def rbind_eq_Inr)
  show ?thesis
    using assms(2) az d i side_is by (auto simp: dut_side_def dict_index_def split: if_splits)
qed

lemma adjacency_plan_ok:
  assumes "adjacency_plan g is_a (k, p) = Inr a"
  shows "ba_resource_id a = adjacency_rid (bg_name g) (int k)" "ba_link_id a = link_rid (bg_name g)" "ba_ordinal a = int k"
    "bg_afi g = afi_value (ba_afi a)" "ba_local_address a = (if is_a then rp_a_ip p else rp_z_ip p)"
    "ba_peer_address a = (if is_a then rp_z_ip p else rp_a_ip p)" "ba_local_asn a = bg_local_asn g"
    "ba_remote_asn a = bg_remote_asn g" "ba_relationship a = bg_peer_relationship g"
  using assms by (auto simp: adjacency_plan_def mk_BgpAdjacencyPlan_def rbind_eq_Inr resource_id_defs)

lemma adjacency_of_peer:
  assumes "adjacency_plans b specs = Inr as" "g \<in> set (bt_device_groups b)" "distinct (map bg_name (bt_device_groups b))"
    and "dut_side g specs = Inr side" "bound_peers g = Inr peers" "k < length peers"
  shows "\<exists>a. dict_get (by_id ba_resource_id as) (adjacency_rid (bg_name g) (int k)) = Some a
     \<and> adjacency_plan g (ds_dut_is_a side) (k, peers ! k) = Inr a"
proof -
  obtain ass where ass: "rmap (group_adjacencies specs) (bt_device_groups b) = Inr ass" "as = concat ass"
    using assms(1) by (auto simp: adjacency_plans_def rbind_eq_Inr)
  obtain xs where xs: "xs \<in> set ass" "group_adjacencies specs g = Inr xs" using rmap_image[OF ass(1) assms(2)] by blast
  have "(k, peers ! k) \<in> set (enumerate 0 peers)" using assms(6) by (auto simp: in_set_enumerate_eq)
  moreover have "rmap (adjacency_plan g (ds_dut_is_a side)) (enumerate 0 peers) = Inr xs"
    using xs(2) assms(4,5) by (simp add: group_adjacencies_def)
  ultimately obtain a where a: "a \<in> set xs" "adjacency_plan g (ds_dut_is_a side) (k, peers ! k) = Inr a"
    using rmap_image by fastforce
  have "distinct (map ba_resource_id as)" using adjacency_ids_distinct[OF ass(1) assms(3)] ass(2) by simp
  moreover have "a \<in> set as" using a(1) xs(1) ass(2) by auto
  ultimately have "dict_get (by_id ba_resource_id as) (adjacency_rid (bg_name g) (int k)) = Some a"
    using adjacency_plan_ok(1)[OF a(2)] by (simp add: by_id_get)
  with a(2) show ?thesis by blast
qed

section \<open>Instances\<close>

lemma instance_window:
  assumes "ixia_instances g = Inr is" "i \<in> set is" "bound_peers g = Inr peers" "list_all (child_window peers) (xg_children g)"
  shows "0 \<le> in_peer_start_index i" "nat (in_peer_start_index i) + length (in_peers i) \<le> length peers"
    "\<And>k. k < length (in_peers i) \<Longrightarrow> in_peers i ! k = peers ! (nat (in_peer_start_index i) + k)"
proof -
  have win: "0 \<le> in_peer_start_index i \<and> nat (in_peer_start_index i) + length (in_peers i) \<le> length peers
     \<and> in_peers i = take (length (in_peers i)) (drop (nat (in_peer_start_index i)) peers)"
    using assms by (auto simp: ixia_instances_def ixia_child_instance_def child_window_def list_all_iff split: if_splits)
  then show "0 \<le> in_peer_start_index i" "nat (in_peer_start_index i) + length (in_peers i) \<le> length peers" by auto
  show "in_peers i ! k = peers ! (nat (in_peer_start_index i) + k)" if k: "k < length (in_peers i)" for k
  proof -
    have "in_peers i ! k = take (length (in_peers i)) (drop (nat (in_peer_start_index i)) peers) ! k" using win by simp
    also have "\<dots> = peers ! (nat (in_peer_start_index i) + k)" using conjunct1[OF conjunct2[OF win]] k by simp
    finally show ?thesis .
  qed
qed

lemma instance_shape:
  assumes "instance_plan_of g is_a role rel bgp i = Inr x"
  shows "dg_link_id (ip_group x) = link_rid (bg_name g)" "bg_afi g = afi_value (dg_afi (ip_group x))"
    "dg_peer_count (ip_group x) = int (length (in_peers i))" "dg_peer_start_index (ip_group x) = in_peer_start_index i"
    "dg_local_asn (ip_group x) = bg_remote_asn g" "dg_remote_asn (ip_group x) = bg_local_asn g"
    "bs_device_group_id (ip_session x) = dg_resource_id (ip_group x)" "bs_relationship (ip_session x) = rel"
    "bs_adjacency_ids (ip_session x) = map (\<lambda>k. adjacency_rid (bg_name g) (in_peer_start_index i + int k)) [0 ..< length (in_peers i)]"
    "bs_local_addresses (ip_session x) = map (if is_a then rp_z_ip else rp_a_ip) (in_peers i)"
    "bs_peer_addresses (ip_session x) = map (if is_a then rp_a_ip else rp_z_ip) (in_peers i)"
proof -
  obtain group_id session_id port_id adjacencies afi where
      link: "link_resource_id (bg_name g) = Inr (link_rid (bg_name g))" and afi: "bg_afi g = afi_value afi"
    and adj: "rmap (\<lambda>k. adjacency_resource_id (bg_name g) (in_peer_start_index i + int k)) [0 ..< length (in_peers i)] = Inr adjacencies"
    and group: "mk_IxiaDeviceGroupPlan \<lparr>dg_resource_id = group_id, dg_link_id = link_rid (bg_name g), dg_port_id = port_id, dg_afi = afi,
              dg_peer_count = int (length (in_peers i)), dg_local_asn = bg_remote_asn g, dg_remote_asn = bg_local_asn g,
              dg_parent_network = bg_parent_network g, dg_peer_start_index = in_peer_start_index i\<rparr> = Inr (ip_group x)"
    and session: "mk_IxiaBgpSessionPlan \<lparr>bs_resource_id = session_id, bs_device_group_id = group_id, bs_adjacency_ids = adjacencies,
              bs_local_addresses = map (if is_a then rp_z_ip else rp_a_ip) (in_peers i),
              bs_peer_addresses = map (if is_a then rp_a_ip else rp_z_ip) (in_peers i),
              bs_peer_cidrs = map rp_peer_cidr (in_peers i), bs_relationship = rel,
              bs_capabilities = be_capabilities bgp, bs_address_prefix_length = be_address_prefix_length bgp,
              bs_address_step = be_address_step bgp, bs_address_start_index = be_address_start_index bgp,
              bs_enable_four_byte_local_as = True, bs_hold_timer_s = be_hold_timer_s bgp,
              bs_keepalive_timer_s = be_keepalive_timer_s bgp, bs_enable_graceful_restart = be_enable_graceful_restart bgp,
              bs_tcp_window_size_bytes = xg_slow_peer_tcp_window_size_bytes g\<rparr> = Inr (ip_session x)"
    using assms by (force simp: instance_plan_of_def rbind_eq_Inr link_resource_id_def)
  have "map id adjacencies = map (\<lambda>k. adjacency_rid (bg_name g) (in_peer_start_index i + int k)) [0 ..< length (in_peers i)]"
    by (rule rmap_project[OF adj]) (simp add: adjacency_resource_id_def)
  note facts = this conjunct1[OF mk_IxiaDeviceGroupPlan_same[OF group]] conjunct1[OF mk_IxiaBgpSessionPlan_same[OF session]]
  show "dg_link_id (ip_group x) = link_rid (bg_name g)" "bg_afi g = afi_value (dg_afi (ip_group x))"
    "dg_peer_count (ip_group x) = int (length (in_peers i))" "dg_peer_start_index (ip_group x) = in_peer_start_index i"
    "dg_local_asn (ip_group x) = bg_remote_asn g" "dg_remote_asn (ip_group x) = bg_local_asn g"
    "bs_device_group_id (ip_session x) = dg_resource_id (ip_group x)" "bs_relationship (ip_session x) = rel"
    "bs_adjacency_ids (ip_session x) = map (\<lambda>k. adjacency_rid (bg_name g) (in_peer_start_index i + int k)) [0 ..< length (in_peers i)]"
    "bs_local_addresses (ip_session x) = map (if is_a then rp_z_ip else rp_a_ip) (in_peers i)"
    "bs_peer_addresses (ip_session x) = map (if is_a then rp_a_ip else rp_z_ip) (in_peers i)"
    using facts(1) afi by (simp_all add: facts(2,3))
qed

section \<open>Groups with their endpoints\<close>

definition group_pair_ok ::
    "('m IxiaBoundDeviceGroup_scheme, 'n) IxiaBoundTopology_scheme \<Rightarrow> 'm IxiaBoundDeviceGroup_scheme \<times> IxiaEndpoints \<Rightarrow> bool" where
  "group_pair_ok b ge \<longleftrightarrow> fst ge \<in> set (bt_device_groups b) \<and> ixia_endpoints b (endpoint_specs b) (fst ge) = Inr (snd ge)"

lemma resolved_groups_ok:
  assumes "resolved_groups b (endpoint_specs b) = Inr groups" "ge \<in> set groups"
  shows "group_pair_ok b ge"
  using rmap_member[OF assms(1)[unfolded resolved_groups_def] assms(2)] by (auto simp: group_pair_ok_def rbind_eq_Inr)

lemma group_link_get:
  assumes "link_plans b = Inr links" "g \<in> set (bt_device_groups b)" "distinct (map bg_name (bt_device_groups b))"
  shows "\<exists>l. dict_get (by_id dl_resource_id links) (link_rid (bg_name g)) = Some l \<and> link_plan g = Inr l"
proof -
  obtain l where l: "l \<in> set links" "link_plan g = Inr l" using rmap_image[OF assms(1)[unfolded link_plans_def] assms(2)] by blast
  have "map dl_resource_id links = map (\<lambda>g. link_rid (bg_name g)) (bt_device_groups b)"
    by (rule rmap_project[OF assms(1)[unfolded link_plans_def]]) (use link_plan_ok in blast)
  moreover have "distinct (map (\<lambda>g. link_rid (bg_name g)) (bt_device_groups b))"
    using assms(3) by (auto simp: distinct_map inj_on_def)
  ultimately have "distinct (map dl_resource_id links)" by simp
  then have "dict_get (by_id dl_resource_id links) (link_rid (bg_name g)) = Some l"
    using l link_plan_ok[OF l(2)] by (simp add: by_id_get)
  with l(2) show ?thesis by blast
qed

lemma link_plan_peers: "link_plan g = Inr l \<Longrightarrow> dl_peer_count l = bg_peer_count g"
  by (auto simp: link_plan_def mk_DutLinkPlan_def rbind_eq_Inr)

section \<open>Ports\<close>

definition port_ok :: "('m IxiaBoundDeviceGroup_scheme \<times> IxiaEndpoints) set \<Rightarrow> IxiaPortPlan \<Rightarrow> bool" where
  "port_ok G p \<longleftrightarrow>
     (\<exists>ge \<in> G. xp_dut_endpoint_id p = endpoint_rid (es_name (xe_dut (snd ge)))
        \<and> xp_traffic_endpoint_id p = endpoint_rid (es_name (xe_traffic (snd ge))))
     \<and> (\<forall>l \<in> set (xp_link_ids p). \<exists>ge \<in> G. l = link_rid (bg_name (fst ge))
        \<and> xp_dut_endpoint_id p = endpoint_rid (es_name (xe_dut (snd ge)))
        \<and> xp_traffic_endpoint_id p = endpoint_rid (es_name (xe_traffic (snd ge))))"

lemma dict_set_subset: "set (dict_set k v d) \<subseteq> insert (k, v) (set d)"
  by (induction d) auto

lemma new_port_ok: "new_port a e = Inr p \<Longrightarrow> (g, e) \<in> G \<Longrightarrow> port_ok G p"
  by (auto simp: new_port_def port_ok_def rbind_eq_Inr endpoint_resource_id_def intro!: bexI[of _ "(g, e)"])

lemma port_add_ok:
  assumes "port_add p g e = Inr q" "(g, e) \<in> G" "port_ok G p"
  shows "port_ok G q"
proof -
  have q: "q = p\<lparr>xp_link_ids := add_once (link_rid (bg_name g)) (xp_link_ids p)\<rparr>"
    "xp_dut_endpoint_id p = endpoint_rid (es_name (xe_dut e))" "xp_traffic_endpoint_id p = endpoint_rid (es_name (xe_traffic e))"
    using assms(1)
    by (auto simp: port_add_def rbind_eq_Inr endpoint_resource_id_def link_resource_id_def split: option.splits if_splits)
  have "\<exists>ge \<in> G. l = link_rid (bg_name (fst ge)) \<and> xp_dut_endpoint_id p = endpoint_rid (es_name (xe_dut (snd ge)))
        \<and> xp_traffic_endpoint_id p = endpoint_rid (es_name (xe_traffic (snd ge)))" if l: "l \<in> set (xp_link_ids q)" for l
  proof (cases "l = link_rid (bg_name g)")
    case True
    then show ?thesis using assms(2) q(2,3) by (intro bexI[of _ "(g, e)"]) simp_all
  next
    case False
    then have "l \<in> set (xp_link_ids p)" using l q(1) by simp
    then show ?thesis using assms(3) unfolding port_ok_def by blast
  qed
  then show ?thesis using assms(3) by (simp add: port_ok_def q(1))
qed

lemma accumulate_ports_ok:
  assumes "rfold accumulate_port accs ges = Inr accs'" "set ges \<subseteq> G" "\<forall>(r, p) \<in> set accs. port_ok G p"
  shows "\<forall>(r, p) \<in> set accs'. port_ok G p"
  using assms
proof (induction ges arbitrary: accs)
  case (Cons ge ges)
  obtain accs1 where one: "accumulate_port accs ge = Inr accs1" and rest: "rfold accumulate_port accs1 ges = Inr accs'"
    using Cons.prems(1) by (auto simp: rbind_eq_Inr)
  obtain g e where ge: "ge = (g, e)" by (cases ge)
  have mem: "(g, e) \<in> G" using Cons.prems(2) ge by simp
  obtain a where a: "bg_port_assignment g = Some a"
    using one by (cases "bg_port_assignment g") (simp_all add: accumulate_port_def ge)
  obtain p q where p: "(case dict_get accs (pa_logical_role a) of Some p \<Rightarrow> Inr p | None \<Rightarrow> new_port a e) = Inr p"
      "port_add p g e = Inr q" "accs1 = dict_set (pa_logical_role a) q accs"
    using one a by (auto simp: accumulate_port_def ge rbind_eq_Inr cong: option.case_cong)
  have "port_ok G p"
    using p(1) Cons.prems(3) new_port_ok[OF _ mem] by (auto split: option.splits dest!: map_of_SomeD)
  then have "port_ok G q" by (rule port_add_ok[OF p(2) mem])
  then have "\<forall>(r, p) \<in> set accs1. port_ok G p"
    using dict_set_subset[of "pa_logical_role a" q accs] Cons.prems(3) p(3) by auto
  then show ?case using Cons.IH[OF rest] Cons.prems(2) by simp
qed simp

lemma planned_ports_ok:
  assumes "ixia_port_plans groups = Inr ports" "p \<in> set ports"
  shows "port_ok (set groups) p \<and> ri_kind (xp_resource_id p) = IXIA_PORT"
proof -
  obtain accs where accs: "rfold accumulate_port [] groups = Inr accs" "rmap mk_IxiaPortPlan (map snd accs) = Inr ports"
    using assms(1) by (auto simp: ixia_port_plans_def rbind_eq_Inr)
  have "ports = map snd accs \<and> (\<forall>x \<in> set (map snd accs). mk_IxiaPortPlan x = Inr x)"
    by (rule rmap_checked[OF accs(2)]) (simp add: mk_IxiaPortPlan_def)
  moreover have "\<forall>(r, p) \<in> set accs. port_ok (set groups) p" by (rule accumulate_ports_ok[OF accs(1)]) simp_all
  ultimately show ?thesis using assms(2) by (fastforce simp: mk_IxiaPortPlan_def)
qed

lemma port_validated:
  assumes "port_ok G p" "\<forall>ge \<in> G. group_pair_ok b ge" "link_plans b = Inr links" "endpoint_plans b = Inr endpoints"
    and "distinct (map bg_name (bt_device_groups b))"
  shows "validate_port (map ep_resource_id endpoints) (by_id dl_resource_id links) p = Inr ()"
proof -
  have "map ep_resource_id endpoints = map (\<lambda>e. endpoint_rid (es_name e)) (bt_endpoints b)"
    by (rule rmap_project[OF assms(4)[unfolded endpoint_plans_def] endpoint_plan_id])
  then have ids: "set (map ep_resource_id endpoints) = endpoint_rid ` es_name ` set (bt_endpoints b)"
    by (simp add: image_image)
  obtain ge where ge: "group_pair_ok b ge" "xp_dut_endpoint_id p = endpoint_rid (es_name (xe_dut (snd ge)))"
      "xp_traffic_endpoint_id p = endpoint_rid (es_name (xe_traffic (snd ge)))"
    using assms(1,2) unfolding port_ok_def by blast
  note e = ixia_endpoints_ok[OF conjunct2[OF ge(1)[unfolded group_pair_ok_def]]]
  have known: "xp_dut_endpoint_id p \<in> set (map ep_resource_id endpoints)" "xp_traffic_endpoint_id p \<in> set (map ep_resource_id endpoints)"
    unfolding ids ge(2,3) using e(1-3) by auto
  have "validate_port_link (by_id dl_resource_id links) p l = Inr ()" if l: "l \<in> set (xp_link_ids p)" for l
  proof -
    obtain h where h: "group_pair_ok b h" "l = link_rid (bg_name (fst h))" "xp_dut_endpoint_id p = endpoint_rid (es_name (xe_dut (snd h)))"
        "xp_traffic_endpoint_id p = endpoint_rid (es_name (xe_traffic (snd h)))"
      using assms(1,2) l unfolding port_ok_def by blast
    note eh = ixia_endpoints_ok[OF conjunct2[OF h(1)[unfolded group_pair_ok_def]]]
    obtain k where k: "dict_get (by_id dl_resource_id links) l = Some k" "link_plan (fst h) = Inr k"
      using group_link_get[OF assms(3) _ assms(5), of "fst h"] h(1,2) by (auto simp: group_pair_ok_def)
    show ?thesis using k(1) link_plan_ok[OF k(2)] h(3,4) eh(1,2) by (auto simp: validate_port_link_def)
  qed
  then show ?thesis using known by (simp add: validate_port_def for_each_def)
     (simp flip: for_each_def)
qed

section \<open>Sessions\<close>

lemma session_peers_intro:
  assumes "length ls = length ids" "length ps = length ids" "length ns = length ids"
    and "\<And>k. k < length ids \<Longrightarrow> \<exists>a. dict_get adjacencies (ids ! k) = Some a \<and> mirrors s g a (ls ! k) (ps ! k) (ns ! k)"
  shows "validate_session_peers adjacencies s g ids ls ps ns = Inr ()"
  using assms
proof (induction adjacencies s g ids ls ps ns rule: validate_session_peers.induct)
  case (2 adjacencies s g i ids l ls p ps n ns)
  obtain a where a: "dict_get adjacencies i = Some a" "validate_session_peer s g a l p n = Inr ()"
    using "2.prems"(4)[of 0] by (auto simp: validate_session_peer_ok)
  have "validate_session_peers adjacencies s g ids ls ps ns = Inr ()"
    by (rule "2.IH"[OF a(1)]) (use "2.prems" in \<open>force dest: "2.prems"(4)[of "Suc _"]\<close>)+
  then show ?case using a by simp
qed auto

lemma group_sides:
  assumes "facing b" "group_pair_ok b ge" "adjacency_plans b (endpoint_specs b) = Inr as"
  obtains side peers where "dut_side (fst ge) (endpoint_specs b) = Inr side" "ds_dut_is_a side = xe_dut_is_a (snd ge)"
    "bound_peers (fst ge) = Inr peers" "bg_peer_count (fst ge) = int (length peers)"
    "list_all (child_window peers) (xg_children (fst ge))"
proof -
  have g: "fst ge \<in> set (bt_device_groups b)" "ixia_endpoints b (endpoint_specs b) (fst ge) = Inr (snd ge)"
    using assms(2) by (simp_all add: group_pair_ok_def)
  have agree: "sides_agree (endpoint_specs b) (fst ge)" using assms(1) g(1) by (simp add: facing_def list_all_iff)
  obtain ass where ass: "rmap (group_adjacencies (endpoint_specs b)) (bt_device_groups b) = Inr ass"
    using assms(3) by (auto simp: adjacency_plans_def rbind_eq_Inr)
  obtain xs where "group_adjacencies (endpoint_specs b) (fst ge) = Inr xs" using rmap_image[OF ass g(1)] by blast
  then obtain side peers where s: "dut_side (fst ge) (endpoint_specs b) = Inr side" "bound_peers (fst ge) = Inr peers"
    by (auto simp: group_adjacencies_def rbind_eq_Inr)
  show ?thesis
    using that[OF s(1) same_side[OF g(2) s(1) agree] s(2)] agree s(2) by (simp add: sides_agree_def)
qed

lemma instance_validated:
  assumes "facing b" "group_pair_ok b ge" "adjacency_plans b (endpoint_specs b) = Inr as" "link_plans b = Inr links"
    and "ixia_instances (fst ge) = Inr is" "i \<in> set is" "bg_peer_relationship (fst ge) = Some rel"
    and x: "instance_plan_of (fst ge) (xe_dut_is_a (snd ge)) role rel bgp i = Inr x"
  shows "validate_device_group_link (by_id dl_resource_id links) (ip_group x) = Inr ()"
    "validate_session_peers (by_id ba_resource_id as) (ip_session x) (ip_group x) (bs_adjacency_ids (ip_session x))
       (bs_local_addresses (ip_session x)) (bs_peer_addresses (ip_session x))
       [dg_peer_start_index (ip_group x) .. dg_peer_start_index (ip_group x) + dg_peer_count (ip_group x) - 1] = Inr ()"
proof -
  have g: "fst ge \<in> set (bt_device_groups b)" using assms(2) by (simp add: group_pair_ok_def)
  have names: "distinct (map bg_name (bt_device_groups b))" using assms(1) by (simp add: facing_def well_bound_def)
  obtain side peers where side: "dut_side (fst ge) (endpoint_specs b) = Inr side" "ds_dut_is_a side = xe_dut_is_a (snd ge)"
    and peers: "bound_peers (fst ge) = Inr peers" "bg_peer_count (fst ge) = int (length peers)"
      "list_all (child_window peers) (xg_children (fst ge))"
    by (rule group_sides[OF assms(1-3)])
  note win = instance_window[OF assms(5,6) peers(1,3)] and sh = instance_shape[OF x]
  obtain l where l: "dict_get (by_id dl_resource_id links) (link_rid (bg_name (fst ge))) = Some l" "link_plan (fst ge) = Inr l"
    using group_link_get[OF assms(4) g names] by blast
  have "dg_afi (ip_group x) = dl_afi l" using sh(2) link_plan_ok[OF l(2)] by simp
  moreover have "dg_peer_start_index (ip_group x) + dg_peer_count (ip_group x) \<le> dl_peer_count l"
    using win(1,2) sh(3,4) link_plan_peers[OF l(2)] peers(2) by simp
  ultimately show "validate_device_group_link (by_id dl_resource_id links) (ip_group x) = Inr ()"
    using l(1) sh(1) by (simp add: validate_device_group_link_def)
  show "validate_session_peers (by_id ba_resource_id as) (ip_session x) (ip_group x) (bs_adjacency_ids (ip_session x))
       (bs_local_addresses (ip_session x)) (bs_peer_addresses (ip_session x))
       [dg_peer_start_index (ip_group x) .. dg_peer_start_index (ip_group x) + dg_peer_count (ip_group x) - 1] = Inr ()"
  proof (rule session_peers_intro)
    fix k
    assume "k < length (bs_adjacency_ids (ip_session x))"
    then have k: "k < length (in_peers i)" by (simp add: sh(9))
    then have m: "nat (in_peer_start_index i) + k < length peers" using win(2) by simp
    have ordinal: "in_peer_start_index i + int k = int (nat (in_peer_start_index i) + k)" using win(1) by simp
    obtain a where a: "dict_get (by_id ba_resource_id as) (adjacency_rid (bg_name (fst ge)) (in_peer_start_index i + int k)) = Some a"
        "adjacency_plan (fst ge) (xe_dut_is_a (snd ge)) (nat (in_peer_start_index i) + k, in_peers i ! k) = Inr a"
      using adjacency_of_peer[OF assms(3) g names side(1) peers(1) m] unfolding ordinal side(2) win(3)[OF k] by blast
    note ad = adjacency_plan_ok[OF a(2)]
    have afi: "ba_afi a = dg_afi (ip_group x)" using ad(4) sh(2) by simp
    have address: "ba_peer_address a = bs_local_addresses (ip_session x) ! k" "ba_local_address a = bs_peer_addresses (ip_session x) ! k"
      using k by (simp_all add: ad(5,6) sh(10,11))
    have "mirrors (ip_session x) (ip_group x) a (bs_local_addresses (ip_session x) ! k) (bs_peer_addresses (ip_session x) ! k)
        (in_peer_start_index i + int k)"
      unfolding mirrors_def address ordinal by (simp add: afi ad(2,3,7,8,9) sh(1,5,6,8) assms(7))
    moreover have "bs_adjacency_ids (ip_session x) ! k = adjacency_rid (bg_name (fst ge)) (in_peer_start_index i + int k)"
      using k by (simp add: sh(9))
    moreover have "[dg_peer_start_index (ip_group x) .. dg_peer_start_index (ip_group x) + dg_peer_count (ip_group x) - 1] ! k
        = in_peer_start_index i + int k"
      using k by (simp add: sh(3,4) nth_upto)
    ultimately show "\<exists>a. dict_get (by_id ba_resource_id as) (bs_adjacency_ids (ip_session x) ! k) = Some a
       \<and> mirrors (ip_session x) (ip_group x) a (bs_local_addresses (ip_session x) ! k) (bs_peer_addresses (ip_session x) ! k)
           ([dg_peer_start_index (ip_group x) .. dg_peer_start_index (ip_group x) + dg_peer_count (ip_group x) - 1] ! k)"
      using a(1) by simp
  qed (simp_all add: sh(3,4,9,10,11))
qed

section \<open>The constructor accepts both halves\<close>

text \<open>What the traffic-generator half consists of, when it could be built.\<close>

lemma plan_ixia_parts:
  assumes "plan_ixia b (endpoint_specs b) = Inr r"
  obtains groups iss where "\<forall>ge \<in> set groups. group_pair_ok b ge" "rmap group_instances groups = Inr iss"
    "xx_device_groups (ir_plan r) = map ip_group (concat iss)" "xx_bgp_sessions (ir_plan r) = map ip_session (concat iss)"
    "\<forall>p \<in> set (xx_ports (ir_plan r)). port_ok (set groups) p"
    "distinct (ixia_resource_ids (ir_plan r))"
    "\<forall>x \<in> set (ixia_resource_ids (ir_plan r)).
       ri_kind x \<in> {IXIA_PORT, IXIA_DEVICE_GROUP, IXIA_BGP_SESSION, IXIA_ADVERTISEMENT, IXIA_TRAFFIC_FLOW}"
proof -
  obtain groups ports iss flows plan sidecar where groups: "resolved_groups b (endpoint_specs b) = Inr groups"
    and ports: "ixia_port_plans groups = Inr ports" and iss: "rmap group_instances groups = Inr iss"
    and flows: "traffic_flow_plans b (map ip_group (concat iss)) (concat (map ip_advertisements (concat iss))) = Inr flows"
    and plan: "mk_IxiaPlan \<lparr>xx_ports = ports, xx_device_groups = map ip_group (concat iss),
        xx_bgp_sessions = map ip_session (concat iss), xx_advertisements = concat (map ip_advertisements (concat iss)),
        xx_traffic_flows = flows\<rparr> = Inr plan"
    and r: "mk_IxiaPlanningResult \<lparr>ir_plan = plan, ir_legacy_identity = sidecar\<rparr> = Inr r"
    using assms by (auto simp: plan_ixia_def Let_def rbind_eq_Inr)
  have p: "plan = \<lparr>xx_ports = ports, xx_device_groups = map ip_group (concat iss),
        xx_bgp_sessions = map ip_session (concat iss), xx_advertisements = concat (map ip_advertisements (concat iss)),
        xx_traffic_flows = flows\<rparr>" "distinct (ixia_resource_ids plan)"
    using plan by (auto simp: mk_IxiaPlan_ok)
  have ir: "ir_plan r = plan" using r by (auto simp: mk_IxiaPlanningResult_def rbind_eq_Inr)
  have made: "ixia_made plan" using plan_ixia_ok(1)[OF assms] ir by simp
  have flow_kind: "ri_kind (tf_resource_id f) = IXIA_TRAFFIC_FLOW" if f: "f \<in> set flows" for f
  proof -
    obtain spec where "traffic_flow_plan (map ip_group (concat iss)) (concat (map ip_advertisements (concat iss))) spec = Inr f"
      using flows f by (auto simp: traffic_flow_plans_def Let_def split: if_splits dest!: rmap_member)
    then show ?thesis
      by (auto simp: traffic_flow_plan_def mk_IxiaTrafficFlowPlan_def rbind_eq_Inr split: if_splits option.split_asm)
  qed
  have "ri_kind x \<in> {IXIA_PORT, IXIA_DEVICE_GROUP, IXIA_BGP_SESSION, IXIA_ADVERTISEMENT, IXIA_TRAFFIC_FLOW}"
    if "x \<in> set (ixia_resource_ids plan)" for x
    using that made planned_ports_ok[OF ports] flow_kind
    by (auto simp: ixia_resource_ids_def ixia_made_def list_all_iff p(1) mk_IxiaDeviceGroupPlan_def mk_IxiaBgpSessionPlan_def
        mk_IxiaAdvertisementPlan_def rbind_eq_Inr)
  then show ?thesis
    using that[of groups iss] resolved_groups_ok[OF groups] iss planned_ports_ok[OF ports] p ir by auto
qed

lemma references_hold:
  assumes "facing b" "dut_parts b = Inr d" "plan_ixia b (endpoint_specs b) = Inr r"
  shows "mk_TopologyCompilationPlan \<lparr>tp_dut = d, tp_ixia = ir_plan r\<rparr> = Inr \<lparr>tp_dut = d, tp_ixia = ir_plan r\<rparr>"
proof (rule dut_partsE[OF assms(2)])
  assume ep: "endpoint_plans b = Inr (dp_endpoints d)" and lk: "link_plans b = Inr (dp_links d)"
    and ad: "adjacency_plans b (endpoint_specs b) = Inr (dp_adjacencies d)"
  have wb: "well_bound b" "distinct (map bg_name (bt_device_groups b))"
    using assms(1) by (simp_all add: facing_def well_bound_def)
  obtain groups iss where groups: "\<forall>ge \<in> set groups. group_pair_ok b ge" and iss: "rmap group_instances groups = Inr iss"
    and parts: "xx_device_groups (ir_plan r) = map ip_group (concat iss)" "xx_bgp_sessions (ir_plan r) = map ip_session (concat iss)"
    and ports: "\<forall>p \<in> set (xx_ports (ir_plan r)). port_ok (set groups) p"
    and ids: "distinct (ixia_resource_ids (ir_plan r))"
      "\<forall>x \<in> set (ixia_resource_ids (ir_plan r)).
         ri_kind x \<in> {IXIA_PORT, IXIA_DEVICE_GROUP, IXIA_BGP_SESSION, IXIA_ADVERTISEMENT, IXIA_TRAFFIC_FLOW}"
    by (rule plan_ixia_parts[OF assms(3)])
  have "set (dut_resource_ids d) \<inter> set (ixia_resource_ids (ir_plan r)) = {}"
    using parts_unique(2)[OF wb(1) assms(2)] ids(2) by (fastforce simp: dut_segments_def)
  then have unique: "distinct (dut_resource_ids d @ ixia_resource_ids (ir_plan r))"
    using parts_unique(1)[OF wb(1) assms(2)] ids(1) by simp
  have inst: "validate_device_group_link (by_id dl_resource_id (dp_links d)) (ip_group x) = Inr ()
      \<and> validate_session_adjacencies (by_id dg_resource_id (xx_device_groups (ir_plan r))) (by_id ba_resource_id (dp_adjacencies d))
          (ip_session x) = Inr ()" if x: "x \<in> set (concat iss)" for x
  proof -
    obtain xs where xs: "xs \<in> set iss" "x \<in> set xs" using x by auto
    obtain ge where ge: "ge \<in> set groups" "group_instances ge = Inr xs" using rmap_member[OF iss xs(1)] by blast
    obtain role rel bgp ins where i: "bg_peer_relationship (fst ge) = Some rel" "ixia_instances (fst ge) = Inr ins"
        "rmap (instance_plan_of (fst ge) (xe_dut_is_a (snd ge)) role rel bgp) ins = Inr xs"
      using ge(2) by (auto simp: group_instances_def Let_def rbind_eq_Inr split: option.splits)
    obtain n where n: "n \<in> set ins" "instance_plan_of (fst ge) (xe_dut_is_a (snd ge)) role rel bgp n = Inr x"
      using rmap_member[OF i(3) xs(2)] by blast
    have pair: "group_pair_ok b ge" using groups ge(1) by blast
    note v = instance_validated[OF assms(1) pair ad lk i(2) n(1) i(1) n(2)]
    have "distinct (map dg_resource_id (xx_device_groups (ir_plan r)))" using ids(1) by (simp add: ixia_resource_ids_def)
    moreover have "ip_group x \<in> set (xx_device_groups (ir_plan r))" using x parts(1) by auto
    ultimately have "dict_get (by_id dg_resource_id (xx_device_groups (ir_plan r))) (bs_device_group_id (ip_session x)) = Some (ip_group x)"
      using instance_shape(7)[OF n(2)] by (simp add: by_id_get)
    then show ?thesis using v by (simp add: validate_session_adjacencies_def dict_index_def)
  qed
  have "validate_port (map ep_resource_id (dp_endpoints d)) (by_id dl_resource_id (dp_links d)) p = Inr ()"
    if "p \<in> set (xx_ports (ir_plan r))" for p
    using port_validated[OF _ groups lk ep wb(2)] ports that by blast
  then have "for_each (validate_port (map ep_resource_id (dp_endpoints d)) (by_id dl_resource_id (dp_links d))) (xx_ports (ir_plan r)) = Inr ()"
    by simp
  moreover have "for_each (validate_device_group_link (by_id dl_resource_id (dp_links d))) (xx_device_groups (ir_plan r)) = Inr ()"
    using inst parts(1) by auto
  moreover have "for_each (validate_session_adjacencies (by_id dg_resource_id (xx_device_groups (ir_plan r)))
      (by_id ba_resource_id (dp_adjacencies d))) (xx_bgp_sessions (ir_plan r)) = Inr ()"
    using inst parts(2) by auto
  ultimately have "validate_ixia_topology_references \<lparr>tp_dut = d, tp_ixia = ir_plan r\<rparr> = Inr ()"
    by (simp add: validate_ixia_topology_references_def Let_def del: for_each_ok)
  then show ?thesis using unique by (simp add: mk_TopologyCompilationPlan_ok)
qed

section \<open>An example\<close>

text \<open>Two peers; the traffic generator emulates the second of them alone, as a child of the group.\<close>

definition demo_emulated_group :: IxiaBoundDeviceGroup where
  "demo_emulated_group = BoundDeviceGroup.extend
     (demo_group\<lparr>bg_peer_count := 2, bg_a_ips := [''::1'', ''::3''], bg_z_ips := [''::2'', ''::4''],
        bg_peer_cidrs := [Some ''::/64'', Some ''::/64'']\<rparr>)
     (IxiaBoundDeviceGroup.fields None (StepInt 2) None None None None None None []
        [\<lparr>ch_name = ''second'', ch_start_index = 1, ch_legacy_device_group_name = Some ''DG'',
          ch_legacy_bgp_peer_name = Some ''PEER'', ch_legacy_device_group_index = None, ch_legacy_prefix_pool_name = None,
          ch_peers = [\<lparr>rp_a_ip = ''::3'', rp_z_ip = ''::4'', rp_peer_cidr = Some ''::/64''\<rparr>],
          ch_prefix_advertisements = []\<rparr>])"

definition demo_emulated :: "IxiaBoundDeviceGroup IxiaBoundTopology" where
  "demo_emulated = \<lparr>
     bt_endpoints = bt_endpoints demo_bound, bt_policy_names = [''in''], bt_logical_device_config = demo_config,
     bt_device_groups = [demo_emulated_group], bt_device_config = None, bt_physical_inventory = None,
     bt_resolved_endpoints =
       [(''dut'', [(''physical_identifier_field'', VStr ''device''), (''device'', VStr ''rsw001'')]),
        (''ixia'', [(''physical_identifier_field'', VStr ''chassis''), (''chassis'', VStr ''ixia01'')])],
     bt_endpoint_os = [], bt_endpoint_network_roles = [(''dut'', EB)],
     bt_routing_configs = bt_routing_configs demo_bound, bt_routing_drivers = [],
     xt_traffic_flows = [], xt_group_traffic_flows = []\<rparr>"

section \<open>Assembling\<close>

lemma facing_assembles:
  assumes "facing b"
  shows "assemble b =
     rbind (dut_parts b) (\<lambda>d. rbind (plan_ixia b (endpoint_specs b)) (\<lambda>x.
       Inr (\<lparr>tp_dut = d, tp_ixia = ir_plan x\<rparr>, ir_legacy_identity x)))"
proof (cases "dut_parts b")
  case (Inr d)
  have "well_bound b" using assms by (simp add: facing_def)
  then have d: "mk_DutPlan d = Inr d" using parts_accepted[OF _ Inr] by (simp add: dut_made_def)
  show ?thesis
  proof (cases "plan_ixia b (endpoint_specs b)")
    fix r
    assume r: "plan_ixia b (endpoint_specs b) = Inr r"
    show ?thesis using references_hold[OF assms Inr r] d by (simp add: assemble_def Inr r)
  qed (simp add: assemble_def Inr)
qed (simp add: assemble_def)

section \<open>Property\<close>

text \<open>
  C11. Planning a topology whose two sides agree can only fail while its halves are built: once the device
  side and the traffic-generator side exist, the plan that puts them together is accepted. In
  particular every emulated BGP session, whether a whole group or a child's window of it, faces
  exactly its adjacencies, with addresses and AS numbers exchanged; every emulated group fits the
  link it sits on; and every port joins the endpoints of its links.
\<close>

theorem planned_sides_face:
  assumes "facing b"
  shows "assemble b =
     rbind (dut_parts b) (\<lambda>d. rbind (plan_ixia b (endpoint_specs b)) (\<lambda>x.
       Inr (\<lparr>tp_dut = d, tp_ixia = ir_plan x\<rparr>, ir_legacy_identity x)))"
  by (rule facing_assembles [OF assms])

lemma demo_emulated_facing: "facing demo_emulated"
  by code_simp

lemma demo_emulated_sides:
  "rbind (dut_parts demo_emulated) (\<lambda>d. rbind (plan_ixia demo_emulated (endpoint_specs demo_emulated)) (\<lambda>x.
     Inr (map ba_peer_address (dp_adjacencies d), map bs_local_addresses (xx_bgp_sessions (ir_plan x)),
       map ls_bgp_peer_name (sc_session_identities (ir_legacy_identity x)))))
   = Inr ([''::2'', ''::4''], [[''::4'']], [''PEER''])"
  by code_simp

theorem planned_sides_witness:
  "\<exists>p legacy. assemble demo_emulated = Inr (p, legacy) \<and> map ba_peer_address (dp_adjacencies (tp_dut p)) = [''::2'', ''::4'']
     \<and> map bs_local_addresses (xx_bgp_sessions (tp_ixia p)) = [[''::4'']]
     \<and> map ls_bgp_peer_name (sc_session_identities legacy) = [''PEER'']"
proof -
  obtain d x where "dut_parts demo_emulated = Inr d" "plan_ixia demo_emulated (endpoint_specs demo_emulated) = Inr x"
      "map ba_peer_address (dp_adjacencies d) = [''::2'', ''::4'']" "map bs_local_addresses (xx_bgp_sessions (ir_plan x)) = [[''::4'']]"
      "map ls_bgp_peer_name (sc_session_identities (ir_legacy_identity x)) = [''PEER'']"
    using demo_emulated_sides by (auto simp: rbind_eq_Inr simp del: map_eq_Cons_conv)
  then show ?thesis using planned_sides_face[OF demo_emulated_facing] by auto
qed

end
