(* ===== verification/Intent_Checks.thy ===== *)
theory Intent_Checks
  imports Logical_Topology
begin

text \<open>
  The parts of topology validation (\<open>abstractions/validation.py\<close>) that look at one value: endpoints,
  address plans, peer groups, route attributes, pools, prefix sets, next hops, traffic flows and
  device configuration. A validator appends to a list of issues in the source; here it returns the
  issues it appends. An issue keeps its path and code; its message and hint, which nothing reads, are
  left out.
\<close>

section \<open>Issues\<close>

record ValidationIssue =
  vi_path :: string
  vi_code :: string

definition issue :: "string \<Rightarrow> string \<Rightarrow> ValidationIssue" where
  "issue p c = \<lparr>vi_path = p, vi_code = c\<rparr>"

text \<open>\<open>if bad: issues.append(...)\<close>, and a loop over \<open>enumerate(xs)\<close> with the path of the item.\<close>

definition check :: "bool \<Rightarrow> string \<Rightarrow> string \<Rightarrow> ValidationIssue list" where
  "check bad p c = (if bad then [issue p c] else [])"

definition item_path :: "string \<Rightarrow> nat \<Rightarrow> string" where
  "item_path p i = p @ ''['' @ show_nat i @ '']''"

definition each :: "(string \<Rightarrow> 'a \<Rightarrow> ValidationIssue list) \<Rightarrow> string \<Rightarrow> 'a list \<Rightarrow> ValidationIssue list" where
  "each f p xs = concat (map (\<lambda>(i, x). f (item_path p i) x) (enumerate 0 xs))"

definition on_some :: "('a \<Rightarrow> ValidationIssue list) \<Rightarrow> 'a option \<Rightarrow> ValidationIssue list" where
  "on_some f x = (case x of None \<Rightarrow> [] | Some v \<Rightarrow> f v)"

section \<open>Constants\<close>

definition VALID_AFIS :: "string list" where
  "VALID_AFIS = [''v4'', ''v6'']"

definition VALID_ENDPOINT_REQUIRED_OS :: "string list" where
  "VALID_ENDPOINT_REQUIRED_OS = [''eos'', ''fboss'', ''ixia'']"

definition VALID_ENDPOINT_SETUP_MODES :: "string list" where
  "VALID_ENDPOINT_SETUP_MODES = [''full'', ''preloaded'', ''skip'', ''verify_only'']"

definition VALID_ENDPOINT_KINDS :: "string list" where
  "VALID_ENDPOINT_KINDS = [''dut'', ''ixia'', ''traffic'', ''trafficgen'']"

definition TRAFFIC_ENDPOINT_ROLES :: "string list" where
  "TRAFFIC_ENDPOINT_ROLES = [''ixia'', ''traffic'', ''trafficgen'']"

definition VALID_ROUTING_DRIVERS :: "string list" where
  "VALID_ROUTING_DRIVERS = [''bgpcpp'', ''bgp++'', ''arbgp'', ''fboss'']"

definition VALID_LEGACY_PROFILES :: "string list" where
  "VALID_LEGACY_PROFILES =
     [''bounded_ecmp'', ''ebb_full_scale'', ''egress_peer_scale'', ''ipv6_update_packing'', ''ug_new_peer_join'']"

definition IXIA_MAX_4BYTE_ASN :: int where
  "IXIA_MAX_4BYTE_ASN = 2 ^ 32 - 1"

definition BGP_STANDARD_COMMUNITY_FIELD_MAX :: int where
  "BGP_STANDARD_COMMUNITY_FIELD_MAX = 2 ^ 16 - 1"

definition THRIFT_I32_MAX :: int where
  "THRIFT_I32_MAX = 2 ^ 31 - 1"

section \<open>Names and endpoints\<close>

text \<open>Of an earlier object with the same name only the message speaks.\<close>

fun unique_names_from :: "string \<Rightarrow> string \<Rightarrow> nat \<Rightarrow> string list \<Rightarrow> string list \<Rightarrow> ValidationIssue list \<times> string list" where
  "unique_names_from p code i seen [] = ([], seen)"
| "unique_names_from p code i seen (n # ns) =
     (if n = [] then unique_names_from p code (Suc i) seen ns
      else if n \<in> set seen
      then (let (issues, names) = unique_names_from p code (Suc i) seen ns
            in (issue (item_path p i @ ''.name'') code # issues, names))
      else unique_names_from p code (Suc i) (seen @ [n]) ns)"

definition check_unique_names :: "string \<Rightarrow> string \<Rightarrow> string list \<Rightarrow> ValidationIssue list \<times> string list" where
  "check_unique_names p code names = unique_names_from p code 0 [] names"

definition endpoint_is_dut :: "EndpointSpec \<Rightarrow> bool" where
  "endpoint_is_dut e \<longleftrightarrow>
     es_role e \<noteq> [] \<and> (es_role e = ''dut'' \<or> (es_kind e = ''dut'' \<and> es_role e \<notin> set TRAFFIC_ENDPOINT_ROLES))"

definition endpoint_is_ixia :: "EndpointSpec option \<Rightarrow> bool" where
  "endpoint_is_ixia e =
     (case e of
        None \<Rightarrow> False
      | Some x \<Rightarrow> es_role x \<in> set TRAFFIC_ENDPOINT_ROLES
          \<or> (es_kind x \<in> set TRAFFIC_ENDPOINT_ROLES \<and> es_role x \<noteq> ''dut''))"

text \<open>\<open>role.split("_", 1)[0]\<close>\<close>

definition base_role :: "string \<Rightarrow> string" where
  "base_role role = hd (split_on (CHR ''_'') role)"

definition validate_endpoint :: "string \<Rightarrow> EndpointSpec \<Rightarrow> ValidationIssue list" where
  "validate_endpoint p e =
     check (es_name e = []) (p @ ''.name'') ''name_required''
     @ check (es_role e = []) (p @ ''.role'') ''role_required''
     @ check (es_kind e \<notin> set VALID_ENDPOINT_KINDS) (p @ ''.kind'') ''unsupported_endpoint_kind''
     @ on_some (\<lambda>os. check (os \<notin> set VALID_ENDPOINT_REQUIRED_OS) (p @ ''.required_os'') ''unsupported_required_os'')
         (es_required_os e)
     @ check (es_setup_mode e \<notin> set VALID_ENDPOINT_SETUP_MODES) (p @ ''.setup_mode'') ''unsupported_setup_mode''
     @ check (endpoint_is_dut e \<and> es_required_os e = Some ''ixia'') (p @ ''.required_os'') ''ixia_required_os_on_dut''"

section \<open>Addresses\<close>

definition max_prefix_for_afi :: "string \<Rightarrow> int option" where
  "max_prefix_for_afi afi = (if afi = ''v4'' then Some 32 else if afi = ''v6'' then Some 128 else None)"

text \<open>\<open>(afi == "v4" and version != 4) or (afi == "v6" and version != 6)\<close>\<close>

definition wrong_version :: "string \<Rightarrow> int \<Rightarrow> bool" where
  "wrong_version afi v \<longleftrightarrow> (afi = ''v4'' \<and> v \<noteq> 4) \<or> (afi = ''v6'' \<and> v \<noteq> 6)"

definition parse_ip_afi :: "string \<Rightarrow> string \<Rightarrow> ip_addr option" where
  "parse_ip_afi s afi =
     (case parse_ip s of None \<Rightarrow> None | Some a \<Rightarrow> if wrong_version afi (ip_version a) then None else Some a)"

text \<open>\<open>ip_network(text, strict=False)\<close>: any address of the network, with the prefix length.\<close>

definition parse_network :: "string \<Rightarrow> string \<Rightarrow> (ip_addr \<times> nat) option" where
  "parse_network s afi =
     (case ip_interface s of None \<Rightarrow> None | Some n \<Rightarrow> if wrong_version afi (ip_version (fst n)) then None else Some n)"

definition parse_positive_ip_step :: "step_value \<Rightarrow> string \<Rightarrow> int option" where
  "parse_positive_ip_step v afi =
     (case v of
        StepInt n \<Rightarrow> if 0 < n then Some n else None
      | StepStr s \<Rightarrow> (case parse_ip_afi s afi of
                        None \<Rightarrow> None | Some a \<Rightarrow> if ip_int a \<le> 0 then None else Some (ip_int a)))"

text \<open>\<open>ipaddress.ip_address(n)\<close> of an integer in range: an IPv4 address when it fits into one.\<close>

definition ip_address_of_int :: "int \<Rightarrow> ip_addr" where
  "ip_address_of_int n = (if n < 2 ^ 32 then IPv4 n else IPv6 n)"

definition validate_ip_afi :: "string \<Rightarrow> string \<Rightarrow> string \<Rightarrow> ValidationIssue list" where
  "validate_ip_afi expected p s =
     (case parse_ip s of
        None \<Rightarrow> [issue p ''invalid_ip'']
      | Some a \<Rightarrow> check (wrong_version expected (ip_version a)) p ''ip_afi_mismatch'')"

definition validate_network_afi :: "string \<Rightarrow> string \<Rightarrow> string \<Rightarrow> ValidationIssue list" where
  "validate_network_afi expected p s =
     (case ip_interface s of
        None \<Rightarrow> [issue p ''invalid_network'']
      | Some n \<Rightarrow> check (wrong_version expected (ip_version (fst n))) p ''parent_network_afi_mismatch'')"

definition validate_prefix_afi :: "string \<Rightarrow> string \<Rightarrow> string \<Rightarrow> ValidationIssue list" where
  "validate_prefix_afi expected p s =
     (if CHR ''/'' \<notin> set s then [issue p ''invalid_prefix'']
      else case ip_network s of
             Inl e \<Rightarrow> [issue p ''invalid_prefix'']
           | Inr n \<Rightarrow> check (wrong_version expected (ip_version (network_address n))) p ''prefix_afi_mismatch'')"

definition validate_offset :: "(int \<Rightarrow> bool) \<Rightarrow> string \<Rightarrow> string \<Rightarrow> step_value option \<Rightarrow> ValidationIssue list" where
  "validate_offset bad code p v = (case v of Some (StepInt n) \<Rightarrow> check (bad n) p code | _ \<Rightarrow> [])"

definition validate_prefix_length :: "int option \<Rightarrow> string option \<Rightarrow> string \<Rightarrow> string \<Rightarrow> ValidationIssue list" where
  "validate_prefix_length len msk expected p =
     (if len = None \<and> msk = None then []
      else case max_prefix_for_afi expected of
        None \<Rightarrow> []
      | Some m \<Rightarrow>
          let outside = (\<lambda>n. n < 0 \<or> n > m);
              len_issues = on_some (\<lambda>n. check (outside n) (p @ ''.prefix_length'') ''invalid_prefix_length'') len
          in case msk of
               None \<Rightarrow> len_issues
             | Some text \<Rightarrow>
                 (case int_text text of
                    None \<Rightarrow> len_issues @ [issue (p @ ''.mask'') ''invalid_prefix_length'']
                  | Some k \<Rightarrow>
                      len_issues @ check (outside k) (p @ ''.mask'') ''invalid_prefix_length''
                      @ on_some (\<lambda>n. check (\<not> outside n \<and> \<not> outside k \<and> n \<noteq> k) (p @ ''.mask'') ''prefix_length_mask_mismatch'') len))"

definition explicit_addresses :: "AddressPlan \<Rightarrow> bool" where
  "explicit_addresses a \<longleftrightarrow> ap_a_ips a \<noteq> [] \<or> ap_z_ips a \<noteq> []"

text \<open>Truth of an optional text.\<close>

definition given :: "string option \<Rightarrow> bool" where
  "given x \<longleftrightarrow> x \<noteq> None \<and> x \<noteq> Some []"

definition validate_address_plan_afi :: "AddressPlan \<Rightarrow> string \<Rightarrow> string \<Rightarrow> ValidationIssue list" where
  "validate_address_plan_afi a p expected =
     (if ap_afi a \<notin> set VALID_AFIS then [issue (p @ ''.afi'') ''unsupported_afi'']
      else check (ap_afi a \<noteq> expected) (p @ ''.afi'') ''address_plan_afi_mismatch'')"

definition validate_address_plan_mode :: "string \<Rightarrow> bool \<Rightarrow> bool \<Rightarrow> bool \<Rightarrow> ValidationIssue list" where
  "validate_address_plan_mode p has_explicit has_parent has_auto =
     (let modes = length (filter id [has_explicit, has_parent, has_auto])
      in (if modes = 0 then [issue p ''address_mode_required'']
          else check (modes > 1) p ''multiple_address_modes'')
         @ check has_auto (p @ ''.auto_allocate'') ''auto_allocation_unsupported'')"

definition validate_explicit_addresses :: "AddressPlan \<Rightarrow> string \<Rightarrow> int \<Rightarrow> string \<Rightarrow> ValidationIssue list" where
  "validate_explicit_addresses a p peer_count expected =
     (if ap_a_ips a = [] \<or> ap_z_ips a = [] then [issue p ''explicit_ip_pair_required'']
      else check (int (length (ap_a_ips a)) \<noteq> peer_count) (p @ ''.a_ips'') ''ip_count_mismatch''
         @ check (int (length (ap_z_ips a)) \<noteq> peer_count) (p @ ''.z_ips'') ''ip_count_mismatch''
         @ each (validate_ip_afi expected) (p @ ''.a_ips'') (ap_a_ips a)
         @ each (validate_ip_afi expected) (p @ ''.z_ips'') (ap_z_ips a))"

definition validate_address_plan_offsets :: "AddressPlan \<Rightarrow> string \<Rightarrow> ValidationIssue list" where
  "validate_address_plan_offsets a p =
     validate_offset (\<lambda>n. n < 0) ''negative_offset'' (p @ ''.a_offset'') (ap_a_offset a)
     @ validate_offset (\<lambda>n. n < 0) ''negative_offset'' (p @ ''.z_offset'') (ap_z_offset a)
     @ validate_offset (\<lambda>n. n \<le> 0) ''non_positive_stride'' (p @ ''.stride'') (Some (ap_stride a))
     @ validate_offset (\<lambda>n. n \<le> 0) ''non_positive_increment'' (p @ ''.increment'') (ap_increment a)
     @ check (ap_start_index a < 0) (p @ ''.start_index'') ''negative_start_index''"

definition validate_address_plan :: "AddressPlan \<Rightarrow> string \<Rightarrow> int \<Rightarrow> string \<Rightarrow> ValidationIssue list" where
  "validate_address_plan a p peer_count expected =
     validate_address_plan_afi a p expected
     @ validate_address_plan_mode p (explicit_addresses a)
         (given (ap_parent_network a) \<or> given (ap_parent_network_key a)) (ap_auto_allocate a)
     @ (if explicit_addresses a then validate_explicit_addresses a p peer_count expected else [])
     @ (case ap_parent_network a of
          Some (c # cs) \<Rightarrow> validate_network_afi expected (p @ ''.parent_network'') (c # cs)
        | _ \<Rightarrow> [])
     @ validate_address_plan_offsets a p
     @ validate_prefix_length (ap_prefix_length a) (ap_mask a) expected p"

section \<open>Peer groups, attributes, pools\<close>

definition validate_asn_reference :: "string \<Rightarrow> pyval \<Rightarrow> ValidationIssue list" where
  "validate_asn_reference p v =
     (case v of
        VBool b \<Rightarrow> [issue p ''invalid_asn'']
      | VInt n \<Rightarrow> check (n \<le> 0 \<or> n > IXIA_MAX_4BYTE_ASN) p ''invalid_asn''
      | _ \<Rightarrow> [])"

definition validate_limit :: "string \<Rightarrow> pyval \<Rightarrow> ValidationIssue list" where
  "validate_limit p v =
     (case v of
        VBool b \<Rightarrow> [issue p ''invalid_limit'']
      | VInt n \<Rightarrow> check (n < 0) p ''negative_limit''
      | _ \<Rightarrow> [])"

definition validate_timer :: "string \<Rightarrow> int \<Rightarrow> ValidationIssue list" where
  "validate_timer p n = check (n < 0) p ''negative_timer''"

definition validate_peer_group :: "string \<Rightarrow> BgpPeerGroup \<Rightarrow> ValidationIssue list" where
  "validate_peer_group p g =
     check (bpg_name g = []) (p @ ''.name'') ''name_required''
     @ validate_asn_reference (p @ ''.local_asn'') (bpg_local_asn g)
     @ validate_asn_reference (p @ ''.remote_asn'') (bpg_remote_asn g)
     @ validate_timer (p @ ''.hold_timer_s'') (bpg_hold_timer_s g)
     @ validate_timer (p @ ''.keepalive_timer_s'') (bpg_keepalive_timer_s g)
     @ validate_timer (p @ ''.connect_retry_timer_s'') (bpg_connect_retry_timer_s g)
     @ validate_limit (p @ ''.route_limit'') (bpg_route_limit g)"

definition validate_attribute_integer :: "int \<Rightarrow> int \<Rightarrow> string \<Rightarrow> string \<Rightarrow> int \<Rightarrow> ValidationIssue list" where
  "validate_attribute_integer minimum maximum code p n = check (n < minimum \<or> n > maximum) p code"

text \<open>A row of communities, each a pair of integers with their own names, bounds and codes.\<close>

definition validate_community_row ::
    "(string \<Rightarrow> int \<Rightarrow> ValidationIssue list) \<Rightarrow> (string \<Rightarrow> int \<Rightarrow> ValidationIssue list) \<Rightarrow> string \<Rightarrow> string
     \<Rightarrow> string \<Rightarrow> (int \<times> int) list \<Rightarrow> ValidationIssue list" where
  "validate_community_row f g first second p row =
     check (row = []) p ''empty_route_attribute_row''
     @ each (\<lambda>q (x, y). f (q @ first) x @ g (q @ second) y) p row"

definition validate_as_path :: "string \<Rightarrow> int list \<Rightarrow> ValidationIssue list" where
  "validate_as_path p asns =
     check (asns = []) (p @ ''.asns'') ''empty_as_path''
     @ each (validate_attribute_integer 1 IXIA_MAX_4BYTE_ASN ''invalid_as_path_asn'') (p @ ''.asns'') asns"

definition validate_route_attribute_pool :: "string \<Rightarrow> RouteAttributePool \<Rightarrow> ValidationIssue list" where
  "validate_route_attribute_pool p pool =
     each (validate_community_row
         (validate_attribute_integer 1 BGP_STANDARD_COMMUNITY_FIELD_MAX ''invalid_standard_community_asn'')
         (validate_attribute_integer 0 BGP_STANDARD_COMMUNITY_FIELD_MAX ''invalid_standard_community_value'')
         ''.asn'' ''.value'') (p @ ''.community_rows'') (community_rows pool)
     @ each (validate_community_row
         (validate_attribute_integer 1 IXIA_MAX_4BYTE_ASN ''invalid_extended_community_administrator'')
         (validate_attribute_integer 0 IXIA_MAX_4BYTE_ASN ''invalid_extended_community_assigned_number'')
         ''.administrator'' ''.assigned_number'') (p @ ''.extended_community_rows'') (extended_community_rows pool)
     @ each validate_as_path (p @ ''.as_paths'') (as_paths pool)"

definition validate_prefix_pool :: "string \<Rightarrow> PrefixPool \<Rightarrow> ValidationIssue list" where
  "validate_prefix_pool p x =
     check (pp_name x = []) (p @ ''.name'') ''name_required''
     @ check (pp_afi x \<notin> set VALID_AFIS) (p @ ''.afi'') ''unsupported_afi''
     @ check (pp_route_count x \<le> 0) (p @ ''.route_count'') ''invalid_route_count''
     @ check (\<not> given (pp_route_file x) \<and> pp_prefixes x = []) p ''prefix_source_required''
     @ (case (pp_prefix_length x, max_prefix_for_afi (pp_afi x)) of
          (Some n, Some m) \<Rightarrow> check (n < 0 \<or> n > m) (p @ ''.prefix_length'') ''invalid_prefix_length''
        | _ \<Rightarrow> [])
     @ each (validate_prefix_afi (pp_afi x)) (p @ ''.prefixes'') (pp_prefixes x)"

section \<open>Prefix sets\<close>

definition validated_prefix_span :: "FormulaicPrefixSource \<Rightarrow> int option" where
  "validated_prefix_span s =
     (let excluded = excluded_indices s; extent = prefix_count s + int (length excluded)
      in if sorted_list_of_set (set excluded) \<noteq> excluded \<or> list_ex (\<lambda>i. i < 0 \<or> i \<ge> extent) excluded then None
         else Some extent)"

definition validate_prefix_formula ::
    "string \<Rightarrow> int \<Rightarrow> int \<Rightarrow> ip_addr \<Rightarrow> ip_addr \<times> nat \<Rightarrow> int \<Rightarrow> ValidationIssue list" where
  "validate_prefix_formula p len extent start parent step =
     (let width = max_prefixlen (ip_version start); block_size = 2 ^ (width - nat len);
          terminal = ip_int start + step * (extent - 1)
      in if ip_int start mod block_size \<noteq> 0 \<or> step mod block_size \<noteq> 0
         then [issue (p @ ''.source'') ''unaligned_prefix_formula'']
         else if terminal \<ge> 2 ^ width then [issue (p @ ''.source'') ''prefix_formula_overflow'']
         else check (\<not> in_network start parent \<or> \<not> in_network (ip_address_of_int terminal) parent)
                (p @ ''.source.parent_network'') ''prefix_formula_outside_parent'')"

definition validate_prefix_set :: "string \<Rightarrow> PrefixSet \<Rightarrow> ValidationIssue list" where
  "validate_prefix_set p ps =
     (let afi = ps_afi ps; s = ps_source ps
      in if afi \<notin> set VALID_AFIS then [issue (p @ ''.afi'') ''unsupported_afi'']
         else if prefix_count s \<le> 0 then [issue (p @ ''.source.count'') ''invalid_prefix_count'']
         else if prefix_length s < 0 \<or> prefix_length s > (if afi = ''v4'' then 32 else 128)
         then [issue (p @ ''.source.prefix_length'') ''invalid_prefix_length'']
         else let start = parse_ip_afi (start_prefix s) afi; parent = parse_network (parent_network s) afi;
                  step = parse_positive_ip_step (prefix_step s) afi; extent = validated_prefix_span s
              in check (start = None) (p @ ''.source.start_prefix'') ''invalid_prefix_start''
                 @ check (parent = None) (p @ ''.source.parent_network'') ''invalid_parent_network''
                 @ check (step = None) (p @ ''.source.prefix_step'') ''invalid_prefix_step''
                 @ check (extent = None) (p @ ''.source.excluded_indices'') ''invalid_prefix_exclusions''
                 @ (case (extent, start, parent, step) of
                      (Some e, Some a, Some n, Some k) \<Rightarrow> validate_prefix_formula p (prefix_length s) e a n k
                    | _ \<Rightarrow> []))"

section \<open>Next hops\<close>

definition validate_self_next_hop :: "string \<Rightarrow> NextHopIntent \<Rightarrow> ValidationIssue list" where
  "validate_self_next_hop p i =
     check (NextHopIntent.nh_distribution i \<noteq> None \<or> nh_formulaic_source i \<noteq> None
         \<or> nh_explicit_source i \<noteq> None \<or> nh_description i \<noteq> None)
       (p @ ''.next_hop'') ''invalid_self_next_hop''"

definition validate_external_next_hop :: "string \<Rightarrow> NextHopIntent \<Rightarrow> ValidationIssue list \<times> NextHopDistribution option" where
  "validate_external_next_hop p i =
     (let realization = check (nh_realization i \<noteq> None) (p @ ''.next_hop.self_realization'') ''invalid_self_next_hop_realization''
      in case NextHopIntent.nh_distribution i of
           None \<Rightarrow> (realization @ [issue (p @ ''.next_hop.distribution'') ''next_hop_distribution_required''], None)
         | Some d \<Rightarrow>
             (realization
              @ check (strip (case nh_description i of None \<Rightarrow> [] | Some t \<Rightarrow> t) = [])
                  (p @ ''.next_hop.description'') ''external_next_hop_description_required'', Some d))"

fun next_hop_cardinality :: "NextHopDistribution \<Rightarrow> int \<Rightarrow> int \<Rightarrow> int \<Rightarrow> int" where
  "next_hop_cardinality NH_SHARED peers per_peer distinct_prefixes = 1"
| "next_hop_cardinality PER_PEER peers per_peer distinct_prefixes = peers"
| "next_hop_cardinality PER_PREFIX peers per_peer distinct_prefixes = distinct_prefixes"
| "next_hop_cardinality PER_PEER_PREFIX peers per_peer distinct_prefixes = peers * per_peer"

text \<open>\<open>_parse_ip(s, "v4") or _parse_ip(s, "v6")\<close> is the address of either family.\<close>

definition validate_formulaic_next_hops :: "string \<Rightarrow> FormulaicNextHopSource \<Rightarrow> int \<Rightarrow> string \<Rightarrow> ValidationIssue list" where
  "validate_formulaic_next_hops p s n expected =
     (let q = p @ ''.next_hop.formulaic_source''
      in if n \<le> 0 then [issue q ''invalid_next_hop_count'']
         else case parse_ip (nhs_start s) of
           None \<Rightarrow> [issue (q @ ''.start'') ''invalid_next_hop_start'']
         | Some start \<Rightarrow>
             let afi = (if ip_version start = 4 then ''v4'' else ''v6'')
             in if afi \<noteq> expected then [issue (q @ ''.start'') ''next_hop_afi_mismatch'']
                else case (parse_network (nhs_parent s) afi, parse_positive_ip_step (nhs_step s) afi) of
                  (Some parent, Some step) \<Rightarrow>
                    let terminal = ip_int start + step * (n - 1)
                    in check (terminal \<ge> 2 ^ max_prefixlen (ip_version start) \<or> \<not> in_network start parent
                            \<or> \<not> in_network (ip_address_of_int terminal) parent)
                         q ''next_hop_formula_out_of_range''
                | _ \<Rightarrow> [issue q ''invalid_next_hop_formula''])"

definition validate_explicit_next_hops :: "string \<Rightarrow> ExplicitNextHopSource \<Rightarrow> string \<Rightarrow> ValidationIssue list" where
  "validate_explicit_next_hops p s expected =
     (let q = p @ ''.next_hop.explicit_source''
      in case ip_interface (nhs_explicit_parent s) of
           None \<Rightarrow> [issue (q @ ''.parent_network'') ''invalid_parent_network'']
         | Some parent \<Rightarrow>
             let afi = (if ip_version (fst parent) = 4 then ''v4'' else ''v6'')
             in if afi \<noteq> expected then [issue (q @ ''.parent_network'') ''next_hop_afi_mismatch'']
                else each (\<lambda>r address. case parse_ip_afi address afi of
                        None \<Rightarrow> [issue r ''invalid_explicit_next_hop'']
                      | Some a \<Rightarrow> check (\<not> in_network a parent) r ''invalid_explicit_next_hop'')
                      (q @ ''.addresses'') (nhs_addresses s))"

definition validate_next_hop_source :: "string \<Rightarrow> NextHopIntent \<Rightarrow> int \<Rightarrow> string \<Rightarrow> ValidationIssue list" where
  "validate_next_hop_source p i required afi =
     (case NextHopIntent.nh_mode i of
        FORMULAIC \<Rightarrow>
          (case (nh_formulaic_source i, nh_explicit_source i) of
             (Some s, None) \<Rightarrow> validate_formulaic_next_hops p s required afi
           | _ \<Rightarrow> [issue (p @ ''.next_hop'') ''invalid_formulaic_next_hop''])
      | EXPLICIT \<Rightarrow>
          (case (nh_explicit_source i, nh_formulaic_source i) of
             (Some s, None) \<Rightarrow>
               if int (length (nhs_addresses s)) \<noteq> required
               then [issue (p @ ''.next_hop.explicit_source.addresses'') ''next_hop_cardinality_mismatch'']
               else validate_explicit_next_hops p s afi
           | _ \<Rightarrow> [issue (p @ ''.next_hop'') ''invalid_explicit_next_hop''])
      | SELF \<Rightarrow> [])"

definition validate_next_hop_intent :: "string \<Rightarrow> PrefixAdvertisement \<Rightarrow> int \<Rightarrow> string \<Rightarrow> int \<Rightarrow> ValidationIssue list" where
  "validate_next_hop_intent p ad peer_count afi distinct_prefixes =
     (let i = adv_next_hop ad
      in if NextHopIntent.nh_mode i = SELF then validate_self_next_hop p i
         else let (issues, distribution) = validate_external_next_hop p i
              in issues @ on_some (\<lambda>d. validate_next_hop_source p i
                   (next_hop_cardinality d peer_count (prefixes_per_peer (adv_allocation ad)) distinct_prefixes) afi) distribution)"

section \<open>Traffic flows and device configuration\<close>

definition validate_traffic_flow_references ::
    "string list \<Rightarrow> string list \<Rightarrow> string \<Rightarrow> TrafficFlowSpec \<Rightarrow> ValidationIssue list" where
  "validate_traffic_flow_references dg_names pool_names p f =
     check (fl_src_dg f \<notin> set dg_names) (p @ ''.src_dg'') ''unknown_device_group''
     @ on_some (\<lambda>n. check (n \<notin> set dg_names) (p @ ''.dst_dg'') ''unknown_device_group'') (fl_dst_dg f)
     @ on_some (\<lambda>n. check (n \<notin> set pool_names) (p @ ''.dst_prefix_pool'') ''unknown_prefix_pool'') (fl_dst_prefix_pool f)
     @ check (fl_dst_dg f = None \<and> fl_dst_prefix_pool f = None) p ''missing_destination_selector''"

definition validate_traffic_flow_rates :: "string \<Rightarrow> TrafficFlowSpec \<Rightarrow> ValidationIssue list" where
  "validate_traffic_flow_rates p f =
     on_some (\<lambda>r. check (\<not> (0 \<le> r \<and> r \<le> 100)) (p @ ''.rate_percent'') ''rate_percent_out_of_range'') (fl_rate_percent f)
     @ on_some (\<lambda>n. check (n < 0) (p @ ''.rate_bps'') ''negative_rate'') (fl_rate_bps f)
     @ on_some (\<lambda>n. check (n < 0) (p @ ''.frame_size_bytes'') ''negative_frame_size'') (fl_frame_size_bytes f)"

definition validate_authored_flow :: "string list \<Rightarrow> string list \<Rightarrow> string \<Rightarrow> TrafficFlowSpec \<Rightarrow> ValidationIssue list" where
  "validate_authored_flow dg_names pool_names p f =
     check (fl_name f = []) (p @ ''.name'') ''name_required''
     @ validate_traffic_flow_references dg_names pool_names p f @ validate_traffic_flow_rates p f"

definition validate_fibagent_bgp_nhg_watermarks :: "int option \<Rightarrow> int option \<Rightarrow> (int \<times> int) option result" where
  "validate_fibagent_bgp_nhg_watermarks high low =
     (case (high, low) of
        (None, None) \<Rightarrow> Inr None
      | (Some h, Some l) \<Rightarrow>
          if l \<le> 0 \<or> h \<le> 0 \<or> l > h \<or> h > THRIFT_I32_MAX \<or> (h = THRIFT_I32_MAX \<and> l \<noteq> THRIFT_I32_MAX)
          then fail ''FibAgentBgp NHG watermarks require 0 < low <= high <= INT32_MAX''
          else Inr (Some (h, l))
      | _ \<Rightarrow> fail ''FibAgentBgp NHG watermarks must be supplied together'')"

definition collect_watermark_issues :: "string \<Rightarrow> RoutingDeviceConfig \<Rightarrow> ValidationIssue list" where
  "collect_watermark_issues p c =
     (let high = dc_fibagent_bgp_nhg_watermark_high c; low = dc_fibagent_bgp_nhg_watermark_low c;
          q = p @ ''.fibagent_bgp_nhg_watermark''
      in if (high = None) \<noteq> (low = None) then [issue q ''incomplete_nhg_watermark'']
         else case validate_fibagent_bgp_nhg_watermarks high low of
                Inl e \<Rightarrow> [issue q ''invalid_nhg_watermark''] | Inr w \<Rightarrow> [])"

definition single_line :: "string \<Rightarrow> bool" where
  "single_line s \<longleftrightarrow> s \<noteq> [] \<and> list_all (\<lambda>c. (of_char c :: nat) \<notin> {0, 10, 13}) s"

definition collect_routing_device_config_issues :: "string \<Rightarrow> RoutingDeviceConfig \<Rightarrow> ValidationIssue list" where
  "collect_routing_device_config_issues p c =
     on_some (\<lambda>s. check (\<not> single_line s) (p @ ''.bgpcpp_logging_config_override'') ''invalid_logging_config'')
       (dc_bgpcpp_logging_config_override c)
     @ collect_watermark_issues p c
     @ on_some (validate_limit (p @ ''.route_limit'')) (dc_route_limit c)
     @ on_some (validate_limit (p @ ''.prefix_limit'')) (dc_prefix_limit c)
     @ on_some (validate_limit (p @ ''.per_peer_max_route_limit'')) (dc_per_peer_max_route_limit c)
     @ validate_timer (p @ ''.bgp_hold_timer_s'') (dc_bgp_hold_timer_s c)
     @ validate_timer (p @ ''.bgp_keepalive_timer_s'') (dc_bgp_keepalive_timer_s c)
     @ validate_timer (p @ ''.bgp_connect_retry_timer_s'') (dc_bgp_connect_retry_timer_s c)
     @ on_some (validate_timer (p @ ''.graceful_restart_timer_s'')) (dc_graceful_restart_timer_s c)"

section \<open>Lemmas\<close>

named_theorems issue_simps \<open>when a validator appends nothing\<close>

lemma check_Nil [simp, issue_simps]: "check bad p c = [] \<longleftrightarrow> \<not> bad"
  by (simp add: check_def)

lemma on_some_Nil [simp, issue_simps]: "on_some f x = [] \<longleftrightarrow> (\<forall>v. x = Some v \<longrightarrow> f v = [])"
  by (cases x) (auto simp: on_some_def)

lemma each_Nil: "each f p xs = [] \<longleftrightarrow> (\<forall>i < length xs. f (item_path p i) (xs ! i) = [])"
proof -
  have "enumerate 0 xs = map (\<lambda>i. (i, xs ! i)) [0 ..< length xs]"
    by (rule nth_equalityI) (simp_all add: nth_enumerate_eq)
  then show ?thesis by (auto simp: each_def)
qed

lemma each_member:
  assumes "each f p xs = []" "x \<in> set xs"
  obtains q where "f q x = []"
  using assms unfolding each_Nil in_set_conv_nth by blast

lemma unique_names_from_ok:
  "unique_names_from p code i seen ns = ([], names) \<Longrightarrow> distinct seen \<Longrightarrow>
     names = seen @ filter (\<lambda>n. n \<noteq> []) ns \<and> distinct names"
  by (induction p code i seen ns rule: unique_names_from.induct) (auto split: if_splits prod.splits)

lemma unique_names_ok:
  assumes "fst (check_unique_names p code names) = []"
  shows "snd (check_unique_names p code names) = filter (\<lambda>n. n \<noteq> []) names \<and> distinct (filter (\<lambda>n. n \<noteq> []) names)"
proof -
  obtain seen where s: "check_unique_names p code names = ([], seen)"
    using assms by (cases "check_unique_names p code names") simp
  then have "seen = [] @ filter (\<lambda>n. n \<noteq> []) names \<and> distinct seen"
    by (intro unique_names_from_ok) (simp_all add: check_unique_names_def)
  then show ?thesis using s by auto
qed

end
