(* ===== verification/Intent_Validation.thy ===== *)
theory Intent_Validation
  imports Intent_Checks
begin

text \<open>
  Validation of a whole topology (\<open>abstractions/validation.py\<close>): device groups with their endpoints,
  ports, partitions and traffic-generator children, prefix advertisements, and the references
  between them. \<open>collect_logical_topology_issues\<close> returns the issues in the order the source appends
  them.
\<close>

section \<open>Prefix advertisements\<close>

definition validate_prefix_advertisement_geometry ::
    "string \<Rightarrow> PrefixAdvertisement \<Rightarrow> int \<Rightarrow> string \<Rightarrow> PrefixSet option \<Rightarrow> ValidationIssue list" where
  "validate_prefix_advertisement_geometry p ad peer_count afi prefix_set =
     (let allocation = adv_allocation ad; membership = adv_membership ad
      in if prefixes_per_peer allocation \<le> 0
         then [issue (p @ ''.allocation.prefixes_per_peer'') ''invalid_prefixes_per_peer'']
         else check (network_group_index allocation < 0) (p @ ''.allocation.network_group_index'') ''invalid_network_group_index''
            @ (if start_index membership < 0 then [issue (p @ ''.membership.start_index'') ''invalid_membership_start'']
               else if member_count membership \<le> 0
               then [issue (p @ ''.membership.prefix_count'') ''invalid_membership_count'']
               else check (member_count membership \<noteq> distinct_prefix_count allocation peer_count)
                      (p @ ''.membership.prefix_count'') ''prefix_membership_count_mismatch''
                  @ on_some (\<lambda>ps. check (start_index membership + member_count membership > prefix_count (ps_source ps))
                      (p @ ''.membership'') ''prefix_membership_out_of_range'') prefix_set
                  @ validate_next_hop_intent p ad peer_count afi (member_count membership)))"

definition validate_prefix_advertisement ::
    "DeviceGroupSpec \<Rightarrow> (string, PrefixSet) dict \<Rightarrow> string \<Rightarrow> PrefixAdvertisement \<Rightarrow> ValidationIssue list" where
  "validate_prefix_advertisement g sets p ad =
     check (adv_name ad = []) (p @ ''.name'') ''name_required''
     @ (case dict_get sets (adv_prefix_set ad) of
          None \<Rightarrow> [issue (p @ ''.prefix_set'') ''unknown_prefix_set'']
        | Some ps \<Rightarrow> check (ps_afi ps \<noteq> sp_afi g) (p @ ''.prefix_set'') ''prefix_set_afi_mismatch'')
     @ validate_prefix_advertisement_geometry p ad (sp_peer_count g) (sp_afi g) (dict_get sets (adv_prefix_set ad))
     @ on_some (validate_route_attribute_pool (p @ ''.route_attributes'')) (adv_route_attributes ad)
     @ check (sp_route_attributes g \<noteq> None \<and> adv_route_attributes ad \<noteq> None)
         (p @ ''.route_attributes'') ''multiple_route_attribute_attachments''"

text \<open>
  The loop also remembers the network group indices of the earlier advertisements; an index that is
  negative is skipped.
\<close>

fun validate_group_advertisements ::
    "DeviceGroupSpec \<Rightarrow> (string, PrefixSet) dict \<Rightarrow> string \<Rightarrow> nat \<Rightarrow> int list \<Rightarrow> PrefixAdvertisement list \<Rightarrow> ValidationIssue list" where
  "validate_group_advertisements g sets p i seen [] = []"
| "validate_group_advertisements g sets p i seen (ad # ads) =
     (let q = item_path (p @ ''.prefix_advertisements'') i; index = network_group_index (adv_allocation ad)
      in validate_prefix_advertisement g sets q ad
         @ check (0 \<le> index \<and> index \<in> set seen) (q @ ''.allocation.network_group_index'') ''duplicate_network_group_index''
         @ validate_group_advertisements g sets p (Suc i) (if 0 \<le> index then index # seen else seen) ads)"

definition validate_prefix_advertisements :: "(string, PrefixSet) dict \<Rightarrow> string \<Rightarrow> DeviceGroupSpec \<Rightarrow> ValidationIssue list" where
  "validate_prefix_advertisements sets p g =
     check (sp_prefix_pools g \<noteq> [] \<and> sp_prefix_advertisements g \<noteq> []) p ''mixed_prefix_authoring''
     @ fst (check_unique_names (p @ ''.prefix_advertisements'') ''duplicate_prefix_advertisement_name''
         (map adv_name (sp_prefix_advertisements g)))
     @ validate_group_advertisements g sets p 0 [] (sp_prefix_advertisements g)"

text \<open>Prefix sets, with the table of the first of each name.\<close>

definition add_first :: "('a \<Rightarrow> string) \<Rightarrow> (string, 'a) dict \<Rightarrow> 'a \<Rightarrow> (string, 'a) dict" where
  "add_first name d x = (if name x = [] \<or> dict_get d (name x) \<noteq> None then d else dict_set (name x) x d)"

definition prefix_sets_by_name :: "LogicalTopology \<Rightarrow> (string, PrefixSet) dict" where
  "prefix_sets_by_name t = foldl (add_first ps_name) [] (lt_prefix_sets t)"

definition validate_prefix_sets :: "LogicalTopology \<Rightarrow> ValidationIssue list" where
  "validate_prefix_sets t =
     fst (check_unique_names ''prefix_sets'' ''duplicate_prefix_set_name'' (map ps_name (lt_prefix_sets t)))
     @ each (\<lambda>p ps. check (ps_name ps = []) (p @ ''.name'') ''name_required'' @ validate_prefix_set p ps)
         ''prefix_sets'' (lt_prefix_sets t)"

section \<open>Parts of a device group\<close>

text \<open>\<open>{x.name: x for x in xs if x.name}\<close>\<close>

definition named_dict :: "('a \<Rightarrow> string) \<Rightarrow> 'a list \<Rightarrow> (string, 'a) dict" where
  "named_dict name xs = foldl (\<lambda>d x. if name x = [] then d else dict_set (name x) x d) [] xs"

definition validate_device_group_basics :: "string \<Rightarrow> DeviceGroupSpec \<Rightarrow> ValidationIssue list" where
  "validate_device_group_basics p g =
     (if sp_name g = [] then [issue (p @ ''.name'') ''name_required'']
      else check (\<not> is_prefix_of ''dg_'' (sp_name g)) (p @ ''.name'') ''invalid_dg_name'')
     @ check (sp_role g = []) (p @ ''.role'') ''role_required''
     @ check (sp_afi g \<notin> set VALID_AFIS) (p @ ''.afi'') ''unsupported_afi''
     @ check (sp_peer_count g \<le> 0) (p @ ''.peer_count'') ''invalid_peer_count''
     @ check (sp_legacy_ixia_bgp_peer_name g = Some []) (p @ ''.legacy_ixia_bgp_peer_name'') ''invalid_legacy_ixia_bgp_peer_name''"

definition validate_device_group_endpoints ::
    "string \<Rightarrow> DeviceGroupSpec \<Rightarrow> string list \<Rightarrow> (string, EndpointSpec) dict \<Rightarrow> ValidationIssue list" where
  "validate_device_group_endpoints p g names endpoints =
     check (sp_a_endpoint g = sp_z_endpoint g) (p @ ''.z_endpoint'') ''same_endpoint_reference''
     @ check (sp_a_endpoint g \<notin> set names) (p @ ''.a_endpoint'') ''unknown_endpoint''
     @ check (sp_z_endpoint g \<notin> set names) (p @ ''.z_endpoint'') ''unknown_endpoint''
     @ (case (dict_get endpoints (sp_a_endpoint g), dict_get endpoints (sp_z_endpoint g)) of
          (Some a, Some z) \<Rightarrow>
            check (\<not> endpoint_is_dut a \<and> endpoint_is_dut z) (p @ ''.a_endpoint'') ''incompatible_backend_constraint''
        | _ \<Rightarrow> [])"

definition validate_device_group_routing_driver :: "string \<Rightarrow> DeviceGroupSpec \<Rightarrow> ValidationIssue list" where
  "validate_device_group_routing_driver p g =
     on_some (\<lambda>d. check (d \<notin> set VALID_ROUTING_DRIVERS) (p @ ''.routing_driver'') ''unsupported_routing_driver'')
       (sp_routing_driver g)"

definition ixia_facing :: "DeviceGroupSpec \<Rightarrow> (string, EndpointSpec) dict \<Rightarrow> bool" where
  "ixia_facing g endpoints \<longleftrightarrow>
     endpoint_is_ixia (dict_get endpoints (sp_a_endpoint g)) \<or> endpoint_is_ixia (dict_get endpoints (sp_z_endpoint g))"

definition endpoints_resolved :: "DeviceGroupSpec \<Rightarrow> (string, EndpointSpec) dict \<Rightarrow> bool" where
  "endpoints_resolved g endpoints \<longleftrightarrow>
     dict_get endpoints (sp_a_endpoint g) \<noteq> None \<and> dict_get endpoints (sp_z_endpoint g) \<noteq> None"

definition validate_device_group_port_assignment ::
    "string \<Rightarrow> DeviceGroupSpec \<Rightarrow> (string, EndpointSpec) dict \<Rightarrow> ValidationIssue list" where
  "validate_device_group_port_assignment p g endpoints =
     check (ixia_facing g endpoints \<and> sp_ixia_children g = [] \<and> sp_legacy_ixia_device_group_index g = None)
       (p @ ''.legacy_ixia_device_group_index'') ''ixia_device_group_index_required''
     @ (case sp_port_assignment g of
          None \<Rightarrow> check (ixia_facing g endpoints) (p @ ''.port_assignment'') ''ixia_port_assignment_required''
        | Some a \<Rightarrow>
            check (endpoints_resolved g endpoints \<and> \<not> ixia_facing g endpoints)
              (p @ ''.port_assignment'') ''unexpected_ixia_port_assignment''
            @ (if strip (ipa_logical_role a) = []
               then [issue (p @ ''.port_assignment.logical_role'') ''logical_port_role_required'']
               else check (ipa_logical_role a \<noteq> strip (ipa_logical_role a))
                      (p @ ''.port_assignment.logical_role'') ''invalid_logical_port_role'')
            @ on_some (\<lambda>r. check (strip r = [] \<or> r \<noteq> strip r) (p @ ''.port_assignment.reuse_group'') ''invalid_port_reuse_group'')
                (ipa_reuse_group a))"

definition validate_device_group_slow_peer ::
    "string \<Rightarrow> DeviceGroupSpec \<Rightarrow> (string, EndpointSpec) dict \<Rightarrow> ValidationIssue list" where
  "validate_device_group_slow_peer p g endpoints =
     (if sp_slow_peer g = None then []
      else check (endpoints_resolved g endpoints \<and> \<not> ixia_facing g endpoints) (p @ ''.slow_peer'') ''slow_peer_requires_ixia''
         @ check (sp_peer_group g = None) (p @ ''.slow_peer'') ''slow_peer_requires_bgp'')"

section \<open>Traffic-generator children\<close>

text \<open>A name must not be blank nor have blanks around it; the codes of the two cases.\<close>

definition validate_plain_name :: "string \<Rightarrow> string \<Rightarrow> string \<Rightarrow> string \<Rightarrow> ValidationIssue list" where
  "validate_plain_name blank_code spaces_code p s =
     (if strip s = [] then [issue p blank_code] else check (s \<noteq> strip s) p spaces_code)"

definition validate_optional_ixia_child_name :: "string \<Rightarrow> string \<Rightarrow> string option \<Rightarrow> ValidationIssue list" where
  "validate_optional_ixia_child_name p field_name x =
     (let code = ''invalid_ixia_child_'' @ field_name
      in on_some (validate_plain_name code code (p @ ''.'' @ field_name)) x)"

definition validate_ixia_child_metadata :: "string \<Rightarrow> IxiaDeviceGroupChild \<Rightarrow> DeviceGroupSpec \<Rightarrow> ValidationIssue list" where
  "validate_ixia_child_metadata p c parent =
     validate_plain_name ''ixia_child_name_required'' ''invalid_ixia_child_name'' (p @ ''.name'') (ic_name c)
     @ validate_optional_ixia_child_name p ''legacy_ixia_device_group_name'' (ic_legacy_device_group_name c)
     @ validate_optional_ixia_child_name p ''legacy_ixia_bgp_peer_name'' (ic_legacy_bgp_peer_name c)
     @ on_some (\<lambda>n. check (strip n = [] \<or> n \<noteq> strip n) (p @ ''.legacy_ixia_prefix_pool_name'') ''invalid_ixia_child_prefix_pool_name'')
         (ic_legacy_prefix_pool_name c)
     @ check (ic_legacy_prefix_pool_name c \<noteq> None \<and> length (sp_prefix_advertisements parent) \<noteq> 1)
         (p @ ''.legacy_ixia_prefix_pool_name'') ''ambiguous_ixia_child_prefix_pool_override''
     @ check (ic_ordinal c < 0) (p @ ''.ordinal'') ''invalid_ixia_child_ordinal''
     @ check (ic_start_index c < 0) (p @ ''.start_index'') ''invalid_ixia_child_start_index''
     @ on_some (\<lambda>n. check (n < 0) (p @ ''.legacy_ixia_device_group_index'') ''invalid_ixia_child_legacy_ixia_device_group_index'')
         (ic_legacy_device_group_index c)
     @ check (ic_peer_count c \<le> 0) (p @ ''.peer_count'') ''invalid_ixia_child_peer_count''"

definition validate_ixia_child_window ::
    "string \<Rightarrow> IxiaDeviceGroupChild \<Rightarrow> int \<Rightarrow> int \<Rightarrow> ValidationIssue list \<times> int" where
  "validate_ixia_child_window p c expected_ordinal expected_start =
     (check (ic_ordinal c \<noteq> expected_ordinal) (p @ ''.ordinal'') ''ixia_child_ordinal_gap''
      @ check (0 \<le> ic_start_index c \<and> ic_start_index c \<noteq> expected_start) (p @ ''.start_index'')
          (if ic_start_index c < expected_start then ''ixia_child_peer_overlap'' else ''ixia_child_peer_gap''),
      if 0 \<le> ic_start_index c \<and> 0 \<le> ic_peer_count c then ic_start_index c + ic_peer_count c else expected_start)"

fun validate_child_windows ::
    "string \<Rightarrow> DeviceGroupSpec \<Rightarrow> nat \<Rightarrow> int \<Rightarrow> IxiaDeviceGroupChild list \<Rightarrow> ValidationIssue list \<times> int" where
  "validate_child_windows p g i start [] = ([], start)"
| "validate_child_windows p g i start (c # cs) =
     (let q = item_path (p @ ''.ixia_children'') i;
          (window_issues, start') = validate_ixia_child_window q c (int i) start;
          (issues, finish) = validate_child_windows p g (Suc i) start' cs
      in (validate_ixia_child_metadata q c g @ window_issues @ issues, finish))"

definition validate_ixia_child_parent ::
    "string \<Rightarrow> DeviceGroupSpec \<Rightarrow> (string, EndpointSpec) dict \<Rightarrow> ValidationIssue list" where
  "validate_ixia_child_parent p g endpoints =
     (let code = ''parent_legacy_leaf_metadata_with_ixia_children''
      in check (\<not> ixia_facing g endpoints \<and> endpoints_resolved g endpoints)
           (p @ ''.ixia_children'') ''ixia_children_require_ixia_parent''
         @ check (sp_legacy_ixia_device_group_name g \<noteq> None) (p @ ''.legacy_ixia_device_group_name'') code
         @ check (sp_legacy_ixia_bgp_peer_name g \<noteq> None) (p @ ''.legacy_ixia_bgp_peer_name'') code
         @ check (sp_legacy_ixia_device_group_index g \<noteq> None) (p @ ''.legacy_ixia_device_group_index'') code)"

text \<open>Indices that are given and not negative must differ between siblings.\<close>

fun validate_child_indices :: "string \<Rightarrow> nat \<Rightarrow> int list \<Rightarrow> IxiaDeviceGroupChild list \<Rightarrow> ValidationIssue list" where
  "validate_child_indices p i seen [] = []"
| "validate_child_indices p i seen (c # cs) =
     (case ic_legacy_device_group_index c of
        None \<Rightarrow> validate_child_indices p (Suc i) seen cs
      | Some n \<Rightarrow>
          if n < 0 then validate_child_indices p (Suc i) seen cs
          else if n \<in> set seen
          then issue (item_path (p @ ''.ixia_children'') i @ ''.legacy_ixia_device_group_index'') ''duplicate_ixia_device_group_index''
               # validate_child_indices p (Suc i) seen cs
          else validate_child_indices p (Suc i) (n # seen) cs)"

definition validate_ixia_children :: "string \<Rightarrow> DeviceGroupSpec \<Rightarrow> (string, EndpointSpec) dict \<Rightarrow> ValidationIssue list" where
  "validate_ixia_children p g endpoints =
     (if sp_ixia_children g = [] then []
      else let (window_issues, total) = validate_child_windows p g 0 0 (sp_ixia_children g)
           in validate_ixia_child_parent p g endpoints @ window_issues
              @ validate_child_indices p 0 [] (sp_ixia_children g)
              @ check (total \<noteq> sp_peer_count g) (p @ ''.ixia_children'') ''ixia_child_total_mismatch'')"

text \<open>Child names of the whole topology, with the path of each.\<close>

definition child_name_paths :: "LogicalTopology \<Rightarrow> (string \<times> string) list" where
  "child_name_paths t =
     concat (map (\<lambda>(i, g). map (\<lambda>(j, c). (item_path (item_path ''device_groups'' i @ ''.ixia_children'') j @ ''.name'', ic_name c))
         (enumerate 0 (sp_ixia_children g))) (enumerate 0 (lt_device_groups t)))"

fun validate_child_names :: "string list \<Rightarrow> (string \<times> string) list \<Rightarrow> ValidationIssue list" where
  "validate_child_names seen [] = []"
| "validate_child_names seen ((p, n) # rest) =
     (if n = [] then validate_child_names seen rest
      else if n \<in> set seen then issue p ''duplicate_ixia_child_name'' # validate_child_names seen rest
      else validate_child_names (n # seen) rest)"

section \<open>Partitions\<close>

definition validate_partition_window :: "DeviceGroupSpec \<Rightarrow> DeviceGroupPartition \<Rightarrow> string \<Rightarrow> PrefixAdvertisement \<Rightarrow> ValidationIssue list" where
  "validate_partition_window g part p ad =
     (let n = prefixes_per_peer (adv_allocation ad)
      in check (peer_distribution (adv_allocation ad) = DISJOINT
           \<and> (start_index (adv_membership ad) \<noteq> dgp_start_index part * n
              \<or> member_count (adv_membership ad) \<noteq> sp_peer_count g * n))
           (p @ ''.membership'') ''partition_prefix_window_mismatch'')"

definition validate_partition :: "string \<Rightarrow> DeviceGroupSpec \<Rightarrow> DeviceGroupPartition \<Rightarrow> ValidationIssue list" where
  "validate_partition p g x =
     validate_plain_name ''partition_family_required'' ''invalid_partition_family'' (p @ ''.partition.family'') (dgp_family x)
     @ check (dgp_ordinal x < 0) (p @ ''.partition.ordinal'') ''invalid_partition_ordinal''
     @ check (dgp_start_index x < 0) (p @ ''.partition.start_index'') ''invalid_partition_start_index''
     @ check (dgp_total_peer_count x \<le> 0) (p @ ''.partition.total_peer_count'') ''invalid_partition_total_peer_count''
     @ check (\<not> explicit_addresses (sp_address_plan g) \<and> 0 \<le> dgp_start_index x
           \<and> ap_start_index (sp_address_plan g) \<noteq> dgp_start_index x)
         (p @ ''.address_plan.start_index'') ''partition_address_window_mismatch''
     @ (if dgp_start_index x < 0 then []
        else each (validate_partition_window g x) (p @ ''.prefix_advertisements'') (sp_prefix_advertisements g))"

definition validate_device_group_partition :: "string \<Rightarrow> DeviceGroupSpec \<Rightarrow> ValidationIssue list" where
  "validate_device_group_partition p g =
     on_some (validate_partition p g) (sp_partition g)
     @ on_some (\<lambda>n. check (n < 0) (p @ ''.legacy_ixia_device_group_index'') ''invalid_ixia_device_group_index'')
         (sp_legacy_ixia_device_group_index g)"

definition partition_advertisement_geometry ::
    "DeviceGroupSpec \<Rightarrow> (string \<times> int \<times> PeerPrefixDistribution \<times> RouteScaleMode) list" where
  "partition_advertisement_geometry g =
     map (\<lambda>ad. (adv_prefix_set ad, prefixes_per_peer (adv_allocation ad), peer_distribution (adv_allocation ad),
                 route_scale_mode (adv_allocation ad))) (sp_prefix_advertisements g)"

text \<open>The first field in which two members of a family differ.\<close>

definition partition_geometry_mismatch_path :: "DeviceGroupSpec \<Rightarrow> DeviceGroupSpec \<Rightarrow> string \<Rightarrow> string option" where
  "partition_geometry_mismatch_path a b p =
     (let x = sp_address_plan a; y = sp_address_plan b
      in map_option (\<lambda>(_, f). p @ f) (find fst
           [(sp_afi a \<noteq> sp_afi b, ''.afi''), (base_role (sp_role a) \<noteq> base_role (sp_role b), ''.role''),
            (ap_parent_network x \<noteq> ap_parent_network y, ''.address_plan.parent_network''),
            (ap_parent_network_key x \<noteq> ap_parent_network_key y, ''.address_plan.parent_network_key''),
            (ap_a_offset x \<noteq> ap_a_offset y, ''.address_plan.a_offset''),
            (ap_z_offset x \<noteq> ap_z_offset y, ''.address_plan.z_offset''),
            (ap_stride x \<noteq> ap_stride y, ''.address_plan.stride''),
            (ap_increment x \<noteq> ap_increment y, ''.address_plan.increment''),
            (ap_prefix_length x \<noteq> ap_prefix_length y, ''.address_plan.prefix_length''),
            (ap_mask x \<noteq> ap_mask y, ''.address_plan.mask''),
            (sp_peer_group a \<noteq> sp_peer_group b, ''.peer_group''),
            (sp_port_assignment a \<noteq> sp_port_assignment b, ''.port_assignment''),
            (partition_advertisement_geometry a \<noteq> partition_advertisement_geometry b, ''.prefix_advertisements'')]))"

type_synonym family_entry = "nat \<times> DeviceGroupSpec \<times> DeviceGroupPartition"

definition partition_families :: "DeviceGroupSpec list \<Rightarrow> (string, family_entry list) dict" where
  "partition_families gs =
     foldl (\<lambda>d (i, g). case sp_partition g of
                None \<Rightarrow> d
              | Some x \<Rightarrow> if dgp_family x = [] then d else dict_append (dgp_family x) (i, g, x) d)
       [] (enumerate 0 gs)"

text \<open>The members of a family in the order of their ordinals, and the end of the last window.\<close>

fun validate_family_members ::
    "nat \<Rightarrow> DeviceGroupSpec \<Rightarrow> int \<Rightarrow> int \<Rightarrow> family_entry list \<Rightarrow> ValidationIssue list \<times> int" where
  "validate_family_members first_index first ordinal start [] = ([], start)"
| "validate_family_members first_index first ordinal start ((i, g, x) # rest) =
     (let p = item_path ''device_groups'' i;
          code = (if dgp_start_index x < start then ''partition_peer_overlap''
                  else if ordinal = 0 then ''partition_start_gap'' else ''partition_peer_gap'');
          (issues, finish) = validate_family_members first_index first (ordinal + 1) (dgp_start_index x + sp_peer_count g) rest
      in (check (dgp_ordinal x \<noteq> ordinal) (p @ ''.partition.ordinal'') ''partition_ordinal_gap''
          @ check (dgp_start_index x \<noteq> start) (p @ ''.partition.start_index'') code
          @ (if i = first_index then []
             else on_some (\<lambda>path. [issue path ''partition_geometry_mismatch'']) (partition_geometry_mismatch_path first g p))
          @ issues, finish))"

definition validate_family :: "family_entry list \<Rightarrow> ValidationIssue list" where
  "validate_family entries =
     (case sort_key (\<lambda>(i, g, x). dgp_ordinal x) entries of
        [] \<Rightarrow> []
      | (i, g, x) # rest \<Rightarrow>
          let ordered = (i, g, x) # rest; (issues, finish) = validate_family_members i g 0 0 ordered
          in issues
             @ concat (map (\<lambda>(j, h, y). check (dgp_total_peer_count y \<noteq> finish)
                 (item_path ''device_groups'' j @ ''.partition.total_peer_count'') ''partition_total_mismatch'') ordered))"

definition validate_device_group_partitions :: "DeviceGroupSpec list \<Rightarrow> ValidationIssue list" where
  "validate_device_group_partitions gs = concat (map (validate_family \<circ> snd) (partition_families gs))"

section \<open>Device groups\<close>

definition validate_group_prefix_pool :: "DeviceGroupSpec \<Rightarrow> string \<Rightarrow> PrefixPool \<Rightarrow> ValidationIssue list" where
  "validate_group_prefix_pool g p pool =
     check (pp_afi pool \<noteq> sp_afi g) (p @ ''.afi'') ''prefix_pool_afi_mismatch'' @ validate_prefix_pool p pool"

definition validate_device_group ::
    "string list \<Rightarrow> (string, EndpointSpec) dict \<Rightarrow> string list \<Rightarrow> string list \<Rightarrow> string \<Rightarrow> DeviceGroupSpec \<Rightarrow> ValidationIssue list" where
  "validate_device_group names endpoints dg_names pool_names p g =
     validate_device_group_basics p g
     @ validate_device_group_endpoints p g names endpoints
     @ validate_device_group_routing_driver p g
     @ validate_device_group_port_assignment p g endpoints
     @ validate_device_group_slow_peer p g endpoints
     @ validate_device_group_partition p g
     @ validate_ixia_children p g endpoints
     @ on_some (validate_route_attribute_pool (p @ ''.route_attributes'')) (sp_route_attributes g)
     @ validate_address_plan (sp_address_plan g) (p @ ''.address_plan'') (sp_peer_count g) (sp_afi g)
     @ (case sp_peer_group g of Some (PeerGroupObject x) \<Rightarrow> validate_peer_group (p @ ''.peer_group'') x | _ \<Rightarrow> [])
     @ each (validate_group_prefix_pool g) (p @ ''.prefix_pools'') (sp_prefix_pools g)
     @ each (validate_authored_flow dg_names pool_names) (p @ ''.traffic_flows'') (sp_traffic_flows g)
     @ on_some (collect_routing_device_config_issues (p @ ''.routing_device_config'')) (sp_routing_device_config g)"

section \<open>Names of pools, route senders\<close>

definition iter_prefix_pools :: "LogicalTopology \<Rightarrow> (string \<times> string \<times> PrefixPool) list" where
  "iter_prefix_pools t =
     map (\<lambda>(i, pool). (''prefix_pools'', item_path ''prefix_pools'' i, pool)) (enumerate 0 (lt_prefix_pools t))
     @ concat (map (\<lambda>(i, g). let namespace = item_path ''device_groups'' i @ ''.prefix_pools''
           in map (\<lambda>(j, pool). (namespace, item_path namespace j, pool)) (enumerate 0 (sp_prefix_pools g)))
         (enumerate 0 (lt_device_groups t)))"

text \<open>
  A name may recur only in another namespace and for an equal pool; only its first clash is
  reported.
\<close>

fun check_pool_names ::
    "(string \<times> PrefixPool) list \<Rightarrow> string list \<Rightarrow> (string \<times> string \<times> PrefixPool) list \<Rightarrow> ValidationIssue list" where
  "check_pool_names seen flagged [] = []"
| "check_pool_names seen flagged ((namespace, p, pool) # rest) =
     (if pp_name pool = [] then check_pool_names seen flagged rest
      else let clash = list_ex (\<lambda>(n, x). pp_name x = pp_name pool \<and> (n = namespace \<or> x \<noteq> pool)) seen
           in if clash \<and> pp_name pool \<notin> set flagged
              then issue (p @ ''.name'') ''duplicate_prefix_pool_name''
                   # check_pool_names (seen @ [(namespace, pool)]) (pp_name pool # flagged) rest
              else check_pool_names (seen @ [(namespace, pool)]) flagged rest)"

definition prefix_pool_names :: "LogicalTopology \<Rightarrow> string list" where
  "prefix_pool_names t = filter (\<lambda>n. n \<noteq> []) (map (\<lambda>(_, _, pool). pp_name pool) (iter_prefix_pools t))"

fun validate_route_senders ::
    "(string, DeviceGroupSpec) dict \<Rightarrow> nat \<Rightarrow> (string \<times> string) list \<Rightarrow> RouteSender list \<Rightarrow> ValidationIssue list" where
  "validate_route_senders groups i seen [] = []"
| "validate_route_senders groups i seen (s # ss) =
     (let p = item_path ''route_senders'' i; key = (rsn_device_group s, rsn_prefix_advertisement s)
      in (case dict_get groups (rsn_device_group s) of
            None \<Rightarrow> [issue (p @ ''.device_group'') ''unknown_device_group'']
          | Some g \<Rightarrow> check (rsn_prefix_advertisement s \<notin> adv_name ` set (sp_prefix_advertisements g))
                        (p @ ''.prefix_advertisement'') ''unknown_prefix_advertisement'')
         @ check (key \<in> set seen) p ''duplicate_route_sender''
         @ validate_route_senders groups (Suc i) (key # seen) ss)"

section \<open>The topology\<close>

definition validate_logical_topology_identity :: "LogicalTopology \<Rightarrow> ValidationIssue list" where
  "validate_logical_topology_identity t =
     check (lt_name t = []) ''name'' ''name_required''
     @ check (given (lt_legacy_profile t) \<and> the (lt_legacy_profile t) \<notin> set VALID_LEGACY_PROFILES)
         ''legacy_profile'' ''unknown_legacy_profile''
     @ check (lt_task_compatibility_profile t \<noteq> None \<and> lt_legacy_profile t \<noteq> None)
         ''task_compatibility_profile'' ''legacy_task_compatibility_conflict''"

definition validate_logical_topology_endpoints :: "LogicalTopology \<Rightarrow> ValidationIssue list" where
  "validate_logical_topology_endpoints t =
     each validate_endpoint ''endpoints'' (lt_endpoints t)
     @ check (lt_endpoints t \<noteq> [] \<and> \<not> list_ex endpoint_is_dut (lt_endpoints t)) ''endpoints'' ''dut_endpoint_required''
     @ check (lt_endpoints t = []) ''endpoints'' ''endpoint_required''"

definition collect_logical_topology_issues :: "LogicalTopology \<Rightarrow> ValidationIssue list" where
  "collect_logical_topology_issues t =
     (let endpoint_names = check_unique_names ''endpoints'' ''duplicate_endpoint_name'' (map es_name (lt_endpoints t));
          dg_names = check_unique_names ''device_groups'' ''duplicate_device_group_name'' (map sp_name (lt_device_groups t));
          endpoints = named_dict es_name (lt_endpoints t); pool_names = prefix_pool_names t;
          sets = prefix_sets_by_name t
      in validate_logical_topology_identity t @ fst endpoint_names @ fst dg_names
         @ validate_logical_topology_endpoints t
         @ check_pool_names [] [] (iter_prefix_pools t)
         @ each (validate_device_group (snd endpoint_names) endpoints (snd dg_names) pool_names) ''device_groups'' (lt_device_groups t)
         @ validate_device_group_partitions (lt_device_groups t)
         @ validate_child_names [] (child_name_paths t)
         @ each validate_peer_group ''peer_groups'' (lt_peer_groups t)
         @ each validate_prefix_pool ''prefix_pools'' (lt_prefix_pools t)
         @ validate_prefix_sets t
         @ each (validate_prefix_advertisements sets) ''device_groups'' (lt_device_groups t)
         @ validate_route_senders (named_dict sp_name (lt_device_groups t)) 0 [] (lt_route_senders t)
         @ each (validate_authored_flow (snd dg_names) pool_names) ''traffic_flows'' (lt_traffic_flows t)
         @ collect_routing_device_config_issues ''device_config'' (lt_device_config t))"

abbreviation TopologyValidationError :: exn_class where
  "TopologyValidationError \<equiv> UserExn ''TopologyValidationError'' ValueError"

definition validate_logical_topology :: "LogicalTopology \<Rightarrow> unit result" where
  "validate_logical_topology t =
     raise_if (collect_logical_topology_issues t \<noteq> []) (Exn TopologyValidationError ''logical topology has validation errors'')"

end
