(* ===== verification/Address_Text.thy ===== *)
theory Address_Text
  imports Plan_Resources
begin

text \<open>
  The text of an address reads back as the address: printing (\<open>str\<close>) and parsing
  (\<open>ipaddress.ip_address\<close>) are inverse on every valid address of both versions, the compressed texts
  of version 6 included. Every place where the sources print an address and parse it later rests
  on this.
\<close>

section \<open>Decimal octets\<close>

lemma parse_dec_show_nat: "parse_dec (show_nat k) = k"
proof -
  have "parse_dec s = digits_value s" for s
    by (simp add: parse_dec_def digits_value_def digit_val_def mult.commute)
  then show ?thesis by (simp add: digits_value_show_nat)
qed

lemma show_nat_split: "show_nat k = (if k < 10 then [] else show_nat (k div 10)) @ [digit_char (k mod 10)]"
  by (simp add: show_nat.simps [of k])

lemma show_nat_length: "k < 10 ^ Suc j \<Longrightarrow> length (show_nat k) \<le> Suc j"
proof (induction j arbitrary: k)
  case (Suc j)
  show ?case
  proof (cases "k < 10")
    case False
    have "k div 10 < 10 ^ Suc j" using Suc.prems by (simp add: div_less_iff_less_mult)
    then show ?thesis using Suc.IH [of "k div 10"] False by (simp add: show_nat_split [of k])
  qed (simp add: show_nat_split [of k])
qed (simp add: show_nat.simps)

lemma show_nat_leading: "0 < k \<Longrightarrow> hd (show_nat k) \<noteq> CHR ''0''"
proof (induction k rule: less_induct)
  case (less k)
  have digit: "d < 10 \<Longrightarrow> digit_char d = CHR ''0'' \<Longrightarrow> d = 0" for d
  proof -
    assume d: "d < 10" "digit_char d = CHR ''0''"
    then have "(of_char (digit_char d) :: nat) = of_char (CHR ''0'')" by simp
    then show "d = 0" using d(1) by (simp add: digit_char_def)
  qed
  show ?case
  proof (cases "k < 10")
    case False
    then have "hd (show_nat (k div 10)) \<noteq> CHR ''0''" by (intro less.IH) simp_all
    then show ?thesis using False show_nat_hd [of "k div 10"] by (auto simp: show_nat_split [of k] hd_append)
  qed (use less.prems digit [of k] in \<open>auto simp: show_nat_split [of k]\<close>)
qed

lemma show_nat_is_digit: "list_all is_digit (show_nat k)"
  unfolding list_all_iff
proof
  fix c
  assume "c \<in> set (show_nat k)"
  then obtain d where "d < 10" "c = digit_char d" using show_nat_digits by blast
  then show "is_digit c" by (simp add: is_digit_def digit_char_def)
qed

lemma octet_round_trip:
  assumes "k < 256"
  shows "parse_octet (show_nat k) = Some k"
proof -
  have "length (show_nat k) \<le> 3" "show_nat k \<noteq> []"
    using show_nat_length [of k 2] show_nat_hd [of k] assms by auto
  moreover have "show_nat k \<noteq> ''0'' \<Longrightarrow> hd (show_nat k) \<noteq> CHR ''0''"
  proof (rule show_nat_leading)
    assume "show_nat k \<noteq> ''0''"
    moreover have "show_nat 0 = ''0''" by code_simp
    ultimately show "0 < k" by (cases k) auto
  qed
  ultimately show ?thesis using assms by (auto simp: parse_octet_def parse_dec_show_nat show_nat_is_digit)
qed

lemma show_nat_no_dot: "CHR ''.'' \<notin> set (show_nat k)"
proof
  assume "CHR ''.'' \<in> set (show_nat k)"
  then obtain d where d: "d < 10" "CHR ''.'' = digit_char d" using show_nat_digits by blast
  then have "of_char (CHR ''.'') = (of_char (digit_char d) :: nat)" by simp
  then show False using d(1) by (simp add: digit_char_def)
qed

lemma octets_sum:
  assumes "0 \<le> n" "n < 2 ^ 32"
  shows "n div 16777216 mod 256 * 16777216 + n div 65536 mod 256 * 65536 + n div 256 mod 256 * 256 + n mod 256 = (n :: int)"
proof -
  have "n div 16777216 mod 256 = n div 16777216" using assms by (intro mod_pos_pos_trivial) auto
  moreover have "n div 65536 = n div 16777216 * 256 + n div 65536 mod 256"
    using div_mult_mod_eq [of "n div 65536" 256] by (simp add: zdiv_zmult2_eq [symmetric])
  moreover have "n div 256 = n div 65536 * 256 + n div 256 mod 256"
    using div_mult_mod_eq [of "n div 256" 256] by (simp add: zdiv_zmult2_eq [symmetric])
  moreover have "n = n div 256 * 256 + n mod 256" by simp
  ultimately show ?thesis by linarith
qed

lemma ipv4_round_trip:
  assumes "0 \<le> n" "n < 2 ^ 32"
  shows "ipv4_of_string (ipv4_str n) = Some n"
proof -
  define a b c d where k: "a = nat (n div 16777216 mod 256)" "b = nat (n div 65536 mod 256)"
    "c = nat (n div 256 mod 256)" "d = nat (n mod 256)"
  have parts: "split_on (CHR ''.'') (ipv4_str n) = [show_nat a, show_nat b, show_nat c, show_nat d]"
    unfolding ipv4_str_def k by (rule split_on_join) (simp_all add: show_nat_no_dot)
  have "nat (m mod 256) < 256" for m :: int by (simp add: nat_less_iff)
  then have small: "a < 256" "b < 256" "c < 256" "d < 256" by (simp_all only: k)
  have "ipv4_of_string (ipv4_str n) = Some (int a * 16777216 + int b * 65536 + int c * 256 + int d)"
    using small by (simp add: ipv4_of_string_def parts octet_round_trip)
  moreover have "int a = n div 16777216 mod 256" "int b = n div 65536 mod 256" "int c = n div 256 mod 256" "int d = n mod 256"
    by (simp_all add: k)
  ultimately show ?thesis using octets_sum [OF assms] by (simp only:)
qed

section \<open>Hexadecimal groups\<close>

lemma hex_char_code: "d < 16 \<Longrightarrow> (of_char (hex_char d) :: nat) = (if d < 10 then 48 + d else 87 + d)"
  by (simp add: hex_char_def)

lemma hex_char_val: "d < 16 \<Longrightarrow> hex_val (hex_char d) = Some d"
  by (simp add: hex_val_def Let_def hex_char_code)

lemma show_hex_split: "show_hex k = (if k < 16 then [] else show_hex (k div 16)) @ [hex_char (k mod 16)]"
  by (simp add: show_hex.simps [of k])

lemma show_hex_ne [simp]: "show_hex k \<noteq> []"
  by (simp add: show_hex_split)

lemma show_hex_chars: "c \<in> set (show_hex k) \<Longrightarrow> \<exists>d < 16. c = hex_char d"
proof (induction k rule: less_induct)
  case (less k)
  have "c \<in> set (if k < 16 then [] else show_hex (k div 16)) \<or> c = hex_char (k mod 16)"
    using less.prems unfolding show_hex_split [of k] by auto
  then show ?case using less.IH [of "k div 16"] by (auto split: if_splits intro: exI [of _ "k mod 16"])
qed

lemma show_hex_sep: "c \<in> {CHR '':'', CHR ''.'', CHR ''%'', CHR ''/''} \<Longrightarrow> c \<notin> set (show_hex k)"
proof
  assume c: "c \<in> {CHR '':'', CHR ''.'', CHR ''%'', CHR ''/''}" "c \<in> set (show_hex k)"
  then obtain d where d: "d < 16" "c = hex_char d" using show_hex_chars by blast
  then have "(of_char c :: nat) = (if d < 10 then 48 + d else 87 + d)" by (simp add: hex_char_code)
  then show False using c(1) d(1) by (auto split: if_splits)
qed

lemma show_hex_length: "k < 16 ^ Suc j \<Longrightarrow> length (show_hex k) \<le> Suc j"
proof (induction j arbitrary: k)
  case (Suc j)
  show ?case
  proof (cases "k < 16")
    case False
    have "k div 16 < 16 ^ Suc j" using Suc.prems by (simp add: div_less_iff_less_mult)
    then show ?thesis using Suc.IH [of "k div 16"] False by (simp add: show_hex_split [of k])
  qed (simp add: show_hex_split [of k])
qed (simp add: show_hex.simps)

lemma parse_hextet_acc_append:
  "parse_hextet_acc n (s @ s') = (case parse_hextet_acc n s of None \<Rightarrow> None | Some k \<Rightarrow> parse_hextet_acc k s')"
  by (induction n s rule: parse_hextet_acc.induct) (auto split: option.splits)

lemma int_of_nat_split: "int d * int (k div d) + int (k mod d) = int k"
  by (metis mult_div_mod_eq of_nat_add of_nat_mult)

lemma parse_show_hex: "parse_hextet_acc 0 (show_hex k) = Some (int k)"
proof (induction k rule: less_induct)
  case (less k)
  show ?case
  proof (cases "k < 16")
    case False
    then have "parse_hextet_acc 0 (show_hex (k div 16)) = Some (int (k div 16))" by (intro less.IH) simp
    then show ?thesis
      using False int_of_nat_split [of 16 k] by (simp add: show_hex_split [of k] parse_hextet_acc_append hex_char_val)
  qed (simp add: show_hex_split [of k] hex_char_val)
qed

lemma hextet_round_trip: "k < 65536 \<Longrightarrow> parse_hextet (show_hex k) = Some (int k)"
  using show_hex_length [of k 3] by (simp add: parse_hextet_def parse_show_hex)

lemma show_hex_zero: "show_hex k = ''0'' \<longleftrightarrow> k = 0"
proof
  assume "show_hex k = ''0''"
  then have "Some (int k) = parse_hextet_acc 0 ''0''" using parse_show_hex [of k] by simp
  also have "\<dots> = Some 0" by (simp add: hex_val_def)
  finally show "k = 0" by simp
next
  show "k = 0 \<Longrightarrow> show_hex k = ''0''" by (simp, code_simp)
qed

section \<open>Sequences of groups\<close>

text \<open>The value of a list of groups.\<close>

definition hex_value :: "int \<Rightarrow> nat list \<Rightarrow> int" where
  "hex_value n ks = foldl (\<lambda>v k. 65536 * v + int k) n ks"

lemma parse_hextets_show:
  "\<forall>k \<in> set ks. k < 65536 \<Longrightarrow> parse_hextets n (map show_hex ks) = Some (hex_value n ks)"
  by (induction ks arbitrary: n) (simp_all add: hextet_round_trip hex_value_def)

lemma hex_value_append: "hex_value n (ks @ ks') = hex_value (hex_value n ks) ks'"
  by (simp add: hex_value_def)

lemma hex_value_zeros: "\<forall>k \<in> set ks. k = 0 \<Longrightarrow> hex_value n ks = n * 65536 ^ length ks"
  by (induction ks arbitrary: n) (simp_all add: hex_value_def)

definition groups :: "int \<Rightarrow> nat list" where
  "groups n = map (\<lambda>i. nat (n div 65536 ^ (7 - i) mod 65536)) [0 ..< 8]"

lemma groups_facts: "hextets n = map show_hex (groups n)" "length (groups n) = 8" "\<forall>k \<in> set (groups n). k < 65536"
  by (auto simp: hextets_def groups_def nat_less_iff)

lemma group_step: "0 \<le> n \<Longrightarrow> 65536 * (n div 65536 ^ Suc i) + n div 65536 ^ i mod 65536 = (n :: int) div 65536 ^ i"
proof -
  assume "0 \<le> n"
  have "n div 65536 ^ Suc i = n div 65536 ^ i div 65536" by (simp add: zdiv_zmult2_eq power_Suc2 del: power_Suc)
  then show ?thesis by simp
qed

lemma groups_value:
  assumes "0 \<le> n" "n < 2 ^ 128"
  shows "hex_value 0 (groups n) = n"
proof -
  have i: "j \<le> 8 \<Longrightarrow> hex_value 0 (take j (groups n)) = n div 65536 ^ (8 - j)" for j
  proof (induction j)
    case 0
    then show ?case using assms by (simp add: hex_value_def)
  next
    case (Suc j)
    have "take (Suc j) (groups n) = take j (groups n) @ [nat (n div 65536 ^ (7 - j) mod 65536)]"
      using Suc.prems by (simp add: take_Suc_conv_app_nth groups_def)
    then have "hex_value 0 (take (Suc j) (groups n)) = 65536 * (n div 65536 ^ (8 - j)) + n div 65536 ^ (7 - j) mod 65536"
      using Suc by (simp add: hex_value_append) (simp add: hex_value_def)
    also have "8 - j = Suc (7 - j)" using Suc.prems by simp
    finally show ?case using group_step [OF assms(1), of "7 - j"] by simp
  qed
  from i [of 8] show ?thesis by (simp add: groups_def)
qed

section \<open>Compression\<close>

lemma zero_run_spec: "zero_run hs \<le> length hs \<and> (\<forall>j < zero_run hs. hs ! j = ''0'')"
  by (induction hs) (auto simp: nth_Cons split: nat.splits)

lemma best_run_spec:
  "best_run i hs b = (s, l) \<Longrightarrow> (s, l) = b \<or> i \<le> s \<and> s + l \<le> i + length hs \<and> (\<forall>j < l. hs ! (s - i + j) = ''0'')"
proof (induction i hs b rule: best_run.induct)
  case (2 i h hs b)
  let ?b = "if snd b < zero_run (h # hs) then (i, zero_run (h # hs)) else b"
  from 2 have "(s, l) = ?b \<or> Suc i \<le> s \<and> s + l \<le> Suc i + length hs \<and> (\<forall>j < l. hs ! (s - Suc i + j) = ''0'')"
    by (simp add: Let_def del: zero_run.simps)
  then show ?case
  proof
    assume "(s, l) = ?b"
    then show ?thesis using zero_run_spec [of "h # hs"] by (auto simp del: zero_run.simps split: if_splits)
  next
    assume later: "Suc i \<le> s \<and> s + l \<le> Suc i + length hs \<and> (\<forall>j < l. hs ! (s - Suc i + j) = ''0'')"
    have "(h # hs) ! (s - i + j) = ''0''" if "j < l" for j
    proof -
      have "s - i + j = Suc (s - Suc i + j)" using later by linarith
      then show ?thesis using later that by (metis nth_Cons_Suc)
    qed
    then show ?thesis using later by auto
  qed
qed simp

text \<open>
  The parts of a compressed text: the groups before and after the omitted ones, with an empty part
  in their place and another one at an end that has no groups.
\<close>

abbreviation side :: "nat list \<Rightarrow> string list" where
  "side ks \<equiv> (if ks = [] then [[]] else map show_hex ks)"

lemma compress_groups:
  assumes "length ks = 8"
  obtains "compress_hextets (map show_hex ks) = map show_hex ks"
  | pre zeros post where "ks = pre @ zeros @ post" "\<forall>k \<in> set zeros. k = 0" "1 < length zeros"
      "compress_hextets (map show_hex ks) = side pre @ [[]] @ side post"
proof -
  obtain s l where b: "best_run 0 (map show_hex ks) (0, 0) = (s, l)" by fastforce
  show thesis
  proof (cases "1 < l")
    case False
    then have "compress_hextets (map show_hex ks) = map show_hex ks" by (simp add: compress_hextets_def b)
    then show thesis by (rule that(1))
  next
    case True
    then have sl: "s + l \<le> 8" "\<forall>j < l. map show_hex ks ! (s + j) = ''0''"
      using best_run_spec [OF b] assms by auto
    let ?zeros = "take l (drop s ks)"
    have "ks = take s ks @ ?zeros @ drop (s + l) ks"
      by (metis append_take_drop_id drop_drop add.commute)
    moreover have "\<forall>k \<in> set ?zeros. k = 0"
      using sl assms by (auto simp: in_set_conv_nth show_hex_zero)
    moreover have "1 < length ?zeros" using True sl(1) assms by simp
    moreover have "compress_hextets (map show_hex ks) = side (take s ks) @ [[]] @ side (drop (s + l) ks)"
      using True sl(1) assms by (auto simp: compress_hextets_def b take_map drop_map)
    ultimately show thesis by (rule that(2))
  qed
qed

lemma empty_inner_two:
  assumes "xs \<noteq> []" "ys \<noteq> []" "[] \<notin> set (tl xs)" "[] \<notin> set (butlast ys)"
  shows "empty_inner (xs @ [[]] @ ys) = [length xs]"
proof -
  let ?p = "xs @ [[]] @ ys"
  have "[1 ..< length ?p - 1] = [1 ..< length xs] @ length xs # [Suc (length xs) ..< length xs + length ys]"
    using assms(1, 2) upt_add_eq_append [of 1 "length xs" "length ys"] by (simp add: Suc_leI upt_conv_Cons)
  moreover have "?p ! i \<noteq> []" if "i \<in> set [1 ..< length xs]" for i
  proof -
    have "?p ! i = tl xs ! (i - 1)" using that assms(1) by (cases xs) (auto simp: nth_append nth_Cons')
    also have "\<dots> \<in> set (tl xs)" using that by (intro nth_mem) auto
    finally show ?thesis using assms(3) by metis
  qed
  moreover have "?p ! i \<noteq> []" if "i \<in> set [Suc (length xs) ..< length xs + length ys]" for i
  proof -
    have "?p ! i = ys ! (i - Suc (length xs))" using that by (auto simp: nth_append nth_Cons' Suc_diff_Suc)
    also have "\<dots> = butlast ys ! (i - Suc (length xs))" using that by (intro nth_butlast [symmetric]) auto
    also have "\<dots> \<in> set (butlast ys)" using that by (intro nth_mem) auto
    finally show ?thesis using assms(4) by metis
  qed
  ultimately show ?thesis by (simp add: empty_inner_def filter_False)
qed

lemma groups_ne: "[] \<notin> show_hex ` A"
  by (auto dest: sym)

lemma side_facts: "side ks \<noteq> []" "[] \<notin> set (tl (side ks))" "[] \<notin> set (butlast (side ks))"
    "hd (side ks) = [] \<longleftrightarrow> ks = []" "last (side ks) = [] \<longleftrightarrow> ks = []" "length (side ks) = max 1 (length ks)"
proof -
  show "[] \<notin> set (tl (side ks))" "[] \<notin> set (butlast (side ks))"
    using groups_ne [of "set ks"] in_set_butlastD [of "[]" "map show_hex ks"] list.set_sel(2) [of "map show_hex ks" "[]"]
    by (cases "ks = []"; force)+
qed (auto simp: hd_map last_map max_def Suc_leI)

lemma parts_value:
  assumes "\<forall>k \<in> set pre. k < 65536" "\<forall>k \<in> set post. k < 65536" "length pre + length post \<le> 6"
  shows "ipv6_of_parts (side pre @ [[]] @ side post)
     = Some (hex_value (hex_value 0 pre * 65536 ^ (8 - (length pre + length post))) post)"
proof -
  let ?xs = "side pre" and ?ys = "side post"
  let ?p = "?xs @ [[]] @ ?ys"
  note f = side_facts(1) [of pre] side_facts(1) [of post]
  have e: "empty_inner ?p = [length ?xs]" by (rule empty_inner_two [OF f side_facts(2, 3)])
  have ends: "hd ?p = [] \<longleftrightarrow> pre = []" "last ?p = [] \<longleftrightarrow> post = []"
    using side_facts(4) [of pre] side_facts(5) [of post] f by simp_all
  have len: "length ?p = Suc (max 1 (length pre) + max 1 (length post))" by (simp add: side_facts(6) del: length_map)
  have small: "\<not> 9 < length ?p" using assms(3) unfolding len by (simp add: max_def)
  have hi: "(if hd ?p = [] then length ?xs - 1 else length ?xs) = length pre" using ends(1) by simp
  have lo: "(if last ?p = [] then length ?p - length ?xs - 1 - 1 else length ?p - length ?xs - 1) = length post"
    using ends(2) by simp
  have pre: "take (length pre) ?p = map show_hex pre" by simp
  have post: "drop (length ?p - length post) ?p = map show_hex post" by simp
  show ?thesis
    unfolding ipv6_of_parts_def e Let_def list.case hi lo pre post
    using small ends assms by (simp add: parse_hextets_show del: length_append)
qed

section \<open>Addresses\<close>

lemma join_chars: "c \<in> set (join sep ps) \<Longrightarrow> c \<in> set sep \<or> (\<exists>p \<in> set ps. c \<in> set p)"
  by (induction sep ps rule: join.induct) auto

lemma ipv6_of_string_parts:
  assumes parts: "\<forall>p \<in> set ps. p = [] \<or> (\<exists>k. p = show_hex k)" and len: "3 \<le> length ps"
  shows "ipv6_of_string (join '':'' ps) = ipv6_of_parts ps"
proof -
  have sep: "c \<in> {CHR '':'', CHR ''.'', CHR ''%''} \<Longrightarrow> p \<in> set ps \<Longrightarrow> c \<notin> set p" for c p
  proof -
    assume c: "c \<in> {CHR '':'', CHR ''.'', CHR ''%''}" and "p \<in> set ps"
    then have "p = [] \<or> (\<exists>k. p = show_hex k)" using parts by blast
    then show "c \<notin> set p" using show_hex_sep [of c] c by auto
  qed
  have "ps \<noteq> []" using len by auto
  then have "split_on (CHR '':'') (join '':'' ps) = ps" using sep by (intro split_on_join) auto
  moreover have "CHR ''%'' \<notin> set (join '':'' ps)" using join_chars [of "CHR ''%''" "'':''" ps] sep by auto
  moreover have "ipv4_suffix ps = Some ps" using sep [of "CHR ''.''" "last ps"] \<open>ps \<noteq> []\<close> by (simp add: ipv4_suffix_def)
  ultimately show ?thesis using len by (simp add: ipv6_of_string_def)
qed

lemma ipv6_round_trip:
  assumes "0 \<le> n" "n < 2 ^ 128"
  shows "ipv6_of_string (ipv6_str n) = Some n"
proof -
  let ?ks = "groups n"
  note g = groups_facts [of n] groups_value [OF assms]
  from compress_groups [OF g(2)] show ?thesis
  proof cases
    case 1
    have "empty_inner (map show_hex ?ks) = []" using g(2) by (auto simp: empty_inner_def filter_empty_conv)
    then have "ipv6_of_parts (map show_hex ?ks) = parse_hextets 0 (map show_hex ?ks)"
      using g(2) by (cases ?ks) (auto simp: ipv6_of_parts_def hd_map last_map)
    then show ?thesis
      using g(2-4) ipv6_of_string_parts [of "map show_hex ?ks"]
      by (auto simp: ipv6_str_def g(1) 1 parse_hextets_show)
  next
    case (2 pre zeros post)
    let ?p = "side pre @ [[]] @ side post"
    have len: "length pre + length post + length zeros = 8" using 2(1) g(2) by (metis add.assoc add.commute length_append)
    have "hex_value (hex_value 0 pre * 65536 ^ (8 - (length pre + length post))) post = hex_value 0 ?ks"
      using 2(1, 2) len by (simp add: hex_value_append hex_value_zeros flip: len)
    then have "ipv6_of_parts ?p = Some n"
      using 2(1, 3) g(3, 4) len by (subst parts_value) auto
    moreover have "ipv6_of_string (join '':'' ?p) = ipv6_of_parts ?p"
      by (rule ipv6_of_string_parts) (cases pre; cases post; auto)+
    ultimately show ?thesis by (simp add: ipv6_str_def g(1) 2(4))
  qed
qed

lemma compressed_part: "p \<in> set (compress_hextets (hextets n)) \<Longrightarrow> p = [] \<or> (\<exists>k. p = show_hex k)"
  by (rule compress_groups [OF groups_facts(2) [of n]]) (auto simp: groups_facts(1) split: if_splits)

lemma ipv6_not_ipv4: "ipv4_of_string (ipv6_str n) = None"
proof -
  have "CHR ''.'' \<notin> set (ipv6_str n)"
  proof
    assume "CHR ''.'' \<in> set (ipv6_str n)"
    then obtain p where "p \<in> set (compress_hextets (hextets n))" "CHR ''.'' \<in> set p"
      using join_chars [of "CHR ''.''" "'':''" "compress_hextets (hextets n)"] by (auto simp: ipv6_str_def)
    then show False using compressed_part show_hex_sep [of "CHR ''.''"] by fastforce
  qed
  then show ?thesis by (simp add: ipv4_of_string_def split_on_none split: option.splits)
qed

text \<open>Every valid address reads back from its text.\<close>

theorem address_round_trip:
  assumes "ip_valid a"
  shows "parse_ip (ip_str a) = Some a"
  using assms ipv6_not_ipv4
  by (cases a) (simp_all add: parse_ip_def ip_valid_def max_prefixlen_def ipv4_round_trip ipv6_round_trip)

section \<open>What parses is valid\<close>

lemma hex_val_small: "hex_val c = Some d \<Longrightarrow> d < 16"
  by (auto simp: hex_val_def Let_def split: if_splits)

lemma parse_hextet_acc_bound:
  "parse_hextet_acc n s = Some k \<Longrightarrow> 0 \<le> n \<Longrightarrow> 0 \<le> k \<and> k < (n + 1) * 16 ^ length s"
proof (induction n s rule: parse_hextet_acc.induct)
  case (2 n c cs)
  then obtain d where d: "hex_val c = Some d" "parse_hextet_acc (16 * n + int d) cs = Some k"
    by (auto split: option.splits)
  then have k: "0 \<le> k" "k < (16 * n + int d + 1) * 16 ^ length cs" using 2 by simp_all
  have "(16 * n + int d + 1) * 16 ^ length cs \<le> (16 * n + 16) * 16 ^ length cs"
    using hex_val_small [OF d(1)] by (intro mult_right_mono) auto
  with k have "k < (16 * n + 16) * 16 ^ length cs" by linarith
  with k(1) show ?case by (simp add: algebra_simps)
qed simp

lemma parse_hextet_bound: "parse_hextet s = Some k \<Longrightarrow> 0 \<le> k \<and> k < 65536"
proof -
  assume "parse_hextet s = Some k"
  then have k: "parse_hextet_acc 0 s = Some k" "length s \<le> 4" by (auto simp: parse_hextet_def split: if_splits)
  have "(16 :: int) ^ length s \<le> 16 ^ 4" using k(2) by (intro power_increasing) auto
  then show ?thesis using parse_hextet_acc_bound [OF k(1)] by simp
qed

lemma parse_hextets_bound:
  "parse_hextets n ps = Some k \<Longrightarrow> 0 \<le> n \<Longrightarrow> 0 \<le> k \<and> k < (n + 1) * 65536 ^ length ps"
proof (induction n ps rule: parse_hextets.induct)
  case (2 n p ps)
  then obtain h where h: "parse_hextet p = Some h" "parse_hextets (65536 * n + h) ps = Some k"
    by (auto split: option.splits)
  note b = parse_hextet_bound [OF h(1)]
  then have k: "0 \<le> k" "k < (65536 * n + h + 1) * 65536 ^ length ps" using 2 h by simp_all
  have "(65536 * n + h + 1) * 65536 ^ length ps \<le> (65536 * n + 65536) * 65536 ^ length ps"
    using b by (intro mult_right_mono) auto
  with k have "k < (65536 * n + 65536) * 65536 ^ length ps" by linarith
  with k(1) show ?case by (simp add: algebra_simps)
qed simp

lemma hextets_two_bound:
  assumes "parse_hextets 0 xs = Some n" "parse_hextets (n * 65536 ^ (8 - (hi + lo))) ys = Some k"
    and "length xs \<le> hi" "length ys \<le> lo" "hi + lo \<le> 7"
  shows "0 \<le> k \<and> k < 65536 ^ 8"
proof -
  let ?m = "(65536 :: int) ^ (8 - (hi + lo))"
  have n: "0 \<le> n" "n < 65536 ^ length xs" using parse_hextets_bound [OF assms(1)] by simp_all
  have "(65536 :: int) ^ length xs \<le> 65536 ^ hi" using assms(3) by (intro power_increasing) auto
  with n have "n + 1 \<le> 65536 ^ hi" by linarith
  then have "(n + 1) * ?m \<le> 65536 ^ hi * ?m" by (intro mult_right_mono) auto
  moreover have "(n + 1) * ?m = n * ?m + ?m" "1 \<le> ?m" by (simp add: algebra_simps, simp)
  ultimately have first: "n * ?m + 1 \<le> 65536 ^ hi * ?m" by linarith
  have "0 \<le> n * ?m" using n by simp
  then have k: "0 \<le> k" "k < (n * ?m + 1) * 65536 ^ length ys" using parse_hextets_bound [OF assms(2)] by simp_all
  note k(2)
  also have "(n * ?m + 1) * 65536 ^ length ys \<le> (65536 ^ hi * ?m) * 65536 ^ lo"
    using first assms(4) \<open>0 \<le> n * ?m\<close> by (intro mult_mono power_increasing) auto
  also have "\<dots> = 65536 ^ (hi + (8 - (hi + lo)) + lo)" by (simp add: power_add)
  also have "hi + (8 - (hi + lo)) + lo = 8" using assms(5) by simp
  finally show ?thesis using k(1) by simp
qed

lemma ipv6_of_parts_bound:
  assumes "ipv6_of_parts ps = Some k"
  shows "0 \<le> k \<and> k < 2 ^ 128"
proof -
  consider "parse_hextets 0 ps = Some k" "length ps = 8"
    | n hi lo where "parse_hextets 0 (take hi ps) = Some n"
        "parse_hextets (n * 65536 ^ (8 - (hi + lo))) (drop (length ps - lo) ps) = Some k" "hi + lo \<le> 7"
    using assms unfolding ipv6_of_parts_def Let_def
    by (simp only: not_less split: if_splits list.splits option.splits) (blast | simp)+
  then show ?thesis
  proof cases
    case 1
    then show ?thesis using parse_hextets_bound [OF 1(1)] by simp
  next
    case 2
    then show ?thesis using hextets_two_bound [OF 2(1, 2) _ _ 2(3)] by simp
  qed
qed

lemma ipv4_of_string_bound: "ipv4_of_string s = Some n \<Longrightarrow> 0 \<le> n \<and> n < 2 ^ 32"
proof -
  assume "ipv4_of_string s = Some n"
  then obtain a b c d where m: "map parse_octet (split_on (CHR ''.'') s) = [Some a, Some b, Some c, Some d]"
      "n = int a * 16777216 + int b * 65536 + int c * 256 + int d"
    by (auto simp: ipv4_of_string_def split: list.splits option.splits)
  have "x \<le> 255" if "Some x \<in> set (map parse_octet (split_on (CHR ''.'') s))" for x
    using that by (auto simp: parse_octet_def split: if_splits)
  then have "a \<le> 255" "b \<le> 255" "c \<le> 255" "d \<le> 255" unfolding m(1) by simp_all
  then show ?thesis using m(2) by simp
qed

lemma parse_ip_valid: "parse_ip s = Some a \<Longrightarrow> ip_valid a"
  by (auto simp: parse_ip_def ip_valid_def max_prefixlen_def ipv6_of_string_def Let_def
      dest: ipv4_of_string_bound ipv6_of_parts_bound split: option.splits if_splits)

section \<open>Interfaces\<close>

lemma no_slash: "CHR ''/'' \<notin> set (ip_str a)"
proof
  assume "CHR ''/'' \<in> set (ip_str a)"
  have nat: "CHR ''/'' \<notin> set (show_nat k)" for k
    using show_nat_is_digit [of k] by (auto simp: list_all_iff is_digit_def)
  show False
  proof (cases a)
    case (IPv4 n)
    then show ?thesis using \<open>CHR ''/'' \<in> set (ip_str a)\<close> nat
      join_chars [of "CHR ''/''" "''.''"] by (fastforce simp: ipv4_str_def)
  next
    case (IPv6 n)
    then obtain p where "p \<in> set (compress_hextets (hextets n))" "CHR ''/'' \<in> set p"
      using \<open>CHR ''/'' \<in> set (ip_str a)\<close> join_chars [of "CHR ''/''" "'':''"] by (fastforce simp: ipv6_str_def)
    then show ?thesis using compressed_part [of p n] show_hex_sep [of "CHR ''/''"] by fastforce
  qed
qed

lemma interface_parts:
  assumes "CHR ''/'' \<notin> set s" "parse_ip s = Some a" "n \<le> max_prefixlen (ip_version a)"
  shows "ip_interface (s @ ''/'' @ show_nat n) = Some (a, n)"
proof -
  have nat: "CHR ''/'' \<notin> set (show_nat n)"
    using show_nat_is_digit [of n] by (auto simp: list_all_iff is_digit_def)
  have "split_on (CHR ''/'') (s @ ''/'' @ show_nat n) = [s, show_nat n]"
    using assms(1) nat by (simp add: split_on_append split_on_none)
  moreover have "prefix_from_string (max_prefixlen (ip_version a)) (show_nat n) = Some n"
    using assms(3) show_nat_hd [of n] by (auto simp: prefix_from_string_def show_nat_is_digit parse_dec_show_nat)
  ultimately show ?thesis using assms(2) by (simp add: ip_interface_def make_netmask_def)
qed

theorem interface_round_trip:
  assumes "ip_valid a" "n \<le> max_prefixlen (ip_version a)"
  shows "ip_interface (ip_interface_str (a, n)) = Some (a, n)"
  using interface_parts [OF no_slash address_round_trip [OF assms(1)] assms(2)] by (simp add: ip_interface_str_def)

end
