(* ===== verification/Demo_Topology.thy ===== *)
theory Demo_Topology
  imports Logical_Topology
begin

text \<open>
  A small topology intent for the witnesses: one device and one traffic generator, and three peers in
  two device groups of one partition family. The first group has two children, and both groups
  advertise their part of a prefix set.
\<close>

definition demo_attributes :: RouteAttributePool where
  "demo_attributes = \<lparr>community_rows = [[(1, 1)], [(1, 2)]], extended_community_rows = [], as_paths = [[65001], [65002], [65003]]\<rparr>"

definition demo_intent_advertisement :: "int \<Rightarrow> int \<Rightarrow> PrefixAdvertisement" where
  "demo_intent_advertisement start peers =
     \<lparr>adv_name = ''routes'', adv_prefix_set = ''ps'',
      adv_allocation = \<lparr>prefixes_per_peer = 2, peer_distribution = DISJOINT, network_group_index = 0, route_scale_mode = WINDOWED\<rparr>,
      adv_membership = \<lparr>start_index = start * 2, member_count = peers * 2\<rparr>,
      adv_next_hop = \<lparr>NextHopIntent.nh_mode = FORMULAIC, NextHopIntent.nh_distribution = Some PER_PEER,
        nh_formulaic_source = Some \<lparr>nhs_start = ''0.0.2.0'', nhs_step = StepInt 1, nhs_parent = ''0.0.2.0/24''\<rparr>,
        nh_explicit_source = None, nh_description = Some ''external'', nh_realization = None\<rparr>,
      adv_route_attributes = Some demo_attributes, adv_activation = None, adv_policy = None, adv_attributes = [],
      adv_legacy_ixia_name = None, adv_requires_route_mutation = False\<rparr>"

definition demo_child :: "string \<Rightarrow> int \<Rightarrow> IxiaDeviceGroupChild" where
  "demo_child n i = \<lparr>ic_name = n, ic_ordinal = i, ic_start_index = i, ic_peer_count = 1, ic_legacy_device_group_name = None,
     ic_legacy_bgp_peer_name = None, ic_legacy_device_group_index = None, ic_legacy_prefix_pool_name = None\<rparr>"

definition demo_intent_group ::
    "string \<Rightarrow> int \<Rightarrow> int \<Rightarrow> int \<Rightarrow> int option \<Rightarrow> IxiaDeviceGroupChild list \<Rightarrow> DeviceGroupSpec" where
  "demo_intent_group n ordinal start peers index children =
     \<lparr>sp_name = n, sp_role = ''uplink'', sp_afi = ''v4'', sp_peer_count = peers, sp_a_endpoint = ''dut'', sp_z_endpoint = ''ixia'',
      sp_address_plan = \<lparr>ap_afi = ''v4'', ap_a_ips = [], ap_z_ips = [], ap_parent_network_key = None,
        ap_parent_network = Some ''0.0.0.0/24'', ap_a_offset = None, ap_z_offset = None, ap_stride = StepInt 2,
        ap_increment = None, ap_mask = None, ap_prefix_length = None, ap_start_index = start, ap_auto_allocate = False\<rparr>,
      sp_peer_group = None, sp_prefix_pools = [], sp_prefix_advertisements = [demo_intent_advertisement start peers],
      sp_traffic_flows = [], sp_routing_driver = None, sp_legacy_ixia_tag_name = None, sp_legacy_ixia_bgp_peer_name = None,
      sp_legacy_ixia_device_group_name = None, sp_routing_device_config = None,
      sp_port_assignment = Some \<lparr>ipa_logical_role = ''uplink'', ipa_reuse_group = Some ''shared'',
        ipa_endpoint_label_style = DUT_INTERFACE\<rparr>,
      sp_partition = Some \<lparr>dgp_family = ''peers'', dgp_ordinal = ordinal, dgp_start_index = start, dgp_total_peer_count = 3\<rparr>,
      sp_legacy_ixia_device_group_index = index, sp_route_attributes = None, sp_ixia_children = children,
      sp_dut_neighbor_absent = False, sp_peer_relationship = None, sp_slow_peer = None\<rparr>"

definition demo_groups :: "DeviceGroupSpec list" where
  "demo_groups = [demo_intent_group ''dg_a'' 0 0 2 None [demo_child ''c0'' 0, demo_child ''c1'' 1],
     demo_intent_group ''dg_b'' 1 2 1 (Some 7) []]"

definition demo_intent :: LogicalTopology where
  "demo_intent = \<lparr>lt_name = ''demo'',
     lt_endpoints = [\<lparr>es_name = ''dut'', es_role = ''dut'', es_kind = ''dut'', es_required_os = Some ''eos'', es_setup_mode = ''full''\<rparr>,
       \<lparr>es_name = ''ixia'', es_role = ''ixia'', es_kind = ''ixia'', es_required_os = None, es_setup_mode = ''full''\<rparr>],
     lt_device_groups = demo_groups, lt_device_config = default_device_config, lt_peer_groups = [], lt_policy_names = [],
     lt_prefix_pools = [],
     lt_prefix_sets = [\<lparr>ps_name = ''ps'', ps_afi = ''v4'', ps_source = \<lparr>start_prefix = ''0.0.1.0'', prefix_step = StepInt 1,
       prefix_length = 32, prefix_count = 6, parent_network = ''0.0.1.0/24'', excluded_indices = [1, 3]\<rparr>\<rparr>],
     lt_traffic_flows = [], lt_legacy_profile = None, lt_task_compatibility_profile = None, lt_route_senders = []\<rparr>"

end
