(* ===== verification/Intent_Facts.thy ===== *)
theory Intent_Facts
  imports Intent_Validation Address_Text Demo_Topology
begin

text \<open>
  What a topology without issues promises to the code that resolves it: its prefix formulas and
  next hops can be evaluated and stay inside their parent networks, the children of a group and
  the members of a partition family split the peers into adjacent windows, and its references
  resolve.
\<close>

section \<open>Addresses\<close>

lemma parse_ip_nonneg: "parse_ip s = Some a \<Longrightarrow> 0 \<le> ip_int a"
  using parse_ip_valid by (auto simp: ip_valid_def)

lemma ip_address_Inr: "ip_address s = Inr a \<longleftrightarrow> parse_ip s = Some a"
  by (simp add: ip_address_def split: option.splits)

lemma parse_ip_afi_Some:
  "parse_ip_afi s afi = Some a \<longleftrightarrow> parse_ip s = Some a \<and> \<not> wrong_version afi (ip_version a)"
  by (auto simp: parse_ip_afi_def split: option.splits if_splits)

lemma parse_network_Some:
  "parse_network s afi = Some n \<longleftrightarrow> ip_interface s = Some n \<and> \<not> wrong_version afi (ip_version (fst n))"
  by (auto simp: parse_network_def split: option.splits if_splits)

text \<open>The version an address family stands for, and the width of its addresses.\<close>

definition afi_version :: "string \<Rightarrow> int" where
  "afi_version afi = (if afi = ''v4'' then 4 else 6)"

lemma right_version:
  "afi \<in> set VALID_AFIS \<Longrightarrow> \<not> wrong_version afi v \<Longrightarrow> v = 4 \<or> v = 6 \<Longrightarrow> v = afi_version afi"
  by (auto simp: VALID_AFIS_def wrong_version_def afi_version_def)

lemma in_network_convex:
  assumes "in_network a n" "in_network b n" "ip_version x = ip_version a" "ip_int a \<le> ip_int x" "ip_int x \<le> ip_int b"
  shows "in_network x n"
proof -
  define w :: int where "w = 2 ^ (max_prefixlen (ip_version (fst n)) - snd n)"
  have "0 < w" by (simp add: w_def)
  have v: "ip_version b = ip_version a" "ip_version a = ip_version (fst n)"
    using assms(1, 2) by (simp_all add: in_network_def)
  have ends: "ip_int a div w = ip_int (fst n) div w" "ip_int b div w = ip_int (fst n) div w"
    using assms(1, 2) by (auto simp: in_network_def w_def Let_def)
  have "ip_int a div w \<le> ip_int x div w" "ip_int x div w \<le> ip_int b div w"
    using assms(4, 5) \<open>0 < w\<close> by (simp_all add: zdiv_mono1)
  with ends have "ip_int x div w = ip_int (fst n) div w" by linarith
  then show ?thesis using assms(3) v by (simp add: in_network_def w_def Let_def)
qed

text \<open>
  An arithmetic progression whose first and last addresses are in a network is in it throughout.
\<close>

lemma progression_inside:
  assumes "in_network start n" "in_network (ip_address_of_int m) n" "m < 2 ^ max_prefixlen (ip_version start)"
    and "0 \<le> ip_int start" "0 \<le> k" "ip_int start + k * step \<le> m" "0 < step"
  shows "\<exists>a. ip_of_int (ip_version start) (ip_int start + k * step) = Inr a \<and> in_network a n
     \<and> ip_int a = ip_int start + k * step \<and> ip_version a = ip_version start"
proof -
  let ?x = "ip_int start + k * step"
  let ?a = "if ip_version start = 4 then IPv4 ?x else IPv6 ?x"
  have "0 \<le> k * step" using assms(5, 7) by simp
  then have nonneg: "ip_int start \<le> ?x" by simp
  have m: "ip_int (ip_address_of_int m) = m" by (simp add: ip_address_of_int_def)
  have v: "ip_version ?a = ip_version start" "ip_int ?a = ?x" using ip_version_cases [of start] by auto
  have "in_network ?a n"
    using in_network_convex [OF assms(1, 2) v(1)] v(2) nonneg assms(6) m by simp
  moreover have "ip_of_int (ip_version start) ?x = Inr ?a"
    using nonneg assms(3, 4, 6) by (auto simp: ip_of_int_def)
  ultimately show ?thesis using v by metis
qed

section \<open>Prefix sets\<close>

lemma validated_span:
  assumes "validated_prefix_span s = Some e"
  shows "e = prefix_count s + int (length (excluded_indices s))"
    and "exclusions_valid (prefix_count s) (excluded_indices s)"
proof -
  show e: "e = prefix_count s + int (length (excluded_indices s))"
    using assms by (auto simp: validated_prefix_span_def Let_def split: if_splits)
  have "sorted_list_of_set (set (excluded_indices s)) = excluded_indices s"
    using assms by (auto simp: validated_prefix_span_def Let_def split: if_splits)
  then have "sorted_wrt (<) (excluded_indices s)"
    by (metis strict_sorted_list_of_set)
  then show "exclusions_valid (prefix_count s) (excluded_indices s)"
    using assms e unfolding exclusions_valid_def adjacent_sorted
    by (auto simp: validated_prefix_span_def list_all_iff list_ex_iff Let_def split: if_splits)
qed

lemma positive_step:
  assumes "parse_positive_ip_step v afi = Some k" "afi \<in> set VALID_AFIS"
  shows "0 < k \<and> step_as_int v (afi_version afi) = Inr k"
proof (cases v)
  case (StepStr s)
  then obtain a where a: "parse_ip s = Some a" "\<not> wrong_version afi (ip_version a)" "ip_int a = k" "0 < k"
    using assms(1) by (auto simp: parse_positive_ip_step_def parse_ip_afi_Some split: option.splits if_splits)
  then show ?thesis
    using StepStr right_version [OF assms(2) a(2) ip_version_cases] by (auto simp: ip_address_Inr [THEN iffD2])
qed (use assms(1) in \<open>auto simp: parse_positive_ip_step_def split: if_splits\<close>)

text \<open>What the checks of a prefix set establish.\<close>

lemma validated_prefix_setE:
  assumes "validate_prefix_set p ps = []"
  obtains start parent step e where
    "ps_afi ps \<in> set VALID_AFIS" "0 < prefix_count (ps_source ps)" "0 \<le> prefix_length (ps_source ps)"
    "prefix_length (ps_source ps) \<le> int (max_prefixlen (afi_version (ps_afi ps)))"
    "parse_ip_afi (start_prefix (ps_source ps)) (ps_afi ps) = Some start"
    "parse_network (parent_network (ps_source ps)) (ps_afi ps) = Some parent"
    "parse_positive_ip_step (prefix_step (ps_source ps)) (ps_afi ps) = Some step"
    "validated_prefix_span (ps_source ps) = Some e"
    "validate_prefix_formula p (prefix_length (ps_source ps)) e start parent step = []"
  using assms
  by (auto simp: validate_prefix_set_def Let_def afi_version_def max_prefixlen_def VALID_AFIS_def
      split: if_splits option.splits)

text \<open>
  A prefix set without issues is resolvable: its sequence can be made, and each item is the text of
  an address of its family, inside the parent network and aligned to the prefix length.
\<close>

theorem validated_prefixes_resolve:
  assumes "validate_prefix_set p ps = []"
  shows "\<exists>s parent. mk_FormulaicPrefixSequence (ps_source ps) = Inr s
     \<and> ip_interface (parent_network (ps_source ps)) = Some parent
     \<and> fps_len s = prefix_count (ps_source ps)
     \<and> (\<forall>i. 0 \<le> i \<and> i < fps_len s \<longrightarrow>
          (\<exists>a. fps_getitem s i = Inr (ip_str a) \<and> in_network a parent \<and> ip_version a = afi_version (ps_afi ps)
             \<and> ip_int a mod 2 ^ (max_prefixlen (ip_version a) - nat (prefix_length (ps_source ps))) = 0))"
proof -
  let ?s = "ps_source ps" and ?afi = "ps_afi ps"
  from validated_prefix_setE [OF assms] obtain start parent step e where v:
    "?afi \<in> set VALID_AFIS" "0 < prefix_count ?s"
    "parse_ip_afi (start_prefix ?s) ?afi = Some start" "parse_network (parent_network ?s) ?afi = Some parent"
    "parse_positive_ip_step (prefix_step ?s) ?afi = Some step" "validated_prefix_span ?s = Some e"
    "validate_prefix_formula p (prefix_length ?s) e start parent step = []" by metis
  note span = validated_span [OF v(6)]
  have start: "parse_ip (start_prefix ?s) = Some start" "ip_version start = afi_version ?afi"
    using v(1, 3) right_version [OF v(1) _ ip_version_cases] by (auto simp: parse_ip_afi_Some)
  have step: "0 < step" "step_as_int (prefix_step ?s) (ip_version start) = Inr step"
    using positive_step [OF v(5, 1)] start(2) by simp_all
  define s where "s = \<lparr>fps_source = ?s, fps_start = start, fps_step = step,
      fps_excluded = excluded_logical_indices (excluded_indices ?s)\<rparr>"
  have mk: "mk_FormulaicPrefixSequence ?s = Inr s"
    using v(2) span(2) start(1) step(2) by (simp add: mk_FormulaicPrefixSequence_def s_def ip_address_def)
  define b :: int where "b = 2 ^ (max_prefixlen (ip_version start) - nat (prefix_length ?s))"
  have formula: "ip_int start mod b = 0" "step mod b = 0"
    "ip_int start + step * (e - 1) < 2 ^ max_prefixlen (ip_version start)"
    "in_network start parent" "in_network (ip_address_of_int (ip_int start + step * (e - 1))) parent"
    using v(7) by (auto simp: validate_prefix_formula_def b_def Let_def split: if_splits)
  have item: "\<exists>a. fps_getitem s i = Inr (ip_str a) \<and> in_network a parent \<and> ip_version a = afi_version ?afi
             \<and> ip_int a mod 2 ^ (max_prefixlen (ip_version a) - nat (prefix_length ?s)) = 0"
    if i: "0 \<le> i" "i < prefix_count ?s" for i
  proof -
    define c where "c = candidate_index s i"
    have c: "0 \<le> c" "c \<le> e - 1"
      using candidate_bounds [OF span(2) i] span(1) by (auto simp: c_def candidate_index_def s_def)
    have "c * step \<le> step * (e - 1)" using c(2) step(1) by (simp add: mult.commute)
    then obtain a where a: "ip_of_int (ip_version start) (ip_int start + c * step) = Inr a" "in_network a parent"
        "ip_int a = ip_int start + c * step" "ip_version a = ip_version start"
      using progression_inside [OF formula(4, 5, 3) parse_ip_nonneg [OF start(1)] c(1) _ step(1)] by auto
    have "ip_int a mod b = 0" using formula(1, 2) a(3) by (simp add: mod_add_eq [symmetric] mod_mult_right_eq [symmetric])
    moreover have "fps_getitem s i = Inr (ip_str a)"
      using a(1) i by (simp add: fps_len_def s_def seq_getitem_inside fps_item_def c_def)
    ultimately show ?thesis using a(2, 4) start(2) by (auto simp: b_def)
  qed
  have "fps_len s = prefix_count ?s" by (simp add: fps_len_def s_def)
  then show ?thesis using mk item v(4) by (auto simp: parse_network_Some)
qed

section \<open>Adjacent windows\<close>

text \<open>The windows, each a start and a length, follow one another from \<open>a\<close> to \<open>b\<close>.\<close>

fun tiles :: "int \<Rightarrow> (int \<times> int) list \<Rightarrow> int \<Rightarrow> bool" where
  "tiles a [] b \<longleftrightarrow> a = b"
| "tiles a (w # ws) b \<longleftrightarrow> fst w = a \<and> 0 < snd w \<and> tiles (a + snd w) ws b"

definition in_window :: "int \<Rightarrow> int \<times> int \<Rightarrow> bool" where
  "in_window k w \<longleftrightarrow> fst w \<le> k \<and> k < fst w + snd w"

lemma tiles_start: "tiles a ws b \<Longrightarrow> w \<in> set ws \<Longrightarrow> a \<le> fst w"
  by (induction a ws b rule: tiles.induct) force+

lemma tiles_unique: "tiles a ws b \<Longrightarrow> a \<le> k \<Longrightarrow> k < b \<Longrightarrow> \<exists>!i. i < length ws \<and> in_window k (ws ! i)"
proof (induction a ws b rule: tiles.induct)
  case (2 a w ws b)
  then have t: "fst w = a" "tiles (a + snd w) ws b" by auto
  have later: "k < a + snd w \<Longrightarrow> i < length ws \<Longrightarrow> \<not> in_window k (ws ! i)" for i
    using tiles_start [OF t(2) nth_mem, of i] by (simp add: in_window_def)
  show ?case
  proof (cases "k < a + snd w")
    case True
    show ?thesis
    proof (rule ex1I [of _ 0])
      fix i
      assume "i < length (w # ws) \<and> in_window k ((w # ws) ! i)"
      then show "i = 0" using later [OF True, of "i - 1"] by (cases i) auto
    qed (use True 2 t(1) in \<open>simp add: in_window_def\<close>)
  next
    case False
    then obtain i where i: "i < length ws" "in_window k (ws ! i)"
        "\<And>j. j < length ws \<and> in_window k (ws ! j) \<Longrightarrow> j = i"
      using "2.IH" [OF t(2)] 2 by auto
    show ?thesis
    proof (rule ex1I [of _ "Suc i"])
      fix j
      assume j: "j < length (w # ws) \<and> in_window k ((w # ws) ! j)"
      then show "j = Suc i" using i(3) [of "j - 1"] False t(1) by (cases j) (auto simp: in_window_def)
    qed (use i(1, 2) in simp)
  qed
qed simp

section \<open>Children\<close>

abbreviation ic_window :: "IxiaDeviceGroupChild \<Rightarrow> int \<times> int" where
  "ic_window c \<equiv> (ic_start_index c, ic_peer_count c)"

lemma ic_windows_tile:
  "validate_child_windows p g i a cs = ([], b) \<Longrightarrow>
     tiles a (map ic_window cs) b \<and> (\<forall>j < length cs. ic_ordinal (cs ! j) = int (i + j))"
proof (induction p g i a cs arbitrary: b rule: validate_child_windows.induct)
  case (2 p g i a c cs)
  define q where "q = item_path (p @ ''.ixia_children'') i"
  obtain ws a' where w: "validate_ixia_child_window q c (int i) a = (ws, a')" by fastforce
  obtain rest b' where r: "validate_child_windows p g (Suc i) a' cs = (rest, b')" by fastforce
  have ok: "validate_ixia_child_metadata q c g = []" "ws = []" "rest = []" "b' = b"
    using "2.prems" w r by (simp_all add: q_def [symmetric] Let_def)
  have c: "0 \<le> ic_start_index c" "0 < ic_peer_count c"
    using ok(1) by (simp_all add: validate_ixia_child_metadata_def)
  have here: "ic_ordinal c = int i" "ic_start_index c = a" "a' = a + ic_peer_count c"
    using w ok(2) c by (auto simp: validate_ixia_child_window_def split: if_splits)
  have "tiles a' (map ic_window cs) b \<and> (\<forall>j < length cs. ic_ordinal (cs ! j) = int (Suc i + j))"
    using "2.IH" [OF q_def w [symmetric] refl] r ok by simp
  then show ?case using here c by (auto simp: nth_Cons split: nat.splits)
qed simp

lemma children_tile:
  assumes "validate_ixia_children p g endpoints = []" "sp_ixia_children g \<noteq> []"
  shows "tiles 0 (map ic_window (sp_ixia_children g)) (sp_peer_count g)"
    and "\<forall>j < length (sp_ixia_children g). ic_ordinal (sp_ixia_children g ! j) = int j"
proof -
  obtain ws b where w: "validate_child_windows p g 0 0 (sp_ixia_children g) = (ws, b)" by fastforce
  then have "ws = []" "b = sp_peer_count g"
    using assms by (simp_all add: validate_ixia_children_def)
  then show "tiles 0 (map ic_window (sp_ixia_children g)) (sp_peer_count g)"
    and "\<forall>j < length (sp_ixia_children g). ic_ordinal (sp_ixia_children g ! j) = int j"
    using ic_windows_tile [of p g 0 0] w by auto
qed

section \<open>Families\<close>

definition family_items :: "DeviceGroupSpec list \<Rightarrow> (string \<times> family_entry) list" where
  "family_items gs =
     concat (map (\<lambda>(i, g). case sp_partition g of
                      None \<Rightarrow> [] | Some x \<Rightarrow> if dgp_family x = [] then [] else [(dgp_family x, i, g, x)])
       (enumerate 0 gs))"

lemma partition_families_group: "partition_families gs = foldl dict.add [] (family_items gs)"
proof -
  have "foldl (\<lambda>d (i, g). case sp_partition g of
          None \<Rightarrow> d | Some x \<Rightarrow> if dgp_family x = [] then d else dict_append (dgp_family x) (i, g, x) d) d igs
      = foldl dict.add d (concat (map (\<lambda>(i, g). case sp_partition g of
          None \<Rightarrow> [] | Some x \<Rightarrow> if dgp_family x = [] then [] else [(dgp_family x, i, g, x)]) igs))" for d igs
    by (induction igs arbitrary: d) (auto simp: dict_add_append split: option.splits)
  then show ?thesis by (simp add: partition_families_def family_items_def)
qed

lemma family_items_member:
  "(f, i, g, x) \<in> set (family_items gs) \<longleftrightarrow>
     i < length gs \<and> g = gs ! i \<and> sp_partition g = Some x \<and> dgp_family x = f \<and> f \<noteq> []"
  by (force simp: family_items_def in_set_enumerate_eq split: option.splits if_splits)

lemma family_items_distinct: "distinct (map (fst \<circ> snd) (family_items gs))"
proof -
  have "map (fst \<circ> snd) (family_items gs)
      = map fst (filter (\<lambda>(i, g). \<exists>x. sp_partition g = Some x \<and> dgp_family x \<noteq> []) (enumerate 0 gs))"
  proof -
    have "map (fst \<circ> snd) (concat (map (\<lambda>(i, g). case sp_partition g of
          None \<Rightarrow> [] | Some x \<Rightarrow> if dgp_family x = [] then [] else [(dgp_family x, i, g, x)]) igs))
        = map fst (filter (\<lambda>(i, g). \<exists>x. sp_partition g = Some x \<and> dgp_family x \<noteq> []) igs)" for igs
      by (induction igs) (auto split: option.splits)
    then show ?thesis by (simp add: family_items_def)
  qed
  then show ?thesis by (simp add: distinct_map_filter)
qed

definition family_members :: "DeviceGroupSpec list \<Rightarrow> string \<Rightarrow> family_entry list" where
  "family_members gs f = map snd (filter (\<lambda>kv. fst kv = f) (family_items gs))"

lemma family_members_get:
  assumes "family_members gs f \<noteq> []"
  shows "(f, family_members gs f) \<in> set (partition_families gs)"
proof -
  have e: "dict.entry (partition_families gs) f = family_members gs f"
    unfolding partition_families_group dict.entry_group by (simp add: dict.entry_def family_members_def)
  then show ?thesis
    using assms by (auto simp: dict.entry_def split: option.splits dest: map_of_SomeD)
qed

lemma family_members_member:
  "(i, g, x) \<in> set (family_members gs f) \<longleftrightarrow>
     i < length gs \<and> g = gs ! i \<and> sp_partition g = Some x \<and> dgp_family x = f \<and> f \<noteq> []"
  using family_items_member [of f i g x gs] by (force simp: family_members_def)

lemma family_members_distinct: "distinct (map fst (family_members gs f))"
proof -
  have "map fst (family_members gs f) = map (fst \<circ> snd) (filter (\<lambda>kv. fst kv = f) (family_items gs))"
    by (simp add: family_members_def)
  then show ?thesis using family_items_distinct [of gs] by (simp add: distinct_map_filter del: map_map)
qed

abbreviation entry_window :: "family_entry \<Rightarrow> int \<times> int" where
  "entry_window e \<equiv> (dgp_start_index (snd (snd e)), sp_peer_count (fst (snd e)))"

lemma family_members_tile:
  "validate_family_members m h n a es = ([], b) \<Longrightarrow> \<forall>e \<in> set es. 0 < sp_peer_count (fst (snd e)) \<Longrightarrow>
     tiles a (map entry_window es) b"
  by (induction m h n a es arbitrary: b rule: validate_family_members.induct)
     (auto simp: Let_def split: prod.splits)

lemma family_tiles:
  assumes "validate_family es = []" "\<forall>e \<in> set es. 0 < sp_peer_count (fst (snd e))" "(i, g, x) \<in> set es"
  shows "tiles 0 (map entry_window (sort_key (\<lambda>(i, g, x). dgp_ordinal x) es)) (dgp_total_peer_count x)"
proof -
  let ?ordered = "sort_key (\<lambda>(i, g, x). dgp_ordinal x) es"
  have set: "set ?ordered = set es" by simp
  then obtain j h y rest where o: "?ordered = (j, h, y) # rest"
    using assms(3) by (cases ?ordered) auto
  obtain ws b where w: "validate_family_members j h 0 0 ?ordered = (ws, b)" by fastforce
  have "ws = []" "\<forall>(j, h, y) \<in> set ?ordered. dgp_total_peer_count y = b"
    using assms(1) w by (auto simp: validate_family_def o Let_def split: prod.splits)
  moreover have "(i, g, x) \<in> set ?ordered" using set assms(3) by simp
  ultimately have "ws = []" "dgp_total_peer_count x = b" by auto
  then show ?thesis using family_members_tile [of j h 0 0 ?ordered b] w assms(2) set by simp
qed

section \<open>Accepted topologies\<close>

text \<open>What validation establishes about one group of an accepted topology.\<close>

lemma accepted_group:
  assumes "collect_logical_topology_issues t = []" "g \<in> set (lt_device_groups t)"
  obtains p q names dgs pools where
    "validate_device_group names (named_dict es_name (lt_endpoints t)) dgs pools p g = []"
    "validate_prefix_advertisements (prefix_sets_by_name t) q g = []"
    "names = filter (\<lambda>n. n \<noteq> []) (map es_name (lt_endpoints t))"
proof -
  let ?names = "snd (check_unique_names ''endpoints'' ''duplicate_endpoint_name'' (map es_name (lt_endpoints t)))"
  have u: "fst (check_unique_names ''endpoints'' ''duplicate_endpoint_name'' (map es_name (lt_endpoints t))) = []"
    and v: "each (validate_device_group ?names (named_dict es_name (lt_endpoints t))
        (snd (check_unique_names ''device_groups'' ''duplicate_device_group_name'' (map sp_name (lt_device_groups t))))
        (prefix_pool_names t)) ''device_groups'' (lt_device_groups t) = []"
    and w: "each (validate_prefix_advertisements (prefix_sets_by_name t)) ''device_groups'' (lt_device_groups t) = []"
    using assms(1) by (simp_all add: collect_logical_topology_issues_def Let_def)
  from each_member [OF v assms(2)] each_member [OF w assms(2)] that unique_names_ok [OF u] show thesis by metis
qed

lemma accepted_groupE:
  assumes "collect_logical_topology_issues t = []" "g \<in> set (lt_device_groups t)"
  obtains p q dgs pools where
    "validate_device_group_basics p g = []"
    "validate_device_group_endpoints p g (filter (\<lambda>n. n \<noteq> []) (map es_name (lt_endpoints t))) (named_dict es_name (lt_endpoints t)) = []"
    "validate_device_group_port_assignment p g (named_dict es_name (lt_endpoints t)) = []"
    "validate_device_group_partition p g = []"
    "validate_ixia_children p g (named_dict es_name (lt_endpoints t)) = []"
    "validate_address_plan (sp_address_plan g) (p @ ''.address_plan'') (sp_peer_count g) (sp_afi g) = []"
    "validate_prefix_advertisements (prefix_sets_by_name t) q g = []"
proof (rule accepted_group [OF assms])
  fix p q names dgs pools
  assume v: "validate_device_group names (named_dict es_name (lt_endpoints t)) dgs pools p g = []"
    "validate_prefix_advertisements (prefix_sets_by_name t) q g = []"
    "names = filter (\<lambda>n. n \<noteq> []) (map es_name (lt_endpoints t))"
  note parts = v(1) [unfolded validate_device_group_def append_is_Nil_conv v(3)]
  show thesis by (rule that) (use parts v(2) in blast)+
qed

lemma accepted_partition:
  assumes "collect_logical_topology_issues t = []" "g \<in> set (lt_device_groups t)" "sp_partition g = Some x"
  shows "dgp_family x \<noteq> []"
proof -
  obtain p where "validate_device_group_partition p g = []" using accepted_groupE [OF assms(1, 2)] by metis
  then show ?thesis
    using assms(3) by (auto simp: validate_device_group_partition_def validate_partition_def validate_plain_name_def strip_def split: if_splits)
qed

lemma accepted_basics:
  assumes "collect_logical_topology_issues t = []" "g \<in> set (lt_device_groups t)"
  shows "0 < sp_peer_count g" "sp_afi g \<in> set VALID_AFIS" "sp_name g \<noteq> []"
proof -
  obtain p where "validate_device_group_basics p g = []" using accepted_groupE [OF assms] by metis
  then show "0 < sp_peer_count g" "sp_afi g \<in> set VALID_AFIS" "sp_name g \<noteq> []"
    by (auto simp: validate_device_group_basics_def split: if_splits)
qed

lemma accepted_names:
  assumes "collect_logical_topology_issues t = []"
  shows "distinct (map es_name (lt_endpoints t))" "distinct (map sp_name (lt_device_groups t))"
    "[] \<notin> es_name ` set (lt_endpoints t)"
proof -
  have u: "fst (check_unique_names ''endpoints'' ''duplicate_endpoint_name'' (map es_name (lt_endpoints t))) = []"
      "fst (check_unique_names ''device_groups'' ''duplicate_device_group_name'' (map sp_name (lt_device_groups t))) = []"
    and v: "each validate_endpoint ''endpoints'' (lt_endpoints t) = []"
    using assms by (simp_all add: collect_logical_topology_issues_def validate_logical_topology_endpoints_def Let_def)
  have named: "es_name e \<noteq> []" if "e \<in> set (lt_endpoints t)" for e
    by (rule each_member [OF v that]) (simp add: validate_endpoint_def)
  then show "[] \<notin> es_name ` set (lt_endpoints t)" by (metis imageE)
  have "filter (\<lambda>n. n \<noteq> []) (map es_name (lt_endpoints t)) = map es_name (lt_endpoints t)"
      "filter (\<lambda>n. n \<noteq> []) (map sp_name (lt_device_groups t)) = map sp_name (lt_device_groups t)"
    using named accepted_basics(3) [OF assms] by (auto simp: filter_id_conv)
  then show "distinct (map es_name (lt_endpoints t))" "distinct (map sp_name (lt_device_groups t))"
    using unique_names_ok [OF u(1)] unique_names_ok [OF u(2)] by simp_all
qed

lemma accepted_family:
  assumes "collect_logical_topology_issues t = []" "g \<in> set (lt_device_groups t)" "sp_partition g = Some x"
    and k: "0 \<le> k" "k < dgp_total_peer_count x"
  shows "\<exists>!i. i < length (lt_device_groups t) \<and> (\<exists>y. sp_partition (lt_device_groups t ! i) = Some y
      \<and> dgp_family y = dgp_family x \<and> in_window k (dgp_start_index y, sp_peer_count (lt_device_groups t ! i)))"
proof -
  let ?gs = "lt_device_groups t" and ?f = "dgp_family x"
  define es where "es = family_members ?gs ?f"
  define ordered where "ordered = sort_key (\<lambda>(i, g, x). dgp_ordinal x) es"
  have f: "?f \<noteq> []" by (rule accepted_partition [OF assms(1-3)])
  obtain j where j: "j < length ?gs" "g = ?gs ! j" using assms(2) by (metis in_set_conv_nth)
  have mem: "(j, g, x) \<in> set es" using j f assms(3) by (simp add: es_def family_members_member)
  have "validate_device_group_partitions ?gs = []"
    using assms(1) by (simp add: collect_logical_topology_issues_def Let_def)
  moreover have "(?f, es) \<in> set (partition_families ?gs)"
    unfolding es_def by (rule family_members_get) (use mem in \<open>auto simp: es_def\<close>)
  ultimately have "validate_family es = []" by (force simp: validate_device_group_partitions_def)
  moreover have "\<forall>e \<in> set es. 0 < sp_peer_count (fst (snd e))"
    using accepted_basics(1) [OF assms(1)] by (auto simp: es_def family_members_member)
  ultimately have t: "tiles 0 (map entry_window ordered) (dgp_total_peer_count x)"
    using family_tiles mem by (simp add: ordered_def)
  define P where "P n \<longleftrightarrow> n < length ordered \<and> in_window k (entry_window (ordered ! n))" for n
  have "\<exists>!n. P n" using tiles_unique [OF t k] by (simp add: P_def cong: conj_cong)
  then obtain m where Pm: "P m" and unique: "\<And>n. P n \<Longrightarrow> n = m" by blast
  have m: "m < length ordered" "in_window k (entry_window (ordered ! m))" using Pm by (simp_all add: P_def)
  have entry: "(i, h, y) \<in> set ordered \<longleftrightarrow> i < length ?gs \<and> h = ?gs ! i \<and> sp_partition h = Some y \<and> dgp_family y = ?f"
    for i h y
    using f by (simp add: ordered_def es_def family_members_member)
  obtain i h y where e: "ordered ! m = (i, h, y)" by (cases "ordered ! m")
  then have "(i, h, y) \<in> set ordered" using nth_mem [OF m(1)] by simp
  note here = this [unfolded entry]
  show ?thesis
  proof (rule ex1I [of _ i])
    show "i < length ?gs \<and> (\<exists>y. sp_partition (?gs ! i) = Some y
        \<and> dgp_family y = ?f \<and> in_window k (dgp_start_index y, sp_peer_count (?gs ! i)))"
      using here m(2) e by auto
  next
    fix l
    assume l: "l < length ?gs \<and> (\<exists>y. sp_partition (?gs ! l) = Some y \<and> dgp_family y = ?f
        \<and> in_window k (dgp_start_index y, sp_peer_count (?gs ! l)))"
    then obtain z where z: "sp_partition (?gs ! l) = Some z" "dgp_family z = ?f"
        "in_window k (dgp_start_index z, sp_peer_count (?gs ! l))" by blast
    then have "(l, ?gs ! l, z) \<in> set ordered" using l entry by simp
    then obtain n where n: "n < length ordered" "ordered ! n = (l, ?gs ! l, z)" by (metis in_set_conv_nth)
    then have "n = m" using unique [of n] z(3) by (simp add: P_def)
    then show "l = i" using n(2) e by simp
  qed
qed

section \<open>Property\<close>

text \<open>
  C16. An accepted topology splits its peers exactly: every peer of a group with traffic-generator
  children lies in the window of exactly one child, and every peer of a partition family, counted
  over all its groups, lies in the window of exactly one member group. There are no gaps and no
  overlaps, although each window is checked only against the end of the one before it.
\<close>

theorem accepted_windows_exact:
  assumes "collect_logical_topology_issues t = []" and "g \<in> set (lt_device_groups t)"
  shows "(sp_ixia_children g \<noteq> [] \<and> 0 \<le> k \<and> k < sp_peer_count g \<longrightarrow>
      (\<exists>!i. i < length (sp_ixia_children g) \<and> in_window k (ic_window (sp_ixia_children g ! i))))
    \<and> (\<forall>x. sp_partition g = Some x \<and> 0 \<le> k \<and> k < dgp_total_peer_count x \<longrightarrow>
      (\<exists>!i. i < length (lt_device_groups t) \<and> (\<exists>y. sp_partition (lt_device_groups t ! i) = Some y
         \<and> dgp_family y = dgp_family x \<and> in_window k (dgp_start_index y, sp_peer_count (lt_device_groups t ! i)))))"
proof (intro conjI impI allI)
  assume k: "sp_ixia_children g \<noteq> [] \<and> 0 \<le> k \<and> k < sp_peer_count g"
  obtain p where "validate_ixia_children p g (named_dict es_name (lt_endpoints t)) = []"
    using accepted_groupE [OF assms] by metis
  from tiles_unique [OF children_tile(1) [OF this]] k
  show "\<exists>!i. i < length (sp_ixia_children g) \<and> in_window k (ic_window (sp_ixia_children g ! i))"
    by (simp cong: conj_cong)
next
  fix x
  assume "sp_partition g = Some x \<and> 0 \<le> k \<and> k < dgp_total_peer_count x"
  then show "\<exists>!i. i < length (lt_device_groups t) \<and> (\<exists>y. sp_partition (lt_device_groups t ! i) = Some y
         \<and> dgp_family y = dgp_family x \<and> in_window k (dgp_start_index y, sp_peer_count (lt_device_groups t ! i)))"
    using accepted_family [OF assms] by blast
qed

lemma demo_accepted: "collect_logical_topology_issues demo_intent = []"
  by code_simp

theorem accepted_windows_witness:
  "(\<exists>!i. i < length (sp_ixia_children (hd demo_groups)) \<and> in_window 1 (ic_window (sp_ixia_children (hd demo_groups) ! i)))
   \<and> (\<exists>!i. i < length (lt_device_groups demo_intent) \<and> (\<exists>y. sp_partition (lt_device_groups demo_intent ! i) = Some y
         \<and> dgp_family y = ''peers'' \<and> in_window 2 (dgp_start_index y, sp_peer_count (lt_device_groups demo_intent ! i))))"
proof -
  have g: "hd demo_groups \<in> set (lt_device_groups demo_intent)" by (simp add: demo_groups_def demo_intent_def)
  have f: "sp_ixia_children (hd demo_groups) \<noteq> []" "sp_peer_count (hd demo_groups) = 2"
    "sp_partition (hd demo_groups) = Some \<lparr>dgp_family = ''peers'', dgp_ordinal = 0, dgp_start_index = 0, dgp_total_peer_count = 3\<rparr>"
    by (simp_all add: demo_groups_def demo_intent_group_def)
  show ?thesis
    using accepted_windows_exact [OF demo_accepted g, of 1] accepted_windows_exact [OF demo_accepted g, of 2] f by simp
qed

end
