(* ===== verification/Route_Binding.thy ===== *)
theory Route_Binding
  imports Ixia_Planner Address_Text
begin

text \<open>
  The routes of a bound device group (\<open>abstractions/topology/binding.py\<close>): which prefixes and next
  hops an advertisement of the group resolves to, and the slices of an advertisement that the
  traffic-generator children of the group announce.
\<close>

section \<open>Bound groups\<close>

text \<open>\<open>ResolvedPrefixAdvertisement\<close> with the routes of each peer.\<close>

record BoundAdvertisement = ResolvedPrefixAdvertisement +
  ra_paths_by_peer :: "ResolvedRoutePathSequence list"

record BoundChild =
  bc_spec :: IxiaDeviceGroupChild
  bc_peers :: "ResolvedPeer list"
  bc_prefix_advertisements :: "BoundAdvertisement list"

record DeviceGroupProvenance =
  pv_parent_network_source :: "string option"
  pv_local_asn_source :: "string option"
  pv_remote_asn_source :: "string option"

text \<open>
  \<open>BoundDeviceGroup\<close> as the binding builds it. Fields that only copy one of \<open>spec\<close> are read from it,
  and the values of the provenance from the group.
\<close>

record BoundGroup =
  gb_spec :: DeviceGroupSpec
  gb_a_interface :: "string option"
  gb_z_interface :: "string option"
  gb_ixia_port :: "string option"
  gb_a_ips :: "string list"
  gb_z_ips :: "string list"
  gb_peer_cidrs :: "string option list"
  gb_a_os :: string
  gb_z_os :: string
  gb_routing_driver :: "string option"
  gb_parent_network :: "string option"
  gb_local_asn :: "int option"
  gb_remote_asn :: "int option"
  gb_peer_group :: "peer_group_ref option"
  gb_port_assignment :: "ResolvedIxiaPortAssignment option"
  gb_peer_relationship :: "PeerRelationship option"
  gb_provenance :: DeviceGroupProvenance
  gb_prefix_advertisements :: "BoundAdvertisement list"
  gb_children :: "BoundChild list"

text \<open>The fields of a group the planners read.\<close>

definition device_view :: "BoundGroup \<Rightarrow> BoundDeviceGroup" where
  "device_view g = \<lparr>bg_name = sp_name (gb_spec g), bg_role = sp_role (gb_spec g), bg_afi = sp_afi (gb_spec g),
     bg_peer_count = sp_peer_count (gb_spec g), bg_a_endpoint = sp_a_endpoint (gb_spec g),
     bg_z_endpoint = sp_z_endpoint (gb_spec g), bg_dut_neighbor_absent = sp_dut_neighbor_absent (gb_spec g),
     bg_a_interface = gb_a_interface g, bg_z_interface = gb_z_interface g, bg_a_ips = gb_a_ips g, bg_z_ips = gb_z_ips g,
     bg_peer_cidrs = gb_peer_cidrs g, bg_routing_driver = gb_routing_driver g, bg_parent_network = gb_parent_network g,
     bg_local_asn = gb_local_asn g, bg_remote_asn = gb_remote_asn g, bg_port_assignment = gb_port_assignment g,
     bg_peer_relationship = gb_peer_relationship g\<rparr>"

section \<open>Advertisements\<close>

definition resolve_prefix_sets :: "PrefixSet list \<Rightarrow> (string, ResolvedPrefixSet) dict result" where
  "resolve_prefix_sets sets =
     rfold (\<lambda>d ps. rbind (mk_FormulaicPrefixSequence (ps_source ps)) (\<lambda>s.
         Inr (dict_set (ps_name ps) \<lparr>rps_spec = ps, rps_prefixes = s\<rparr> d))) [] sets"

fun next_hop_count :: "NextHopDistribution option \<Rightarrow> int \<Rightarrow> int \<Rightarrow> int \<Rightarrow> int result" where
  "next_hop_count (Some NH_SHARED) peers per_peer distinct_prefixes = Inr 1"
| "next_hop_count (Some PER_PEER) peers per_peer distinct_prefixes = Inr peers"
| "next_hop_count (Some PER_PREFIX) peers per_peer distinct_prefixes = Inr distinct_prefixes"
| "next_hop_count (Some PER_PEER_PREFIX) peers per_peer distinct_prefixes = Inr (peers * per_peer)"
| "next_hop_count None peers per_peer distinct_prefixes = fail ''unsupported next-hop distribution''"

definition formulaic_hops :: "FormulaicNextHopSource option \<Rightarrow> int \<Rightarrow> next_hop_sequence result" where
  "formulaic_hops source n =
     (case source of
        None \<Rightarrow> fail ''uses formulaic next hops without a formulaic source''
      | Some s \<Rightarrow> rbind (mk_FormulaicAddressSequence (nhs_start s) (nhs_step s) n) (\<lambda>q. Inr (FormulaicHops q)))"

definition explicit_hops :: "ExplicitNextHopSource option \<Rightarrow> int \<Rightarrow> next_hop_sequence result" where
  "explicit_hops source n =
     (case source of
        None \<Rightarrow> fail ''uses explicit next hops without an explicit source''
      | Some s \<Rightarrow> if int (length (nhs_addresses s)) \<noteq> n then fail ''requires another number of explicit next hops''
                  else Inr (ExplicitHops (nhs_addresses s)))"

definition resolve_advertisement_next_hops :: "int \<Rightarrow> PrefixAdvertisement \<Rightarrow> next_hop_sequence option result" where
  "resolve_advertisement_next_hops peer_count ad =
     (let i = adv_next_hop ad
      in if NextHopIntent.nh_mode i = SELF then Inr None
         else rbind (next_hop_count (NextHopIntent.nh_distribution i) peer_count (prefixes_per_peer (adv_allocation ad))
                       (member_count (adv_membership ad))) (\<lambda>n.
              rbind (if NextHopIntent.nh_mode i = FORMULAIC then formulaic_hops (nh_formulaic_source i) n
                     else explicit_hops (nh_explicit_source i) n) (\<lambda>hops. Inr (Some hops))))"

text \<open>An advertisement without attributes takes those of its group.\<close>

definition effective_advertisement :: "DeviceGroupSpec \<Rightarrow> PrefixAdvertisement \<Rightarrow> PrefixAdvertisement" where
  "effective_advertisement g ad =
     (if adv_route_attributes ad \<noteq> None \<or> sp_route_attributes g = None then ad
      else ad\<lparr>adv_route_attributes := sp_route_attributes g\<rparr>)"

text \<open>The routes of a peer, and of the peers of a group in order.\<close>

definition peer_paths ::
    "PrefixAdvertisement \<Rightarrow> ResolvedPrefixSet \<Rightarrow> next_hop_sequence option \<Rightarrow> int \<Rightarrow> string \<Rightarrow> ResolvedRoutePathSequence" where
  "peer_paths ad ps hops i z_ip =
     \<lparr>rs_advertisement = ad, rs_prefix_set = ps, rs_peer_index = i, rs_self_next_hop = z_ip, rs_next_hops = hops\<rparr>"

definition resolve_prefix_advertisement ::
    "BoundGroup \<Rightarrow> PrefixAdvertisement \<Rightarrow> (string, ResolvedPrefixSet) dict \<Rightarrow> BoundAdvertisement result" where
  "resolve_prefix_advertisement g ad sets =
     rbind (dict_index sets (adv_prefix_set ad)) (\<lambda>ps.
     rbind (resolve_advertisement_next_hops (sp_peer_count (gb_spec g)) ad) (\<lambda>hops.
       let effective = effective_advertisement (gb_spec g) ad
       in Inr \<lparr>ra_spec = effective, ra_prefix_set = ps,
            ra_paths_by_peer = map (\<lambda>(i, z). peer_paths effective ps hops (int i) z) (enumerate 0 (gb_z_ips g))\<rparr>))"

section \<open>Slices of a child\<close>

text \<open>\<open>xs[a:b]\<close>\<close>

definition py_slice :: "'a list \<Rightarrow> int \<Rightarrow> int \<Rightarrow> 'a list" where
  "py_slice xs a b =
     (let n = int (length xs); start = clip_bound n 0 n a; stop = clip_bound n 0 n b
      in take (nat (stop - start)) (drop (nat start) xs))"

definition prefix_offset :: "PrefixAllocation \<Rightarrow> IxiaDeviceGroupChild \<Rightarrow> int" where
  "prefix_offset a c = (if peer_distribution a = DISJOINT then ic_start_index c * prefixes_per_peer a else 0)"

fun child_next_hop_window ::
    "NextHopDistribution option \<Rightarrow> PeerPrefixDistribution \<Rightarrow> IxiaDeviceGroupChild \<Rightarrow> int \<Rightarrow> int \<Rightarrow> (int \<times> int) result" where
  "child_next_hop_window (Some NH_SHARED) peers c per_peer off = Inr (0, 1)"
| "child_next_hop_window (Some PER_PEER) peers c per_peer off = Inr (ic_start_index c, ic_peer_count c)"
| "child_next_hop_window (Some PER_PREFIX) peers c per_peer off =
     Inr (if peers = DISJOINT then (off, ic_peer_count c * per_peer) else (0, per_peer))"
| "child_next_hop_window (Some PER_PEER_PREFIX) peers c per_peer off =
     Inr (ic_start_index c * per_peer, ic_peer_count c * per_peer)"
| "child_next_hop_window None peers c per_peer off = fail ''unsupported IXIA child next-hop distribution''"

definition slice_explicit_source :: "NextHopIntent \<Rightarrow> int \<Rightarrow> int \<Rightarrow> NextHopIntent result" where
  "slice_explicit_source i off n =
     (case nh_explicit_source i of
        None \<Rightarrow> fail ''explicit IXIA child next hop has no source''
      | Some s \<Rightarrow> Inr (i\<lparr>nh_explicit_source := Some (s\<lparr>nhs_addresses := py_slice (nhs_addresses s) off (off + n)\<rparr>)\<rparr>))"

definition slice_formulaic_source :: "NextHopIntent \<Rightarrow> int \<Rightarrow> NextHopIntent result" where
  "slice_formulaic_source i off =
     (case nh_formulaic_source i of
        None \<Rightarrow> fail ''formulaic IXIA child next hop has no source''
      | Some s \<Rightarrow>
          rbind (mk_FormulaicAddressSequence (nhs_start s) (nhs_step s) (off + 1)) (\<lambda>q.
          rbind (fas_getitem q off) (\<lambda>start. Inr (i\<lparr>nh_formulaic_source := Some (s\<lparr>nhs_start := start\<rparr>)\<rparr>))))"

definition slice_child_next_hop :: "PrefixAdvertisement \<Rightarrow> IxiaDeviceGroupChild \<Rightarrow> int \<Rightarrow> NextHopIntent result" where
  "slice_child_next_hop ad c off =
     (let i = adv_next_hop ad
      in if NextHopIntent.nh_mode i = SELF then Inr i
         else rbind (child_next_hop_window (NextHopIntent.nh_distribution i) (peer_distribution (adv_allocation ad)) c
                       (prefixes_per_peer (adv_allocation ad)) off) (\<lambda>(first, n).
              if NextHopIntent.nh_mode i = EXPLICIT then slice_explicit_source i first n else slice_formulaic_source i first))"

definition rotate_values :: "int \<Rightarrow> 'a list \<Rightarrow> 'a list" where
  "rotate_values off xs =
     (if xs = [] then xs
      else let k = nat (off mod int (length xs)) in drop k xs @ take k xs)"

definition rotate_child_route_attributes :: "RouteAttributePool option \<Rightarrow> int \<Rightarrow> RouteAttributePool option" where
  "rotate_child_route_attributes pool off =
     (case pool of
        None \<Rightarrow> None
      | Some p \<Rightarrow> if off = 0 then Some p
                  else Some (p\<lparr>community_rows := rotate_values off (community_rows p),
                         extended_community_rows := rotate_values off (extended_community_rows p),
                         as_paths := rotate_values off (as_paths p)\<rparr>))"

definition slice_child_advertisement_spec :: "PrefixAdvertisement \<Rightarrow> IxiaDeviceGroupChild \<Rightarrow> PrefixAdvertisement result" where
  "slice_child_advertisement_spec ad c =
     (let a = adv_allocation ad; m = adv_membership ad; off = prefix_offset a c
      in rbind (slice_child_next_hop ad c off) (\<lambda>hop.
           Inr (ad\<lparr>adv_membership :=
                  (if peer_distribution a = DISJOINT
                   then m\<lparr>start_index := start_index m + off, member_count := ic_peer_count c * prefixes_per_peer a\<rparr> else m),
                adv_next_hop := hop,
                adv_route_attributes := rotate_child_route_attributes (adv_route_attributes ad) off,
                adv_legacy_ixia_name :=
                  (if ic_legacy_prefix_pool_name c \<noteq> None then ic_legacy_prefix_pool_name c else adv_legacy_ixia_name ad)\<rparr>)))"

definition slice_child_advertisement :: "IxiaDeviceGroupChild \<Rightarrow> BoundAdvertisement \<Rightarrow> BoundAdvertisement result" where
  "slice_child_advertisement c ad =
     rbind (slice_child_advertisement_spec (ra_spec ad) c) (\<lambda>spec.
       Inr (ad\<lparr>ra_spec := spec,
              ra_paths_by_peer := py_slice (ra_paths_by_peer ad) (ic_start_index c) (ic_start_index c + ic_peer_count c)\<rparr>))"

definition bind_ixia_child :: "BoundGroup \<Rightarrow> IxiaDeviceGroupChild \<Rightarrow> BoundChild result" where
  "bind_ixia_child g c =
     rbind (bound_peers (device_view g)) (\<lambda>peers.
     rbind (rmap (slice_child_advertisement c) (gb_prefix_advertisements g)) (\<lambda>ads.
       Inr \<lparr>bc_spec = c, bc_peers = py_slice peers (ic_start_index c) (ic_start_index c + ic_peer_count c),
         bc_prefix_advertisements = ads\<rparr>))"

definition bind_ixia_children :: "BoundGroup list \<Rightarrow> BoundGroup list result" where
  "bind_ixia_children gs =
     rmap (\<lambda>g. rbind (rmap (bind_ixia_child g) (sp_ixia_children (gb_spec g))) (\<lambda>cs. Inr (g\<lparr>gb_children := cs\<rparr>))) gs"

end
