(* ===== verification/Route_Slices.thy ===== *)
theory Route_Slices
  imports Route_Binding Demo_Topology
begin

text \<open>
  A child's slice of an advertisement denotes its parent's routes: resolved on its own, the sliced
  advertisement gives peer \<open>p\<close> of the child the routes the group gives peer \<open>start + p\<close>.
\<close>

section \<open>Attributes\<close>

lemma nth_rotate_values:
  assumes "xs \<noteq> []"
  shows "rotate_values off xs ! nat (i mod int (length xs)) = xs ! nat ((i + off) mod int (length xs))"
proof -
  let ?n = "int (length xs)"
  have pos: "0 < ?n" using assms by simp
  let ?k = "nat (off mod ?n)" and ?j = "nat (i mod ?n)"
  have k: "?k < length xs" and j: "?j < length xs" using pos by (simp_all add: nat_less_iff)
  have "rotate_values off xs = rotate ?k xs" using assms k by (simp add: rotate_values_def rotate_drop_take Let_def)
  then have "rotate_values off xs ! ?j = xs ! ((?k + ?j) mod length xs)" using nth_rotate [OF j] by simp
  also have "(?k + ?j) mod length xs = nat ((i + off) mod ?n)"
  proof -
    have "int ((?k + ?j) mod length xs) = (off mod ?n + i mod ?n) mod ?n" using pos by (simp add: zmod_int)
    also have "\<dots> = (i + off) mod ?n" by (simp add: mod_add_eq add.commute)
    finally show ?thesis by linarith
  qed
  finally show ?thesis .
qed

lemma length_rotate_values [simp]: "length (rotate_values off xs) = length xs"
proof (cases "xs = []")
  case False
  then have "nat (off mod int (length xs)) < length xs" by (simp add: nat_less_iff)
  then show ?thesis using False by (simp add: rotate_values_def Let_def)
qed (simp add: rotate_values_def)

lemma rotate_values_Nil [simp]: "rotate_values off xs = [] \<longleftrightarrow> xs = []"
  by (metis length_0_conv length_rotate_values)

lemma rotated_properties:
  "route_properties (rotate_child_route_attributes pool off) i = route_properties pool (i + off)"
  by (simp add: rotate_child_route_attributes_def route_properties_def select_row_def select_as_path_def
      nth_rotate_values split: option.splits)

section \<open>Next hops\<close>

definition window_of :: "IxiaDeviceGroupChild \<Rightarrow> int \<Rightarrow> bool" where
  "window_of c peers \<longleftrightarrow> 0 \<le> ic_start_index c \<and> 0 < ic_peer_count c \<and> ic_start_index c + ic_peer_count c \<le> peers"

text \<open>The index of a child's route into its hops, and into its parent's.\<close>

lemma next_hop_windows:
  assumes w: "window_of c peers" and p: "0 \<le> p" "p < ic_peer_count c" and s: "0 \<le> slot" "slot < prefixes_per_peer a"
    and rel: "rel = relative_prefix_index a p slot"
    and win: "child_next_hop_window (Some d) (peer_distribution a) c (prefixes_per_peer a) (prefix_offset a c) = Inr (first, n)"
    and total: "next_hop_count (Some d) peers (prefixes_per_peer a) (distinct_prefix_count a peers) = Inr N"
  shows "next_hop_index d (ic_start_index c + p) (prefixes_per_peer a) slot (rel + prefix_offset a c)
       = first + next_hop_index d p (prefixes_per_peer a) slot rel"
    and "0 \<le> next_hop_index d p (prefixes_per_peer a) slot rel" "next_hop_index d p (prefixes_per_peer a) slot rel < n"
    and "0 \<le> first" "first + n \<le> N"
proof -
  let ?m = "prefixes_per_peer a" and ?s = "ic_start_index c" and ?c = "ic_peer_count c"
  have cell: "0 \<le> p * ?m + slot" "p * ?m + slot < ?c * ?m"
  proof -
    have "0 \<le> p * ?m" using p s by simp
    then show "0 \<le> p * ?m + slot" using s by simp
    have "(p + 1) * ?m \<le> ?c * ?m" using p s by (intro mult_right_mono) auto
    then show "p * ?m + slot < ?c * ?m" using s by (simp add: algebra_simps)
  qed
  have total_cells: "?s * ?m + ?c * ?m \<le> peers * ?m"
    using w s mult_right_mono [of "?s + ?c" peers ?m] by (simp add: window_of_def algebra_simps)
  have start: "0 \<le> ?s * ?m" using w s by (simp add: window_of_def)
  show "next_hop_index d (?s + p) ?m slot (rel + prefix_offset a c) = first + next_hop_index d p ?m slot rel"
    using win by (cases d) (auto simp: algebra_simps prefix_offset_def split: if_splits)
  show "0 \<le> next_hop_index d p ?m slot rel" "next_hop_index d p ?m slot rel < n"
    using win cell p s rel
    by (cases d; cases "peer_distribution a"; force simp: relative_prefix_index_def)+
  show "0 \<le> first" "first + n \<le> N"
    using win total total_cells start w s
    by (cases d; cases "peer_distribution a"; force simp: window_of_def distinct_prefix_count_def prefix_offset_def)+
qed

lemma sliced_formulaic_hop:
  assumes q: "mk_FormulaicAddressSequence start step n = Inr q"
    and q1: "mk_FormulaicAddressSequence start step (off + 1) = Inr q1" "fas_getitem q1 off = Inr t"
    and q2: "mk_FormulaicAddressSequence t step m = Inr q2"
    and i: "0 \<le> off" "0 \<le> i" "i < m" "off + m \<le> n"
  shows "next_hops_getitem (FormulaicHops q2) i = next_hops_getitem (FormulaicHops q) (off + i)"
proof -
  obtain a k where a: "ip_address start = Inr a" "step_as_int step (ip_version a) = Inr k"
      "q = \<lparr>fas_start = a, fas_step = k, fas_count = n\<rparr>"
    using q by (auto simp: mk_FormulaicAddressSequence_def rbind_eq_Inr)
  then have "q1 = \<lparr>fas_start = a, fas_step = k, fas_count = off + 1\<rparr>"
    using q1(1) by (simp add: mk_FormulaicAddressSequence_def)
  then obtain b where b: "ip_of_int (ip_version a) (ip_int a + off * k) = Inr b" "t = ip_str b"
    using q1(2) i(1) by (auto simp: seq_getitem_inside fas_item_def rbind_eq_Inr)
  have v: "ip_version b = ip_version a" "ip_int b = ip_int a + off * k"
    using b(1) ip_version_cases [of a] by (auto simp: ip_of_int_Inr)
  have "ip_address t = Inr b"
    using address_round_trip [OF ip_valid_of_int [OF b(1)]] b(2) by (simp add: ip_address_def)
  then have "q2 = \<lparr>fas_start = b, fas_step = k, fas_count = m\<rparr>"
    using q2 a(2) v(1) by (simp add: mk_FormulaicAddressSequence_def)
  then show ?thesis using i v a(3) by (simp add: seq_getitem_inside fas_item_def algebra_simps)
qed

lemma mk_address_sequence_count:
  "mk_FormulaicAddressSequence start step n = Inr q \<Longrightarrow> fas_count q = n"
  by (auto simp: mk_FormulaicAddressSequence_def rbind_eq_Inr)

lemma sliced_formulaic_ok:
  assumes "mk_FormulaicAddressSequence start step n = Inr q" "mk_FormulaicAddressSequence start step (off + 1) = Inr q1"
    "fas_getitem q1 off = Inr t" "0 \<le> off"
  shows "\<exists>q2. mk_FormulaicAddressSequence t step m = Inr q2"
proof -
  obtain a k where a: "ip_address start = Inr a" "step_as_int step (ip_version a) = Inr k"
      "q1 = \<lparr>fas_start = a, fas_step = k, fas_count = off + 1\<rparr>"
    using assms(2) by (auto simp: mk_FormulaicAddressSequence_def rbind_eq_Inr)
  obtain b where b: "ip_of_int (ip_version a) (ip_int a + off * k) = Inr b" "t = ip_str b"
    using assms(3, 4) a(3) by (auto simp: seq_getitem_inside fas_item_def rbind_eq_Inr)
  have "ip_version b = ip_version a" using b(1) ip_version_cases [of a] by (auto simp: ip_of_int_Inr)
  moreover have "ip_address t = Inr b"
    using address_round_trip [OF ip_valid_of_int [OF b(1)]] b(2) by (simp add: ip_address_def)
  ultimately show ?thesis using a(2) by (simp add: mk_FormulaicAddressSequence_def)
qed

lemma py_slice_inside:
  assumes "0 \<le> a" "a \<le> b" "b \<le> int (length xs)"
  shows "length (py_slice xs a b) = nat (b - a)"
    and "0 \<le> i \<Longrightarrow> i < b - a \<Longrightarrow> py_slice xs a b ! nat i = xs ! nat (a + i)"
  using assms by (auto simp: py_slice_def clip_bound_def Let_def nat_add_distrib min_def)

lemma slice_explicit_source_ok:
  "slice_explicit_source i off n = Inr i' \<Longrightarrow>
     NextHopIntent.nh_mode i' = NextHopIntent.nh_mode i \<and> NextHopIntent.nh_distribution i' = NextHopIntent.nh_distribution i
     \<and> (\<exists>s. nh_explicit_source i = Some s
          \<and> nh_explicit_source i' = Some (s\<lparr>nhs_addresses := py_slice (nhs_addresses s) off (off + n)\<rparr>))"
  by (auto simp: slice_explicit_source_def split: option.splits)

lemma slice_formulaic_source_ok:
  "slice_formulaic_source i off = Inr i' \<Longrightarrow>
     NextHopIntent.nh_mode i' = NextHopIntent.nh_mode i \<and> NextHopIntent.nh_distribution i' = NextHopIntent.nh_distribution i
     \<and> (\<exists>s q t. nh_formulaic_source i = Some s \<and> mk_FormulaicAddressSequence (nhs_start s) (nhs_step s) (off + 1) = Inr q
          \<and> fas_getitem q off = Inr t \<and> nh_formulaic_source i' = Some (s\<lparr>nhs_start := t\<rparr>))"
  by (auto simp: slice_formulaic_source_def rbind_eq_Inr split: option.splits)

text \<open>The next hop of a route of the child, resolved from the slice and in the group.\<close>

lemma sliced_next_hop:
  assumes w: "window_of c peers" and ppp: "0 < prefixes_per_peer (adv_allocation ad)"
    and members: "member_count (adv_membership ad) = distinct_prefix_count (adv_allocation ad) peers"
    and hops: "resolve_advertisement_next_hops peers ad = Inr hops"
    and ad': "adv_allocation ad' = adv_allocation ad"
      "member_count (adv_membership ad') = distinct_prefix_count (adv_allocation ad) (ic_peer_count c)"
      "slice_child_next_hop ad c (prefix_offset (adv_allocation ad) c) = Inr (adv_next_hop ad')"
  shows "\<exists>hops'. resolve_advertisement_next_hops (ic_peer_count c) ad' = Inr hops'
    \<and> (\<forall>p slot z ps ps'. 0 \<le> p \<and> p < ic_peer_count c \<and> 0 \<le> slot \<and> slot < prefixes_per_peer (adv_allocation ad) \<longrightarrow>
         next_hop (peer_paths ad' ps' hops' p z) slot (relative_prefix_index (adv_allocation ad) p slot)
       = next_hop (peer_paths ad ps hops (ic_start_index c + p) z) slot
           (relative_prefix_index (adv_allocation ad) p slot + prefix_offset (adv_allocation ad) c))"
proof (cases "NextHopIntent.nh_mode (adv_next_hop ad) = SELF")
  case True
  then have "adv_next_hop ad' = adv_next_hop ad" using ad'(3) by (simp add: slice_child_next_hop_def)
  then show ?thesis using True by (simp add: resolve_advertisement_next_hops_def next_hop_def peer_paths_def)
next
  case ext: False
  let ?i = "adv_next_hop ad" and ?i' = "adv_next_hop ad'" and ?a = "adv_allocation ad"
  let ?m = "prefixes_per_peer ?a" and ?off = "prefix_offset ?a c"
  obtain first n where win: "child_next_hop_window (NextHopIntent.nh_distribution ?i) (peer_distribution ?a) c ?m ?off = Inr (first, n)"
    and cut: "(if NextHopIntent.nh_mode ?i = EXPLICIT then slice_explicit_source ?i first n else slice_formulaic_source ?i first) = Inr ?i'"
    using ad'(3) ext by (auto simp: slice_child_next_hop_def Let_def rbind_eq_Inr)
  then obtain d where d: "NextHopIntent.nh_distribution ?i = Some d" by (cases "NextHopIntent.nh_distribution ?i") auto
  obtain N hs where N: "next_hop_count (Some d) peers ?m (distinct_prefix_count ?a peers) = Inr N"
    and hs: "(if NextHopIntent.nh_mode ?i = FORMULAIC then formulaic_hops (nh_formulaic_source ?i) N
              else explicit_hops (nh_explicit_source ?i) N) = Inr hs" "hops = Some hs"
    using hops ext d members by (auto simp: resolve_advertisement_next_hops_def Let_def rbind_eq_Inr)
  have same: "NextHopIntent.nh_mode ?i' = NextHopIntent.nh_mode ?i" "NextHopIntent.nh_distribution ?i' = Some d"
    using cut d by (auto dest!: slice_explicit_source_ok slice_formulaic_source_ok split: if_splits)
  have count': "next_hop_count (Some d) (ic_peer_count c) ?m (distinct_prefix_count ?a (ic_peer_count c)) = Inr n"
    using win d by (cases d; cases "peer_distribution ?a") (auto simp: distinct_prefix_count_def)
  note idx = next_hop_windows [OF w _ _ _ _ refl win [unfolded d] N]
  have "0 < ic_peer_count c" using w by (simp add: window_of_def)
  then have cell: "0 \<le> first" "first + n \<le> N" "0 \<le> n"
    using idx(2-5) [of 0 0] ppp by auto
  have hop: "\<exists>hs'. (if NextHopIntent.nh_mode ?i' = FORMULAIC then formulaic_hops (nh_formulaic_source ?i') n
              else explicit_hops (nh_explicit_source ?i') n) = Inr hs' \<and> next_hops_len hs' = n \<and> next_hops_len hs = N
     \<and> (\<forall>k. 0 \<le> k \<and> k < n \<longrightarrow> next_hops_getitem hs' k = next_hops_getitem hs (first + k))"
  proof (cases "NextHopIntent.nh_mode ?i = EXPLICIT")
    case True
    then obtain s where s: "nh_explicit_source ?i = Some s" "nh_explicit_source ?i' = Some (s\<lparr>nhs_addresses := py_slice (nhs_addresses s) first (first + n)\<rparr>)"
      using cut by (auto dest!: slice_explicit_source_ok)
    then have "hs = ExplicitHops (nhs_addresses s)" "int (length (nhs_addresses s)) = N"
      using hs(1) True by (auto simp: explicit_hops_def split: if_splits)
    then show ?thesis
      using s True same(1) cell py_slice_inside [of first "first + n" "nhs_addresses s"]
      by (auto simp: explicit_hops_def seq_getitem_inside)
  next
    case False
    then have f: "NextHopIntent.nh_mode ?i = FORMULAIC" using ext by (cases "NextHopIntent.nh_mode ?i") auto
    obtain s q1 t where s: "nh_formulaic_source ?i = Some s" "mk_FormulaicAddressSequence (nhs_start s) (nhs_step s) (first + 1) = Inr q1"
        "fas_getitem q1 first = Inr t" "nh_formulaic_source ?i' = Some (s\<lparr>nhs_start := t\<rparr>)"
      using cut False slice_formulaic_source_ok [of ?i first ?i'] by auto
    obtain q where q: "mk_FormulaicAddressSequence (nhs_start s) (nhs_step s) N = Inr q" "hs = FormulaicHops q"
      using hs(1) f s(1) by (auto simp: formulaic_hops_def rbind_eq_Inr)
    obtain q2 where q2: "mk_FormulaicAddressSequence t (nhs_step s) n = Inr q2"
      using sliced_formulaic_ok [OF q(1) s(2, 3) cell(1)] by blast
    show ?thesis
      using sliced_formulaic_hop [OF q(1) s(2, 3) q2 cell(1) _ _ cell(2)] f same(1) s(4) q2 q
        mk_address_sequence_count [OF q2] mk_address_sequence_count [OF q(1)]
      by (simp add: formulaic_hops_def)
  qed
  then obtain hs' where hs': "(if NextHopIntent.nh_mode ?i' = FORMULAIC then formulaic_hops (nh_formulaic_source ?i') n
              else explicit_hops (nh_explicit_source ?i') n) = Inr hs'" "next_hops_len hs' = n" "next_hops_len hs = N"
      "\<forall>k. 0 \<le> k \<and> k < n \<longrightarrow> next_hops_getitem hs' k = next_hops_getitem hs (first + k)" by blast
  have resolved: "resolve_advertisement_next_hops (ic_peer_count c) ad' = Inr (Some hs')"
    using ext same count' hs'(1) ad'(1, 2) by (simp add: resolve_advertisement_next_hops_def)
  have "next_hop (peer_paths ad' ps' (Some hs') p z) slot (relative_prefix_index ?a p slot)
      = next_hop (peer_paths ad ps hops (ic_start_index c + p) z) slot (relative_prefix_index ?a p slot + ?off)"
    if p: "0 \<le> p" "p < ic_peer_count c" and slot: "0 \<le> slot" "slot < ?m" for p slot z ps ps'
  proof -
    let ?k = "next_hop_index d p ?m slot (relative_prefix_index ?a p slot)"
    note k = idx [OF p slot]
    have "next_hop (peer_paths ad' ps' (Some hs') p z) slot (relative_prefix_index ?a p slot) = next_hops_getitem hs' ?k"
      using ext same k(2, 3) hs'(2) ad'(1) by (simp add: next_hop_def peer_paths_def rs_len_def Let_def)
    also have "\<dots> = next_hops_getitem hs (first + ?k)" using hs'(4) k(2, 3) by blast
    also have "\<dots> = next_hop (peer_paths ad ps hops (ic_start_index c + p) z) slot (relative_prefix_index ?a p slot + ?off)"
      using ext d k cell hs'(3) hs(2) by (simp add: next_hop_def peer_paths_def rs_len_def Let_def)
    finally show ?thesis .
  qed
  then show ?thesis using resolved by blast
qed

section \<open>Property\<close>

lemma rs_item_peer_paths:
  "rs_item (peer_paths ad ps hops p z) slot =
     (let rel = relative_prefix_index (adv_allocation ad) p slot; i = start_index (adv_membership ad) + rel
      in if i < 0 \<or> i \<ge> fps_len (rps_prefixes ps) then Inl (Exn IndexError ''resolved prefix index outside prefix set'')
         else rbind (fps_getitem (rps_prefixes ps) i) (\<lambda>prefix.
              rbind (next_hop (peer_paths ad ps hops p z) slot rel) (\<lambda>hop.
                Inr \<lparr>path_prefix = prefix, path_prefix_length = prefix_length (ps_source (rps_spec ps)), path_next_hop = hop,
                     path_properties = route_properties (adv_route_attributes ad) rel\<rparr>)))"
  by (simp add: rs_item_def peer_paths_def Let_def)

lemma resolved_advertisement:
  assumes "resolve_prefix_advertisement g ad sets = Inr A"
  obtains hops where "resolve_advertisement_next_hops (sp_peer_count (gb_spec g)) (ra_spec A) = Inr hops"
    "ra_spec A = effective_advertisement (gb_spec g) ad"
    "length (ra_paths_by_peer A) = length (gb_z_ips g)"
    "\<And>i. i < length (gb_z_ips g) \<Longrightarrow>
       ra_paths_by_peer A ! i = peer_paths (ra_spec A) (ra_prefix_set A) hops (int i) (gb_z_ips g ! i)"
proof -
  let ?e = "effective_advertisement (gb_spec g) ad"
  obtain ps hops where r: "resolve_advertisement_next_hops (sp_peer_count (gb_spec g)) ad = Inr hops"
      "A = \<lparr>ra_spec = ?e, ra_prefix_set = ps,
         ra_paths_by_peer = map (\<lambda>(i, z). peer_paths ?e ps hops (int i) z) (enumerate 0 (gb_z_ips g))\<rparr>"
    using assms by (auto simp: resolve_prefix_advertisement_def rbind_eq_Inr Let_def)
  moreover have "resolve_advertisement_next_hops (sp_peer_count (gb_spec g)) ?e = Inr hops"
  proof -
    have "adv_next_hop ?e = adv_next_hop ad" "adv_allocation ?e = adv_allocation ad" "adv_membership ?e = adv_membership ad"
      by (simp_all add: effective_advertisement_def)
    then show ?thesis using r(1) by (simp only: resolve_advertisement_next_hops_def)
  qed
  ultimately show thesis using that [of hops] by (simp add: nth_enumerate_eq)
qed

text \<open>
  C17. A child of a traffic-generator group announces its parent's routes: the slice of an advertisement
  that is written into the child's configuration resolves, on its own, to exactly the routes that the
  group gives to the child's window of peers. Prefixes, next hops of every distribution and mode,
  communities and AS paths included.
\<close>

theorem child_routes_agree:
  assumes "resolve_prefix_advertisement g ad sets = Inr A" "slice_child_advertisement c A = Inr A'"
    and members: "member_count (adv_membership ad) = distinct_prefix_count (adv_allocation ad) (sp_peer_count (gb_spec g))"
    and ppp: "0 < prefixes_per_peer (adv_allocation ad)"
    and w: "window_of c (sp_peer_count (gb_spec g))" and z: "int (length (gb_z_ips g)) = sp_peer_count (gb_spec g)"
  shows "\<exists>hops. resolve_advertisement_next_hops (ic_peer_count c) (ra_spec A') = Inr hops
    \<and> (\<forall>p slot. 0 \<le> p \<and> p < ic_peer_count c \<and> 0 \<le> slot \<and> slot < prefixes_per_peer (adv_allocation ad) \<longrightarrow>
         rs_item (peer_paths (ra_spec A') (ra_prefix_set A') hops p (gb_z_ips g ! nat (ic_start_index c + p))) slot
         = rs_item (ra_paths_by_peer A ! nat (ic_start_index c + p)) slot
       \<and> ra_paths_by_peer A' ! nat p = ra_paths_by_peer A ! nat (ic_start_index c + p))"
proof (rule resolved_advertisement [OF assms(1)])
  fix hops
  assume A: "resolve_advertisement_next_hops (sp_peer_count (gb_spec g)) (ra_spec A) = Inr hops"
    "ra_spec A = effective_advertisement (gb_spec g) ad" "length (ra_paths_by_peer A) = length (gb_z_ips g)"
    "\<And>i. i < length (gb_z_ips g) \<Longrightarrow>
       ra_paths_by_peer A ! i = peer_paths (ra_spec A) (ra_prefix_set A) hops (int i) (gb_z_ips g ! i)"
  let ?a = "adv_allocation ad" and ?s = "ic_start_index c" and ?e = "ra_spec A"
  have e: "adv_allocation ?e = ?a" "adv_membership ?e = adv_membership ad" using A(2) by (simp_all add: effective_advertisement_def)
  let ?off = "prefix_offset ?a c"
  obtain spec where spec: "slice_child_advertisement_spec ?e c = Inr spec"
      "A' = A\<lparr>ra_spec := spec, ra_paths_by_peer := py_slice (ra_paths_by_peer A) ?s (?s + ic_peer_count c)\<rparr>"
    using assms(2) by (auto simp: slice_child_advertisement_def rbind_eq_Inr)
  then have cut: "slice_child_next_hop ?e c ?off = Inr (adv_next_hop spec)" "adv_allocation spec = ?a"
      "adv_route_attributes spec = rotate_child_route_attributes (adv_route_attributes ?e) ?off"
      "start_index (adv_membership spec) = start_index (adv_membership ad) + ?off"
      "member_count (adv_membership spec) = distinct_prefix_count ?a (ic_peer_count c)"
    using members e
    by (auto simp: slice_child_advertisement_spec_def Let_def rbind_eq_Inr distinct_prefix_count_def prefix_offset_def
        split: if_splits) (cases "peer_distribution ?a"; simp)+
  obtain hops' where hops': "resolve_advertisement_next_hops (ic_peer_count c) spec = Inr hops'"
      "\<And>p slot z ps ps'. 0 \<le> p \<Longrightarrow> p < ic_peer_count c \<Longrightarrow> 0 \<le> slot \<Longrightarrow> slot < prefixes_per_peer ?a \<Longrightarrow>
         next_hop (peer_paths spec ps' hops' p z) slot (relative_prefix_index ?a p slot)
       = next_hop (peer_paths ?e ps hops (?s + p) z) slot (relative_prefix_index ?a p slot + ?off)"
    using sliced_next_hop [of c "sp_peer_count (gb_spec g)" ?e hops spec] w ppp members A(1) cut e by auto
  have "rs_item (peer_paths (ra_spec A') (ra_prefix_set A') hops' p (gb_z_ips g ! nat (?s + p))) slot
         = rs_item (ra_paths_by_peer A ! nat (?s + p)) slot
       \<and> ra_paths_by_peer A' ! nat p = ra_paths_by_peer A ! nat (?s + p)"
    if p: "0 \<le> p" "p < ic_peer_count c" and slot: "0 \<le> slot" "slot < prefixes_per_peer ?a" for p slot
  proof -
    have "nat (?s + p) < length (gb_z_ips g)" using w z p by (simp add: window_of_def nat_less_iff)
    then have parent: "ra_paths_by_peer A ! nat (?s + p) = peer_paths ?e (ra_prefix_set A) hops (?s + p) (gb_z_ips g ! nat (?s + p))"
      using A(4) w p by (simp add: window_of_def)
    have rel: "relative_prefix_index ?a (?s + p) slot = relative_prefix_index ?a p slot + ?off"
      by (cases "peer_distribution ?a") (simp_all add: relative_prefix_index_def prefix_offset_def algebra_simps)
    have "ra_paths_by_peer A' ! nat p = ra_paths_by_peer A ! nat (?s + p)"
      using py_slice_inside(2) [of ?s "?s + ic_peer_count c" "ra_paths_by_peer A" p] w z p A(3) spec(2)
      by (simp add: window_of_def)
    moreover have "start_index (adv_membership spec) + relative_prefix_index ?a p slot
        = start_index (adv_membership ad) + (relative_prefix_index ?a p slot + ?off)" using cut(4) by simp
    moreover have "ra_spec A' = spec" "ra_prefix_set A' = ra_prefix_set A" using spec(2) by simp_all
    ultimately show ?thesis
      unfolding parent rs_item_peer_paths e cut(2, 3) rel rotated_properties
      using hops'(2) [OF p slot, of "ra_prefix_set A" "gb_z_ips g ! nat (?s + p)" "ra_prefix_set A"]
      by (simp only: Let_def cut(2, 3) rotated_properties simp_thms)
  qed
  then show ?thesis using hops'(1) spec(2) by auto
qed

text \<open>The second child of the first group of the example, bound to addresses.\<close>

definition demo_bound_group :: BoundGroup where
  "demo_bound_group = \<lparr>gb_spec = hd demo_groups, gb_a_interface = Some ''eth1'', gb_z_interface = None, gb_ixia_port = Some ''1/1'',
     gb_a_ips = [''0.0.0.10'', ''0.0.0.12''], gb_z_ips = [''0.0.0.11'', ''0.0.0.13''],
     gb_peer_cidrs = [Some ''0.0.0.10/31'', Some ''0.0.0.12/31''], gb_a_os = ''eos'', gb_z_os = ''ixia'',
     gb_routing_driver = Some ''bgpcpp'', gb_parent_network = Some ''0.0.0.0/24'', gb_local_asn = Some 65000,
     gb_remote_asn = Some 65001, gb_peer_group = None, gb_port_assignment = None, gb_peer_relationship = Some EXTERNAL,
     gb_provenance = \<lparr>pv_parent_network_source = None, pv_local_asn_source = None, pv_remote_asn_source = None\<rparr>,
     gb_prefix_advertisements = [], gb_children = []\<rparr>"

lemma demo_resolves:
  "\<exists>A A'. rbind (resolve_prefix_sets (lt_prefix_sets demo_intent))
      (resolve_prefix_advertisement demo_bound_group (demo_intent_advertisement 0 2)) = Inr A
    \<and> slice_child_advertisement (demo_child ''c1'' 1) A = Inr A'"
proof -
  have "(case rbind (resolve_prefix_sets (lt_prefix_sets demo_intent))
      (resolve_prefix_advertisement demo_bound_group (demo_intent_advertisement 0 2)) of
        Inl e \<Rightarrow> False | Inr A \<Rightarrow> (case slice_child_advertisement (demo_child ''c1'' 1) A of Inl e \<Rightarrow> False | Inr A' \<Rightarrow> True))"
    by code_simp
  then show ?thesis by (auto split: sum.splits)
qed

theorem child_routes_witness:
  "\<exists>A A' hops. rbind (resolve_prefix_sets (lt_prefix_sets demo_intent))
      (resolve_prefix_advertisement demo_bound_group (demo_intent_advertisement 0 2)) = Inr A
    \<and> slice_child_advertisement (demo_child ''c1'' 1) A = Inr A'
    \<and> resolve_advertisement_next_hops 1 (ra_spec A') = Inr hops
    \<and> rs_item (peer_paths (ra_spec A') (ra_prefix_set A') hops 0 ''0.0.0.13'') 1 = rs_item (ra_paths_by_peer A ! 1) 1"
proof -
  let ?ad = "demo_intent_advertisement 0 2" and ?c = "demo_child ''c1'' 1"
  obtain sets A A' where A: "resolve_prefix_sets (lt_prefix_sets demo_intent) = Inr sets"
      "resolve_prefix_advertisement demo_bound_group ?ad sets = Inr A" "slice_child_advertisement ?c A = Inr A'"
    using demo_resolves by (auto simp: rbind_eq_Inr)
  have f: "member_count (adv_membership ?ad) = distinct_prefix_count (adv_allocation ?ad) (sp_peer_count (gb_spec demo_bound_group))"
    "prefixes_per_peer (adv_allocation ?ad) = 2" "window_of ?c (sp_peer_count (gb_spec demo_bound_group))"
    "int (length (gb_z_ips demo_bound_group)) = sp_peer_count (gb_spec demo_bound_group)"
    "ic_peer_count ?c = 1" "ic_start_index ?c = 1" "gb_z_ips demo_bound_group ! nat 1 = ''0.0.0.13''"
    by (simp_all add: demo_intent_advertisement_def demo_child_def demo_bound_group_def demo_groups_def
        demo_intent_group_def distinct_prefix_count_def window_of_def)
  from child_routes_agree [OF A(2, 3) f(1) _ f(3, 4)] f
  obtain hops where hops: "resolve_advertisement_next_hops 1 (ra_spec A') = Inr hops"
    and all: "\<forall>p slot. 0 \<le> p \<and> p < 1 \<and> 0 \<le> slot \<and> slot < 2 \<longrightarrow>
      rs_item (peer_paths (ra_spec A') (ra_prefix_set A') hops p (gb_z_ips demo_bound_group ! nat (1 + p))) slot
        = rs_item (ra_paths_by_peer A ! nat (1 + p)) slot" by auto
  from all [THEN spec, of 0, THEN spec, of 1] hops A f(7) show ?thesis by auto
qed

end
