(* ===== verification/Address_Binding.thy ===== *)
theory Address_Binding
  imports Intent_Validation Route_Binding
begin

text \<open>
  Addresses of a bound device group (\<open>abstractions/topology/binding.py\<close>): the two addresses of each
  peer from an address plan and a parent network, and the prefix both lie in. Every address and
  every prefix is recorded, so that two groups cannot share one; the records keep what is compared
  and leave out what only messages name. Functions return the issues they append, in order, and
  the new records.
\<close>

section \<open>Networks\<close>

text \<open>\<open>ip_interface(s).network\<close> and \<open>ip_network(s, strict=False)\<close>: the address without its host bits.\<close>

definition network_width :: "ip_addr \<times> nat \<Rightarrow> int" where
  "network_width n = 2 ^ (max_prefixlen (ip_version (fst n)) - snd n)"

definition ip_with :: "ip_addr \<Rightarrow> int \<Rightarrow> ip_addr" where
  "ip_with a n = (if ip_version a = 4 then IPv4 n else IPv6 n)"

definition masked :: "ip_addr \<times> nat \<Rightarrow> ip_addr \<times> nat" where
  "masked n = (ip_with (fst n) (ip_int (fst n) div network_width n * network_width n), snd n)"

definition network_of :: "string \<Rightarrow> (ip_addr \<times> nat) result" where
  "network_of s = (case ip_interface s of
     None \<Rightarrow> fail ''does not appear to be an IPv4 or IPv6 network'' | Some n \<Rightarrow> Inr (masked n))"

definition broadcast_address :: "ip_addr \<times> nat \<Rightarrow> ip_addr" where
  "broadcast_address n = ip_with (fst n) (ip_int (fst n) + network_width n - 1)"

text \<open>\<open>m.version == n.version and m.overlaps(n)\<close>\<close>

definition networks_overlap :: "ip_addr \<times> nat \<Rightarrow> ip_addr \<times> nat \<Rightarrow> bool" where
  "networks_overlap m n \<longleftrightarrow>
     ip_version (fst m) = ip_version (fst n)
     \<and> (in_network (fst n) m \<or> in_network (broadcast_address n) m \<or> in_network (fst m) n \<or> in_network (broadcast_address m) n)"

section \<open>Reading an address plan\<close>

definition parse_parent_base :: "string \<Rightarrow> string \<Rightarrow> ip_addr result" where
  "parse_parent_base parent afi =
     (if CHR ''/'' \<in> set parent then rbind (network_of parent) (\<lambda>n. Inr (fst n))
      else if afi = ''v4''
      then (case ipv4_of_string (if length (filter (\<lambda>c. c = CHR ''.'') parent) = 2 then parent @ ''.0'' else parent) of
              None \<Rightarrow> fail ''invalid IPv4 address'' | Some n \<Rightarrow> Inr (IPv4 n))
      else (case ipv6_of_string
                (if \<not> contains ''::'' parent \<and> length (filter (\<lambda>c. c = CHR '':'') parent) < 7 then parent @ ''::'' else parent) of
              None \<Rightarrow> fail ''invalid IPv6 address'' | Some n \<Rightarrow> Inr (IPv6 n)))"

definition offset_to_int :: "step_value option \<Rightarrow> int \<Rightarrow> int result" where
  "offset_to_int v otherwise =
     (case v of
        None \<Rightarrow> Inr otherwise
      | Some (StepInt n) \<Rightarrow> Inr n
      | Some (StepStr s) \<Rightarrow>
          (case parse_ip s of
             Some a \<Rightarrow> Inr (ip_int a)
           | None \<Rightarrow> (case int_text_base0 s of None \<Rightarrow> fail ''invalid literal for int()'' | Some n \<Rightarrow> Inr n)))"

definition address_plan_step :: "AddressPlan \<Rightarrow> step_value \<times> string" where
  "address_plan_step a = (case ap_increment a of Some v \<Rightarrow> (v, ''increment'') | None \<Rightarrow> (ap_stride a, ''stride''))"

text \<open>\<open>repr\<close> of a text: quoted, with backslash, quote and unprintable characters escaped.\<close>

definition hex_digits :: "nat \<Rightarrow> string" where
  "hex_digits n = [hex_char (n div 16), hex_char (n mod 16)]"

definition repr_char :: "char \<Rightarrow> char \<Rightarrow> string" where
  "repr_char quote c =
     (let n = of_char c :: nat
      in if c = quote \<or> n = 92 then [char_of (92 :: nat), c]
         else if n = 9 then [char_of (92 :: nat), CHR ''t'']
         else if n = 10 then [char_of (92 :: nat), CHR ''n'']
         else if n = 13 then [char_of (92 :: nat), CHR ''r'']
         else if n < 32 \<or> (127 \<le> n \<and> n \<le> 160) \<or> n = 173 then [char_of (92 :: nat), CHR ''x''] @ hex_digits n
         else [c])"

definition repr_str :: "string \<Rightarrow> string" where
  "repr_str s =
     (let single = char_of (39 :: nat); double = char_of (34 :: nat);
          quote = (if single \<in> set s \<and> double \<notin> set s then double else single)
      in quote # concat (map (repr_char quote) s) @ [quote])"

definition resolve_parent_network ::
    "DeviceGroupSpec \<Rightarrow> string \<Rightarrow> (string, string) dict \<Rightarrow> string \<Rightarrow> ValidationIssue list \<times> string option \<times> string option" where
  "resolve_parent_network g role parents p =
     (case ap_parent_network (sp_address_plan g) of
        Some (c # cs) \<Rightarrow> ([], Some (c # cs), Some ''address_plan.parent_network'')
      | _ \<Rightarrow>
          let keys = [case ap_parent_network_key (sp_address_plan g) of None \<Rightarrow> [] | Some k \<Rightarrow> k,
                      sp_role g @ ''_'' @ sp_afi g, role @ ''_'' @ sp_afi g]
          in case find (\<lambda>k. k \<noteq> [] \<and> dict_get parents k \<noteq> None) keys of
               Some k \<Rightarrow> ([], dict_get parents k, Some (''parent_networks['' @ repr_str k @ '']''))
             | None \<Rightarrow> ([issue (p @ ''.address_plan.parent_network_key'') ''missing_parent_network''], None, None))"

section \<open>Addresses of the peers\<close>

definition validate_bound_ip_count :: "string list \<Rightarrow> int \<Rightarrow> string \<Rightarrow> ValidationIssue list" where
  "validate_bound_ip_count ips peer_count p = check (int (length ips) \<noteq> peer_count) p ''ip_count_mismatch''"

text \<open>\<open>str(base + offset + k * stride)\<close>; each sum must be an address.\<close>

definition peer_address :: "ip_addr \<Rightarrow> int \<Rightarrow> int \<Rightarrow> string result" where
  "peer_address base off d =
     rbind (ip_of_int (ip_version base) (ip_int base + off)) (\<lambda>b.
     rbind (ip_of_int (ip_version base) (ip_int b + d)) (\<lambda>a. Inr (ip_str a)))"

definition peer_addresses :: "ip_addr \<Rightarrow> int \<Rightarrow> int \<Rightarrow> int \<Rightarrow> int \<Rightarrow> string list result" where
  "peer_addresses base off start stride n =
     rmap (\<lambda>k. peer_address base off ((start + int k) * stride)) [0 ..< nat n]"

definition generated_addresses :: "AddressPlan \<Rightarrow> ip_addr \<Rightarrow> int \<Rightarrow> string \<Rightarrow> (string list \<times> string list) result" where
  "generated_addresses a base peer_count afi =
     rbind (offset_to_int (ap_a_offset a) (if afi = ''v4'' then 10 else 16)) (\<lambda>a_off.
     rbind (offset_to_int (ap_z_offset a) (a_off + 1)) (\<lambda>z_off.
     rbind (offset_to_int (Some (fst (address_plan_step a))) 2) (\<lambda>stride.
     rbind (peer_addresses base a_off (ap_start_index a) stride peer_count) (\<lambda>a_ips.
     rbind (peer_addresses base z_off (ap_start_index a) stride peer_count) (\<lambda>z_ips.
       Inr (a_ips, z_ips))))))"

definition generated_ips_outside :: "string \<Rightarrow> string \<Rightarrow> string list \<Rightarrow> ValidationIssue list" where
  "generated_ips_outside parent p ips =
     (if CHR ''/'' \<notin> set parent then []
      else case ip_interface parent of
        None \<Rightarrow> []
      | Some n \<Rightarrow> each (\<lambda>q ip. case parse_ip ip of None \<Rightarrow> [] | Some a \<Rightarrow> check (\<not> in_network a n) q ''address_out_of_bounds'') p ips)"

text \<open>The addresses of a plan without explicit ones; any \<open>ValueError\<close> on the way is one issue.\<close>

definition resolve_generated_plan ::
    "AddressPlan \<Rightarrow> string \<Rightarrow> int \<Rightarrow> string \<Rightarrow> string \<Rightarrow> ValidationIssue list \<times> string list \<times> string list" where
  "resolve_generated_plan a parent peer_count afi p =
     (case parse_parent_base parent afi of
        Inl e \<Rightarrow> ([issue p ''invalid_address_plan''], [], [])
      | Inr base \<Rightarrow>
          if wrong_version afi (ip_version base) then ([issue (p @ ''.parent_network'') ''parent_network_afi_mismatch''], [], [])
          else case generated_addresses a base peer_count afi of
            Inl e \<Rightarrow> ([issue p ''invalid_address_plan''], [], [])
          | Inr (a_ips, z_ips) \<Rightarrow>
              (generated_ips_outside parent (p @ ''.a_ips'') a_ips @ generated_ips_outside parent (p @ ''.z_ips'') z_ips
               @ validate_bound_ip_count a_ips peer_count (p @ ''.a_ips'')
               @ validate_bound_ip_count z_ips peer_count (p @ ''.z_ips''), a_ips, z_ips))"

definition resolve_address_plan ::
    "AddressPlan \<Rightarrow> string option \<Rightarrow> int \<Rightarrow> string \<Rightarrow> string \<Rightarrow> ValidationIssue list \<times> string list \<times> string list" where
  "resolve_address_plan a parent peer_count afi p =
     (if explicit_addresses a
      then (validate_bound_ip_count (ap_a_ips a) peer_count (p @ ''.a_ips'')
            @ validate_bound_ip_count (ap_z_ips a) peer_count (p @ ''.z_ips''), ap_a_ips a, ap_z_ips a)
      else case parent of
        Some (c # cs) \<Rightarrow> resolve_generated_plan a (c # cs) peer_count afi p
      | _ \<Rightarrow> ([], [], []))"

text \<open>The addresses of the group so far, and those of all groups so far.\<close>

fun record_duplicate_ips ::
    "string \<Rightarrow> string \<Rightarrow> string list \<Rightarrow> string list \<Rightarrow> string list \<Rightarrow> ValidationIssue list \<times> string list" where
  "record_duplicate_ips p code current bound [] = ([], bound)"
| "record_duplicate_ips p code current bound (ip # ips) =
     (if ip \<in> set current \<or> ip \<in> set bound
      then let (issues, bound') = record_duplicate_ips p code (ip # current) bound ips in (issue p code # issues, bound')
      else record_duplicate_ips p code (ip # current) (bound @ [ip]) ips)"

section \<open>The prefix of a peer\<close>

definition validate_peer_prefix_length :: "int \<Rightarrow> string \<Rightarrow> string \<Rightarrow> ValidationIssue list \<times> int option" where
  "validate_peer_prefix_length n afi p =
     (if n < 0 \<or> n > (if afi = ''v4'' then 32 else 128) then ([issue p ''invalid_prefix_length''], None) else ([], Some n))"

definition effective_peer_prefix_length :: "AddressPlan \<Rightarrow> string \<Rightarrow> bool \<Rightarrow> string \<Rightarrow> ValidationIssue list \<times> int option" where
  "effective_peer_prefix_length a afi generated p =
     (case (ap_prefix_length a, ap_mask a) of
        (Some n, _) \<Rightarrow> validate_peer_prefix_length n afi (p @ ''.prefix_length'')
      | (None, Some text) \<Rightarrow>
          (case int_text text of
             None \<Rightarrow> ([issue (p @ ''.mask'') ''invalid_prefix_length''], None)
           | Some n \<Rightarrow> validate_peer_prefix_length n afi (p @ ''.mask''))
      | (None, None) \<Rightarrow> ([], if generated then Some (if afi = ''v4'' then 31 else 127) else None))"

definition validate_generated_peer_stride :: "AddressPlan \<Rightarrow> string \<Rightarrow> int \<Rightarrow> string \<Rightarrow> ValidationIssue list" where
  "validate_generated_peer_stride a afi n p =
     (let (step, attr) = address_plan_step a
      in case offset_to_int (Some step) 2 of
           Inl e \<Rightarrow> [issue (p @ ''.'' @ attr) ''invalid_stride_value'']
         | Inr stride \<Rightarrow> check (0 < stride \<and> stride < 2 ^ nat ((if afi = ''v4'' then 32 else 128) - n))
                          (p @ ''.'' @ attr) ''incompatible_peer_subnet_stride'')"

definition peer_cidr_for_pair :: "string \<Rightarrow> string \<Rightarrow> int \<Rightarrow> string \<Rightarrow> ValidationIssue list \<times> (ip_addr \<times> nat) option" where
  "peer_cidr_for_pair a_ip z_ip n p =
     (case rbind (network_of (a_ip @ ''/'' @ show_int n)) (\<lambda>a. rbind (network_of (z_ip @ ''/'' @ show_int n)) (\<lambda>z. Inr (a, z))) of
        Inl e \<Rightarrow> ([issue p ''invalid_peer_cidr''], None)
      | Inr (a, z) \<Rightarrow> if a \<noteq> z then ([issue p ''peer_cidr_mismatch''], None) else ([], Some a))"

definition record_peer_cidr :: "(ip_addr \<times> nat) list \<Rightarrow> ip_addr \<times> nat \<Rightarrow> string \<Rightarrow> ValidationIssue list \<times> (ip_addr \<times> nat) list" where
  "record_peer_cidr cidrs c p =
     (if list_ex (networks_overlap c) cidrs then ([issue p ''peer_cidr_overlap''], cidrs) else ([], cidrs @ [c]))"

fun peer_cidrs_from ::
    "string \<Rightarrow> int \<Rightarrow> nat \<Rightarrow> (ip_addr \<times> nat) list \<Rightarrow> (string \<times> string) list
     \<Rightarrow> ValidationIssue list \<times> ResolvedPeer list \<times> (ip_addr \<times> nat) list" where
  "peer_cidrs_from p n i cidrs [] = ([], [], cidrs)"
| "peer_cidrs_from p n i cidrs ((a, z) # pairs) =
     (let (pair_issues, c) = peer_cidr_for_pair a z n (item_path (p @ ''.z_ips'') i);
          (record_issues, cidrs') = (case c of
             None \<Rightarrow> ([], cidrs) | Some net \<Rightarrow> record_peer_cidr cidrs net (item_path (p @ ''.peer_cidrs'') i));
          (issues, peers, cidrs'') = peer_cidrs_from p n (Suc i) cidrs' pairs
      in (pair_issues @ record_issues @ issues,
          \<lparr>rp_a_ip = a, rp_z_ip = z, rp_peer_cidr = map_option ip_interface_str c\<rparr> # peers, cidrs''))"

definition resolve_peer_cidrs ::
    "(ip_addr \<times> nat) list \<Rightarrow> string list \<Rightarrow> string list \<Rightarrow> AddressPlan \<Rightarrow> string \<Rightarrow> string \<Rightarrow> bool
     \<Rightarrow> ValidationIssue list \<times> ResolvedPeer list \<times> (ip_addr \<times> nat) list" where
  "resolve_peer_cidrs cidrs a_ips z_ips a afi p generated =
     (if length a_ips \<noteq> length z_ips then ([issue (p @ ''.peer_cidrs'') ''peer_cidr_count_mismatch''], [], cidrs)
      else let (length_issues, len) = effective_peer_prefix_length a afi generated p
           in case len of
                None \<Rightarrow> (length_issues,
                         map (\<lambda>(x, z). \<lparr>rp_a_ip = x, rp_z_ip = z, rp_peer_cidr = None\<rparr>) (zip a_ips z_ips), cidrs)
              | Some n \<Rightarrow>
                  let stride_issues = (if generated then validate_generated_peer_stride a afi n p else []);
                      (issues, peers, cidrs') = peer_cidrs_from p n 0 cidrs (zip a_ips z_ips)
                  in (length_issues @ stride_issues @ issues, peers, cidrs'))"

section \<open>Addresses of a group\<close>

record AddressRecords =
  ar_bound_ips :: "string list"
  ar_peer_cidrs :: "(ip_addr \<times> nat) list"

record ResolvedAddresses =
  gad_parent_network :: "string option"
  gad_parent_network_source :: "string option"
  gad_a_ips :: "string list"
  gad_z_ips :: "string list"
  gad_peers :: "ResolvedPeer list"

definition resolve_device_group_addresses ::
    "DeviceGroupSpec \<Rightarrow> (string, string) dict \<Rightarrow> string \<Rightarrow> AddressRecords
     \<Rightarrow> ValidationIssue list \<times> ResolvedAddresses \<times> AddressRecords" where
  "resolve_device_group_addresses g parents p r =
     (let a = sp_address_plan g; generated = (\<not> explicit_addresses a); q = p @ ''.address_plan'';
          (parent_issues, parent, source) =
            (if generated then resolve_parent_network g (base_role (sp_role g)) parents p else ([], None, None));
          (plan_issues, a_ips, z_ips) = resolve_address_plan a parent (sp_peer_count g) (sp_afi g) q;
          (ip_issues, ips) = record_duplicate_ips q (if generated then ''duplicate_generated_ip'' else ''duplicate_explicit_ip'')
            [] (ar_bound_ips r) (a_ips @ z_ips);
          (cidr_issues, peers, cidrs) = resolve_peer_cidrs (ar_peer_cidrs r) a_ips z_ips a (sp_afi g) q generated
      in (parent_issues @ plan_issues @ ip_issues @ cidr_issues,
          \<lparr>gad_parent_network = parent, gad_parent_network_source = source, gad_a_ips = a_ips, gad_z_ips = z_ips, gad_peers = peers\<rparr>,
          \<lparr>ar_bound_ips = ips, ar_peer_cidrs = cidrs\<rparr>))"

end
