(* ===== verification/Physical_Inventory.thy ===== *)
theory Physical_Inventory
  imports Bound_Topology Intent_Checks "HOL-Library.Char_ord" "HOL-Library.List_Lexorder"
begin

text \<open>
  The physical inventory (\<open>abstractions/physical_inventory/physical_inventory.py\<close>): the device under
  test, the traffic-generator ports wired to its interfaces, the profile of each interface, and an
  optional second traffic generator to fall back to. The fields that only test configurations carry
  (authentication, mock data, route maps, extras) are left out, and entries are well typed.
\<close>

definition VALID_USAGES :: "string list" where
  "VALID_USAGES = [''cicd'', ''qual'', ''adhoc'', ''retired'']"

record PhysicalInventory =
  inv_device_name :: string
  inv_primary_ixia_chassis_ip :: string
  inv_ixia_ports :: "(string \<times> string) list"
  inv_secondary_ixia_chassis_ip :: "string option"
  inv_basset_pool :: string
  inv_usage :: "string set"
  inv_speed :: string
  inv_default_profile :: "PhysicalLinkRate option"
  inv_profile_overrides :: "(string, PhysicalLinkRate) dict"
  inv_dut_bgp_as :: pyval
  inv_bgpcpp_configerator_path :: "string option"
  inv_openr_configerator_path :: "string option"
  inv_openr_standalone_link :: "OpenRStandaloneLink option"
  inv_fboss_agent_configerator_path :: "string option"
  inv_secondary_ixia_ports :: "(string \<times> string) list"
  inv_network_role :: "NetworkRole option"

section \<open>Profiles of the interfaces\<close>

text \<open>\<open>text.partition("g-")\<close>, \<open>None\<close> without the separator.\<close>

fun partition_rate :: "string \<Rightarrow> (string \<times> string) option" where
  "partition_rate (c # d # cs) =
     (if c = CHR ''g'' \<and> d = CHR ''-'' then Some ([], cs)
      else map_option (\<lambda>(a, b). (c # a, b)) (partition_rate (d # cs)))"
| "partition_rate cs = None"

definition legacy_physical_interface_profile :: "string \<Rightarrow> PhysicalLinkRate result" where
  "legacy_physical_interface_profile speed =
     (case partition_rate speed of
        Some (aggregate, lanes) \<Rightarrow>
          if aggregate = [] \<or> \<not> list_all is_digit aggregate \<or> lanes = [] \<or> \<not> list_all is_digit lanes
          then fail ''legacy physical interface speed must use <rate>g-<lanes>''
          else mk_PhysicalLinkRate \<lparr>plr_aggregate_gbps = int (parse_dec aggregate), plr_lane_count = int (parse_dec lanes)\<rparr>
      | None \<Rightarrow> fail ''legacy physical interface speed must use <rate>g-<lanes>'')"

definition ixia_dut_interfaces :: "(string \<times> string) list \<Rightarrow> string list" where
  "ixia_dut_interfaces ports = filter (\<lambda>i. i \<noteq> []) (map fst ports)"

definition covered_profiles :: "PhysicalInventory \<Rightarrow> (string, PhysicalLinkRate) dict" where
  "covered_profiles v =
     foldl (\<lambda>d i. case dict_get (inv_profile_overrides v) i of None \<Rightarrow> d | Some p \<Rightarrow> dict_set i p d)
       [] (ixia_dut_interfaces (inv_ixia_ports v))"

definition uncovered_interfaces :: "PhysicalInventory \<Rightarrow> string list" where
  "uncovered_interfaces v =
     filter (\<lambda>i. dict_get (covered_profiles v) i = None) (ixia_dut_interfaces (inv_ixia_ports v))"

definition physical_interface_profiles :: "PhysicalInventory \<Rightarrow> (string, PhysicalLinkRate) dict result" where
  "physical_interface_profiles v =
     (if ixia_dut_interfaces (inv_ixia_ports v) = [] then Inr []
      else if uncovered_interfaces v = [] then Inr (covered_profiles v)
      else rbind (case inv_default_profile v of
                    Some p \<Rightarrow> Inr p | None \<Rightarrow> legacy_physical_interface_profile (inv_speed v)) (\<lambda>p.
             Inr (foldl (\<lambda>d i. dict_set i p d) (covered_profiles v) (uncovered_interfaces v))))"

definition check_override :: "string list \<Rightarrow> string \<times> PhysicalLinkRate \<Rightarrow> unit result" where
  "check_override known ip =
     (if fst ip = [] then Inl (Exn TypeError ''physical interface profile keys must be nonempty strings'')
      else if fst ip \<notin> set known then fail ''physical interface profile override targets unknown interface''
      else Inr ())"

definition validate_physical_interface_profiles :: "PhysicalInventory \<Rightarrow> unit result" where
  "validate_physical_interface_profiles v =
     (let known = ixia_dut_interfaces (inv_ixia_ports v) @ ixia_dut_interfaces (inv_secondary_ixia_ports v)
      in rbind (rmap (check_override known) (inv_profile_overrides v)) (\<lambda>_.
         if inv_ixia_ports v = [] then Inr () else rbind (physical_interface_profiles v) (\<lambda>_. Inr ())))"

section \<open>The inventory and its fallback\<close>

definition duplicates :: "string list \<Rightarrow> string list" where
  "duplicates values = sort (filter (\<lambda>x. count_list values x > 1) (remdups values))"

definition validate_ixia_port_mapping :: "string \<Rightarrow> (string \<times> string) list \<Rightarrow> unit result" where
  "validate_ixia_port_mapping field_name ports =
     validated [(ports = [], field_name @ '' must be nonempty''),
       (list_ex (\<lambda>(i, p). i = [] \<or> p = []) ports, field_name @ '' must contain nonempty string interface names''),
       (duplicates (map fst ports) \<noteq> [] \<or> duplicates (map snd ports) \<noteq> [], field_name @ '' contains duplicate mappings'')] ()"

definition mk_PhysicalInventory :: "PhysicalInventory \<Rightarrow> PhysicalInventory result" where
  "mk_PhysicalInventory v =
     (if inv_basset_pool v = [] then fail ''basset_pool must be nonempty''
      else rbind (validate_physical_interface_profiles v) (\<lambda>_.
        if \<not> inv_usage v \<subseteq> set VALID_USAGES then fail ''usage contains invalid values''
        else if inv_secondary_ixia_ports v \<noteq> [] \<and> inv_secondary_ixia_chassis_ip v = None
        then fail ''secondary_ixia_ports requires secondary_ixia_chassis_ip to be set''
        else if inv_secondary_ixia_ports v = [] then Inr v
        else if inv_secondary_ixia_chassis_ip v = Some [] then fail ''secondary_ixia_chassis_ip must be nonempty''
        else rbind (validate_ixia_port_mapping ''ixia_ports'' (inv_ixia_ports v)) (\<lambda>_.
             rbind (validate_ixia_port_mapping ''secondary_ixia_ports'' (inv_secondary_ixia_ports v)) (\<lambda>_.
               if length (inv_ixia_ports v) \<noteq> length (inv_secondary_ixia_ports v)
               then fail ''primary and secondary IXIA port mappings must have equivalent connection indices''
               else Inr v))))"

definition has_secondary_ixia :: "PhysicalInventory \<Rightarrow> bool" where
  "has_secondary_ixia v \<longleftrightarrow>
     inv_secondary_ixia_chassis_ip v \<notin> {None, Some []} \<and> inv_secondary_ixia_ports v \<noteq> []"

definition for_secondary_ixia :: "PhysicalInventory \<Rightarrow> PhysicalInventory result" where
  "for_secondary_ixia v =
     (if \<not> has_secondary_ixia v then fail ''no secondary IXIA mapping is defined''
      else mk_PhysicalInventory (v\<lparr>
        inv_primary_ixia_chassis_ip := the (inv_secondary_ixia_chassis_ip v),
        inv_ixia_ports := inv_secondary_ixia_ports v,
        inv_secondary_ixia_chassis_ip := None,
        inv_secondary_ixia_ports := [],
        inv_profile_overrides :=
          filter (\<lambda>(i, p). i \<in> set (ixia_dut_interfaces (inv_secondary_ixia_ports v))) (inv_profile_overrides v)\<rparr>))"

text \<open>The artifacts are references to the configuration service: their paths.\<close>

definition routing_config_artifacts :: "PhysicalInventory \<Rightarrow> (string, string) dict" where
  "routing_config_artifacts v =
     (case inv_bgpcpp_configerator_path v of Some (c # cs) \<Rightarrow> [(''bgpcpp'', c # cs)] | _ \<Rightarrow> [])
     @ (case inv_fboss_agent_configerator_path v of Some (c # cs) \<Rightarrow> [(''fboss'', c # cs)] | _ \<Rightarrow> [])"

section \<open>Lemmas\<close>

lemma copied_get:
  "dict_get (foldl (\<lambda>d i. case dict_get ov i of None \<Rightarrow> d | Some p \<Rightarrow> dict_set i p d) d ks) i =
     (if i \<in> set ks \<and> dict_get ov i \<noteq> None then dict_get ov i else dict_get d i)"
  by (induction ks arbitrary: d) (auto split: option.splits)

lemma covered_get:
  "dict_get (covered_profiles v) i =
     (if i \<in> set (ixia_dut_interfaces (inv_ixia_ports v)) then dict_get (inv_profile_overrides v) i else None)"
  by (simp add: covered_profiles_def copied_get)

lemma set_all_get:
  "dict_get (foldl (\<lambda>d i. dict_set i p d) d ks) i = (if i \<in> set ks then Some p else dict_get d i)"
  by (induction ks arbitrary: d) auto

lemma set_uncovered:
  "set (uncovered_interfaces v) =
     {i \<in> set (ixia_dut_interfaces (inv_ixia_ports v)). dict_get (inv_profile_overrides v) i = None}"
  by (auto simp: uncovered_interfaces_def covered_get)

lemma profiles_total:
  assumes "physical_interface_profiles v = Inr d"
  shows "dict_get d i \<noteq> None \<longleftrightarrow> i \<in> set (ixia_dut_interfaces (inv_ixia_ports v))"
proof (cases "ixia_dut_interfaces (inv_ixia_ports v) = []")
  case True
  then show ?thesis using assms by (auto simp: physical_interface_profiles_def)
next
  case False
  show ?thesis
  proof (cases "uncovered_interfaces v = []")
    case True
    then have "\<forall>i \<in> set (ixia_dut_interfaces (inv_ixia_ports v)). dict_get (covered_profiles v) i \<noteq> None"
      by (simp add: uncovered_interfaces_def filter_empty_conv)
    moreover have "d = covered_profiles v"
      using assms False True by (simp add: physical_interface_profiles_def)
    ultimately show ?thesis by (metis covered_get)
  next
    case False
    then obtain p where "d = foldl (\<lambda>d i. dict_set i p d) (covered_profiles v) (uncovered_interfaces v)"
      using assms \<open>ixia_dut_interfaces (inv_ixia_ports v) \<noteq> []\<close>
      by (auto simp: physical_interface_profiles_def result_simps)
    then show ?thesis by (simp add: set_all_get set_uncovered covered_get)
  qed
qed

lemma duplicates_empty: "duplicates xs = [] \<longleftrightarrow> distinct xs"
proof -
  have "duplicates xs = [] \<longleftrightarrow> filter (\<lambda>x. count_list xs x > 1) (remdups xs) = []"
    by (metis duplicates_def set_empty set_sort)
  also have "\<dots> \<longleftrightarrow> (\<forall>x \<in> set xs. count_list xs x \<le> 1)"
    by (auto simp: filter_empty_conv not_less)
  also have "\<dots> \<longleftrightarrow> distinct xs"
    by (induction xs) (auto simp: count_list_0_iff split: if_splits)
  finally show ?thesis .
qed

lemma interfaces_of_mapping:
  assumes "validate_ixia_port_mapping f ports = Inr ()"
  shows "ports \<noteq> []" "ixia_dut_interfaces ports = map fst ports" "distinct (map fst ports)" "distinct (map snd ports)"
proof -
  show "ports \<noteq> []" "distinct (map fst ports)" "distinct (map snd ports)"
    using assms by (auto simp: validate_ixia_port_mapping_def validated_def duplicates_empty split: if_splits)
  have "\<forall>(i, p) \<in> set ports. i \<noteq> []"
    using assms by (auto simp: validate_ixia_port_mapping_def validated_def list_ex_iff split: if_splits)
  then show "ixia_dut_interfaces ports = map fst ports"
    by (auto simp: ixia_dut_interfaces_def filter_id_conv)
qed

text \<open>The profile an inventory gives its interfaces exists.\<close>

definition profile_source :: "PhysicalInventory \<Rightarrow> bool" where
  "profile_source v \<longleftrightarrow> inv_default_profile v \<noteq> None \<or> (\<exists>p. legacy_physical_interface_profile (inv_speed v) = Inr p)"

lemma profiles_defined:
  "(\<exists>d. physical_interface_profiles v = Inr d) \<longleftrightarrow>
     (\<forall>i \<in> set (ixia_dut_interfaces (inv_ixia_ports v)). dict_get (inv_profile_overrides v) i \<noteq> None) \<or> profile_source v"
proof (cases "uncovered_interfaces v = []")
  case True
  then have "\<forall>i \<in> set (ixia_dut_interfaces (inv_ixia_ports v)). dict_get (inv_profile_overrides v) i \<noteq> None"
    using set_uncovered [of v] by auto
  then show ?thesis using True by (auto simp: physical_interface_profiles_def)
next
  case False
  then have "\<not> (\<forall>i \<in> set (ixia_dut_interfaces (inv_ixia_ports v)). dict_get (inv_profile_overrides v) i \<noteq> None)"
    using set_uncovered [of v] by (cases "uncovered_interfaces v") auto
  moreover have "ixia_dut_interfaces (inv_ixia_ports v) \<noteq> []"
    using False by (auto simp: uncovered_interfaces_def)
  ultimately show ?thesis using False
    by (auto simp: physical_interface_profiles_def profile_source_def result_simps split: option.splits)
qed

lemma overrides_ok:
  "(\<exists>us. rmap (check_override known) ov = Inr us) \<longleftrightarrow> (\<forall>i \<in> fst ` set ov. i \<noteq> [] \<and> i \<in> set known)"
  by (induction ov) (auto simp: check_override_def rbind_eq_Inr)

lemma profiles_validated:
  "validate_physical_interface_profiles v = Inr () \<longleftrightarrow>
     (\<forall>i \<in> fst ` set (inv_profile_overrides v). i \<noteq> []
        \<and> i \<in> set (ixia_dut_interfaces (inv_ixia_ports v)) \<union> set (ixia_dut_interfaces (inv_secondary_ixia_ports v)))
     \<and> (inv_ixia_ports v = [] \<or> (\<exists>d. physical_interface_profiles v = Inr d))"
proof -
  have "validate_physical_interface_profiles v = Inr () \<longleftrightarrow>
      (\<exists>us. rmap (check_override (ixia_dut_interfaces (inv_ixia_ports v) @ ixia_dut_interfaces (inv_secondary_ixia_ports v)))
         (inv_profile_overrides v) = Inr us)
      \<and> (inv_ixia_ports v = [] \<or> (\<exists>d. physical_interface_profiles v = Inr d))"
    by (auto simp: validate_physical_interface_profiles_def rbind_eq_Inr)
  then show ?thesis unfolding overrides_ok by simp
qed

definition secondary_inventory :: "PhysicalInventory \<Rightarrow> PhysicalInventory" where
  "secondary_inventory v = v\<lparr>
     inv_primary_ixia_chassis_ip := the (inv_secondary_ixia_chassis_ip v),
     inv_ixia_ports := inv_secondary_ixia_ports v, inv_secondary_ixia_chassis_ip := None, inv_secondary_ixia_ports := [],
     inv_profile_overrides :=
       filter (\<lambda>(i, p). i \<in> set (ixia_dut_interfaces (inv_secondary_ixia_ports v))) (inv_profile_overrides v)\<rparr>"

lemma map_of_filter_keys: "map_of (filter (\<lambda>(i, p). P i) xs) i = (if P i then map_of xs i else None)"
  by (induction xs) auto

text \<open>
  C14. The fallback inventory is exact, and not guaranteed. For an accepted inventory,
  \<open>for_secondary_ixia\<close> returns an inventory exactly when a second traffic generator is defined and
  every one of its interfaces has a profile: from an override, the default, or a speed that parses.
  The constructor checks this for the first traffic generator only, so an accepted inventory whose
  speed is malformed and whose overrides cover just the first ports fails when it falls back. What
  is returned binds the second chassis and ports, has no further fallback, and has as many ports as
  before, no interface and no port twice.
\<close>

theorem fallback_inventory_exact:
  assumes "mk_PhysicalInventory v = Inr v"
  shows "(for_secondary_ixia v = Inr s \<longleftrightarrow>
       has_secondary_ixia v \<and> s = secondary_inventory v
       \<and> ((\<forall>i \<in> fst ` set (inv_secondary_ixia_ports v). dict_get (inv_profile_overrides v) i \<noteq> None) \<or> profile_source v))
    \<and> (for_secondary_ixia v = Inr s \<longrightarrow>
       \<not> has_secondary_ixia s \<and> length (inv_ixia_ports s) = length (inv_ixia_ports v)
       \<and> distinct (map fst (inv_ixia_ports s)) \<and> distinct (map snd (inv_ixia_ports s)))"
proof (cases "has_secondary_ixia v")
  case False
  then show ?thesis by (simp add: for_secondary_ixia_def)
next
  case True
  let ?s = "secondary_inventory v"
  have accepted: "inv_basset_pool v \<noteq> []" "inv_usage v \<subseteq> set VALID_USAGES"
      "validate_ixia_port_mapping ''secondary_ixia_ports'' (inv_secondary_ixia_ports v) = Inr ()"
      "length (inv_ixia_ports v) = length (inv_secondary_ixia_ports v)" "validate_physical_interface_profiles v = Inr ()"
    using assms True by (auto simp: mk_PhysicalInventory_def has_secondary_ixia_def rbind_eq_Inr split: if_splits)
  note ports = interfaces_of_mapping [OF accepted(3)]
  have profiles: "(\<exists>d. physical_interface_profiles ?s = Inr d) \<longleftrightarrow>
      (\<forall>i \<in> fst ` set (inv_secondary_ixia_ports v). dict_get (inv_profile_overrides v) i \<noteq> None) \<or> profile_source v"
    unfolding profiles_defined
    by (auto simp: secondary_inventory_def ports map_of_filter_keys profile_source_def)
  have "\<forall>i \<in> fst ` set (inv_profile_overrides v). i \<noteq> []"
    using accepted(5) unfolding profiles_validated by blast
  then have "validate_physical_interface_profiles ?s = Inr () \<longleftrightarrow> (\<exists>d. physical_interface_profiles ?s = Inr d)"
    using ports(1) unfolding profiles_validated [of ?s] by (auto simp: secondary_inventory_def)
  moreover have "mk_PhysicalInventory ?s = Inr s \<longleftrightarrow> s = ?s \<and> validate_physical_interface_profiles ?s = Inr ()"
    using accepted(1,2) by (auto simp: mk_PhysicalInventory_def secondary_inventory_def rbind_eq_Inr split: if_splits)
  moreover have "for_secondary_ixia v = mk_PhysicalInventory ?s"
    using True by (simp add: for_secondary_ixia_def secondary_inventory_def)
  ultimately show ?thesis
    using True profiles ports accepted(4) by (auto simp: has_secondary_ixia_def secondary_inventory_def)
qed

definition demo_inventory :: PhysicalInventory where
  "demo_inventory = \<lparr>inv_device_name = ''rsw1'', inv_primary_ixia_chassis_ip = ''10.0.0.1'',
     inv_ixia_ports = [(''et1'', ''1/1'')], inv_secondary_ixia_chassis_ip = Some ''10.0.0.2'', inv_basset_pool = ''dne.test'',
     inv_usage = {}, inv_speed = ''100g'', inv_default_profile = None,
     inv_profile_overrides = [(''et1'', \<lparr>plr_aggregate_gbps = 100, plr_lane_count = 2\<rparr>)], inv_dut_bgp_as = VInt 65000,
     inv_bgpcpp_configerator_path = Some ''eb/bgpcpp'', inv_openr_configerator_path = None, inv_openr_standalone_link = None,
     inv_fboss_agent_configerator_path = None, inv_secondary_ixia_ports = [(''et2'', ''1/1'')], inv_network_role = Some EB\<rparr>"

lemma demo_inventory_accepted: "mk_PhysicalInventory demo_inventory = Inr demo_inventory"
  by code_simp

theorem fallback_inventory_witness:
  "mk_PhysicalInventory demo_inventory = Inr demo_inventory \<and> (\<forall>s. for_secondary_ixia demo_inventory \<noteq> Inr s)"
proof -
  have "for_secondary_ixia demo_inventory \<noteq> Inr s" for s
    using fallback_inventory_exact [OF demo_inventory_accepted, of s]
    by (auto simp: demo_inventory_def profile_source_def legacy_physical_interface_profile_def)
  then show ?thesis by (simp add: demo_inventory_accepted)
qed

end
