(* ===== verification/Port_Binding.thy ===== *)
theory Port_Binding
  imports Physical_Inventory Route_Binding "HOL-Library.Product_Lexorder"
begin

text \<open>
  Ports of a bound device group (\<open>abstractions/topology/binding.py\<close>): the interface and the
  traffic-generator port of a logical role, and the checks on the ports of all groups together: the
  graph of connections, the legacy indices on a connection, and the number of addresses on an
  interface. Functions return the issues they append, in order.
\<close>

section \<open>The port of a group\<close>

text \<open>Unlike the validator, the binding does not ask for a nonempty role.\<close>

definition binding_is_dut :: "EndpointSpec \<Rightarrow> bool" where
  "binding_is_dut e \<longleftrightarrow> es_role e = ''dut'' \<or> (es_kind e = ''dut'' \<and> es_role e \<notin> set TRAFFIC_ENDPOINT_ROLES)"

definition resolve_port_index :: "string \<Rightarrow> (string, int) dict \<Rightarrow> string \<Rightarrow> ValidationIssue list \<times> int option" where
  "resolve_port_index logical_role port_map p =
     (case dict_get port_map logical_role of
        Some i \<Rightarrow> ([], Some i)
      | None \<Rightarrow> ([issue (p @ ''.port_assignment.logical_role'') ''missing_port_map_role''], None))"

definition physical_interface_profile ::
    "PhysicalInventory \<Rightarrow> string \<Rightarrow> string \<Rightarrow> (ValidationIssue list \<times> PhysicalLinkRate option) result" where
  "physical_interface_profile v dut_interface p =
     rbind (physical_interface_profiles v) (\<lambda>profiles.
       Inr (case dict_get profiles dut_interface of
              Some profile \<Rightarrow> ([], Some profile)
            | None \<Rightarrow> ([issue (p @ ''.physical_interface_profile'') ''missing_physical_interface_profile''], None)))"

definition resolve_ixia_port ::
    "PhysicalInventory \<Rightarrow> int \<Rightarrow> string
     \<Rightarrow> (ValidationIssue list \<times> string option \<times> string option \<times> PhysicalLinkRate option) result" where
  "resolve_ixia_port v port_index p =
     (if inv_ixia_ports v = [] then Inr ([], None, None, None)
      else if port_index < 0 \<or> port_index \<ge> int (length (inv_ixia_ports v))
      then Inr ([issue p ''port_map_index_out_of_range''], None, None, None)
      else let (dut_interface, ixia_port) = inv_ixia_ports v ! nat port_index
           in rbind (physical_interface_profile v dut_interface
                (''physical_inventory.ixia_ports['' @ show_int port_index @ '']'')) (\<lambda>(issues, profile).
                Inr (issues, Some dut_interface, Some ixia_port, profile)))"

record ResolvedDeviceGroupPorts =
  gp_a_endpoint :: EndpointSpec
  gp_z_endpoint :: EndpointSpec
  gp_dut_interface :: "string option"
  gp_ixia_port :: "string option"
  gp_port_assignment :: "ResolvedIxiaPortAssignment option"

definition has_ixia_endpoint :: "EndpointSpec \<Rightarrow> EndpointSpec \<Rightarrow> bool" where
  "has_ixia_endpoint a z \<longleftrightarrow> endpoint_is_ixia (Some a) \<or> endpoint_is_ixia (Some z)"

definition resolve_device_group_ports ::
    "DeviceGroupSpec \<Rightarrow> (string, EndpointSpec) dict \<Rightarrow> PhysicalInventory \<Rightarrow> (string, int) dict \<Rightarrow> string
     \<Rightarrow> (ValidationIssue list \<times> ResolvedDeviceGroupPorts) result" where
  "resolve_device_group_ports g endpoints v port_map p =
     rbind (dict_index endpoints (sp_a_endpoint g)) (\<lambda>a.
     rbind (dict_index endpoints (sp_z_endpoint g)) (\<lambda>z.
       let unresolved = \<lparr>gp_a_endpoint = a, gp_z_endpoint = z, gp_dut_interface = None, gp_ixia_port = None,
                         gp_port_assignment = None\<rparr>
       in if \<not> has_ixia_endpoint a z then Inr ([], unresolved)
          else case sp_port_assignment g of
            None \<Rightarrow> Inr ([], unresolved)
          | Some authored \<Rightarrow>
              (case resolve_port_index (ipa_logical_role authored) port_map p of
                 (issues, None) \<Rightarrow> Inr (issues, unresolved)
               | (issues, Some i) \<Rightarrow>
                   rbind (resolve_ixia_port v i (p @ ''.port_assignment.logical_role'')) (\<lambda>(more_issues, dut_interface, ixia_port, profile).
                     Inr (issues @ more_issues,
                       unresolved\<lparr>gp_dut_interface := dut_interface, gp_ixia_port := ixia_port,
                         gp_port_assignment := (case (dut_interface, ixia_port, profile) of
                           (Some d, Some x, Some r) \<Rightarrow>
                             Some \<lparr>pa_logical_role = ipa_logical_role authored, pa_dut_interface = d, pa_ixia_port = x,
                               pa_physical_inventory_index = i, pa_reuse_group = ipa_reuse_group authored, pa_profile = r,
                               pa_endpoint_label_style = ipa_endpoint_label_style authored\<rparr>
                         | _ \<Rightarrow> None)\<rparr>)))))"

section \<open>The graph of connections\<close>

text \<open>
  The first owner of each interface, port, connection and reuse group. Of an earlier connection
  only its reuse group is compared.
\<close>

record PortGraph =
  po_interface :: "(string, string) dict"
  po_ixia_port :: "(string, string) dict"
  po_reuse_group :: "(string, string \<times> string) dict"
  po_connection :: "(string \<times> string, string option) dict"

definition empty_port_graph :: PortGraph where
  "empty_port_graph = \<lparr>po_interface = [], po_ixia_port = [], po_reuse_group = [], po_connection = []\<rparr>"

text \<open>\<open>if owner.get(k) is None: owner[k] = v\<close>, and its disagreement with \<open>v\<close>.\<close>

definition claim :: "'k \<Rightarrow> 'v \<Rightarrow> ('k, 'v) dict \<Rightarrow> ('k, 'v) dict" where
  "claim k v d = (if dict_get d k = None then dict_set k v d else d)"

definition disputed :: "('k, 'v) dict \<Rightarrow> 'k \<Rightarrow> 'v \<Rightarrow> bool" where
  "disputed d k v \<longleftrightarrow> (case dict_get d k of None \<Rightarrow> False | Some w \<Rightarrow> w \<noteq> v)"

definition claim_port :: "string \<Rightarrow> PortGraph \<Rightarrow> ResolvedIxiaPortAssignment \<Rightarrow> ValidationIssue list \<times> PortGraph" where
  "claim_port p s a =
     (let connection = (pa_dut_interface a, pa_ixia_port a); q = p @ ''.port_assignment.reuse_group'';
          entry = ''physical_inventory.ixia_ports['' @ show_int (pa_physical_inventory_index a) @ '']''
      in (check (disputed (po_interface s) (pa_dut_interface a) (pa_ixia_port a)) entry ''ambiguous_physical_port_connection''
          @ check (disputed (po_ixia_port s) (pa_ixia_port a) (pa_dut_interface a)) entry ''ambiguous_physical_port_connection''
          @ on_some (\<lambda>r. check (disputed (po_reuse_group s) r connection) q ''port_reuse_group_connection_mismatch'') (pa_reuse_group a)
          @ (case dict_get (po_connection s) connection of
               None \<Rightarrow> []
             | Some prior \<Rightarrow>
                 if prior = None \<or> pa_reuse_group a = None then [issue q ''physical_port_reuse_not_allowed'']
                 else check (prior \<noteq> pa_reuse_group a) q ''physical_port_reuse_group_mismatch''),
          \<lparr>po_interface = claim (pa_dut_interface a) (pa_ixia_port a) (po_interface s),
           po_ixia_port = claim (pa_ixia_port a) (pa_dut_interface a) (po_ixia_port s),
           po_reuse_group = (case pa_reuse_group a of None \<Rightarrow> po_reuse_group s | Some r \<Rightarrow> claim r connection (po_reuse_group s)),
           po_connection = claim connection (pa_reuse_group a) (po_connection s)\<rparr>))"

fun port_graph_issues :: "nat \<Rightarrow> PortGraph \<Rightarrow> ResolvedIxiaPortAssignment option list \<Rightarrow> ValidationIssue list" where
  "port_graph_issues i s [] = []"
| "port_graph_issues i s (None # as) = port_graph_issues (Suc i) s as"
| "port_graph_issues i s (Some a # as) =
     (let (issues, s') = claim_port (item_path ''device_groups'' i) s a in issues @ port_graph_issues (Suc i) s' as)"

definition validate_resolved_port_graph :: "BoundGroup list \<Rightarrow> ValidationIssue list" where
  "validate_resolved_port_graph gs = port_graph_issues 0 empty_port_graph (map gb_port_assignment gs)"

section \<open>Legacy indices on a connection\<close>

definition legacy_index_leaves :: "nat \<Rightarrow> BoundGroup \<Rightarrow> (int option \<times> string) list" where
  "legacy_index_leaves i g =
     (if gb_children g \<noteq> []
      then map (\<lambda>(k, c). (ic_legacy_device_group_index (bc_spec c),
                  item_path (item_path ''device_groups'' i @ ''.ixia_children'') k @ ''.legacy_ixia_device_group_index''))
             (enumerate 0 (gb_children g))
      else [(sp_legacy_ixia_device_group_index (gb_spec g), item_path ''device_groups'' i @ ''.legacy_ixia_device_group_index'')])"

fun connection_indices ::
    "string \<times> string \<Rightarrow> ((string \<times> string) \<times> int) list \<Rightarrow> (int option \<times> string) list
     \<Rightarrow> ValidationIssue list \<times> ((string \<times> string) \<times> int) list" where
  "connection_indices c seen [] = ([], seen)"
| "connection_indices c seen ((None, p) # leaves) = connection_indices c seen leaves"
| "connection_indices c seen ((Some n, p) # leaves) =
     (if (c, n) \<in> set seen
      then let (issues, seen') = connection_indices c seen leaves in (issue p ''duplicate_ixia_device_group_index'' # issues, seen')
      else connection_indices c (seen @ [(c, n)]) leaves)"

fun legacy_index_issues :: "nat \<Rightarrow> ((string \<times> string) \<times> int) list \<Rightarrow> BoundGroup list \<Rightarrow> ValidationIssue list" where
  "legacy_index_issues i seen [] = []"
| "legacy_index_issues i seen (g # gs) =
     (case gb_port_assignment g of
        None \<Rightarrow> legacy_index_issues (Suc i) seen gs
      | Some a \<Rightarrow>
          (let (issues, seen') = connection_indices (pa_dut_interface a, pa_ixia_port a) seen (legacy_index_leaves i g)
           in issues @ legacy_index_issues (Suc i) seen' gs))"

definition validate_legacy_device_group_indices :: "BoundGroup list \<Rightarrow> ValidationIssue list" where
  "validate_legacy_device_group_indices gs = legacy_index_issues 0 [] gs"

section \<open>Addresses of an interface\<close>

definition EOS_SECONDARY_IP_LIMIT_PER_INTERFACE_AFI :: nat where
  "EOS_SECONDARY_IP_LIMIT_PER_INTERFACE_AFI = 500"

definition record_eos_secondary_ip_count ::
    "string option \<Rightarrow> string \<Rightarrow> string \<Rightarrow> string list \<Rightarrow> (string \<times> string, nat) dict \<Rightarrow> (string \<times> string, nat) dict" where
  "record_eos_secondary_ip_count interface endpoint_os afi ips counts =
     (case interface of
        Some (c # cs) \<Rightarrow>
          if endpoint_os \<noteq> ''eos'' \<or> ips = [] then counts
          else dict_set (c # cs, afi) (dict_get_or counts (c # cs, afi) 0 + length ips) counts
      | _ \<Rightarrow> counts)"

definition record_group_ips :: "(string \<times> string, nat) dict \<Rightarrow> BoundGroup \<Rightarrow> (string \<times> string, nat) dict" where
  "record_group_ips counts g =
     record_eos_secondary_ip_count (gb_z_interface g) (gb_z_os g) (sp_afi (gb_spec g)) (gb_z_ips g)
       (record_eos_secondary_ip_count (gb_a_interface g) (gb_a_os g) (sp_afi (gb_spec g)) (gb_a_ips g) counts)"

definition validate_eos_secondary_ip_limits :: "BoundGroup list \<Rightarrow> ValidationIssue list" where
  "validate_eos_secondary_ip_limits gs =
     (let counts = foldl record_group_ips [] gs
      in concat (map (\<lambda>(interface, afi).
           check (dict_get_or counts (interface, afi) 0 > EOS_SECONDARY_IP_LIMIT_PER_INTERFACE_AFI)
             (''interfaces['' @ interface @ ''].'' @ afi) ''eos_secondary_ip_limit_exceeded'')
         (sort (dict_keys counts))))"

end
