(* ===== verification/Bgp_Binding.thy ===== *)
theory Bgp_Binding
  imports Physical_Inventory Address_Binding
begin

text \<open>
  BGP values of a bound device group (\<open>abstractions/topology/binding.py\<close>): the relationship to its
  peers, its peer group, and the two AS numbers with the source each was read from.
\<close>

section \<open>Relationship and peer group\<close>

definition LEGACY_PEER_RELATIONSHIPS :: "(string, PeerRelationship) dict" where
  "LEGACY_PEER_RELATIONSHIPS =
     [(''uplink'', EXTERNAL), (''ebgp'', EXTERNAL), (''ebgp_ug_ctrl'', EXTERNAL), (''ebgp_ug_held'', EXTERNAL),
      (''ebgp_ug_disp'', EXTERNAL), (''ebgp_ug_spare'', EXTERNAL), (''ebgp_fast'', EXTERNAL), (''ebgp_slow'', EXTERNAL),
      (''ibgp'', INTERNAL), (''ibgp_dc_p1'', INTERNAL), (''ibgp_dc_p2'', INTERNAL), (''ibgp_dc_p3'', INTERNAL),
      (''ibgp_dc_p4'', INTERNAL), (''ibgp_mp_p1'', INTERNAL), (''ibgp_mp_p2'', INTERNAL), (''ibgp_mp_p3'', INTERNAL),
      (''ibgp_mp_p4'', INTERNAL), (''ibgp_ug_keep_initial'', INTERNAL), (''ibgp_ug_keep_mutated'', INTERNAL),
      (''ibgp_ug_var1'', INTERNAL), (''ibgp_ug_var2'', INTERNAL), (''bgpmon'', MONITOR)]"

definition resolve_peer_relationship ::
    "DeviceGroupSpec \<Rightarrow> string \<Rightarrow> PhysicalInventory \<Rightarrow> ValidationIssue list \<times> PeerRelationship option" where
  "resolve_peer_relationship g p v =
     (case sp_peer_relationship g of
        Some r \<Rightarrow> ([], Some r)
      | None \<Rightarrow>
          let r = dict_get LEGACY_PEER_RELATIONSHIPS (sp_role g)
          in (check (r = None \<and> inv_network_role v = Some EB) (p @ ''.peer_relationship'') ''missing_peer_relationship'', r))"

definition resolve_peer_group ::
    "DeviceGroupSpec \<Rightarrow> (string, peer_group_ref) dict \<Rightarrow> string \<Rightarrow> ValidationIssue list \<times> peer_group_ref option" where
  "resolve_peer_group g peer_groups p =
     (case sp_peer_group g of
        Some (PeerGroupName n) \<Rightarrow>
          (case dict_get peer_groups n of
             Some r \<Rightarrow> ([], Some r)
           | None \<Rightarrow> ([issue (p @ ''.peer_group'') ''missing_peer_group''], None))
      | r \<Rightarrow> ([], r))"

section \<open>AS numbers\<close>

definition as_numbers_source :: "string \<Rightarrow> string" where
  "as_numbers_source key = ''as_numbers['' @ repr_str key @ '']''"

definition validate_asn_value :: "pyval \<Rightarrow> string \<Rightarrow> ValidationIssue list" where
  "validate_asn_value value p =
     (case value of
        VInt n \<Rightarrow> check (n \<le> 0 \<or> n > IXIA_MAX_4BYTE_ASN) p ''invalid_asn''
      | _ \<Rightarrow> [issue p ''invalid_asn''])"

definition valid_asn_or_none :: "pyval \<Rightarrow> int option" where
  "valid_asn_or_none value =
     (case value of VInt n \<Rightarrow> if n \<le> 0 \<or> n > IXIA_MAX_4BYTE_ASN then None else Some n | _ \<Rightarrow> None)"

text \<open>It returns the value itself, an integer, when no issue is found.\<close>

definition validated_asn_or_none :: "pyval \<Rightarrow> string \<Rightarrow> ValidationIssue list \<times> int option" where
  "validated_asn_or_none value p =
     (let issues = validate_asn_value value p
      in (issues, case value of VInt n \<Rightarrow> if issues = [] then Some n else None | _ \<Rightarrow> None))"

type_synonym asn_result = "ValidationIssue list \<times> int option \<times> string option"

definition sourced :: "ValidationIssue list \<times> int option \<Rightarrow> string \<Rightarrow> asn_result" where
  "sourced r source = (fst r, snd r, Some source)"

definition asn_by_name :: "string \<Rightarrow> (string, pyval) dict \<Rightarrow> string \<Rightarrow> asn_result" where
  "asn_by_name key as_numbers p =
     (case dict_get as_numbers key of
        Some n \<Rightarrow> sourced (validated_asn_or_none n p) (as_numbers_source key)
      | None \<Rightarrow> ([issue p ''missing_as_number''], None, None))"

definition resolve_remote_asn ::
    "DeviceGroupSpec \<Rightarrow> peer_group_ref option \<Rightarrow> (string, pyval) dict \<Rightarrow> string \<Rightarrow> asn_result" where
  "resolve_remote_asn g peer_group as_numbers p =
     (case peer_group of
        Some (PeerGroupObject pg) \<Rightarrow>
          (let q = p @ ''.peer_group.remote_asn''
           in case bpg_remote_asn pg of
                VInt n \<Rightarrow> sourced (validated_asn_or_none (VInt n) q) ''peer_group.remote_asn''
              | VBool b \<Rightarrow> sourced (validated_asn_or_none (VBool b) q) ''peer_group.remote_asn''
              | VStr key \<Rightarrow> asn_by_name key as_numbers q
              | _ \<Rightarrow> ([], None, None))
      | _ \<Rightarrow>
          (let base = base_role (sp_role g)
           in if dict_get as_numbers (sp_role g) \<noteq> None then asn_by_name (sp_role g) as_numbers (p @ ''.role'')
              else asn_by_name base as_numbers (p @ ''.role'')))"

definition resolve_device_group_remote_asn ::
    "DeviceGroupSpec \<Rightarrow> peer_group_ref option \<Rightarrow> (string, pyval) dict \<Rightarrow> string \<Rightarrow> asn_result" where
  "resolve_device_group_remote_asn g peer_group as_numbers p =
     (case (sp_peer_group g, peer_group) of
        (Some (PeerGroupName n), None) \<Rightarrow> ([], None, None)
      | _ \<Rightarrow> resolve_remote_asn g peer_group as_numbers p)"

definition inventory_asn :: "PhysicalInventory \<Rightarrow> asn_result" where
  "inventory_asn v =
     (let n = valid_asn_or_none (inv_dut_bgp_as v)
      in ([], n, if n = None then None else Some ''physical_inventory.dut_bgp_as''))"

definition resolve_local_asn :: "peer_group_ref option \<Rightarrow> (string, pyval) dict \<Rightarrow> PhysicalInventory \<Rightarrow> string \<Rightarrow> asn_result" where
  "resolve_local_asn peer_group as_numbers v p =
     (case peer_group of
        Some (PeerGroupObject pg) \<Rightarrow>
          (let q = p @ ''.peer_group.local_asn''
           in case bpg_local_asn pg of
                VNone \<Rightarrow> inventory_asn v
              | VInt n \<Rightarrow> sourced (validated_asn_or_none (VInt n) q) ''peer_group.local_asn''
              | VBool b \<Rightarrow> sourced (validated_asn_or_none (VBool b) q) ''peer_group.local_asn''
              | VStr key \<Rightarrow> asn_by_name key as_numbers q
              | other \<Rightarrow> (validate_asn_value other q, None, None))
      | _ \<Rightarrow> inventory_asn v)"

definition is_eb_inventory_identity_asn_fallback :: "NetworkRole option \<Rightarrow> string option \<Rightarrow> bool" where
  "is_eb_inventory_identity_asn_fallback role source \<longleftrightarrow> role = Some EB \<and> source = Some ''physical_inventory.dut_bgp_as''"

definition validate_standard_bgp_role_asn_relationship ::
    "PeerRelationship option \<Rightarrow> NetworkRole option \<Rightarrow> int option \<Rightarrow> string option \<Rightarrow> int option \<Rightarrow> string \<Rightarrow> ValidationIssue list" where
  "validate_standard_bgp_role_asn_relationship relationship role local_asn source remote_asn p =
     (case (local_asn, remote_asn) of
        (Some l, Some r) \<Rightarrow>
          if relationship = Some INTERNAL \<and> l \<noteq> r
          then check (\<not> is_eb_inventory_identity_asn_fallback role source) (p @ ''.role'') ''asn_relationship_mismatch''
          else check (relationship \<in> {Some EXTERNAL, Some MONITOR} \<and> l = r) (p @ ''.role'') ''asn_relationship_mismatch''
      | _ \<Rightarrow> [])"

record ResolvedDeviceGroupBgp =
  gbgp_peer_group :: "peer_group_ref option"
  gbgp_local_asn :: "int option"
  gbgp_local_asn_source :: "string option"
  gbgp_remote_asn :: "int option"
  gbgp_remote_asn_source :: "string option"

definition resolve_device_group_bgp ::
    "DeviceGroupSpec \<Rightarrow> PeerRelationship option \<Rightarrow> (string, peer_group_ref) dict \<Rightarrow> (string, pyval) dict \<Rightarrow> PhysicalInventory
     \<Rightarrow> string \<Rightarrow> ValidationIssue list \<times> ResolvedDeviceGroupBgp" where
  "resolve_device_group_bgp g relationship peer_groups as_numbers v p =
     (let (group_issues, peer_group) = resolve_peer_group g peer_groups p;
          (remote_issues, remote_asn, remote_source) = resolve_device_group_remote_asn g peer_group as_numbers p;
          (local_issues, local_asn, local_source) = resolve_local_asn peer_group as_numbers v p
      in (group_issues @ remote_issues @ local_issues
          @ validate_standard_bgp_role_asn_relationship relationship (inv_network_role v) local_asn local_source remote_asn p,
          \<lparr>gbgp_peer_group = peer_group, gbgp_local_asn = local_asn, gbgp_local_asn_source = local_source,
           gbgp_remote_asn = remote_asn, gbgp_remote_asn_source = remote_source\<rparr>))"

section \<open>Lemmas\<close>

lemma asn_accepted:
  "validated_asn_or_none value p = ([], n) \<Longrightarrow> \<exists>k. n = Some k \<and> value = VInt k \<and> 0 < k \<and> k < 2 ^ 32"
  by (auto simp: validated_asn_or_none_def validate_asn_value_def IXIA_MAX_4BYTE_ASN_def Let_def split: pyval.splits)

definition asn_range :: "int option \<Rightarrow> bool" where
  "asn_range x \<longleftrightarrow> (case x of None \<Rightarrow> True | Some n \<Rightarrow> 0 < n \<and> n < 2 ^ 32)"

lemma sourced_accepted: "sourced (validated_asn_or_none value p) s = ([], n, src) \<Longrightarrow> asn_range n"
  by (cases "validated_asn_or_none value p") (auto simp: sourced_def asn_range_def dest: asn_accepted)

lemma asn_by_name_accepted: "asn_by_name key as_numbers p = ([], n, src) \<Longrightarrow> asn_range n"
  by (auto simp: asn_by_name_def split: option.splits dest: sourced_accepted)

lemma inventory_asn_range: "inventory_asn v = (issues, n, src) \<Longrightarrow> asn_range n"
  by (auto simp: inventory_asn_def valid_asn_or_none_def asn_range_def IXIA_MAX_4BYTE_ASN_def Let_def
      split: pyval.splits if_splits)

lemma none_in_range [simp]: "asn_range None"
  by (simp add: asn_range_def)

lemma remote_asn_accepted: "resolve_remote_asn g r as_numbers p = ([], n, src) \<Longrightarrow> asn_range n"
  unfolding resolve_remote_asn_def Let_def
  by (auto split: option.splits peer_group_ref.splits pyval.splits if_splits dest: sourced_accepted asn_by_name_accepted)

lemma device_group_remote_asn_accepted: "resolve_device_group_remote_asn g r as_numbers p = ([], n, src) \<Longrightarrow> asn_range n"
  by (auto simp: resolve_device_group_remote_asn_def split: option.splits peer_group_ref.splits dest: remote_asn_accepted)

lemma local_asn_accepted: "resolve_local_asn r as_numbers v p = ([], n, src) \<Longrightarrow> asn_range n"
  unfolding resolve_local_asn_def Let_def
  by (auto split: option.splits peer_group_ref.splits pyval.splits dest: sourced_accepted asn_by_name_accepted inventory_asn_range)

text \<open>What the relationship asks of the two AS numbers.\<close>

definition asns_fit :: "PeerRelationship option \<Rightarrow> NetworkRole option \<Rightarrow> int option \<Rightarrow> string option \<Rightarrow> int option \<Rightarrow> bool" where
  "asns_fit relationship role local_asn source remote_asn \<longleftrightarrow>
     (case (relationship, local_asn, remote_asn) of
        (Some INTERNAL, Some l, Some r) \<Rightarrow> l = r \<or> is_eb_inventory_identity_asn_fallback role source
      | (Some _, Some l, Some r) \<Rightarrow> l \<noteq> r
      | _ \<Rightarrow> True)"

lemma relationship_accepted:
  "validate_standard_bgp_role_asn_relationship relationship role l source r p = [] \<longleftrightarrow> asns_fit relationship role l source r"
  by (cases relationship; cases "the relationship")
    (auto simp: validate_standard_bgp_role_asn_relationship_def asns_fit_def split: option.splits)

lemma bgp_accepted:
  assumes "resolve_device_group_bgp g relationship peer_groups as_numbers v p = ([], b)"
  shows "asn_range (gbgp_local_asn b)" "asn_range (gbgp_remote_asn b)"
    "asns_fit relationship (inv_network_role v) (gbgp_local_asn b) (gbgp_local_asn_source b) (gbgp_remote_asn b)"
    "resolve_peer_group g peer_groups p = ([], gbgp_peer_group b)"
  using assms
  by (auto simp: resolve_device_group_bgp_def relationship_accepted split: prod.splits
      dest: local_asn_accepted device_group_remote_asn_accepted)

end
