(* ===== verification/Topology_Binding.thy ===== *)
theory Topology_Binding
  imports Address_Binding Port_Binding Bgp_Binding
begin

text \<open>
  Binding a topology intent to an inventory (\<open>abstractions/topology/binding.py\<close>): the operating
  systems of the endpoints, each device group with its ports, addresses, BGP values and routes, the
  partition families of bound groups, and the bound topology the planner reads. Every step appends
  issues; the topology is built only when there are none. The dictionary of resolved device groups,
  whose values are fields of the groups, is left out.
\<close>

section \<open>Inventory and operating systems\<close>

definition endpoints_by_name :: "LogicalTopology \<Rightarrow> (string, EndpointSpec) dict" where
  "endpoints_by_name t = foldl (\<lambda>d e. dict_set (es_name e) e d) [] (lt_endpoints t)"

definition validate_physical_inventory :: "LogicalTopology \<Rightarrow> PhysicalInventory \<Rightarrow> ValidationIssue list" where
  "validate_physical_inventory t v =
     (let endpoints = endpoints_by_name t;
          emulated = list_ex (\<lambda>g. endpoint_is_ixia (dict_get endpoints (sp_a_endpoint g))
                                 \<or> endpoint_is_ixia (dict_get endpoints (sp_z_endpoint g))) (lt_device_groups t)
      in check (inv_device_name v = []) ''physical_inventory.device_name'' ''missing_physical_inventory_field''
         @ check (emulated \<and> inv_primary_ixia_chassis_ip v = []) ''physical_inventory.ixia_chassis_ip'' ''missing_physical_inventory_field''
         @ check (emulated \<and> inv_ixia_ports v = []) ''physical_inventory.ixia_ports'' ''missing_ixia_ports''
         @ (if inv_dut_bgp_as v = VNone then [issue ''physical_inventory.dut_bgp_as'' ''missing_physical_inventory_field'']
            else validate_asn_value (inv_dut_bgp_as v) ''physical_inventory.dut_bgp_as''))"

definition normalize_backend :: "string \<Rightarrow> string \<Rightarrow> ValidationIssue list \<times> string" where
  "normalize_backend text p =
     (let normalized = lower text;
          matches = (if contains ''fboss'' normalized then [''fboss''] else [])
            @ (if contains ''eos'' normalized \<or> contains ''arista'' normalized then [''eos''] else [])
            @ (if contains ''ixia'' normalized then [''ixia''] else [])
      in case matches of
           [] \<Rightarrow> ([], ''unknown'')
         | [m] \<Rightarrow> ([], m)
         | _ \<Rightarrow> ([issue p ''ambiguous_physical_inventory_backend''], ''unknown''))"

text \<open>
  The attributes \<open>os\<close>, \<open>platform\<close>, \<open>backend\<close> and \<open>device_os\<close> are read by name when the inventory
  object has them, which the class itself does not: \<open>backends\<close> is what it has, as text.
\<close>

definition resolve_endpoint_os :: "PhysicalInventory \<Rightarrow> (string, string) dict \<Rightarrow> EndpointSpec \<Rightarrow> ValidationIssue list \<times> string" where
  "resolve_endpoint_os v backends e =
     (case es_required_os e of
        Some (c # cs) \<Rightarrow> ([], c # cs)
      | _ \<Rightarrow>
          (let p = ''endpoints.'' @ es_name e; missing = [issue p ''missing_physical_inventory_backend'']
           in if \<not> binding_is_dut e then ([], ''ixia'')
              else case find (\<lambda>attr. dict_get backends attr \<noteq> None) [''os'', ''platform'', ''backend'', ''device_os''] of
                Some attr \<Rightarrow>
                  (case dict_get backends attr of
                     Some (c # cs) \<Rightarrow> normalize_backend (c # cs) p
                   | _ \<Rightarrow> (missing, ''unknown''))
              | None \<Rightarrow>
                  if given (inv_bgpcpp_configerator_path v) then ([], ''eos'')
                  else if given (inv_fboss_agent_configerator_path v) then ([], ''fboss'')
                  else (missing, ''unknown'')))"

definition default_routing_driver :: "string \<Rightarrow> string option" where
  "default_routing_driver endpoint_os =
     (if endpoint_os = ''eos'' then Some ''bgpcpp'' else if endpoint_os = ''fboss'' then Some ''fboss'' else None)"

section \<open>Device groups\<close>

record BindingContext =
  bx_inventory :: PhysicalInventory
  bx_port_map :: "(string, int) dict"
  bx_parent_networks :: "(string, string) dict"
  bx_peer_groups :: "(string, peer_group_ref) dict"
  bx_as_numbers :: "(string, pyval) dict"
  bx_endpoint_by_name :: "(string, EndpointSpec) dict"
  bx_endpoint_os :: "(string, string) dict"

definition build_bound_device_group ::
    "BindingContext \<Rightarrow> DeviceGroupSpec \<Rightarrow> ResolvedDeviceGroupPorts \<Rightarrow> ResolvedAddresses \<Rightarrow> ResolvedDeviceGroupBgp
     \<Rightarrow> PeerRelationship option \<Rightarrow> BoundGroup result" where
  "build_bound_device_group x g ports addresses bgp relationship =
     rbind (dict_index (bx_endpoint_os x) (sp_a_endpoint g)) (\<lambda>a_os.
     rbind (dict_index (bx_endpoint_os x) (sp_z_endpoint g)) (\<lambda>z_os.
       Inr \<lparr>gb_spec = g,
         gb_a_interface = (if binding_is_dut (gp_a_endpoint ports) then gp_dut_interface ports else None),
         gb_z_interface = (if binding_is_dut (gp_z_endpoint ports) then gp_dut_interface ports else None),
         gb_ixia_port = gp_ixia_port ports, gb_a_ips = gad_a_ips addresses, gb_z_ips = gad_z_ips addresses,
         gb_peer_cidrs = map rp_peer_cidr (gad_peers addresses), gb_a_os = a_os, gb_z_os = z_os,
         gb_routing_driver = (if given (sp_routing_driver g) then sp_routing_driver g else default_routing_driver a_os),
         gb_parent_network = gad_parent_network addresses, gb_local_asn = gbgp_local_asn bgp,
         gb_remote_asn = gbgp_remote_asn bgp, gb_peer_group = gbgp_peer_group bgp,
         gb_port_assignment = gp_port_assignment ports, gb_peer_relationship = relationship,
         gb_provenance = \<lparr>pv_parent_network_source = gad_parent_network_source addresses,
           pv_local_asn_source = gbgp_local_asn_source bgp, pv_remote_asn_source = gbgp_remote_asn_source bgp\<rparr>,
         gb_prefix_advertisements = [], gb_children = []\<rparr>))"

definition bind_device_group ::
    "BindingContext \<Rightarrow> nat \<Rightarrow> AddressRecords \<Rightarrow> DeviceGroupSpec \<Rightarrow> (ValidationIssue list \<times> BoundGroup \<times> AddressRecords) result" where
  "bind_device_group x i r g =
     (let p = item_path ''device_groups'' i;
          (relationship_issues, relationship) = resolve_peer_relationship g p (bx_inventory x)
      in rbind (resolve_device_group_ports g (bx_endpoint_by_name x) (bx_inventory x) (bx_port_map x) p) (\<lambda>(port_issues, ports).
         let (address_issues, addresses, r') = resolve_device_group_addresses g (bx_parent_networks x) p r;
             (bgp_issues, bgp) = resolve_device_group_bgp g relationship (bx_peer_groups x) (bx_as_numbers x) (bx_inventory x) p
         in rbind (build_bound_device_group x g ports addresses bgp relationship) (\<lambda>bound.
              Inr (relationship_issues @ port_issues @ address_issues @ bgp_issues, bound, r'))))"

fun bind_device_groups ::
    "BindingContext \<Rightarrow> nat \<Rightarrow> AddressRecords \<Rightarrow> DeviceGroupSpec list \<Rightarrow> (ValidationIssue list \<times> BoundGroup list) result" where
  "bind_device_groups x i r [] = Inr ([], [])"
| "bind_device_groups x i r (g # gs) =
     rbind (bind_device_group x i r g) (\<lambda>(issues, bound, r').
     rbind (bind_device_groups x (Suc i) r' gs) (\<lambda>(more, rest). Inr (issues @ more, bound # rest)))"

text \<open>A failure to resolve an advertisement is an issue, when it is a missing key or a bad value.\<close>

definition attempt_advertisement ::
    "(string, ResolvedPrefixSet) dict \<Rightarrow> BoundGroup \<Rightarrow> string \<times> PrefixAdvertisement
     \<Rightarrow> (ValidationIssue list \<times> BoundAdvertisement list) result" where
  "attempt_advertisement sets g pa =
     (case resolve_prefix_advertisement g (snd pa) sets of
        Inr r \<Rightarrow> Inr ([], [r])
      | Inl e \<Rightarrow>
          if isinstance e KeyError then Inr ([issue (fst pa @ ''.prefix_set'') ''unknown_prefix_set''], [])
          else if isinstance e ValueError then Inr ([issue (fst pa) ''invalid_prefix_advertisement_resolution''], [])
          else Inl e)"

definition bind_group_advertisements ::
    "(string, ResolvedPrefixSet) dict \<Rightarrow> nat \<times> BoundGroup \<Rightarrow> (ValidationIssue list \<times> BoundGroup) result" where
  "bind_group_advertisements sets ig =
     (let p = item_path ''device_groups'' (fst ig) @ ''.prefix_advertisements''
      in rbind (rmap (\<lambda>(k, ad). attempt_advertisement sets (snd ig) (item_path p k, ad))
             (enumerate 0 (sp_prefix_advertisements (gb_spec (snd ig))))) (\<lambda>rs.
           Inr (concat (map fst rs), (snd ig)\<lparr>gb_prefix_advertisements := concat (map snd rs)\<rparr>)))"

definition bind_prefix_advertisements ::
    "(string, ResolvedPrefixSet) dict \<Rightarrow> BoundGroup list \<Rightarrow> (ValidationIssue list \<times> BoundGroup list) result" where
  "bind_prefix_advertisements sets gs =
     rbind (rmap (bind_group_advertisements sets) (enumerate 0 gs)) (\<lambda>rs. Inr (concat (map fst rs), map snd rs))"

end
