(* ===== verification/Bound_Assembly.thy ===== *)
theory Bound_Assembly
  imports Topology_Binding
begin

text \<open>
  The rest of the binding (\<open>abstractions/topology/binding.py\<close>): the partition families of bound
  groups, the device configuration, the mappings of the bound topology, and the whole of
  \<open>bind_logical_topology_to_inventory\<close>, with the view of the result the planner reads.
\<close>

section \<open>Partition families of bound groups\<close>

definition bound_advertisement_geometry ::
    "PrefixAdvertisement \<Rightarrow> string \<times> int \<times> PeerPrefixDistribution \<times> (int \<times> int) option" where
  "bound_advertisement_geometry ad =
     (adv_prefix_set ad, prefixes_per_peer (adv_allocation ad), peer_distribution (adv_allocation ad),
      if peer_distribution (adv_allocation ad) = SHARED
      then Some (start_index (adv_membership ad), member_count (adv_membership ad)) else None)"

definition bound_geometry_mismatch :: "BoundGroup \<Rightarrow> BoundGroup \<Rightarrow> string option" where
  "bound_geometry_mismatch r c =
     (let x = sp_address_plan (gb_spec r); y = sp_address_plan (gb_spec c)
      in map_option fst (find snd
        [(''afi'', sp_afi (gb_spec r) \<noteq> sp_afi (gb_spec c)),
         (''address_plan.prefix_length'', ap_prefix_length x \<noteq> ap_prefix_length y),
         (''address_plan.mask'', ap_mask x \<noteq> ap_mask y),
         (''address_plan.stride'', address_plan_step x \<noteq> address_plan_step y),
         (''address_plan.a_ips'', (ap_a_ips x = []) \<noteq> (ap_a_ips y = [])),
         (''address_plan.z_ips'', (ap_z_ips x = []) \<noteq> (ap_z_ips y = [])),
         (''parent_network'', gb_parent_network r \<noteq> gb_parent_network c),
         (''peer_group'', gb_peer_group r \<noteq> gb_peer_group c),
         (''port_assignment'', gb_port_assignment r \<noteq> gb_port_assignment c),
         (''prefix_advertisements'',
          map bound_advertisement_geometry (sp_prefix_advertisements (gb_spec r))
            \<noteq> map bound_advertisement_geometry (sp_prefix_advertisements (gb_spec c)))]))"

type_synonym bound_member = "nat \<times> BoundGroup \<times> DeviceGroupPartition"

definition check_window_address :: "string \<Rightarrow> int \<Rightarrow> string \<Rightarrow> ValidationIssue list" where
  "check_window_address p expected ip =
     (case parse_ip ip of
        None \<Rightarrow> [issue p ''invalid_partition_address'']
      | Some a \<Rightarrow> check (ip_int a \<noteq> expected) p
          (if ip_int a < expected then ''partition_address_overlap'' else ''partition_address_gap''))"

definition member_window_issues :: "int \<Rightarrow> int \<Rightarrow> int \<Rightarrow> bound_member \<Rightarrow> ValidationIssue list" where
  "member_window_issues base_a base_z step m =
     (case m of (i, g, x) \<Rightarrow>
        let q = item_path ''device_groups'' i @ ''.address_plan.''
        in if int (length (gb_a_ips g)) \<noteq> sp_peer_count (gb_spec g) \<or> int (length (gb_z_ips g)) \<noteq> sp_peer_count (gb_spec g) then []
           else concat (map (\<lambda>k.
             check_window_address (item_path (q @ ''a_ips'') k) (base_a + (dgp_start_index x + int k) * step) (gb_a_ips g ! k)
             @ check_window_address (item_path (q @ ''z_ips'') k) (base_z + (dgp_start_index x + int k) * step) (gb_z_ips g ! k))
             [0 ..< length (gb_a_ips g)]))"

definition window_base :: "string list \<Rightarrow> int \<Rightarrow> int result" where
  "window_base ips offset = rbind (ip_address (hd ips)) (\<lambda>a. Inr (ip_int a - offset))"

definition validate_explicit_partition_address_windows :: "bound_member list \<Rightarrow> ValidationIssue list" where
  "validate_explicit_partition_address_windows ordered =
     (case ordered of
        [] \<Rightarrow> []
      | (i, r, x) # _ \<Rightarrow>
          if ap_a_ips (sp_address_plan (gb_spec r)) = [] \<or> gb_a_ips r = [] \<or> gb_z_ips r = [] then []
          else case rbind (offset_to_int (Some (fst (address_plan_step (sp_address_plan (gb_spec r))))) 2) (\<lambda>step.
                    rbind (window_base (gb_a_ips r) (dgp_start_index x * step)) (\<lambda>base_a.
                    rbind (window_base (gb_z_ips r) (dgp_start_index x * step)) (\<lambda>base_z. Inr (base_a, base_z, step)))) of
                 Inl e \<Rightarrow> [issue (item_path ''device_groups'' i @ ''.address_plan.explicit_ips'') ''invalid_partition_address'']
               | Inr (base_a, base_z, step) \<Rightarrow> concat (map (member_window_issues base_a base_z step) ordered))"

definition bound_families :: "BoundGroup list \<Rightarrow> (string, bound_member list) dict" where
  "bound_families gs =
     foldl (\<lambda>d (i, g). case sp_partition (gb_spec g) of None \<Rightarrow> d | Some x \<Rightarrow> dict_append (dgp_family x) (i, g, x) d)
       [] (enumerate 0 gs)"

definition bound_family_issues :: "bound_member list \<Rightarrow> ValidationIssue list" where
  "bound_family_issues members =
     (let ordered = sort_key (\<lambda>(i, g, x). dgp_ordinal x) members
      in case ordered of
           [] \<Rightarrow> []
         | (_, r, _) # others \<Rightarrow>
             let geometry = concat (map (\<lambda>(i, g, x). case bound_geometry_mismatch r g of
                   None \<Rightarrow> [] | Some f \<Rightarrow> [issue (item_path ''device_groups'' i @ ''.'' @ f) ''partition_geometry_mismatch'']) others)
             in geometry @ (if geometry = [] then validate_explicit_partition_address_windows ordered else []))"

definition validate_resolved_partitions :: "BoundGroup list \<Rightarrow> ValidationIssue list" where
  "validate_resolved_partitions gs = concat (map (\<lambda>(f, members). bound_family_issues members) (bound_families gs))"

section \<open>Device configuration\<close>

text \<open>
  A field of the override counts when the constructor was given it, or when it is not the default.
  The overridden names of the result are those of the base, as \<open>replace\<close> passes them on.
\<close>

definition merged_field :: "RoutingDeviceConfig \<Rightarrow> RoutingDeviceConfig \<Rightarrow> string \<Rightarrow> (RoutingDeviceConfig \<Rightarrow> 'a) \<Rightarrow> 'a" where
  "merged_field b v name f =
     (if name \<in> set (dc_overridden_fields v) \<or> f v \<noteq> f default_device_config then f v else f b)"

definition merge_device_config :: "RoutingDeviceConfig \<Rightarrow> RoutingDeviceConfig option \<Rightarrow> RoutingDeviceConfig" where
  "merge_device_config b override =
     (case override of
        None \<Rightarrow> b
      | Some v \<Rightarrow>
          \<lparr>dc_update_group_enable = merged_field b v ''update_group_enable'' dc_update_group_enable,
           dc_enable_next_hop_tracking = merged_field b v ''enable_next_hop_tracking'' dc_enable_next_hop_tracking,
           dc_enable_dynamic_policy_evaluation =
             merged_field b v ''enable_dynamic_policy_evaluation'' dc_enable_dynamic_policy_evaluation,
           dc_openr_mode = merged_field b v ''openr_mode'' dc_openr_mode,
           dc_openr_configerator_path = merged_field b v ''openr_configerator_path'' dc_openr_configerator_path,
           dc_openr_standalone_link = merged_field b v ''openr_standalone_link'' dc_openr_standalone_link,
           dc_openr_injected_start_ipv4s = merged_field b v ''openr_injected_start_ipv4s'' dc_openr_injected_start_ipv4s,
           dc_openr_injected_start_ipv6s = merged_field b v ''openr_injected_start_ipv6s'' dc_openr_injected_start_ipv6s,
           dc_route_limit = merged_field b v ''route_limit'' dc_route_limit,
           dc_prefix_limit = merged_field b v ''prefix_limit'' dc_prefix_limit,
           dc_per_peer_max_route_limit = merged_field b v ''per_peer_max_route_limit'' dc_per_peer_max_route_limit,
           dc_bgp_hold_timer_s = merged_field b v ''bgp_hold_timer_s'' dc_bgp_hold_timer_s,
           dc_bgp_keepalive_timer_s = merged_field b v ''bgp_keepalive_timer_s'' dc_bgp_keepalive_timer_s,
           dc_bgp_connect_retry_timer_s = merged_field b v ''bgp_connect_retry_timer_s'' dc_bgp_connect_retry_timer_s,
           dc_graceful_restart_timer_s = merged_field b v ''graceful_restart_timer_s'' dc_graceful_restart_timer_s,
           dc_bgpcpp_logging_config_override =
             merged_field b v ''bgpcpp_logging_config_override'' dc_bgpcpp_logging_config_override,
           dc_fibagent_bgp_nhg_watermark_high =
             merged_field b v ''fibagent_bgp_nhg_watermark_high'' dc_fibagent_bgp_nhg_watermark_high,
           dc_fibagent_bgp_nhg_watermark_low =
             merged_field b v ''fibagent_bgp_nhg_watermark_low'' dc_fibagent_bgp_nhg_watermark_low,
           dc_overridden_fields = dc_overridden_fields b\<rparr>)"

definition effective_openr_inputs :: "RoutingDeviceConfig \<Rightarrow> PhysicalInventory \<Rightarrow> string option \<times> OpenRStandaloneLink option" where
  "effective_openr_inputs c v =
     (if given (dc_openr_configerator_path c) then dc_openr_configerator_path c else inv_openr_configerator_path v,
      if dc_openr_standalone_link c \<noteq> None then dc_openr_standalone_link c else inv_openr_standalone_link v)"

definition validate_openr_standalone_inputs :: "RoutingDeviceConfig \<Rightarrow> PhysicalInventory \<Rightarrow> ValidationIssue list" where
  "validate_openr_standalone_inputs c v =
     (if dc_openr_mode c \<noteq> OPENR_MODE_STANDALONE then []
      else let (path, link) = effective_openr_inputs c v
           in check (\<not> given path) ''device_config.openr_configerator_path'' ''missing_openr_standalone_input''
              @ check (link = None) ''device_config.openr_standalone_link'' ''missing_openr_standalone_input''
              @ on_some (\<lambda>l. check (oe_hostname (ol_owner l) \<noteq> inv_device_name v)
                  ''device_config.openr_standalone_link.owner.hostname'' ''invalid_openr_standalone_owner'') link)"

section \<open>The bound topology\<close>

record InventoryTopology = "BoundGroup BoundTopology" +
  tb_logical_topology :: LogicalTopology
  tb_inventory :: PhysicalInventory
  tb_interfaces :: "(string, string) dict"
  tb_ixia_ports :: "(string, string) dict"
  tb_as_numbers :: "(string, int) dict"
  tb_peer_groups_by_device_group :: "(string, peer_group_ref) dict"
  tb_legacy_names :: "(string, string) dict"
  tb_port_map :: "(string, int) dict"
  tb_parent_networks :: "(string, string) dict"
  tb_resolved_prefix_sets :: "(string, ResolvedPrefixSet) dict"
  tb_route_senders :: "RouteSender list"

text \<open>\<open>{g.name: f(g) for g in groups if f(g) is not None}\<close>\<close>

definition by_group :: "(BoundGroup \<Rightarrow> 'v option) \<Rightarrow> BoundGroup list \<Rightarrow> (string, 'v) dict" where
  "by_group f gs = foldl (\<lambda>d g. case f g of None \<Rightarrow> d | Some v \<Rightarrow> dict_set (sp_name (gb_spec g)) v d) [] gs"

definition nonempty :: "string option \<Rightarrow> string option" where
  "nonempty x = (if given x then x else None)"

definition bound_interface :: "BoundGroup \<Rightarrow> string option" where
  "bound_interface g = (if given (gb_a_interface g) then gb_a_interface g else gb_z_interface g)"

definition resolved_endpoint :: "PhysicalInventory \<Rightarrow> string \<Rightarrow> EndpointSpec \<Rightarrow> (string, pyval) dict" where
  "resolved_endpoint v endpoint_os e =
     [(''os'', VStr endpoint_os),
      (''device_name'', if binding_is_dut e then VStr (inv_device_name v) else VNone),
      (''physical_identifier_field'', VStr (if binding_is_dut e then ''device_name'' else ''ixia_chassis_ip''))]"

definition resolved_endpoints ::
    "PhysicalInventory \<Rightarrow> (string, string) dict \<Rightarrow> EndpointSpec list \<Rightarrow> (string, (string, pyval) dict) dict result" where
  "resolved_endpoints v os =
     rfold (\<lambda>d e. rbind (dict_index os (es_name e)) (\<lambda>s. Inr (dict_set (es_name e) (resolved_endpoint v s e) d))) []"

definition endpoint_network_roles :: "PhysicalInventory \<Rightarrow> EndpointSpec list \<Rightarrow> (string, NetworkRole) dict" where
  "endpoint_network_roles v es =
     (case inv_network_role v of
        None \<Rightarrow> []
      | Some r \<Rightarrow> foldl (\<lambda>d e. if binding_is_dut e then dict_set (es_name e) r d else d) [] es)"

definition bound_routing_config ::
    "PhysicalInventory \<Rightarrow> BoundGroup list \<Rightarrow> (string, string) dict \<Rightarrow> (string, BoundRoutingConfig) dict \<Rightarrow> EndpointSpec
     \<Rightarrow> (string, BoundRoutingConfig) dict result" where
  "bound_routing_config v gs drivers configs e =
     (if \<not> binding_is_dut e then Inr configs
      else case resolve_endpoint_routing_drivers (es_name e) (map device_view gs) drivers of
        [] \<Rightarrow> Inr configs
      | [d] \<Rightarrow> rbind (mk_BoundRoutingConfig \<lparr>br_routing_driver = d, br_source = dict_get (routing_config_artifacts v) d\<rparr>)
                 (\<lambda>c. Inr (dict_set (es_name e) c configs))
      | _ \<Rightarrow> fail ''DUT endpoint resolves to multiple routing drivers'')"

definition bound_routing_configs ::
    "PhysicalInventory \<Rightarrow> EndpointSpec list \<Rightarrow> BoundGroup list \<Rightarrow> (string, string) dict
     \<Rightarrow> (string, BoundRoutingConfig) dict result" where
  "bound_routing_configs v es gs drivers = rfold (bound_routing_config v gs drivers) [] es"

definition inventory_attributes :: "PhysicalInventory \<Rightarrow> (string, pyval) dict" where
  "inventory_attributes v =
     [(''device_name'', VStr (inv_device_name v)), (''ixia_chassis_ip'', VStr (inv_primary_ixia_chassis_ip v))]"

definition build_bound_topology ::
    "LogicalTopology \<Rightarrow> BindingContext \<Rightarrow> BoundGroup list \<Rightarrow> (string, ResolvedPrefixSet) dict \<Rightarrow> RoutingDeviceConfig
     \<Rightarrow> InventoryTopology result" where
  "build_bound_topology t x gs sets config =
     (let v = bx_inventory x; drivers = by_group gb_routing_driver gs
      in rbind (resolved_endpoints v (bx_endpoint_os x) (lt_endpoints t)) (\<lambda>resolved.
         rbind (bound_routing_configs v (lt_endpoints t) gs drivers) (\<lambda>configs.
           Inr \<lparr>bt_endpoints = lt_endpoints t, bt_policy_names = lt_policy_names t,
             bt_logical_device_config = lt_device_config t, bt_device_groups = gs, bt_device_config = Some config,
             bt_physical_inventory = Some (inventory_attributes v), bt_resolved_endpoints = resolved,
             bt_endpoint_os = bx_endpoint_os x,
             bt_endpoint_network_roles = endpoint_network_roles v (lt_endpoints t),
             bt_routing_configs = configs, bt_routing_drivers = drivers,
             tb_logical_topology = t, tb_inventory = v,
             tb_interfaces = by_group bound_interface gs,
             tb_ixia_ports = by_group (\<lambda>g. nonempty (gb_ixia_port g)) gs,
             tb_as_numbers = by_group gb_remote_asn gs,
             tb_peer_groups_by_device_group = by_group gb_peer_group gs,
             tb_legacy_names = by_group (\<lambda>g. nonempty (sp_legacy_ixia_tag_name (gb_spec g))) gs,
             tb_port_map = bx_port_map x, tb_parent_networks = bx_parent_networks x,
             tb_resolved_prefix_sets = sets, tb_route_senders = lt_route_senders t\<rparr>)))"

section \<open>Binding\<close>

definition build_binding_context ::
    "LogicalTopology \<Rightarrow> PhysicalInventory \<Rightarrow> (string, string) dict \<Rightarrow> (string, int) dict \<Rightarrow> (string, string) dict
     \<Rightarrow> (string, peer_group_ref) dict \<Rightarrow> (string, pyval) dict \<Rightarrow> ValidationIssue list \<times> BindingContext" where
  "build_binding_context t v backends port_map parents peer_groups as_numbers =
     (let systems = map (\<lambda>e. (es_name e, resolve_endpoint_os v backends e)) (lt_endpoints t)
      in (validate_physical_inventory t v @ concat (map (fst \<circ> snd) systems),
          \<lparr>bx_inventory = v, bx_port_map = port_map, bx_parent_networks = parents, bx_peer_groups = peer_groups,
           bx_as_numbers = as_numbers, bx_endpoint_by_name = endpoints_by_name t,
           bx_endpoint_os = foldl (\<lambda>d (n, r). dict_set n (snd r) d) [] systems\<rparr>))"

definition bind_logical_topology_to_inventory ::
    "LogicalTopology \<Rightarrow> PhysicalInventory \<Rightarrow> (string, string) dict \<Rightarrow> (string, int) dict \<Rightarrow> (string, string) dict
     \<Rightarrow> (string, peer_group_ref) dict \<Rightarrow> (string, pyval) dict \<Rightarrow> RoutingDeviceConfig option \<Rightarrow> InventoryTopology result" where
  "bind_logical_topology_to_inventory t v backends port_map parents peer_groups as_numbers override =
     rbind (validate_logical_topology t) (\<lambda>_.
     let (context_issues, x) = build_binding_context t v backends port_map parents peer_groups as_numbers
     in rbind (bind_device_groups x 0 \<lparr>ar_bound_ips = [], ar_peer_cidrs = []\<rparr> (lt_device_groups t)) (\<lambda>(group_issues, groups).
     rbind (resolve_prefix_sets (lt_prefix_sets t)) (\<lambda>sets.
     rbind (bind_prefix_advertisements sets groups) (\<lambda>(prefix_issues, advertised).
     rbind (bind_ixia_children advertised) (\<lambda>bound.
       let config = merge_device_config (lt_device_config t) override;
           issues = context_issues @ group_issues @ validate_resolved_port_graph groups @ prefix_issues
             @ validate_resolved_partitions bound @ validate_legacy_device_group_indices bound
             @ validate_eos_secondary_ip_limits bound @ collect_routing_device_config_issues ''device_config'' config
             @ validate_openr_standalone_inputs config v
       in if issues \<noteq> [] then Inl (Exn TopologyValidationError ''logical topology has validation errors'')
          else build_bound_topology t x bound sets config)))))"

section \<open>What the planner reads\<close>

definition planned_child :: "BoundChild \<Rightarrow> BoundIxiaDeviceGroupChild" where
  "planned_child c = \<lparr>ch_name = ic_name (bc_spec c), ch_start_index = ic_start_index (bc_spec c),
     ch_legacy_device_group_name = ic_legacy_device_group_name (bc_spec c),
     ch_legacy_bgp_peer_name = ic_legacy_bgp_peer_name (bc_spec c),
     ch_legacy_device_group_index = ic_legacy_device_group_index (bc_spec c),
     ch_legacy_prefix_pool_name = ic_legacy_prefix_pool_name (bc_spec c), ch_peers = bc_peers c,
     ch_prefix_advertisements = map ResolvedPrefixAdvertisement.truncate (bc_prefix_advertisements c)\<rparr>"

definition planned_view :: "BoundGroup \<Rightarrow> IxiaBoundDeviceGroup" where
  "planned_view g = BoundDeviceGroup.extend (device_view g) (IxiaBoundDeviceGroup.fields
     (case gb_peer_group g of Some (PeerGroupObject pg) \<Rightarrow> Some pg | _ \<Rightarrow> None)
     (ap_stride (sp_address_plan (gb_spec g)))
     (map_option dgp_start_index (sp_partition (gb_spec g)))
     (map_option slow_tcp_window_size_bytes (sp_slow_peer (gb_spec g)))
     (sp_legacy_ixia_tag_name (gb_spec g)) (sp_legacy_ixia_bgp_peer_name (gb_spec g))
     (sp_legacy_ixia_device_group_name (gb_spec g)) (sp_legacy_ixia_device_group_index (gb_spec g))
     (map ResolvedPrefixAdvertisement.truncate (gb_prefix_advertisements g)) (map planned_child (gb_children g)))"

definition planner_input :: "InventoryTopology \<Rightarrow> IxiaBoundDeviceGroup IxiaBoundTopology" where
  "planner_input b = \<lparr>bt_endpoints = bt_endpoints b, bt_policy_names = bt_policy_names b,
     bt_logical_device_config = bt_logical_device_config b, bt_device_groups = map planned_view (bt_device_groups b),
     bt_device_config = bt_device_config b, bt_physical_inventory = bt_physical_inventory b,
     bt_resolved_endpoints = bt_resolved_endpoints b, bt_endpoint_os = bt_endpoint_os b,
     bt_endpoint_network_roles = bt_endpoint_network_roles b, bt_routing_configs = bt_routing_configs b,
     bt_routing_drivers = bt_routing_drivers b,
     xt_traffic_flows = lt_traffic_flows (tb_logical_topology b),
     xt_group_traffic_flows = map sp_traffic_flows (lt_device_groups (tb_logical_topology b))\<rparr>"

end
