(* ===== verification/Address_Facts.thy ===== *)
theory Address_Facts
  imports Address_Binding Intent_Facts
begin

text \<open>
  What the address binding establishes when it appends no issue: as many addresses as peers, of the
  right family; no address bound twice; and prefixes of peers that do not overlap and hold both of
  the peer's addresses.
\<close>

section \<open>Networks\<close>

lemma in_network_width:
  "in_network x n \<longleftrightarrow> ip_version x = ip_version (fst n) \<and> ip_int x div network_width n = ip_int (fst n) div network_width n"
  by (auto simp: in_network_def network_width_def Let_def)

lemma width_pos [simp]: "0 < network_width n"
  by (simp add: network_width_def)

lemma ip_with_version [simp]: "ip_version (ip_with a k) = ip_version a"
  by (cases a) (auto simp: ip_with_def)

lemma ip_with_int [simp]: "ip_int (ip_with a k) = k"
  by (simp add: ip_with_def)

lemma masked_simps [simp]:
  "snd (masked n) = snd n" "ip_version (fst (masked n)) = ip_version (fst n)" "network_width (masked n) = network_width n"
  "ip_int (fst (masked n)) = ip_int (fst n) div network_width n * network_width n"
  by (simp_all add: masked_def network_width_def)

lemma masked_masked [simp]: "masked (masked n) = masked n"
  by (simp add: masked_def network_width_def) (simp add: ip_with_def)

lemma in_masked [simp]: "in_network x (masked n) \<longleftrightarrow> in_network x n"
  by (simp add: in_network_width)

lemma in_own_network [simp]: "in_network (fst n) n"
  by (simp add: in_network_width)

lemma masked_valid: "ip_valid (fst n) \<Longrightarrow> ip_valid (fst (masked n))"
proof -
  have "k div network_width n * network_width n \<le> k" for k
    using pos_mod_sign [OF width_pos, of k n] by (simp flip: minus_mod_eq_div_mult)
  moreover have "0 \<le> k \<Longrightarrow> 0 \<le> k div network_width n * network_width n" for k
    by (intro mult_nonneg_nonneg) (simp_all add: pos_imp_zdiv_nonneg_iff order_less_imp_le)
  ultimately show "ip_valid (fst n) \<Longrightarrow> ip_valid (fst (masked n))"
    by (auto simp: ip_valid_def intro: order.strict_trans1)
qed

text \<open>Two networks overlap as soon as they share an address.\<close>

lemma smaller_inside:
  assumes "in_network x m" "in_network x n" "snd n \<le> snd m"
  shows "in_network (fst m) n"
proof -
  define M where "M = max_prefixlen (ip_version x)"
  have v: "ip_version (fst m) = ip_version x" "ip_version (fst n) = ip_version x"
    using assms by (simp_all add: in_network_def)
  obtain k :: int where k: "0 < k" "network_width n = network_width m * k"
  proof
    show "network_width n = network_width m * 2 ^ ((M - snd n) - (M - snd m))"
      using assms(3) by (simp add: network_width_def v M_def flip: power_add)
  qed simp
  have "ip_int (fst m) div network_width n = ip_int x div network_width n"
    using assms(1) k by (simp add: zdiv_zmult2_eq in_network_width)
  then show ?thesis using assms(2) v by (simp add: in_network_width)
qed

lemma shared_address_overlaps: "in_network x m \<Longrightarrow> in_network x n \<Longrightarrow> networks_overlap m n"
  using smaller_inside [of x m n] smaller_inside [of x n m] linear [of "snd m" "snd n"]
  by (auto simp: networks_overlap_def in_network_width)

section \<open>Text of a prefix\<close>

lemma netmask_bound: "make_netmask v s = Some n \<Longrightarrow> n \<le> max_prefixlen v"
  by (auto simp: make_netmask_def prefix_from_string_def prefix_from_ip_string_def prefix_from_ip_int_def max_prefixlen_def
      find_Some_iff nth_append split: option.splits if_splits)

lemma ip_interface_valid:
  assumes "ip_interface s = Some (a, n)"
  shows "ip_valid a" "n \<le> max_prefixlen (ip_version a)"
  using assms
  by (auto simp: ip_interface_def dest!: netmask_bound parse_ip_valid split: list.splits option.splits)

text \<open>The address before the slash is the one that was written there.\<close>

lemma split_on_separator: "split_on c (a @ c # b) = split_on c a @ split_on c b"
  by (induction a) (auto split: list.splits)

lemma network_of_ok:
  assumes "network_of (s @ ''/'' @ t) = Inr n"
  shows "\<exists>a. parse_ip s = Some a \<and> in_network a n \<and> ip_version (fst n) = ip_version a
    \<and> ip_interface (ip_interface_str n) = Some n \<and> masked n = n"
proof -
  obtain i where i: "ip_interface (s @ ''/'' @ t) = Some i" "n = masked i"
    using assms by (auto simp: network_of_def split: option.splits)
  obtain a k where a: "i = (a, k)" by (cases i)
  have "length (split_on (CHR ''/'') s) = 1"
    using i(1) split_on_separator [of "CHR ''/''" s t]
    by (auto simp: ip_interface_def append_eq_Cons_conv split: list.splits)
  then have "split_on (CHR ''/'') s = [s]"
    by (intro split_on_none) (simp add: length_split_on flip: no_separator)
  then have "parse_ip s = Some a"
    using i(1) split_on_separator [of "CHR ''/''" s t] by (auto simp: a ip_interface_def split: list.splits option.splits)
  moreover have "ip_valid a" "k \<le> max_prefixlen (ip_version a)" using ip_interface_valid [of _ a k] i(1) a by auto
  then have "ip_interface (ip_interface_str (fst n, snd n)) = Some (fst n, snd n)"
    by (intro interface_round_trip) (use masked_valid [of i] in \<open>simp_all add: i(2) a\<close>)
  then have "ip_interface (ip_interface_str n) = Some n" unfolding prod.collapse .
  moreover have "in_network a n" using in_own_network [of i] by (simp add: i(2) a)
  moreover have "masked n = n" by (simp add: i(2))
  ultimately show ?thesis by (metis i(2) a fst_conv masked_simps(2))
qed

section \<open>Addresses\<close>

lemma recorded_ips:
  "record_duplicate_ips p code current bound ips = ([], bound') \<Longrightarrow>
     bound' = bound @ ips \<and> distinct ips \<and> set ips \<inter> (set current \<union> set bound) = {}"
  by (induction p code current bound ips arbitrary: bound' rule: record_duplicate_ips.induct)
     (auto split: if_splits prod.splits)


text \<open>The prefix of a peer holds both its addresses.\<close>

definition peer_fits :: "ResolvedPeer \<Rightarrow> ip_addr \<times> nat \<Rightarrow> bool" where
  "peer_fits q n \<longleftrightarrow> rp_peer_cidr q = Some (ip_interface_str n) \<and> ip_interface (ip_interface_str n) = Some n \<and> masked n = n
     \<and> (\<exists>a z. parse_ip (rp_a_ip q) = Some a \<and> parse_ip (rp_z_ip q) = Some z \<and> in_network a n \<and> in_network z n)"

lemma pair_ok:
  assumes "peer_cidr_for_pair a z n p = ([], Some c)"
  shows "peer_fits \<lparr>rp_a_ip = a, rp_z_ip = z, rp_peer_cidr = Some (ip_interface_str c)\<rparr> c"
proof -
  have "network_of (a @ ''/'' @ show_int n) = Inr c" "network_of (z @ ''/'' @ show_int n) = Inr c"
    using assms by (auto simp: peer_cidr_for_pair_def rbind_eq_Inr split: sum.splits if_splits)
  from network_of_ok [OF this(1)] network_of_ok [OF this(2)] show ?thesis
    unfolding peer_fits_def by auto
qed

lemma pair_none: "peer_cidr_for_pair a z n p = (issues, None) \<Longrightarrow> issues \<noteq> []"
  by (auto simp: peer_cidr_for_pair_def split: sum.splits if_splits)

abbreviation apart_networks :: "(ip_addr \<times> nat) list \<Rightarrow> bool" where
  "apart_networks \<equiv> sorted_wrt (\<lambda>m n. \<not> networks_overlap n m)"

lemma cidrs_from_ok:
  "peer_cidrs_from p n i cidrs pairs = ([], peers, cidrs') \<Longrightarrow> apart_networks cidrs \<Longrightarrow>
     \<exists>new. cidrs' = cidrs @ new \<and> apart_networks cidrs' \<and> list_all2 peer_fits peers new
       \<and> map rp_a_ip peers = map fst pairs \<and> map rp_z_ip peers = map snd pairs"
proof (induction pairs arbitrary: i cidrs peers cidrs')
  case (Cons az pairs)
  obtain a z where az: "az = (a, z)" by fastforce
  obtain pi c where pc: "peer_cidr_for_pair a z n (item_path (p @ ''.z_ips'') i) = (pi, c)" by fastforce
  have "pi = []" using Cons.prems(1) by (auto simp: az pc Let_def split: prod.splits)
  moreover obtain net where c: "c = Some net"
    using pair_none [of a z n "item_path (p @ ''.z_ips'') i" pi] pc \<open>pi = []\<close> by (cases c) auto
  ultimately have pc: "peer_cidr_for_pair a z n (item_path (p @ ''.z_ips'') i) = ([], Some net)" using pc by simp
  obtain ri cidrs1 where rc: "record_peer_cidr cidrs net (item_path (p @ ''.peer_cidrs'') i) = (ri, cidrs1)" by fastforce
  obtain is1 ps1 cidrs2 where rest: "peer_cidrs_from p n (Suc i) cidrs1 pairs = (is1, ps1, cidrs2)"
    by (metis prod.collapse)
  have facts: "ri = []" "is1 = []" "cidrs' = cidrs2"
      "peers = \<lparr>rp_a_ip = a, rp_z_ip = z, rp_peer_cidr = Some (ip_interface_str net)\<rparr> # ps1"
    using Cons.prems(1) by (auto simp: az pc rc rest)
  have new: "cidrs1 = cidrs @ [net]" "\<forall>m \<in> set cidrs. \<not> networks_overlap net m"
    using rc facts(1) by (auto simp: record_peer_cidr_def list_ex_iff split: if_splits)
  have "apart_networks cidrs1" using Cons.prems(2) new by (simp add: sorted_wrt_append)
  then obtain ns where "cidrs2 = cidrs1 @ ns" "apart_networks cidrs2" "list_all2 peer_fits ps1 ns"
      "map rp_a_ip ps1 = map fst pairs" "map rp_z_ip ps1 = map snd pairs"
    using Cons.IH [of "Suc i" cidrs1 ps1 cidrs2] rest facts(2) by auto
  then show ?case using pair_ok [OF pc] facts new by (intro exI [of _ "net # ns"]) (simp add: az)
qed auto

section \<open>The addresses of a group\<close>

definition in_family :: "string \<Rightarrow> string \<Rightarrow> bool" where
  "in_family afi ip \<longleftrightarrow> (\<exists>x. parse_ip ip = Some x \<and> ip_version x = afi_version afi)"

lemma version_of_family:
  assumes "afi \<in> set VALID_AFIS" "\<not> wrong_version afi (ip_version x)"
  shows "ip_version x = afi_version afi"
  using right_version [OF assms ip_version_cases] .

lemma explicit_in_family:
  assumes "validate_address_plan a p n afi = []" "afi \<in> set VALID_AFIS" "explicit_addresses a"
  shows "int (length (ap_a_ips a)) = n" "int (length (ap_z_ips a)) = n"
    "\<forall>ip \<in> set (ap_a_ips a @ ap_z_ips a). in_family afi ip"
proof -
  have v: "validate_explicit_addresses a p n afi = []"
    using assms(1,3) by (simp add: validate_address_plan_def)
  then show "int (length (ap_a_ips a)) = n" "int (length (ap_z_ips a)) = n"
    by (simp_all add: validate_explicit_addresses_def split: if_splits)
  have "each (validate_ip_afi afi) (p @ ''.a_ips'') (ap_a_ips a) = []" "each (validate_ip_afi afi) (p @ ''.z_ips'') (ap_z_ips a) = []"
    using v by (simp_all add: validate_explicit_addresses_def split: if_splits)
  moreover have "in_family afi ip" if "validate_ip_afi afi q ip = []" for q ip
    using that version_of_family [OF assms(2)] by (auto simp: validate_ip_afi_def in_family_def split: option.splits)
  ultimately show "\<forall>ip \<in> set (ap_a_ips a @ ap_z_ips a). in_family afi ip" by (auto elim!: each_member)
qed

lemma peer_address_ok:
  assumes "peer_address base off d = Inr s"
  shows "\<exists>x. parse_ip s = Some x \<and> ip_version x = ip_version base"
proof -
  obtain m x where x: "ip_of_int (ip_version base) m = Inr x" "s = ip_str x"
    using assms by (auto simp: peer_address_def rbind_eq_Inr)
  have "ip_version x = ip_version base" "ip_valid x"
    using x(1) by (cases base; auto simp: ip_of_int_def ip_valid_def split: if_splits)+
  then show ?thesis using address_round_trip x(2) by auto
qed

lemma peer_addresses_ok:
  assumes "peer_addresses base off start stride n = Inr ips"
  shows "length ips = nat n" "\<forall>ip \<in> set ips. \<exists>x. parse_ip ip = Some x \<and> ip_version x = ip_version base"
  using assms peer_address_ok
  by (auto simp: peer_addresses_def rmap_Inr_iff list_all2_conv_all_nth in_set_conv_nth dest!: peer_address_ok)

lemma generated_in_family:
  assumes "resolve_generated_plan a parent n afi p = ([], as, zs)" "afi \<in> set VALID_AFIS"
  shows "int (length as) = n" "int (length zs) = n" "\<forall>ip \<in> set (as @ zs). in_family afi ip"
proof -
  obtain base where base: "parse_parent_base parent afi = Inr base" "\<not> wrong_version afi (ip_version base)"
      "generated_addresses a base n afi = Inr (as, zs)"
      "validate_bound_ip_count as n (p @ ''.a_ips'') = []" "validate_bound_ip_count zs n (p @ ''.z_ips'') = []"
    using assms(1) by (auto simp: resolve_generated_plan_def split: sum.splits if_splits)
  show "int (length as) = n" "int (length zs) = n" using base(4,5) by (simp_all add: validate_bound_ip_count_def)
  obtain off off' start stride where "peer_addresses base off start stride n = Inr as" "peer_addresses base off' start stride n = Inr zs"
    using base(3) by (auto simp: generated_addresses_def rbind_eq_Inr)
  then show "\<forall>ip \<in> set (as @ zs). in_family afi ip"
    using peer_addresses_ok(2) version_of_family [OF assms(2) base(2)] by (fastforce simp: in_family_def)
qed

lemma plan_in_family:
  assumes "resolve_address_plan a parent n afi p = ([], as, zs)" "validate_address_plan a q n afi = []" "afi \<in> set VALID_AFIS"
    and "explicit_addresses a \<or> given parent"
  shows "int (length as) = n \<and> int (length zs) = n \<and> (\<forall>ip \<in> set (as @ zs). in_family afi ip)"
proof (cases "explicit_addresses a")
  case True
  then show ?thesis using assms(1) explicit_in_family [OF assms(2,3) True] by (auto simp: resolve_address_plan_def)
next
  case False
  then obtain c cs where "parent = Some (c # cs)" using assms(4) by (cases parent) (auto simp: given_def neq_Nil_conv)
  then show ?thesis using False assms(1) generated_in_family [OF _ assms(3)]
    by (auto simp: resolve_address_plan_def)
qed

lemma parent_given:
  assumes "resolve_parent_network g role parents p = ([], parent, source)" "\<forall>k. dict_get parents k \<noteq> Some []"
  shows "given parent"
proof (cases "given (ap_parent_network (sp_address_plan g))")
  case True
  then obtain c cs where "ap_parent_network (sp_address_plan g) = Some (c # cs)"
    by (auto simp: given_def neq_Nil_conv)
  then have "parent = Some (c # cs)" using assms(1) by (simp add: resolve_parent_network_def)
  then show ?thesis by (simp add: given_def)
next
  case False
  then have "ap_parent_network (sp_address_plan g) \<in> {None, Some []}" by (auto simp: given_def)
  then show ?thesis using assms
    by (auto simp: resolve_parent_network_def Let_def given_def find_Some_iff simp del: find.simps split: option.splits)
qed

lemma resolved_cidrs:
  assumes "resolve_peer_cidrs cidrs as zs a afi p gen = ([], peers, cidrs')" "apart_networks cidrs"
  shows "length as = length zs \<and> map rp_a_ip peers = as \<and> map rp_z_ip peers = zs
    \<and> (\<exists>new. cidrs' = cidrs @ new \<and> apart_networks cidrs'
         \<and> ((\<forall>q \<in> set peers. rp_peer_cidr q = None) \<and> new = [] \<or> list_all2 peer_fits peers new))"
proof -
  have len: "length as = length zs" using assms(1) by (auto simp: resolve_peer_cidrs_def split: if_splits)
  obtain li l where e: "effective_peer_prefix_length a afi gen p = (li, l)" by fastforce
  show ?thesis
  proof (cases l)
    case None
    then show ?thesis using assms len by (auto simp: resolve_peer_cidrs_def e map_idI comp_def case_prod_beta)
  next
    case (Some n)
    then have "peer_cidrs_from p n 0 cidrs (zip as zs) = ([], peers, cidrs')"
      using assms(1) len by (auto simp: resolve_peer_cidrs_def e Let_def split: prod.splits)
    from cidrs_from_ok [OF this assms(2)] show ?thesis using len by auto
  qed
qed

text \<open>What a group's addresses satisfy, given the addresses and prefixes recorded before it.\<close>

definition group_addressed :: "DeviceGroupSpec \<Rightarrow> ResolvedAddresses \<Rightarrow> AddressRecords \<Rightarrow> AddressRecords \<Rightarrow> bool" where
  "group_addressed g x r r' \<longleftrightarrow>
     int (length (gad_a_ips x)) = sp_peer_count g \<and> int (length (gad_z_ips x)) = sp_peer_count g
     \<and> list_all (in_family (sp_afi g)) (gad_a_ips x @ gad_z_ips x)
     \<and> map rp_a_ip (gad_peers x) = gad_a_ips x \<and> map rp_z_ip (gad_peers x) = gad_z_ips x
     \<and> ar_bound_ips r' = ar_bound_ips r @ gad_a_ips x @ gad_z_ips x
     \<and> (\<exists>new. ar_peer_cidrs r' = ar_peer_cidrs r @ new
          \<and> ((\<forall>q \<in> set (gad_peers x). rp_peer_cidr q = None) \<and> new = [] \<or> list_all2 peer_fits (gad_peers x) new))"

definition records_ok :: "AddressRecords \<Rightarrow> bool" where
  "records_ok r \<longleftrightarrow> distinct (ar_bound_ips r) \<and> apart_networks (ar_peer_cidrs r)"

lemma group_addresses:
  assumes "resolve_device_group_addresses g parents p r = ([], x, r')" "records_ok r"
    and "validate_address_plan (sp_address_plan g) q (sp_peer_count g) (sp_afi g) = []" "sp_afi g \<in> set VALID_AFIS"
    and "\<forall>k. dict_get parents k \<noteq> Some []"
  shows "group_addressed g x r r' \<and> records_ok r'"
proof -
  let ?a = "sp_address_plan g" and ?gen = "\<not> explicit_addresses (sp_address_plan g)"
  obtain pi parent src where parent: "(if ?gen then resolve_parent_network g (base_role (sp_role g)) parents p else ([], None, None)) = (pi, parent, src)"
    by (metis prod.collapse)
  obtain li as zs where plan: "resolve_address_plan ?a parent (sp_peer_count g) (sp_afi g) (p @ ''.address_plan'') = (li, as, zs)"
    by (metis prod.collapse)
  obtain ii ips where ips: "record_duplicate_ips (p @ ''.address_plan'')
      (if ?gen then ''duplicate_generated_ip'' else ''duplicate_explicit_ip'') [] (ar_bound_ips r) (as @ zs) = (ii, ips)"
    by (metis prod.collapse)
  obtain ci peers cidrs where cidrs: "resolve_peer_cidrs (ar_peer_cidrs r) as zs ?a (sp_afi g) (p @ ''.address_plan'') ?gen = (ci, peers, cidrs)"
    by (metis prod.collapse)
  have f: "pi = []" "li = []" "ii = []" "ci = []" "gad_a_ips x = as" "gad_z_ips x = zs" "gad_peers x = peers"
      "r' = \<lparr>ar_bound_ips = ips, ar_peer_cidrs = cidrs\<rparr>"
    using assms(1) by (auto simp: resolve_device_group_addresses_def Let_def parent plan ips cidrs split: prod.splits)
  have "explicit_addresses ?a \<or> given parent"
    using parent parent_given [of g _ parents p parent src] assms(5) f(1) by (auto split: if_splits)
  from plan_in_family [OF plan [unfolded f(2)] assms(3,4) this]
  have family: "int (length as) = sp_peer_count g" "int (length zs) = sp_peer_count g" "list_all (in_family (sp_afi g)) (as @ zs)"
    by (auto simp: list_all_iff)
  have "apart_networks (ar_peer_cidrs r)" using assms(2) by (simp add: records_ok_def)
  from resolved_cidrs [OF cidrs [unfolded f(4)] this] recorded_ips [OF ips [unfolded f(3)]] family assms(2)
  show ?thesis by (auto simp: group_addressed_def records_ok_def f(5-8))
qed

end
