(* ===== verification/Port_Facts.thy ===== *)
theory Port_Facts
  imports Port_Binding
begin

text \<open>
  What the checks on the ports of all groups mean: the graph of connections is accepted exactly when
  interfaces and ports correspond one to one and sharing follows the reuse groups; the legacy
  indices are accepted exactly when no connection has one twice; and an accepted interface has at
  most 500 addresses of a family.
\<close>

section \<open>The graph of connections\<close>

text \<open>The values there are.\<close>

fun somes :: "'a option list \<Rightarrow> 'a list" where
  "somes [] = []"
| "somes (None # xs) = somes xs"
| "somes (Some x # xs) = x # somes xs"

definition ports_agree :: "ResolvedIxiaPortAssignment \<Rightarrow> ResolvedIxiaPortAssignment \<Rightarrow> bool" where
  "ports_agree a b \<longleftrightarrow>
     (pa_dut_interface a = pa_dut_interface b \<longleftrightarrow> pa_ixia_port a = pa_ixia_port b)
     \<and> (pa_dut_interface a = pa_dut_interface b \<longleftrightarrow> pa_reuse_group a \<noteq> None \<and> pa_reuse_group a = pa_reuse_group b)"

definition pa_connection :: "ResolvedIxiaPortAssignment \<Rightarrow> string \<times> string" where
  "pa_connection a = (pa_dut_interface a, pa_ixia_port a)"

text \<open>A dictionary holds the graph of a function on the assignments claimed so far.\<close>

definition records :: "('k, 'v) dict \<Rightarrow> ('k \<Rightarrow> 'v \<Rightarrow> bool) \<Rightarrow> bool" where
  "records d R \<longleftrightarrow> (\<forall>k v. dict_get d k = Some v \<longleftrightarrow> R k v)"

definition graph_of :: "PortGraph \<Rightarrow> ResolvedIxiaPortAssignment set \<Rightarrow> bool" where
  "graph_of s A \<longleftrightarrow>
     records (po_interface s) (\<lambda>d x. \<exists>a \<in> A. pa_dut_interface a = d \<and> pa_ixia_port a = x)
     \<and> records (po_ixia_port s) (\<lambda>x d. \<exists>a \<in> A. pa_ixia_port a = x \<and> pa_dut_interface a = d)
     \<and> records (po_reuse_group s) (\<lambda>r c. \<exists>a \<in> A. pa_reuse_group a = Some r \<and> pa_connection a = c)
     \<and> records (po_connection s) (\<lambda>c r. \<exists>a \<in> A. pa_connection a = c \<and> pa_reuse_group a = r)"

lemma records_get: "records d R \<Longrightarrow> dict_get d k = Some v \<longleftrightarrow> R k v"
  by (simp add: records_def)

lemma recordsD: "records d R \<Longrightarrow> R = (\<lambda>k v. dict_get d k = Some v)"
  by (simp add: records_def fun_eq_iff)

lemma records_disputed: "records d R \<Longrightarrow> disputed d k v \<longleftrightarrow> (\<exists>w. R k w \<and> w \<noteq> v)"
  by (drule recordsD) (auto simp: disputed_def split: option.splits)

lemma records_claim:
  "records d R \<Longrightarrow> \<not> disputed d k v \<Longrightarrow> records (claim k v d) (\<lambda>k' v'. k' = k \<and> v' = v \<or> R k' v')"
  by (drule recordsD) (auto simp: records_def disputed_def claim_def split: option.splits)

lemma records_cong: "records d R \<Longrightarrow> (\<And>k v. R k v \<longleftrightarrow> S k v) \<Longrightarrow> records d S"
  by (simp add: records_def)

lemma graph_of_empty: "graph_of empty_port_graph {}"
  by (simp add: graph_of_def records_def empty_port_graph_def)

lemma graph_ofD:
  assumes "graph_of s A"
  shows "records (po_interface s) (\<lambda>d x. \<exists>a \<in> A. pa_dut_interface a = d \<and> pa_ixia_port a = x)"
    "records (po_ixia_port s) (\<lambda>x d. \<exists>a \<in> A. pa_ixia_port a = x \<and> pa_dut_interface a = d)"
    "records (po_reuse_group s) (\<lambda>r c. \<exists>a \<in> A. pa_reuse_group a = Some r \<and> pa_connection a = c)"
    "records (po_connection s) (\<lambda>c r. \<exists>a \<in> A. pa_connection a = c \<and> pa_reuse_group a = r)"
  using assms by (simp_all add: graph_of_def)

lemma claim_port_accepts:
  assumes "graph_of s A"
  shows "fst (claim_port p s a) = [] \<longleftrightarrow> (\<forall>b \<in> A. ports_agree b a)"
proof -
  note parts = graph_ofD [OF assms]
  have interfaces: "disputed (po_interface s) (pa_dut_interface a) (pa_ixia_port a) \<longleftrightarrow>
      (\<exists>b \<in> A. pa_dut_interface b = pa_dut_interface a \<and> pa_ixia_port b \<noteq> pa_ixia_port a)"
    unfolding records_disputed [OF parts(1)] by auto
  have ports: "disputed (po_ixia_port s) (pa_ixia_port a) (pa_dut_interface a) \<longleftrightarrow>
      (\<exists>b \<in> A. pa_ixia_port b = pa_ixia_port a \<and> pa_dut_interface b \<noteq> pa_dut_interface a)"
    unfolding records_disputed [OF parts(2)] by auto
  have reuse: "disputed (po_reuse_group s) r c \<longleftrightarrow> (\<exists>b \<in> A. pa_reuse_group b = Some r \<and> pa_connection b \<noteq> c)" for r c
    unfolding records_disputed [OF parts(3)] by blast
  have taken: "dict_get (po_connection s) c = Some r \<longleftrightarrow> (\<exists>b \<in> A. pa_connection b = c \<and> pa_reuse_group b = r)" for c r
    unfolding records_get [OF parts(4)] by auto
  have "fst (claim_port p s a) = [] \<longleftrightarrow>
      \<not> disputed (po_interface s) (pa_dut_interface a) (pa_ixia_port a)
      \<and> \<not> disputed (po_ixia_port s) (pa_ixia_port a) (pa_dut_interface a)
      \<and> (\<forall>r. pa_reuse_group a = Some r \<longrightarrow> \<not> disputed (po_reuse_group s) r (pa_connection a))
      \<and> (\<forall>r. dict_get (po_connection s) (pa_connection a) = Some r \<longrightarrow> r \<noteq> None \<and> pa_reuse_group a = r)"
    by (cases "pa_reuse_group a"; cases "dict_get (po_connection s) (pa_connection a)")
      (auto simp: claim_port_def Let_def pa_connection_def)
  also have "\<dots> \<longleftrightarrow> (\<forall>b \<in> A. ports_agree b a)"
  proof -
    have agree: "ports_agree b a \<longleftrightarrow>
        (pa_dut_interface b = pa_dut_interface a \<longrightarrow> pa_ixia_port b = pa_ixia_port a)
        \<and> (pa_ixia_port b = pa_ixia_port a \<longrightarrow> pa_dut_interface b = pa_dut_interface a)
        \<and> (\<forall>r. pa_reuse_group a = Some r \<longrightarrow> pa_reuse_group b = Some r \<longrightarrow> pa_connection b = pa_connection a)
        \<and> (pa_connection b = pa_connection a \<longrightarrow> pa_reuse_group b \<noteq> None \<and> pa_reuse_group a = pa_reuse_group b)" for b
      by (cases "pa_reuse_group a") (auto simp: ports_agree_def pa_connection_def)
    show ?thesis unfolding interfaces ports reuse taken agree by blast
  qed
  finally show ?thesis .
qed

lemma claim_port_graph:
  assumes "graph_of s A" "\<forall>b \<in> A. ports_agree b a"
  shows "graph_of (snd (claim_port p s a)) (insert a A)"
proof -
  note parts = graph_ofD [OF assms(1)]
  have 1: "\<not> disputed (po_interface s) (pa_dut_interface a) (pa_ixia_port a)"
    unfolding records_disputed [OF parts(1)] using assms(2) by (auto simp: ports_agree_def)
  have 2: "\<not> disputed (po_ixia_port s) (pa_ixia_port a) (pa_dut_interface a)"
    unfolding records_disputed [OF parts(2)] using assms(2) by (auto simp: ports_agree_def)
  have 3: "\<not> disputed (po_reuse_group s) r (pa_connection a)" if "pa_reuse_group a = Some r" for r
    unfolding records_disputed [OF parts(3)] using assms(2) that by (auto simp: ports_agree_def pa_connection_def)
  have 4: "\<not> disputed (po_connection s) (pa_connection a) (pa_reuse_group a)"
    unfolding records_disputed [OF parts(4)] using assms(2) by (auto simp: ports_agree_def pa_connection_def)
  have claimed: "po_interface (snd (claim_port p s a)) = claim (pa_dut_interface a) (pa_ixia_port a) (po_interface s)"
    "po_ixia_port (snd (claim_port p s a)) = claim (pa_ixia_port a) (pa_dut_interface a) (po_ixia_port s)"
    "po_reuse_group (snd (claim_port p s a)) =
       (case pa_reuse_group a of None \<Rightarrow> po_reuse_group s | Some r \<Rightarrow> claim r (pa_connection a) (po_reuse_group s))"
    "po_connection (snd (claim_port p s a)) = claim (pa_connection a) (pa_reuse_group a) (po_connection s)"
    by (simp_all add: claim_port_def Let_def pa_connection_def split: option.splits)
  have groups: "records (case pa_reuse_group a of None \<Rightarrow> po_reuse_group s | Some r \<Rightarrow> claim r (pa_connection a) (po_reuse_group s))
      (\<lambda>r c. \<exists>b \<in> insert a A. pa_reuse_group b = Some r \<and> pa_connection b = c)"
  proof (cases "pa_reuse_group a")
    case None
    then show ?thesis using parts(3) by simp
  next
    case (Some r)
    show ?thesis unfolding Some option.case
      by (rule records_cong [OF records_claim [OF parts(3) 3 [OF Some]]]) (auto simp: Some)
  qed
  show ?thesis
    unfolding graph_of_def claimed
    by (intro conjI groups) (rule records_cong [OF records_claim [OF parts(1) 1]] records_cong [OF records_claim [OF parts(2) 2]]
        records_cong [OF records_claim [OF parts(4) 4]], auto)+
qed

lemma port_graph_from:
  assumes "graph_of s A"
  shows "port_graph_issues i s as = [] \<longleftrightarrow>
    (\<forall>a \<in> set (somes as). \<forall>b \<in> A. ports_agree b a) \<and> sorted_wrt ports_agree (somes as)"
  using assms
proof (induction i s as arbitrary: A rule: port_graph_issues.induct)
  case (3 i s a as)
  show ?case
  proof (cases "\<forall>b \<in> A. ports_agree b a")
    case True
    have "graph_of (snd (claim_port (item_path ''device_groups'' i) s a)) (insert a A)"
      by (rule claim_port_graph [OF 3(2) True])
    from 3(1) [OF _ _ this] have "port_graph_issues (Suc i) (snd (claim_port (item_path ''device_groups'' i) s a)) as = [] \<longleftrightarrow>
      (\<forall>x \<in> set (somes as). \<forall>b \<in> insert a A. ports_agree b x) \<and> sorted_wrt ports_agree (somes as)"
      by (metis prod.collapse)
    then show ?thesis using True claim_port_accepts [OF 3(2), of "item_path ''device_groups'' i" a]
      by (auto simp: Let_def split: prod.splits)
  next
    case False
    then show ?thesis using claim_port_accepts [OF 3(2), of "item_path ''device_groups'' i" a]
      by (auto simp: Let_def split: prod.splits)
  qed
qed auto

lemma port_graph_ok:
  "validate_resolved_port_graph gs = [] \<longleftrightarrow> sorted_wrt ports_agree (somes (map gb_port_assignment gs))"
  using port_graph_from [OF graph_of_empty] by (simp add: validate_resolved_port_graph_def)

section \<open>Legacy indices\<close>

definition leaf_indices :: "BoundGroup \<Rightarrow> int option list" where
  "leaf_indices g =
     (if gb_children g \<noteq> [] then map (\<lambda>c. ic_legacy_device_group_index (bc_spec c)) (gb_children g)
      else [sp_legacy_ixia_device_group_index (gb_spec g)])"

definition indices_on :: "BoundGroup \<Rightarrow> ((string \<times> string) \<times> int) list" where
  "indices_on g = (case gb_port_assignment g of None \<Rightarrow> [] | Some a \<Rightarrow> map (Pair (pa_connection a)) (somes (leaf_indices g)))"

lemma leaves_indices: "map fst (legacy_index_leaves i g) = leaf_indices g"
  by (simp add: legacy_index_leaves_def leaf_indices_def comp_def case_prod_beta)
    (metis (no_types, lifting) map_map map_snd_enumerate comp_apply map_cong)

lemma connection_indices_spec:
  "(fst (connection_indices c seen leaves) = [] \<longleftrightarrow>
      distinct (somes (map fst leaves)) \<and> Pair c ` set (somes (map fst leaves)) \<inter> set seen = {})
   \<and> set (snd (connection_indices c seen leaves)) = set seen \<union> Pair c ` set (somes (map fst leaves))"
proof (induction c seen leaves rule: connection_indices.induct)
  case (3 c seen n p leaves)
  then show ?case by (cases "(c, n) \<in> set seen") (auto simp: Let_def split: prod.splits)
qed auto

lemma legacy_indices_from:
  "legacy_index_issues i seen gs = [] \<longleftrightarrow>
     distinct (concat (map indices_on gs)) \<and> set (concat (map indices_on gs)) \<inter> set seen = {}"
proof (induction gs arbitrary: i seen)
  case (Cons g gs)
  show ?case
  proof (cases "gb_port_assignment g")
    case None
    then show ?thesis by (simp add: Cons.IH indices_on_def)
  next
    case (Some a)
    obtain issues seen' where r: "connection_indices (pa_connection a) seen (legacy_index_leaves i g) = (issues, seen')"
      by fastforce
    have "indices_on g = map (Pair (pa_connection a)) (somes (map fst (legacy_index_leaves i g)))"
      by (simp add: indices_on_def Some leaves_indices)
    with connection_indices_spec [of "pa_connection a" seen "legacy_index_leaves i g"]
    have "issues = [] \<longleftrightarrow> distinct (indices_on g) \<and> set (indices_on g) \<inter> set seen = {}"
      "set seen' = set seen \<union> set (indices_on g)" by (simp_all add: r distinct_map inj_on_def)
    moreover have "legacy_index_issues i seen (g # gs) = issues @ legacy_index_issues (Suc i) seen' gs"
      using r by (simp add: Some pa_connection_def)
    ultimately show ?thesis by (auto simp: Cons.IH)
  qed
qed simp

lemma legacy_indices_ok: "validate_legacy_device_group_indices gs = [] \<longleftrightarrow> distinct (concat (map indices_on gs))"
  by (simp add: validate_legacy_device_group_indices_def legacy_indices_from)

section \<open>Addresses of an interface\<close>

definition eos_addresses :: "string \<Rightarrow> string \<Rightarrow> BoundGroup \<Rightarrow> nat" where
  "eos_addresses i afi g =
     (if i = [] \<or> sp_afi (gb_spec g) \<noteq> afi then 0
      else (if gb_a_interface g = Some i \<and> gb_a_os g = ''eos'' then length (gb_a_ips g) else 0)
         + (if gb_z_interface g = Some i \<and> gb_z_os g = ''eos'' then length (gb_z_ips g) else 0))"

lemma record_eos_get:
  "i \<noteq> [] \<Longrightarrow> dict_get_or (record_eos_secondary_ip_count interface os afi ips counts) (i, f) 0 =
     dict_get_or counts (i, f) 0 + (if interface = Some i \<and> os = ''eos'' \<and> afi = f then length ips else 0)"
  by (auto simp: record_eos_secondary_ip_count_def dict_get_or_set split: option.splits list.splits)

lemma record_group_get:
  "i \<noteq> [] \<Longrightarrow> dict_get_or (record_group_ips counts g) (i, f) 0 = dict_get_or counts (i, f) 0 + eos_addresses i f g"
  by (auto simp: record_group_ips_def record_eos_get eos_addresses_def)

lemma record_groups_get:
  "i \<noteq> [] \<Longrightarrow> dict_get_or (foldl record_group_ips counts gs) (i, f) 0 =
     dict_get_or counts (i, f) 0 + sum_list (map (eos_addresses i f) gs)"
  by (induction gs arbitrary: counts) (simp_all add: record_group_get)

lemma record_eos_keys:
  "\<forall>k \<in> set (dict_keys counts). fst k \<noteq> [] \<Longrightarrow>
    \<forall>k \<in> set (dict_keys (record_eos_secondary_ip_count interface os afi ips counts)). fst k \<noteq> []"
  by (auto simp: record_eos_secondary_ip_count_def dict_keys_set split: option.splits list.splits if_splits)

lemma record_groups_keys:
  "\<forall>k \<in> set (dict_keys counts). fst k \<noteq> [] \<Longrightarrow> \<forall>k \<in> set (dict_keys (foldl record_group_ips counts gs)). fst k \<noteq> []"
proof (induction gs arbitrary: counts)
  case (Cons g gs)
  show ?case using Cons.IH [of "record_group_ips counts g"] record_eos_keys [OF record_eos_keys [OF Cons.prems]]
    by (simp add: record_group_ips_def)
qed simp

lemma eos_limits_ok:
  "validate_eos_secondary_ip_limits gs = [] \<longleftrightarrow>
     (\<forall>i afi. sum_list (map (eos_addresses i afi) gs) \<le> EOS_SECONDARY_IP_LIMIT_PER_INTERFACE_AFI)"
proof -
  let ?c = "foldl record_group_ips [] gs"
  have get: "dict_get_or ?c (i, f) 0 = sum_list (map (eos_addresses i f) gs)" if "i \<noteq> []" for i f
    using record_groups_get [OF that, of "[]" gs f] by (simp add: dict_get_or_def)
  have keys: "i \<noteq> []" if "(i, f) \<in> set (dict_keys ?c)" for i f
    using record_groups_keys [of "[]" gs] that by (auto simp: dict_keys_def)
  have "validate_eos_secondary_ip_limits gs = [] \<longleftrightarrow>
      (\<forall>(i, f) \<in> set (dict_keys ?c). dict_get_or ?c (i, f) 0 \<le> EOS_SECONDARY_IP_LIMIT_PER_INTERFACE_AFI)"
    by (auto simp: validate_eos_secondary_ip_limits_def Let_def concat_eq_Nil_conv not_less)
  also have "\<dots> \<longleftrightarrow> (\<forall>i f. i \<noteq> [] \<longrightarrow> dict_get_or ?c (i, f) 0 \<le> EOS_SECONDARY_IP_LIMIT_PER_INTERFACE_AFI)" (is "?K \<longleftrightarrow> ?A")
  proof
    assume K: ?K
    show ?A
    proof (intro allI impI)
      fix i f
      show "dict_get_or ?c (i, f) 0 \<le> EOS_SECONDARY_IP_LIMIT_PER_INTERFACE_AFI"
      proof (cases "dict_get ?c (i, f)")
        case None
        then show ?thesis by (simp add: dict_get_or_def)
      next
        case (Some n)
        then have "(i, f) \<in> set (dict_keys ?c)" by (force simp: dict_keys_def dest: map_of_SomeD)
        then show ?thesis using bspec [OF K] by fastforce
      qed
    qed
  next
    assume ?A
    then show ?K using keys by blast
  qed
  also have "\<dots> \<longleftrightarrow> (\<forall>i f. i \<noteq> [] \<longrightarrow> sum_list (map (eos_addresses i f) gs) \<le> EOS_SECONDARY_IP_LIMIT_PER_INTERFACE_AFI)"
    by (simp add: get)
  also have "\<dots> \<longleftrightarrow> (\<forall>i f. sum_list (map (eos_addresses i f) gs) \<le> EOS_SECONDARY_IP_LIMIT_PER_INTERFACE_AFI)"
  proof -
    have "sum_list (map (eos_addresses [] f) gs) = 0" for f by (simp add: eos_addresses_def)
    then show ?thesis by (metis le0)
  qed
  finally show ?thesis .
qed

section \<open>The checks together\<close>

text \<open>
  C15. The checks on ports are exact. Over all groups with a port, the graph of connections is accepted
  exactly when two groups have the same interface if and only if they have the same port, and if and
  only if they name the same reuse group; the legacy indices are accepted exactly when no
  connection carries one index twice; the secondary addresses are accepted exactly when no EOS
  interface has more than 500 addresses of a family, over all groups together.
\<close>

theorem port_checks_exact:
  "(validate_resolved_port_graph gs = [] \<longleftrightarrow> sorted_wrt ports_agree (somes (map gb_port_assignment gs)))
   \<and> (validate_legacy_device_group_indices gs = [] \<longleftrightarrow> distinct (concat (map indices_on gs)))
   \<and> (validate_eos_secondary_ip_limits gs = [] \<longleftrightarrow> (\<forall>i afi. sum_list (map (eos_addresses i afi) gs) \<le> 500))"
  using port_graph_ok legacy_indices_ok eos_limits_ok by (simp add: EOS_SECONDARY_IP_LIMIT_PER_INTERFACE_AFI_def)

end
