(* ===== verification/Bound_Facts.thy ===== *)
theory Bound_Facts
  imports Bound_Assembly Address_Facts Port_Facts Facing_Sides Route_Slices Demo_Topology
begin

text \<open>
  The binding as a whole: what an inventory-bound topology satisfies, and that the planner can put
  together whatever it builds from one.
\<close>

section \<open>One group\<close>

lemma resolved_ixia_port:
  assumes "resolve_ixia_port v i p = Inr ([], d, y, r)"
  shows "(d = None \<and> y = None \<and> r = None) \<or> (\<exists>d' y' r'. d = Some d' \<and> y = Some y' \<and> r = Some r')"
  using assms
  by (auto simp: resolve_ixia_port_def physical_interface_profile_def rbind_eq_Inr split: if_splits option.splits prod.splits)

lemma resolved_ports:
  assumes "resolve_device_group_ports g eps v port_map p = Inr ([], ports)"
  shows "dict_get eps (sp_a_endpoint g) = Some (gp_a_endpoint ports)" "dict_get eps (sp_z_endpoint g) = Some (gp_z_endpoint ports)"
    "gp_dut_interface ports = map_option pa_dut_interface (gp_port_assignment ports)"
    "gp_ixia_port ports = map_option pa_ixia_port (gp_port_assignment ports)"
proof -
  obtain a z where az: "dict_get eps (sp_a_endpoint g) = Some a" "dict_get eps (sp_z_endpoint g) = Some z"
    using assms by (auto simp: resolve_device_group_ports_def dict_index_def rbind_eq_Inr split: option.splits)
  let ?none = "\<lparr>gp_a_endpoint = a, gp_z_endpoint = z, gp_dut_interface = None, gp_ixia_port = None, gp_port_assignment = None\<rparr>"
  have "gp_a_endpoint ports = a \<and> gp_z_endpoint ports = z
      \<and> gp_dut_interface ports = map_option pa_dut_interface (gp_port_assignment ports)
      \<and> gp_ixia_port ports = map_option pa_ixia_port (gp_port_assignment ports)" (is ?claim)
  proof (cases "has_ixia_endpoint a z \<and> sp_port_assignment g \<noteq> None")
    case True
    then obtain authored where authored: "sp_port_assignment g = Some authored" by auto
    have ixia: "has_ixia_endpoint a z" using True by blast
    obtain k where k: "dict_get port_map (ipa_logical_role authored) = Some k"
      using assms ixia authored
      by (auto simp: resolve_device_group_ports_def dict_index_def az Let_def resolve_port_index_def split: option.splits)
    obtain issues d y r where port: "resolve_ixia_port v k (p @ ''.port_assignment.logical_role'') = Inr (issues, d, y, r)"
      using assms ixia authored k
      by (auto simp: resolve_device_group_ports_def dict_index_def az Let_def resolve_port_index_def rbind_eq_Inr split: prod.splits)
    have "issues = []" "ports = ?none\<lparr>gp_dut_interface := d, gp_ixia_port := y,
        gp_port_assignment := (case (d, y, r) of
          (Some d, Some y, Some r) \<Rightarrow> Some \<lparr>pa_logical_role = ipa_logical_role authored, pa_dut_interface = d, pa_ixia_port = y,
             pa_physical_inventory_index = k, pa_reuse_group = ipa_reuse_group authored, pa_profile = r,
             pa_endpoint_label_style = ipa_endpoint_label_style authored\<rparr>
        | _ \<Rightarrow> None)\<rparr>"
      using assms ixia authored k port
      by (auto simp: resolve_device_group_ports_def dict_index_def az Let_def resolve_port_index_def)
    with resolved_ixia_port [of v k "p @ ''.port_assignment.logical_role''" d y r] port show ?claim by auto
  next
    case False
    then consider "\<not> has_ixia_endpoint a z" | "sp_port_assignment g = None" by blast
    then have "ports = ?none"
      using assms by cases (simp_all add: resolve_device_group_ports_def dict_index_def az Let_def split: if_splits)
    then show ?claim by simp
  qed
  then show "dict_get eps (sp_a_endpoint g) = Some (gp_a_endpoint ports)" "dict_get eps (sp_z_endpoint g) = Some (gp_z_endpoint ports)"
    "gp_dut_interface ports = map_option pa_dut_interface (gp_port_assignment ports)"
    "gp_ixia_port ports = map_option pa_ixia_port (gp_port_assignment ports)" using az by simp_all
qed

text \<open>A bound group: its interface is on a device and comes from its port, and its AS numbers are in range and fit.\<close>

definition bound_sides :: "(string, EndpointSpec) dict \<Rightarrow> BoundGroup \<Rightarrow> bool" where
  "bound_sides eps g \<longleftrightarrow>
     (\<forall>i. gb_a_interface g = Some i \<longrightarrow> dut_named eps (sp_a_endpoint (gb_spec g)) \<and> map_option pa_dut_interface (gb_port_assignment g) = Some i)
     \<and> (\<forall>i. gb_z_interface g = Some i \<longrightarrow> dut_named eps (sp_z_endpoint (gb_spec g)) \<and> map_option pa_dut_interface (gb_port_assignment g) = Some i)"

definition bound_asns :: "PhysicalInventory \<Rightarrow> BoundGroup \<Rightarrow> bool" where
  "bound_asns v g \<longleftrightarrow> asn_range (gb_local_asn g) \<and> asn_range (gb_remote_asn g)
     \<and> asns_fit (gb_peer_relationship g) (inv_network_role v) (gb_local_asn g) (pv_local_asn_source (gb_provenance g)) (gb_remote_asn g)"

definition bound_addresses :: "BoundGroup \<Rightarrow> AddressRecords \<Rightarrow> AddressRecords \<Rightarrow> bool" where
  "bound_addresses g r r' \<longleftrightarrow>
     (\<exists>x. group_addressed (gb_spec g) x r r' \<and> gb_a_ips g = gad_a_ips x \<and> gb_z_ips g = gad_z_ips x
        \<and> gb_peer_cidrs g = map rp_peer_cidr (gad_peers x))"

lemma binding_is_dut_same: "binding_is_dut e = is_dut_endpoint e"
  by (simp add: binding_is_dut_def is_dut_endpoint_def TRAFFIC_ENDPOINT_ROLES_def traffic_endpoint_roles_def)

definition addresses_validated :: "DeviceGroupSpec \<Rightarrow> bool" where
  "addresses_validated g \<longleftrightarrow> sp_afi g \<in> set VALID_AFIS
     \<and> (\<exists>q. validate_address_plan (sp_address_plan g) q (sp_peer_count g) (sp_afi g) = [])"

lemma bound_group_ok:
  assumes "bind_device_group x i r g = Inr ([], b, r')" "records_ok r" "addresses_validated g"
    and "\<forall>k. dict_get (bx_parent_networks x) k \<noteq> Some []"
  shows "gb_spec b = g \<and> bound_sides (bx_endpoint_by_name x) b \<and> bound_asns (bx_inventory x) b
    \<and> bound_addresses b r r' \<and> records_ok r'"
proof -
  define p where "p = item_path ''device_groups'' i"
  obtain ri rel where rel: "resolve_peer_relationship g p (bx_inventory x) = (ri, rel)" by fastforce
  obtain pi ports where ports: "resolve_device_group_ports g (bx_endpoint_by_name x) (bx_inventory x) (bx_port_map x) p = Inr (pi, ports)"
    using assms(1)
    by (cases "resolve_device_group_ports g (bx_endpoint_by_name x) (bx_inventory x) (bx_port_map x) p")
      (auto simp: bind_device_group_def Let_def rel simp flip: p_def)
  obtain ai ad r1 where ad: "resolve_device_group_addresses g (bx_parent_networks x) p r = (ai, ad, r1)" by (metis prod.collapse)
  obtain bi bgp where bgp: "resolve_device_group_bgp g rel (bx_peer_groups x) (bx_as_numbers x) (bx_inventory x) p = (bi, bgp)" by fastforce
  have f: "pi = []" "ai = []" "bi = []" "r' = r1" "build_bound_device_group x g ports ad bgp rel = Inr b"
    using assms(1) by (auto simp: bind_device_group_def Let_def rel ports ad bgp rbind_eq_Inr simp flip: p_def)
  note rp = resolved_ports [OF ports [unfolded f(1)]]
  note gb = bgp_accepted [OF bgp [unfolded f(3)]]
  obtain q where "sp_afi g \<in> set VALID_AFIS" "validate_address_plan (sp_address_plan g) q (sp_peer_count g) (sp_afi g) = []"
    using assms(3) by (auto simp: addresses_validated_def)
  then have "group_addressed g ad r r1 \<and> records_ok r1"
    using group_addresses [OF ad [unfolded f(2)] assms(2) _ _ assms(4)] by blast
  then show ?thesis
    using f(4,5) rp gb
    by (auto simp: build_bound_device_group_def rbind_eq_Inr bound_sides_def bound_asns_def bound_addresses_def dut_named_def
        binding_is_dut_same split: if_splits)
qed

section \<open>All groups\<close>

fun bound_chain :: "AddressRecords \<Rightarrow> BoundGroup list \<Rightarrow> AddressRecords \<Rightarrow> bool" where
  "bound_chain r [] r' \<longleftrightarrow> r = r'"
| "bound_chain r (g # gs) r' \<longleftrightarrow> (\<exists>m. bound_addresses g r m \<and> bound_chain m gs r')"

lemma bound_groups_ok:
  assumes "bind_device_groups x i r gs = Inr ([], bs)" "records_ok r" "list_all addresses_validated gs"
    and "\<forall>k. dict_get (bx_parent_networks x) k \<noteq> Some []"
  shows "map gb_spec bs = gs \<and> list_all (bound_sides (bx_endpoint_by_name x)) bs \<and> list_all (bound_asns (bx_inventory x)) bs
    \<and> (\<exists>r'. records_ok r' \<and> bound_chain r bs r')"
  using assms(1-3)
proof (induction gs arbitrary: i r bs)
  case (Cons g gs)
  obtain b m bs' where b: "bind_device_group x i r g = Inr ([], b, m)" "bind_device_groups x (Suc i) m gs = Inr ([], bs')" "bs = b # bs'"
    using Cons.prems(1) by (auto simp: rbind_eq_Inr)
  have "addresses_validated g" "list_all addresses_validated gs" using Cons.prems(3) by simp_all
  from bound_group_ok [OF b(1) Cons.prems(2) this(1) assms(4)] Cons.IH [OF b(2) _ this(2)]
  show ?case by (auto simp: b(3))
qed auto

lemma chain_member: "bound_chain r gs r' \<Longrightarrow> g \<in> set gs \<Longrightarrow> \<exists>m m'. bound_addresses g m m'"
  by (induction gs arbitrary: r) auto

lemma chain_ips: "bound_chain r gs r' \<Longrightarrow>
    ar_bound_ips r' = ar_bound_ips r @ concat (map (\<lambda>g. gb_a_ips g @ gb_z_ips g) gs)"
  by (induction gs arbitrary: r) (auto simp: bound_addresses_def group_addressed_def)

text \<open>The peers of a bound group.\<close>

definition peers_of :: "BoundGroup \<Rightarrow> ResolvedPeer list" where
  "peers_of g = (case bound_peers (device_view g) of Inr ps \<Rightarrow> ps | Inl e \<Rightarrow> [])"

lemma peers_rebuilt:
  "map (\<lambda>(a, z, c). \<lparr>rp_a_ip = a, rp_z_ip = z, rp_peer_cidr = c\<rparr>)
     (zip (map rp_a_ip ps) (zip (map rp_z_ip ps) (map rp_peer_cidr ps))) = ps"
  by (induction ps) auto

lemma bound_peers_of:
  assumes "bound_addresses g r r'"
  shows "bound_peers (device_view g) = Inr (peers_of g)" "int (length (peers_of g)) = sp_peer_count (gb_spec g)"
    "map rp_a_ip (peers_of g) = gb_a_ips g" "map rp_z_ip (peers_of g) = gb_z_ips g" "map rp_peer_cidr (peers_of g) = gb_peer_cidrs g"
    "list_all (in_family (sp_afi (gb_spec g))) (gb_a_ips g @ gb_z_ips g)"
    "\<exists>new. ar_peer_cidrs r' = ar_peer_cidrs r @ new
       \<and> list_all2 peer_fits (filter (\<lambda>q. rp_peer_cidr q \<noteq> None) (peers_of g)) new"
proof -
  obtain x where x: "group_addressed (gb_spec g) x r r'" "gb_a_ips g = gad_a_ips x" "gb_z_ips g = gad_z_ips x"
      "gb_peer_cidrs g = map rp_peer_cidr (gad_peers x)"
    using assms by (auto simp: bound_addresses_def)
  have "map rp_a_ip (gad_peers x) = gad_a_ips x" "map rp_z_ip (gad_peers x) = gad_z_ips x"
    using x(1) by (simp_all add: group_addressed_def)
  then have len: "length (gad_a_ips x) = length (gad_peers x)" "length (gad_z_ips x) = length (gad_peers x)"
      "map rp_a_ip (gad_peers x) = gad_a_ips x" "map rp_z_ip (gad_peers x) = gad_z_ips x"
    by (metis length_map)+
  have "bound_peers (device_view g) = Inr (gad_peers x)"
  proof (cases "gad_peers x = []")
    case True
    then show ?thesis using len x by (simp add: bound_peers_def device_view_def)
  next
    case False
    then show ?thesis
      using len x peers_rebuilt [of "gad_peers x"] by (simp add: bound_peers_def device_view_def Let_def)
  qed
  then have p: "bound_peers (device_view g) = Inr (peers_of g)" "peers_of g = gad_peers x" by (simp_all add: peers_of_def)
  show "bound_peers (device_view g) = Inr (peers_of g)" by (rule p(1))
  show "int (length (peers_of g)) = sp_peer_count (gb_spec g)" "map rp_a_ip (peers_of g) = gb_a_ips g"
    "map rp_z_ip (peers_of g) = gb_z_ips g" "map rp_peer_cidr (peers_of g) = gb_peer_cidrs g"
    "list_all (in_family (sp_afi (gb_spec g))) (gb_a_ips g @ gb_z_ips g)"
    using x len by (simp_all add: p(2) group_addressed_def)
  obtain new where new: "ar_peer_cidrs r' = ar_peer_cidrs r @ new"
      "(\<forall>q \<in> set (gad_peers x). rp_peer_cidr q = None) \<and> new = [] \<or> list_all2 peer_fits (gad_peers x) new"
    using x(1) by (auto simp: group_addressed_def)
  have "filter (\<lambda>q. rp_peer_cidr q \<noteq> None) (gad_peers x) = gad_peers x" if "list_all2 peer_fits (gad_peers x) new"
    using that by (auto simp: list_all2_conv_all_nth in_set_conv_nth peer_fits_def intro!: filter_True)
  then have "list_all2 peer_fits (filter (\<lambda>q. rp_peer_cidr q \<noteq> None) (gad_peers x)) new"
    using new(2) by (auto simp: filter_empty_conv)
  then show "\<exists>new. ar_peer_cidrs r' = ar_peer_cidrs r @ new
       \<and> list_all2 peer_fits (filter (\<lambda>q. rp_peer_cidr q \<noteq> None) (peers_of g)) new"
    using new(1) by (auto simp: p(2))
qed

lemma chain_networks:
  "bound_chain r gs r' \<Longrightarrow> \<exists>new. ar_peer_cidrs r' = ar_peer_cidrs r @ new
     \<and> list_all2 peer_fits (filter (\<lambda>q. rp_peer_cidr q \<noteq> None) (concat (map peers_of gs))) new"
proof (induction gs arbitrary: r)
  case (Cons g gs)
  then obtain m where m: "bound_addresses g r m" "bound_chain m gs r'" by auto
  from bound_peers_of(7) [OF m(1)] Cons.IH [OF m(2)] show ?case
    by (auto intro: list_all2_appendI)
qed auto

section \<open>Routes and children leave the rest alone\<close>

definition core :: "BoundGroup \<Rightarrow> BoundGroup" where
  "core g = g\<lparr>gb_prefix_advertisements := [], gb_children := []\<rparr>"

lemma core_simps [simp]:
  "gb_spec (core g) = gb_spec g" "gb_a_interface (core g) = gb_a_interface g" "gb_z_interface (core g) = gb_z_interface g"
  "gb_a_ips (core g) = gb_a_ips g" "gb_z_ips (core g) = gb_z_ips g" "gb_peer_cidrs (core g) = gb_peer_cidrs g"
  "gb_port_assignment (core g) = gb_port_assignment g" "device_view (core g) = device_view g"
  "bound_sides eps (core g) = bound_sides eps g" "bound_asns v (core g) = bound_asns v g"
  "bound_addresses (core g) r r' = bound_addresses g r r'" "peers_of (core g) = peers_of g"
  by (simp_all add: core_def device_view_def bound_sides_def bound_asns_def bound_addresses_def peers_of_def)

lemma core_updates [simp]:
  "core (g\<lparr>gb_prefix_advertisements := ads\<rparr>) = core g" "core (g\<lparr>gb_children := cs\<rparr>) = core g"
  by (simp_all add: core_def)

lemma advertised_core:
  assumes "bind_prefix_advertisements sets gs = Inr (issues, gs')"
  shows "map core gs' = map core gs"
proof -
  obtain rs where rs: "rmap (bind_group_advertisements sets) (enumerate 0 gs) = Inr rs" "gs' = map snd rs"
    using assms by (auto simp: bind_prefix_advertisements_def rbind_eq_Inr)
  have step: "core (snd r) = core (snd ig)" if "bind_group_advertisements sets ig = Inr r" for ig r
    using that by (auto simp: bind_group_advertisements_def Let_def rbind_eq_Inr)
  have "list_all2 (\<lambda>ig r. core (snd r) = core (snd ig)) (enumerate 0 gs) rs"
    using rs(1) step by (auto simp: rmap_Inr_iff simp del: core_updates elim!: list_all2_mono)
  then have "map (core \<circ> snd) rs = map (core \<circ> snd) (enumerate 0 gs)"
    by (simp add: list_all2_conv_all_nth list_eq_iff_nth_eq)
  also have "\<dots> = map core gs" by (simp flip: map_map)
  finally show ?thesis by (simp add: rs(2))
qed

lemma bound_children:
  assumes "bind_ixia_children gs = Inr gs'"
  shows "map core gs' = map core gs"
    and "\<forall>g \<in> set gs'. \<forall>c \<in> set (gb_children g). bc_spec c \<in> set (sp_ixia_children (gb_spec g))
      \<and> (\<exists>peers. bound_peers (device_view g) = Inr peers
           \<and> bc_peers c = py_slice peers (ic_start_index (bc_spec c)) (ic_start_index (bc_spec c) + ic_peer_count (bc_spec c)))"
proof -
  have steps: "list_all2 (\<lambda>g g'. \<exists>cs. rmap (bind_ixia_child g) (sp_ixia_children (gb_spec g)) = Inr cs \<and> g' = g\<lparr>gb_children := cs\<rparr>) gs gs'"
    using assms by (auto simp: bind_ixia_children_def rmap_Inr_iff rbind_eq_Inr elim!: list_all2_mono)
  then have "list_all2 (\<lambda>g g'. core g' = core g) gs gs'" by (rule list_all2_mono) auto
  then show "map core gs' = map core gs" by (simp add: list_all2_conv_all_nth list_eq_iff_nth_eq)
  show "\<forall>g \<in> set gs'. \<forall>c \<in> set (gb_children g). bc_spec c \<in> set (sp_ixia_children (gb_spec g))
      \<and> (\<exists>peers. bound_peers (device_view g) = Inr peers
           \<and> bc_peers c = py_slice peers (ic_start_index (bc_spec c)) (ic_start_index (bc_spec c) + ic_peer_count (bc_spec c)))"
  proof (intro ballI)
    fix g' c
    assume "g' \<in> set gs'" "c \<in> set (gb_children g')"
    then obtain i where i: "i < length gs'" "g' = gs' ! i" by (auto simp: in_set_conv_nth)
    obtain cs where g: "rmap (bind_ixia_child (gs ! i)) (sp_ixia_children (gb_spec (gs ! i))) = Inr cs" "g' = (gs ! i)\<lparr>gb_children := cs\<rparr>"
      using list_all2_nthD2 [OF steps i(1)] i(2) by auto
    define g where "g = gs ! i"
    note g = g [folded g_def]
    have "c \<in> set cs" using \<open>c \<in> set (gb_children g')\<close> g(2) by simp
    then obtain k where "k \<in> set (sp_ixia_children (gb_spec g))" "bind_ixia_child g k = Inr c" using rmap_member [OF g(1)] by blast
    moreover have "device_view g' = device_view g" "gb_spec g' = gb_spec g" by (simp_all add: g(2) device_view_def)
    ultimately show "bc_spec c \<in> set (sp_ixia_children (gb_spec g'))
        \<and> (\<exists>peers. bound_peers (device_view g') = Inr peers
             \<and> bc_peers c = py_slice peers (ic_start_index (bc_spec c)) (ic_start_index (bc_spec c) + ic_peer_count (bc_spec c)))"
      by (auto simp: bind_ixia_child_def rbind_eq_Inr)
  qed
qed

section \<open>The bound topology\<close>

lemma bound_topologyE:
  assumes "bind_logical_topology_to_inventory t v backends port_map parents peer_groups as_numbers override = Inr b"
  obtains x groups sets advertised where "collect_logical_topology_issues t = []"
    "bx_inventory x = v" "bx_parent_networks x = parents" "bx_endpoint_by_name x = endpoints_by_name t"
    "bind_device_groups x 0 \<lparr>ar_bound_ips = [], ar_peer_cidrs = []\<rparr> (lt_device_groups t) = Inr ([], groups)"
    "bind_prefix_advertisements sets groups = Inr ([], advertised)" "bind_ixia_children advertised = Inr (bt_device_groups b)"
    "validate_resolved_port_graph groups = []" "validate_legacy_device_group_indices (bt_device_groups b) = []"
    "validate_eos_secondary_ip_limits (bt_device_groups b) = []"
    "bt_endpoints b = lt_endpoints t" "bt_policy_names b = lt_policy_names t"
proof -
  let ?r = "\<lparr>ar_bound_ips = [], ar_peer_cidrs = []\<rparr>"
  obtain ci x where x: "build_binding_context t v backends port_map parents peer_groups as_numbers = (ci, x)" by fastforce
  obtain gi groups sets pi advertised bound where steps:
      "collect_logical_topology_issues t = []" "bind_device_groups x 0 ?r (lt_device_groups t) = Inr (gi, groups)"
      "bind_prefix_advertisements sets groups = Inr (pi, advertised)" "bind_ixia_children advertised = Inr bound"
      "ci = []" "gi = []" "pi = []" "validate_resolved_port_graph groups = []" "validate_legacy_device_group_indices bound = []"
      "validate_eos_secondary_ip_limits bound = []"
      "build_bound_topology t x bound sets (merge_device_config (lt_device_config t) override) = Inr b"
    using assms
    by (auto simp: bind_logical_topology_to_inventory_def x rbind_eq_Inr validate_logical_topology_def raise_if_Inr Let_def
        split: if_splits)
  have "bx_inventory x = v" "bx_parent_networks x = parents" "bx_endpoint_by_name x = endpoints_by_name t"
    using x by (auto simp: build_binding_context_def Let_def)
  moreover have "bt_device_groups b = bound" "bt_endpoints b = lt_endpoints t" "bt_policy_names b = lt_policy_names t"
    using steps(11) by (auto simp: build_bound_topology_def Let_def rbind_eq_Inr)
  ultimately show thesis using that steps by blast
qed

lemma chain_core: "bound_chain r (map core gs) r' = bound_chain r gs r'"
  by (induction gs arbitrary: r) simp_all

lemma accepted_addresses: "collect_logical_topology_issues t = [] \<Longrightarrow> list_all addresses_validated (lt_device_groups t)"
  unfolding list_all_iff addresses_validated_def by (metis accepted_basics(2) accepted_groupE)

lemma bound_overview:
  assumes "bind_logical_topology_to_inventory t v backends port_map parents peer_groups as_numbers override = Inr b"
    and "\<forall>k. dict_get parents k \<noteq> Some []"
  obtains r where "map gb_spec (bt_device_groups b) = lt_device_groups t"
    "list_all (bound_sides (endpoints_by_name t)) (bt_device_groups b)" "list_all (bound_asns v) (bt_device_groups b)"
    "records_ok r" "bound_chain \<lparr>ar_bound_ips = [], ar_peer_cidrs = []\<rparr> (bt_device_groups b) r"
    "validate_resolved_port_graph (bt_device_groups b) = []"
proof (rule bound_topologyE [OF assms(1)])
  fix x groups sets advertised
  assume a: "collect_logical_topology_issues t = []"
    "bx_inventory x = v" "bx_parent_networks x = parents" "bx_endpoint_by_name x = endpoints_by_name t"
    "bind_device_groups x 0 \<lparr>ar_bound_ips = [], ar_peer_cidrs = []\<rparr> (lt_device_groups t) = Inr ([], groups)"
    "bind_prefix_advertisements sets groups = Inr ([], advertised)" "bind_ixia_children advertised = Inr (bt_device_groups b)"
    "validate_resolved_port_graph groups = []"
  have core: "map core (bt_device_groups b) = map core groups"
    using advertised_core [OF a(6)] bound_children(1) [OF a(7)] by simp
  have same: "map f (bt_device_groups b) = map f groups" if "\<And>g. f (core g) = f g" for f :: "BoundGroup \<Rightarrow> 'c"
  proof -
    have "map f (map core (bt_device_groups b)) = map f (map core groups)" by (simp only: core)
    then show ?thesis by (simp add: that comp_def)
  qed
  have every: "list_all P (bt_device_groups b) = list_all P groups" if "\<And>g. P (core g) = P g" for P
  proof -
    have "list_all P (map core (bt_device_groups b)) = list_all P (map core groups)" by (simp only: core)
    then show ?thesis by (simp add: that list_all_iff)
  qed
  have "records_ok \<lparr>ar_bound_ips = [], ar_peer_cidrs = []\<rparr>" by (simp add: records_ok_def)
  from bound_groups_ok [OF a(5) this accepted_addresses [OF a(1)]] assms(2) a(2-4)
  obtain r where r: "map gb_spec groups = lt_device_groups t" "list_all (bound_sides (endpoints_by_name t)) groups"
      "list_all (bound_asns v) groups" "records_ok r" "bound_chain \<lparr>ar_bound_ips = [], ar_peer_cidrs = []\<rparr> groups r"
    by auto
  show thesis
  proof (rule that [of r])
    show "bound_chain \<lparr>ar_bound_ips = [], ar_peer_cidrs = []\<rparr> (bt_device_groups b) r"
      using r(5) chain_core [of _ "bt_device_groups b"] chain_core [of _ groups] by (simp add: core)
    show "validate_resolved_port_graph (bt_device_groups b) = []"
      using a(8) same [of gb_port_assignment] by (simp add: validate_resolved_port_graph_def)
  qed (use r same [of gb_spec] every in simp_all)
qed

section \<open>The planner's view\<close>

lemma planned_view_simps [simp]:
  "bg_name (planned_view g) = sp_name (gb_spec g)" "bg_afi (planned_view g) = sp_afi (gb_spec g)"
  "bg_peer_count (planned_view g) = sp_peer_count (gb_spec g)" "bg_a_endpoint (planned_view g) = sp_a_endpoint (gb_spec g)"
  "bg_z_endpoint (planned_view g) = sp_z_endpoint (gb_spec g)" "bg_a_interface (planned_view g) = gb_a_interface g"
  "bg_z_interface (planned_view g) = gb_z_interface g" "bg_peer_cidrs (planned_view g) = gb_peer_cidrs g"
  "bg_port_assignment (planned_view g) = gb_port_assignment g" "xg_children (planned_view g) = map planned_child (gb_children g)"
  "bg_a_ips (planned_view g) = gb_a_ips g" "bg_z_ips (planned_view g) = gb_z_ips g"
  by (simp_all add: planned_view_def device_view_def BoundDeviceGroup.defs IxiaBoundDeviceGroup.defs)

lemma planned_view_peers [simp]: "bound_peers (planned_view g) = bound_peers (device_view g)"
proof -
  have "bg_a_ips (device_view g) = gb_a_ips g" "bg_z_ips (device_view g) = gb_z_ips g" "bg_peer_cidrs (device_view g) = gb_peer_cidrs g"
    by (simp_all add: device_view_def)
  then show ?thesis by (simp add: bound_peers_def Let_def)
qed

lemma planner_input_simps [simp]:
  "bt_endpoints (planner_input b) = bt_endpoints b" "bt_policy_names (planner_input b) = bt_policy_names b"
  "bt_device_groups (planner_input b) = map planned_view (bt_device_groups b)"
  by (simp_all add: planner_input_def)

lemma tiles_within: "tiles a ws b \<Longrightarrow> (\<forall>w \<in> set ws. a \<le> fst w \<and> 0 < snd w \<and> fst w + snd w \<le> b) \<and> a \<le> b"
  by (induction a ws b rule: tiles.induct) force+

lemma py_slice_window:
  assumes "0 \<le> a" "0 \<le> n" "a + n \<le> int (length xs)"
  shows "py_slice xs a (a + n) = take (nat n) (drop (nat a) xs)" "length (py_slice xs a (a + n)) = nat n"
  using assms by (auto simp: py_slice_def clip_bound_def Let_def min_def)

lemma planned_child_window:
  assumes "bc_peers c = py_slice peers (ic_start_index (bc_spec c)) (ic_start_index (bc_spec c) + ic_peer_count (bc_spec c))"
    and "0 \<le> ic_start_index (bc_spec c)" "0 < ic_peer_count (bc_spec c)"
    and "ic_start_index (bc_spec c) + ic_peer_count (bc_spec c) \<le> int (length peers)"
  shows "child_window peers (planned_child c)"
  using assms py_slice_window [of "ic_start_index (bc_spec c)" "ic_peer_count (bc_spec c)" peers]
  by (simp add: child_window_def planned_child_def)

lemma accepted_child_window:
  assumes "collect_logical_topology_issues t = []" "g \<in> set (lt_device_groups t)" "c \<in> set (sp_ixia_children g)"
  shows "0 \<le> ic_start_index c \<and> 0 < ic_peer_count c \<and> ic_start_index c + ic_peer_count c \<le> sp_peer_count g"
proof -
  obtain p where "validate_ixia_children p g (named_dict es_name (lt_endpoints t)) = []"
    using accepted_groupE [OF assms(1,2)] by metis
  moreover have "sp_ixia_children g \<noteq> []" using assms(3) by auto
  ultimately show ?thesis using tiles_within [OF children_tile(1)] assms(3) by fastforce
qed

lemma fitting_prefix:
  assumes "peer_fits q n" "in_family afi (rp_a_ip q)" "afi \<in> set VALID_AFIS"
  shows "prefix_in_family afi (rp_peer_cidr q)"
  using assms by (auto simp: peer_fits_def in_family_def prefix_in_family_def in_network_def afi_version_def split: if_splits)

lemma bound_prefixes:
  assumes "bound_addresses g r r'" "sp_afi (gb_spec g) \<in> set VALID_AFIS"
  shows "list_all (prefix_in_family (sp_afi (gb_spec g))) (gb_peer_cidrs g)"
proof -
  note p = bound_peers_of [OF assms(1)]
  have "prefix_in_family (sp_afi (gb_spec g)) (rp_peer_cidr q)" if q: "q \<in> set (peers_of g)" for q
  proof (cases "rp_peer_cidr q")
    case None
    then show ?thesis by (simp add: prefix_in_family_def)
  next
    case (Some c)
    then have "q \<in> set (filter (\<lambda>q. rp_peer_cidr q \<noteq> None) (peers_of g))" using q by simp
    then obtain n where "peer_fits q n" using p(7) by (metis in_set_conv_nth list_all2_conv_all_nth)
    moreover have "rp_a_ip q \<in> set (gb_a_ips g)" using q p(3) by (metis image_eqI set_map)
    ultimately show ?thesis using p(6) fitting_prefix assms(2) by (auto simp: list_all_iff)
  qed
  then show ?thesis using p(5) by (auto simp: list_all_iff simp flip: p(5))
qed

section \<open>An example\<close>

text \<open>The demo intent on one device port; AS number 65001 is that of the \<open>uplink\<close> role.\<close>

definition demo_lab :: PhysicalInventory where
  "demo_lab = demo_inventory\<lparr>inv_speed := ''100g-2'', inv_profile_overrides := []\<rparr>"

definition demo_binding :: "InventoryTopology result" where
  "demo_binding =
     bind_logical_topology_to_inventory demo_intent demo_lab [] [(''uplink'', 0)] [] [] [(''uplink'', VInt 65001)] None"

lemma demo_lab_binds:
  "\<exists>b. demo_binding = Inr b \<and> map gb_z_ips (bt_device_groups b) = [[''0.0.0.11'', ''0.0.0.13''], [''0.0.0.15'']]
     \<and> map (map bc_peers \<circ> gb_children) (bt_device_groups b) =
         [[[\<lparr>rp_a_ip = ''0.0.0.10'', rp_z_ip = ''0.0.0.11'', rp_peer_cidr = Some ''0.0.0.10/31''\<rparr>],
           [\<lparr>rp_a_ip = ''0.0.0.12'', rp_z_ip = ''0.0.0.13'', rp_peer_cidr = Some ''0.0.0.12/31''\<rparr>]], []]"
proof -
  have "(case demo_binding of
      Inl e \<Rightarrow> False
    | Inr b \<Rightarrow> map gb_z_ips (bt_device_groups b) = [[''0.0.0.11'', ''0.0.0.13''], [''0.0.0.15'']]
        \<and> map (map bc_peers \<circ> gb_children) (bt_device_groups b) =
         [[[\<lparr>rp_a_ip = ''0.0.0.10'', rp_z_ip = ''0.0.0.11'', rp_peer_cidr = Some ''0.0.0.10/31''\<rparr>],
           [\<lparr>rp_a_ip = ''0.0.0.12'', rp_z_ip = ''0.0.0.13'', rp_peer_cidr = Some ''0.0.0.12/31''\<rparr>]], []])"
    by code_simp
  then show ?thesis by (auto split: sum.splits)
qed

text \<open>
  What the binding does not notice. Explicit addresses are compared as text. A missing parent network
  is an issue, an empty one is not: the groups are bound with no address at all.
\<close>

lemma same_address_twice:
  "record_duplicate_ips p code [] [] [''::1'', ''0::1''] = ([], [''::1'', ''0::1'']) \<and> parse_ip ''::1'' = parse_ip ''0::1''"
proof -
  have "parse_ip ''::1'' = parse_ip ''0::1''" by code_simp
  then show ?thesis by simp
qed

lemma unaddressed_group:
  "(case bind_logical_topology_to_inventory
      (demo_intent\<lparr>lt_device_groups := map (\<lambda>g. g\<lparr>sp_address_plan := (sp_address_plan g)\<lparr>ap_parent_network := None,
         ap_parent_network_key := Some ''lab''\<rparr>\<rparr>) demo_groups\<rparr>)
      demo_lab [] [(''uplink'', 0)] [(''lab'', [])] [] [(''uplink'', VInt 65001)] None of
    Inl e \<Rightarrow> False | Inr b \<Rightarrow> map gb_a_ips (bt_device_groups b) = [[], []])"
  by code_simp

section \<open>Properties\<close>





end
