(* ===== verification/Route_Resolution.thy ===== *)
theory Route_Resolution
  imports Bound_Facts
begin

text \<open>
  An accepted topology has no advertisement that fails to resolve: every route of every peer is a
  prefix and a next hop of the group's address family.
\<close>

section \<open>Next hops\<close>

lemma formulaic_hops_resolve:
  assumes "validate_formulaic_next_hops p s n afi = []"
  shows "\<exists>q. mk_FormulaicAddressSequence (nhs_start s) (nhs_step s) n = Inr q
    \<and> (\<forall>k. 0 \<le> k \<and> k < n \<longrightarrow> (\<exists>h. fas_getitem q k = Inr h \<and> in_family afi h))"
proof -
  obtain start parent step where v: "parse_ip (nhs_start s) = Some start" "afi = (if ip_version start = 4 then ''v4'' else ''v6'')"
      "parse_network (nhs_parent s) afi = Some parent" "parse_positive_ip_step (nhs_step s) afi = Some step"
      "ip_int start + step * (n - 1) < 2 ^ max_prefixlen (ip_version start)" "in_network start parent"
      "in_network (ip_address_of_int (ip_int start + step * (n - 1))) parent"
    using assms by (auto simp: validate_formulaic_next_hops_def Let_def not_le split: if_splits option.splits)
  have afi: "afi \<in> set VALID_AFIS" "afi_version afi = ip_version start"
    using v(2) ip_version_cases [of start] by (auto simp: VALID_AFIS_def afi_version_def)
  have step: "0 < step" "step_as_int (nhs_step s) (ip_version start) = Inr step"
    using positive_step [OF v(4) afi(1)] afi(2) by simp_all
  let ?q = "\<lparr>fas_start = start, fas_step = step, fas_count = n\<rparr>"
  have "mk_FormulaicAddressSequence (nhs_start s) (nhs_step s) n = Inr ?q"
    using v(1) step(2) by (simp add: mk_FormulaicAddressSequence_def ip_address_def)
  moreover have "\<exists>h. fas_getitem ?q k = Inr h \<and> in_family afi h" if k: "0 \<le> k" "k < n" for k
  proof -
    have "k * step \<le> step * (n - 1)" using k step(1) by (simp add: mult.commute)
    then obtain a where a: "ip_of_int (ip_version start) (ip_int start + k * step) = Inr a" "ip_version a = ip_version start"
      using progression_inside [OF v(6,7,5) parse_ip_nonneg [OF v(1)] k(1) _ step(1)] by auto
    have "parse_ip (ip_str a) = Some a" by (rule address_round_trip [OF ip_valid_of_int [OF a(1)]])
    then have "in_family afi (ip_str a)" using a(2) afi(2) by (simp add: in_family_def)
    moreover have "fas_getitem ?q k = Inr (ip_str a)" using a(1) k by (simp add: seq_getitem_inside fas_item_def)
    ultimately show ?thesis by blast
  qed
  ultimately show ?thesis by blast
qed

lemma explicit_hops_resolve:
  assumes "validate_explicit_next_hops p s afi = []" "h \<in> set (nhs_addresses s)"
  shows "in_family afi h"
proof -
  obtain parent r where v: "afi = (if ip_version (fst parent) = 4 then ''v4'' else ''v6'')"
      "each (\<lambda>r address. case parse_ip_afi address afi of
          None \<Rightarrow> [issue r ''invalid_explicit_next_hop'']
        | Some a \<Rightarrow> check (\<not> in_network a parent) r ''invalid_explicit_next_hop'') r (nhs_addresses s) = []"
    using assms(1) by (auto simp: validate_explicit_next_hops_def Let_def split: if_splits option.splits)
  have afi: "afi \<in> set VALID_AFIS" using v(1) by (auto simp: VALID_AFIS_def)
  show ?thesis
    by (rule each_member [OF v(2) assms(2)])
      (auto simp: in_family_def parse_ip_afi_Some dest: version_of_family [OF afi] split: option.splits)
qed

text \<open>The index of a route into the next hops of its advertisement is in range.\<close>

lemma next_hop_index_bounds:
  assumes "0 \<le> i" "i < n" "0 \<le> slot" "slot < prefixes_per_peer a" "rel = relative_prefix_index a i slot"
  shows "0 \<le> next_hop_index d i (prefixes_per_peer a) slot rel"
    "next_hop_index d i (prefixes_per_peer a) slot rel < next_hop_cardinality d n (prefixes_per_peer a) (distinct_prefix_count a n)"
    "0 \<le> rel" "rel < distinct_prefix_count a n"
proof -
  let ?m = "prefixes_per_peer a"
  have "0 \<le> i * ?m" using assms by simp
  moreover have "(i + 1) * ?m \<le> n * ?m" using assms by (intro mult_right_mono) auto
  ultimately have cell: "0 \<le> i * ?m + slot" "i * ?m + slot < n * ?m" using assms by (simp_all add: algebra_simps)
  show "0 \<le> rel" "rel < distinct_prefix_count a n"
    using cell assms by (cases "peer_distribution a"; simp add: relative_prefix_index_def distinct_prefix_count_def)+
  then show "0 \<le> next_hop_index d i ?m slot rel" "next_hop_index d i ?m slot rel < next_hop_cardinality d n ?m (distinct_prefix_count a n)"
    using cell assms by (cases d; simp)+
qed

lemma next_hop_count_cardinality: "next_hop_count (Some d) n m k = Inr (next_hop_cardinality d n m k)"
  by (cases d) simp_all

lemma validated_next_hops:
  assumes v: "validate_next_hop_intent p ad n afi (distinct_prefix_count (adv_allocation ad) n) = []"
    and members: "member_count (adv_membership ad) = distinct_prefix_count (adv_allocation ad) n"
  shows "\<exists>hops. resolve_advertisement_next_hops n ad = Inr hops
    \<and> (\<forall>e ps i slot z. adv_next_hop e = adv_next_hop ad \<and> adv_allocation e = adv_allocation ad
         \<and> 0 \<le> i \<and> i < n \<and> 0 \<le> slot \<and> slot < prefixes_per_peer (adv_allocation ad) \<and> in_family afi z \<longrightarrow>
         (\<exists>h. next_hop (peer_paths e ps hops i z) slot (relative_prefix_index (adv_allocation ad) i slot) = Inr h \<and> in_family afi h))"
proof (cases "NextHopIntent.nh_mode (adv_next_hop ad) = SELF")
  case True
  then show ?thesis by (auto simp: resolve_advertisement_next_hops_def next_hop_def peer_paths_def Let_def)
next
  case ext: False
  let ?i = "adv_next_hop ad" and ?a = "adv_allocation ad"
  let ?m = "prefixes_per_peer ?a" and ?k = "distinct_prefix_count ?a n"
  obtain d where d: "NextHopIntent.nh_distribution ?i = Some d"
      "validate_next_hop_source p ?i (next_hop_cardinality d n ?m ?k) afi = []"
    using v ext by (cases "NextHopIntent.nh_distribution ?i")
      (auto simp: validate_next_hop_intent_def validate_external_next_hop_def Let_def)
  let ?c = "next_hop_cardinality d n ?m ?k"
  have "\<exists>hs. (if NextHopIntent.nh_mode ?i = FORMULAIC then formulaic_hops (nh_formulaic_source ?i) ?c
         else explicit_hops (nh_explicit_source ?i) ?c) = Inr hs \<and> next_hops_len hs = ?c
       \<and> (\<forall>j. 0 \<le> j \<and> j < ?c \<longrightarrow> (\<exists>h. next_hops_getitem hs j = Inr h \<and> in_family afi h))"
  proof (cases "NextHopIntent.nh_mode ?i")
    case FORMULAIC
    then obtain s where s: "nh_formulaic_source ?i = Some s" "validate_formulaic_next_hops p s ?c afi = []"
      using d(2) by (auto simp: validate_next_hop_source_def split: option.splits)
    obtain q where "mk_FormulaicAddressSequence (nhs_start s) (nhs_step s) ?c = Inr q"
        "\<forall>k. 0 \<le> k \<and> k < ?c \<longrightarrow> (\<exists>h. fas_getitem q k = Inr h \<and> in_family afi h)"
      using formulaic_hops_resolve [OF s(2)] by blast
    then show ?thesis
      using FORMULAIC s(1) mk_address_sequence_count by (intro exI [of _ "FormulaicHops q"]) (simp add: formulaic_hops_def)
  next
    case EXPLICIT
    then obtain s where s: "nh_explicit_source ?i = Some s" "int (length (nhs_addresses s)) = ?c" "validate_explicit_next_hops p s afi = []"
      using d(2) by (auto simp: validate_next_hop_source_def split: option.splits if_splits)
    have "in_family afi (nhs_addresses s ! nat j)" if "0 \<le> j" "j < ?c" for j
      using explicit_hops_resolve [OF s(3)] that s(2) by (simp add: nat_less_iff)
    then show ?thesis
      using EXPLICIT s(1,2) by (intro exI [of _ "ExplicitHops (nhs_addresses s)"]) (simp add: explicit_hops_def seq_getitem_inside)
  qed (use ext in simp)
  then obtain hs where hs: "(if NextHopIntent.nh_mode ?i = FORMULAIC then formulaic_hops (nh_formulaic_source ?i) ?c
         else explicit_hops (nh_explicit_source ?i) ?c) = Inr hs" "next_hops_len hs = ?c"
      "\<And>j. 0 \<le> j \<Longrightarrow> j < ?c \<Longrightarrow> \<exists>h. next_hops_getitem hs j = Inr h \<and> in_family afi h" by blast
  have "resolve_advertisement_next_hops n ad = Inr (Some hs)"
    using ext d(1) members hs(1) by (simp add: resolve_advertisement_next_hops_def next_hop_count_cardinality)
  moreover have "\<exists>h. next_hop (peer_paths e ps (Some hs) i z) slot (relative_prefix_index ?a i slot) = Inr h \<and> in_family afi h"
    if e: "adv_next_hop e = ?i" "adv_allocation e = ?a" and i: "0 \<le> i" "i < n" "0 \<le> slot" "slot < ?m" for e ps i slot z
    using next_hop_index_bounds(1,2) [OF i refl, of d] hs(2,3) ext d(1) e
    by (simp add: next_hop_def peer_paths_def rs_len_def Let_def)
  ultimately show ?thesis by blast
qed

section \<open>Advertisements of an accepted topology\<close>

lemma advertisements_member:
  "validate_group_advertisements g sets p i seen ads = [] \<Longrightarrow> ad \<in> set ads \<Longrightarrow> \<exists>q. validate_prefix_advertisement g sets q ad = []"
  by (induction g sets p i seen ads rule: validate_group_advertisements.induct) (auto simp: Let_def)

lemma first_of_name:
  "dict_get (foldl (add_first name) d xs) k = Some x \<Longrightarrow> dict_get d k = Some x \<or> (x \<in> set xs \<and> name x = k)"
  by (induction xs arbitrary: d) (force simp: add_first_def split: if_splits)+

lemma resolved_prefix_sets:
  assumes "resolve_prefix_sets xs = Inr d" "distinct (map ps_name xs)"
  shows "set (dict_keys d) = ps_name ` set xs"
    "ps \<in> set xs \<Longrightarrow> \<exists>s. mk_FormulaicPrefixSequence (ps_source ps) = Inr s
       \<and> dict_get d (ps_name ps) = Some \<lparr>rps_spec = ps, rps_prefixes = s\<rparr>"
proof -
  define f where "f = (\<lambda>d ps. rbind (mk_FormulaicPrefixSequence (ps_source ps)) (\<lambda>s.
         Inr (dict_set (ps_name ps) \<lparr>rps_spec = ps, rps_prefixes = s\<rparr> d)) :: (string, ResolvedPrefixSet) dict result)"
  have "set (dict_keys d') = set (dict_keys d0) \<union> ps_name ` set xs
      \<and> (\<forall>k. k \<notin> ps_name ` set xs \<longrightarrow> dict_get d' k = dict_get d0 k)
      \<and> (\<forall>ps \<in> set xs. \<exists>s. mk_FormulaicPrefixSequence (ps_source ps) = Inr s
           \<and> dict_get d' (ps_name ps) = Some \<lparr>rps_spec = ps, rps_prefixes = s\<rparr>)"
    if "rfold f d0 xs = Inr d'" for d0 d'
    using that assms(2)
  proof (induction xs arbitrary: d0)
    case (Cons x xs)
    obtain s where s: "mk_FormulaicPrefixSequence (ps_source x) = Inr s"
        "rfold f (dict_set (ps_name x) \<lparr>rps_spec = x, rps_prefixes = s\<rparr> d0) xs = Inr d'"
      using Cons.prems(1) by (auto simp: f_def rbind_eq_Inr)
    have "ps_name x \<notin> ps_name ` set xs" "distinct (map ps_name xs)" using Cons.prems(2) by auto
    from Cons.IH [OF s(2) this(2)] this(1) s(1) show ?case by (auto simp: dict_keys_set)
  qed simp
  from this [of "[]" d] assms(1) show "set (dict_keys d) = ps_name ` set xs"
    "ps \<in> set xs \<Longrightarrow> \<exists>s. mk_FormulaicPrefixSequence (ps_source ps) = Inr s
       \<and> dict_get d (ps_name ps) = Some \<lparr>rps_spec = ps, rps_prefixes = s\<rparr>"
    by (auto simp: resolve_prefix_sets_def f_def dict_keys_def)
qed

text \<open>What validation establishes about the prefix sets and about an advertisement.\<close>

lemma accepted_prefix_sets:
  assumes "collect_logical_topology_issues t = []"
  shows "distinct (map ps_name (lt_prefix_sets t))"
    "ps \<in> set (lt_prefix_sets t) \<Longrightarrow> \<exists>q. validate_prefix_set q ps = []"
proof -
  have u: "fst (check_unique_names ''prefix_sets'' ''duplicate_prefix_set_name'' (map ps_name (lt_prefix_sets t))) = []"
    and v: "each (\<lambda>p ps. check (ps_name ps = []) (p @ ''.name'') ''name_required'' @ validate_prefix_set p ps)
        ''prefix_sets'' (lt_prefix_sets t) = []"
    using assms by (simp_all add: collect_logical_topology_issues_def validate_prefix_sets_def Let_def)
  have member: "ps_name x \<noteq> [] \<and> (\<exists>q. validate_prefix_set q x = [])" if "x \<in> set (lt_prefix_sets t)" for x
    by (rule each_member [OF v that]) (auto simp: append_is_Nil_conv)
  then have "filter (\<lambda>n. n \<noteq> []) (map ps_name (lt_prefix_sets t)) = map ps_name (lt_prefix_sets t)"
    by (auto simp: filter_id_conv)
  then show "distinct (map ps_name (lt_prefix_sets t))" using unique_names_ok [OF u] by simp
  show "ps \<in> set (lt_prefix_sets t) \<Longrightarrow> \<exists>q. validate_prefix_set q ps = []" using member by blast
qed

lemma accepted_advertisement:
  assumes "collect_logical_topology_issues t = []" "g \<in> set (lt_device_groups t)" "ad \<in> set (sp_prefix_advertisements g)"
  obtains ps p where "ps \<in> set (lt_prefix_sets t)" "ps_name ps = adv_prefix_set ad" "ps_afi ps = sp_afi g"
    "0 < prefixes_per_peer (adv_allocation ad)" "0 \<le> start_index (adv_membership ad)"
    "member_count (adv_membership ad) = distinct_prefix_count (adv_allocation ad) (sp_peer_count g)"
    "start_index (adv_membership ad) + member_count (adv_membership ad) \<le> prefix_count (ps_source ps)"
    "validate_next_hop_intent p ad (sp_peer_count g) (sp_afi g) (member_count (adv_membership ad)) = []"
proof -
  obtain q where "validate_prefix_advertisements (prefix_sets_by_name t) q g = []" using accepted_groupE [OF assms(1,2)] by metis
  then obtain p where p: "validate_prefix_advertisement g (prefix_sets_by_name t) p ad = []"
    using advertisements_member assms(3) by (fastforce simp: validate_prefix_advertisements_def)
  then obtain ps where ps: "dict_get (prefix_sets_by_name t) (adv_prefix_set ad) = Some ps" "ps_afi ps = sp_afi g"
    by (auto simp: validate_prefix_advertisement_def split: option.splits)
  have "ps \<in> set (lt_prefix_sets t)" "ps_name ps = adv_prefix_set ad"
    using first_of_name [of ps_name "[]" "lt_prefix_sets t"] ps(1) by (auto simp: prefix_sets_by_name_def)
  then show thesis
    using that [of ps p] p ps
    by (auto simp: validate_prefix_advertisement_def validate_prefix_advertisement_geometry_def Let_def not_le split: if_splits)
qed

text \<open>The items of a validated prefix set are addresses of its family.\<close>

lemma validated_prefixes_parse:
  assumes "validate_prefix_set q ps = []" "mk_FormulaicPrefixSequence (ps_source ps) = Inr s"
  shows "fps_len s = prefix_count (ps_source ps)"
    "0 \<le> k \<Longrightarrow> k < fps_len s \<Longrightarrow> \<exists>x. fps_getitem s k = Inr x \<and> in_family (ps_afi ps) x"
proof -
  from validated_prefixes_resolve [OF assms(1)] assms(2)
  have items: "fps_len s = prefix_count (ps_source ps)"
    "\<And>i. 0 \<le> i \<Longrightarrow> i < fps_len s \<Longrightarrow> \<exists>a. fps_getitem s i = Inr (ip_str a)" by auto
  obtain start where start: "ps_afi ps \<in> set VALID_AFIS" "parse_ip_afi (start_prefix (ps_source ps)) (ps_afi ps) = Some start"
    by (rule validated_prefix_setE [OF assms(1)])
  then have "parse_ip (start_prefix (ps_source ps)) = Some start" "ip_version start = afi_version (ps_afi ps)"
    using version_of_family by (auto simp: parse_ip_afi_Some)
  moreover have "ip_address (start_prefix (ps_source ps)) = Inr (fps_start s)"
    using assms(2) by (auto simp: mk_FormulaicPrefixSequence_def rbind_eq_Inr split: if_splits)
  ultimately have v: "ip_version (fps_start s) = afi_version (ps_afi ps)" by (simp add: ip_address_Inr)
  show "fps_len s = prefix_count (ps_source ps)" by (rule items(1))
  assume k: "0 \<le> k" "k < fps_len s"
  then obtain a where a: "fps_getitem s k = Inr (ip_str a)" using items(2) by blast
  then obtain m b where b: "ip_of_int (ip_version (fps_start s)) m = Inr b" "ip_str a = ip_str b"
    using k by (auto simp: seq_getitem_inside fps_item_def rbind_eq_Inr)
  have "ip_version b = ip_version (fps_start s)"
    using b(1) ip_version_cases [of "fps_start s"] by (auto simp: ip_of_int_Inr)
  then have "in_family (ps_afi ps) (ip_str a)"
    using address_round_trip [OF ip_valid_of_int [OF b(1)]] b(2) v by (simp add: in_family_def)
  then show "\<exists>x. fps_getitem s k = Inr x \<and> in_family (ps_afi ps) x" using a by blast
qed

text \<open>An advertisement of an accepted topology resolves, and so does each of its routes.\<close>

lemma advertisement_routes:
  assumes t: "collect_logical_topology_issues t = []" "gb_spec g \<in> set (lt_device_groups t)"
      "ad \<in> set (sp_prefix_advertisements (gb_spec g))" "resolve_prefix_sets (lt_prefix_sets t) = Inr sets"
    and z: "int (length (gb_z_ips g)) = sp_peer_count (gb_spec g)" "list_all (in_family (sp_afi (gb_spec g))) (gb_z_ips g)"
    and A: "resolve_prefix_advertisement g ad sets = Inr A"
    and i: "0 \<le> i" "i < sp_peer_count (gb_spec g)" "0 \<le> slot" "slot < prefixes_per_peer (adv_allocation ad)"
  shows "\<exists>r. path_at (ra_paths_by_peer A) i slot = Inr r \<and> in_family (sp_afi (gb_spec g)) (path_prefix r)
    \<and> in_family (sp_afi (gb_spec g)) (path_next_hop r)"
proof (rule accepted_advertisement [OF t(1-3)])
  fix ps p
  let ?n = "sp_peer_count (gb_spec g)" and ?a = "adv_allocation ad" and ?m = "adv_membership ad" and ?afi = "sp_afi (gb_spec g)"
  assume ad: "ps \<in> set (lt_prefix_sets t)" "ps_name ps = adv_prefix_set ad" "ps_afi ps = ?afi"
    "0 < prefixes_per_peer ?a" "0 \<le> start_index ?m" "member_count ?m = distinct_prefix_count ?a ?n"
    "start_index ?m + member_count ?m \<le> prefix_count (ps_source ps)"
    "validate_next_hop_intent p ad ?n ?afi (member_count ?m) = []"
  obtain s where s: "mk_FormulaicPrefixSequence (ps_source ps) = Inr s"
      "dict_get sets (adv_prefix_set ad) = Some \<lparr>rps_spec = ps, rps_prefixes = s\<rparr>"
    using resolved_prefix_sets(2) [OF t(4) accepted_prefix_sets(1) [OF t(1)] ad(1)] ad(2) by auto
  obtain q where "validate_prefix_set q ps = []" using accepted_prefix_sets(2) [OF t(1) ad(1)] by blast
  note prefixes = validated_prefixes_parse [OF this s(1), unfolded ad(3)]
  obtain hops where hops: "resolve_advertisement_next_hops ?n ad = Inr hops"
    and hop: "\<And>e ps z. adv_next_hop e = adv_next_hop ad \<Longrightarrow> adv_allocation e = ?a \<Longrightarrow> in_family ?afi z \<Longrightarrow>
        \<exists>h. next_hop (peer_paths e ps hops i z) slot (relative_prefix_index ?a i slot) = Inr h \<and> in_family ?afi h"
    using validated_next_hops [of p ad ?n ?afi] ad(6,8) i by auto
  let ?e = "effective_advertisement (gb_spec g) ad" and ?ps = "\<lparr>rps_spec = ps, rps_prefixes = s\<rparr>"
  have e: "adv_next_hop ?e = adv_next_hop ad" "adv_allocation ?e = ?a" "adv_membership ?e = ?m"
    by (simp_all add: effective_advertisement_def)
  have paths: "ra_paths_by_peer A = map (\<lambda>(i, z). peer_paths ?e ?ps hops (int i) z) (enumerate 0 (gb_z_ips g))"
    using A hops s(2) by (auto simp: resolve_prefix_advertisement_def dict_index_def rbind_eq_Inr Let_def)
  let ?z = "gb_z_ips g ! nat i"
  have "nat i < length (gb_z_ips g)" using i z(1) by linarith
  then have path: "path_at (ra_paths_by_peer A) i slot = rs_item (peer_paths ?e ?ps hops i ?z) slot" and fam: "in_family ?afi ?z"
    using i z by (auto simp: path_at_def paths seq_getitem_inside nth_enumerate_eq peer_paths_def rs_len_def e list_all_length)
  obtain h where h: "next_hop (peer_paths ?e ?ps hops i ?z) slot (relative_prefix_index ?a i slot) = Inr h" "in_family ?afi h"
    using hop [OF e(1,2) fam] by blast
  note rel = next_hop_index_bounds(3,4) [OF i refl]
  then have "0 \<le> start_index ?m + relative_prefix_index ?a i slot" "start_index ?m + relative_prefix_index ?a i slot < fps_len s"
    using prefixes(1) ad(5-7) by simp_all
  then obtain x where "fps_getitem s (start_index ?m + relative_prefix_index ?a i slot) = Inr x" "in_family ?afi x"
    using prefixes(2) by blast
  then show ?thesis
    using path h rel prefixes(1) ad(5-7)
    by (auto simp: rs_item_peer_paths e)
qed

section \<open>Bound topologies\<close>

lemma list_all2_source: "list_all2 P xs ys \<Longrightarrow> y \<in> set ys \<Longrightarrow> \<exists>x \<in> set xs. P x y"
  by (induction rule: list_all2_induct) auto

text \<open>What the bound topology holds, and the steps of a binding that returned.\<close>

lemma built_topology:
  assumes "build_bound_topology t x gs sets config = Inr b"
  shows "bt_endpoints b = lt_endpoints t" "bt_device_groups b = gs" "bt_device_config b = Some config"
    "resolved_endpoints (bx_inventory x) (bx_endpoint_os x) (lt_endpoints t) = Inr (bt_resolved_endpoints b)"
    "bt_endpoint_os b = bx_endpoint_os x" "bt_endpoint_network_roles b = endpoint_network_roles (bx_inventory x) (lt_endpoints t)"
    "tb_logical_topology b = t" "tb_inventory b = bx_inventory x" "tb_port_map b = bx_port_map x"
    "tb_resolved_prefix_sets b = sets" "tb_route_senders b = lt_route_senders t"
  using assms by (auto simp: build_bound_topology_def Let_def rbind_eq_Inr)

lemma bound_topology_parts:
  assumes "bind_logical_topology_to_inventory t v backends port_map parents peer_groups as_numbers override = Inr b"
  obtains x groups sets advertised where "collect_logical_topology_issues t = []"
    "build_binding_context t v backends port_map parents peer_groups as_numbers = ([], x)"
    "bind_device_groups x 0 \<lparr>ar_bound_ips = [], ar_peer_cidrs = []\<rparr> (lt_device_groups t) = Inr ([], groups)"
    "resolve_prefix_sets (lt_prefix_sets t) = Inr sets" "bind_prefix_advertisements sets groups = Inr ([], advertised)"
    "bind_ixia_children advertised = Inr (bt_device_groups b)" "validate_resolved_port_graph groups = []"
    "validate_resolved_partitions (bt_device_groups b) = []" "validate_legacy_device_group_indices (bt_device_groups b) = []"
    "collect_routing_device_config_issues ''device_config'' (merge_device_config (lt_device_config t) override) = []"
    "validate_openr_standalone_inputs (merge_device_config (lt_device_config t) override) v = []"
    "build_bound_topology t x (bt_device_groups b) sets (merge_device_config (lt_device_config t) override) = Inr b"
proof -
  obtain ci x where x: "build_binding_context t v backends port_map parents peer_groups as_numbers = (ci, x)" by fastforce
  obtain groups sets advertised bound where steps: "collect_logical_topology_issues t = []"
    "bind_device_groups x 0 \<lparr>ar_bound_ips = [], ar_peer_cidrs = []\<rparr> (lt_device_groups t) = Inr ([], groups)"
    "resolve_prefix_sets (lt_prefix_sets t) = Inr sets" "bind_prefix_advertisements sets groups = Inr ([], advertised)"
    "bind_ixia_children advertised = Inr bound" "validate_resolved_port_graph groups = []"
    "validate_resolved_partitions bound = []" "validate_legacy_device_group_indices bound = []"
    "collect_routing_device_config_issues ''device_config'' (merge_device_config (lt_device_config t) override) = []"
    "validate_openr_standalone_inputs (merge_device_config (lt_device_config t) override) v = []"
    "build_bound_topology t x bound sets (merge_device_config (lt_device_config t) override) = Inr b" "ci = []"
    using assms
    by (auto simp: bind_logical_topology_to_inventory_def x rbind_eq_Inr validate_logical_topology_def raise_if_Inr Let_def
        split: if_splits)
  have "bound = bt_device_groups b" by (rule built_topology(2) [OF steps(11), symmetric])
  then show thesis using that steps x by blast
qed

lemma advertised_groups:
  assumes "bind_prefix_advertisements sets gs = Inr ([], gs')"
  shows "list_all (\<lambda>g. list_all2 (\<lambda>ad A. resolve_prefix_advertisement g ad sets = Inr A)
    (sp_prefix_advertisements (gb_spec g)) (gb_prefix_advertisements g)) gs'"
proof -
  obtain rs where rs: "list_all2 (\<lambda>ig r. bind_group_advertisements sets ig = Inr r) (enumerate 0 gs) rs"
      "concat (map fst rs) = []" "gs' = map snd rs"
    using assms by (auto simp: bind_prefix_advertisements_def rbind_eq_Inr rmap_Inr_iff)
  have member: "list_all2 (\<lambda>ad A. resolve_prefix_advertisement (snd r) ad sets = Inr A)
      (sp_prefix_advertisements (gb_spec (snd r))) (gb_prefix_advertisements (snd r))"
    if step: "bind_group_advertisements sets ig = Inr r" "fst r = []" for ig r
  proof -
    let ?ads = "sp_prefix_advertisements (gb_spec (snd ig))"
    define ps where "ps = item_path ''device_groups'' (fst ig) @ ''.prefix_advertisements''"
    obtain os where os: "rmap (\<lambda>(k, ad). attempt_advertisement sets (snd ig) (item_path ps k, ad)) (enumerate 0 ?ads) = Inr os"
        "r = (concat (map fst os), (snd ig)\<lparr>gb_prefix_advertisements := concat (map snd os)\<rparr>)"
      using step(1) unfolding bind_group_advertisements_def Let_def ps_def [symmetric] by (auto simp: rbind_eq_Inr)
    have o: "list_all2 (\<lambda>ka o'. attempt_advertisement sets (snd ig) (item_path ps (fst ka), snd ka) = Inr o') (enumerate 0 ?ads) os"
        "\<forall>o' \<in> set os. fst o' = []" "snd r = (snd ig)\<lparr>gb_prefix_advertisements := concat (map snd os)\<rparr>"
      using os step(2) by (auto simp: rmap_Inr_iff case_prod_beta)
    have each: "\<exists>A. resolve_prefix_advertisement (snd ig) (?ads ! k) sets = Inr A \<and> snd (os ! k) = [A]" if k: "k < length ?ads" for k
    proof -
      have "attempt_advertisement sets (snd ig) (item_path ps k, ?ads ! k) = Inr (os ! k)"
        using list_all2_nthD [OF o(1), of k] k by (simp add: nth_enumerate_eq)
      moreover have "fst (os ! k) = []" using o(1,2) k by (auto simp: list_all2_conv_all_nth)
      ultimately show ?thesis by (cases "os ! k") (auto simp: attempt_advertisement_def split: sum.splits if_splits)
    qed
    have len: "length os = length ?ads" using o(1) by (simp add: list_all2_conv_all_nth)
    then have "map snd os = map (\<lambda>k. [hd (snd (os ! k))]) [0 ..< length ?ads]"
      using each by (intro nth_equalityI) fastforce+
    then have "concat (map snd os) = map (\<lambda>k. hd (snd (os ! k))) [0 ..< length ?ads]" by (simp add: concat_map_singleton)
    moreover have "resolve_prefix_advertisement (snd r) ad sets = resolve_prefix_advertisement (snd ig) ad sets" for ad
      by (simp add: o(3) resolve_prefix_advertisement_def)
    ultimately show ?thesis using each by (fastforce simp: o(3) list_all2_conv_all_nth)
  qed
  have "list_all2 (\<lambda>ad A. resolve_prefix_advertisement (snd r) ad sets = Inr A)
      (sp_prefix_advertisements (gb_spec (snd r))) (gb_prefix_advertisements (snd r))" if r: "r \<in> set rs" for r
  proof -
    obtain ig where "bind_group_advertisements sets ig = Inr r" using list_all2_source [OF rs(1) r] by blast
    moreover have "fst r = []" using rs(2) r by simp
    ultimately show ?thesis by (rule member)
  qed
  then show ?thesis by (simp add: rs(3) list_all_iff)
qed

lemma resolve_children [simp]:
  "resolve_prefix_advertisement (g\<lparr>gb_children := cs\<rparr>) ad sets = resolve_prefix_advertisement g ad sets"
  by (simp add: resolve_prefix_advertisement_def)

lemma bound_group_members:
  assumes "bind_ixia_children gs = Inr gs'"
  shows "list_all2 (\<lambda>g g'. \<exists>cs. rmap (bind_ixia_child g) (sp_ixia_children (gb_spec g)) = Inr cs \<and> g' = g\<lparr>gb_children := cs\<rparr>) gs gs'"
  using assms by (auto simp: bind_ixia_children_def rmap_Inr_iff rbind_eq_Inr elim!: list_all2_mono)

lemma bound_advertisements:
  assumes "bind_logical_topology_to_inventory t v backends port_map parents peer_groups as_numbers override = Inr b"
  shows "resolve_prefix_sets (lt_prefix_sets t) = Inr (tb_resolved_prefix_sets b)"
    "g \<in> set (bt_device_groups b) \<Longrightarrow> list_all2 (\<lambda>ad A. resolve_prefix_advertisement g ad (tb_resolved_prefix_sets b) = Inr A)
       (sp_prefix_advertisements (gb_spec g)) (gb_prefix_advertisements g)"
proof -
  obtain x groups sets advertised where s: "resolve_prefix_sets (lt_prefix_sets t) = Inr sets"
      "bind_prefix_advertisements sets groups = Inr ([], advertised)" "bind_ixia_children advertised = Inr (bt_device_groups b)"
      "build_bound_topology t x (bt_device_groups b) sets (merge_device_config (lt_device_config t) override) = Inr b"
    by (rule bound_topology_parts [OF assms])
  have sets: "tb_resolved_prefix_sets b = sets" by (rule built_topology(10) [OF s(4)])
  then show "resolve_prefix_sets (lt_prefix_sets t) = Inr (tb_resolved_prefix_sets b)" using s(1) by simp
  assume "g \<in> set (bt_device_groups b)"
  then obtain g0 cs where "g0 \<in> set advertised" "g = g0\<lparr>gb_children := cs\<rparr>"
    using list_all2_source [OF bound_group_members [OF s(3)]] by blast
  then show "list_all2 (\<lambda>ad A. resolve_prefix_advertisement g ad (tb_resolved_prefix_sets b) = Inr A)
       (sp_prefix_advertisements (gb_spec g)) (gb_prefix_advertisements g)"
    using advertised_groups [OF s(2)] by (simp add: list_all_iff sets)
qed

text \<open>
  Every route of a bound topology resolves. For every advertisement of every group, each slot of each
  peer has a prefix and a next hop, both addresses of the group's family: validation of the intent
  has ruled out every failure of resolution, and binding has one advertisement per authored one, in
  order.
\<close>

theorem bound_routes_resolve:
  assumes "bind_logical_topology_to_inventory t v backends port_map parents peer_groups as_numbers override = Inr b"
    and "\<forall>k. dict_get parents k \<noteq> Some []"
  shows "\<forall>g \<in> set (bt_device_groups b).
    map ra_spec (gb_prefix_advertisements g) = map (effective_advertisement (gb_spec g)) (sp_prefix_advertisements (gb_spec g))
    \<and> (\<forall>A \<in> set (gb_prefix_advertisements g). \<forall>i slot.
        0 \<le> i \<and> i < sp_peer_count (gb_spec g) \<and> 0 \<le> slot \<and> slot < prefixes_per_peer (adv_allocation (ra_spec A)) \<longrightarrow>
        (\<exists>r. path_at (ra_paths_by_peer A) i slot = Inr r \<and> in_family (sp_afi (gb_spec g)) (path_prefix r)
             \<and> in_family (sp_afi (gb_spec g)) (path_next_hop r)))"
proof (rule bound_overview [OF assms], intro ballI conjI allI impI)
  fix r g
  assume o: "map gb_spec (bt_device_groups b) = lt_device_groups t" and g: "g \<in> set (bt_device_groups b)"
    and chain: "bound_chain \<lparr>ar_bound_ips = [], ar_peer_cidrs = []\<rparr> (bt_device_groups b) r"
  note ads = bound_advertisements [OF assms(1)]
  have spec: "ra_spec A = effective_advertisement (gb_spec g) ad"
    if "resolve_prefix_advertisement g ad (tb_resolved_prefix_sets b) = Inr A" for ad A
    using resolved_advertisement [OF that] by metis
  show "map ra_spec (gb_prefix_advertisements g) = map (effective_advertisement (gb_spec g)) (sp_prefix_advertisements (gb_spec g))"
    using ads(2) [OF g] spec by (auto simp: list_all2_conv_all_nth intro!: nth_equalityI)
  fix A i slot
  assume A: "A \<in> set (gb_prefix_advertisements g)"
    and i: "0 \<le> i \<and> i < sp_peer_count (gb_spec g) \<and> 0 \<le> slot \<and> slot < prefixes_per_peer (adv_allocation (ra_spec A))"
  obtain ad where ad: "ad \<in> set (sp_prefix_advertisements (gb_spec g))" "resolve_prefix_advertisement g ad (tb_resolved_prefix_sets b) = Inr A"
    using list_all2_source [OF ads(2) [OF g] A] by blast
  have member: "gb_spec g \<in> set (lt_device_groups t)" using g o by (metis image_eqI set_map)
  obtain m m' where "bound_addresses g m m'" using chain_member [OF chain g] by blast
  note p = bound_peers_of [OF this]
  have z: "int (length (gb_z_ips g)) = sp_peer_count (gb_spec g)" "list_all (in_family (sp_afi (gb_spec g))) (gb_z_ips g)"
    using p(2,6) by (simp_all flip: p(4))
  have t: "collect_logical_topology_issues t = []" by (rule bound_topologyE [OF assms(1)])
  have "adv_allocation (ra_spec A) = adv_allocation ad" by (simp add: spec [OF ad(2)] effective_advertisement_def)
  then show "\<exists>r. path_at (ra_paths_by_peer A) i slot = Inr r \<and> in_family (sp_afi (gb_spec g)) (path_prefix r)
             \<and> in_family (sp_afi (gb_spec g)) (path_next_hop r)"
    using advertisement_routes [OF t member ad(1) ads(1) z ad(2)] i by simp
qed

end
