(* ===== verification/Bound_Validation.thy ===== *)
theory Bound_Validation
  imports Bound_Assembly
begin

text \<open>
  The validation of a bound topology before it is compiled (\<open>validate_bound_topology_for_compile\<close> of
  \<open>abstractions/topology/binding.py\<close>): bound topologies are immutable values that callers replace
  field by field, so that everything binding established is looked at again. Validators return the
  issues they append, in order; what raises outside a handler raises here. Comparisons of objects by
  identity are comparisons of their values.
\<close>

section \<open>What it reads\<close>

text \<open>\<open>BoundDeviceGroup\<close> with the fields that repeat one of \<open>spec\<close>, and the values of the provenance.\<close>

record BoundValues =
  bv_parent_network :: "string option"
  bv_local_asn :: "int option"
  bv_remote_asn :: "int option"

record CompileGroup = BoundGroup +
  cg_partition :: "DeviceGroupPartition option"
  cg_legacy_index :: "int option"
  cg_legacy_bgp_peer_name :: "string option"
  cg_route_attributes :: "RouteAttributePool option"
  cg_provenance :: "BoundValues option"

record CompileInput =
  ci_logical_topology :: LogicalTopology
  ci_inventory :: PhysicalInventory
  ci_device_groups :: "CompileGroup list"
  ci_device_config :: "RoutingDeviceConfig option"
  ci_resolved_endpoints :: "(string, (string, pyval) dict) dict"
  ci_endpoint_os :: "(string, string) dict"
  ci_endpoint_network_roles :: "(string, NetworkRole) dict"
  ci_port_map :: "(string, int) dict"
  ci_resolved_prefix_sets :: "(string, ResolvedPrefixSet) dict"
  ci_route_senders :: "RouteSender list"

text \<open>A group as binding leaves it, and the topology.\<close>

definition compile_group :: "BoundGroup \<Rightarrow> CompileGroup" where
  "compile_group g = BoundGroup.extend g (CompileGroup.fields
     (sp_partition (gb_spec g)) (sp_legacy_ixia_device_group_index (gb_spec g)) (sp_legacy_ixia_bgp_peer_name (gb_spec g))
     (sp_route_attributes (gb_spec g))
     (Some \<lparr>bv_parent_network = gb_parent_network g, bv_local_asn = gb_local_asn g, bv_remote_asn = gb_remote_asn g\<rparr>))"

definition compile_input :: "InventoryTopology \<Rightarrow> CompileInput" where
  "compile_input b = \<lparr>ci_logical_topology = tb_logical_topology b, ci_inventory = tb_inventory b,
     ci_device_groups = map compile_group (bt_device_groups b), ci_device_config = bt_device_config b,
     ci_resolved_endpoints = bt_resolved_endpoints b, ci_endpoint_os = bt_endpoint_os b,
     ci_endpoint_network_roles = bt_endpoint_network_roles b, ci_port_map = tb_port_map b,
     ci_resolved_prefix_sets = tb_resolved_prefix_sets b, ci_route_senders = tb_route_senders b\<rparr>"

text \<open>The group with its own fields, for the checks on all groups together.\<close>

definition checked_group :: "CompileGroup \<Rightarrow> BoundGroup" where
  "checked_group g = BoundGroup.truncate (g\<lparr>gb_spec := (gb_spec g)\<lparr>sp_partition := cg_partition g,
     sp_legacy_ixia_device_group_index := cg_legacy_index g\<rparr>\<rparr>)"

section \<open>Endpoints\<close>

definition validate_bound_endpoint_resolution :: "CompileInput \<Rightarrow> EndpointSpec \<Rightarrow> ValidationIssue list" where
  "validate_bound_endpoint_resolution b e =
     (let n = es_name e; q = ''resolved_endpoints.'' @ n
      in check (dict_get (ci_endpoint_os b) n = None) (''endpoint_os.'' @ n) ''unresolved_endpoint_os''
         @ (case dict_get (ci_resolved_endpoints b) n of
              None \<Rightarrow> [issue q ''missing_resolved_endpoint'']
            | Some r \<Rightarrow>
                (case dict_get r ''physical_identifier_field'' of
                   Some (VStr f) \<Rightarrow>
                     if f \<in> {''device_name'', ''ixia_chassis_ip''}
                     then check (dict_get (inventory_attributes (ci_inventory b)) f = Some (VStr []))
                            (q @ ''.physical_identifier'') ''unresolved_endpoint_physical_identifier''
                     else [issue (q @ ''.physical_identifier_field'') ''unresolved_endpoint_physical_identifier'']
                 | _ \<Rightarrow> [issue (q @ ''.physical_identifier_field'') ''unresolved_endpoint_physical_identifier''])))"

definition validate_bound_endpoint_network_role :: "(string, EndpointSpec) dict \<Rightarrow> string \<Rightarrow> ValidationIssue list" where
  "validate_bound_endpoint_network_role endpoints n =
     (case dict_get endpoints n of
        None \<Rightarrow> [issue (''endpoint_network_roles.'' @ n) ''unknown_endpoint_network_role'']
      | Some e \<Rightarrow> check (\<not> binding_is_dut e) (''endpoint_network_roles.'' @ n) ''traffic_endpoint_network_role'')"

definition validate_inventory_network_role :: "CompileInput \<Rightarrow> ValidationIssue list" where
  "validate_inventory_network_role b =
     (case inv_network_role (ci_inventory b) of
        None \<Rightarrow> []
      | Some r \<Rightarrow> concat (map (\<lambda>e. check (binding_is_dut e \<and> dict_get (ci_endpoint_network_roles b) (es_name e) \<noteq> Some r)
          (''endpoint_network_roles.'' @ es_name e) ''missing_endpoint_network_role'') (lt_endpoints (ci_logical_topology b))))"

definition validate_bound_endpoints :: "CompileInput \<Rightarrow> ValidationIssue list" where
  "validate_bound_endpoints b =
     check (ci_endpoint_os b = []) ''endpoint_os'' ''missing_bound_endpoint_os''
     @ concat (map (validate_bound_endpoint_resolution b) (lt_endpoints (ci_logical_topology b)))
     @ concat (map (\<lambda>(n, os). check (os = ''unknown'') (''endpoint_os.'' @ n) ''unresolved_endpoint_os'') (ci_endpoint_os b))
     @ concat (map (validate_bound_endpoint_network_role (endpoints_by_name (ci_logical_topology b)))
         (dict_keys (ci_endpoint_network_roles b)))
     @ validate_inventory_network_role b"

section \<open>Prefix intent\<close>

text \<open>The two sampled routes of a peer; the first that fails ends the loop.\<close>

fun route_sample_issues :: "string \<Rightarrow> string \<Rightarrow> ResolvedRoutePath list \<Rightarrow> ValidationIssue list" where
  "route_sample_issues p afi [] = []"
| "route_sample_issues p afi (r # rs) =
     (case (parse_ip (path_prefix r), parse_ip (path_next_hop r)) of
        (Some prefix, Some hop) \<Rightarrow>
          (let expected = (if afi = ''v4'' then 4 else 6)
           in if ip_version prefix \<noteq> expected \<or> ip_version hop \<noteq> expected then [issue p ''resolved_route_afi_mismatch'']
              else route_sample_issues p afi rs)
      | _ \<Rightarrow> [issue p ''invalid_resolved_route_path''])"

definition validate_peer_routes ::
    "string \<Rightarrow> string \<Rightarrow> PrefixAdvertisement \<Rightarrow> nat \<times> ResolvedRoutePathSequence \<Rightarrow> ValidationIssue list result" where
  "validate_peer_routes p afi authored ir =
     (let (i, paths) = ir; q = item_path (p @ ''.paths_by_peer'') i
      in if rs_len paths < 0 then fail ''__len__() should return >= 0''
         else if rs_len paths \<noteq> prefixes_per_peer (adv_allocation authored) then Inr [issue q ''resolved_route_count_mismatch'']
         else if rs_len paths = 0 then Inr []
         else rbind (rs_getitem paths 0) (\<lambda>first. rbind (rs_getitem paths (-1)) (\<lambda>final.
                Inr (route_sample_issues q afi [first, final]))))"

definition validate_bound_advertisement ::
    "CompileInput \<Rightarrow> DeviceGroupSpec \<Rightarrow> string \<Rightarrow> PrefixAdvertisement \<times> BoundAdvertisement \<Rightarrow> ValidationIssue list result" where
  "validate_bound_advertisement b g p aa =
     (let (authored, ad) = aa
      in if ra_spec ad \<noteq> effective_advertisement g authored then Inr [issue p ''resolved_prefix_advertisement_mismatch'']
         else let shared = check (Some (ra_prefix_set ad) \<noteq> dict_get (ci_resolved_prefix_sets b) (adv_prefix_set authored))
                    (p @ ''.prefix_set'') ''resolved_prefix_set_identity_mismatch''
              in if int (length (ra_paths_by_peer ad)) \<noteq> sp_peer_count g
                 then Inr (shared @ [issue (p @ ''.paths_by_peer'') ''resolved_route_peer_count_mismatch''])
                 else rbind (rmap (validate_peer_routes p (sp_afi g) authored) (enumerate 0 (ra_paths_by_peer ad)))
                        (\<lambda>iss. Inr (shared @ concat iss)))"

definition validate_group_prefix_intent :: "CompileInput \<Rightarrow> nat \<times> CompileGroup \<Rightarrow> ValidationIssue list result" where
  "validate_group_prefix_intent b ig =
     (let (i, g) = ig; p = item_path ''device_groups'' i @ ''.prefix_advertisements'';
          expected = sp_prefix_advertisements (gb_spec g)
      in if length (gb_prefix_advertisements g) \<noteq> length expected
         then Inr [issue p ''resolved_prefix_advertisement_count_mismatch'']
         else rbind (rmap (\<lambda>(k, aa). validate_bound_advertisement b (gb_spec g) (item_path p k) aa)
                (enumerate 0 (zip expected (gb_prefix_advertisements g)))) (\<lambda>iss. Inr (concat iss)))"

definition validate_bound_prefix_intent :: "CompileInput \<Rightarrow> ValidationIssue list result" where
  "validate_bound_prefix_intent b =
     rbind (rmap (validate_group_prefix_intent b) (enumerate 0 (ci_device_groups b))) (\<lambda>iss.
       Inr (check (set (dict_keys (ci_resolved_prefix_sets b)) \<noteq> set (map ps_name (lt_prefix_sets (ci_logical_topology b))))
              ''resolved_prefix_sets'' ''resolved_prefix_set_mismatch'' @ concat iss))"

section \<open>Device configuration\<close>

definition validate_bound_device_config :: "CompileInput \<Rightarrow> ValidationIssue list" where
  "validate_bound_device_config b =
     (case ci_device_config b of
        None \<Rightarrow> [issue ''device_config'' ''missing_bound_device_config'']
      | Some c \<Rightarrow> collect_routing_device_config_issues ''device_config'' c @ validate_openr_standalone_inputs c (ci_inventory b))"

section \<open>One group\<close>

text \<open>A field of the authored group at the position of a bound one.\<close>

definition authored_field :: "CompileInput \<Rightarrow> nat \<Rightarrow> (DeviceGroupSpec \<Rightarrow> 'a) \<Rightarrow> 'a \<Rightarrow> 'a" where
  "authored_field b i f otherwise =
     (let specs = lt_device_groups (ci_logical_topology b) in if i < length specs then f (specs ! i) else otherwise)"

definition validate_bound_legacy_bgp_peer_name :: "CompileInput \<Rightarrow> nat \<Rightarrow> CompileGroup \<Rightarrow> ValidationIssue list" where
  "validate_bound_legacy_bgp_peer_name b i g =
     (let authored = authored_field b i sp_legacy_ixia_bgp_peer_name None
      in check (sp_legacy_ixia_bgp_peer_name (gb_spec g) \<noteq> authored \<or> cg_legacy_bgp_peer_name g \<noteq> authored)
           (item_path ''device_groups'' i @ ''.legacy_ixia_bgp_peer_name'') ''post_bind_legacy_ixia_bgp_peer_name_replacement'')"

definition validate_bound_child ::
    "CompileGroup \<Rightarrow> ResolvedPeer list \<Rightarrow> string \<Rightarrow> BoundChild \<times> IxiaDeviceGroupChild \<Rightarrow> ValidationIssue list result" where
  "validate_bound_child g peers p cs =
     (let (c, s) = cs; parts = check (bc_spec c \<noteq> s) (p @ ''.spec'') ''resolved_ixia_child_spec_mismatch''
            @ check (bc_peers c \<noteq> py_slice peers (ic_start_index s) (ic_start_index s + ic_peer_count s))
                (p @ ''.peers'') ''post_bind_ixia_child_peer_replacement''
      in rbind (rmap (slice_child_advertisement s) (gb_prefix_advertisements g)) (\<lambda>ads.
           Inr (parts @ check (bc_prefix_advertisements c \<noteq> ads) (p @ ''.prefix_advertisements'')
                  ''post_bind_ixia_child_advertisement_replacement'')))"

definition validate_bound_ixia_children :: "CompileInput \<Rightarrow> nat \<Rightarrow> CompileGroup \<Rightarrow> ValidationIssue list result" where
  "validate_bound_ixia_children b i g =
     (let authored = authored_field b i sp_ixia_children []; p = item_path ''device_groups'' i @ ''.ixia_children'';
          replaced = check (sp_ixia_children (gb_spec g) \<noteq> authored) p ''post_bind_ixia_children_replacement''
      in if length (gb_children g) \<noteq> length authored
         then Inr (replaced @ [issue p ''resolved_ixia_child_count_mismatch''])
         else if authored = [] then Inr replaced
         else rbind (bound_peers (device_view (BoundGroup.truncate g))) (\<lambda>peers.
              rbind (rmap (\<lambda>(k, cs). validate_bound_child g peers (item_path p k) cs) (enumerate 0 (zip (gb_children g) authored)))
                (\<lambda>iss. Inr (replaced @ concat iss))))"

definition validate_bound_ixia_snapshot :: "CompileInput \<Rightarrow> nat \<Rightarrow> CompileGroup \<Rightarrow> ValidationIssue list result" where
  "validate_bound_ixia_snapshot b i g =
     (let p = item_path ''device_groups'' i @ ''.port_assignment''; code = ''resolved_port_assignment_mismatch''
      in case (sp_port_assignment (gb_spec g), gb_port_assignment g) of
           (Some authored, Some a) \<Rightarrow>
             (let k = pa_physical_inventory_index a; ports = inv_ixia_ports (ci_inventory b);
                  pair = (if 0 \<le> k \<and> k < int (length ports) then Some (ports ! nat k) else None)
              in rbind (physical_interface_profile (ci_inventory b) (pa_dut_interface a)
                   (''physical_inventory.ixia_ports['' @ show_int k @ '']'')) (\<lambda>(profile_issues, profile).
                 Inr (check (pa_logical_role a \<noteq> ipa_logical_role authored) (p @ ''.logical_role'') code
                   @ check (pa_reuse_group a \<noteq> ipa_reuse_group authored) (p @ ''.reuse_group'') code
                   @ check (pa_endpoint_label_style a \<noteq> ipa_endpoint_label_style authored) (p @ ''.endpoint_label_style'') code
                   @ check (gb_a_interface g \<notin> {None, Some (pa_dut_interface a)} \<or> gb_z_interface g \<notin> {None, Some (pa_dut_interface a)}
                            \<or> gb_ixia_port g \<noteq> Some (pa_ixia_port a)) p code
                   @ check (dict_get (ci_port_map b) (ipa_logical_role authored) \<noteq> Some k
                            \<or> pair \<noteq> Some (pa_dut_interface a, pa_ixia_port a)) (p @ ''.physical_inventory_index'') code
                   @ profile_issues
                   @ check (profile \<noteq> None \<and> profile \<noteq> Some (pa_profile a)) (p @ ''.physical_interface_profile'') code)))
         | (None, None) \<Rightarrow> Inr (check (gb_ixia_port g \<noteq> None) p code)
         | _ \<Rightarrow> Inr [issue p code])"

definition validate_bound_relationship :: "CompileInput \<Rightarrow> string \<Rightarrow> CompileGroup \<Rightarrow> ValidationIssue list" where
  "validate_bound_relationship b p g =
     (let q = p @ ''.peer_relationship''; authored = sp_peer_relationship (gb_spec g)
      in check (EB \<in> snd ` set (ci_endpoint_network_roles b) \<and> gb_peer_relationship g = None) q ''missing_peer_relationship''
         @ check (authored \<noteq> None \<and> gb_peer_relationship g \<noteq> authored) q ''resolved_peer_relationship_mismatch'')"

definition validate_bound_provenance :: "string \<Rightarrow> CompileGroup \<Rightarrow> ValidationIssue list" where
  "validate_bound_provenance p g =
     (case cg_provenance g of
        None \<Rightarrow> [issue (p @ ''.provenance'') ''missing_bind_provenance'']
      | Some v \<Rightarrow>
          check (gb_parent_network g \<noteq> bv_parent_network v) (p @ ''.parent_network'') ''post_bind_parent_network_replacement''
          @ check (gb_local_asn g \<noteq> bv_local_asn v) (p @ ''.local_asn'') ''post_bind_local_asn_replacement''
          @ check (gb_remote_asn g \<noteq> bv_remote_asn v) (p @ ''.remote_asn'') ''post_bind_remote_asn_replacement'')"

section \<open>Peers\<close>

text \<open>The two addresses and the prefix of a peer; \<open>None\<close> when one of them does not parse.\<close>

definition peer_values :: "ResolvedPeer \<Rightarrow> (ip_addr \<times> ip_addr \<times> ip_net option) result" where
  "peer_values q =
     rbind (ip_address (rp_a_ip q)) (\<lambda>a. rbind (ip_address (rp_z_ip q)) (\<lambda>z.
       case rp_peer_cidr q of
         None \<Rightarrow> Inr (a, z, None)
       | Some s \<Rightarrow> rbind (ip_network s) (\<lambda>n. Inr (a, z, Some n))))"

definition network_holds :: "ip_net \<Rightarrow> ip_addr \<Rightarrow> bool" where
  "network_holds n a \<longleftrightarrow> in_network a (network_address n, net_prefixlen n)"

definition validate_bound_peer :: "string \<Rightarrow> nat \<times> ResolvedPeer \<Rightarrow> ValidationIssue list" where
  "validate_bound_peer p iq =
     (let (i, q) = iq; r = item_path (p @ ''.peers'') i
      in case peer_values q of
           Inl e \<Rightarrow> [issue r ''invalid_resolved_peer'']
         | Inr (a, z, c) \<Rightarrow> on_some (\<lambda>n. check (\<not> network_holds n a \<or> \<not> network_holds n z)
             (r @ ''.peer_cidr'') ''resolved_peer_cidr_disagreement'') c)"

definition COMPACT_IXIA_PROFILES :: "string list" where
  "COMPACT_IXIA_PROFILES = [''ebb_full_scale'', ''ipv6_update_packing'', ''ug_new_peer_join'']"

definition COMPACT_IXIA_PREFIX_LENGTHS :: "(string, nat) dict" where
  "COMPACT_IXIA_PREFIX_LENGTHS = [(''v4'', 31), (''v6'', 127)]"

text \<open>The peer at an index, against the first peer. The flag remembers a reported prefix length.\<close>

definition compact_peer_issues ::
    "string \<Rightarrow> ip_addr \<Rightarrow> ip_addr \<Rightarrow> nat option \<Rightarrow> bool \<Rightarrow> nat \<Rightarrow> ResolvedPeer \<Rightarrow> ValidationIssue list \<times> bool" where
  "compact_peer_issues p first_a first_z len reported i q =
     (let r = item_path (p @ ''.peers'') i
      in if rp_peer_cidr q = None then ([issue (r @ ''.peer_cidr'') ''missing_compiler_peer_cidr''], reported)
         else case peer_values q of
           Inr (a, z, Some c) \<Rightarrow>
             (case (ip_of_int (ip_version first_a) (ip_int first_a + int i * 2), ip_of_int (ip_version first_z) (ip_int first_z + int i * 2)) of
                (Inr expected_a, Inr expected_z) \<Rightarrow>
                  (let wrong = len \<noteq> None \<and> Some (net_prefixlen c) \<noteq> len \<and> \<not> reported
                   in (check (a \<noteq> expected_a \<or> z \<noteq> expected_z) r ''resolved_peer_sequence_disagreement''
                       @ check wrong (r @ ''.peer_cidr'') ''resolved_peer_prefix_length_disagreement'', reported \<or> wrong))
              | _ \<Rightarrow> ([issue r ''resolved_peer_sequence_wrap''], reported))
         | _ \<Rightarrow> ([], reported))"

fun compact_peers_from ::
    "string \<Rightarrow> ip_addr \<Rightarrow> ip_addr \<Rightarrow> nat option \<Rightarrow> bool \<Rightarrow> nat \<Rightarrow> ResolvedPeer list \<Rightarrow> ValidationIssue list" where
  "compact_peers_from p first_a first_z len reported i [] = []"
| "compact_peers_from p first_a first_z len reported i (q # qs) =
     (let (issues, reported') = compact_peer_issues p first_a first_z len reported i q
      in issues @ compact_peers_from p first_a first_z len reported' (Suc i) qs)"

definition validate_compact_ixia_peer_sequence :: "string \<Rightarrow> string \<Rightarrow> ResolvedPeer list \<Rightarrow> ValidationIssue list" where
  "validate_compact_ixia_peer_sequence p afi peers =
     (case peers of
        [] \<Rightarrow> []
      | q # _ \<Rightarrow>
          (case (parse_ip (rp_a_ip q), parse_ip (rp_z_ip q)) of
             (Some a, Some z) \<Rightarrow> compact_peers_from p a z (dict_get COMPACT_IXIA_PREFIX_LENGTHS afi) False 0 peers
           | _ \<Rightarrow> []))"

definition validate_bound_peers :: "CompileInput \<Rightarrow> string \<Rightarrow> CompileGroup \<Rightarrow> ValidationIssue list result" where
  "validate_bound_peers b p g =
     (let n = sp_peer_count (gb_spec g)
      in if int (length (gb_a_ips g)) \<noteq> n \<or> int (length (gb_z_ips g)) \<noteq> n \<or> int (length (gb_peer_cidrs g)) \<noteq> n
         then Inr [issue (p @ ''.peers'') ''resolved_peer_count_mismatch'']
         else rbind (bound_peers (device_view (BoundGroup.truncate g))) (\<lambda>peers.
           Inr (concat (map (validate_bound_peer p) (enumerate 0 peers))
             @ (case lt_legacy_profile (ci_logical_topology b) of
                  Some profile \<Rightarrow> if profile \<in> set COMPACT_IXIA_PROFILES
                    then validate_compact_ixia_peer_sequence p (sp_afi (gb_spec g)) peers else []
                | None \<Rightarrow> []))))"

definition validate_bound_group :: "CompileInput \<Rightarrow> nat \<times> CompileGroup \<Rightarrow> ValidationIssue list result" where
  "validate_bound_group b ig =
     (let (i, g) = ig; p = item_path ''device_groups'' i; spec = gb_spec g
      in rbind (validate_bound_ixia_children b i g) (\<lambda>children.
         rbind (validate_bound_ixia_snapshot b i g) (\<lambda>snapshot.
         rbind (validate_bound_peers b p g) (\<lambda>peers.
           Inr (validate_bound_legacy_bgp_peer_name b i g @ children @ validate_bound_relationship b p g
             @ check (cg_route_attributes g \<noteq> sp_route_attributes spec) (p @ ''.route_attributes'') ''resolved_route_attributes_mismatch''
             @ check (cg_partition g \<noteq> sp_partition spec) (p @ ''.partition'') ''resolved_partition_mismatch''
             @ check (cg_legacy_index g \<noteq> sp_legacy_ixia_device_group_index spec)
                 (p @ ''.legacy_ixia_device_group_index'') ''resolved_ixia_device_group_index_mismatch''
             @ snapshot @ validate_bound_provenance p g
             @ check (\<not> given (gb_routing_driver g)) (p @ ''.routing_driver'') ''missing_routing_driver''
             @ peers)))))"

section \<open>The topology\<close>

definition collect_bound_topology_issues :: "CompileInput \<Rightarrow> ValidationIssue list result" where
  "collect_bound_topology_issues b =
     rbind (validate_bound_prefix_intent b) (\<lambda>prefixes.
     rbind (rmap (validate_bound_group b) (enumerate 0 (ci_device_groups b))) (\<lambda>group_issues.
       let checked = map checked_group (ci_device_groups b)
       in Inr (validate_bound_endpoints b @ prefixes @ validate_bound_device_config b
            @ check (ci_device_groups b = []) ''device_groups'' ''missing_bound_device_groups''
            @ concat group_issues @ validate_resolved_port_graph checked @ validate_resolved_partitions checked
            @ validate_legacy_device_group_indices checked
            @ check (lt_route_senders (ci_logical_topology b) \<noteq> ci_route_senders b)
                ''resolved_route_senders'' ''resolved_route_sender_mismatch'')))"

definition validate_bound_topology_for_compile :: "CompileInput \<Rightarrow> unit result" where
  "validate_bound_topology_for_compile b =
     rbind (collect_bound_topology_issues b) (\<lambda>issues.
       raise_if (issues \<noteq> []) (Exn TopologyValidationError ''bound topology has validation errors''))"

end
