(* ===== verification/Spec2Isabelle.thy ===== *)
theory Spec2Isabelle
  imports Churn_Attribute Churn_Route Churn_Workloads Oss_Entry Periodic_Tasks Policy_Generator Sweep_Utils
    Ixia_Baseline Churn_Geometry Churn_Runner Gates Facing_Sides Intent_Facts Route_Slices Bound_Facts Route_Resolution Bound_Validation
begin

text \<open>
  A verification library for the core of TAAC, the network-device test framework under
  \<open>src/taac\<close>. TAAC runs playbooks against switches and traffic generators and reports a verdict.
  Most of the repository is data (test configurations) and device I/O (drivers, IXIA, health
  checks). What decides whether a verdict can be trusted is a smaller body of logic, and that is
  what these theories model: how a test topology is checked, bound to a laboratory and turned into a
  plan of both sides of every link; which exception becomes which status and exit code, which retries
  count, what is restored after a test, which prefixes and peers a churn touches, when a gate fails.

  \<^bold>\<open>Shared vocabulary.\<close>

  \<^item> \<open>Taac_Prelude\<close>: Python exceptions (classes, groups, \<open>isinstance\<close>), calls that may raise
    as \<open>py_exn + 'a\<close>, dynamic values, insertion-ordered dictionaries, strings. The locale
    \<open>lookup_table\<close> is the contract of a dictionary of lists; plain and nested dictionaries interpret it.
  \<^item> \<open>Ipaddr\<close>, \<open>Address_Text\<close>: what the sources use of \<open>ipaddress\<close>, and that printing and parsing
    an address are inverse. \<open>Py_Seq\<close>, \<open>Py_Int\<close>: indexing, slicing, \<open>bisect\<close>, and \<open>int(text)\<close>.

  \<^bold>\<open>The OSS runner\<close> (\<open>runner/\<close>, \<open>oss_topology_info/\<close>, \<open>libs/\<close>).

  \<^item> \<open>Oss_Status\<close> (return codes, statuses, exception classifier), \<open>Oss_Results\<close> (results, counts,
    exit code, JSON and JUnit), \<open>Oss_Topology\<close> (CSV loaders, test bed), \<open>Oss_Executor\<close> (one
    playbook on one device with retries).
  \<^item> \<open>Oss_Entry\<close>: the whole run. \<open>main\<close> loads configurations and builds the topology; for each
    configuration \<open>run_config\<close> sets up, runs the grid of playbooks and devices with their retries
    and tears down, under a deadline, and marks the cells that never ran; \<open>main\<close> then turns the
    results into an exit code.
  \<^item> \<open>Baseline_Lifecycle\<close>: nested frames of captured participants, as functions on an explicit state
    and a world and as the step relation \<open>lifecycle_step\<close>; the three operations interpret the locale
    \<open>lifecycle_op\<close>. \<open>Ixia_Baseline\<close>: the participant for the chassis configuration.
  \<^item> \<open>Periodic_Tasks\<close>: the loop of a periodic task and the executor that starts, stops and tears
    down its workers.

  \<^bold>\<open>From intent to plan\<close> (\<open>abstractions/\<close>), in the order data flows.

  \<^item> \<open>Routes\<close>: \<open>topology/prefix.py\<close>, \<open>routes.py\<close>, \<open>ixia_semantics.py\<close>: which prefixes and next
    hops an advertisement denotes.
  \<^item> \<open>Logical_Topology\<close>: the authored dataclasses of \<open>topology/address.py\<close> and \<open>model.py\<close>.
    \<open>Intent_Checks\<close>, \<open>Intent_Validation\<close>: \<open>validation.py\<close>, every validator, with the issues in the
    order the source appends them. \<open>Intent_Facts\<close>: what a topology without issues satisfies.
  \<^item> \<open>Physical_Inventory\<close>: \<open>physical_inventory.py\<close>. \<open>Route_Binding\<close>, \<open>Address_Binding\<close>,
    \<open>Port_Binding\<close>, \<open>Bgp_Binding\<close>, \<open>Topology_Binding\<close>, \<open>Bound_Assembly\<close>: \<open>topology/binding.py\<close> by
    subject, ending in \<open>bind_logical_topology_to_inventory\<close>. \<open>Route_Slices\<close>, \<open>Address_Facts\<close>,
    \<open>Port_Facts\<close>, \<open>Bound_Facts\<close>: what a bound topology satisfies.
  \<^item> \<open>Bound_Topology\<close>: the bound data the planners read. \<open>Dut_Planner\<close> and \<open>Ixia_Planner\<close>:
    \<open>compilation/dut_planner.py\<close> and \<open>ixia_planner.py\<close>; \<open>Legacy_Identity\<close>: names kept from
    earlier configurations; \<open>Topology_Planner\<close>: \<open>compilation/planner.py\<close> as a whole.
    \<open>Dut_Planner_Facts\<close>, \<open>Dut_Plan_Ids\<close>, \<open>Dut_Consistency\<close>, \<open>Dut_Plan_Check\<close>, \<open>Facing_Sides\<close>: why
    the plans they build are accepted.
  \<^item> \<open>Resource_Ids\<close>, \<open>Plan_Resources\<close>, \<open>Compilation_Plan\<close>: identities, resources and plans of
    \<open>compilation/model.py\<close> and \<open>resource_ids.py\<close>, with every check of their constructors.
    \<open>Lifecycle_Plan\<close>: operations, the stable dependency order and the clean-up
    (\<open>compilation/lifecycle.py\<close>); the locale \<open>ordered_plan\<close> is the contract of a plan that orders
    operations by their dependencies. \<open>Dut_Render\<close>: \<open>compilation/dut.py\<close>; \<open>Compile_Report\<close>:
    \<open>compilation/report.py\<close>.
  \<^item> \<open>Demo_Topology\<close>: a small intent that the witnesses share.

  \<^bold>\<open>Churn, gates and utilities.\<close>

  \<^item> \<open>Churn_Geometry\<close>, \<open>Churn_Runner\<close>: \<open>abstractions/churn\<close>, selection and verification, and the
    bounded runner. \<open>Step_Params\<close>, \<open>Churn_Session\<close>, \<open>Churn_Attribute\<close>, \<open>Churn_Route\<close>,
    \<open>Churn_Workloads\<close>: the scenarios and their step parameters; the locale \<open>step_codec\<close> is the
    contract of a conversion and its reading, interpreted by three families.
  \<^item> \<open>Gates\<close>: \<open>utils/gate_control.py\<close>, \<open>upper_bound_gate.py\<close>, \<open>policy_evaluation.py\<close>.
    \<open>Policy_Generator\<close>: \<open>policy_generator/\<close>. \<open>Sweep_Utils\<close>: \<open>utils/characterization.py\<close> and
    \<open>flap_timing_utils.py\<close>.

  \<^bold>\<open>State and effects.\<close> Objects are records passed and returned; the aggregator of results is a
  list, and a retry that rewrites an earlier result updates its entry. Validators and binding steps,
  which append to a list of issues in the source, return the issues they append, in order. Whatever
  lies outside the repository (the runner of a configuration, participants, the chassis client, the
  churn action, clocks, the event loop) is a record of operations over an arbitrary world \<open>'w\<close>, and
  nothing is assumed of it, except in the round trip of the IXIA baseline, whose three named laws
  (\<open>save_law\<close>, \<open>load_law\<close>, \<open>remove_law\<close>) say what saving, loading and removing a file on the
  chassis do, and in the round trips of step parameters, whose texts of numbers read back. A deadline
  (\<open>asyncio.timeout\<close>, \<open>wait_for\<close>) is an answer of the world: it either expired or not, and the
  cancellation it causes is an outcome of an awaited operation.

  \<^bold>\<open>What the properties show.\<close> For the runner: a run that exits with success executed and passed
  everything that was asked for, no cell of a configuration is lost when its lifecycle ends early,
  no genuine failure is masked, retries are bounded. For baselines: the frame discipline is an
  invariant of all reachable states, restoration reaches every participant, a failed restoration
  blocks later captures, a capture is all or nothing, and the chassis configuration comes back. For
  topologies: an accepted intent splits its peers into adjacent windows and has formulas that stay
  inside their networks; a bound topology has addresses, ports and AS numbers that agree and are not
  shared; a child announces its parent's routes; both sides of a plan face each other, so the plan
  is accepted; the lifecycle runs in dependency order and its clean-up in the reverse. For routes and
  churn: the prefix sequences enumerate exactly the allowed candidates, the two implementations of
  the prefix arithmetic agree, and a churn run that returns did all its cycles and recovered. For the
  gates: each verdict holds exactly under its stated condition. A few properties record concrete
  runs in which the code does not do what its comments say.

  \<^bold>\<open>Bounds and termination.\<close> Loops are structural recursion or have a termination proof. The
  retry loops count down their limit. \<open>restore_all\<close> ends because each round pops a frame. The
  fixed-point search of \<open>topology_prefix_at\<close> has the source's own bound of
  \<open>len(excluded) + 2\<close> rounds, which is proved to be enough. The loop of a periodic task may run
  forever, so \<open>task_loop\<close> has fuel, and its property states how much is enough once the clock moves
  or the stop event is set. The dependency order takes one operation per round from the sorted heap.

  \<^bold>\<open>Not modelled.\<close> Logging, wall-clock formatting, notes and causes of exceptions, the run-time
  part of most error messages, and floating-point rounding (seconds and measurements are
  rationals). Test configurations, catalogued topologies, playbook and step definitions are tables.
  Drivers, IXIA and OTG adapters, health checks, the full-featured \<open>libs/taac_runner.py\<close> and
  packaging are I/O on code outside the repository: without it their handlers are sequences of
  opaque calls, of which no theorem would say more than the source does. The legacy compiler and the
  renderers write the configuration texts and vendor objects of a plan whose formats are defined
  outside the repository.
\<close>

end
